(* ===== verification/Prelude.thy ===== *)
theory Prelude
  imports Main
begin

text \<open>
  What every component of the model shares: JavaScript's errors as values, its objects as
  insertion-ordered association lists (\<open>Object.keys\<close>, \<open>Object.entries\<close>, property reads and
  writes), its array reads and \<open>findIndex\<close>, and the lemmas and collections the component
  theories use. A read of a missing property or index is \<open>None\<close>, JavaScript's \<open>undefined\<close>.
\<close>

section \<open>Errors as values\<close>

text \<open>
  \<open>TypeError\<close> is what the engine raises on a property read of \<open>undefined\<close>, \<open>Thrown\<close> what the
  code throws itself, \<open>Rejected\<close> the rejection of a call the code awaits (a transaction that
  reverts, a task that fails), \<open>Exited n\<close> the end of the process by \<open>exit(n)\<close>.
\<close>

datatype js_error = TypeError | Thrown string | Rejected string | Exited int

type_synonym 'a result = "js_error + 'a"

definition bindR :: "'a result \<Rightarrow> ('a \<Rightarrow> 'b result) \<Rightarrow> 'b result" where
  "bindR m f = (case m of Inl e \<Rightarrow> Inl e | Inr x \<Rightarrow> f x)"

lemma bindR_simps [simp]:
  "bindR (Inl e) f = Inl e"
  "bindR (Inr x) f = f x"
  by (simp_all add: bindR_def)

lemma bindR_Inr_iff: "bindR m f = Inr y \<longleftrightarrow> (\<exists>x. m = Inr x \<and> f x = Inr y)"
  by (cases m) auto

lemma bindR_Inl_iff: "bindR m f = Inl e \<longleftrightarrow> m = Inl e \<or> (\<exists>x. m = Inr x \<and> f x = Inl e)"
  by (cases m) auto

lemma bindR_total: "\<exists>x. m = Inr x \<Longrightarrow> (\<And>x. \<exists>y. f x = Inr y) \<Longrightarrow> \<exists>y. bindR m f = Inr y"
  by auto

lemma bindR_assoc: "bindR (bindR m f) g = bindR m (\<lambda>x. bindR (f x) g)"
  by (cases m) auto

text \<open>Reading a property off a value that may be \<open>undefined\<close>: a \<open>TypeError\<close> when it is.\<close>

definition deref :: "'a option \<Rightarrow> 'a result" where
  "deref x = (case x of None \<Rightarrow> Inl TypeError | Some v \<Rightarrow> Inr v)"

lemma deref_simps [simp]:
  "deref None = Inl TypeError"
  "deref (Some v) = Inr v"
  by (simp_all add: deref_def)

lemma deref_Inr_iff [simp]: "deref x = Inr v \<longleftrightarrow> x = Some v"
  by (cases x) auto

section \<open>Objects and arrays\<close>

text \<open>An object with string keys: its own enumerable properties in insertion order.\<close>

type_synonym 'v obj = "(string \<times> 'v) list"

definition obj_keys :: "'v obj \<Rightarrow> string list" where
  "obj_keys ob = map fst ob"

definition obj_get :: "'v obj \<Rightarrow> string \<Rightarrow> 'v option" where
  "obj_get ob k = map_of ob k"

text \<open>\<open>o[k] = v\<close>: an existing property keeps its place, a new one goes to the end.\<close>

fun obj_set :: "string \<Rightarrow> 'v \<Rightarrow> 'v obj \<Rightarrow> 'v obj" where
  "obj_set k v [] = [(k, v)]"
| "obj_set k v ((k', v') # ob) = (if k' = k then (k, v) # ob else (k', v') # obj_set k v ob)"

lemma obj_get_set [simp]: "obj_get (obj_set k v ob) k' = (if k' = k then Some v else obj_get ob k')"
  by (induction k v ob rule: obj_set.induct) (auto simp: obj_get_def)

lemma obj_keys_set: "obj_keys (obj_set k v ob) = (if k \<in> set (obj_keys ob) then obj_keys ob else obj_keys ob @ [k])"
  by (induction k v ob rule: obj_set.induct) (auto simp: obj_keys_def)

lemma distinct_obj_set [simp]: "distinct (obj_keys ob) \<Longrightarrow> distinct (obj_keys (obj_set k v ob))"
  by (simp add: obj_keys_set)

text \<open>\<open>xs[i]\<close>: \<open>undefined\<close> out of range, for a negative index too.\<close>

definition js_at :: "'a list \<Rightarrow> int \<Rightarrow> 'a option" where
  "js_at xs i = (if 0 \<le> i \<and> i < int (length xs) then Some (xs ! nat i) else None)"

text \<open>\<open>xs.findIndex(p)\<close>: the first index where \<open>p\<close> holds, -1 when there is none.\<close>

fun findIndex_from :: "int \<Rightarrow> ('a \<Rightarrow> bool) \<Rightarrow> 'a list \<Rightarrow> int" where
  "findIndex_from i p [] = -1"
| "findIndex_from i p (x # xs) = (if p x then i else findIndex_from (i + 1) p xs)"

definition findIndex :: "('a \<Rightarrow> bool) \<Rightarrow> 'a list \<Rightarrow> int" where
  "findIndex p xs = findIndex_from 0 p xs"

lemma findIndex_from_entries:
  "0 \<le> i \<Longrightarrow>
   (case map_of ob k of
      None \<Rightarrow> findIndex_from i (\<lambda>v. v = k) (map fst ob) = -1
    | Some v \<Rightarrow> i \<le> findIndex_from i (\<lambda>v. v = k) (map fst ob)
        \<and> findIndex_from i (\<lambda>v. v = k) (map fst ob) - i < int (length ob)
        \<and> ob ! nat (findIndex_from i (\<lambda>v. v = k) (map fst ob) - i) = (k, v))"
proof (induction ob arbitrary: i)
  case Nil
  then show ?case by simp
next
  case (Cons e ob)
  let ?f = "findIndex_from (i + 1) (\<lambda>v. v = k) (map fst ob)"
  show ?case
  proof (cases "fst e = k")
    case True
    then show ?thesis by (cases e) auto
  next
    case False
    have IH: "case map_of ob k of None \<Rightarrow> ?f = -1
      | Some v \<Rightarrow> i + 1 \<le> ?f \<and> ?f - (i + 1) < int (length ob) \<and> ob ! nat (?f - (i + 1)) = (k, v)"
      using Cons.IH [of "i + 1"] Cons.prems by simp
    show ?thesis
    proof (cases "map_of ob k")
      case None
      with IH False show ?thesis by (cases e) auto
    next
      case (Some v)
      with IH have f: "i + 1 \<le> ?f" "?f - (i + 1) < int (length ob)" "ob ! nat (?f - (i + 1)) = (k, v)"
        by auto
      then have "nat (?f - i) = Suc (nat (?f - (i + 1)))" by linarith
      with f False Some show ?thesis by (cases e) auto
    qed
  qed
qed

text \<open>
  The code's lookup idiom: find the index of a key in \<open>Object.keys(o)\<close>, then read
  \<open>Object.entries(o)\<close> there. It is the property read, and \<open>undefined\<close> for a missing key.
\<close>

lemma entries_at_findIndex:
  "js_at ob (findIndex (\<lambda>v. v = k) (obj_keys ob)) = map_option (Pair k) (obj_get ob k)"
  using findIndex_from_entries [of 0 k ob]
  by (cases "map_of ob k") (auto simp: js_at_def findIndex_def obj_keys_def obj_get_def)

end
