(* ===== verification/MiscUtils.thy ===== *)
theory MiscUtils
  imports Prelude
begin

text \<open>
  The pure helpers of \<^verbatim>\<open>helpers/misc-utils.ts\<close>: splitting an array into chunks, filtering and
  omitting keys of an object, and the address test the deployment scripts guard with.
\<close>

section \<open>Chunks\<close>

text \<open>
  \<open>arr.slice(i, j)\<close> for \<open>0 \<le> i\<close> and \<open>0 \<le> j\<close>. \<open>chunk\<close> is the code's \<open>reduce\<close>: at each index
  it appends a slice when the index is a multiple of the chunk size. With chunk size 0 the
  remainder is \<open>NaN\<close>, whose negation is true, so every index appends an empty slice.
\<close>

definition slice :: "nat \<Rightarrow> nat \<Rightarrow> 'a list \<Rightarrow> 'a list" where
  "slice i j xs = take (j - i) (drop i xs)"

definition chunk :: "'a list \<Rightarrow> nat \<Rightarrow> 'a list list" where
  "chunk arr chunkSize =
     foldl (\<lambda>prevVal currIndx.
         if chunkSize = 0 \<or> currIndx mod chunkSize = 0
         then prevVal @ [slice currIndx (currIndx + chunkSize) arr]
         else prevVal)
       [] [0..<length arr]"

lemma chunk_step: "0 < n \<Longrightarrow>
  foldl (\<lambda>p i. if n = 0 \<or> i mod n = 0 then p @ [slice i (i + n) arr] else p) ys [0..<m]
  = ys @ map (\<lambda>k. slice (k * n) (k * n + n) arr) [0..<(m + n - 1) div n]"
proof (induction m)
  case 0
  then show ?case by simp
next
  case (Suc m)
  obtain q r where m: "m = q * n + r" and r: "r < n"
    using Suc.prems by (metis div_mult_mod_eq mod_less_divisor)
  show ?case
  proof (cases "r = 0")
    case True
    have "(m + n - 1) div n = q"
      using Suc.prems True m by (intro div_nat_eqI) (auto simp: algebra_simps)
    moreover have "(Suc m + n - 1) div n = Suc q"
      using Suc.prems True m by (intro div_nat_eqI) (auto simp: algebra_simps)
    ultimately show ?thesis using Suc True m by simp
  next
    case False
    have "(m + n - 1) div n = Suc q"
      using r False m by (intro div_nat_eqI) (auto simp: algebra_simps)
    moreover have "(Suc m + n - 1) div n = Suc q"
      using r False m by (intro div_nat_eqI) (auto simp: algebra_simps)
    ultimately show ?thesis using Suc r False m by simp
  qed
qed


lemma chunk_eq:
  "0 < n \<Longrightarrow> chunk arr n = map (\<lambda>k. slice (k * n) (k * n + n) arr) [0..<(length arr + n - 1) div n]"
  using chunk_step [of n arr "[]" "length arr"] by (simp add: chunk_def)

lemma length_chunk: "0 < n \<Longrightarrow> length (chunk arr n) = (length arr + n - 1) div n"
  by (simp add: chunk_eq)

lemma concat_slices: "concat (map (\<lambda>k. slice (k * n) (k * n + n) arr) [0..<m]) = take (m * n) arr"
  by (induction m) (simp_all add: slice_def take_add [symmetric] add.commute)

lemma concat_chunk: "0 < n \<Longrightarrow> concat (chunk arr n) = arr"
proof -
  assume n: "0 < n"
  have "length arr \<le> (length arr + n - 1) div n * n"
  proof -
    have "length arr + n - 1 < Suc ((length arr + n - 1) div n) * n"
      using n by (metis dividend_less_div_times mult.commute mult_Suc add.commute)
    then show ?thesis by simp
  qed
  with n show ?thesis by (simp add: chunk_eq concat_slices)
qed

lemma chunk_index_bound: "0 < n \<Longrightarrow> k < length (chunk arr n) \<Longrightarrow> k * n < length arr"
proof -
  assume n: "0 < n" and "k < length (chunk arr n)"
  then have "k + 1 \<le> (length arr + n - 1) div n" by (simp add: length_chunk)
  then have "(k + 1) * n \<le> length arr + n - 1"
    using n by (metis div_times_less_eq_dividend le_trans mult_le_mono1)
  with n show ?thesis by (simp add: algebra_simps)
qed

lemma nth_chunk:
  "0 < n \<Longrightarrow> k < length (chunk arr n) \<Longrightarrow> chunk arr n ! k = take n (drop (k * n) arr)"
  by (simp add: chunk_eq slice_def)

text \<open>The element \<open>j\<close> of chunk \<open>k\<close> is the element \<open>k * n + j\<close> of the array.\<close>

lemma nth_nth_chunk:
  assumes "0 < n" "k < length (chunk arr n)" "j < length (chunk arr n ! k)"
  shows "k * n + j < length arr \<and> chunk arr n ! k ! j = arr ! (k * n + j)"
  using assms chunk_index_bound [of n k arr] by (auto simp: nth_chunk)

lemma chunk_sizes:
  assumes "0 < n" "k < length (chunk arr n)"
  shows "0 < length (chunk arr n ! k) \<and> length (chunk arr n ! k) \<le> n
    \<and> (Suc k < length (chunk arr n) \<longrightarrow> length (chunk arr n ! k) = n)"
  using assms chunk_index_bound [of n k arr] chunk_index_bound [of n "Suc k" arr]
  by (auto simp: nth_chunk)

lemma chunk_zero: "chunk arr 0 = replicate (length arr) []"
proof -
  have "foldl (\<lambda>p i. if (0::nat) = 0 \<or> i mod 0 = 0 then p @ [slice i (i + 0) arr] else p) ys [0..<m]
    = ys @ replicate m []" for ys m
    by (induction m) (simp_all add: slice_def replicate_append_same)
  then show ?thesis by (simp add: chunk_def)
qed

section \<open>Filtering and omitting keys\<close>

text \<open>
  Both are a \<open>reduce\<close> over \<open>Object.keys\<close> that copies the property of each kept key; a key taken
  from the object itself always has one.
\<close>

definition copy_prop :: "'v obj \<Rightarrow> 'v obj \<Rightarrow> string \<Rightarrow> 'v obj" where
  "copy_prop raw acc key = (case obj_get raw key of Some v \<Rightarrow> obj_set key v acc | None \<Rightarrow> acc)"

definition filterMapBy :: "'v obj \<Rightarrow> (string \<Rightarrow> bool) \<Rightarrow> 'v obj" where
  "filterMapBy raw fn = foldl (copy_prop raw) [] (filter fn (obj_keys raw))"

definition omit :: "'v obj \<Rightarrow> string list \<Rightarrow> 'v obj" where
  "omit ob keys = foldl (\<lambda>acc curr. if curr \<in> set keys then acc else copy_prop ob acc curr) [] (obj_keys ob)"

lemma obj_set_fresh: "k \<notin> set (obj_keys ob) \<Longrightarrow> obj_set k v ob = ob @ [(k, v)]"
  by (induction k v ob rule: obj_set.induct) (auto simp: obj_keys_def)

lemma fold_copy_prop:
  assumes "distinct (obj_keys (acc @ filter (\<lambda>e. P (fst e)) es))" "\<forall>e \<in> set es. obj_get raw (fst e) = Some (snd e)"
  shows "foldl (copy_prop raw) acc (filter P (map fst es)) = acc @ filter (\<lambda>e. P (fst e)) es"
  using assms
proof (induction es arbitrary: acc)
  case Nil
  then show ?case by simp
next
  case (Cons e es)
  show ?case
  proof (cases "P (fst e)")
    case True
    with Cons.prems have "copy_prop raw acc (fst e) = acc @ [e]"
      by (cases e) (auto simp: copy_prop_def obj_set_fresh obj_keys_def)
    with True Cons show ?thesis by simp
  next
    case False
    with Cons show ?thesis by simp
  qed
qed

lemma obj_get_entry: "distinct (obj_keys ob) \<Longrightarrow> e \<in> set ob \<Longrightarrow> obj_get ob (fst e) = Some (snd e)"
  by (cases e) (simp add: obj_get_def obj_keys_def)

lemma filterMapBy_eq:
  "distinct (obj_keys raw) \<Longrightarrow> filterMapBy raw fn = filter (\<lambda>e. fn (fst e)) raw"
  unfolding filterMapBy_def obj_keys_def
  by (subst fold_copy_prop) (auto simp: obj_keys_def distinct_map_filter obj_get_entry)

lemma foldl_skip: "foldl (\<lambda>acc x. if P x then acc else f acc x) a xs = foldl f a (filter (\<lambda>x. \<not> P x) xs)"
  by (induction xs arbitrary: a) auto

lemma omit_eq:
  "distinct (obj_keys ob) \<Longrightarrow> omit ob keys = filter (\<lambda>e. fst e \<notin> set keys) ob"
  using filterMapBy_eq [of ob "\<lambda>k. k \<notin> set keys"] by (simp add: omit_def foldl_skip filterMapBy_def)

lemma obj_get_filterMapBy:
  "distinct (obj_keys raw) \<Longrightarrow> obj_get (filterMapBy raw fn) k = (if fn k then obj_get raw k else None)"
proof -
  have "map_of (filter (\<lambda>e. fn (fst e)) raw) k = (if fn k then map_of raw k else None)"
    by (induction raw) auto
  then show "distinct (obj_keys raw) \<Longrightarrow> ?thesis" by (simp add: filterMapBy_eq obj_get_def)
qed

section \<open>The address test\<close>

text \<open>
  \<open>isAddress\<close> (ethers) and \<open>isZeroAddress\<close> (ethereumjs-util) are parameters; an address argument
  may be \<open>null\<close> or \<open>undefined\<close> (\<open>None\<close>), and the empty string is falsy too.
\<close>

definition truthy_string :: "string option \<Rightarrow> bool" where
  "truthy_string a = (case a of None \<Rightarrow> False | Some s \<Rightarrow> s \<noteq> [])"

definition notFalsyOrZeroAddress ::
    "(string \<Rightarrow> bool) \<Rightarrow> (string \<Rightarrow> bool) \<Rightarrow> string option \<Rightarrow> bool" where
  "notFalsyOrZeroAddress isAddress isZeroAddress address =
     (case address of
        None \<Rightarrow> False
      | Some a \<Rightarrow> if a = [] then False else isAddress a \<and> \<not> isZeroAddress a)"

end
