(* ===== verification/ConfigTypes.thy ===== *)
theory ConfigTypes
  imports MiscUtils
begin

text \<open>
  The types of \<^verbatim>\<open>helpers/types.ts\<close> the modelled code uses and the two selectors of
  \<^verbatim>\<open>helpers/contracts-helpers.ts\<close> that pick a parameter for a network or a pool. A string enum is
  its runtime strings; networks reach the code as the string \<open>DRE.network.name\<close>, so the selectors
  take strings, and a parameter per network is an object keyed by network names.
\<close>

section \<open>Enums\<close>

type_synonym tEthereumAddress = string
type_synonym eContractid = string
type_synonym eNetwork = string

definition eEthereumNetwork :: "string list" where
  "eEthereumNetwork =
     [''buidlerevm'', ''kovan'', ''ropsten'', ''main'', ''coverage'', ''hardhat'', ''geth'',
      ''localhost'', ''tenderly'', ''goerli'']"

definition eFantomNetwork :: "string list" where
  "eFantomNetwork = [''ftm'', ''ftm_test'', ''tenderlyFTM'']"

datatype SturdyPools = proto | fantom

datatype RateMode = RateNone | Stable | Variable

text \<open>The runtime strings of the enum; the code compares rate modes as strings.\<close>

fun rate_mode_value :: "RateMode \<Rightarrow> string" where
  "rate_mode_value RateNone = ''0''"
| "rate_mode_value Stable = ''1''"
| "rate_mode_value Variable = ''2''"

section \<open>Reserve parameters\<close>

text \<open>
  \<open>IReserveParams\<close> extends two interfaces; records have one parent, so the collateral parameters
  here extend the borrow parameters and \<open>IReserveParams\<close> extends both. The field \<open>name\<close> of a
  strategy is \<open>strategy_name\<close>.
\<close>

record IInterestRateStrategyParams =
  strategy_name :: string
  optimalUtilizationRate :: string
  baseVariableBorrowRate :: string
  variableRateSlope1 :: string
  variableRateSlope2 :: string
  stableRateSlope1 :: string
  stableRateSlope2 :: string
  capacity :: string

record IReserveBorrowParams =
  borrowingEnabled :: bool
  stableBorrowRateEnabled :: bool
  reserveDecimals :: string

record IReserveCollateralParams = IReserveBorrowParams +
  baseLTVAsCollateral :: string
  liquidationThreshold :: string
  liquidationBonus :: string
  collateralEnabled :: bool

record IReserveParams = IReserveCollateralParams +
  aTokenImpl :: eContractid
  reserveFactor :: string
  emissionPerSecond :: string
  strategy :: IInterestRateStrategyParams

section \<open>Selecting a parameter\<close>

text \<open>
  \<open>FORK\<close> is \<open>process.env.FORK\<close>: unset (\<open>None\<close>) or a string, falsy when empty. The result
  is \<open>None\<close> where the code returns \<open>undefined\<close>: a network the object has no entry for, or a name
  the switch does not know.
\<close>

definition getParamPerNetwork :: "string option \<Rightarrow> 'a obj \<Rightarrow> string \<Rightarrow> 'a option" where
  "getParamPerNetwork FORK param network =
     (if truthy_string FORK then obj_get param (case FORK of Some f \<Rightarrow> f | None \<Rightarrow> [])
      else if network = ''coverage'' then obj_get param ''coverage''
      else if network = ''buidlerevm'' then obj_get param ''buidlerevm''
      else if network = ''hardhat'' then obj_get param ''buidlerevm''
      else if network = ''geth'' then obj_get param ''buidlerevm''
      else if network = ''localhost'' then obj_get param ''buidlerevm''
      else if network = ''kovan'' then obj_get param ''kovan''
      else if network = ''ropsten'' then obj_get param ''ropsten''
      else if network = ''main'' then obj_get param ''main''
      else if network = ''tenderly'' then obj_get param ''tenderly''
      else if network = ''goerli'' then obj_get param ''goerli''
      else if network = ''ftm'' then obj_get param ''ftm''
      else if network = ''tenderlyFTM'' then obj_get param ''tenderlyFTM''
      else if network = ''ftm_test'' then obj_get param ''ftm_test''
      else None)"

record 'a iParamsPerPool =
  for_proto :: 'a
  for_fantom :: 'a

definition getParamPerPool :: "'a iParamsPerPool \<Rightarrow> SturdyPools \<Rightarrow> 'a" where
  "getParamPerPool param pool = (case pool of proto \<Rightarrow> for_proto param | fantom \<Rightarrow> for_fantom param)"

text \<open>What the switch reads for a network: its own key, and \<open>buidlerevm\<close>'s for the local chains.\<close>

definition network_key :: "string \<Rightarrow> string" where
  "network_key n = (if n \<in> {''hardhat'', ''geth'', ''localhost''} then ''buidlerevm'' else n)"

lemma getParamPerNetwork_fork:
  "f \<noteq> [] \<Longrightarrow> getParamPerNetwork (Some f) param network = obj_get param f"
  by (simp add: getParamPerNetwork_def truthy_string_def)

lemma getParamPerNetwork_member:
  "\<not> truthy_string FORK \<Longrightarrow> n \<in> set (eEthereumNetwork @ eFantomNetwork) \<Longrightarrow>
   getParamPerNetwork FORK param n = obj_get param (network_key n)"
  by (auto simp: getParamPerNetwork_def eEthereumNetwork_def eFantomNetwork_def network_key_def)

lemma getParamPerNetwork_unknown:
  "\<not> truthy_string FORK \<Longrightarrow> n \<notin> set (eEthereumNetwork @ eFantomNetwork) \<Longrightarrow>
   getParamPerNetwork FORK param n = None"
  by (auto simp: getParamPerNetwork_def eEthereumNetwork_def eFantomNetwork_def)

end
