(* ===== verification/Runtime.thy ===== *)
theory Runtime
  imports ConfigTypes
begin

text \<open>
  What the deployment scripts run on. The Hardhat runtime environment, ethers and the network
  behind them are not code of the repository: they are the fields of a record of functions over an
  abstract network state, an argument of every definition that uses them. The deployment database
  (\<open>deployed-contracts.json\<close>, opened by \<open>getDb\<close> of \<^verbatim>\<open>helpers/misc-utils.ts\<close>) is part of the state.
  An asynchronous function is a function of the whole state that returns a value or an error and
  the new state, so what a step did before a later one failed stays done. Console output is left
  out.
\<close>

section \<open>Values that reach the network\<close>

text \<open>
  \<open>VBytes32 s\<close> is \<open>formatBytes32String(s)\<close>. A contract instance is its ABI's name, its address, the
  account it is connected to (\<open>undefined\<close> when there was no signer) and, when the instance was deployed rather than attached, the sender
  of its deployment transaction: \<open>deployTransaction\<close> is absent on an attached instance.
\<close>

datatype js_val =
    VUndef
  | VStr string
  | VNum int
  | VBool bool
  | VBytes32 string
  | VArr "js_val list"
  | VObj "(string \<times> js_val) list"

record Instance =
  contract_abi :: string
  contract_address :: string
  connected_signer :: "string option"
  deployTransaction_from :: "string option"

text \<open>Passing \<open>undefined\<close> or a string.\<close>

definition opt_val :: "string option \<Rightarrow> js_val" where
  "opt_val a = (case a of None \<Rightarrow> VUndef | Some s \<Rightarrow> VStr s)"

text \<open>A library or contract artifact: the fields the code reads.\<close>

record Artifact =
  artifact_abi :: string
  artifact_bytecode :: string
  linkReferences :: "(nat \<times> nat) list obj obj"

section \<open>The state and its effects\<close>

record db_entry =
  entry_address :: string
  entry_deployer :: "string option"

type_synonym database = "db_entry obj obj"

record 'x world =
  network_state :: 'x
  deployed_contracts :: database

type_synonym ('x, 'a) io = "'x world \<Rightarrow> 'a result \<times> 'x world"

definition return_io :: "'a \<Rightarrow> ('x, 'a) io" where
  "return_io a = (\<lambda>w. (Inr a, w))"

definition throw_io :: "js_error \<Rightarrow> ('x, 'a) io" where
  "throw_io e = (\<lambda>w. (Inl e, w))"

definition lift_result :: "'a result \<Rightarrow> ('x, 'a) io" where
  "lift_result r = (\<lambda>w. (r, w))"

definition await :: "('x, 'a) io \<Rightarrow> ('a \<Rightarrow> ('x, 'b) io) \<Rightarrow> ('x, 'b) io" where
  "await m f = (\<lambda>w. case m w of (Inl e, w') \<Rightarrow> (Inl e, w') | (Inr a, w') \<Rightarrow> f a w')"

text \<open>\<open>try { m } catch (error) { h }\<close>: the handler starts in the state the failure left.\<close>

definition catch_io :: "('x, 'a) io \<Rightarrow> (js_error \<Rightarrow> ('x, 'a) io) \<Rightarrow> ('x, 'a) io" where
  "catch_io m h = (\<lambda>w. case m w of (Inl e, w') \<Rightarrow> h e w' | (Inr a, w') \<Rightarrow> (Inr a, w'))"

text \<open>A step of the network alone.\<close>

definition on_network :: "('x \<Rightarrow> 'a result \<times> 'x) \<Rightarrow> ('x, 'a) io" where
  "on_network f = (\<lambda>w. case f (network_state w) of (r, s) \<Rightarrow> (r, w\<lparr>network_state := s\<rparr>))"

text \<open>\<open>for (const x of xs) { await body(x) }\<close>\<close>

fun for_each :: "('a \<Rightarrow> ('x, unit) io) \<Rightarrow> 'a list \<Rightarrow> ('x, unit) io" where
  "for_each body [] = return_io ()"
| "for_each body (x # xs) = await (body x) (\<lambda>_. for_each body xs)"

text \<open>The same loop with the local variables it updates threaded through.\<close>

fun for_fold :: "('s \<Rightarrow> 'a \<Rightarrow> ('x, 's) io) \<Rightarrow> 's \<Rightarrow> 'a list \<Rightarrow> ('x, 's) io" where
  "for_fold body s [] = return_io s"
| "for_fold body s (x # xs) = await (body s x) (\<lambda>s'. for_fold body s' xs)"

section \<open>The runtime environment\<close>

text \<open>
  The process environment variables the scripts test, \<open>DRE.network.name\<close>, and the operations of
  \<open>DRE\<close> and ethers they await. \<open>rt_deploy\<close> is \<open>new <Factory>(libraries, signer).deploy(args)\<close> for a
  generated factory, \<open>rt_deployBytecode\<close> the deployment of a factory made by
  \<open>DRE.ethers.getContractFactory(abi, bytecode)\<close>, \<open>rt_deployByName\<close> that of one made from a name;
  \<open>rt_send\<close> sends a transaction to a contract and yields its hash, \<open>rt_wait\<close> awaits its mining,
  \<open>rt_call\<close> reads a view function; \<open>rt_run\<close> runs a Hardhat task.
\<close>

record verify_params =
  param_address :: string
  param_libraries :: "string option"
  param_constructorArgs :: string
  param_relatedSources :: bool

record 'x runtime =
  network_name :: string
  env_FORK :: "string option"
  env_TENDERLY :: "string option"
  env_DEFENDER :: "string option"
  env_ETHERSCAN_KEY :: "string option"
  rt_getSigners :: "'x \<Rightarrow> string list result \<times> 'x"
  rt_getSigner :: "string \<Rightarrow> 'x \<Rightarrow> string result \<times> 'x"
  rt_getBalance :: "string \<Rightarrow> 'x \<Rightarrow> int result \<times> 'x"
  rt_impersonate :: "string \<Rightarrow> 'x \<Rightarrow> unit result \<times> 'x"
  rt_deploy :: "string \<Rightarrow> string obj \<Rightarrow> string option \<Rightarrow> js_val list \<Rightarrow> 'x \<Rightarrow> Instance result \<times> 'x"
  rt_deployBytecode :: "string \<Rightarrow> string \<Rightarrow> string option \<Rightarrow> 'x \<Rightarrow> Instance result \<times> 'x"
  rt_deployByName :: "string \<Rightarrow> string option \<Rightarrow> js_val list \<Rightarrow> 'x \<Rightarrow> Instance result \<times> 'x"
  rt_buidlerReadArtifact :: "string \<Rightarrow> 'x \<Rightarrow> Artifact result \<times> 'x"
  rt_readArtifact :: "string \<Rightarrow> 'x \<Rightarrow> Artifact result \<times> 'x"
  rt_send :: "Instance \<Rightarrow> string \<Rightarrow> js_val list \<Rightarrow> 'x \<Rightarrow> string result \<times> 'x"
  rt_wait :: "string \<Rightarrow> 'x \<Rightarrow> unit result \<times> 'x"
  rt_call :: "Instance \<Rightarrow> string \<Rightarrow> js_val list \<Rightarrow> 'x \<Rightarrow> js_val result \<times> 'x"
  rt_tenderlyVerify :: "string \<Rightarrow> string \<Rightarrow> 'x \<Rightarrow> unit result \<times> 'x"
  rt_tempFile :: "js_val list \<Rightarrow> 'x \<Rightarrow> string result \<times> 'x"
  rt_cleanup :: "string \<Rightarrow> 'x \<Rightarrow> 'x"
  rt_run :: "string \<Rightarrow> verify_params \<Rightarrow> 'x \<Rightarrow> unit result \<times> 'x"

text \<open>\<open>await waitForTx(await contract.method(args))\<close> of \<^verbatim>\<open>helpers/misc-utils.ts\<close>.\<close>

definition send :: "'x runtime \<Rightarrow> Instance \<Rightarrow> string \<Rightarrow> js_val list \<Rightarrow> ('x, string) io" where
  "send rt c meth args = on_network (rt_send rt c meth args)"

definition waitForTx :: "'x runtime \<Rightarrow> string \<Rightarrow> ('x, unit) io" where
  "waitForTx rt tx = on_network (rt_wait rt tx)"

definition sendAndWait :: "'x runtime \<Rightarrow> Instance \<Rightarrow> string \<Rightarrow> js_val list \<Rightarrow> ('x, unit) io" where
  "sendAndWait rt c meth args = await (send rt c meth args) (waitForTx rt)"

definition call :: "'x runtime \<Rightarrow> Instance \<Rightarrow> string \<Rightarrow> js_val list \<Rightarrow> ('x, js_val) io" where
  "call rt c meth args = on_network (rt_call rt c meth args)"

text \<open>A view that returns an address.\<close>

definition as_string :: "js_val \<Rightarrow> string" where
  "as_string v = (case v of VStr s \<Rightarrow> s | _ \<Rightarrow> [])"

definition callAddress :: "'x runtime \<Rightarrow> Instance \<Rightarrow> string \<Rightarrow> js_val list \<Rightarrow> ('x, string) io" where
  "callAddress rt c meth args = await (call rt c meth args) (\<lambda>v. return_io (as_string v))"

text \<open>\<open>new <Factory>(signer).deploy(args)\<close>, and \<open><Factory>.connect(address, signer)\<close>.\<close>

definition deploy :: "'x runtime \<Rightarrow> string \<Rightarrow> string option \<Rightarrow> js_val list \<Rightarrow> ('x, Instance) io" where
  "deploy rt factory signer args = on_network (rt_deploy rt factory [] signer args)"

definition deployLinked :: "'x runtime \<Rightarrow> string \<Rightarrow> string obj \<Rightarrow> string option \<Rightarrow> js_val list \<Rightarrow> ('x, Instance) io" where
  "deployLinked rt factory libraries signer args = on_network (rt_deploy rt factory libraries signer args)"

definition attach :: "string \<Rightarrow> string \<Rightarrow> string option \<Rightarrow> Instance" where
  "attach factory addr signer =
     \<lparr>contract_abi = factory, contract_address = addr, connected_signer = signer, deployTransaction_from = None\<rparr>"

section \<open>The deployment database\<close>

text \<open>
  \<open>getDb().set(`${id}.${network}`, entry).write()\<close> and
  \<open>getDb().get(`${id}.${network}`).value()\<close>: the adapter is synchronous and every \<open>getDb\<close> reads the
  file anew. The identifiers used have no dots, so a path has two components.
\<close>

definition db_lookup :: "database \<Rightarrow> string \<Rightarrow> string \<Rightarrow> db_entry option" where
  "db_lookup db cid network = (case obj_get db cid of None \<Rightarrow> None | Some nets \<Rightarrow> obj_get nets network)"

definition db_update :: "string \<Rightarrow> string \<Rightarrow> db_entry \<Rightarrow> database \<Rightarrow> database" where
  "db_update cid network e db =
     obj_set cid (obj_set network e (case obj_get db cid of None \<Rightarrow> [] | Some nets \<Rightarrow> nets)) db"

definition db_get :: "'x runtime \<Rightarrow> string \<Rightarrow> ('x, db_entry option) io" where
  "db_get rt cid = (\<lambda>w. (Inr (db_lookup (deployed_contracts w) cid (network_name rt)), w))"

definition db_set :: "'x runtime \<Rightarrow> string \<Rightarrow> db_entry \<Rightarrow> ('x, unit) io" where
  "db_set rt cid e =
     (\<lambda>w. (Inr (), w\<lparr>deployed_contracts := db_update cid (network_name rt) e (deployed_contracts w)\<rparr>))"

lemma db_lookup_update [simp]:
  "db_lookup (db_update cid n e db) cid' n' = (if cid' = cid \<and> n' = n then Some e else db_lookup db cid' n')"
  by (auto simp: db_lookup_def db_update_def obj_get_def [of "[]"] split: option.splits)

section \<open>Reasoning about effects\<close>

lemma await_eq_Inr:
  "await m f w = (Inr b, w'') \<longleftrightarrow> (\<exists>a w'. m w = (Inr a, w') \<and> f a w' = (Inr b, w''))"
  by (auto simp: await_def split: prod.splits sum.splits)

lemma await_run [simp]: "m w = (Inr a, w') \<Longrightarrow> await m f w = f a w'"
  by (simp add: await_def)

lemma await_fail [simp]: "m w = (Inl e, w') \<Longrightarrow> await m f w = (Inl e, w')"
  by (simp add: await_def)

lemma await_assoc: "await (await m f) g = await m (\<lambda>a. await (f a) g)"
  by (rule ext) (auto simp: await_def split: prod.splits sum.splits)

lemma return_io_eq [simp]: "return_io a w = (r, w') \<longleftrightarrow> r = Inr a \<and> w' = w"
  by (auto simp: return_io_def)

lemma throw_io_eq [simp]: "throw_io e w = (r, w') \<longleftrightarrow> r = Inl e \<and> w' = w"
  by (auto simp: throw_io_def)

lemma await_return [simp]: "await (return_io a) f = f a"
  by (rule ext) (simp add: await_def return_io_def)

lemma await_throw [simp]: "await (throw_io e) f = throw_io e"
  by (rule ext) (simp add: await_def throw_io_def)

lemma on_network_db: "on_network f w = (r, w') \<Longrightarrow> deployed_contracts w' = deployed_contracts w"
  by (auto simp: on_network_def split: prod.splits)

text \<open>
  \<open>writes rt S m\<close>: whatever happens in \<open>m\<close>, failures included, the only database entries it changes
  are those of the identifiers in \<open>S\<close> on the current network.
\<close>

definition writes :: "'x runtime \<Rightarrow> string set \<Rightarrow> ('x, 'a) io \<Rightarrow> bool" where
  "writes rt S m \<longleftrightarrow>
     (\<forall>w cid n. cid \<notin> S \<or> n \<noteq> network_name rt \<longrightarrow>
        db_lookup (deployed_contracts (snd (m w))) cid n = db_lookup (deployed_contracts w) cid n)"

named_theorems frame_rules \<open>the database entries an operation writes\<close>

lemma writesD:
  "writes rt S m \<Longrightarrow> m w = (r, w') \<Longrightarrow> cid \<notin> S \<or> n \<noteq> network_name rt \<Longrightarrow>
   db_lookup (deployed_contracts w') cid n = db_lookup (deployed_contracts w) cid n"
  by (metis writes_def snd_conv)

lemma writes_mono: "writes rt S m \<Longrightarrow> S \<subseteq> T \<Longrightarrow> writes rt T m"
  unfolding writes_def by blast

lemma writes_await [frame_rules]: "writes rt S m \<Longrightarrow> (\<And>a. writes rt S (f a)) \<Longrightarrow> writes rt S (await m f)"
  unfolding writes_def await_def by (auto split: prod.splits sum.splits) (metis snd_conv)+

lemma writes_return [frame_rules]: "writes rt S (return_io a)"
  by (simp add: writes_def return_io_def)

lemma writes_throw [frame_rules]: "writes rt S (throw_io e)"
  by (simp add: writes_def throw_io_def)

lemma writes_lift [frame_rules]: "writes rt S (lift_result r)"
  by (simp add: writes_def lift_result_def)

lemma writes_network [frame_rules]: "writes rt S (on_network f)"
  by (auto simp: writes_def on_network_def split: prod.splits)

lemma writes_db_get [frame_rules]: "writes rt S (db_get rt cid)"
  by (simp add: writes_def db_get_def)

lemma writes_db_set [frame_rules]: "cid \<in> S \<Longrightarrow> writes rt S (db_set rt cid e)"
  by (auto simp: writes_def db_set_def)

lemma writes_catch [frame_rules]:
  "writes rt S m \<Longrightarrow> (\<And>e. writes rt S (h e)) \<Longrightarrow> writes rt S (catch_io m h)"
  unfolding writes_def catch_io_def by (auto split: prod.splits sum.splits) (metis snd_conv)+

lemma writes_if [frame_rules]:
  "(b \<Longrightarrow> writes rt S m) \<Longrightarrow> (\<not> b \<Longrightarrow> writes rt S m') \<Longrightarrow> writes rt S (if b then m else m')"
  by simp

lemma writes_case_option [frame_rules]:
  "(z = None \<Longrightarrow> writes rt S m) \<Longrightarrow> (\<And>a. z = Some a \<Longrightarrow> writes rt S (f a)) \<Longrightarrow>
   writes rt S (case z of None \<Rightarrow> m | Some a \<Rightarrow> f a)"
  by (cases z) auto

lemma writes_for_each [frame_rules]:
  "(\<And>x. x \<in> set xs \<Longrightarrow> writes rt S (body x)) \<Longrightarrow> writes rt S (for_each body xs)"
  by (induction xs) (auto intro!: frame_rules)

lemma writes_for_fold [frame_rules]:
  "(\<And>s x. x \<in> set xs \<Longrightarrow> writes rt S (body s x)) \<Longrightarrow> writes rt S (for_fold body s xs)"
  by (induction xs arbitrary: s) (auto intro!: frame_rules)

lemma writes_operations [frame_rules]:
  "writes rt S (send rt c meth args)" "writes rt S (waitForTx rt tx)"
  "writes rt S (sendAndWait rt c meth args)" "writes rt S (call rt c meth args)"
  "writes rt S (callAddress rt c meth args)" "writes rt S (deploy rt factory signer args)"
  "writes rt S (deployLinked rt factory libraries signer args)"
  by (auto simp: send_def waitForTx_def sendAndWait_def call_def callAddress_def deploy_def
      deployLinked_def intro!: frame_rules)

end
