(* ===== verification/Etherscan.thy ===== *)
theory Etherscan
  imports Runtime
begin

text \<open>
  \<^verbatim>\<open>helpers/etherscan-verification.ts\<close>: source verification of a deployed contract by a Hardhat
  task, retried a bounded number of attempts. \<open>delay\<close> only waits and is left out. The cleanup function
  of the temporary file is called without being awaited, so a call of it never throws; it is a
  function of the network state.
\<close>

section \<open>Strings\<close>

fun str_includes :: "string \<Rightarrow> string \<Rightarrow> bool" where
  "str_includes [] t = (t = [])"
| "str_includes (c # s) t = (take (length t) (c # s) = t \<or> str_includes s t)"

text \<open>\<open>xs.toString()\<close> of an array of strings.\<close>

fun join_commas :: "string list \<Rightarrow> string" where
  "join_commas [] = []"
| "join_commas [x] = x"
| "join_commas (x # xs) = x @ '','' @ join_commas xs"

definition error_message :: "js_error \<Rightarrow> string" where
  "error_message e = (case e of TypeError \<Rightarrow> [] | Thrown m \<Rightarrow> m | Rejected m \<Rightarrow> m | Exited n \<Rightarrow> [])"

section \<open>Which errors end the retries\<close>

definition fatalErrors :: "string list" where
  "fatalErrors =
     [''The address provided as argument contains a contract, but its bytecode'',
      ''Daily limit of 100 source code submissions reached'',
      ''has no bytecode. Is the contract deployed to this network'',
      ''The constructor for'']"

definition okErrors :: "string list" where
  "okErrors = [''Contract source code already verified'']"

definition unableVerifyError :: string where
  "unableVerifyError = ''Fail - Unable to verify''"

definition SUPPORTED_ETHERSCAN_NETWORKS :: "string list" where
  "SUPPORTED_ETHERSCAN_NETWORKS = [''main'', ''ropsten'', ''kovan'', ''goerli'', ''ftm_test'', ''ftm'']"

definition matches_any :: "string list \<Rightarrow> js_error \<Rightarrow> bool" where
  "matches_any reasons error = (\<exists>r \<in> set reasons. str_includes (error_message error) r)"

section \<open>The retry loop\<close>

text \<open>
  The parameter object is shared by the retries: once its \<open>relatedSources\<close> is deleted it stays
  deleted. On the last attempt it is deleted before the task runs.
\<close>

function runTaskWithRetry ::
    "'x runtime \<Rightarrow> string \<Rightarrow> verify_params \<Rightarrow> int \<Rightarrow> nat \<Rightarrow> ('x \<Rightarrow> 'x) \<Rightarrow> ('x, unit) io" where
  "runTaskWithRetry rt task params attempts msDelay cleanup w =
     (if attempts \<ge> 1
      then let params' = (if attempts = 1 then params\<lparr>param_relatedSources := False\<rparr> else params)
           in case on_network (rt_run rt task params') w of
                (Inr _, w') \<Rightarrow> (Inr (), w'\<lparr>network_state := cleanup (network_state w')\<rparr>)
              | (Inl error, w') \<Rightarrow>
                  if matches_any okErrors error then (Inr (), w')
                  else if matches_any fatalErrors error then (Inr (), w')
                  else runTaskWithRetry rt task
                         (if str_includes (error_message error) unableVerifyError
                          then params'\<lparr>param_relatedSources := False\<rparr> else params')
                         (attempts - 1) msDelay cleanup w'
      else (Inr (), w\<lparr>network_state := cleanup (network_state w)\<rparr>))"
  by pat_completeness auto
termination
  by (relation "measure (\<lambda>(rt, task, params, attempts, msDelay, cleanup, w). nat attempts)") auto

declare runTaskWithRetry.simps [simp del]

definition verifyEtherscanContract ::
    "'x runtime \<Rightarrow> string \<Rightarrow> js_val list \<Rightarrow> string option \<Rightarrow> ('x, unit) io" where
  "verifyEtherscanContract rt address constructorArguments libraries =
     (if \<not> truthy_string (env_ETHERSCAN_KEY rt)
      then throw_io (Thrown ''Missing process.env.ETHERSCAN_KEY.'')
      else if network_name rt \<notin> set SUPPORTED_ETHERSCAN_NETWORKS
      then throw_io (Thrown (''Current network '' @ network_name rt
             @ '' not supported. Please change to one of the next networks: ''
             @ join_commas SUPPORTED_ETHERSCAN_NETWORKS))
      else catch_io
             (await (on_network (rt_tempFile rt constructorArguments)) (\<lambda>path.
              let params = \<lparr>param_address = address, param_libraries = libraries,
                            param_constructorArgs = path, param_relatedSources = True\<rparr>
              in runTaskWithRetry rt ''verify'' params 4 3000 (rt_cleanup rt path)))
             (\<lambda>error. return_io ()))"

text \<open>\<open>checkVerification\<close>: the exit code the process ends with, \<open>None\<close> when it goes on.\<close>

definition checkVerification :: "'x runtime \<Rightarrow> nat option" where
  "checkVerification rt =
     (if \<not> truthy_string (env_ETHERSCAN_KEY rt) then Some 3
      else if network_name rt \<notin> set SUPPORTED_ETHERSCAN_NETWORKS then Some 5
      else None)"

section \<open>Facts\<close>

lemma includes_append: "str_includes (xs @ t @ ys) t"
proof (induction xs)
  case Nil
  show ?case by (cases t; cases ys) auto
next
  case (Cons x xs)
  then show ?case by simp
qed

lemma includes_iff: "str_includes s t \<longleftrightarrow> (\<exists>xs ys. s = xs @ t @ ys)"
proof
  show "str_includes s t \<Longrightarrow> \<exists>xs ys. s = xs @ t @ ys"
  proof (induction s)
    case (Cons c s)
    show ?case
    proof (cases "take (length t) (c # s) = t")
      case True
      then show ?thesis by (metis append_Nil append_take_drop_id)
    next
      case False
      then show ?thesis using Cons by (metis append_Cons str_includes.simps(2))
    qed
  qed simp
qed (auto simp: includes_append)

text \<open>A run of the retries rejects nothing and leaves the database alone.\<close>

lemma runTaskWithRetry_Inr:
  "\<exists>w'. runTaskWithRetry rt task params attempts ms cleanup w = (Inr (), w')
     \<and> deployed_contracts w' = deployed_contracts w"
proof (induction rt task params attempts ms cleanup w rule: runTaskWithRetry.induct)
  case (1 rt task params attempts msDelay cleanup w)
  let ?p = "if attempts = 1 then params\<lparr>param_relatedSources := False\<rparr> else params"
  obtain r w1 where run: "on_network (rt_run rt task ?p) w = (r, w1)" by fastforce
  show ?case
    using 1 [OF _ refl run [symmetric]] run on_network_db [OF run]
    by (subst runTaskWithRetry.simps) (auto simp: Let_def split: sum.splits)
qed

lemma writes_runTaskWithRetry [frame_rules]: "writes rt' S (runTaskWithRetry rt task params attempts ms cleanup)"
  unfolding writes_def by (metis runTaskWithRetry_Inr snd_conv)

lemma writes_verifyEtherscanContract [frame_rules]:
  "writes rt' S (verifyEtherscanContract rt address args libraries)"
  unfolding verifyEtherscanContract_def Let_def by (intro frame_rules)

text \<open>With a key and a supported network, verification never fails its caller.\<close>

lemma verifyEtherscanContract_supported:
  fixes rt :: "'x runtime"
  assumes "checkVerification rt = None"
  shows "\<exists>w'. verifyEtherscanContract rt address args libraries w = (Inr (), w')"
proof -
  have "\<exists>w'. catch_io m (\<lambda>e. return_io ()) w = (Inr (), w')" for m :: "('x, unit) io"
    by (auto simp: catch_io_def return_io_def split: prod.splits sum.splits)
  with assms show ?thesis
    by (auto simp: verifyEtherscanContract_def checkVerification_def split: if_splits)
qed

lemma verifyEtherscanContract_unsupported:
  "checkVerification rt \<noteq> None \<Longrightarrow>
   \<exists>m. verifyEtherscanContract rt address args libraries w = (Inl (Thrown m), w)"
  by (auto simp: verifyEtherscanContract_def checkVerification_def throw_io_def split: if_splits)

section \<open>What the retries do\<close>

text \<open>
  An observer of the retry loop: a network whose state is the history of task runs and cleanups,
  and whose task may answer anything at all as a function of that history.
\<close>

datatype verify_event = Ran verify_params | Cleaned

definition observed ::
    "verify_event list runtime \<Rightarrow> (verify_event list \<Rightarrow> verify_params \<Rightarrow> unit result) \<Rightarrow> verify_event list runtime" where
  "observed rt outcome = rt\<lparr>rt_run := \<lambda>task p h. (outcome h p, h @ [Ran p])\<rparr>"

definition ends_retries :: "js_error \<Rightarrow> bool" where
  "ends_retries e \<longleftrightarrow> matches_any okErrors e \<or> matches_any fatalErrors e"

text \<open>The outcome of run \<open>i\<close> of \<open>ps\<close>, the runs that follow the history \<open>h\<close>.\<close>

definition outcome_of ::
    "(verify_event list \<Rightarrow> verify_params \<Rightarrow> unit result) \<Rightarrow> verify_event list \<Rightarrow> verify_params list \<Rightarrow> nat \<Rightarrow> unit result" where
  "outcome_of outcome h ps i = outcome (h @ map Ran (take i ps)) (ps ! i)"

definition retriable :: "unit result \<Rightarrow> bool" where
  "retriable r \<longleftrightarrow> (\<exists>e. r = Inl e \<and> \<not> ends_retries e)"

definition valid_history ::
    "(verify_event list \<Rightarrow> verify_params \<Rightarrow> unit result) \<Rightarrow> verify_event list \<Rightarrow> int \<Rightarrow> verify_params list \<Rightarrow> bool \<Rightarrow> bool" where
  "valid_history outcome h attempts ps cleaned \<longleftrightarrow>
     int (length ps) \<le> max 0 attempts
     \<and> (\<forall>i < length ps - 1. retriable (outcome_of outcome h ps i))
     \<and> (int (length ps) < attempts \<longrightarrow> ps \<noteq> [] \<and> \<not> retriable (outcome_of outcome h ps (length ps - 1)))
     \<and> (0 < attempts \<and> int (length ps) = attempts \<longrightarrow> \<not> param_relatedSources (last ps))
     \<and> (cleaned \<longleftrightarrow> ps = [] \<or> \<not> (\<exists>e. outcome_of outcome h ps (length ps - 1) = Inl e \<and> ends_retries e))"

lemma valid_history_stop:
  assumes "1 \<le> attempts" "\<not> retriable (outcome h p)" "attempts = 1 \<Longrightarrow> \<not> param_relatedSources p"
    "cleaned \<longleftrightarrow> \<not> (\<exists>e. outcome h p = Inl e \<and> ends_retries e)"
  shows "valid_history outcome h attempts [p] cleaned"
  using assms by (auto simp: valid_history_def outcome_of_def)

lemma valid_history_zero: "attempts \<le> 0 \<Longrightarrow> valid_history outcome h attempts [] True"
  by (simp add: valid_history_def)

lemma valid_history_retry:
  assumes p: "retriable (outcome h p)" and n: "1 \<le> attempts" and l: "attempts = 1 \<Longrightarrow> \<not> param_relatedSources p"
    and ps: "valid_history outcome (h @ [Ran p]) (attempts - 1) ps cleaned"
  shows "valid_history outcome h attempts (p # ps) cleaned"
proof (cases ps)
  case Nil
  with assms show ?thesis by (auto simp: valid_history_def outcome_of_def retriable_def)
next
  case (Cons q qs)
  have step: "outcome_of outcome h (p # ps) (Suc i) = outcome_of outcome (h @ [Ran p]) ps i" for i
    by (simp add: outcome_of_def)
  have zero: "outcome_of outcome h (p # ps) 0 = outcome h p" by (simp add: outcome_of_def)
  have all: "retriable (outcome_of outcome h (p # ps) i)" if "i < length ps" for i
    using that p ps zero step by (cases i) (auto simp: valid_history_def)
  have last': "outcome_of outcome h (p # ps) (length ps) = outcome_of outcome (h @ [Ran p]) ps (length ps - 1)"
    using Cons step [of "length ps - 1"] by simp
  from ps Cons n all last' show ?thesis by (auto simp: valid_history_def)
qed

lemma retries_history:
  "\<exists>ps cleaned. runTaskWithRetry (observed rt outcome) task params attempts ms (\<lambda>h. h @ [Cleaned]) w
      = (Inr (), w\<lparr>network_state := network_state w @ map Ran ps @ (if cleaned then [Cleaned] else [])\<rparr>)
     \<and> valid_history outcome (network_state w) attempts ps cleaned"
proof (induction "nat attempts" arbitrary: attempts params w)
  case 0
  then have "attempts \<le> 0" by simp
  then show ?case
    by (intro exI [of _ "[]"] exI [of _ True]) (simp add: runTaskWithRetry.simps valid_history_zero)
next
  case (Suc k)
  let ?h = "network_state w"
  let ?p = "if attempts = 1 then params\<lparr>param_relatedSources := False\<rparr> else params"
  have n: "1 \<le> attempts" and k: "k = nat (attempts - 1)" using Suc.hyps(2) by simp_all
  have l: "attempts = 1 \<Longrightarrow> \<not> param_relatedSources ?p" by simp
  define w1 where "w1 = w\<lparr>network_state := ?h @ [Ran ?p]\<rparr>"
  have run: "on_network (rt_run (observed rt outcome) task ?p) w = (outcome ?h ?p, w1)"
    by (simp add: on_network_def observed_def w1_def)
  note unfold = runTaskWithRetry.simps [of _ _ _ attempts]
  show ?case
  proof (cases "retriable (outcome ?h ?p)")
    case True
    then obtain e where e: "outcome ?h ?p = Inl e" "\<not> ends_retries e" by (auto simp: retriable_def)
    let ?q = "if str_includes (error_message e) unableVerifyError then ?p\<lparr>param_relatedSources := False\<rparr> else ?p"
    from Suc.hyps(1) [OF k, of ?q w1] obtain ps cleaned where
      IH: "runTaskWithRetry (observed rt outcome) task ?q (attempts - 1) ms (\<lambda>h. h @ [Cleaned]) w1
        = (Inr (), w1\<lparr>network_state := network_state w1 @ map Ran ps @ (if cleaned then [Cleaned] else [])\<rparr>)"
        "valid_history outcome (network_state w1) (attempts - 1) ps cleaned" by blast
    then have "valid_history outcome ?h attempts (?p # ps) cleaned"
      using valid_history_retry [of outcome ?h ?p attempts ps cleaned] True n l by (simp add: w1_def)
    moreover have "runTaskWithRetry (observed rt outcome) task params attempts ms (\<lambda>h. h @ [Cleaned]) w
        = (Inr (), w\<lparr>network_state := ?h @ map Ran (?p # ps) @ (if cleaned then [Cleaned] else [])\<rparr>)"
      using IH(1) run e n by (simp add: unfold Let_def ends_retries_def w1_def)
    ultimately show ?thesis by blast
  next
    case False
    let ?c = "\<not> (\<exists>e. outcome ?h ?p = Inl e \<and> ends_retries e)"
    have "runTaskWithRetry (observed rt outcome) task params attempts ms (\<lambda>h. h @ [Cleaned]) w
        = (Inr (), w\<lparr>network_state := ?h @ map Ran [?p] @ (if ?c then [Cleaned] else [])\<rparr>)"
      using run n False
      by (cases "outcome ?h ?p") (auto simp: unfold Let_def ends_retries_def w1_def retriable_def)
    moreover have "valid_history outcome ?h attempts [?p] ?c"
      using n False by (intro valid_history_stop) simp_all
    ultimately show ?thesis by blast
  qed
qed


definition flaky :: "verify_event list \<Rightarrow> verify_params \<Rightarrow> unit result" where
  "flaky h p = (if length h < 2 then Inl (Rejected ''Fail - Unable to verify'')
                else Inl (Rejected ''Contract source code already verified.''))"


end
