(* ===== verification/ContractsHelpers.thy ===== *)
theory ContractsHelpers
  imports Etherscan
begin

text \<open>
  \<^verbatim>\<open>helpers/contracts-helpers.ts\<close> with the Tenderly and Defender helpers it calls
  (\<^verbatim>\<open>helpers/tenderly-utils.ts\<close>, \<^verbatim>\<open>helpers/defender-utils.ts\<close>): the signers, recording a deployed
  contract in the database, verifying it, and linking library addresses into bytecode. A signer is
  its address.
\<close>

section \<open>Tenderly and Defender\<close>

definition usingTenderly :: "'x runtime \<Rightarrow> bool" where
  "usingTenderly rt \<longleftrightarrow> str_includes (network_name rt) ''tenderly'' \<or> env_TENDERLY rt = Some ''true''"

definition verifyAtTenderly :: "'x runtime \<Rightarrow> string \<Rightarrow> Instance \<Rightarrow> ('x, unit) io" where
  "verifyAtTenderly rt cid inst = on_network (rt_tenderlyVerify rt cid (contract_address inst))"

definition usingDefender :: "'x runtime \<Rightarrow> bool" where
  "usingDefender rt \<longleftrightarrow> env_DEFENDER rt = Some ''true''"

text \<open>\<open>impersonateAccountsHardhat\<close> of \<^verbatim>\<open>helpers/misc-utils.ts\<close>.\<close>

definition impersonateAccountsHardhat :: "'x runtime \<Rightarrow> string list \<Rightarrow> ('x, unit) io" where
  "impersonateAccountsHardhat rt accounts =
     (if env_TENDERLY rt = Some ''true'' then return_io ()
      else for_each (\<lambda>account. on_network (rt_impersonate rt account)) accounts)"

text \<open>
  The signer stays \<open>undefined\<close> unless one of the two branches sets it; reading its balance then is
  a \<open>TypeError\<close>.
\<close>

definition getDefenderRelaySigner :: "'x runtime \<Rightarrow> ('x, string) io" where
  "getDefenderRelaySigner rt =
     (let defenderAddress = ''0xDA9dfA130Df4dE4673b89022EE50ff26f6EA73Cf'' in
      await (if env_FORK rt = Some ''main''
             then await (impersonateAccountsHardhat rt [defenderAddress]) (\<lambda>_.
                  await (on_network (rt_getSigner rt defenderAddress)) (\<lambda>s. return_io (Some s)))
             else return_io None) (\<lambda>defenderSigner.
      await (if usingTenderly rt
             then await (on_network (rt_getSigner rt defenderAddress)) (\<lambda>s. return_io (Some s))
             else return_io defenderSigner) (\<lambda>defenderSigner.
      await (lift_result (deref defenderSigner)) (\<lambda>signer.
      await (on_network (rt_getBalance rt signer)) (\<lambda>_.
      return_io signer)))))"

section \<open>Signers\<close>

definition getEthersSigners :: "'x runtime \<Rightarrow> ('x, string list) io" where
  "getEthersSigners rt =
     await (on_network (rt_getSigners rt)) (\<lambda>ethersSigners.
     if usingDefender rt
     then await (getDefenderRelaySigner rt) (\<lambda>relay. return_io (relay # tl ethersSigners))
     else return_io ethersSigners)"

definition getEthersSignersAddresses :: "'x runtime \<Rightarrow> ('x, string list) io" where
  "getEthersSignersAddresses rt = getEthersSigners rt"

text \<open>\<open>getFirstSigner\<close> of \<^verbatim>\<open>helpers/contracts-getters.ts\<close>.\<close>

definition getFirstSigner :: "'x runtime \<Rightarrow> ('x, string option) io" where
  "getFirstSigner rt = await (getEthersSigners rt) (\<lambda>signers. return_io (js_at signers 0))"

section \<open>Recording a contract\<close>

text \<open>
  A contract that was attached to rather than deployed has no deployment transaction, and
  registering it is a \<open>TypeError\<close>, in the log lines or in the entry.
\<close>

definition registerContractInJsonDb :: "'x runtime \<Rightarrow> string \<Rightarrow> Instance \<Rightarrow> ('x, unit) io" where
  "registerContractInJsonDb rt contractId contractInstance =
     await (lift_result (deref (deployTransaction_from contractInstance))) (\<lambda>sender.
     db_set rt contractId
       \<lparr>entry_address = contract_address contractInstance, entry_deployer = Some sender\<rparr>)"

definition insertContractAddressInDb :: "'x runtime \<Rightarrow> eContractid \<Rightarrow> tEthereumAddress \<Rightarrow> ('x, unit) io" where
  "insertContractAddressInDb rt cid addr = db_set rt cid \<lparr>entry_address = addr, entry_deployer = None\<rparr>"

definition rawInsertContractAddressInDb :: "'x runtime \<Rightarrow> string \<Rightarrow> tEthereumAddress \<Rightarrow> ('x, unit) io" where
  "rawInsertContractAddressInDb rt cid addr = db_set rt cid \<lparr>entry_address = addr, entry_deployer = None\<rparr>"

text \<open>
  Awaiting the deployment transaction of an attached contract reads \<open>wait\<close> off \<open>undefined\<close>. The
  transaction of a deployed contract is named after its address.
\<close>

definition waitForDeployment :: "'x runtime \<Rightarrow> Instance \<Rightarrow> ('x, unit) io" where
  "waitForDeployment rt inst =
     await (lift_result (deref (deployTransaction_from inst))) (\<lambda>_.
     waitForTx rt (contract_address inst))"

definition verifyContract :: "'x runtime \<Rightarrow> string \<Rightarrow> Instance \<Rightarrow> js_val list \<Rightarrow> ('x, Instance) io" where
  "verifyContract rt cid inst args =
     await (if usingTenderly rt then verifyAtTenderly rt cid inst else return_io ()) (\<lambda>_.
     await (verifyEtherscanContract rt (contract_address inst) args None) (\<lambda>_.
     return_io inst))"

definition withSaveAndVerify ::
    "'x runtime \<Rightarrow> Instance \<Rightarrow> string \<Rightarrow> js_val list \<Rightarrow> bool \<Rightarrow> ('x, Instance) io" where
  "withSaveAndVerify rt inst cid args verify =
     await (waitForDeployment rt inst) (\<lambda>_.
     await (registerContractInJsonDb rt cid inst) (\<lambda>_.
     await (if verify then await (verifyContract rt cid inst args) (\<lambda>_. return_io ()) else return_io ()) (\<lambda>_.
     return_io inst)))"

definition deployContract :: "'x runtime \<Rightarrow> string \<Rightarrow> js_val list \<Rightarrow> ('x, Instance) io" where
  "deployContract rt contractName args =
     await (getFirstSigner rt) (\<lambda>signer.
     await (on_network (rt_deployByName rt contractName signer args)) (\<lambda>contract.
     await (waitForDeployment rt contract) (\<lambda>_.
     await (registerContractInJsonDb rt contractName contract) (\<lambda>_.
     return_io contract))))"

definition getContract :: "'x runtime \<Rightarrow> string \<Rightarrow> string \<Rightarrow> ('x, Instance) io" where
  "getContract rt contractName addr =
     await (on_network (rt_getSigners rt)) (\<lambda>signers.
     return_io (attach contractName addr (js_at signers 0)))"

section \<open>Linking\<close>

text \<open>
  \<open>s.substr(i)\<close> and \<open>s.substr(0, n)\<close> are \<open>drop\<close> and \<open>take\<close>. \<open>libraries\<close> is an object; a library
  it has no entry for is skipped.
\<close>

definition apply_fixup :: "string \<Rightarrow> string \<Rightarrow> nat \<times> nat \<Rightarrow> string" where
  "apply_fixup addr bytecode fixup =
     (case fixup of (start, len) \<Rightarrow>
        take (2 + start * 2) bytecode @ drop 2 addr @ drop (2 + (start + len) * 2) bytecode)"

definition linkLibrary :: "string obj \<Rightarrow> string \<Rightarrow> string \<times> (nat \<times> nat) list \<Rightarrow> string" where
  "linkLibrary libraries bytecode ref =
     (case ref of (libName, fixups) \<Rightarrow>
        (case obj_get libraries libName of
           None \<Rightarrow> bytecode
         | Some addr \<Rightarrow> foldl (apply_fixup addr) bytecode fixups))"

definition linkBytecode :: "Artifact \<Rightarrow> string obj \<Rightarrow> string" where
  "linkBytecode artifact libraries =
     foldl (\<lambda>bytecode fileReferences. foldl (linkLibrary libraries) bytecode (snd fileReferences))
       (artifact_bytecode artifact) (linkReferences artifact)"

section \<open>What a linked bytecode is\<close>

text \<open>The fixups that have a library address, in the order the loops reach them, and the characters one covers.\<close>

definition linked_fixups :: "Artifact \<Rightarrow> string obj \<Rightarrow> (string \<times> nat \<times> nat) list" where
  "linked_fixups artifact libraries =
     concat (map (\<lambda>(libName, fixups).
                    case obj_get libraries libName of None \<Rightarrow> [] | Some addr \<Rightarrow> map (Pair addr) fixups)
       (concat (map snd (linkReferences artifact))))"

definition region :: "string \<times> nat \<times> nat \<Rightarrow> nat set" where
  "region r = (case r of (addr, start, len) \<Rightarrow> {2 + start * 2 ..< 2 + (start + len) * 2})"

definition fits :: "nat \<Rightarrow> string \<times> nat \<times> nat \<Rightarrow> bool" where
  "fits n r \<longleftrightarrow> (case r of (addr, start, len) \<Rightarrow> length addr = 2 + len * 2 \<and> 2 + (start + len) * 2 \<le> n)"

abbreviation apply_linked :: "string \<Rightarrow> string \<times> nat \<times> nat \<Rightarrow> string" where
  "apply_linked bytecode r \<equiv> apply_fixup (fst r) bytecode (snd r)"

lemma foldl_concat: "foldl f a (concat xss) = foldl (foldl f) a xss"
  by (induction xss arbitrary: a) auto

lemma linkBytecode_eq:
  "linkBytecode artifact libraries = foldl apply_linked (artifact_bytecode artifact) (linked_fixups artifact libraries)"
proof -
  have one: "linkLibrary libraries b ref = foldl apply_linked b
      (case ref of (libName, fixups) \<Rightarrow>
         case obj_get libraries libName of None \<Rightarrow> [] | Some addr \<Rightarrow> map (Pair addr) fixups)" for b ref
    by (auto simp: linkLibrary_def foldl_map split: prod.splits option.splits)
  have "foldl (linkLibrary libraries) b refs = foldl apply_linked b
      (concat (map (\<lambda>(libName, fixups).
         case obj_get libraries libName of None \<Rightarrow> [] | Some addr \<Rightarrow> map (Pair addr) fixups) refs))" for b refs
    by (induction refs arbitrary: b) (auto simp: one)
  then show ?thesis
    unfolding linkBytecode_def linked_fixups_def by (simp add: foldl_concat foldl_map map_concat)
qed

lemma apply_linked_length: "fits (length b) r \<Longrightarrow> length (apply_linked b r) = length b"
  by (auto simp: fits_def apply_fixup_def split: prod.splits)

lemma apply_linked_nth:
  assumes "fits (length b) r" "i < length b"
  shows "apply_linked b r ! i = (if i \<in> region r then fst r ! (i - fst (snd r) * 2) else b ! i)"
proof -
  obtain addr start len where r: "r = (addr, start, len)" by (cases r)
  let ?n = "2 + start * 2"
  have len: "length addr = 2 + len * 2" "?n + len * 2 \<le> length b" using assms r by (auto simp: fits_def)
  consider "i < ?n" | k where "i = ?n + k" "k < len * 2" | k where "i = ?n + len * 2 + k"
    by (metis add_less_cancel_left le_iff_add linorder_not_less)
  then show ?thesis
  proof cases
    case 3
    then have "\<not> i < 2 + (start + len) * 2" by simp
    then show ?thesis using 3 len assms(2) by (simp add: r apply_fixup_def region_def nth_append algebra_simps)
  qed (use len assms(2) in \<open>simp_all add: r apply_fixup_def region_def nth_append algebra_simps\<close>)
qed

lemma link_fold_length:
  "\<forall>r \<in> set rs. fits (length b) r \<Longrightarrow> length (foldl apply_linked b rs) = length b"
  by (induction rs arbitrary: b) (auto simp: apply_linked_length)

lemma link_fold_outside:
  "\<forall>r \<in> set rs. fits (length b) r \<Longrightarrow> i < length b \<Longrightarrow> \<forall>r \<in> set rs. i \<notin> region r \<Longrightarrow>
   foldl apply_linked b rs ! i = b ! i"
  by (induction rs arbitrary: b) (auto simp: apply_linked_length apply_linked_nth)

lemma link_fold_inside:
  assumes "\<forall>r \<in> set rs. fits (length b) r" "i < length b" "r \<in> set rs" "i \<in> region r"
    "sorted_wrt (\<lambda>r r'. region r \<inter> region r' = {}) rs"
  shows "foldl apply_linked b rs ! i = fst r ! (i - fst (snd r) * 2)"
  using assms
proof (induction rs arbitrary: b)
  case Nil
  then show ?case by simp
next
  case (Cons q rs)
  have len: "length (apply_linked b q) = length b" using Cons.prems by (simp add: apply_linked_length)
  show ?case
  proof (cases "r \<in> set rs")
    case True
    then show ?thesis using Cons.IH [of "apply_linked b q"] Cons.prems len by simp
  next
    case False
    then have "r = q" using Cons.prems(3) by simp
    moreover have "\<forall>r' \<in> set rs. i \<notin> region r'" using Cons.prems(4,5) \<open>r = q\<close> by auto
    ultimately show ?thesis
      using Cons.prems link_fold_outside [of rs "apply_linked b q" i] len by (simp add: apply_linked_nth)
  qed
qed

section \<open>What the helpers write\<close>

lemma writes_helpers [frame_rules]:
  "writes rt S (verifyAtTenderly rt cid inst)"
  "writes rt S (impersonateAccountsHardhat rt accounts)"
  "writes rt S (getDefenderRelaySigner rt)"
  by (auto simp: verifyAtTenderly_def impersonateAccountsHardhat_def getDefenderRelaySigner_def Let_def
      intro!: frame_rules)

lemma writes_signers [frame_rules]:
  "writes rt S (getEthersSigners rt)" "writes rt S (getEthersSignersAddresses rt)" "writes rt S (getFirstSigner rt)"
  by (auto simp: getEthersSigners_def getEthersSignersAddresses_def getFirstSigner_def intro!: frame_rules)

lemma writes_register [frame_rules]:
  "cid \<in> S \<Longrightarrow> writes rt S (registerContractInJsonDb rt cid inst)"
  "cid \<in> S \<Longrightarrow> writes rt S (insertContractAddressInDb rt cid addr)"
  "cid \<in> S \<Longrightarrow> writes rt S (rawInsertContractAddressInDb rt cid addr)"
  by (auto simp: registerContractInJsonDb_def insertContractAddressInDb_def rawInsertContractAddressInDb_def
      intro!: frame_rules)

lemma writes_verify [frame_rules]:
  "writes rt S (waitForDeployment rt inst)" "writes rt S (verifyContract rt cid inst args)"
  by (auto simp: waitForDeployment_def verifyContract_def intro!: frame_rules)

lemma writes_save [frame_rules]:
  "cid \<in> S \<Longrightarrow> writes rt S (withSaveAndVerify rt inst cid args verify)"
  "cid \<in> S \<Longrightarrow> writes rt S (deployContract rt cid args)"
  "writes rt S (getContract rt cid addr)"
  by (auto simp: withSaveAndVerify_def deployContract_def getContract_def intro!: frame_rules)

section \<open>A saved contract\<close>

text \<open>
  A contract that was saved is the one handed in; it was deployed, not attached; and whether the
  verification afterwards fails or not, its entry is in the database.
\<close>

definition db_entry_of :: "'x runtime \<Rightarrow> 'x world \<Rightarrow> string \<Rightarrow> db_entry option" where
  "db_entry_of rt w cid = db_lookup (deployed_contracts w) cid (network_name rt)"

lemma db_entry_of_network [simp]: "db_entry_of rt (w\<lparr>network_state := s\<rparr>) cid = db_entry_of rt w cid"
  by (simp add: db_entry_of_def)

lemma db_get_run [simp]: "db_get rt cid w = (Inr (db_entry_of rt w cid), w)"
  by (simp add: db_get_def db_entry_of_def)

lemma db_entry_of_writes:
  "writes rt S m \<Longrightarrow> m w = (r, w') \<Longrightarrow> cid \<notin> S \<Longrightarrow> db_entry_of rt w' cid = db_entry_of rt w cid"
  unfolding db_entry_of_def by (rule writesD [of rt S m w r w']) auto

lemma db_entry_of_no_writes:
  "(\<And>S. writes rt S m) \<Longrightarrow> m w = (r, w') \<Longrightarrow> db_entry_of rt w' cid = db_entry_of rt w cid"
  by (rule db_entry_of_writes [of rt "{}" m w r w']) auto

lemma registerContractInJsonDb_Inr:
  "registerContractInJsonDb rt cid inst w = (Inr u, w') \<longleftrightarrow>
   (\<exists>sender. deployTransaction_from inst = Some sender
      \<and> db_set rt cid \<lparr>entry_address = contract_address inst, entry_deployer = Some sender\<rparr> w = (Inr u, w'))"
  by (auto simp: registerContractInJsonDb_def await_eq_Inr lift_result_def)

lemma db_set_entry: "db_set rt cid e w = (r, w') \<Longrightarrow> db_entry_of rt w' cid' = (if cid' = cid then Some e else db_entry_of rt w cid')"
  by (auto simp: db_set_def db_entry_of_def)

lemma withSaveAndVerify_Inr:
  assumes "withSaveAndVerify rt inst cid args verify w = (Inr i, w')"
  shows "i = inst \<and> (\<exists>sender. deployTransaction_from inst = Some sender
    \<and> db_entry_of rt w' cid = Some \<lparr>entry_address = contract_address inst, entry_deployer = Some sender\<rparr>)"
proof -
  from assms obtain w1 w2 u1 u2 u3 w3 where
    w: "waitForDeployment rt inst w = (Inr u1, w1)"
      "registerContractInJsonDb rt cid inst w1 = (Inr u2, w2)"
      "(if verify then await (verifyContract rt cid inst args) (\<lambda>_. return_io ()) else return_io ()) w2 = (Inr u3, w3)"
      "i = inst" "w' = w3"
    by (auto simp: withSaveAndVerify_def await_eq_Inr)
  let ?verify = "if verify then await (verifyContract rt cid inst args) (\<lambda>_. return_io ()) else return_io ()"
  have "writes rt S ?verify" for S by (intro frame_rules)
  then have "db_entry_of rt w3 cid = db_entry_of rt w2 cid"
    using w(3) db_entry_of_no_writes [of rt ?verify w2] by blast
  with w db_set_entry show ?thesis by (fastforce simp: registerContractInJsonDb_Inr)
qed


section \<open>Linking places the addresses\<close>

text \<open>
  C40: linking when each reference of a given library lies inside the bytecode, is as long as the
  library's address, and no two of them overlap: the bytecode keeps its length, each reference holds
  exactly the hexadecimal digits of its library's address, and every other character, the
  references of libraries that are not given included, is the artifact's.
\<close>
theorem linkBytecode_places_addresses:
  assumes "\<forall>r \<in> set (linked_fixups artifact libraries). fits (length (artifact_bytecode artifact)) r"
    and "sorted_wrt (\<lambda>r r'. region r \<inter> region r' = {}) (linked_fixups artifact libraries)"
  shows "length (linkBytecode artifact libraries) = length (artifact_bytecode artifact)
    \<and> (\<forall>(addr, start, len) \<in> set (linked_fixups artifact libraries).
         take (len * 2) (drop (2 + start * 2) (linkBytecode artifact libraries)) = drop 2 addr)
    \<and> (\<forall>i < length (artifact_bytecode artifact). (\<forall>r \<in> set (linked_fixups artifact libraries). i \<notin> region r) \<longrightarrow>
         linkBytecode artifact libraries ! i = artifact_bytecode artifact ! i)"
proof (intro conjI ballI allI impI)
  show len: "length (linkBytecode artifact libraries) = length (artifact_bytecode artifact)"
    unfolding linkBytecode_eq by (rule link_fold_length [OF assms(1)])
  fix r assume r: "r \<in> set (linked_fixups artifact libraries)"
  obtain addr start n where r_eq: "r = (addr, start, n)" by (cases r)
  have fit: "length addr = 2 + n * 2" "2 + (start + n) * 2 \<le> length (artifact_bytecode artifact)"
    using assms(1) r r_eq by (auto simp: fits_def)
  have "take (n * 2) (drop (2 + start * 2) (linkBytecode artifact libraries)) = drop 2 addr"
  proof (rule nth_equalityI)
    fix i assume "i < length (take (n * 2) (drop (2 + start * 2) (linkBytecode artifact libraries)))"
    then have i: "i < n * 2" "2 + start * 2 + i < length (artifact_bytecode artifact)" using fit by (simp_all add: len)
    have "linkBytecode artifact libraries ! (2 + start * 2 + i) = fst r ! (2 + start * 2 + i - fst (snd r) * 2)"
      unfolding linkBytecode_eq
      by (rule link_fold_inside [OF assms(1) i(2) r _ assms(2)]) (use i in \<open>auto simp: region_def r_eq\<close>)
    then show "take (n * 2) (drop (2 + start * 2) (linkBytecode artifact libraries)) ! i = drop 2 addr ! i"
      using i fit by (simp add: r_eq len)
  qed (use fit in \<open>simp add: len\<close>)
  then show "case r of (addr, start, len) \<Rightarrow>
      take (len * 2) (drop (2 + start * 2) (linkBytecode artifact libraries)) = drop 2 addr"
    by (simp add: r_eq)
next
  fix i
  assume "i < length (artifact_bytecode artifact)" "\<forall>r \<in> set (linked_fixups artifact libraries). i \<notin> region r"
  then show "linkBytecode artifact libraries ! i = artifact_bytecode artifact ! i"
    unfolding linkBytecode_eq using link_fold_outside [OF assms(1)] by blast
qed

definition example_artifact :: Artifact where
  "example_artifact = \<lparr>artifact_abi = ''[]'', artifact_bytecode = ''0x60$R$R61$G$G62$R$R63$V$V'',
     linkReferences = [(''ReserveLogic.sol'', [(''ReserveLogic'', [(1, 2), (7, 2)])]),
       (''GenericLogic.sol'', [(''GenericLogic'', [(4, 2)]), (''ValidationLogic'', [(10, 2)])])]\<rparr>"

theorem linkBytecode_places_addresses_witness:
  "linkBytecode example_artifact [(''GenericLogic'', ''0xcdcd''), (''ReserveLogic'', ''0xabab'')] = ''0x60abab61cdcd62abab63$V$V''
   \<and> take 4 (drop 10 (linkBytecode example_artifact [(''GenericLogic'', ''0xcdcd''), (''ReserveLogic'', ''0xabab'')])) = ''cdcd''"
proof -
  let ?libs = "[(''GenericLogic'', ''0xcdcd''), (''ReserveLogic'', ''0xabab'')]"
  have fixups: "linked_fixups example_artifact ?libs
      = [(''0xabab'', 1, 2), (''0xabab'', 7, 2), (''0xcdcd'', 4, 2)]"
    by (simp add: linked_fixups_def example_artifact_def obj_get_def)
  have bytecode: "length (artifact_bytecode example_artifact) = 26" by (simp add: example_artifact_def)
  have "take (2 * 2) (drop (2 + 4 * 2) (linkBytecode example_artifact ?libs)) = drop 2 ''0xcdcd''"
    using linkBytecode_places_addresses [of example_artifact ?libs]
    by (simp add: fixups fits_def region_def bytecode)
  moreover have "linkBytecode example_artifact ?libs = ''0x60abab61cdcd62abab63$V$V''" by code_simp
  ultimately show ?thesis by simp
qed

end
