(* ===== verification/BigNumber.thy ===== *)
theory BigNumber
  imports Prelude Complex_Main "HOL-Library.Signed_Division"
begin

text \<open>
  The decimal arithmetic of the package \<^verbatim>\<open>bignumber.js\<close>, which is not part of the repository.
  The model takes it as a parameter: a record of the operations the code calls, over an abstract
  type of values. What the code relies on is the locale \<open>bignumber\<close>, which states the documented
  behaviour of the package on finite values, and \<open>bignumber_int\<close>, the same under the configuration
  the scenario suites set (\<open>DECIMAL_PLACES: 0, ROUNDING_MODE: ROUND_DOWN\<close>), where a quotient of
  integers is a truncated integer. Two executable instances show that the laws can hold, one for
  each configuration the suites use.
\<close>

section \<open>The operations the code calls\<close>

text \<open>
  \<open>bn_of\<close> is \<open>new BigNumber\<close> of an integer constant, \<open>bn_parse\<close> of a string. \<open>bn_dp0\<close> is
  \<open>decimalPlaces(0, ROUND_DOWN)\<close> and \<open>bn_dp\<close> is \<open>decimalPlaces(0)\<close>, in the configured rounding
  mode. \<open>bn_toString16\<close> is \<open>toString(16)\<close> and \<open>bn_toNumber\<close> the JavaScript number of an integer that
  has one. \<open>bn_undef\<close> is what a slot of type BigNumber holds that was never assigned, JavaScript's
  \<open>undefined\<close>.
\<close>

record 'b bn_api =
  bn_of :: "int \<Rightarrow> 'b"
  bn_parse :: "string \<Rightarrow> 'b"
  bn_undef :: 'b
  bn_plus :: "'b \<Rightarrow> 'b \<Rightarrow> 'b"
  bn_minus :: "'b \<Rightarrow> 'b \<Rightarrow> 'b"
  bn_times :: "'b \<Rightarrow> 'b \<Rightarrow> 'b"
  bn_div :: "'b \<Rightarrow> 'b \<Rightarrow> 'b"
  bn_dp0 :: "'b \<Rightarrow> 'b"
  bn_dp :: "'b \<Rightarrow> 'b"
  bn_abs :: "'b \<Rightarrow> 'b"
  bn_negated :: "'b \<Rightarrow> 'b"
  bn_eq :: "'b \<Rightarrow> 'b \<Rightarrow> bool"
  bn_lt :: "'b \<Rightarrow> 'b \<Rightarrow> bool"
  bn_gt :: "'b \<Rightarrow> 'b \<Rightarrow> bool"
  bn_lte :: "'b \<Rightarrow> 'b \<Rightarrow> bool"
  bn_toFixed0 :: "'b \<Rightarrow> string"
  bn_toFixed :: "'b \<Rightarrow> string"
  bn_toString :: "'b \<Rightarrow> string"
  bn_toString16 :: "'b \<Rightarrow> string"
  bn_toNumber :: "'b \<Rightarrow> int"

section \<open>Rounding\<close>

datatype rounding = ROUND_DOWN | ROUND_HALF_UP

definition truncate_rat :: "rat \<Rightarrow> int" where
  "truncate_rat q = (if 0 \<le> q then \<lfloor>q\<rfloor> else - \<lfloor>- q\<rfloor>)"

fun round_at :: "rounding \<Rightarrow> nat \<Rightarrow> rat \<Rightarrow> rat" where
  "round_at ROUND_DOWN d q = of_int (truncate_rat (q * 10 ^ d)) / 10 ^ d"
| "round_at ROUND_HALF_UP d q =
     (if 0 \<le> q then of_int \<lfloor>q * 10 ^ d + 1 / 2\<rfloor> / 10 ^ d else - (of_int \<lfloor>- q * 10 ^ d + 1 / 2\<rfloor> / 10 ^ d))"

lemma truncate_of_int [simp]: "truncate_rat (of_int n) = n"
  by (simp add: truncate_rat_def)

lemma round_at_of_int [simp]: "round_at m d (of_int n) = of_int n"
proof -
  have e: "(of_int n :: rat) * 10 ^ d = of_int (n * 10 ^ d)" by simp
  have h: "\<lfloor>(of_int k :: rat) + 1 / 2\<rfloor> = k" for k by linarith
  have "- (of_int n :: rat) * 10 ^ d = of_int (- n * 10 ^ d)" by simp
  then show ?thesis by (cases m) (simp_all only: round_at.simps e truncate_of_int h, auto)
qed

lemma truncate_quotient:
  assumes "n \<noteq> 0"
  shows "truncate_rat (of_int m / of_int n) = m sdiv n"
proof -
  have fl: "\<lfloor>(of_int a :: rat) / of_int b\<rfloor> = a div b" for a b :: int
    by (rule floor_divide_of_int_eq)
  have abs: "\<bar>m\<bar> div \<bar>n\<bar> = (if (0 \<le> m) = (0 < n) then m div n else (- m) div n)"
    using assms by (auto simp: abs_if not_le not_less div_minus_right)
  have sign: "(0::rat) \<le> of_int m / of_int n \<longleftrightarrow> m = 0 \<or> ((0 \<le> m) = (0 < n))"
    using assms by (auto simp: zero_le_divide_iff not_le not_less)
  show ?thesis
  proof (cases "m = 0")
    case True
    then show ?thesis by (simp add: truncate_rat_def signed_divide_int_def)
  next
    case False
    have neg: "- ((of_int m :: rat) / of_int n) = of_int (- m) / of_int n" by simp
    show ?thesis
      using False assms
      by (simp only: truncate_rat_def sign neg fl signed_divide_int_def abs)
        (auto simp: sgn_if)
  qed
qed

section \<open>Decimal numerals\<close>

definition digit_char :: "nat \<Rightarrow> char" where
  "digit_char d = ''0123456789'' ! d"

definition char_digit :: "char \<Rightarrow> nat option" where
  "char_digit c = map_of (zip ''0123456789'' [0..<10]) c"

fun dec_nat :: "nat \<Rightarrow> string" where
  "dec_nat n = (if n < 10 then [digit_char n] else dec_nat (n div 10) @ [digit_char (n mod 10)])"

declare dec_nat.simps [simp del]

definition dec :: "int \<Rightarrow> string" where
  "dec n = (if n < 0 then CHR ''-'' # dec_nat (nat (- n)) else dec_nat (nat n))"

fun parse_digits :: "nat \<Rightarrow> string \<Rightarrow> nat option" where
  "parse_digits acc [] = Some acc"
| "parse_digits acc (c # cs) =
     (case char_digit c of None \<Rightarrow> None | Some d \<Rightarrow> parse_digits (10 * acc + d) cs)"

definition parse_dec :: "string \<Rightarrow> int option" where
  "parse_dec s =
     (case s of
        [] \<Rightarrow> None
      | c # cs \<Rightarrow>
          if c = CHR ''-'' then (if cs = [] then None else map_option (\<lambda>n. - int n) (parse_digits 0 cs))
          else map_option int (parse_digits 0 s))"

lemma char_digit_char: "d < 10 \<Longrightarrow> char_digit (digit_char d) = Some d"
proof -
  assume "d < 10"
  then have "d \<in> {0, 1, 2, 3, 4, 5, 6, 7, 8, 9}" by auto
  then show ?thesis by (auto simp: digit_char_def char_digit_def upt_rec nth_Cons')
qed

lemma parse_digits_append:
  "parse_digits a (xs @ ys) = (case parse_digits a xs of None \<Rightarrow> None | Some b \<Rightarrow> parse_digits b ys)"
  by (induction a xs rule: parse_digits.induct) (auto split: option.splits)

lemma parse_dec_nat: "parse_digits 0 (dec_nat n) = Some n"
proof (induction n rule: dec_nat.induct)
  case (1 n)
  then show ?case
    by (subst dec_nat.simps) (auto simp: parse_digits_append char_digit_char)
qed

lemma dec_nat_Cons: "\<exists>c cs. dec_nat n = c # cs \<and> c \<noteq> CHR ''-''"
proof (induction n rule: dec_nat.induct)
  case (1 n)
  have "digit_char d \<noteq> CHR ''-''" if "d < 10" for d
  proof
    assume "digit_char d = CHR ''-''"
    then have "char_digit (CHR ''-'') = Some d" using char_digit_char [OF that] by simp
    then show False by (simp add: char_digit_def upt_rec)
  qed
  with 1 show ?case by (subst dec_nat.simps) auto
qed

lemma parse_dec: "parse_dec (dec n) = Some n"
proof -
  obtain c cs where c: "dec_nat (nat \<bar>n\<bar>) = c # cs" "c \<noteq> CHR ''-''"
    using dec_nat_Cons by blast
  with parse_dec_nat [of "nat \<bar>n\<bar>"] show ?thesis
    by (cases "n < 0") (auto simp: parse_dec_def dec_def)
qed

lemma dec_inject [simp]: "dec m = dec n \<longleftrightarrow> m = n"
  by (metis option.inject parse_dec)

text \<open>A numeral without leading zeros is the one its value prints; this evaluates literals.\<close>

lemma dec_nat_small: "n < 10 \<Longrightarrow> dec_nat n = [digit_char n]"
  by (subst dec_nat.simps) simp

lemma dec_nat_snoc: "0 < m \<Longrightarrow> d < 10 \<Longrightarrow> dec_nat (10 * m + d) = dec_nat m @ [digit_char d]"
  by (subst dec_nat.simps) simp

lemma char_digit_digit: "char_digit c = Some d \<Longrightarrow> d < 10 \<and> digit_char d = c"
  by (auto simp: char_digit_def digit_char_def upt_rec split: if_splits)

lemma dec_nat_parse:
  "s \<noteq> [] \<Longrightarrow> hd s \<noteq> CHR ''0'' \<Longrightarrow> parse_digits 0 s = Some n \<Longrightarrow> dec_nat n = s \<and> 0 < n"
proof (induction s arbitrary: n rule: rev_induct)
  case Nil
  then show ?case by simp
next
  case (snoc c s)
  then obtain b d where b: "parse_digits 0 s = Some b" and d: "char_digit c = Some d" and n: "n = 10 * b + d"
    by (auto simp: parse_digits_append split: option.splits)
  have dc: "d < 10" "digit_char d = c" using char_digit_digit [OF d] by simp_all
  show ?case
  proof (cases "s = []")
    case True
    with b n dc snoc.prems show ?thesis
      by (cases "d = 0") (auto simp: dec_nat_small digit_char_def)
  next
    case False
    with snoc.IH [OF _ _ b] snoc.prems have "dec_nat b = s" "0 < b" by auto
    with n dc show ?thesis by (simp add: dec_nat_snoc)
  qed
qed

lemma numeral_dec:
  "s \<noteq> [] \<Longrightarrow> hd s \<noteq> CHR ''0'' \<Longrightarrow> parse_digits 0 s = Some n \<Longrightarrow> s = dec (int n)"
  using dec_nat_parse [of s n] by (simp add: dec_def)

section \<open>Hexadecimal numerals\<close>

definition hex_digit :: "char \<Rightarrow> nat option" where
  "hex_digit c = map_of (zip ''0123456789abcdef'' [0..<16]) c"

fun hex_nat :: "nat \<Rightarrow> string" where
  "hex_nat n = (if n < 16 then [''0123456789abcdef'' ! n] else hex_nat (n div 16) @ [''0123456789abcdef'' ! (n mod 16)])"

declare hex_nat.simps [simp del]

fun parse_hex :: "nat \<Rightarrow> string \<Rightarrow> nat option" where
  "parse_hex acc [] = Some acc"
| "parse_hex acc (c # cs) = (case hex_digit c of None \<Rightarrow> None | Some d \<Rightarrow> parse_hex (16 * acc + d) cs)"

text \<open>A numeral, hexadecimal after \<open>0x\<close>.\<close>

definition parse_num :: "string \<Rightarrow> int option" where
  "parse_num s =
     (case s of
        c # d # cs \<Rightarrow> if c = CHR ''0'' \<and> d = CHR ''x''
                      then (if cs = [] then None else map_option int (parse_hex 0 cs)) else parse_dec s
      | _ \<Rightarrow> parse_dec s)"

lemma hex_digits_all: "\<forall>d \<in> set [0..<16]. hex_digit (''0123456789abcdef'' ! d) = Some d"
  by code_simp

lemma hex_digit_char: "d < 16 \<Longrightarrow> hex_digit (''0123456789abcdef'' ! d) = Some d"
  using hex_digits_all by simp

lemma parse_hex_append:
  "parse_hex a (xs @ ys) = (case parse_hex a xs of None \<Rightarrow> None | Some b \<Rightarrow> parse_hex b ys)"
  by (induction a xs rule: parse_hex.induct) (auto split: option.splits)

lemma parse_hex_nat: "parse_hex 0 (hex_nat n) = Some n"
proof (induction n rule: hex_nat.induct)
  case (1 n)
  then show ?case by (subst hex_nat.simps) (auto simp: parse_hex_append hex_digit_char)
qed

lemma hex_nat_nonempty: "hex_nat n \<noteq> []"
  by (subst hex_nat.simps) simp

lemma parse_num_hex: "parse_num (''0x'' @ hex_nat n) = Some (int n)"
  by (simp add: parse_num_def hex_nat_nonempty parse_hex_nat)

lemma parse_num_dec: "parse_num (dec n) = Some n"
proof -
  have "char_digit (CHR ''x'') = None" by (simp add: char_digit_def upt_rec)
  with parse_dec [of n] have "dec n \<noteq> CHR ''0'' # CHR ''x'' # cs" for cs
    by (auto simp: parse_dec_def split: option.splits)
  with parse_dec [of n] show ?thesis by (auto simp: parse_num_def split: list.splits)
qed

section \<open>What the code relies on\<close>

text \<open>
  \<open>val x\<close> is the number a finite value stands for, \<open>None\<close> for NaN, an infinity and \<open>undefined\<close>.
  Sums, differences and products are exact, a quotient is rounded to \<open>dp\<close> decimal places in mode
  \<open>rm\<close>, division by zero gives no finite value, and the printed form of an integer is its decimal
  numeral (\<open>toString\<close> may use the exponential form, which the constructor reads back).
\<close>

locale bignumber =
  fixes B :: "'b bn_api"
    and val :: "'b \<Rightarrow> rat option"
    and rm :: rounding
    and dp :: nat
  assumes val_of: "val (bn_of B n) = Some (of_int n)"
    and val_parse: "val (bn_parse B (dec n)) = Some (of_int n)"
    and val_plus: "val x = Some a \<Longrightarrow> val y = Some b \<Longrightarrow> val (bn_plus B x y) = Some (a + b)"
    and val_minus: "val x = Some a \<Longrightarrow> val y = Some b \<Longrightarrow> val (bn_minus B x y) = Some (a - b)"
    and val_times: "val x = Some a \<Longrightarrow> val y = Some b \<Longrightarrow> val (bn_times B x y) = Some (a * b)"
    and val_div: "val x = Some a \<Longrightarrow> val y = Some b \<Longrightarrow> b \<noteq> 0 \<Longrightarrow>
      val (bn_div B x y) = Some (round_at rm dp (a / b))"
    and val_div_zero: "val x = Some a \<Longrightarrow> val y = Some 0 \<Longrightarrow> val (bn_div B x y) = None"
    and val_dp0: "val x = Some a \<Longrightarrow> val (bn_dp0 B x) = Some (of_int (truncate_rat a))"
    and val_dp: "val x = Some a \<Longrightarrow> val (bn_dp B x) = Some (round_at rm 0 a)"
    and val_abs: "val x = Some a \<Longrightarrow> val (bn_abs B x) = Some \<bar>a\<bar>"
    and val_negated: "val x = Some a \<Longrightarrow> val (bn_negated B x) = Some (- a)"
    and eq_val: "val x = Some a \<Longrightarrow> val y = Some b \<Longrightarrow> bn_eq B x y = (a = b)"
    and lt_val: "val x = Some a \<Longrightarrow> val y = Some b \<Longrightarrow> bn_lt B x y = (a < b)"
    and gt_val: "val x = Some a \<Longrightarrow> val y = Some b \<Longrightarrow> bn_gt B x y = (a > b)"
    and lte_val: "val x = Some a \<Longrightarrow> val y = Some b \<Longrightarrow> bn_lte B x y = (a \<le> b)"
    and toFixed0_int: "val x = Some (of_int n) \<Longrightarrow> bn_toFixed0 B x = dec n"
    and toFixed_int: "val x = Some (of_int n) \<Longrightarrow> bn_toFixed B x = dec n"
    and toString_int: "val x = Some (of_int n) \<Longrightarrow> val (bn_parse B (bn_toString B x)) = Some (of_int n)"
    and toString16_int: "val x = Some (of_int n) \<Longrightarrow> 0 \<le> n \<Longrightarrow>
      val (bn_parse B (''0x'' @ bn_toString16 B x)) = Some (of_int n)"
    and toNumber_int: "val x = Some (of_int n) \<Longrightarrow> \<bar>n\<bar> \<le> 2 ^ 53 \<Longrightarrow> bn_toNumber B x = n"

text \<open>An integer value, and the laws restricted to integers under the scenario configuration.\<close>

definition denotes :: "('b \<Rightarrow> rat option) \<Rightarrow> 'b \<Rightarrow> int \<Rightarrow> bool" where
  "denotes val x n \<longleftrightarrow> val x = Some (of_int n)"

lemma denotes_unique: "denotes val x m \<Longrightarrow> denotes val x n \<Longrightarrow> m = n"
  by (simp add: denotes_def)

lemma denotes_if:
  "(c \<Longrightarrow> denotes val x m) \<Longrightarrow> (\<not> c \<Longrightarrow> denotes val y n) \<Longrightarrow>
   denotes val (if c then x else y) (if c then m else n)"
  by simp

locale bignumber_int = bignumber B val ROUND_DOWN 0
  for B :: "'b bn_api" and val :: "'b \<Rightarrow> rat option"
begin

lemma denotes_of: "denotes val (bn_of B n) n"
  by (simp add: denotes_def val_of)

lemma denotes_parse: "denotes val (bn_parse B (dec n)) n"
  by (simp add: denotes_def val_parse)

lemma denotes_plus: "denotes val x m \<Longrightarrow> denotes val y n \<Longrightarrow> denotes val (bn_plus B x y) (m + n)"
  by (simp add: denotes_def val_plus)

lemma denotes_minus: "denotes val x m \<Longrightarrow> denotes val y n \<Longrightarrow> denotes val (bn_minus B x y) (m - n)"
  by (simp add: denotes_def val_minus)

lemma denotes_times: "denotes val x m \<Longrightarrow> denotes val y n \<Longrightarrow> denotes val (bn_times B x y) (m * n)"
  by (simp add: denotes_def val_times)

lemma denotes_div:
  "denotes val x m \<Longrightarrow> denotes val y n \<Longrightarrow> n \<noteq> 0 \<Longrightarrow> denotes val (bn_div B x y) (m sdiv n)"
  by (simp add: denotes_def val_div truncate_quotient)

lemma denotes_dp0: "denotes val x m \<Longrightarrow> denotes val (bn_dp0 B x) m"
  using val_dp0 by (fastforce simp: denotes_def)

lemma denotes_dp: "denotes val x m \<Longrightarrow> denotes val (bn_dp B x) m"
  using val_dp by (fastforce simp: denotes_def simp del: round_at.simps)

lemma denotes_abs: "denotes val x m \<Longrightarrow> denotes val (bn_abs B x) \<bar>m\<bar>"
  by (simp add: denotes_def val_abs)

lemma denotes_negated: "denotes val x m \<Longrightarrow> denotes val (bn_negated B x) (- m)"
  by (simp add: denotes_def val_negated)

lemma eq_iff: "denotes val x m \<Longrightarrow> denotes val y n \<Longrightarrow> bn_eq B x y \<longleftrightarrow> m = n"
  by (simp add: denotes_def eq_val)

lemma lt_iff: "denotes val x m \<Longrightarrow> denotes val y n \<Longrightarrow> bn_lt B x y \<longleftrightarrow> m < n"
  by (simp add: denotes_def lt_val)

lemma gt_iff: "denotes val x m \<Longrightarrow> denotes val y n \<Longrightarrow> bn_gt B x y \<longleftrightarrow> m > n"
  by (simp add: denotes_def gt_val)

lemma lte_iff: "denotes val x m \<Longrightarrow> denotes val y n \<Longrightarrow> bn_lte B x y \<longleftrightarrow> m \<le> n"
  by (simp add: denotes_def lte_val)

lemma denotes_parse16: "denotes val x m \<Longrightarrow> 0 \<le> m \<Longrightarrow> denotes val (bn_parse B (''0x'' @ bn_toString16 B x)) m"
  unfolding denotes_def by (rule toString16_int)

lemma toFixed0_dec: "denotes val x m \<Longrightarrow> bn_toFixed0 B x = dec m"
  by (simp add: denotes_def toFixed0_int)

lemma toFixed_dec: "denotes val x m \<Longrightarrow> bn_toFixed B x = dec m"
  by (simp add: denotes_def toFixed_int)

lemma denotes_parse_toString: "denotes val x m \<Longrightarrow> denotes val (bn_parse B (bn_toString B x)) m"
  by (simp add: denotes_def toString_int)

lemmas denotes_rules = denotes_of denotes_plus denotes_minus denotes_times denotes_div denotes_dp0
  denotes_dp denotes_abs denotes_negated denotes_parse_toString

end

section \<open>Executable instances\<close>

text \<open>
  Numbers as rationals, everything that is not a finite number as \<open>None\<close>. The printed form is the
  decimal numeral of an integer; the code prints nothing else.
\<close>

definition lift2 :: "(rat \<Rightarrow> rat \<Rightarrow> rat option) \<Rightarrow> rat option \<Rightarrow> rat option \<Rightarrow> rat option" where
  "lift2 f x y = (case x of None \<Rightarrow> None | Some a \<Rightarrow> (case y of None \<Rightarrow> None | Some b \<Rightarrow> f a b))"

definition cmp2 :: "(rat \<Rightarrow> rat \<Rightarrow> bool) \<Rightarrow> rat option \<Rightarrow> rat option \<Rightarrow> bool" where
  "cmp2 f x y = (case x of None \<Rightarrow> False | Some a \<Rightarrow> (case y of None \<Rightarrow> False | Some b \<Rightarrow> f a b))"

definition print_rat :: "rat option \<Rightarrow> string" where
  "print_rat x = (case x of None \<Rightarrow> ''NaN'' | Some a \<Rightarrow> dec (truncate_rat a))"

definition std_bn :: "rounding \<Rightarrow> nat \<Rightarrow> rat option bn_api" where
  "std_bn m d = \<lparr>
     bn_of = (\<lambda>n. Some (of_int n)),
     bn_parse = (\<lambda>s. map_option of_int (parse_num s)),
     bn_undef = None,
     bn_plus = lift2 (\<lambda>a b. Some (a + b)),
     bn_minus = lift2 (\<lambda>a b. Some (a - b)),
     bn_times = lift2 (\<lambda>a b. Some (a * b)),
     bn_div = lift2 (\<lambda>a b. if b = 0 then None else Some (round_at m d (a / b))),
     bn_dp0 = map_option (\<lambda>a. of_int (truncate_rat a)),
     bn_dp = map_option (round_at m 0),
     bn_abs = map_option abs,
     bn_negated = map_option uminus,
     bn_eq = cmp2 (=),
     bn_lt = cmp2 (<),
     bn_gt = cmp2 (>),
     bn_lte = cmp2 (\<le>),
     bn_toFixed0 = print_rat,
     bn_toFixed = print_rat,
     bn_toString = print_rat,
     bn_toString16 = (\<lambda>x. case x of None \<Rightarrow> ''NaN'' | Some a \<Rightarrow> hex_nat (nat (truncate_rat a))),
     bn_toNumber = (\<lambda>x. case x of None \<Rightarrow> 0 | Some a \<Rightarrow> truncate_rat a)\<rparr>"

lemma std_bn_bignumber: "bignumber (std_bn m d) id m d"
  by unfold_locales (simp_all add: std_bn_def lift2_def cmp2_def print_rat_def parse_num_dec
      parse_num_hex [simplified])

text \<open>\<open>scenario_bn\<close> is under the configuration of the scenario suites, \<open>default_bn\<close> under the default.\<close>

abbreviation scenario_bn :: "rat option bn_api" where
  "scenario_bn \<equiv> std_bn ROUND_DOWN 0"

abbreviation default_bn :: "rat option bn_api" where
  "default_bn \<equiv> std_bn ROUND_HALF_UP 20"

interpretation default: bignumber default_bn id ROUND_HALF_UP 20
  by (rule std_bn_bignumber)

lemma scenario_bignumber_int: "bignumber_int scenario_bn id"
  unfolding bignumber_int_def by (rule std_bn_bignumber)

interpretation scenario: bignumber_int scenario_bn id
  by (rule scenario_bignumber_int)

end
