(* ===== verification/RayMath.thy ===== *)
theory RayMath
  imports BigNumber
begin

text \<open>
  The fixed-point arithmetic the expected-value calculations use: the constants of
  \<^verbatim>\<open>helpers/constants.ts\<close> and the BigNumber methods that
  \<^verbatim>\<open>test-suites/test-ftm/helpers/utils/math.ts\<close> adds to the prototype (the file of the other
  market is the same). Beside each method stands the integer function it computes under the
  scenario configuration, its specification.
\<close>

section \<open>Constants\<close>

definition PERCENTAGE_FACTOR :: int where "PERCENTAGE_FACTOR = 10000"
definition HALF_PERCENTAGE :: int where "HALF_PERCENTAGE = 5000"
definition WAD :: int where "WAD = 10 ^ 18"
definition HALF_WAD :: int where "HALF_WAD = WAD div 2"
definition RAY :: int where "RAY = 10 ^ 27"
definition HALF_RAY :: int where "HALF_RAY = RAY div 2"
definition WAD_RAY_RATIO :: int where "WAD_RAY_RATIO = 10 ^ 9"
definition ONE_YEAR :: int where "ONE_YEAR = 31536000"

definition MAX_UINT_AMOUNT :: string where
  "MAX_UINT_AMOUNT =
     ''115792089237316195423570985008687907853269984665640564039457584007913129639935''"

definition ZERO_ADDRESS :: string where
  "ZERO_ADDRESS = ''0x0000000000000000000000000000000000000000''"

lemmas constant_defs = PERCENTAGE_FACTOR_def HALF_PERCENTAGE_def WAD_def HALF_WAD_def RAY_def
  HALF_RAY_def WAD_RAY_RATIO_def ONE_YEAR_def

lemma constants_pos:
  "0 < PERCENTAGE_FACTOR" "0 < HALF_PERCENTAGE" "0 < WAD" "0 < HALF_WAD" "0 < RAY" "0 < HALF_RAY"
  "0 < WAD_RAY_RATIO" "0 < ONE_YEAR"
  by (simp_all add: constant_defs)

lemma constants_nonneg [simp]:
  "0 \<le> PERCENTAGE_FACTOR" "0 \<le> HALF_PERCENTAGE" "0 \<le> WAD" "0 \<le> HALF_WAD" "0 \<le> RAY" "0 \<le> HALF_RAY"
  "0 \<le> WAD_RAY_RATIO" "0 \<le> ONE_YEAR"
  "PERCENTAGE_FACTOR \<noteq> 0" "WAD \<noteq> 0" "RAY \<noteq> 0" "WAD_RAY_RATIO \<noteq> 0" "ONE_YEAR \<noteq> 0"
  by (simp_all add: constant_defs)

lemma two_HALF_RAY: "2 * HALF_RAY = RAY"
  by (simp add: constant_defs)

section \<open>The prototype methods\<close>

definition bn_ray :: "'b bn_api \<Rightarrow> 'b" where
  "bn_ray B = bn_dp B (bn_of B RAY)"

definition bn_wad :: "'b bn_api \<Rightarrow> 'b" where
  "bn_wad B = bn_dp B (bn_of B WAD)"

definition halfRay :: "'b bn_api \<Rightarrow> 'b" where
  "halfRay B = bn_dp0 B (bn_of B HALF_RAY)"

definition halfWad :: "'b bn_api \<Rightarrow> 'b" where
  "halfWad B = bn_dp0 B (bn_of B HALF_WAD)"

definition wadMul :: "'b bn_api \<Rightarrow> 'b \<Rightarrow> 'b \<Rightarrow> 'b" where
  "wadMul B this b = bn_dp0 B (bn_div B (bn_plus B (halfWad B) (bn_times B this b)) (bn_of B WAD))"

definition wadDiv :: "'b bn_api \<Rightarrow> 'b \<Rightarrow> 'b \<Rightarrow> 'b" where
  "wadDiv B this a =
     (let halfA = bn_dp0 B (bn_div B a (bn_of B 2))
      in bn_dp0 B (bn_div B (bn_plus B halfA (bn_times B this (bn_of B WAD))) a))"

definition rayMul :: "'b bn_api \<Rightarrow> 'b \<Rightarrow> 'b \<Rightarrow> 'b" where
  "rayMul B this a = bn_dp0 B (bn_div B (bn_plus B (halfRay B) (bn_times B this a)) (bn_of B RAY))"

definition rayDiv :: "'b bn_api \<Rightarrow> 'b \<Rightarrow> 'b \<Rightarrow> 'b" where
  "rayDiv B this a =
     (let halfA = bn_dp0 B (bn_div B a (bn_of B 2))
      in bn_dp0 B (bn_div B (bn_dp0 B (bn_plus B halfA (bn_times B this (bn_of B RAY)))) a))"

definition rayToWad :: "'b bn_api \<Rightarrow> 'b \<Rightarrow> 'b" where
  "rayToWad B this =
     (let halfRatio = bn_div B (bn_of B WAD_RAY_RATIO) (bn_of B 2)
      in bn_dp0 B (bn_div B (bn_plus B halfRatio this) (bn_of B WAD_RAY_RATIO)))"

definition wadToRay :: "'b bn_api \<Rightarrow> 'b \<Rightarrow> 'b" where
  "wadToRay B this = bn_dp0 B (bn_times B this (bn_of B WAD_RAY_RATIO))"

definition halfPercentage :: "'b bn_api \<Rightarrow> 'b" where
  "halfPercentage B = bn_dp0 B (bn_of B HALF_PERCENTAGE)"

definition percentMul :: "'b bn_api \<Rightarrow> 'b \<Rightarrow> 'b \<Rightarrow> 'b" where
  "percentMul B this b =
     bn_dp0 B (bn_div B (bn_plus B (halfPercentage B) (bn_times B this b)) (bn_of B PERCENTAGE_FACTOR))"

definition percentDiv :: "'b bn_api \<Rightarrow> 'b \<Rightarrow> 'b \<Rightarrow> 'b" where
  "percentDiv B this a =
     (let halfA = bn_dp0 B (bn_div B a (bn_of B 2))
      in bn_dp0 B (bn_div B (bn_plus B halfA (bn_times B this (bn_of B PERCENTAGE_FACTOR))) a))"

section \<open>Their specification on integers\<close>

definition mul_spec :: "int \<Rightarrow> int \<Rightarrow> int \<Rightarrow> int \<Rightarrow> int" where
  "mul_spec unit half m n = (half + m * n) sdiv unit"

definition div_spec :: "int \<Rightarrow> int \<Rightarrow> int \<Rightarrow> int" where
  "div_spec unit m n = (n sdiv 2 + m * unit) sdiv n"

abbreviation ray_mul :: "int \<Rightarrow> int \<Rightarrow> int" where "ray_mul \<equiv> mul_spec RAY HALF_RAY"
abbreviation ray_div :: "int \<Rightarrow> int \<Rightarrow> int" where "ray_div \<equiv> div_spec RAY"
abbreviation wad_mul :: "int \<Rightarrow> int \<Rightarrow> int" where "wad_mul \<equiv> mul_spec WAD HALF_WAD"
abbreviation wad_div :: "int \<Rightarrow> int \<Rightarrow> int" where "wad_div \<equiv> div_spec WAD"
abbreviation percent_mul :: "int \<Rightarrow> int \<Rightarrow> int" where "percent_mul \<equiv> mul_spec PERCENTAGE_FACTOR HALF_PERCENTAGE"
abbreviation percent_div :: "int \<Rightarrow> int \<Rightarrow> int" where "percent_div \<equiv> div_spec PERCENTAGE_FACTOR"

context bignumber_int
begin

lemma denotes_rayMul:
  "denotes val x m \<Longrightarrow> denotes val y n \<Longrightarrow> denotes val (rayMul B x y) (ray_mul m n)"
  by (simp add: rayMul_def halfRay_def mul_spec_def denotes_rules)

lemma denotes_wadMul:
  "denotes val x m \<Longrightarrow> denotes val y n \<Longrightarrow> denotes val (wadMul B x y) (wad_mul m n)"
  by (simp add: wadMul_def halfWad_def mul_spec_def denotes_rules)

lemma denotes_percentMul:
  "denotes val x m \<Longrightarrow> denotes val y n \<Longrightarrow> denotes val (percentMul B x y) (percent_mul m n)"
  by (simp add: percentMul_def halfPercentage_def mul_spec_def denotes_rules)

lemma denotes_rayDiv:
  "denotes val x m \<Longrightarrow> denotes val y n \<Longrightarrow> n \<noteq> 0 \<Longrightarrow> denotes val (rayDiv B x y) (ray_div m n)"
  by (simp add: rayDiv_def Let_def div_spec_def denotes_rules)

lemma denotes_wadDiv:
  "denotes val x m \<Longrightarrow> denotes val y n \<Longrightarrow> n \<noteq> 0 \<Longrightarrow> denotes val (wadDiv B x y) (wad_div m n)"
  by (simp add: wadDiv_def Let_def div_spec_def denotes_rules)

lemma denotes_percentDiv:
  "denotes val x m \<Longrightarrow> denotes val y n \<Longrightarrow> n \<noteq> 0 \<Longrightarrow> denotes val (percentDiv B x y) (percent_div m n)"
  by (simp add: percentDiv_def Let_def div_spec_def denotes_rules)

lemma denotes_wadToRay: "denotes val x m \<Longrightarrow> denotes val (wadToRay B x) (m * WAD_RAY_RATIO)"
  by (simp add: wadToRay_def denotes_rules)

lemma denotes_rayToWad:
  "denotes val x m \<Longrightarrow> denotes val (rayToWad B x) ((WAD_RAY_RATIO sdiv 2 + m) sdiv WAD_RAY_RATIO)"
  by (simp add: rayToWad_def denotes_rules)

lemmas denotes_math = denotes_rayMul denotes_wadMul denotes_percentMul denotes_rayDiv denotes_wadDiv
  denotes_percentDiv denotes_wadToRay denotes_rayToWad

end

section \<open>Facts about the specification\<close>

lemma sdiv_nonneg: "0 \<le> a \<Longrightarrow> 0 \<le> (b::int) \<Longrightarrow> a sdiv b = a div b"
  by (cases "a = 0 \<or> b = 0") (auto simp: signed_divide_int_def)

lemma mul_spec_nonneg: "0 \<le> m \<Longrightarrow> 0 \<le> n \<Longrightarrow> 0 \<le> u \<Longrightarrow> 0 \<le> h \<Longrightarrow> mul_spec u h m n = (m * n + h) div u"
  by (simp add: mul_spec_def sdiv_nonneg add.commute)

lemma div_spec_nonneg: "0 \<le> m \<Longrightarrow> 0 < n \<Longrightarrow> 0 \<le> u \<Longrightarrow> div_spec u m n = (m * u + n div 2) div n"
  by (simp add: div_spec_def sdiv_nonneg add.commute)

lemma mul_spec_ge0: "0 \<le> m \<Longrightarrow> 0 \<le> n \<Longrightarrow> 0 < u \<Longrightarrow> 0 \<le> h \<Longrightarrow> 0 \<le> mul_spec u h m n"
  by (simp add: mul_spec_nonneg pos_imp_zdiv_nonneg_iff)

lemma div_spec_ge0: "0 \<le> m \<Longrightarrow> 0 < n \<Longrightarrow> 0 \<le> u \<Longrightarrow> 0 \<le> div_spec u m n"
  by (simp add: div_spec_nonneg pos_imp_zdiv_nonneg_iff)

lemma mul_spec_zero [simp]: "0 \<le> h \<Longrightarrow> h < u \<Longrightarrow> mul_spec u h 0 n = 0" "0 \<le> h \<Longrightarrow> h < u \<Longrightarrow> mul_spec u h m 0 = 0"
  by (simp_all add: mul_spec_def sdiv_nonneg)

lemma mul_spec_mono:
  "0 \<le> m \<Longrightarrow> m \<le> m' \<Longrightarrow> 0 \<le> n \<Longrightarrow> n \<le> n' \<Longrightarrow> 0 < u \<Longrightarrow> 0 \<le> h \<Longrightarrow> mul_spec u h m n \<le> mul_spec u h m' n'"
  by (simp add: mul_spec_nonneg zdiv_mono1 mult_mono)

lemma ray_mul_RAY: "0 \<le> m \<Longrightarrow> ray_mul m RAY = m" "0 \<le> m \<Longrightarrow> ray_mul RAY m = m"
  using constants_pos two_HALF_RAY
  by (simp_all add: mul_spec_nonneg div_add1_eq [of "m * RAY"] div_add1_eq [of "RAY * m"])

lemma ray_div_self: "0 < n \<Longrightarrow> ray_div n n = RAY"
  by (simp add: div_spec_nonneg)

text \<open>Growth: multiplying by at least one ray never shrinks an amount.\<close>

lemma ray_mul_ge: "0 \<le> m \<Longrightarrow> RAY \<le> n \<Longrightarrow> m \<le> ray_mul m n"
  using mul_spec_mono [of m m RAY n RAY HALF_RAY] by (simp add: ray_mul_RAY constants_pos)

lemma ray_mul_ge': "0 \<le> n \<Longrightarrow> RAY \<le> m \<Longrightarrow> n \<le> ray_mul m n"
  using mul_spec_mono [of RAY m n n RAY HALF_RAY] by (simp add: ray_mul_RAY constants_pos)

text \<open>Rounding: both operations are within half a unit of the exact value.\<close>

lemma ray_mul_error:
  assumes "0 \<le> m" "0 \<le> n"
  shows "\<bar>2 * (ray_mul m n * RAY - m * n)\<bar> \<le> RAY"
proof -
  let ?x = "m * n + HALF_RAY"
  have "ray_mul m n * RAY = ?x - ?x mod RAY"
    using assms by (simp add: mul_spec_nonneg minus_mod_eq_div_mult)
  then have "2 * (ray_mul m n * RAY - m * n) = RAY - 2 * (?x mod RAY)"
    using two_HALF_RAY by simp
  moreover have "0 \<le> ?x mod RAY" "?x mod RAY < RAY"
    using constants_pos by simp_all
  ultimately show ?thesis by simp
qed

lemma ray_div_error:
  assumes "0 \<le> m" "0 < n"
  shows "\<bar>2 * (ray_div m n * n - m * RAY)\<bar> \<le> n"
proof -
  let ?x = "m * RAY + n div 2"
  have "ray_div m n * n = ?x - ?x mod n"
    using assms by (simp add: div_spec_nonneg minus_mod_eq_div_mult)
  then have "2 * (ray_div m n * n - m * RAY) = 2 * (n div 2) - 2 * (?x mod n)"
    by simp
  moreover have "0 \<le> ?x mod n" "?x mod n < n"
    using assms by simp_all
  moreover have "n - 1 \<le> 2 * (n div 2)" "2 * (n div 2) \<le> n"
    by linarith+
  ultimately show ?thesis by simp
qed

text \<open>
  Scaling an amount up by an index of at least one ray and down again gives the amount back: the
  two roundings cancel.
\<close>

lemma div_unique_int: "0 < (n::int) \<Longrightarrow> q * n \<le> m \<Longrightarrow> m < (q + 1) * n \<Longrightarrow> m div n = q"
  by (rule int_div_pos_eq [of m n q "m - q * n"]) (simp_all add: algebra_simps)

lemma ray_div_ray_mul:
  assumes "0 \<le> s" "RAY \<le> i"
  shows "ray_div (ray_mul s i) i = s"
proof -
  have i: "0 < i" "0 \<le> i" using assms constants_pos by simp_all
  let ?p = "ray_mul s i * RAY"
  have eq: "?p = s * i + HALF_RAY - (s * i + HALF_RAY) mod RAY"
    using assms i by (simp add: mul_spec_nonneg minus_mod_eq_div_mult)
  have "0 \<le> (s * i + HALF_RAY) mod RAY" "(s * i + HALF_RAY) mod RAY < RAY"
    using constants_pos by simp_all
  then have lo: "s * i - HALF_RAY < ?p" and hi: "?p \<le> s * i + HALF_RAY"
    using eq two_HALF_RAY by linarith+
  have half: "2 * (i div 2) \<le> i" "i - 1 \<le> 2 * (i div 2)" by linarith+
  have "s * i \<le> ?p + i div 2"
    using lo half two_HALF_RAY assms by linarith
  moreover have "?p + i div 2 < (s + 1) * i"
  proof (cases "i = RAY")
    case True
    then have "?p = s * i" using assms by (simp add: ray_mul_RAY)
    then show ?thesis using half i by (simp add: algebra_simps)
  next
    case False
    then show ?thesis using hi half two_HALF_RAY assms by (simp add: algebra_simps)
  qed
  ultimately have "(?p + i div 2) div i = s"
    using i by (intro div_unique_int)
  moreover have "0 \<le> ray_mul s i" using assms i by (simp add: mul_spec_ge0 constants_pos)
  ultimately show ?thesis using i by (simp add: div_spec_nonneg)
qed

lemma ray_div_zero [simp]: "0 < n \<Longrightarrow> ray_div 0 n = 0"
  by (simp add: div_spec_nonneg)

text \<open>Dividing by one ray changes nothing.\<close>

lemma ray_div_RAY [simp]: "0 \<le> m \<Longrightarrow> ray_div m RAY = m"
  using ray_div_ray_mul [of m RAY] by (simp add: ray_mul_RAY)

end
