(* ===== verification/PoolConfig.thy ===== *)
theory PoolConfig
  imports Runtime RayMath
begin

text \<open>
  The shape of a pool's configuration (\<open>IBaseConfiguration\<close> and what extends it in
  \<^verbatim>\<open>helpers/types.ts\<close>) and how the scripts read it. The fields that hold one address per network
  are one dictionary from field names to such objects, \<open>network_params\<close>: the three interfaces
  declare different ones, and the code casts between them, so reading a field the object does not
  have is \<open>undefined\<close>.
\<close>

section \<open>Objects\<close>

text \<open>\<open>{...ob, ...other}\<close>\<close>

definition obj_assign :: "'v obj \<Rightarrow> 'v obj \<Rightarrow> 'v obj" where
  "obj_assign ob other = foldl (\<lambda>acc (k, v). obj_set k v acc) ob other"

lemma obj_get_assign:
  "obj_get (obj_assign ob other) k = (case map_of (rev other) k of None \<Rightarrow> obj_get ob k | Some v \<Rightarrow> Some v)"
  by (induction other rule: rev_induct) (auto simp: obj_assign_def obj_get_def [of "[]"])

lemma obj_get_assign_distinct:
  "distinct (obj_keys other) \<Longrightarrow>
   obj_get (obj_assign ob other) k = (case obj_get other k of None \<Rightarrow> obj_get ob k | Some v \<Rightarrow> Some v)"
proof -
  assume d: "distinct (obj_keys other)"
  then have "map_of (rev other) = map_of other"
    by (intro map_of_inject_set [THEN iffD2]) (simp_all add: obj_keys_def rev_map [symmetric])
  then show ?thesis by (simp add: obj_get_assign obj_get_def [of other])
qed

section \<open>Configurations\<close>

record IProtocolGlobalConfig =
  TokenDistributorPercentageBase :: string
  MockUsdPriceInWei :: string
  UsdAddress :: tEthereumAddress
  NilAddress :: tEthereumAddress
  OneAddress :: tEthereumAddress
  SturdyReferral :: string

record IMarketRates =
  borrowRate :: string

record PoolConfiguration =
  MarketId :: string
  ATokenNamePrefix :: string
  StableDebtTokenNamePrefix :: string
  VariableDebtTokenNamePrefix :: string
  SymbolPrefix :: string
  ProviderId :: nat
  OracleQuoteCurrency :: string
  OracleQuoteUnit :: string
  ProtocolGlobalParams :: IProtocolGlobalConfig
  AllAssetsInitialPrices :: "string obj"
  LendingRateOracleRatesCommon :: "IMarketRates obj"
  PoolAdminIndex :: nat
  EmergencyAdminIndex :: nat
  ChainlinkAggregator :: "tEthereumAddress obj obj"
  ReserveAssets :: "tEthereumAddress obj obj"
  ReservesConfig :: "IReserveParams obj"
  network_params :: "js_val obj obj"

text \<open>
  \<open>getParamPerNetwork(config.<field>, network)\<close>: destructuring a field the configuration does not
  have is a \<open>TypeError\<close>, a network the field has no entry for is \<open>undefined\<close>.
\<close>

definition networkParam :: "'x runtime \<Rightarrow> PoolConfiguration \<Rightarrow> string \<Rightarrow> string \<Rightarrow> js_val result" where
  "networkParam rt config field network =
     bindR (deref (obj_get (network_params config) field)) (\<lambda>param.
     Inr (case getParamPerNetwork (env_FORK rt) param network of None \<Rightarrow> VUndef | Some v \<Rightarrow> v))"

text \<open>\<open>getParamPerNetwork(config.ReserveAssets, network).<symbol>\<close>\<close>

definition reserveAssetParam :: "'x runtime \<Rightarrow> PoolConfiguration \<Rightarrow> string \<Rightarrow> string \<Rightarrow> js_val result" where
  "reserveAssetParam rt config symbol network =
     bindR (deref (getParamPerNetwork (env_FORK rt) (ReserveAssets config) network)) (\<lambda>assets.
     Inr (opt_val (obj_get assets symbol)))"

section \<open>Mock prices\<close>

text \<open>\<open>MOCK_CHAINLINK_AGGREGATORS_PRICES\<close> of \<^verbatim>\<open>helpers/constants.ts\<close>; the products are exact.\<close>

definition MOCK_CHAINLINK_AGGREGATORS_PRICES :: "string obj" where
  "MOCK_CHAINLINK_AGGREGATORS_PRICES =
     [(''DAI'', dec 268047349837000),
      (''USDC'', dec 267347358572000),
      (''fUSDT'', dec 267347358572000),
      (''stETH'', dec WAD),
      (''WETH'', dec WAD),
      (''mooWETH'', dec WAD),
      (''yvWFTM'', dec 755893526540340),
      (''yvWETH'', dec WAD),
      (''yvWBTC'', dec 10721894060489825000),
      (''yvBOO'', dec 6178491452357300),
      (''TOMB'', dec 300213033693700),
      (''BASED'', dec 402071027268300),
      (''MIMATIC'', dec 298053312640600),
      (''mooTOMB_FTM'', dec 923113473941200),
      (''mooTOMB_MIMATIC'', dec 622386874934700),
      (''mooBASED_MIMATIC'', dec 694242640416700),
      (''yvLINK'', dec 5101000000000000),
      (''USD'', ''373068412860''),
      (''BEETS'', dec 228500000000000),
      (''yvfBEETS'', dec 220500000000000),
      (''yvCRV'', dec 81000000000000),
      (''yvSPELL'', dec 1508000000000),
      (''yvRETH_WSTETH'', dec 1000082660743120400),
      (''cvxRETH_WSTETH'', dec 1000082660743120400),
      (''cvxFRAX_3CRV'', dec 345364900000000),
      (''cvxSTECRV'', dec 999922423700000000),
      (''cvxDOLA_3CRV'', dec 345364900000000)]"

end
