(* ===== verification/Getters.thy ===== *)
theory Getters
  imports ContractsHelpers PoolConfig
begin

text \<open>
  \<^verbatim>\<open>helpers/contracts-getters.ts\<close>: attaching to a deployed contract at a given address or at the
  one the database records for it on the current network, and the pairing of assets with price
  aggregators.
\<close>

section \<open>Attaching to a contract\<close>

text \<open>
  \<open>address || (await getDb().get(`${id}.${DRE.network.name}`).value()).address\<close>: an absent entry is
  a \<open>TypeError\<close>.
\<close>

definition recordedAddress :: "'x runtime \<Rightarrow> tEthereumAddress option \<Rightarrow> eContractid \<Rightarrow> ('x, tEthereumAddress) io" where
  "recordedAddress rt addr cid =
     (case addr of
        Some a \<Rightarrow> if a \<noteq> [] then return_io a
                  else await (db_get rt cid) (\<lambda>e. await (lift_result (deref e)) (\<lambda>e. return_io (entry_address e)))
      | None \<Rightarrow> await (db_get rt cid) (\<lambda>e. await (lift_result (deref e)) (\<lambda>e. return_io (entry_address e))))"

definition getLendingPoolAddressesProvider :: "'x runtime \<Rightarrow> tEthereumAddress option \<Rightarrow> ('x, Instance) io" where
  "getLendingPoolAddressesProvider rt addr =
     await (recordedAddress rt addr ''LendingPoolAddressesProvider'') (\<lambda>address.
     await (getFirstSigner rt) (\<lambda>signer.
     return_io (attach ''LendingPoolAddressesProviderFactory'' address signer)))"

definition getLendingPoolConfiguratorProxy :: "'x runtime \<Rightarrow> tEthereumAddress option \<Rightarrow> ('x, Instance) io" where
  "getLendingPoolConfiguratorProxy rt addr =
     await (recordedAddress rt addr ''LendingPoolConfigurator'') (\<lambda>address.
     await (getFirstSigner rt) (\<lambda>signer.
     return_io (attach ''LendingPoolConfiguratorFactory'' address signer)))"

definition getPriceOracle :: "'x runtime \<Rightarrow> tEthereumAddress option \<Rightarrow> ('x, Instance) io" where
  "getPriceOracle rt addr =
     await (recordedAddress rt addr ''PriceOracle'') (\<lambda>address.
     await (getFirstSigner rt) (\<lambda>signer.
     return_io (attach ''PriceOracleFactory'' address signer)))"

definition getAToken :: "'x runtime \<Rightarrow> tEthereumAddress option \<Rightarrow> ('x, Instance) io" where
  "getAToken rt addr =
     await (recordedAddress rt addr ''AToken'') (\<lambda>address.
     await (getFirstSigner rt) (\<lambda>signer.
     return_io (attach ''ATokenFactory'' address signer)))"

definition getStableDebtToken :: "'x runtime \<Rightarrow> tEthereumAddress option \<Rightarrow> ('x, Instance) io" where
  "getStableDebtToken rt addr =
     await (recordedAddress rt addr ''StableDebtToken'') (\<lambda>address.
     await (getFirstSigner rt) (\<lambda>signer.
     return_io (attach ''StableDebtTokenFactory'' address signer)))"

definition getVariableDebtToken :: "'x runtime \<Rightarrow> tEthereumAddress option \<Rightarrow> ('x, Instance) io" where
  "getVariableDebtToken rt addr =
     await (recordedAddress rt addr ''VariableDebtToken'') (\<lambda>address.
     await (getFirstSigner rt) (\<lambda>signer.
     return_io (attach ''VariableDebtTokenFactory'' address signer)))"

definition getMintableERC20 :: "'x runtime \<Rightarrow> tEthereumAddress option \<Rightarrow> ('x, Instance) io" where
  "getMintableERC20 rt addr =
     await (recordedAddress rt addr ''MintableERC20'') (\<lambda>address.
     await (getFirstSigner rt) (\<lambda>signer.
     return_io (attach ''MintableERC20Factory'' address signer)))"

definition getSwapinERC20 :: "'x runtime \<Rightarrow> tEthereumAddress option \<Rightarrow> ('x, Instance) io" where
  "getSwapinERC20 rt addr =
     await (recordedAddress rt addr ''SwapinERC20'') (\<lambda>address.
     await (getFirstSigner rt) (\<lambda>signer.
     return_io (attach ''SwapinERC20Factory'' address signer)))"

definition getIErc20Detailed :: "'x runtime \<Rightarrow> tEthereumAddress option \<Rightarrow> ('x, Instance) io" where
  "getIErc20Detailed rt addr =
     await (recordedAddress rt addr ''IERC20Detailed'') (\<lambda>address.
     await (getFirstSigner rt) (\<lambda>signer.
     return_io (attach ''IERC20DetailedFactory'' address signer)))"

definition getSturdyProtocolDataProvider :: "'x runtime \<Rightarrow> tEthereumAddress option \<Rightarrow> ('x, Instance) io" where
  "getSturdyProtocolDataProvider rt addr =
     await (recordedAddress rt addr ''SturdyProtocolDataProvider'') (\<lambda>address.
     await (getFirstSigner rt) (\<lambda>signer.
     return_io (attach ''SturdyProtocolDataProviderFactory'' address signer)))"

definition getInterestRateStrategy :: "'x runtime \<Rightarrow> tEthereumAddress option \<Rightarrow> ('x, Instance) io" where
  "getInterestRateStrategy rt addr =
     await (recordedAddress rt addr ''DefaultReserveInterestRateStrategy'') (\<lambda>address.
     await (getFirstSigner rt) (\<lambda>signer.
     return_io (attach ''DefaultReserveInterestRateStrategyFactory'' address signer)))"

definition getLendingRateOracle :: "'x runtime \<Rightarrow> tEthereumAddress option \<Rightarrow> ('x, Instance) io" where
  "getLendingRateOracle rt addr =
     await (recordedAddress rt addr ''LendingRateOracle'') (\<lambda>address.
     await (getFirstSigner rt) (\<lambda>signer.
     return_io (attach ''LendingRateOracleFactory'' address signer)))"

definition getReserveLogic :: "'x runtime \<Rightarrow> tEthereumAddress option \<Rightarrow> ('x, Instance) io" where
  "getReserveLogic rt addr =
     await (recordedAddress rt addr ''ReserveLogic'') (\<lambda>address.
     await (getFirstSigner rt) (\<lambda>signer.
     return_io (attach ''ReserveLogicFactory'' address signer)))"

definition getGenericLogic :: "'x runtime \<Rightarrow> tEthereumAddress option \<Rightarrow> ('x, Instance) io" where
  "getGenericLogic rt addr =
     await (recordedAddress rt addr ''GenericLogic'') (\<lambda>address.
     await (getFirstSigner rt) (\<lambda>signer.
     return_io (attach ''GenericLogicFactory'' address signer)))"

definition getStableAndVariableTokensHelper :: "'x runtime \<Rightarrow> tEthereumAddress option \<Rightarrow> ('x, Instance) io" where
  "getStableAndVariableTokensHelper rt addr =
     await (recordedAddress rt addr ''StableAndVariableTokensHelper'') (\<lambda>address.
     await (getFirstSigner rt) (\<lambda>signer.
     return_io (attach ''StableAndVariableTokensHelperFactory'' address signer)))"

definition getATokensAndRatesHelper :: "'x runtime \<Rightarrow> tEthereumAddress option \<Rightarrow> ('x, Instance) io" where
  "getATokensAndRatesHelper rt addr =
     await (recordedAddress rt addr ''ATokensAndRatesHelper'') (\<lambda>address.
     await (getFirstSigner rt) (\<lambda>signer.
     return_io (attach ''ATokensAndRatesHelperFactory'' address signer)))"

definition getWETHMocked :: "'x runtime \<Rightarrow> tEthereumAddress option \<Rightarrow> ('x, Instance) io" where
  "getWETHMocked rt addr =
     await (recordedAddress rt addr ''WETHMocked'') (\<lambda>address.
     await (getFirstSigner rt) (\<lambda>signer.
     return_io (attach ''WETH9MockedFactory'' address signer)))"

definition getMockAToken :: "'x runtime \<Rightarrow> tEthereumAddress option \<Rightarrow> ('x, Instance) io" where
  "getMockAToken rt addr =
     await (recordedAddress rt addr ''MockAToken'') (\<lambda>address.
     await (getFirstSigner rt) (\<lambda>signer.
     return_io (attach ''MockATokenFactory'' address signer)))"

definition getMockVariableDebtToken :: "'x runtime \<Rightarrow> tEthereumAddress option \<Rightarrow> ('x, Instance) io" where
  "getMockVariableDebtToken rt addr =
     await (recordedAddress rt addr ''MockVariableDebtToken'') (\<lambda>address.
     await (getFirstSigner rt) (\<lambda>signer.
     return_io (attach ''MockVariableDebtTokenFactory'' address signer)))"

definition getMockStableDebtToken :: "'x runtime \<Rightarrow> tEthereumAddress option \<Rightarrow> ('x, Instance) io" where
  "getMockStableDebtToken rt addr =
     await (recordedAddress rt addr ''MockStableDebtToken'') (\<lambda>address.
     await (getFirstSigner rt) (\<lambda>signer.
     return_io (attach ''MockStableDebtTokenFactory'' address signer)))"

definition getLendingPoolImpl :: "'x runtime \<Rightarrow> tEthereumAddress option \<Rightarrow> ('x, Instance) io" where
  "getLendingPoolImpl rt addr =
     await (recordedAddress rt addr ''LendingPoolImpl'') (\<lambda>address.
     await (getFirstSigner rt) (\<lambda>signer.
     return_io (attach ''LendingPoolFactory'' address signer)))"

definition getLendingPoolConfiguratorImpl :: "'x runtime \<Rightarrow> tEthereumAddress option \<Rightarrow> ('x, Instance) io" where
  "getLendingPoolConfiguratorImpl rt addr =
     await (recordedAddress rt addr ''LendingPoolConfiguratorImpl'') (\<lambda>address.
     await (getFirstSigner rt) (\<lambda>signer.
     return_io (attach ''LendingPoolConfiguratorFactory'' address signer)))"

definition getLendingPoolCollateralManagerImpl :: "'x runtime \<Rightarrow> tEthereumAddress option \<Rightarrow> ('x, Instance) io" where
  "getLendingPoolCollateralManagerImpl rt addr =
     await (recordedAddress rt addr ''LendingPoolCollateralManagerImpl'') (\<lambda>address.
     await (getFirstSigner rt) (\<lambda>signer.
     return_io (attach ''LendingPoolCollateralManagerFactory'' address signer)))"

definition getLendingPoolCollateralManager :: "'x runtime \<Rightarrow> tEthereumAddress option \<Rightarrow> ('x, Instance) io" where
  "getLendingPoolCollateralManager rt addr =
     await (recordedAddress rt addr ''LendingPoolCollateralManager'') (\<lambda>address.
     await (getFirstSigner rt) (\<lambda>signer.
     return_io (attach ''LendingPoolCollateralManagerFactory'' address signer)))"

definition getSturdyOracle :: "'x runtime \<Rightarrow> tEthereumAddress option \<Rightarrow> ('x, Instance) io" where
  "getSturdyOracle rt addr =
     await (recordedAddress rt addr ''SturdyOracle'') (\<lambda>address.
     await (getFirstSigner rt) (\<lambda>signer.
     return_io (attach ''SturdyOracleFactory'' address signer)))"

definition getBooOracle :: "'x runtime \<Rightarrow> tEthereumAddress option \<Rightarrow> ('x, Instance) io" where
  "getBooOracle rt addr =
     await (recordedAddress rt addr ''BooOracle'') (\<lambda>address.
     await (getFirstSigner rt) (\<lambda>signer.
     return_io (attach ''BooOracleFactory'' address signer)))"

definition getTombOracle :: "'x runtime \<Rightarrow> tEthereumAddress option \<Rightarrow> ('x, Instance) io" where
  "getTombOracle rt addr =
     await (recordedAddress rt addr ''TombOracle'') (\<lambda>address.
     await (getFirstSigner rt) (\<lambda>signer.
     return_io (attach ''TombOracleFactory'' address signer)))"

definition getTombFtmLPOracle :: "'x runtime \<Rightarrow> tEthereumAddress option \<Rightarrow> ('x, Instance) io" where
  "getTombFtmLPOracle rt addr =
     await (recordedAddress rt addr ''TombFtmLPOracle'') (\<lambda>address.
     await (getFirstSigner rt) (\<lambda>signer.
     return_io (attach ''TombFtmLPOracleFactory'' address signer)))"

definition getTombMiMaticLPOracle :: "'x runtime \<Rightarrow> tEthereumAddress option \<Rightarrow> ('x, Instance) io" where
  "getTombMiMaticLPOracle rt addr =
     await (recordedAddress rt addr ''TombMiMaticLPOracle'') (\<lambda>address.
     await (getFirstSigner rt) (\<lambda>signer.
     return_io (attach ''TombMiMaticLPOracleFactory'' address signer)))"

definition getBasedOracle :: "'x runtime \<Rightarrow> tEthereumAddress option \<Rightarrow> ('x, Instance) io" where
  "getBasedOracle rt addr =
     await (recordedAddress rt addr ''BasedOracle'') (\<lambda>address.
     await (getFirstSigner rt) (\<lambda>signer.
     return_io (attach ''BasedOracleFactory'' address signer)))"

definition getBasedMiMaticLPOracle :: "'x runtime \<Rightarrow> tEthereumAddress option \<Rightarrow> ('x, Instance) io" where
  "getBasedMiMaticLPOracle rt addr =
     await (recordedAddress rt addr ''BasedMiMaticLPOracle'') (\<lambda>address.
     await (getFirstSigner rt) (\<lambda>signer.
     return_io (attach ''BasedMiMaticLPOracleFactory'' address signer)))"

definition getLendingPool :: "'x runtime \<Rightarrow> tEthereumAddress option \<Rightarrow> ('x, Instance) io" where
  "getLendingPool rt addr =
     await (recordedAddress rt addr ''LendingPool'') (\<lambda>address.
     await (getFirstSigner rt) (\<lambda>signer.
     return_io (attach ''LendingPoolFactory'' address signer)))"

definition getLidoVaultImpl :: "'x runtime \<Rightarrow> tEthereumAddress option \<Rightarrow> ('x, Instance) io" where
  "getLidoVaultImpl rt addr =
     await (recordedAddress rt addr ''LidoVaultImpl'') (\<lambda>address.
     await (getFirstSigner rt) (\<lambda>signer.
     return_io (attach ''LidoVaultFactory'' address signer)))"

definition getLidoVault :: "'x runtime \<Rightarrow> tEthereumAddress option \<Rightarrow> ('x, Instance) io" where
  "getLidoVault rt addr =
     await (recordedAddress rt addr ''LidoVault'') (\<lambda>address.
     await (getFirstSigner rt) (\<lambda>signer.
     return_io (attach ''LidoVaultFactory'' address signer)))"

definition getYearnRETHWstETHVaultImpl :: "'x runtime \<Rightarrow> tEthereumAddress option \<Rightarrow> ('x, Instance) io" where
  "getYearnRETHWstETHVaultImpl rt addr =
     await (recordedAddress rt addr ''YearnRETHWstETHVaultImpl'') (\<lambda>address.
     await (getFirstSigner rt) (\<lambda>signer.
     return_io (attach ''YearnRETHWstETHVaultFactory'' address signer)))"

definition getYearnRETHWstETHVault :: "'x runtime \<Rightarrow> tEthereumAddress option \<Rightarrow> ('x, Instance) io" where
  "getYearnRETHWstETHVault rt addr =
     await (recordedAddress rt addr ''YearnRETHWstETHVault'') (\<lambda>address.
     await (getFirstSigner rt) (\<lambda>signer.
     return_io (attach ''YearnRETHWstETHVaultFactory'' address signer)))"

definition getConvexRocketPoolETHVaultImpl :: "'x runtime \<Rightarrow> tEthereumAddress option \<Rightarrow> ('x, Instance) io" where
  "getConvexRocketPoolETHVaultImpl rt addr =
     await (recordedAddress rt addr ''ConvexRocketPoolETHVaulttImpl'') (\<lambda>address.
     await (getFirstSigner rt) (\<lambda>signer.
     return_io (attach ''ConvexCurveLPVaultFactory'' address signer)))"

definition getConvexRocketPoolETHVault :: "'x runtime \<Rightarrow> tEthereumAddress option \<Rightarrow> ('x, Instance) io" where
  "getConvexRocketPoolETHVault rt addr =
     await (recordedAddress rt addr ''ConvexRocketPoolETHVault'') (\<lambda>address.
     await (getFirstSigner rt) (\<lambda>signer.
     return_io (attach ''ConvexCurveLPVaultFactory'' address signer)))"

definition getConvexFRAX3CRVVault :: "'x runtime \<Rightarrow> tEthereumAddress option \<Rightarrow> ('x, Instance) io" where
  "getConvexFRAX3CRVVault rt addr =
     await (recordedAddress rt addr ''ConvexFRAX3CRVVault'') (\<lambda>address.
     await (getFirstSigner rt) (\<lambda>signer.
     return_io (attach ''ConvexCurveLPVaultFactory'' address signer)))"

definition getConvexSTETHVault :: "'x runtime \<Rightarrow> tEthereumAddress option \<Rightarrow> ('x, Instance) io" where
  "getConvexSTETHVault rt addr =
     await (recordedAddress rt addr ''ConvexSTETHVault'') (\<lambda>address.
     await (getFirstSigner rt) (\<lambda>signer.
     return_io (attach ''ConvexCurveLPVaultFactory'' address signer)))"

definition getConvexDOLA3CRVVault :: "'x runtime \<Rightarrow> tEthereumAddress option \<Rightarrow> ('x, Instance) io" where
  "getConvexDOLA3CRVVault rt addr =
     await (recordedAddress rt addr ''ConvexDOLA3CRVVault'') (\<lambda>address.
     await (getFirstSigner rt) (\<lambda>signer.
     return_io (attach ''ConvexCurveLPVaultFactory'' address signer)))"

definition getYearnVaultImpl :: "'x runtime \<Rightarrow> tEthereumAddress option \<Rightarrow> ('x, Instance) io" where
  "getYearnVaultImpl rt addr =
     await (recordedAddress rt addr ''YearnVaultImpl'') (\<lambda>address.
     await (getFirstSigner rt) (\<lambda>signer.
     return_io (attach ''YearnVaultFactory'' address signer)))"

definition getYearnVault :: "'x runtime \<Rightarrow> tEthereumAddress option \<Rightarrow> ('x, Instance) io" where
  "getYearnVault rt addr =
     await (recordedAddress rt addr ''YearnVault'') (\<lambda>address.
     await (getFirstSigner rt) (\<lambda>signer.
     return_io (attach ''YearnVaultFactory'' address signer)))"

definition getYearnWETHVaultImpl :: "'x runtime \<Rightarrow> tEthereumAddress option \<Rightarrow> ('x, Instance) io" where
  "getYearnWETHVaultImpl rt addr =
     await (recordedAddress rt addr ''YearnWETHVaultImpl'') (\<lambda>address.
     await (getFirstSigner rt) (\<lambda>signer.
     return_io (attach ''YearnWETHVaultFactory'' address signer)))"

definition getYearnWETHVault :: "'x runtime \<Rightarrow> tEthereumAddress option \<Rightarrow> ('x, Instance) io" where
  "getYearnWETHVault rt addr =
     await (recordedAddress rt addr ''YearnWETHVault'') (\<lambda>address.
     await (getFirstSigner rt) (\<lambda>signer.
     return_io (attach ''YearnWETHVaultFactory'' address signer)))"

definition getYearnWBTCVaultImpl :: "'x runtime \<Rightarrow> tEthereumAddress option \<Rightarrow> ('x, Instance) io" where
  "getYearnWBTCVaultImpl rt addr =
     await (recordedAddress rt addr ''YearnWBTCVaultImpl'') (\<lambda>address.
     await (getFirstSigner rt) (\<lambda>signer.
     return_io (attach ''YearnWBTCVaultFactory'' address signer)))"

definition getYearnWBTCVault :: "'x runtime \<Rightarrow> tEthereumAddress option \<Rightarrow> ('x, Instance) io" where
  "getYearnWBTCVault rt addr =
     await (recordedAddress rt addr ''YearnWBTCVault'') (\<lambda>address.
     await (getFirstSigner rt) (\<lambda>signer.
     return_io (attach ''YearnWBTCVaultFactory'' address signer)))"

definition getYearnBOOVaultImpl :: "'x runtime \<Rightarrow> tEthereumAddress option \<Rightarrow> ('x, Instance) io" where
  "getYearnBOOVaultImpl rt addr =
     await (recordedAddress rt addr ''YearnBOOVaultImpl'') (\<lambda>address.
     await (getFirstSigner rt) (\<lambda>signer.
     return_io (attach ''YearnBOOVaultFactory'' address signer)))"

definition getYearnBOOVault :: "'x runtime \<Rightarrow> tEthereumAddress option \<Rightarrow> ('x, Instance) io" where
  "getYearnBOOVault rt addr =
     await (recordedAddress rt addr ''YearnBOOVault'') (\<lambda>address.
     await (getFirstSigner rt) (\<lambda>signer.
     return_io (attach ''YearnBOOVaultFactory'' address signer)))"

definition getTombFtmBeefyVaultImpl :: "'x runtime \<Rightarrow> tEthereumAddress option \<Rightarrow> ('x, Instance) io" where
  "getTombFtmBeefyVaultImpl rt addr =
     await (recordedAddress rt addr ''TombFtmBeefyVaultImpl'') (\<lambda>address.
     await (getFirstSigner rt) (\<lambda>signer.
     return_io (attach ''TombFtmBeefyVaultFactory'' address signer)))"

definition getTombFtmBeefyVault :: "'x runtime \<Rightarrow> tEthereumAddress option \<Rightarrow> ('x, Instance) io" where
  "getTombFtmBeefyVault rt addr =
     await (recordedAddress rt addr ''TombFtmBeefyVault'') (\<lambda>address.
     await (getFirstSigner rt) (\<lambda>signer.
     return_io (attach ''TombFtmBeefyVaultFactory'' address signer)))"

definition getTombMiMaticBeefyVaultImpl :: "'x runtime \<Rightarrow> tEthereumAddress option \<Rightarrow> ('x, Instance) io" where
  "getTombMiMaticBeefyVaultImpl rt addr =
     await (recordedAddress rt addr ''TombMiMaticBeefyVaultImpl'') (\<lambda>address.
     await (getFirstSigner rt) (\<lambda>signer.
     return_io (attach ''TombMimaticBeefyVaultFactory'' address signer)))"

definition getTombMiMaticBeefyVault :: "'x runtime \<Rightarrow> tEthereumAddress option \<Rightarrow> ('x, Instance) io" where
  "getTombMiMaticBeefyVault rt addr =
     await (recordedAddress rt addr ''TombMiMaticBeefyVault'') (\<lambda>address.
     await (getFirstSigner rt) (\<lambda>signer.
     return_io (attach ''TombMimaticBeefyVaultFactory'' address signer)))"

definition getBasedMiMaticBeefyVaultImpl :: "'x runtime \<Rightarrow> tEthereumAddress option \<Rightarrow> ('x, Instance) io" where
  "getBasedMiMaticBeefyVaultImpl rt addr =
     await (recordedAddress rt addr ''BasedMiMaticBeefyVaultImpl'') (\<lambda>address.
     await (getFirstSigner rt) (\<lambda>signer.
     return_io (attach ''BasedMimaticBeefyVaultFactory'' address signer)))"

definition getBasedMiMaticBeefyVault :: "'x runtime \<Rightarrow> tEthereumAddress option \<Rightarrow> ('x, Instance) io" where
  "getBasedMiMaticBeefyVault rt addr =
     await (recordedAddress rt addr ''BasedMiMaticBeefyVault'') (\<lambda>address.
     await (getFirstSigner rt) (\<lambda>signer.
     return_io (attach ''BasedMimaticBeefyVaultFactory'' address signer)))"

definition getYearnFBEETSVaultImpl :: "'x runtime \<Rightarrow> tEthereumAddress option \<Rightarrow> ('x, Instance) io" where
  "getYearnFBEETSVaultImpl rt addr =
     await (recordedAddress rt addr ''YearnFBEETSVaultImpl'') (\<lambda>address.
     await (getFirstSigner rt) (\<lambda>signer.
     return_io (attach ''YearnFBEETSVaultFactory'' address signer)))"

definition getYearnFBEETSVault :: "'x runtime \<Rightarrow> tEthereumAddress option \<Rightarrow> ('x, Instance) io" where
  "getYearnFBEETSVault rt addr =
     await (recordedAddress rt addr ''YearnFBEETSVault'') (\<lambda>address.
     await (getFirstSigner rt) (\<lambda>signer.
     return_io (attach ''YearnFBEETSVaultFactory'' address signer)))"

definition getYearnLINKVault :: "'x runtime \<Rightarrow> tEthereumAddress option \<Rightarrow> ('x, Instance) io" where
  "getYearnLINKVault rt addr =
     await (recordedAddress rt addr ''YearnLINKVault'') (\<lambda>address.
     await (getFirstSigner rt) (\<lambda>signer.
     return_io (attach ''YearnLINKVaultFactory'' address signer)))"

definition getBeefyETHVault :: "'x runtime \<Rightarrow> tEthereumAddress option \<Rightarrow> ('x, Instance) io" where
  "getBeefyETHVault rt addr =
     await (recordedAddress rt addr ''BeefyETHVault'') (\<lambda>address.
     await (getFirstSigner rt) (\<lambda>signer.
     return_io (attach ''BeefyETHVaultFactory'' address signer)))"

definition getYearnCRVVault :: "'x runtime \<Rightarrow> tEthereumAddress option \<Rightarrow> ('x, Instance) io" where
  "getYearnCRVVault rt addr =
     await (recordedAddress rt addr ''YearnCRVVault'') (\<lambda>address.
     await (getFirstSigner rt) (\<lambda>signer.
     return_io (attach ''YearnCRVVaultFactory'' address signer)))"

definition getYearnSPELLVault :: "'x runtime \<Rightarrow> tEthereumAddress option \<Rightarrow> ('x, Instance) io" where
  "getYearnSPELLVault rt addr =
     await (recordedAddress rt addr ''YearnSPELLVault'') (\<lambda>address.
     await (getFirstSigner rt) (\<lambda>signer.
     return_io (attach ''YearnSPELLVaultFactory'' address signer)))"

definition getWalletProvider :: "'x runtime \<Rightarrow> tEthereumAddress option \<Rightarrow> ('x, Instance) io" where
  "getWalletProvider rt addr =
     await (recordedAddress rt addr ''WalletBalanceProvider'') (\<lambda>address.
     await (getFirstSigner rt) (\<lambda>signer.
     return_io (attach ''WalletBalanceProviderFactory'' address signer)))"

definition getUiPoolDataProvider :: "'x runtime \<Rightarrow> tEthereumAddress option \<Rightarrow> ('x, Instance) io" where
  "getUiPoolDataProvider rt addr =
     await (recordedAddress rt addr ''UiPoolDataProvider'') (\<lambda>address.
     await (getFirstSigner rt) (\<lambda>signer.
     return_io (attach ''UiPoolDataProviderFactory'' address signer)))"

definition getUiIncentiveDataProvider :: "'x runtime \<Rightarrow> tEthereumAddress option \<Rightarrow> ('x, Instance) io" where
  "getUiIncentiveDataProvider rt addr =
     await (recordedAddress rt addr ''UiIncentiveDataProvider'') (\<lambda>address.
     await (getFirstSigner rt) (\<lambda>signer.
     return_io (attach ''UiIncentiveDataProviderFactory'' address signer)))"

definition getSturdyIncentivesControllerImpl :: "'x runtime \<Rightarrow> tEthereumAddress option \<Rightarrow> ('x, Instance) io" where
  "getSturdyIncentivesControllerImpl rt addr =
     await (recordedAddress rt addr ''StakedTokenIncentivesControllerImpl'') (\<lambda>address.
     await (getFirstSigner rt) (\<lambda>signer.
     return_io (attach ''StakedTokenIncentivesControllerFactory'' address signer)))"

definition getSturdyIncentivesController :: "'x runtime \<Rightarrow> tEthereumAddress option \<Rightarrow> ('x, Instance) io" where
  "getSturdyIncentivesController rt addr =
     await (recordedAddress rt addr ''StakedTokenIncentivesController'') (\<lambda>address.
     await (getFirstSigner rt) (\<lambda>signer.
     return_io (attach ''StakedTokenIncentivesControllerFactory'' address signer)))"

definition getSturdyTokenImpl :: "'x runtime \<Rightarrow> tEthereumAddress option \<Rightarrow> ('x, Instance) io" where
  "getSturdyTokenImpl rt addr =
     await (recordedAddress rt addr ''SturdyTokenImpl'') (\<lambda>address.
     await (getFirstSigner rt) (\<lambda>signer.
     return_io (attach ''SturdyTokenFactory'' address signer)))"

definition getSturdyToken :: "'x runtime \<Rightarrow> tEthereumAddress option \<Rightarrow> ('x, Instance) io" where
  "getSturdyToken rt addr =
     await (recordedAddress rt addr ''SturdyToken'') (\<lambda>address.
     await (getFirstSigner rt) (\<lambda>signer.
     return_io (attach ''SturdyTokenFactory'' address signer)))"

definition getCollateralAdapter :: "'x runtime \<Rightarrow> tEthereumAddress option \<Rightarrow> ('x, Instance) io" where
  "getCollateralAdapter rt addr =
     await (recordedAddress rt addr ''CollateralAdapter'') (\<lambda>address.
     await (getFirstSigner rt) (\<lambda>signer.
     return_io (attach ''CollateralAdapterFactory'' address signer)))"

definition getMockyvWFTM :: "'x runtime \<Rightarrow> tEthereumAddress option \<Rightarrow> ('x, Instance) io" where
  "getMockyvWFTM rt addr =
     await (recordedAddress rt addr ''MockyvWFTM'') (\<lambda>address.
     await (getFirstSigner rt) (\<lambda>signer.
     return_io (attach ''MockyvWFTMFactory'' address signer)))"

definition getMockyvWETH :: "'x runtime \<Rightarrow> tEthereumAddress option \<Rightarrow> ('x, Instance) io" where
  "getMockyvWETH rt addr =
     await (recordedAddress rt addr ''MockyvWETH'') (\<lambda>address.
     await (getFirstSigner rt) (\<lambda>signer.
     return_io (attach ''MockyvWETHFactory'' address signer)))"

definition getMockyvWBTC :: "'x runtime \<Rightarrow> tEthereumAddress option \<Rightarrow> ('x, Instance) io" where
  "getMockyvWBTC rt addr =
     await (recordedAddress rt addr ''MockyvWBTC'') (\<lambda>address.
     await (getFirstSigner rt) (\<lambda>signer.
     return_io (attach ''MockyvWBTCFactory'' address signer)))"

definition getMockyvBOO :: "'x runtime \<Rightarrow> tEthereumAddress option \<Rightarrow> ('x, Instance) io" where
  "getMockyvBOO rt addr =
     await (recordedAddress rt addr ''MockyvBOO'') (\<lambda>address.
     await (getFirstSigner rt) (\<lambda>signer.
     return_io (attach ''MockyvBOOFactory'' address signer)))"

definition getMockMooTOMBFTM :: "'x runtime \<Rightarrow> tEthereumAddress option \<Rightarrow> ('x, Instance) io" where
  "getMockMooTOMBFTM rt addr =
     await (recordedAddress rt addr ''MockMooTOMBFTM'') (\<lambda>address.
     await (getFirstSigner rt) (\<lambda>signer.
     return_io (attach ''MockMooTOMBFTMFactory'' address signer)))"

definition getMockMooTOMBMIMATIC :: "'x runtime \<Rightarrow> tEthereumAddress option \<Rightarrow> ('x, Instance) io" where
  "getMockMooTOMBMIMATIC rt addr =
     await (recordedAddress rt addr ''MockMooTOMBMIMATIC'') (\<lambda>address.
     await (getFirstSigner rt) (\<lambda>signer.
     return_io (attach ''MockMooTOMBMIMATICFactory'' address signer)))"

definition getMockMooBASEDMIMATIC :: "'x runtime \<Rightarrow> tEthereumAddress option \<Rightarrow> ('x, Instance) io" where
  "getMockMooBASEDMIMATIC rt addr =
     await (recordedAddress rt addr ''MockMooBASEDMIMATIC'') (\<lambda>address.
     await (getFirstSigner rt) (\<lambda>signer.
     return_io (attach ''MockMooBASEDMIMATICFactory'' address signer)))"

definition getMockWBTCForFTM :: "'x runtime \<Rightarrow> tEthereumAddress option \<Rightarrow> ('x, Instance) io" where
  "getMockWBTCForFTM rt addr =
     await (recordedAddress rt addr ''MockWBTCForFTM'') (\<lambda>address.
     await (getFirstSigner rt) (\<lambda>signer.
     return_io (attach ''MockWBTCForFTMFactory'' address signer)))"

definition getGenericATokenImpl :: "'x runtime \<Rightarrow> tEthereumAddress option \<Rightarrow> ('x, Instance) io" where
  "getGenericATokenImpl rt addr =
     await (recordedAddress rt addr ''AToken'') (\<lambda>address.
     await (getFirstSigner rt) (\<lambda>signer.
     return_io (attach ''ATokenFactory'' address signer)))"

definition getCollateralATokenImpl :: "'x runtime \<Rightarrow> tEthereumAddress option \<Rightarrow> ('x, Instance) io" where
  "getCollateralATokenImpl rt addr =
     await (recordedAddress rt addr ''ATokenForCollateral'') (\<lambda>address.
     await (getFirstSigner rt) (\<lambda>signer.
     return_io (attach ''ATokenForCollateralFactory'' address signer)))"

definition getLiquidator :: "'x runtime \<Rightarrow> tEthereumAddress option \<Rightarrow> ('x, Instance) io" where
  "getLiquidator rt addr =
     await (recordedAddress rt addr ''Liquidator'') (\<lambda>address.
     await (getFirstSigner rt) (\<lambda>signer.
     return_io (attach ''TempLiquidatorFactory'' address signer)))"

definition getDeployVaultHelper :: "'x runtime \<Rightarrow> tEthereumAddress option \<Rightarrow> ('x, Instance) io" where
  "getDeployVaultHelper rt addr =
     await (recordedAddress rt addr ''DeployVaultHelper'') (\<lambda>address.
     await (getFirstSigner rt) (\<lambda>signer.
     return_io (attach ''DeployVaultHelperFactory'' address signer)))"

definition getBeetsOracle :: "'x runtime \<Rightarrow> tEthereumAddress option \<Rightarrow> ('x, Instance) io" where
  "getBeetsOracle rt addr =
     await (recordedAddress rt addr ''BeetsOracle'') (\<lambda>address.
     await (getFirstSigner rt) (\<lambda>signer.
     return_io (attach ''BeetsOracleFactory'' address signer)))"

definition getFBeetsOracle :: "'x runtime \<Rightarrow> tEthereumAddress option \<Rightarrow> ('x, Instance) io" where
  "getFBeetsOracle rt addr =
     await (recordedAddress rt addr ''FBeetsOracle'') (\<lambda>address.
     await (getFirstSigner rt) (\<lambda>signer.
     return_io (attach ''FBeetsOracleFactory'' address signer)))"

definition getRETHWstETHLPOracle :: "'x runtime \<Rightarrow> tEthereumAddress option \<Rightarrow> ('x, Instance) io" where
  "getRETHWstETHLPOracle rt addr =
     await (recordedAddress rt addr ''RETHWstETHLPOracle'') (\<lambda>address.
     await (getFirstSigner rt) (\<lambda>signer.
     return_io (attach ''CrvREthWstETHOracleFactory'' address signer)))"

definition getYieldManager :: "'x runtime \<Rightarrow> tEthereumAddress option \<Rightarrow> ('x, Instance) io" where
  "getYieldManager rt addr =
     await (recordedAddress rt addr ''YieldManager'') (\<lambda>address.
     await (getFirstSigner rt) (\<lambda>signer.
     return_io (attach ''YieldManagerFactory'' address signer)))"

definition getIWETH :: "'x runtime \<Rightarrow> tEthereumAddress \<Rightarrow> ('x, Instance) io" where
  "getIWETH rt address =
     await (getFirstSigner rt) (\<lambda>signer. return_io (attach ''IWETHFactory'' address signer))"

definition getProxy :: "'x runtime \<Rightarrow> tEthereumAddress \<Rightarrow> ('x, Instance) io" where
  "getProxy rt address =
     await (getFirstSigner rt) (\<lambda>signer.
     return_io (attach ''InitializableImmutableAdminUpgradeabilityProxyFactory'' address signer))"

text \<open>\<open>isAddress\<close> (ethers) and \<open>isZeroAddress\<close> (ethereumjs-util) are parameters.\<close>

definition getLendingPoolAddressesProviderRegistry ::
    "(string \<Rightarrow> bool) \<Rightarrow> (string \<Rightarrow> bool) \<Rightarrow> 'x runtime \<Rightarrow> tEthereumAddress option \<Rightarrow> ('x, Instance) io" where
  "getLendingPoolAddressesProviderRegistry isAddress isZeroAddress rt addr =
     await (case addr of
              Some a \<Rightarrow> if notFalsyOrZeroAddress isAddress isZeroAddress addr then return_io a
                        else recordedAddress rt None ''LendingPoolAddressesProviderRegistry''
            | None \<Rightarrow> recordedAddress rt None ''LendingPoolAddressesProviderRegistry'') (\<lambda>address.
     await (getFirstSigner rt) (\<lambda>signer.
     return_io (attach ''LendingPoolAddressesProviderRegistryFactory'' address signer)))"

text \<open>\<open>(...)?.address || undefined\<close>, and the two lookups that return the address or \<open>undefined\<close>.\<close>

definition getAddressById :: "'x runtime \<Rightarrow> string \<Rightarrow> ('x, tEthereumAddress option) io" where
  "getAddressById rt cid =
     await (db_get rt cid) (\<lambda>e.
     return_io (case e of None \<Rightarrow> None
                | Some e \<Rightarrow> if entry_address e = [] then None else Some (entry_address e)))"

definition getUniswapAdapterAddress :: "'x runtime \<Rightarrow> ('x, tEthereumAddress option) io" where
  "getUniswapAdapterAddress rt =
     await (db_get rt ''UniswapAdapter'') (\<lambda>db. return_io (map_option entry_address db))"

definition getCurveswapAdapterAddress :: "'x runtime \<Rightarrow> ('x, tEthereumAddress option) io" where
  "getCurveswapAdapterAddress rt =
     await (db_get rt ''CurveswapAdapter'') (\<lambda>db. return_io (map_option entry_address db))"

section \<open>Mock tokens\<close>

text \<open>\<open>toUpperCase\<close> of an ASCII string.\<close>

definition toUpperCase :: "string \<Rightarrow> string" where
  "toUpperCase s = map (\<lambda>c. let n = (of_char c :: nat) in if 97 \<le> n \<and> n \<le> 122 then char_of (n - 32) else c) s"

definition TokenContractId :: "string list" where
  "TokenContractId =
     [''DAI'', ''WETH'', ''USDC'', ''USDT'', ''stETH'', ''yvRETH_WSTETH'', ''cvxRETH_WSTETH'',
      ''cvxFRAX_3CRV'', ''cvxSTECRV'', ''cvxDOLA_3CRV'', ''yvWFTM'', ''mooWETH'', ''yvWETH'', ''yvWBTC'',
      ''yvBOO'', ''mooTOMB_FTM'', ''mooTOMB_MATIC'', ''yvfBEETS'', ''yvLINK'', ''yvCRV'', ''yvSPELL'',
      ''mooBASED_MATIC'']"

definition mockedToken :: "'x runtime \<Rightarrow> Instance obj \<Rightarrow> string \<Rightarrow> ('x, Instance obj) io" where
  "mockedToken rt accumulator tokenSymbol =
     await (db_get rt (toUpperCase tokenSymbol)) (\<lambda>e.
     await (lift_result (deref e)) (\<lambda>e.
     await (getMintableERC20 rt (Some (entry_address e))) (\<lambda>token.
     return_io (obj_set tokenSymbol token accumulator))))"

definition getMockedTokens :: "'x runtime \<Rightarrow> PoolConfiguration \<Rightarrow> ('x, Instance obj) io" where
  "getMockedTokens rt config = for_fold (mockedToken rt) [] (obj_keys (ReservesConfig config))"

definition getAllMockedTokens :: "'x runtime \<Rightarrow> ('x, Instance obj) io" where
  "getAllMockedTokens rt = for_fold (mockedToken rt) [] TokenContractId"

section \<open>Assets and their aggregators\<close>

definition getQuoteCurrencies :: "string \<Rightarrow> string list" where
  "getQuoteCurrencies oracleQuoteCurrency =
     (if oracleQuoteCurrency = ''USD'' then [''USD''] else [''ETH'', ''WETH''])"

text \<open>
  The arrow function of the \<open>map\<close>: the index of the symbol among the aggregators' keys, then the
  entry at that index, destructured; index -1 has no entry, and destructuring \<open>undefined\<close> is a
  \<open>TypeError\<close>.
\<close>

definition tokenAggregator ::
    "tEthereumAddress obj \<Rightarrow> string \<times> tEthereumAddress \<Rightarrow> (tEthereumAddress \<times> tEthereumAddress) result" where
  "tokenAggregator aggregatorsAddresses token =
     (let aggregatorAddressIndex = findIndex (\<lambda>v. v = fst token) (obj_keys aggregatorsAddresses) in
      bindR (deref (js_at aggregatorsAddresses aggregatorAddressIndex)) (\<lambda>entry.
      Inr (snd token, snd entry)))"

fun mapR :: "('a \<Rightarrow> 'b result) \<Rightarrow> 'a list \<Rightarrow> 'b list result" where
  "mapR f [] = Inr []"
| "mapR f (x # xs) = bindR (f x) (\<lambda>y. bindR (mapR f xs) (\<lambda>ys. Inr (y # ys)))"

definition getPairsTokenAggregator ::
    "tEthereumAddress obj \<Rightarrow> tEthereumAddress obj \<Rightarrow> string \<Rightarrow> (tEthereumAddress list \<times> tEthereumAddress list) result" where
  "getPairsTokenAggregator allAssetsAddresses aggregatorsAddresses oracleQuoteCurrency =
     (let assetsWithoutQuoteCurrency = omit allAssetsAddresses (getQuoteCurrencies oracleQuoteCurrency) in
      bindR (mapR (tokenAggregator aggregatorsAddresses) assetsWithoutQuoteCurrency) (\<lambda>pairs.
      let pairs = filter (\<lambda>(tokenAddress, aggregator). aggregator \<noteq> []) pairs in
      Inr (map fst pairs, map snd pairs)))"

section \<open>Attaching writes nothing\<close>

lemma writes_recordedAddress [frame_rules]: "writes rt S (recordedAddress rt addr cid)"
  unfolding recordedAddress_def by (intro frame_rules)

lemma recordedAddress_None:
  "recordedAddress rt None cid =
     await (db_get rt cid) (\<lambda>e. await (lift_result (deref e)) (\<lambda>e. return_io (entry_address e)))"
  by (simp add: recordedAddress_def)

text \<open>Attaching to the address the database records.\<close>

lemma await_recordedAddress:
  "db_entry_of rt w cid = Some e \<Longrightarrow> await (recordedAddress rt None cid) f w = f (entry_address e) w"
  by (simp add: recordedAddress_None await_def lift_result_def return_io_def)

text \<open>An entry that is missing is a \<open>TypeError\<close>, and nothing happens.\<close>

lemma await_recordedAddress_missing:
  "db_entry_of rt w cid = None \<Longrightarrow> await (recordedAddress rt None cid) f w = (Inl TypeError, w)"
  by (simp add: recordedAddress_None await_def lift_result_def)

lemmas getter_defs =
  getLendingPoolAddressesProvider_def getLendingPoolConfiguratorProxy_def getPriceOracle_def
  getAToken_def getStableDebtToken_def getVariableDebtToken_def
  getMintableERC20_def getSwapinERC20_def getIErc20Detailed_def
  getSturdyProtocolDataProvider_def getInterestRateStrategy_def getLendingRateOracle_def
  getReserveLogic_def getGenericLogic_def getStableAndVariableTokensHelper_def
  getATokensAndRatesHelper_def getWETHMocked_def getMockAToken_def
  getMockVariableDebtToken_def getMockStableDebtToken_def getLendingPoolImpl_def
  getLendingPoolConfiguratorImpl_def getLendingPoolCollateralManagerImpl_def getLendingPoolCollateralManager_def
  getSturdyOracle_def getBooOracle_def getTombOracle_def
  getTombFtmLPOracle_def getTombMiMaticLPOracle_def getBasedOracle_def
  getBasedMiMaticLPOracle_def getLendingPool_def getLidoVaultImpl_def
  getLidoVault_def getYearnRETHWstETHVaultImpl_def getYearnRETHWstETHVault_def
  getConvexRocketPoolETHVaultImpl_def getConvexRocketPoolETHVault_def getConvexFRAX3CRVVault_def
  getConvexSTETHVault_def getConvexDOLA3CRVVault_def getYearnVaultImpl_def
  getYearnVault_def getYearnWETHVaultImpl_def getYearnWETHVault_def
  getYearnWBTCVaultImpl_def getYearnWBTCVault_def getYearnBOOVaultImpl_def
  getYearnBOOVault_def getTombFtmBeefyVaultImpl_def getTombFtmBeefyVault_def
  getTombMiMaticBeefyVaultImpl_def getTombMiMaticBeefyVault_def getBasedMiMaticBeefyVaultImpl_def
  getBasedMiMaticBeefyVault_def getYearnFBEETSVaultImpl_def getYearnFBEETSVault_def
  getYearnLINKVault_def getBeefyETHVault_def getYearnCRVVault_def
  getYearnSPELLVault_def getWalletProvider_def getUiPoolDataProvider_def
  getUiIncentiveDataProvider_def getSturdyIncentivesControllerImpl_def getSturdyIncentivesController_def
  getSturdyTokenImpl_def getSturdyToken_def getCollateralAdapter_def
  getMockyvWFTM_def getMockyvWETH_def getMockyvWBTC_def
  getMockyvBOO_def getMockMooTOMBFTM_def getMockMooTOMBMIMATIC_def
  getMockMooBASEDMIMATIC_def getMockWBTCForFTM_def getGenericATokenImpl_def
  getCollateralATokenImpl_def getLiquidator_def getDeployVaultHelper_def
  getBeetsOracle_def getFBeetsOracle_def getRETHWstETHLPOracle_def
  getYieldManager_def

lemma writes_connect: "writes rt S (await (recordedAddress rt addr cid) (\<lambda>address. await (getFirstSigner rt) (\<lambda>signer.
    return_io (attach factory address signer))))"
  by (intro frame_rules)

lemma writes_getters [frame_rules]:
  "writes rt S (getLendingPoolAddressesProvider rt addr)"
  "writes rt S (getLendingPoolConfiguratorProxy rt addr)"
  "writes rt S (getPriceOracle rt addr)"
  "writes rt S (getAToken rt addr)"
  "writes rt S (getStableDebtToken rt addr)"
  "writes rt S (getVariableDebtToken rt addr)"
  "writes rt S (getMintableERC20 rt addr)"
  "writes rt S (getSwapinERC20 rt addr)"
  "writes rt S (getIErc20Detailed rt addr)"
  "writes rt S (getSturdyProtocolDataProvider rt addr)"
  "writes rt S (getInterestRateStrategy rt addr)"
  "writes rt S (getLendingRateOracle rt addr)"
  "writes rt S (getReserveLogic rt addr)"
  "writes rt S (getGenericLogic rt addr)"
  "writes rt S (getStableAndVariableTokensHelper rt addr)"
  "writes rt S (getATokensAndRatesHelper rt addr)"
  "writes rt S (getWETHMocked rt addr)"
  "writes rt S (getMockAToken rt addr)"
  "writes rt S (getMockVariableDebtToken rt addr)"
  "writes rt S (getMockStableDebtToken rt addr)"
  "writes rt S (getLendingPoolImpl rt addr)"
  "writes rt S (getLendingPoolConfiguratorImpl rt addr)"
  "writes rt S (getLendingPoolCollateralManagerImpl rt addr)"
  "writes rt S (getLendingPoolCollateralManager rt addr)"
  "writes rt S (getSturdyOracle rt addr)"
  "writes rt S (getBooOracle rt addr)"
  "writes rt S (getTombOracle rt addr)"
  "writes rt S (getTombFtmLPOracle rt addr)"
  "writes rt S (getTombMiMaticLPOracle rt addr)"
  "writes rt S (getBasedOracle rt addr)"
  "writes rt S (getBasedMiMaticLPOracle rt addr)"
  "writes rt S (getLendingPool rt addr)"
  "writes rt S (getLidoVaultImpl rt addr)"
  "writes rt S (getLidoVault rt addr)"
  "writes rt S (getYearnRETHWstETHVaultImpl rt addr)"
  "writes rt S (getYearnRETHWstETHVault rt addr)"
  "writes rt S (getConvexRocketPoolETHVaultImpl rt addr)"
  "writes rt S (getConvexRocketPoolETHVault rt addr)"
  "writes rt S (getConvexFRAX3CRVVault rt addr)"
  "writes rt S (getConvexSTETHVault rt addr)"
  "writes rt S (getConvexDOLA3CRVVault rt addr)"
  "writes rt S (getYearnVaultImpl rt addr)"
  "writes rt S (getYearnVault rt addr)"
  "writes rt S (getYearnWETHVaultImpl rt addr)"
  "writes rt S (getYearnWETHVault rt addr)"
  "writes rt S (getYearnWBTCVaultImpl rt addr)"
  "writes rt S (getYearnWBTCVault rt addr)"
  "writes rt S (getYearnBOOVaultImpl rt addr)"
  "writes rt S (getYearnBOOVault rt addr)"
  "writes rt S (getTombFtmBeefyVaultImpl rt addr)"
  "writes rt S (getTombFtmBeefyVault rt addr)"
  "writes rt S (getTombMiMaticBeefyVaultImpl rt addr)"
  "writes rt S (getTombMiMaticBeefyVault rt addr)"
  "writes rt S (getBasedMiMaticBeefyVaultImpl rt addr)"
  "writes rt S (getBasedMiMaticBeefyVault rt addr)"
  "writes rt S (getYearnFBEETSVaultImpl rt addr)"
  "writes rt S (getYearnFBEETSVault rt addr)"
  "writes rt S (getYearnLINKVault rt addr)"
  "writes rt S (getBeefyETHVault rt addr)"
  "writes rt S (getYearnCRVVault rt addr)"
  "writes rt S (getYearnSPELLVault rt addr)"
  "writes rt S (getWalletProvider rt addr)"
  "writes rt S (getUiPoolDataProvider rt addr)"
  "writes rt S (getUiIncentiveDataProvider rt addr)"
  "writes rt S (getSturdyIncentivesControllerImpl rt addr)"
  "writes rt S (getSturdyIncentivesController rt addr)"
  "writes rt S (getSturdyTokenImpl rt addr)"
  "writes rt S (getSturdyToken rt addr)"
  "writes rt S (getCollateralAdapter rt addr)"
  "writes rt S (getMockyvWFTM rt addr)"
  "writes rt S (getMockyvWETH rt addr)"
  "writes rt S (getMockyvWBTC rt addr)"
  "writes rt S (getMockyvBOO rt addr)"
  "writes rt S (getMockMooTOMBFTM rt addr)"
  "writes rt S (getMockMooTOMBMIMATIC rt addr)"
  "writes rt S (getMockMooBASEDMIMATIC rt addr)"
  "writes rt S (getMockWBTCForFTM rt addr)"
  "writes rt S (getGenericATokenImpl rt addr)"
  "writes rt S (getCollateralATokenImpl rt addr)"
  "writes rt S (getLiquidator rt addr)"
  "writes rt S (getDeployVaultHelper rt addr)"
  "writes rt S (getBeetsOracle rt addr)"
  "writes rt S (getFBeetsOracle rt addr)"
  "writes rt S (getRETHWstETHLPOracle rt addr)"
  "writes rt S (getYieldManager rt addr)"
  by (simp_all only: getter_defs writes_connect)

end
