(* ===== verification/MarketSturdy.thy ===== *)
theory MarketSturdy
  imports PoolConfig
begin

text \<open>
  The configuration of the Sturdy market, \<^verbatim>\<open>markets/sturdy/\<close>: interest rate strategies
  (\<^verbatim>\<open>rateStrategies.ts\<close>), reserves (\<^verbatim>\<open>reservesConfigs.ts\<close>), the common part
  (\<^verbatim>\<open>commons.ts\<close>) and the pool (\<^verbatim>\<open>index.ts\<close>). The products with \<open>oneRay\<close> and
  \<open>oneEther\<close> are exact; a computed key of a network enum is its runtime string, and a key written
  twice keeps its last value.
\<close>

section \<open>Rate strategies\<close>

definition sturdy_rateStrategyStableTwo :: "IInterestRateStrategyParams" where
  "sturdy_rateStrategyStableTwo =
     \<lparr>strategy_name = ''rateStrategyStableTwo'',
      optimalUtilizationRate = dec (8 * RAY div 10),
      baseVariableBorrowRate = ''0'',
      variableRateSlope1 = ''0'',
      variableRateSlope2 = ''0'',
      stableRateSlope1 = ''0'',
      stableRateSlope2 = ''0'',
      capacity = ''0''\<rparr>"

definition sturdy_rateStrategyStableThree :: "IInterestRateStrategyParams" where
  "sturdy_rateStrategyStableThree =
     \<lparr>strategy_name = ''rateStrategyStableThree'',
      optimalUtilizationRate = dec (9 * RAY div 10),
      baseVariableBorrowRate = ''0'',
      variableRateSlope1 = ''0'',
      variableRateSlope2 = ''0'',
      stableRateSlope1 = ''0'',
      stableRateSlope2 = ''0'',
      capacity = ''0''\<rparr>"

definition sturdy_rateStrategySTETH :: "IInterestRateStrategyParams" where
  "sturdy_rateStrategySTETH =
     \<lparr>strategy_name = ''rateStrategySTETH'',
      optimalUtilizationRate = dec (45 * RAY div 100),
      baseVariableBorrowRate = ''0'',
      variableRateSlope1 = ''0'',
      variableRateSlope2 = ''0'',
      stableRateSlope1 = ''0'',
      stableRateSlope2 = ''0'',
      capacity = ''0''\<rparr>"

definition sturdy_rateStrategyYVRETH_WSTETH :: "IInterestRateStrategyParams" where
  "sturdy_rateStrategyYVRETH_WSTETH =
     \<lparr>strategy_name = ''rateStrategyYVRETH_WSTETH'',
      optimalUtilizationRate = dec (45 * RAY div 100),
      baseVariableBorrowRate = ''0'',
      variableRateSlope1 = ''0'',
      variableRateSlope2 = ''0'',
      stableRateSlope1 = ''0'',
      stableRateSlope2 = ''0'',
      capacity = ''0''\<rparr>"

definition sturdy_rateStrategyCVXRETH_WSTETH :: "IInterestRateStrategyParams" where
  "sturdy_rateStrategyCVXRETH_WSTETH =
     \<lparr>strategy_name = ''rateStrategyCVXRETH_WSTETH'',
      optimalUtilizationRate = dec (45 * RAY div 100),
      baseVariableBorrowRate = ''0'',
      variableRateSlope1 = ''0'',
      variableRateSlope2 = ''0'',
      stableRateSlope1 = ''0'',
      stableRateSlope2 = ''0'',
      capacity = ''0''\<rparr>"

definition sturdy_rateStrategyCVXFRAX_3CRV :: "IInterestRateStrategyParams" where
  "sturdy_rateStrategyCVXFRAX_3CRV =
     \<lparr>strategy_name = ''rateStrategyCVXFRAX_3CRV'',
      optimalUtilizationRate = dec (45 * RAY div 100),
      baseVariableBorrowRate = ''0'',
      variableRateSlope1 = ''0'',
      variableRateSlope2 = ''0'',
      stableRateSlope1 = ''0'',
      stableRateSlope2 = ''0'',
      capacity = ''0''\<rparr>"

definition sturdy_rateStrategyCVXSTECRV :: "IInterestRateStrategyParams" where
  "sturdy_rateStrategyCVXSTECRV =
     \<lparr>strategy_name = ''rateStrategyCVXSTECRV'',
      optimalUtilizationRate = dec (45 * RAY div 100),
      baseVariableBorrowRate = ''0'',
      variableRateSlope1 = ''0'',
      variableRateSlope2 = ''0'',
      stableRateSlope1 = ''0'',
      stableRateSlope2 = ''0'',
      capacity = ''0''\<rparr>"

definition sturdy_rateStrategyCVXDOLA_3CRV :: "IInterestRateStrategyParams" where
  "sturdy_rateStrategyCVXDOLA_3CRV =
     \<lparr>strategy_name = ''rateStrategyCVXDOLA_3CRV'',
      optimalUtilizationRate = dec (45 * RAY div 100),
      baseVariableBorrowRate = ''0'',
      variableRateSlope1 = ''0'',
      variableRateSlope2 = ''0'',
      stableRateSlope1 = ''0'',
      stableRateSlope2 = ''0'',
      capacity = ''0''\<rparr>"

section \<open>Reserves\<close>

definition sturdy_strategyDAI :: "IReserveParams" where
  "sturdy_strategyDAI =
     \<lparr>borrowingEnabled = True,
      stableBorrowRateEnabled = False,
      reserveDecimals = ''18'',
      baseLTVAsCollateral = ''0'',
      liquidationThreshold = ''0'',
      liquidationBonus = ''0'',
      collateralEnabled = False,
      aTokenImpl = ''AToken'',
      reserveFactor = ''1000'',
      emissionPerSecond = ''10'',
      strategy = sturdy_rateStrategyStableTwo\<rparr>"

definition sturdy_strategyUSDC :: "IReserveParams" where
  "sturdy_strategyUSDC =
     \<lparr>borrowingEnabled = True,
      stableBorrowRateEnabled = False,
      reserveDecimals = ''6'',
      baseLTVAsCollateral = ''0'',
      liquidationThreshold = ''0'',
      liquidationBonus = ''0'',
      collateralEnabled = False,
      aTokenImpl = ''AToken'',
      reserveFactor = ''1000'',
      emissionPerSecond = ''10'',
      strategy = sturdy_rateStrategyStableThree\<rparr>"

definition sturdy_strategySTETH :: "IReserveParams" where
  "sturdy_strategySTETH =
     \<lparr>borrowingEnabled = False,
      stableBorrowRateEnabled = False,
      reserveDecimals = ''18'',
      baseLTVAsCollateral = ''7000'',
      liquidationThreshold = ''7500'',
      liquidationBonus = ''10750'',
      collateralEnabled = True,
      aTokenImpl = ''ATokenForCollateral'',
      reserveFactor = ''0'',
      emissionPerSecond = ''0'',
      strategy = sturdy_rateStrategySTETH\<rparr>"

definition sturdy_strategyYVRETH_WSTETH :: "IReserveParams" where
  "sturdy_strategyYVRETH_WSTETH =
     \<lparr>borrowingEnabled = False,
      stableBorrowRateEnabled = False,
      reserveDecimals = ''18'',
      baseLTVAsCollateral = ''7000'',
      liquidationThreshold = ''7500'',
      liquidationBonus = ''10750'',
      collateralEnabled = True,
      aTokenImpl = ''ATokenForCollateral'',
      reserveFactor = ''0'',
      emissionPerSecond = ''0'',
      strategy = sturdy_rateStrategyYVRETH_WSTETH\<rparr>"

definition sturdy_strategyCVXRETH_WSTETH :: "IReserveParams" where
  "sturdy_strategyCVXRETH_WSTETH =
     \<lparr>borrowingEnabled = False,
      stableBorrowRateEnabled = False,
      reserveDecimals = ''18'',
      baseLTVAsCollateral = ''7000'',
      liquidationThreshold = ''7500'',
      liquidationBonus = ''10750'',
      collateralEnabled = True,
      aTokenImpl = ''ATokenForCollateral'',
      reserveFactor = ''0'',
      emissionPerSecond = ''0'',
      strategy = sturdy_rateStrategyCVXRETH_WSTETH\<rparr>"

definition sturdy_strategyCVXFRAX_3CRV :: "IReserveParams" where
  "sturdy_strategyCVXFRAX_3CRV =
     \<lparr>borrowingEnabled = False,
      stableBorrowRateEnabled = False,
      reserveDecimals = ''18'',
      baseLTVAsCollateral = ''7000'',
      liquidationThreshold = ''7500'',
      liquidationBonus = ''10750'',
      collateralEnabled = True,
      aTokenImpl = ''ATokenForCollateral'',
      reserveFactor = ''0'',
      emissionPerSecond = ''0'',
      strategy = sturdy_rateStrategyCVXFRAX_3CRV\<rparr>"

definition sturdy_strategyCVXSTECRV :: "IReserveParams" where
  "sturdy_strategyCVXSTECRV =
     \<lparr>borrowingEnabled = False,
      stableBorrowRateEnabled = False,
      reserveDecimals = ''18'',
      baseLTVAsCollateral = ''7000'',
      liquidationThreshold = ''7500'',
      liquidationBonus = ''10750'',
      collateralEnabled = True,
      aTokenImpl = ''ATokenForCollateral'',
      reserveFactor = ''0'',
      emissionPerSecond = ''0'',
      strategy = sturdy_rateStrategyCVXSTECRV\<rparr>"

definition sturdy_strategyCVXDOLA_3CRV :: "IReserveParams" where
  "sturdy_strategyCVXDOLA_3CRV =
     \<lparr>borrowingEnabled = False,
      stableBorrowRateEnabled = False,
      reserveDecimals = ''18'',
      baseLTVAsCollateral = ''7000'',
      liquidationThreshold = ''7500'',
      liquidationBonus = ''10750'',
      collateralEnabled = True,
      aTokenImpl = ''ATokenForCollateral'',
      reserveFactor = ''0'',
      emissionPerSecond = ''0'',
      strategy = sturdy_rateStrategyCVXDOLA_3CRV\<rparr>"

section \<open>What the pools share\<close>

definition sturdy_common_contracts :: "js_val obj obj" where
  "sturdy_common_contracts =
     [(''PoolAdmin'',
         [(''coverage'', VUndef),
          (''buidlerevm'', VUndef),
          (''hardhat'', VUndef),
          (''geth'', VUndef),
          (''localhost'', VUndef),
          (''kovan'', VUndef),
          (''ropsten'', VUndef),
          (''main'', VUndef),
          (''tenderly'', VUndef),
          (''goerli'', VUndef)]),
      (''EmergencyAdmin'',
         [(''hardhat'', VUndef),
          (''geth'', VUndef),
          (''localhost'', VUndef),
          (''coverage'', VUndef),
          (''buidlerevm'', VUndef),
          (''kovan'', VUndef),
          (''ropsten'', VUndef),
          (''main'', VUndef),
          (''tenderly'', VUndef),
          (''goerli'', VUndef)]),
      (''ProviderRegistry'',
         [(''kovan'', VStr ''0x1E40B561EC587036f9789aF83236f057D1ed2A90''),
          (''ropsten'', VStr ''''),
          (''main'', VStr ''''),
          (''coverage'', VStr ''''),
          (''hardhat'', VStr ''''),
          (''geth'', VStr ''''),
          (''localhost'', VStr ''''),
          (''buidlerevm'', VStr ''''),
          (''tenderly'', VStr ''''),
          (''goerli'', VStr ''0x5a3aE44704D95CcAffe608c808308c850bDec94d'')]),
      (''ProviderRegistryOwner'',
         [(''kovan'', VStr ''0x85e4A467343c0dc4aDAB74Af84448D9c45D8ae6F''),
          (''ropsten'', VStr ''''),
          (''main'', VStr ''''),
          (''coverage'', VStr ''''),
          (''hardhat'', VStr ''''),
          (''geth'', VStr ''''),
          (''localhost'', VStr ''''),
          (''buidlerevm'', VStr ''''),
          (''tenderly'', VStr ''''),
          (''goerli'', VStr ''0x661fB502E24Deb30e927E39A38Bd2CC44D67339F'')]),
      (''LendingRateOracle'',
         [(''coverage'', VStr ''''),
          (''hardhat'', VStr ''''),
          (''geth'', VStr ''''),
          (''localhost'', VStr ''''),
          (''buidlerevm'', VStr ''''),
          (''kovan'', VStr ''''),
          (''ropsten'', VStr ''0x05dcca805a6562c1bdd0423768754acb6993241b''),
          (''main'', VStr ''''),
          (''tenderly'', VStr ''''),
          (''goerli'', VStr ''0x54f550a7798541F8469636EA94Fd7564ea6e9027'')]),
      (''LendingPoolCollateralManager'',
         [(''coverage'', VStr ''''),
          (''hardhat'', VStr ''''),
          (''geth'', VStr ''''),
          (''localhost'', VStr ''''),
          (''buidlerevm'', VStr ''''),
          (''kovan'', VStr ''0x9269b6453d0d75370c4c85e5a42977a53efdb72a''),
          (''ropsten'', VStr ''''),
          (''main'', VStr ''''),
          (''tenderly'', VStr ''''),
          (''goerli'', VStr ''0x446E0E48315740B3f5dEFA9a1CcAF1ce193E9655'')]),
      (''LendingPoolConfigurator'',
         [(''coverage'', VStr ''''),
          (''hardhat'', VStr ''''),
          (''geth'', VStr ''''),
          (''localhost'', VStr ''''),
          (''buidlerevm'', VStr ''''),
          (''kovan'', VStr ''''),
          (''ropsten'', VStr ''''),
          (''main'', VStr ''''),
          (''tenderly'', VStr ''''),
          (''goerli'', VStr ''0xFA81C6cfF67D9958A20b2c1D1C93a5936B217cDd'')]),
      (''LendingPool'',
         [(''coverage'', VStr ''''),
          (''hardhat'', VStr ''''),
          (''geth'', VStr ''''),
          (''localhost'', VStr ''''),
          (''buidlerevm'', VStr ''''),
          (''kovan'', VStr ''''),
          (''ropsten'', VStr ''''),
          (''main'', VStr ''''),
          (''tenderly'', VStr ''''),
          (''goerli'', VStr ''0x53f4569958A9487598e2aa9db6c1E9BCaF81ea4c'')]),
      (''TokenDistributor'',
         [(''coverage'', VStr ''''),
          (''buidlerevm'', VStr ''''),
          (''hardhat'', VStr ''''),
          (''geth'', VStr ''''),
          (''localhost'', VStr ''''),
          (''kovan'', VStr ''0x971efe90088f21dc6a36f610ffed77fc19710708''),
          (''ropsten'', VStr ''0xeba2ea67942b8250d870b12750b594696d02fc9c''),
          (''main'', VStr ''''),
          (''tenderly'', VStr ''''),
          (''goerli'', VStr '''')]),
      (''SturdyOracle'',
         [(''coverage'', VStr ''''),
          (''hardhat'', VStr ''''),
          (''geth'', VStr ''''),
          (''localhost'', VStr ''''),
          (''buidlerevm'', VStr ''''),
          (''kovan'', VStr ''''),
          (''ropsten'', VStr ZERO_ADDRESS),
          (''main'', VStr ''''),
          (''tenderly'', VStr ''''),
          (''goerli'', VStr '''')]),
      (''FallbackOracle'',
         [(''coverage'', VStr ''''),
          (''hardhat'', VStr ''''),
          (''geth'', VStr ''''),
          (''localhost'', VStr ''''),
          (''buidlerevm'', VStr ''''),
          (''kovan'', VStr ''0x50913E8E1c650E790F8a1E741FF9B1B1bB251dfe''),
          (''ropsten'', VStr ''0xAD1a978cdbb8175b2eaeC47B01404f8AEC5f4F0d''),
          (''main'', VStr ZERO_ADDRESS),
          (''tenderly'', VStr ZERO_ADDRESS),
          (''goerli'', VStr ''0x1460B491Db8E28A986f5ccb1c3Ee09E0A5757ed6'')])]"

definition sturdy_ChainlinkAggregator :: "string obj obj" where
  "sturdy_ChainlinkAggregator =
     [(''coverage'', []),
      (''hardhat'', []),
      (''geth'', []),
      (''localhost'', []),
      (''buidlerevm'', []),
      (''kovan'',
        [(''DAI'', ''0x22B58f1EbEDfCA50feF632bD73368b2FdA96D541''),
         (''USDC'', ''0x64EaC61A2DFda2c3Fa04eED49AA33D021AeC8838''),
         (''USD'', ''0x9326BFA02ADD2366b30bacB125260Af641031331'')]),
      (''ropsten'',
        [(''DAI'', ''0x64b8e49baded7bfb2fd5a9235b2440c0ee02971b''),
         (''USDC'', ''0xe1480303dde539e2c241bdc527649f37c9cbef7d''),
         (''USD'', ''0x8468b2bDCE073A157E560AA4D9CcF6dB1DB98507'')]),
      (''main'',
        [(''DAI'', ''0x773616E4d11A78F511299002da57A0a94577F1f4''),
         (''USDC'', ''0x986b5E1e1755e3C2440e960477f25201B0a8bbD4''),
         (''stETH'', ''0x86392dC19c0b719886221c78AB11eb8Cf5c52812''),
         (''yvRETH_WSTETH'', ''''),
         (''cvxRETH_WSTETH'', ''''),
         (''cvxFRAX_3CRV'', ''''),
         (''cvxSTECRV'', ''''),
         (''cvxDOLA_3CRV'', ''''),
         (''USD'', ''0x5f4eC3Df9cbd43714FE2740f5E3616155c5b8419''),
         (''CRV'', ''0x8a12Be339B0cD1829b91Adc01977caa5E9ac121e''),
         (''CVX'', ''0xC9CbF687f43176B302F03f5e58470b77D07c61c6'')]),
      (''tenderly'',
        [(''DAI'', ''0x773616E4d11A78F511299002da57A0a94577F1f4''),
         (''USDC'', ''0x986b5E1e1755e3C2440e960477f25201B0a8bbD4''),
         (''stETH'', ''0x86392dC19c0b719886221c78AB11eb8Cf5c52812''),
         (''yvRETH_WSTETH'', ''''),
         (''cvxRETH_WSTETH'', ''''),
         (''cvxFRAX_3CRV'', ''''),
         (''cvxSTECRV'', ''''),
         (''cvxDOLA_3CRV'', ''''),
         (''USD'', ''0x5f4eC3Df9cbd43714FE2740f5E3616155c5b8419''),
         (''CRV'', ''0x8a12Be339B0cD1829b91Adc01977caa5E9ac121e''),
         (''CVX'', ''0xC9CbF687f43176B302F03f5e58470b77D07c61c6'')]),
      (''goerli'',
        [(''DAI'', ''''),
         (''USDC'', ''''),
         (''stETH'', ''''),
         (''USD'', '''')])]"

definition sturdy_common_tokens :: "js_val obj obj" where
  "sturdy_common_tokens =
     [(''ATokenDomainSeparator'',
         [(''coverage'', VStr ''0x95b73a72c6ecf4ccbbba5178800023260bad8e75cdccdb8e4827a2977a37c820''),
          (''hardhat'', VStr ''0xbae024d959c6a022dc5ed37294cd39c141034b2ae5f02a955cce75c930a81bf5''),
          (''localhost'', VStr ''0xbae024d959c6a022dc5ed37294cd39c141034b2ae5f02a955cce75c930a81bf5''),
          (''geth'', VStr ''0xbae024d959c6a022dc5ed37294cd39c141034b2ae5f02a955cce75c930a81bf5''),
          (''buidlerevm'', VStr ''0xbae024d959c6a022dc5ed37294cd39c141034b2ae5f02a955cce75c930a81bf5''),
          (''kovan'', VStr ''''),
          (''ropsten'', VStr ''''),
          (''main'', VStr ''''),
          (''tenderly'', VStr ''''),
          (''goerli'', VStr '''')]),
      (''WFTM'',
         [(''coverage'', VStr ''''),
          (''hardhat'', VStr ''''),
          (''geth'', VStr ''''),
          (''localhost'', VStr ''''),
          (''buidlerevm'', VStr ''''),
          (''kovan'', VStr ''''),
          (''ropsten'', VStr ''''),
          (''main'', VStr ''''),
          (''tenderly'', VStr ''''),
          (''goerli'', VStr '''')]),
      (''WETH'',
         [(''coverage'', VStr ''''),
          (''hardhat'', VStr ''''),
          (''geth'', VStr ''''),
          (''localhost'', VStr ''''),
          (''buidlerevm'', VStr ''''),
          (''kovan'', VStr ''''),
          (''ropsten'', VStr ''''),
          (''main'', VStr ''0xc02aaa39b223fe8d0a0e5c4f27ead9083c756cc2''),
          (''tenderly'', VStr ''0xc02aaa39b223fe8d0a0e5c4f27ead9083c756cc2''),
          (''goerli'', VStr ''0x0Bb7509324cE409F7bbC4b701f932eAca9736AB7'')]),
      (''WBTC'',
         [(''coverage'', VStr ''''),
          (''hardhat'', VStr ''''),
          (''geth'', VStr ''''),
          (''localhost'', VStr ''''),
          (''buidlerevm'', VStr ''''),
          (''kovan'', VStr ''''),
          (''ropsten'', VStr ''''),
          (''main'', VStr ''''),
          (''tenderly'', VStr ''''),
          (''goerli'', VStr '''')]),
      (''WrappedNativeToken'',
         [(''coverage'', VStr ''''),
          (''hardhat'', VStr ''''),
          (''geth'', VStr ''''),
          (''localhost'', VStr ''''),
          (''buidlerevm'', VStr ''''),
          (''kovan'', VStr ''0xd0a1e359811322d97991e03f863a0c30c2cf029c''),
          (''ropsten'', VStr ''0xc778417e063141139fce010982780140aa0cd5ab''),
          (''main'', VStr ''0xc02aaa39b223fe8d0a0e5c4f27ead9083c756cc2''),
          (''tenderly'', VStr ''0xc02aaa39b223fe8d0a0e5c4f27ead9083c756cc2''),
          (''goerli'', VStr ''0x0Bb7509324cE409F7bbC4b701f932eAca9736AB7'')]),
      (''ReserveFactorTreasuryAddress'',
         [(''coverage'', VStr ''0xFd1D36995d76c0F75bbe4637C84C06E4A68bBB3a''),
          (''hardhat'', VStr ''0xFd1D36995d76c0F75bbe4637C84C06E4A68bBB3a''),
          (''geth'', VStr ''0xFd1D36995d76c0F75bbe4637C84C06E4A68bBB3a''),
          (''localhost'', VStr ''0xFd1D36995d76c0F75bbe4637C84C06E4A68bBB3a''),
          (''buidlerevm'', VStr ''0xFd1D36995d76c0F75bbe4637C84C06E4A68bBB3a''),
          (''kovan'', VStr ''0xFd1D36995d76c0F75bbe4637C84C06E4A68bBB3a''),
          (''ropsten'', VStr ''0xFd1D36995d76c0F75bbe4637C84C06E4A68bBB3a''),
          (''main'', VStr ''0xFd1D36995d76c0F75bbe4637C84C06E4A68bBB3a''),
          (''tenderly'', VStr ''0xFd1D36995d76c0F75bbe4637C84C06E4A68bBB3a''),
          (''goerli'', VStr ''0xFd1D36995d76c0F75bbe4637C84C06E4A68bBB3a'')]),
      (''IncentivesController'',
         [(''coverage'', VStr ZERO_ADDRESS),
          (''hardhat'', VStr ZERO_ADDRESS),
          (''geth'', VStr ZERO_ADDRESS),
          (''localhost'', VStr ZERO_ADDRESS),
          (''buidlerevm'', VStr ZERO_ADDRESS),
          (''kovan'', VStr ZERO_ADDRESS),
          (''ropsten'', VStr ZERO_ADDRESS),
          (''main'', VStr ZERO_ADDRESS),
          (''tenderly'', VStr ZERO_ADDRESS),
          (''goerli'', VStr ''0xf1eeA72fF022bE0DC8DFB97b1f398380A5CAFC3E'')])]"

definition sturdy_CommonsConfig :: "PoolConfiguration" where
  "sturdy_CommonsConfig =
     \<lparr>MarketId = ''Commons'',
      ATokenNamePrefix = ''Sturdy interest bearing'',
      StableDebtTokenNamePrefix = ''Sturdy stable debt bearing'',
      VariableDebtTokenNamePrefix = ''Sturdy variable debt bearing'',
      SymbolPrefix = '''',
      ProviderId = 0,
      OracleQuoteCurrency = ''ETH'',
      OracleQuoteUnit = dec WAD,
      ProtocolGlobalParams = \<lparr>TokenDistributorPercentageBase = ''10000'',
         MockUsdPriceInWei = ''373068412860'',
         UsdAddress = ''0x10F7Fc1F91Ba351f9C629c5947AD69bD03C05b96'',
         NilAddress = ''0x0000000000000000000000000000000000000000'',
         OneAddress = ''0x0000000000000000000000000000000000000001'',
         SturdyReferral = ''0''\<rparr>,
      AllAssetsInitialPrices = MOCK_CHAINLINK_AGGREGATORS_PRICES,
      LendingRateOracleRatesCommon = [(''DAI'', \<lparr>borrowRate = ''0''\<rparr>), (''USDC'', \<lparr>borrowRate = ''0''\<rparr>)],
      PoolAdminIndex = 0,
      EmergencyAdminIndex = 1,
      ChainlinkAggregator = sturdy_ChainlinkAggregator,
      ReserveAssets = [(''coverage'', []),
                      (''hardhat'', []),
                      (''geth'', []),
                      (''localhost'', []),
                      (''buidlerevm'', []),
                      (''main'', []),
                      (''kovan'', []),
                      (''ropsten'', []),
                      (''tenderly'', []),
                      (''goerli'', [])],
      ReservesConfig = [],
      network_params = sturdy_common_contracts @ sturdy_common_tokens\<rparr>"

section \<open>The pool\<close>

definition sturdy_ReserveAssets :: "string obj obj" where
  "sturdy_ReserveAssets =
     [(''buidlerevm'', []),
      (''hardhat'', []),
      (''geth'', []),
      (''localhost'', []),
      (''coverage'', []),
      (''kovan'',
        [(''DAI'', ''0xFf795577d9AC8bD7D90Ee22b6C1703490b6512FD''),
         (''USDC'', ''0xe22da380ee6B445bb8273C81944ADEB6E8450422'')]),
      (''ropsten'',
        [(''DAI'', ''0xf80A32A835F79D7787E8a8ee5721D0fEaFd78108''),
         (''USDC'', ''0x851dEf71f0e6A903375C1e536Bd9ff1684BAD802'')]),
      (''main'',
        [(''DAI'', ''0x6B175474E89094C44Da98b954EedeAC495271d0F''),
         (''USDC'', ''0xA0b86991c6218b36c1d19D4a2e9Eb0cE3606eB48''),
         (''stETH'', ''0xae7ab96520DE3A18E5e111B5EaAb095312D7fE84''),
         (''yvRETH_WSTETH'', ''0x5c0A86A32c129538D62C106Eb8115a8b02358d57''),
         (''cvxRETH_WSTETH'', ''0xA22B79730CBEA3426CA0AA9597Cbe053460667E3''),
         (''cvxFRAX_3CRV'', ''0xA0ecbe4a0e87b1559C962bb6E1F46286D41394Bf''),
         (''cvxSTECRV'', ''0xE72aAEEFA3821594c1D7fe2aB81361F0eC9e6e3e''),
         (''cvxDOLA_3CRV'', ''0x6DFC56b52a2B7F32A3d4348A53cF71a43C0Ed3a7'')]),
      (''tenderly'',
        [(''DAI'', ''0x6B175474E89094C44Da98b954EedeAC495271d0F''),
         (''USDC'', ''0xA0b86991c6218b36c1d19D4a2e9Eb0cE3606eB48''),
         (''stETH'', ''0xae7ab96520DE3A18E5e111B5EaAb095312D7fE84''),
         (''yvRETH_WSTETH'', ''0x5c0A86A32c129538D62C106Eb8115a8b02358d57''),
         (''cvxRETH_WSTETH'', ''0x00F9a5675df5D4b9f38Ea329fDE67489121a6479''),
         (''cvxFRAX_3CRV'', ''0x686b3c814dc34E1A6C95D58205a0d30e3c44caAe''),
         (''cvxSTECRV'', ''0x586FD6c325CEA3648eCf2380d65d2ab2bD62aE8e''),
         (''cvxDOLA_3CRV'', ''0x73AD8068b8D0420A8ea1354cf7e06236De02cbB9'')]),
      (''goerli'',
        [(''DAI'', ''0x3c189008333eeDA351Df6C601cf6Da7C1BC4Df1A''),
         (''USDC'', ''0x07865c6E87B9F70255377e024ace6630C1Eaa37F''),
         (''stETH'', ''0x1643E812aE58766192Cf7D2Cf9567dF2C37e9B7F'')])]"

definition sturdy_addresses :: "js_val obj obj" where
  "sturdy_addresses =
     [(''Lido'',
         [(''coverage'', VStr ''''),
          (''hardhat'', VStr ''''),
          (''geth'', VStr ''''),
          (''localhost'', VStr ''''),
          (''buidlerevm'', VStr ''''),
          (''kovan'', VStr ''''),
          (''ropsten'', VStr ''''),
          (''main'', VStr ''0xae7ab96520DE3A18E5e111B5EaAb095312D7fE84''),
          (''tenderly'', VStr ''0xae7ab96520DE3A18E5e111B5EaAb095312D7fE84''),
          (''goerli'', VStr ''0x1643E812aE58766192Cf7D2Cf9567dF2C37e9B7F'')]),
      (''WSTETH'',
         [(''coverage'', VStr ''''),
          (''hardhat'', VStr ''''),
          (''geth'', VStr ''''),
          (''localhost'', VStr ''''),
          (''buidlerevm'', VStr ''''),
          (''kovan'', VStr ''''),
          (''ropsten'', VStr ''''),
          (''main'', VStr ''0x7f39C581F595B53c5cb19bD0b3f8dA6c935E2Ca0''),
          (''tenderly'', VStr ''0x7f39C581F595B53c5cb19bD0b3f8dA6c935E2Ca0''),
          (''goerli'', VStr '''')]),
      (''CRV'',
         [(''coverage'', VStr ''''),
          (''hardhat'', VStr ''''),
          (''geth'', VStr ''''),
          (''localhost'', VStr ''''),
          (''buidlerevm'', VStr ''''),
          (''kovan'', VStr ''''),
          (''ropsten'', VStr ''''),
          (''main'', VStr ''0xD533a949740bb3306d119CC777fa900bA034cd52''),
          (''tenderly'', VStr ''0xD533a949740bb3306d119CC777fa900bA034cd52''),
          (''goerli'', VStr '''')]),
      (''CVX'',
         [(''coverage'', VStr ''''),
          (''hardhat'', VStr ''''),
          (''geth'', VStr ''''),
          (''localhost'', VStr ''''),
          (''buidlerevm'', VStr ''''),
          (''kovan'', VStr ''''),
          (''ropsten'', VStr ''''),
          (''main'', VStr ''0x4e3FBD56CD56c3e72c1403e103b45Db9da5B9D2B''),
          (''tenderly'', VStr ''0x4e3FBD56CD56c3e72c1403e103b45Db9da5B9D2B''),
          (''goerli'', VStr '''')]),
      (''RETH_WSTETH_LP'',
         [(''coverage'', VStr ''''),
          (''hardhat'', VStr ''''),
          (''geth'', VStr ''''),
          (''localhost'', VStr ''''),
          (''buidlerevm'', VStr ''''),
          (''kovan'', VStr ''''),
          (''ropsten'', VStr ''''),
          (''main'', VStr ''0x447Ddd4960d9fdBF6af9a790560d0AF76795CB08''),
          (''tenderly'', VStr ''0x447Ddd4960d9fdBF6af9a790560d0AF76795CB08''),
          (''goerli'', VStr '''')]),
      (''FRAX_3CRV_LP'',
         [(''coverage'', VStr ''''),
          (''hardhat'', VStr ''''),
          (''geth'', VStr ''''),
          (''localhost'', VStr ''''),
          (''buidlerevm'', VStr ''''),
          (''kovan'', VStr ''''),
          (''ropsten'', VStr ''''),
          (''main'', VStr ''0xd632f22692FaC7611d2AA1C0D552930D43CAEd3B''),
          (''tenderly'', VStr ''0xd632f22692FaC7611d2AA1C0D552930D43CAEd3B''),
          (''goerli'', VStr '''')]),
      (''STECRV_LP'',
         [(''coverage'', VStr ''''),
          (''hardhat'', VStr ''''),
          (''geth'', VStr ''''),
          (''localhost'', VStr ''''),
          (''buidlerevm'', VStr ''''),
          (''kovan'', VStr ''''),
          (''ropsten'', VStr ''''),
          (''main'', VStr ''0x06325440D014e39736583c165C2963BA99fAf14E''),
          (''tenderly'', VStr ''0x06325440D014e39736583c165C2963BA99fAf14E''),
          (''goerli'', VStr '''')]),
      (''DOLA_3CRV_LP'',
         [(''coverage'', VStr ''''),
          (''hardhat'', VStr ''''),
          (''geth'', VStr ''''),
          (''localhost'', VStr ''''),
          (''buidlerevm'', VStr ''''),
          (''kovan'', VStr ''''),
          (''ropsten'', VStr ''''),
          (''main'', VStr ''0xAA5A67c256e27A5d80712c51971408db3370927D''),
          (''tenderly'', VStr ''0xAA5A67c256e27A5d80712c51971408db3370927D''),
          (''goerli'', VStr '''')]),
      (''YearnRETHWstETHVault'',
         [(''coverage'', VStr ''''),
          (''hardhat'', VStr ''''),
          (''geth'', VStr ''''),
          (''localhost'', VStr ''''),
          (''buidlerevm'', VStr ''''),
          (''kovan'', VStr ''''),
          (''ropsten'', VStr ''''),
          (''main'', VStr ''0x5c0A86A32c129538D62C106Eb8115a8b02358d57''),
          (''tenderly'', VStr ''0x5c0A86A32c129538D62C106Eb8115a8b02358d57''),
          (''goerli'', VStr '''')]),
      (''CurveswapLidoPool'',
         [(''coverage'', VStr ''''),
          (''hardhat'', VStr ''''),
          (''geth'', VStr ''''),
          (''localhost'', VStr ''''),
          (''buidlerevm'', VStr ''''),
          (''kovan'', VStr ''''),
          (''ropsten'', VStr ''''),
          (''main'', VStr ''0xDC24316b9AE028F1497c275EB9192a3Ea0f67022''),
          (''tenderly'', VStr ''0xDC24316b9AE028F1497c275EB9192a3Ea0f67022''),
          (''goerli'', VStr ''0xCEB67769c63cfFc6C8a6c68e85aBE1Df396B7aDA'')]),
      (''UniswapRouter'',
         [(''coverage'', VStr ''''),
          (''hardhat'', VStr ''''),
          (''geth'', VStr ''''),
          (''localhost'', VStr ''''),
          (''buidlerevm'', VStr ''''),
          (''kovan'', VStr ''''),
          (''ropsten'', VStr ''''),
          (''main'', VStr ''0xE592427A0AEce92De3Edee1F18E0157C05861564''),
          (''tenderly'', VStr ''0xE592427A0AEce92De3Edee1F18E0157C05861564''),
          (''goerli'', VStr ''0xE592427A0AEce92De3Edee1F18E0157C05861564'')]),
      (''CurveswapAddressProvider'',
         [(''coverage'', VStr ''''),
          (''hardhat'', VStr ''''),
          (''geth'', VStr ''''),
          (''localhost'', VStr ''''),
          (''buidlerevm'', VStr ''''),
          (''kovan'', VStr ''''),
          (''ropsten'', VStr ''''),
          (''main'', VStr ''0x0000000022D53366457F9d5E68Ec105046FC4383''),
          (''tenderly'', VStr ''0x0000000022D53366457F9d5E68Ec105046FC4383''),
          (''goerli'', VStr ''0x0000000022D53366457F9d5E68Ec105046FC4383'')]),
      (''AavePool'',
         [(''coverage'', VStr ''''),
          (''hardhat'', VStr ''''),
          (''geth'', VStr ''''),
          (''localhost'', VStr ''''),
          (''buidlerevm'', VStr ''''),
          (''kovan'', VStr ''''),
          (''ropsten'', VStr ''''),
          (''main'', VStr ''0x7937D4799803FbBe595ed57278Bc4cA21f3bFfCB''),
          (''tenderly'', VStr ''0x7937D4799803FbBe595ed57278Bc4cA21f3bFfCB''),
          (''goerli'', VStr '''')])]"

definition SturdyConfig :: "PoolConfiguration" where
  "SturdyConfig =
     sturdy_CommonsConfig\<lparr>MarketId := ''Sturdy genesis market'', ProviderId := 1,
      ReservesConfig :=
        [(''DAI'', sturdy_strategyDAI),
         (''USDC'', sturdy_strategyUSDC),
         (''stETH'', sturdy_strategySTETH),
         (''yvRETH_WSTETH'', sturdy_strategyYVRETH_WSTETH),
         (''cvxRETH_WSTETH'', sturdy_strategyCVXRETH_WSTETH),
         (''cvxFRAX_3CRV'', sturdy_strategyCVXFRAX_3CRV),
         (''cvxSTECRV'', sturdy_strategyCVXSTECRV),
         (''cvxDOLA_3CRV'', sturdy_strategyCVXDOLA_3CRV)],
      ReserveAssets := sturdy_ReserveAssets,
      network_params := obj_assign (network_params sturdy_CommonsConfig) sturdy_addresses\<rparr>"

end
