(* ===== verification/MarketFantom.thy ===== *)
theory MarketFantom
  imports PoolConfig
begin

text \<open>
  The configuration of the Fantom market, \<^verbatim>\<open>markets/ftm/\<close>: interest rate strategies
  (\<^verbatim>\<open>rateStrategies.ts\<close>), reserves (\<^verbatim>\<open>reservesConfigs.ts\<close>), the common part
  (\<^verbatim>\<open>commons.ts\<close>) and the pool (\<^verbatim>\<open>index.ts\<close>). The products with \<open>oneRay\<close> and
  \<open>oneEther\<close> are exact; a computed key of a network enum is its runtime string, and a key written
  twice keeps its last value.
\<close>

section \<open>Rate strategies\<close>

definition fantom_rateStrategyStableTwo :: "IInterestRateStrategyParams" where
  "fantom_rateStrategyStableTwo =
     \<lparr>strategy_name = ''rateStrategyStableTwo'',
      optimalUtilizationRate = dec (9 * RAY div 10),
      baseVariableBorrowRate = ''0'',
      variableRateSlope1 = ''0'',
      variableRateSlope2 = dec (2 * RAY div 10),
      stableRateSlope1 = ''0'',
      stableRateSlope2 = ''0'',
      capacity = ''0''\<rparr>"

definition fantom_rateStrategyStableThree :: "IInterestRateStrategyParams" where
  "fantom_rateStrategyStableThree =
     \<lparr>strategy_name = ''rateStrategyStableThree'',
      optimalUtilizationRate = dec (9 * RAY div 10),
      baseVariableBorrowRate = ''0'',
      variableRateSlope1 = ''0'',
      variableRateSlope2 = dec (2 * RAY div 10),
      stableRateSlope1 = ''0'',
      stableRateSlope2 = ''0'',
      capacity = ''0''\<rparr>"

definition fantom_rateStrategyYVWFTM :: "IInterestRateStrategyParams" where
  "fantom_rateStrategyYVWFTM =
     \<lparr>strategy_name = ''rateStrategyYVWFTM'',
      optimalUtilizationRate = dec (45 * RAY div 100),
      baseVariableBorrowRate = ''0'',
      variableRateSlope1 = ''0'',
      variableRateSlope2 = ''0'',
      stableRateSlope1 = ''0'',
      stableRateSlope2 = ''0'',
      capacity = dec (20000000 * WAD)\<rparr>"

definition fantom_rateStrategyMOOWETH :: "IInterestRateStrategyParams" where
  "fantom_rateStrategyMOOWETH =
     \<lparr>strategy_name = ''rateStrategyMOOWETH'',
      optimalUtilizationRate = dec (45 * RAY div 100),
      baseVariableBorrowRate = ''0'',
      variableRateSlope1 = ''0'',
      variableRateSlope2 = ''0'',
      stableRateSlope1 = ''0'',
      stableRateSlope2 = ''0'',
      capacity = ''0''\<rparr>"

definition fantom_rateStrategyYVWETH :: "IInterestRateStrategyParams" where
  "fantom_rateStrategyYVWETH =
     \<lparr>strategy_name = ''rateStrategyYVWETH'',
      optimalUtilizationRate = dec (45 * RAY div 100),
      baseVariableBorrowRate = ''0'',
      variableRateSlope1 = ''0'',
      variableRateSlope2 = ''0'',
      stableRateSlope1 = ''0'',
      stableRateSlope2 = ''0'',
      capacity = ''0''\<rparr>"

definition fantom_rateStrategyYVWBTC :: "IInterestRateStrategyParams" where
  "fantom_rateStrategyYVWBTC =
     \<lparr>strategy_name = ''rateStrategyYVWBTC'',
      optimalUtilizationRate = dec (45 * RAY div 100),
      baseVariableBorrowRate = ''0'',
      variableRateSlope1 = ''0'',
      variableRateSlope2 = ''0'',
      stableRateSlope1 = ''0'',
      stableRateSlope2 = ''0'',
      capacity = ''0''\<rparr>"

definition fantom_rateStrategyYVBOO :: "IInterestRateStrategyParams" where
  "fantom_rateStrategyYVBOO =
     \<lparr>strategy_name = ''rateStrategyYVBOO'',
      optimalUtilizationRate = dec (45 * RAY div 100),
      baseVariableBorrowRate = ''0'',
      variableRateSlope1 = ''0'',
      variableRateSlope2 = ''0'',
      stableRateSlope1 = ''0'',
      stableRateSlope2 = ''0'',
      capacity = ''0''\<rparr>"

definition fantom_rateStrategyMOOTOMB_FTM :: "IInterestRateStrategyParams" where
  "fantom_rateStrategyMOOTOMB_FTM =
     \<lparr>strategy_name = ''rateStrategyMOOTOMB_FTM'',
      optimalUtilizationRate = dec (45 * RAY div 100),
      baseVariableBorrowRate = ''0'',
      variableRateSlope1 = ''0'',
      variableRateSlope2 = ''0'',
      stableRateSlope1 = ''0'',
      stableRateSlope2 = ''0'',
      capacity = ''0''\<rparr>"

definition fantom_rateStrategyMOOTOMB_MIMATIC :: "IInterestRateStrategyParams" where
  "fantom_rateStrategyMOOTOMB_MIMATIC =
     \<lparr>strategy_name = ''rateStrategyMOOTOMB_MIMATIC'',
      optimalUtilizationRate = dec (45 * RAY div 100),
      baseVariableBorrowRate = ''0'',
      variableRateSlope1 = ''0'',
      variableRateSlope2 = ''0'',
      stableRateSlope1 = ''0'',
      stableRateSlope2 = ''0'',
      capacity = ''0''\<rparr>"

definition fantom_rateStrategyYVFBEETS :: "IInterestRateStrategyParams" where
  "fantom_rateStrategyYVFBEETS =
     \<lparr>strategy_name = ''rateStrategyYVFBEETS'',
      optimalUtilizationRate = dec (45 * RAY div 100),
      baseVariableBorrowRate = ''0'',
      variableRateSlope1 = ''0'',
      variableRateSlope2 = ''0'',
      stableRateSlope1 = ''0'',
      stableRateSlope2 = ''0'',
      capacity = dec (8000000 * WAD)\<rparr>"

definition fantom_rateStrategyYVLINK :: "IInterestRateStrategyParams" where
  "fantom_rateStrategyYVLINK =
     \<lparr>strategy_name = ''rateStrategyYVLINK'',
      optimalUtilizationRate = dec (45 * RAY div 100),
      baseVariableBorrowRate = ''0'',
      variableRateSlope1 = ''0'',
      variableRateSlope2 = ''0'',
      stableRateSlope1 = ''0'',
      stableRateSlope2 = ''0'',
      capacity = ''0''\<rparr>"

definition fantom_rateStrategyYVCRV :: "IInterestRateStrategyParams" where
  "fantom_rateStrategyYVCRV =
     \<lparr>strategy_name = ''rateStrategyYVCRV'',
      optimalUtilizationRate = dec (45 * RAY div 100),
      baseVariableBorrowRate = ''0'',
      variableRateSlope1 = ''0'',
      variableRateSlope2 = ''0'',
      stableRateSlope1 = ''0'',
      stableRateSlope2 = ''0'',
      capacity = ''0''\<rparr>"

definition fantom_rateStrategyYVSPELL :: "IInterestRateStrategyParams" where
  "fantom_rateStrategyYVSPELL =
     \<lparr>strategy_name = ''rateStrategyYVSPELL'',
      optimalUtilizationRate = dec (45 * RAY div 100),
      baseVariableBorrowRate = ''0'',
      variableRateSlope1 = ''0'',
      variableRateSlope2 = ''0'',
      stableRateSlope1 = ''0'',
      stableRateSlope2 = ''0'',
      capacity = ''0''\<rparr>"

definition fantom_rateStrategyMOOBASED_MIMATIC :: "IInterestRateStrategyParams" where
  "fantom_rateStrategyMOOBASED_MIMATIC =
     \<lparr>strategy_name = ''rateStrategyMOOBASED_MIMATIC'',
      optimalUtilizationRate = dec (45 * RAY div 100),
      baseVariableBorrowRate = ''0'',
      variableRateSlope1 = ''0'',
      variableRateSlope2 = ''0'',
      stableRateSlope1 = ''0'',
      stableRateSlope2 = ''0'',
      capacity = ''0''\<rparr>"

section \<open>Reserves\<close>

definition fantom_strategyDAI :: "IReserveParams" where
  "fantom_strategyDAI =
     \<lparr>borrowingEnabled = True,
      stableBorrowRateEnabled = False,
      reserveDecimals = ''18'',
      baseLTVAsCollateral = ''0'',
      liquidationThreshold = ''0'',
      liquidationBonus = ''0'',
      collateralEnabled = False,
      aTokenImpl = ''AToken'',
      reserveFactor = ''1000'',
      emissionPerSecond = ''10'',
      strategy = fantom_rateStrategyStableTwo\<rparr>"

definition fantom_strategyUSDC :: "IReserveParams" where
  "fantom_strategyUSDC =
     \<lparr>borrowingEnabled = True,
      stableBorrowRateEnabled = False,
      reserveDecimals = ''6'',
      baseLTVAsCollateral = ''0'',
      liquidationThreshold = ''0'',
      liquidationBonus = ''0'',
      collateralEnabled = False,
      aTokenImpl = ''AToken'',
      reserveFactor = ''1000'',
      emissionPerSecond = ''10'',
      strategy = fantom_rateStrategyStableThree\<rparr>"

definition fantom_strategyUSDT :: "IReserveParams" where
  "fantom_strategyUSDT =
     \<lparr>borrowingEnabled = True,
      stableBorrowRateEnabled = False,
      reserveDecimals = ''6'',
      baseLTVAsCollateral = ''0'',
      liquidationThreshold = ''0'',
      liquidationBonus = ''0'',
      collateralEnabled = False,
      aTokenImpl = ''AToken'',
      reserveFactor = ''1000'',
      emissionPerSecond = ''10'',
      strategy = fantom_rateStrategyStableThree\<rparr>"

definition fantom_strategyYVWFTM :: "IReserveParams" where
  "fantom_strategyYVWFTM =
     \<lparr>borrowingEnabled = False,
      stableBorrowRateEnabled = False,
      reserveDecimals = ''18'',
      baseLTVAsCollateral = ''7000'',
      liquidationThreshold = ''7500'',
      liquidationBonus = ''10750'',
      collateralEnabled = True,
      aTokenImpl = ''ATokenForCollateral'',
      reserveFactor = ''0'',
      emissionPerSecond = ''0'',
      strategy = fantom_rateStrategyYVWFTM\<rparr>"

definition fantom_strategyMOOWETH :: "IReserveParams" where
  "fantom_strategyMOOWETH =
     \<lparr>borrowingEnabled = False,
      stableBorrowRateEnabled = False,
      reserveDecimals = ''18'',
      baseLTVAsCollateral = ''7000'',
      liquidationThreshold = ''7500'',
      liquidationBonus = ''10750'',
      collateralEnabled = True,
      aTokenImpl = ''ATokenForCollateral'',
      reserveFactor = ''0'',
      emissionPerSecond = ''0'',
      strategy = fantom_rateStrategyMOOWETH\<rparr>"

definition fantom_strategyYVWETH :: "IReserveParams" where
  "fantom_strategyYVWETH =
     \<lparr>borrowingEnabled = False,
      stableBorrowRateEnabled = False,
      reserveDecimals = ''18'',
      baseLTVAsCollateral = ''0'',
      liquidationThreshold = ''7500'',
      liquidationBonus = ''10750'',
      collateralEnabled = True,
      aTokenImpl = ''ATokenForCollateral'',
      reserveFactor = ''0'',
      emissionPerSecond = ''0'',
      strategy = fantom_rateStrategyYVWETH\<rparr>"

definition fantom_strategyYVWBTC :: "IReserveParams" where
  "fantom_strategyYVWBTC =
     \<lparr>borrowingEnabled = False,
      stableBorrowRateEnabled = False,
      reserveDecimals = ''8'',
      baseLTVAsCollateral = ''0'',
      liquidationThreshold = ''7500'',
      liquidationBonus = ''10750'',
      collateralEnabled = True,
      aTokenImpl = ''ATokenForCollateral'',
      reserveFactor = ''0'',
      emissionPerSecond = ''0'',
      strategy = fantom_rateStrategyYVWBTC\<rparr>"

definition fantom_strategyYVBOO :: "IReserveParams" where
  "fantom_strategyYVBOO =
     \<lparr>borrowingEnabled = False,
      stableBorrowRateEnabled = False,
      reserveDecimals = ''18'',
      baseLTVAsCollateral = ''6000'',
      liquidationThreshold = ''7000'',
      liquidationBonus = ''11000'',
      collateralEnabled = True,
      aTokenImpl = ''ATokenForCollateral'',
      reserveFactor = ''0'',
      emissionPerSecond = ''0'',
      strategy = fantom_rateStrategyYVBOO\<rparr>"

definition fantom_strategyMOOTOMB_FTM :: "IReserveParams" where
  "fantom_strategyMOOTOMB_FTM =
     \<lparr>borrowingEnabled = False,
      stableBorrowRateEnabled = False,
      reserveDecimals = ''18'',
      baseLTVAsCollateral = ''7000'',
      liquidationThreshold = ''7500'',
      liquidationBonus = ''10750'',
      collateralEnabled = True,
      aTokenImpl = ''ATokenForCollateral'',
      reserveFactor = ''0'',
      emissionPerSecond = ''0'',
      strategy = fantom_rateStrategyMOOTOMB_FTM\<rparr>"

definition fantom_strategyMOOTOMB_MIMATIC :: "IReserveParams" where
  "fantom_strategyMOOTOMB_MIMATIC =
     \<lparr>borrowingEnabled = False,
      stableBorrowRateEnabled = False,
      reserveDecimals = ''18'',
      baseLTVAsCollateral = ''0'',
      liquidationThreshold = ''7500'',
      liquidationBonus = ''10750'',
      collateralEnabled = True,
      aTokenImpl = ''ATokenForCollateral'',
      reserveFactor = ''0'',
      emissionPerSecond = ''0'',
      strategy = fantom_rateStrategyMOOTOMB_MIMATIC\<rparr>"

definition fantom_strategyYVFBEETS :: "IReserveParams" where
  "fantom_strategyYVFBEETS =
     \<lparr>borrowingEnabled = False,
      stableBorrowRateEnabled = False,
      reserveDecimals = ''18'',
      baseLTVAsCollateral = ''0'',
      liquidationThreshold = ''7000'',
      liquidationBonus = ''11000'',
      collateralEnabled = True,
      aTokenImpl = ''ATokenForCollateral'',
      reserveFactor = ''0'',
      emissionPerSecond = ''0'',
      strategy = fantom_rateStrategyYVFBEETS\<rparr>"

definition fantom_strategyYVLINK :: "IReserveParams" where
  "fantom_strategyYVLINK =
     \<lparr>borrowingEnabled = False,
      stableBorrowRateEnabled = False,
      reserveDecimals = ''18'',
      baseLTVAsCollateral = ''0'',
      liquidationThreshold = ''7500'',
      liquidationBonus = ''10700'',
      collateralEnabled = True,
      aTokenImpl = ''ATokenForCollateral'',
      reserveFactor = ''0'',
      emissionPerSecond = ''0'',
      strategy = fantom_rateStrategyYVLINK\<rparr>"

definition fantom_strategyYVCRV :: "IReserveParams" where
  "fantom_strategyYVCRV =
     \<lparr>borrowingEnabled = False,
      stableBorrowRateEnabled = False,
      reserveDecimals = ''18'',
      baseLTVAsCollateral = ''6000'',
      liquidationThreshold = ''7000'',
      liquidationBonus = ''11000'',
      collateralEnabled = True,
      aTokenImpl = ''ATokenForCollateral'',
      reserveFactor = ''0'',
      emissionPerSecond = ''0'',
      strategy = fantom_rateStrategyYVCRV\<rparr>"

definition fantom_strategyYVSPELL :: "IReserveParams" where
  "fantom_strategyYVSPELL =
     \<lparr>borrowingEnabled = False,
      stableBorrowRateEnabled = False,
      reserveDecimals = ''18'',
      baseLTVAsCollateral = ''6000'',
      liquidationThreshold = ''7000'',
      liquidationBonus = ''11000'',
      collateralEnabled = True,
      aTokenImpl = ''ATokenForCollateral'',
      reserveFactor = ''0'',
      emissionPerSecond = ''0'',
      strategy = fantom_rateStrategyYVSPELL\<rparr>"

definition fantom_strategyMOOBASED_MIMATIC :: "IReserveParams" where
  "fantom_strategyMOOBASED_MIMATIC =
     \<lparr>borrowingEnabled = False,
      stableBorrowRateEnabled = False,
      reserveDecimals = ''18'',
      baseLTVAsCollateral = ''0'',
      liquidationThreshold = ''7500'',
      liquidationBonus = ''10750'',
      collateralEnabled = True,
      aTokenImpl = ''ATokenForCollateral'',
      reserveFactor = ''0'',
      emissionPerSecond = ''0'',
      strategy = fantom_rateStrategyMOOBASED_MIMATIC\<rparr>"

section \<open>What the pools share\<close>

definition fantom_common_contracts :: "js_val obj obj" where
  "fantom_common_contracts =
     [(''PoolAdmin'',
         [(''ftm'', VUndef),
          (''ftm_test'', VUndef),
          (''tenderlyFTM'', VUndef)]),
      (''EmergencyAdmin'',
         [(''ftm'', VUndef),
          (''ftm_test'', VUndef),
          (''tenderlyFTM'', VUndef)]),
      (''ProviderRegistry'',
         [(''ftm'', VStr ''''),
          (''ftm_test'', VStr ''0xAD475FfbCB15fbc1D481ffDf16dBe5f6ac209Bca''),
          (''tenderlyFTM'', VStr ''0x23Df30FE1d2a8C6f4602db382D727561097F899E'')]),
      (''ProviderRegistryOwner'',
         [(''ftm'', VStr ''''),
          (''ftm_test'', VStr ''0x661fB502E24Deb30e927E39A38Bd2CC44D67339F''),
          (''tenderlyFTM'', VStr '''')]),
      (''LendingRateOracle'',
         [(''ftm'', VStr ''''),
          (''ftm_test'', VStr ''0x829223FB97E0fB5aecFbfD7167aEAe4ec9e0dc75''),
          (''tenderlyFTM'', VStr ''0x0024a128CB74FF0C93de1261C59E4d04321E9dC0'')]),
      (''LendingPoolCollateralManager'',
         [(''ftm'', VStr ''''),
          (''ftm_test'', VStr ''0x5a3aE44704D95CcAffe608c808308c850bDec94d''),
          (''tenderlyFTM'', VStr ''0x174110e39F1B67a185C9440B980d799AE5332795'')]),
      (''LendingPoolConfigurator'',
         [(''ftm'', VStr ''''),
          (''ftm_test'', VStr ''0x6719B46ee295208911f5241f429fDD9F5D88df86''),
          (''tenderlyFTM'', VStr ''0x72D2ADBD98e03Cd1eA05C133142DDFec0Aa26A6d'')]),
      (''LendingPool'',
         [(''ftm'', VStr ''''),
          (''ftm_test'', VStr ''0x7b07169cCB3CcEe717498e1Cefe6049De02f588D''),
          (''tenderlyFTM'', VStr ''0x7FF2520Cd7b76e8C49B5DB51505b842d665f3e9A'')]),
      (''TokenDistributor'',
         [(''ftm'', VStr ''''),
          (''ftm_test'', VStr ''''),
          (''tenderlyFTM'', VStr '''')]),
      (''SturdyOracle'',
         [(''ftm'', VStr ''''),
          (''ftm_test'', VStr ''''),
          (''tenderlyFTM'', VStr ''0xE84fD77E8B7bB52a71087653a26d6CC6448fb77D'')]),
      (''FallbackOracle'',
         [(''ftm'', VStr ZERO_ADDRESS),
          (''ftm_test'', VStr ''0x40aF3dF2B582a9055FbFAdD57f504B334218c2CD''),
          (''tenderlyFTM'', VStr ZERO_ADDRESS)])]"

definition fantom_ChainlinkAggregator :: "string obj obj" where
  "fantom_ChainlinkAggregator =
     [(''ftm'',
        [(''DAI'', ''0x91d5DEFAFfE2854C7D02F50c80FA1fdc8A721e52''),
         (''USDC'', ''0x2553f4eeb82d5A26427b8d1106C51499CBa5D99c''),
         (''fUSDT'', ''0xF64b636c5dFe1d3555A847341cDC449f612307d0''),
         (''yvWFTM'', ''0xf4766552D15AE4d256Ad41B6cf2933482B0680dc''),
         (''mooWETH'', ''0x11ddd3d147e5b83d01cee7070027092397d63658''),
         (''yvWETH'', ''0x11ddd3d147e5b83d01cee7070027092397d63658''),
         (''yvWBTC'', ''0x8e94C22142F4A64b99022ccDd994f4e9EC86E4B4''),
         (''yvBOO'', ''0xc8C80c17f05930876Ba7c1DD50D9186213496376''),
         (''TOMB'', ''0xa60811d6398EFaCa83D45F58C733EE7C3C4f0e1e''),
         (''MIMATIC'', ''0x827863222c9C603960dE6FF2c0dD58D457Dcc363''),
         (''BASED'', ''0x6cC542d4cD29Aa9528d1af83A196aBeCfEE61a8b''),
         (''mooTOMB_FTM'', ''0x6dB13c9fcEc2D7AE996bb2220d13aa9274005219''),
         (''mooTOMB_MIMATIC'', ''0xa26a6F2eB4Bc7005aF8eA5a1dd5B7bc1d8973592''),
         (''yvfBEETS'', ''0x7eD6f3f22Fb3F85E1071b5F6e616d5f0E0E32a49''),
         (''BEETS'', ''0x0C073077eB4277d18EA10796188e07ab886032BD''),
         (''yvLINK'', ''0x221C773d8647BC3034e91a0c47062e26D20d97B4''),
         (''yvCRV'', ''0xa141D7E3B44594cc65142AE5F2C7844Abea66D2B''),
         (''yvSPELL'', ''0x02E48946849e0BFDD7bEa5daa80AF77195C7E24c''),
         (''mooBASED_MIMATIC'', ''0x86A42b7A448c1568d21b00C90eaB53B8417eEaDc'')]),
      (''ftm_test'', []),
      (''tenderlyFTM'',
        [(''DAI'', ''0x91d5DEFAFfE2854C7D02F50c80FA1fdc8A721e52''),
         (''USDC'', ''0x2553f4eeb82d5A26427b8d1106C51499CBa5D99c''),
         (''fUSDT'', ''0xF64b636c5dFe1d3555A847341cDC449f612307d0''),
         (''yvWFTM'', ''0xf4766552D15AE4d256Ad41B6cf2933482B0680dc''),
         (''mooWETH'', ''0x11ddd3d147e5b83d01cee7070027092397d63658''),
         (''yvWETH'', ''0x11ddd3d147e5b83d01cee7070027092397d63658''),
         (''yvWBTC'', ''0x8e94C22142F4A64b99022ccDd994f4e9EC86E4B4''),
         (''yvBOO'', ''0xc8C80c17f05930876Ba7c1DD50D9186213496376''),
         (''TOMB'', ''0xa60811d6398EFaCa83D45F58C733EE7C3C4f0e1e''),
         (''MIMATIC'', ''0x827863222c9C603960dE6FF2c0dD58D457Dcc363''),
         (''BASED'', ''0x6cC542d4cD29Aa9528d1af83A196aBeCfEE61a8b''),
         (''mooTOMB_FTM'', ''0x6dB13c9fcEc2D7AE996bb2220d13aa9274005219''),
         (''mooTOMB_MIMATIC'', ''0xa26a6F2eB4Bc7005aF8eA5a1dd5B7bc1d8973592''),
         (''yvfBEETS'', ''0x7eD6f3f22Fb3F85E1071b5F6e616d5f0E0E32a49''),
         (''BEETS'', ''0x0C073077eB4277d18EA10796188e07ab886032BD''),
         (''yvLINK'', ''0x221C773d8647BC3034e91a0c47062e26D20d97B4''),
         (''yvCRV'', ''0xa141D7E3B44594cc65142AE5F2C7844Abea66D2B''),
         (''yvSPELL'', ''0x02E48946849e0BFDD7bEa5daa80AF77195C7E24c''),
         (''mooBASED_MIMATIC'', ''0x86A42b7A448c1568d21b00C90eaB53B8417eEaDc'')])]"

definition fantom_common_tokens :: "js_val obj obj" where
  "fantom_common_tokens =
     [(''ATokenDomainSeparator'',
         [(''ftm'', VStr ''''),
          (''ftm_test'', VStr ''''),
          (''tenderlyFTM'', VStr '''')]),
      (''WFTM'',
         [(''ftm'', VStr ''0x21be370D5312f44cB42ce377BC9b8a0cEF1A4C83''),
          (''ftm_test'', VStr ''0xf1277d1ed8ad466beddf92ef448a132661956621''),
          (''tenderlyFTM'', VStr ''0x21be370D5312f44cB42ce377BC9b8a0cEF1A4C83'')]),
      (''WETH'',
         [(''ftm'', VStr ''0x74b23882a30290451a17c44f4f05243b6b58c76d''),
          (''ftm_test'', VStr ''0x4135c251eE7804A73dB09D36C306AE0214deA28B''),
          (''tenderlyFTM'', VStr ''0x74b23882a30290451a17c44f4f05243b6b58c76d'')]),
      (''WBTC'',
         [(''ftm'', VStr ''0x321162Cd933E2Be498Cd2267a90534A804051b11''),
          (''ftm_test'', VStr ''0x0e9Cbd91546F290b0F99cF62DAC637B33D22D9B6''),
          (''tenderlyFTM'', VStr ''0x321162Cd933E2Be498Cd2267a90534A804051b11'')]),
      (''WrappedNativeToken'',
         [(''ftm'', VStr ''0x21be370D5312f44cB42ce377BC9b8a0cEF1A4C83''),
          (''ftm_test'', VStr ''0xf1277d1ed8ad466beddf92ef448a132661956621''),
          (''tenderlyFTM'', VStr ''0x21be370D5312f44cB42ce377BC9b8a0cEF1A4C83'')]),
      (''ReserveFactorTreasuryAddress'',
         [(''ftm'', VStr ''0xFd1D36995d76c0F75bbe4637C84C06E4A68bBB3a''),
          (''ftm_test'', VStr ''0xFd1D36995d76c0F75bbe4637C84C06E4A68bBB3a''),
          (''tenderlyFTM'', VStr ''0xFd1D36995d76c0F75bbe4637C84C06E4A68bBB3a'')]),
      (''IncentivesController'',
         [(''ftm'', VStr ''0xcdA2B5Cd654be0DBA19E4064c583642741712560''),
          (''ftm_test'', VStr ''0xe8257438ea046A3f5f246c862Efd8c96AD82289a''),
          (''tenderlyFTM'', VStr ''0xcdA2B5Cd654be0DBA19E4064c583642741712560'')])]"

definition fantom_CommonsConfig :: "PoolConfiguration" where
  "fantom_CommonsConfig =
     \<lparr>MarketId = ''Commons'',
      ATokenNamePrefix = ''Sturdy interest bearing'',
      StableDebtTokenNamePrefix = ''Sturdy stable debt bearing'',
      VariableDebtTokenNamePrefix = ''Sturdy variable debt bearing'',
      SymbolPrefix = '''',
      ProviderId = 0,
      OracleQuoteCurrency = ''USD'',
      OracleQuoteUnit = dec 100000000,
      ProtocolGlobalParams = \<lparr>TokenDistributorPercentageBase = ''10000'',
         MockUsdPriceInWei = ''373068412860'',
         UsdAddress = ''0x10F7Fc1F91Ba351f9C629c5947AD69bD03C05b96'',
         NilAddress = ''0x0000000000000000000000000000000000000000'',
         OneAddress = ''0x0000000000000000000000000000000000000001'',
         SturdyReferral = ''0''\<rparr>,
      AllAssetsInitialPrices = MOCK_CHAINLINK_AGGREGATORS_PRICES,
      LendingRateOracleRatesCommon = [(''DAI'', \<lparr>borrowRate = ''0''\<rparr>), (''USDC'', \<lparr>borrowRate = ''0''\<rparr>), (''fUSDT'', \<lparr>borrowRate = ''0''\<rparr>)],
      PoolAdminIndex = 0,
      EmergencyAdminIndex = 1,
      ChainlinkAggregator = fantom_ChainlinkAggregator,
      ReserveAssets = [(''ftm'', []),
                      (''ftm_test'', []),
                      (''tenderlyFTM'', [])],
      ReservesConfig = [],
      network_params = fantom_common_contracts @ fantom_common_tokens\<rparr>"

section \<open>The pool\<close>

definition fantom_ReserveAssets :: "string obj obj" where
  "fantom_ReserveAssets =
     [(''ftm'',
        [(''DAI'', ''0x8D11eC38a3EB5E956B052f67Da8Bdc9bef8Abf3E''),
         (''USDC'', ''0x04068DA6C83AFCFA0e13ba15A6696662335D5B75''),
         (''fUSDT'', ''0x049d68029688eAbF473097a2fC38ef61633A3C7A''),
         (''yvWFTM'', ''0x0DEC85e74A92c52b7F708c4B10207D9560CEFaf0''),
         (''mooWETH'', ''0x0a03D2C1cFcA48075992d810cc69Bd9FE026384a''),
         (''yvWETH'', ''0xCe2Fc0bDc18BD6a4d9A725791A3DEe33F3a23BB7''),
         (''yvWBTC'', ''0xd817A100AB8A29fE3DBd925c2EB489D67F758DA9''),
         (''yvBOO'', ''0x0fBbf9848D969776a5Eb842EdAfAf29ef4467698''),
         (''mooTOMB_FTM'', ''0x27c77411074ba90cA35e6f92A79dAd577c05A746''),
         (''mooTOMB_MIMATIC'', ''0xb2be5Cd33DBFf412Bce9587E44b5647a4BdA6a66''),
         (''yvfBEETS'', ''0x1e2fe8074a5ce1Bb7394856B0C618E75D823B93b''),
         (''yvLINK'', ''0xf2d323621785A066E64282d2B407eAc79cC04966''),
         (''yvCRV'', ''0x0446acaB3e0242fCf33Aa526f1c95a88068d5042''),
         (''yvSPELL'', ''0xD3c19eB022CAC706c898D60d756bf1535d605e1d''),
         (''mooBASED_MIMATIC'', ''0x5Ddb9a342672ecEe80a028CE40500F16ba1Bca44'')]),
      (''ftm_test'',
        [(''DAI'', ''0x9440c3bB6Adb5F0D5b8A460d8a8c010690daC2E8''),
         (''USDC'', ''0x8f785910e0cc96f854450DFb53be6492daff0b15''),
         (''fUSDT'', ''0x211554151F2f00305f33530Fdd3a5d0354927A65''),
         (''yvWFTM'', ''0x5a18d89Ad063C1AEd5B3c30741333c1a1116CFE3''),
         (''mooWETH'', ''0xDD7eEE411FF990561A679646e9d1E08861D6486d''),
         (''yvWETH'', ''0x5F37179e6714D137C6A196eAd40d79005c5e9A61''),
         (''yvWBTC'', ''0xf0074B10f63c7002A2254e8E310c60D72b13Ed91''),
         (''yvBOO'', ''0x62aaa32a0AD45BE19ca418aC9e0CE9dB01d6A272''),
         (''mooTOMB_FTM'', ''0x6Ea737e951c0079A0F4a38DFebe8B9Db7f29d17d''),
         (''mooTOMB_MIMATIC'', ''0x53F26e11497A3632CC58F88957C1761925f753B0''),
         (''yvfBEETS'', ''0xb61fc41e813a0f783aBFaF9B93ba5DC22Ad30B0D''),
         (''yvLINK'', ''0x9170EaE627687feb87Adfa71B43318A6565c440f''),
         (''yvCRV'', ''0x113D668aEB0205aa4EC9e3bAC47c9b4d6b66E674''),
         (''yvSPELL'', ''0x7fc436Eec9b6688A5ba46812C76051e87EB00998''),
         (''mooBASED_MIMATIC'', ''0x316C7c7e783A1d91806A069cF91aA048FD4a86dC'')]),
      (''tenderlyFTM'',
        [(''DAI'', ''0x8D11eC38a3EB5E956B052f67Da8Bdc9bef8Abf3E''),
         (''USDC'', ''0x04068DA6C83AFCFA0e13ba15A6696662335D5B75''),
         (''yvWFTM'', ''0x0DEC85e74A92c52b7F708c4B10207D9560CEFaf0''),
         (''mooWETH'', ''0x0a03D2C1cFcA48075992d810cc69Bd9FE026384a''),
         (''fUSDT'', ''0x049d68029688eAbF473097a2fC38ef61633A3C7A''),
         (''yvWETH'', ''0xCe2Fc0bDc18BD6a4d9A725791A3DEe33F3a23BB7''),
         (''yvWBTC'', ''0xd817A100AB8A29fE3DBd925c2EB489D67F758DA9''),
         (''yvBOO'', ''0x0fBbf9848D969776a5Eb842EdAfAf29ef4467698''),
         (''mooTOMB_FTM'', ''0x27c77411074ba90cA35e6f92A79dAd577c05A746''),
         (''mooTOMB_MIMATIC'', ''0xb2be5Cd33DBFf412Bce9587E44b5647a4BdA6a66''),
         (''yvfBEETS'', ''0x1e2fe8074a5ce1Bb7394856B0C618E75D823B93b''),
         (''yvLINK'', ''0xf2d323621785A066E64282d2B407eAc79cC04966''),
         (''yvCRV'', ''0x0446acaB3e0242fCf33Aa526f1c95a88068d5042''),
         (''yvSPELL'', ''0xD3c19eB022CAC706c898D60d756bf1535d605e1d''),
         (''mooBASED_MIMATIC'', ''0x5Ddb9a342672ecEe80a028CE40500F16ba1Bca44'')])]"

definition fantom_addresses :: "js_val obj obj" where
  "fantom_addresses =
     [(''BOO'',
         [(''ftm'', VStr ''0x841FAD6EAe12c286d1Fd18d1d525DFfA75C7EFFE''),
          (''ftm_test'', VStr ''0x9dAFB108f0fFd18C1f844C4782F8c7F934f8566E''),
          (''tenderlyFTM'', VStr ''0x841FAD6EAe12c286d1Fd18d1d525DFfA75C7EFFE'')]),
      (''TOMB'',
         [(''ftm'', VStr ''0x6c021Ae822BEa943b2E66552bDe1D2696a53fbB7''),
          (''ftm_test'', VStr ''0x81b1E83538Adaa4164156ED43b8081aA97eD197D''),
          (''tenderlyFTM'', VStr ''0x6c021Ae822BEa943b2E66552bDe1D2696a53fbB7'')]),
      (''MIMATIC'',
         [(''ftm'', VStr ''0xfB98B335551a418cD0737375a2ea0ded62Ea213b''),
          (''ftm_test'', VStr ''0x3420eFfdc6ADd729325B38122904Cfe7F3dD6762''),
          (''tenderlyFTM'', VStr ''0xfB98B335551a418cD0737375a2ea0ded62Ea213b'')]),
      (''BASED'',
         [(''ftm'', VStr ''0x8D7d3409881b51466B483B11Ea1B8A03cdEd89ae''),
          (''ftm_test'', VStr ''0xD5868d9D96eFD744f4b0579C74Abdb26697E9AB2''),
          (''tenderlyFTM'', VStr ''0x8D7d3409881b51466B483B11Ea1B8A03cdEd89ae'')]),
      (''TOMB_FTM_LP'',
         [(''ftm'', VStr ''0x2A651563C9d3Af67aE0388a5c8F89b867038089e''),
          (''ftm_test'', VStr ''0x0906E97beB6f422C239627FeFB9198144904327d''),
          (''tenderlyFTM'', VStr ''0x2A651563C9d3Af67aE0388a5c8F89b867038089e'')]),
      (''TOMB_MIMATIC_LP'',
         [(''ftm'', VStr ''0x45f4682B560d4e3B8FF1F1b3A38FDBe775C7177b''),
          (''ftm_test'', VStr ''0x16c8deB0B2a1dfC8Fc44b4b2694ccAfa76dfE6B6''),
          (''tenderlyFTM'', VStr ''0x45f4682B560d4e3B8FF1F1b3A38FDBe775C7177b'')]),
      (''BASED_MIMATIC_LP'',
         [(''ftm'', VStr ''0x7B5B3751550be4FF87aC6bda89533F7A0c9825B3''),
          (''ftm_test'', VStr ''0x323b65bC4F76b36AB57EAF4cFBD9561cfaAe5d29''),
          (''tenderlyFTM'', VStr ''0x7B5B3751550be4FF87aC6bda89533F7A0c9825B3'')]),
      (''fBEETS'',
         [(''ftm'', VStr ''0xfcef8a994209d6916EB2C86cDD2AFD60Aa6F54b1''),
          (''ftm_test'', VStr ''0xBC412e39D2291DF1B7E5F05Fcdf9da9d5Af08411''),
          (''tenderlyFTM'', VStr ''0xfcef8a994209d6916EB2C86cDD2AFD60Aa6F54b1'')]),
      (''BEETS'',
         [(''ftm'', VStr ''0xF24Bcf4d1e507740041C9cFd2DddB29585aDCe1e''),
          (''ftm_test'', VStr ''0xEDCB19A71952Ea544dba5F5d0e82D80CC2f79816''),
          (''tenderlyFTM'', VStr ''0xF24Bcf4d1e507740041C9cFd2DddB29585aDCe1e'')]),
      (''LINK'',
         [(''ftm'', VStr ''0xb3654dc3D10Ea7645f8319668E8F54d2574FBdC8''),
          (''ftm_test'', VStr ''0x62d652e4F5E805A1Fb5B6e90B168Ff03a3A6efFF''),
          (''tenderlyFTM'', VStr ''0xb3654dc3D10Ea7645f8319668E8F54d2574FBdC8'')]),
      (''CRV'',
         [(''ftm'', VStr ''0x1E4F97b9f9F913c46F1632781732927B9019C68b''),
          (''ftm_test'', VStr ''0x9e5C734c28B8Df6F45d4b757F3dDFbc241042259''),
          (''tenderlyFTM'', VStr ''0x1E4F97b9f9F913c46F1632781732927B9019C68b'')]),
      (''SPELL'',
         [(''ftm'', VStr ''0x468003B688943977e6130F4F68F23aad939a1040''),
          (''ftm_test'', VStr ''0x180D7c72DAb76D11Dd8E0ffD4892ABc34D4d1f48''),
          (''tenderlyFTM'', VStr ''0x468003B688943977e6130F4F68F23aad939a1040'')]),
      (''YearnVaultFTM'',
         [(''ftm'', VStr ''0x0DEC85e74A92c52b7F708c4B10207D9560CEFaf0''),
          (''ftm_test'', VStr ''0x5a18d89Ad063C1AEd5B3c30741333c1a1116CFE3''),
          (''tenderlyFTM'', VStr ''0x0DEC85e74A92c52b7F708c4B10207D9560CEFaf0'')]),
      (''YearnWETHVaultFTM'',
         [(''ftm'', VStr ''0xCe2Fc0bDc18BD6a4d9A725791A3DEe33F3a23BB7''),
          (''ftm_test'', VStr ''0x5F37179e6714D137C6A196eAd40d79005c5e9A61''),
          (''tenderlyFTM'', VStr ''0xCe2Fc0bDc18BD6a4d9A725791A3DEe33F3a23BB7'')]),
      (''YearnWBTCVaultFTM'',
         [(''ftm'', VStr ''0xd817A100AB8A29fE3DBd925c2EB489D67F758DA9''),
          (''ftm_test'', VStr ''0xf0074B10f63c7002A2254e8E310c60D72b13Ed91''),
          (''tenderlyFTM'', VStr ''0xd817A100AB8A29fE3DBd925c2EB489D67F758DA9'')]),
      (''YearnBOOVaultFTM'',
         [(''ftm'', VStr ''0x0fBbf9848D969776a5Eb842EdAfAf29ef4467698''),
          (''ftm_test'', VStr ''0x62aaa32a0AD45BE19ca418aC9e0CE9dB01d6A272''),
          (''tenderlyFTM'', VStr ''0x0fBbf9848D969776a5Eb842EdAfAf29ef4467698'')]),
      (''BeefyVaultTOMB_FTM'',
         [(''ftm'', VStr ''0x27c77411074ba90cA35e6f92A79dAd577c05A746''),
          (''ftm_test'', VStr ''0x6Ea737e951c0079A0F4a38DFebe8B9Db7f29d17d''),
          (''tenderlyFTM'', VStr ''0x27c77411074ba90cA35e6f92A79dAd577c05A746'')]),
      (''BeefyVaultTOMB_MIMATIC'',
         [(''ftm'', VStr ''0xb2be5Cd33DBFf412Bce9587E44b5647a4BdA6a66''),
          (''ftm_test'', VStr ''0x53F26e11497A3632CC58F88957C1761925f753B0''),
          (''tenderlyFTM'', VStr ''0xb2be5Cd33DBFf412Bce9587E44b5647a4BdA6a66'')]),
      (''BeefyVaultBASED_MIMATIC'',
         [(''ftm'', VStr ''0x5Ddb9a342672ecEe80a028CE40500F16ba1Bca44''),
          (''ftm_test'', VStr ''0x316C7c7e783A1d91806A069cF91aA048FD4a86dC''),
          (''tenderlyFTM'', VStr ''0x5Ddb9a342672ecEe80a028CE40500F16ba1Bca44'')]),
      (''YearnFBEETSVaultFTM'',
         [(''ftm'', VStr ''0x1e2fe8074a5ce1Bb7394856B0C618E75D823B93b''),
          (''ftm_test'', VStr ''0xb61fc41e813a0f783aBFaF9B93ba5DC22Ad30B0D''),
          (''tenderlyFTM'', VStr ''0x1e2fe8074a5ce1Bb7394856B0C618E75D823B93b'')]),
      (''YearnLINKVaultFTM'',
         [(''ftm'', VStr ''0xf2d323621785A066E64282d2B407eAc79cC04966''),
          (''ftm_test'', VStr ''0x9170EaE627687feb87Adfa71B43318A6565c440f''),
          (''tenderlyFTM'', VStr ''0xf2d323621785A066E64282d2B407eAc79cC04966'')]),
      (''BeefyETHVault'',
         [(''ftm'', VStr ''0x0a03D2C1cFcA48075992d810cc69Bd9FE026384a''),
          (''ftm_test'', VStr ''0xDD7eEE411FF990561A679646e9d1E08861D6486d''),
          (''tenderlyFTM'', VStr ''0x0a03D2C1cFcA48075992d810cc69Bd9FE026384a'')]),
      (''YearnCRVVaultFTM'',
         [(''ftm'', VStr ''0x0446acaB3e0242fCf33Aa526f1c95a88068d5042''),
          (''ftm_test'', VStr ''0x113D668aEB0205aa4EC9e3bAC47c9b4d6b66E674''),
          (''tenderlyFTM'', VStr ''0x0446acaB3e0242fCf33Aa526f1c95a88068d5042'')]),
      (''YearnSPELLVaultFTM'',
         [(''ftm'', VStr ''0xD3c19eB022CAC706c898D60d756bf1535d605e1d''),
          (''ftm_test'', VStr ''0x7fc436Eec9b6688A5ba46812C76051e87EB00998''),
          (''tenderlyFTM'', VStr ''0xD3c19eB022CAC706c898D60d756bf1535d605e1d'')]),
      (''UniswapRouter'',
         [(''ftm'', VStr ''0xF491e7B69E4244ad4002BC14e878a34207E38c29''),
          (''ftm_test'', VStr ''0xcCAFCf876caB8f9542d6972f87B5D62e1182767d''),
          (''tenderlyFTM'', VStr ''0xF491e7B69E4244ad4002BC14e878a34207E38c29'')]),
      (''TombSwapRouter'',
         [(''ftm'', VStr ''0x6D0176C5ea1e44b08D3dd001b0784cE42F47a3A7''),
          (''ftm_test'', VStr ''''),
          (''tenderlyFTM'', VStr ''0x6D0176C5ea1e44b08D3dd001b0784cE42F47a3A7'')]),
      (''AavePool'',
         [(''ftm'', VStr ''0x794a61358D6845594F94dc1DB02A252b5b4814aD''),
          (''ftm_test'', VStr ''''),
          (''tenderlyFTM'', VStr ''0x794a61358D6845594F94dc1DB02A252b5b4814aD'')])]"

definition FantomConfig :: "PoolConfiguration" where
  "FantomConfig =
     fantom_CommonsConfig\<lparr>MarketId := ''Fantom market'', ProviderId := 2,
      ReservesConfig :=
        [(''DAI'', fantom_strategyDAI),
         (''USDC'', fantom_strategyUSDC),
         (''fUSDT'', fantom_strategyUSDT),
         (''yvWFTM'', fantom_strategyYVWFTM),
         (''mooWETH'', fantom_strategyMOOWETH),
         (''yvWETH'', fantom_strategyYVWETH),
         (''yvWBTC'', fantom_strategyYVWBTC),
         (''yvBOO'', fantom_strategyYVBOO),
         (''mooTOMB_FTM'', fantom_strategyMOOTOMB_FTM),
         (''mooTOMB_MIMATIC'', fantom_strategyMOOTOMB_MIMATIC),
         (''mooBASED_MIMATIC'', fantom_strategyMOOBASED_MIMATIC),
         (''yvfBEETS'', fantom_strategyYVFBEETS),
         (''yvLINK'', fantom_strategyYVLINK),
         (''yvCRV'', fantom_strategyYVCRV),
         (''yvSPELL'', fantom_strategyYVSPELL)],
      ReserveAssets := fantom_ReserveAssets,
      network_params := obj_assign (network_params fantom_CommonsConfig) fantom_addresses\<rparr>"

end
