(* ===== verification/Markets.thy ===== *)
theory Markets
  imports MarketSturdy MarketFantom
begin

text \<open>
  Choosing a market: \<open>loadPoolConfig\<close> and \<open>getReservesConfigByPool\<close> of
  \<^verbatim>\<open>helpers/configuration.ts\<close> and \<open>getReserveConfigs\<close> of \<^verbatim>\<open>helpers/init-helpers.ts\<close>.
\<close>

definition ConfigNames :: "string list" where
  "ConfigNames = [''Commons'', ''Sturdy'', ''Fantom'']"

definition loadPoolConfig :: "string \<Rightarrow> PoolConfiguration result" where
  "loadPoolConfig configName =
     (if configName = ''Sturdy'' then Inr SturdyConfig
      else if configName = ''Fantom'' then Inr FantomConfig
      else if configName = ''Commons'' then Inr sturdy_CommonsConfig
      else Inl (Thrown ''Unsupported pool configuration: Commons,Sturdy,Fantom''))"

definition getReservesConfigByPool :: "SturdyPools \<Rightarrow> IReserveParams obj" where
  "getReservesConfigByPool pool =
     getParamPerPool
       \<lparr>for_proto = obj_assign [] (ReservesConfig SturdyConfig),
        for_fantom = obj_assign [] (ReservesConfig FantomConfig)\<rparr> pool"

text \<open>The module namespace objects \<open>sturdyReserveConfigs\<close> and \<open>fantomReserveConfigs\<close>.\<close>

definition getReserveConfigs :: "string \<Rightarrow> IReserveParams obj result" where
  "getReserveConfigs pool =
     (if pool = ''Sturdy'' then Inr
      [(''strategyDAI'', sturdy_strategyDAI),
       (''strategyUSDC'', sturdy_strategyUSDC),
       (''strategySTETH'', sturdy_strategySTETH),
       (''strategyYVRETH_WSTETH'', sturdy_strategyYVRETH_WSTETH),
       (''strategyCVXRETH_WSTETH'', sturdy_strategyCVXRETH_WSTETH),
       (''strategyCVXFRAX_3CRV'', sturdy_strategyCVXFRAX_3CRV),
       (''strategyCVXSTECRV'', sturdy_strategyCVXSTECRV),
       (''strategyCVXDOLA_3CRV'', sturdy_strategyCVXDOLA_3CRV)]
      else if pool = ''Fantom'' then Inr
      [(''strategyDAI'', fantom_strategyDAI),
       (''strategyUSDC'', fantom_strategyUSDC),
       (''strategyUSDT'', fantom_strategyUSDT),
       (''strategyYVWFTM'', fantom_strategyYVWFTM),
       (''strategyMOOWETH'', fantom_strategyMOOWETH),
       (''strategyYVWETH'', fantom_strategyYVWETH),
       (''strategyYVWBTC'', fantom_strategyYVWBTC),
       (''strategyYVBOO'', fantom_strategyYVBOO),
       (''strategyMOOTOMB_FTM'', fantom_strategyMOOTOMB_FTM),
       (''strategyMOOTOMB_MIMATIC'', fantom_strategyMOOTOMB_MIMATIC),
       (''strategyYVFBEETS'', fantom_strategyYVFBEETS),
       (''strategyYVLINK'', fantom_strategyYVLINK),
       (''strategyYVCRV'', fantom_strategyYVCRV),
       (''strategyYVSPELL'', fantom_strategyYVSPELL),
       (''strategyMOOBASED_MIMATIC'', fantom_strategyMOOBASED_MIMATIC)]
      else Inl (Thrown ''Not exist reserveConfigs''))"

section \<open>Reading a field\<close>

text \<open>A field is the pool's own when the pool sets it, and otherwise the one of the pool's common configuration.\<close>

lemma Fantom_params:
  "obj_get (network_params FantomConfig) field =
     (case map_of (rev fantom_addresses) field of
        Some param \<Rightarrow> Some param
      | None \<Rightarrow> map_of (fantom_common_contracts @ fantom_common_tokens) field)"
  by (simp add: FantomConfig_def fantom_CommonsConfig_def obj_get_assign obj_get_def [of "_ @ _"] split: option.split)

lemma Sturdy_params:
  "obj_get (network_params SturdyConfig) field =
     (case map_of (rev sturdy_addresses) field of
        Some param \<Rightarrow> Some param
      | None \<Rightarrow> map_of (sturdy_common_contracts @ sturdy_common_tokens) field)"
  by (simp add: SturdyConfig_def sturdy_CommonsConfig_def obj_get_assign obj_get_def [of "_ @ _"] split: option.split)

lemmas param_defs =
  networkParam_def getParamPerNetwork_def obj_get_def [where 'v = js_val] truthy_string_def deref_def
  fantom_addresses_def fantom_common_contracts_def fantom_common_tokens_def
  sturdy_addresses_def sturdy_common_contracts_def sturdy_common_tokens_def

end
