(* ===== verification/Deployments.thy ===== *)
theory Deployments
  imports Getters Markets
begin

text \<open>
  \<^verbatim>\<open>helpers/contracts-deployments.ts\<close>, the contracts that are deployed and recorded: the core of
  the protocol and its linked libraries, the oracles, the tokens and helpers, the mocks. A list of
  constructor arguments is the array the script passes on; \<open>args[i]\<close> beyond its end is
  \<open>undefined\<close>.
\<close>

section \<open>Steps the deployments share\<close>

definition arg :: "js_val list \<Rightarrow> nat \<Rightarrow> js_val" where
  "arg args i = (if i < length args then args ! i else VUndef)"

definition readArtifact :: "'x runtime \<Rightarrow> string \<Rightarrow> ('x, Artifact) io" where
  "readArtifact rt cid =
     (if network_name rt = ''buidlerevm''
      then on_network (rt_buidlerReadArtifact rt cid)
      else on_network (rt_readArtifact rt cid))"

text \<open>
  \<open>(await (await DRE.ethers.getContractFactory(abi, bytecode)).connect(signer).deploy()).deployed()\<close>
\<close>

definition deployBytecode :: "'x runtime \<Rightarrow> string \<Rightarrow> string \<Rightarrow> string option \<Rightarrow> ('x, Instance) io" where
  "deployBytecode rt abi bytecode signer = on_network (rt_deployBytecode rt abi bytecode signer)"

text \<open>
  \<open>await waitForTx(await addressesProvider.setAddress(formatBytes32String(key),
  getParamPerNetwork(config.<field>, network)))\<close>
\<close>

definition setAddressFromConfig ::
    "'x runtime \<Rightarrow> Instance \<Rightarrow> string \<Rightarrow> PoolConfiguration \<Rightarrow> string \<Rightarrow> ('x, unit) io" where
  "setAddressFromConfig rt addressesProvider key config field =
     await (lift_result (networkParam rt config field (network_name rt))) (\<lambda>param.
     sendAndWait rt addressesProvider ''setAddress'' [VBytes32 key, param])"

definition setReserveAssetFromConfig ::
    "'x runtime \<Rightarrow> Instance \<Rightarrow> string \<Rightarrow> PoolConfiguration \<Rightarrow> string \<Rightarrow> ('x, unit) io" where
  "setReserveAssetFromConfig rt addressesProvider key config symbol =
     await (lift_result (reserveAssetParam rt config symbol (network_name rt))) (\<lambda>param.
     sendAndWait rt addressesProvider ''setAddress'' [VBytes32 key, param])"

section \<open>The deployments\<close>

definition deployLendingPoolAddressesProvider :: "'x runtime \<Rightarrow> string \<Rightarrow> bool \<Rightarrow> ('x, Instance) io" where
  "deployLendingPoolAddressesProvider rt marketId verify =
     await (getFirstSigner rt) (\<lambda>signer.
     await (deploy rt ''LendingPoolAddressesProviderFactory'' signer [VStr marketId]) (\<lambda>contract.
     withSaveAndVerify rt contract ''LendingPoolAddressesProvider'' [VStr marketId] verify))"

definition deployLendingPoolAddressesProviderRegistry :: "'x runtime \<Rightarrow> bool \<Rightarrow> ('x, Instance) io" where
  "deployLendingPoolAddressesProviderRegistry rt verify =
     await (getFirstSigner rt) (\<lambda>signer.
     await (deploy rt ''LendingPoolAddressesProviderRegistryFactory'' signer []) (\<lambda>contract.
     withSaveAndVerify rt contract ''LendingPoolAddressesProviderRegistry'' [] verify))"

definition deployLendingPoolConfiguratorImpl :: "'x runtime \<Rightarrow> bool \<Rightarrow> ('x, Instance) io" where
  "deployLendingPoolConfiguratorImpl rt verify =
     await (getFirstSigner rt) (\<lambda>signer.
     await (deploy rt ''LendingPoolConfiguratorFactory'' signer []) (\<lambda>contract.
     withSaveAndVerify rt contract ''LendingPoolConfiguratorImpl'' [] verify))"

definition deployLendingPoolConfigurator :: "'x runtime \<Rightarrow> bool \<Rightarrow> ('x, Instance) io" where
  "deployLendingPoolConfigurator rt verify =
     await (getFirstSigner rt) (\<lambda>signer.
     await (deploy rt ''LendingPoolConfiguratorFactory'' signer []) (\<lambda>lendingPoolConfiguratorImpl.
     await (insertContractAddressInDb rt ''LendingPoolConfiguratorImpl'' (contract_address lendingPoolConfiguratorImpl)) (\<lambda>_.
     withSaveAndVerify rt lendingPoolConfiguratorImpl ''LendingPoolConfigurator'' [] verify)))"

definition deployReserveLogicLibrary :: "'x runtime \<Rightarrow> bool \<Rightarrow> ('x, Instance) io" where
  "deployReserveLogicLibrary rt verify =
     await (getFirstSigner rt) (\<lambda>signer.
     await (deploy rt ''ReserveLogicFactory'' signer []) (\<lambda>contract.
     withSaveAndVerify rt contract ''ReserveLogic'' [] verify))"

definition deployGenericLogic :: "'x runtime \<Rightarrow> Instance \<Rightarrow> bool \<Rightarrow> ('x, Instance) io" where
  "deployGenericLogic rt reserveLogic verify =
     await (readArtifact rt ''GenericLogic'') (\<lambda>genericLogicArtifact.
     let linkedGenericLogicByteCode =
           linkBytecode genericLogicArtifact [(''ReserveLogic'', contract_address reserveLogic)] in
     await (getFirstSigner rt) (\<lambda>signer.
     await (deployBytecode rt (artifact_abi genericLogicArtifact) linkedGenericLogicByteCode signer) (\<lambda>genericLogic.
     withSaveAndVerify rt genericLogic ''GenericLogic'' [] verify)))"

definition deployValidationLogic :: "'x runtime \<Rightarrow> Instance \<Rightarrow> Instance \<Rightarrow> bool \<Rightarrow> ('x, Instance) io" where
  "deployValidationLogic rt reserveLogic genericLogic verify =
     await (readArtifact rt ''ValidationLogic'') (\<lambda>validationLogicArtifact.
     let linkedValidationLogicByteCode =
           linkBytecode validationLogicArtifact
             [(''ReserveLogic'', contract_address reserveLogic), (''GenericLogic'', contract_address genericLogic)] in
     await (getFirstSigner rt) (\<lambda>signer.
     await (deployBytecode rt (artifact_abi validationLogicArtifact) linkedValidationLogicByteCode signer) (\<lambda>validationLogic.
     withSaveAndVerify rt validationLogic ''ValidationLogic'' [] verify)))"

definition deploySturdyLibraries :: "'x runtime \<Rightarrow> bool \<Rightarrow> ('x, string obj) io" where
  "deploySturdyLibraries rt verify =
     await (deployReserveLogicLibrary rt verify) (\<lambda>reserveLogic.
     await (deployGenericLogic rt reserveLogic verify) (\<lambda>genericLogic.
     await (deployValidationLogic rt reserveLogic genericLogic verify) (\<lambda>validationLogic.
     return_io [(''__$de8c0cf1a7d7c36c802af9a64fb9d86036$__'', contract_address validationLogic), (''__$22cd43a9dda9ce44e9b92ba393b88fb9ac$__'', contract_address reserveLogic)])))"

definition deployLendingPoolImpl :: "'x runtime \<Rightarrow> bool \<Rightarrow> ('x, Instance) io" where
  "deployLendingPoolImpl rt verify =
     await (deploySturdyLibraries rt verify) (\<lambda>libraries.
     await (getFirstSigner rt) (\<lambda>signer.
     await (deployLinked rt ''LendingPoolFactory'' libraries signer []) (\<lambda>lendingPoolImpl.
     await (insertContractAddressInDb rt ''LendingPoolImpl'' (contract_address lendingPoolImpl)) (\<lambda>_.
     return_io lendingPoolImpl))))"

definition deployLendingPool :: "'x runtime \<Rightarrow> bool \<Rightarrow> ('x, Instance) io" where
  "deployLendingPool rt verify =
     await (deploySturdyLibraries rt verify) (\<lambda>libraries.
     await (getFirstSigner rt) (\<lambda>signer.
     await (deployLinked rt ''LendingPoolFactory'' libraries signer []) (\<lambda>lendingPoolImpl.
     await (insertContractAddressInDb rt ''LendingPoolImpl'' (contract_address lendingPoolImpl)) (\<lambda>_.
     withSaveAndVerify rt lendingPoolImpl ''LendingPool'' [] verify))))"

definition deployPriceOracle :: "'x runtime \<Rightarrow> bool \<Rightarrow> ('x, Instance) io" where
  "deployPriceOracle rt verify =
     await (getFirstSigner rt) (\<lambda>signer.
     await (deploy rt ''PriceOracleFactory'' signer []) (\<lambda>contract.
     withSaveAndVerify rt contract ''PriceOracle'' [] verify))"

definition deployLendingRateOracle :: "'x runtime \<Rightarrow> bool \<Rightarrow> ('x, Instance) io" where
  "deployLendingRateOracle rt verify =
     await (getFirstSigner rt) (\<lambda>signer.
     await (deploy rt ''LendingRateOracleFactory'' signer []) (\<lambda>contract.
     withSaveAndVerify rt contract ''LendingRateOracle'' [] verify))"

definition deployMockAggregator :: "'x runtime \<Rightarrow> string \<Rightarrow> bool \<Rightarrow> ('x, Instance) io" where
  "deployMockAggregator rt price verify =
     await (getFirstSigner rt) (\<lambda>signer.
     await (deploy rt ''MockAggregatorFactory'' signer [VStr price]) (\<lambda>contract.
     withSaveAndVerify rt contract ''MockAggregator'' [VStr price] verify))"

definition deploySturdyOracle :: "'x runtime \<Rightarrow> js_val list \<Rightarrow> bool \<Rightarrow> ('x, Instance) io" where
  "deploySturdyOracle rt args verify =
     await (getFirstSigner rt) (\<lambda>signer.
     await (deploy rt ''SturdyOracleFactory'' signer args) (\<lambda>contract.
     withSaveAndVerify rt contract ''SturdyOracle'' args verify))"

definition deployBooOracle :: "'x runtime \<Rightarrow> bool \<Rightarrow> ('x, Instance) io" where
  "deployBooOracle rt verify =
     await (getFirstSigner rt) (\<lambda>signer.
     await (deploy rt ''BooOracleFactory'' signer []) (\<lambda>contract.
     withSaveAndVerify rt contract ''BooOracle'' [] verify))"

definition deployTombOracle :: "'x runtime \<Rightarrow> bool \<Rightarrow> ('x, Instance) io" where
  "deployTombOracle rt verify =
     await (getFirstSigner rt) (\<lambda>signer.
     await (deploy rt ''TombOracleFactory'' signer []) (\<lambda>contract.
     withSaveAndVerify rt contract ''TombOracle'' [] verify))"

definition deployTombFtmLPOracle :: "'x runtime \<Rightarrow> bool \<Rightarrow> ('x, Instance) io" where
  "deployTombFtmLPOracle rt verify =
     await (getFirstSigner rt) (\<lambda>signer.
     await (deploy rt ''TombFtmLPOracleFactory'' signer []) (\<lambda>contract.
     withSaveAndVerify rt contract ''TombFtmLPOracle'' [] verify))"

definition deployTombMiMaticLPOracle :: "'x runtime \<Rightarrow> bool \<Rightarrow> ('x, Instance) io" where
  "deployTombMiMaticLPOracle rt verify =
     await (getFirstSigner rt) (\<lambda>signer.
     await (deploy rt ''TombMiMaticLPOracleFactory'' signer []) (\<lambda>contract.
     withSaveAndVerify rt contract ''TombMiMaticLPOracle'' [] verify))"

definition deployFBeetsOracle :: "'x runtime \<Rightarrow> bool \<Rightarrow> ('x, Instance) io" where
  "deployFBeetsOracle rt verify =
     await (getFirstSigner rt) (\<lambda>signer.
     await (deploy rt ''FBeetsOracleFactory'' signer []) (\<lambda>contract.
     withSaveAndVerify rt contract ''FBeetsOracle'' [] verify))"

definition deployBeetsOracle :: "'x runtime \<Rightarrow> bool \<Rightarrow> ('x, Instance) io" where
  "deployBeetsOracle rt verify =
     await (getFirstSigner rt) (\<lambda>signer.
     await (deploy rt ''BeetsOracleFactory'' signer []) (\<lambda>contract.
     withSaveAndVerify rt contract ''BeetsOracle'' [] verify))"

definition deployBasedOracle :: "'x runtime \<Rightarrow> bool \<Rightarrow> ('x, Instance) io" where
  "deployBasedOracle rt verify =
     await (getFirstSigner rt) (\<lambda>signer.
     await (deploy rt ''BasedOracleFactory'' signer []) (\<lambda>contract.
     withSaveAndVerify rt contract ''BasedOracle'' [] verify))"

definition deployBasedMiMaticLPOracle :: "'x runtime \<Rightarrow> bool \<Rightarrow> ('x, Instance) io" where
  "deployBasedMiMaticLPOracle rt verify =
     await (getFirstSigner rt) (\<lambda>signer.
     await (deploy rt ''BasedMiMaticLPOracleFactory'' signer []) (\<lambda>contract.
     withSaveAndVerify rt contract ''BasedMiMaticLPOracle'' [] verify))"

definition deployRETHWstETHLPOracle :: "'x runtime \<Rightarrow> bool \<Rightarrow> ('x, Instance) io" where
  "deployRETHWstETHLPOracle rt verify =
     await (getFirstSigner rt) (\<lambda>signer.
     await (deploy rt ''CrvREthWstETHOracleFactory'' signer []) (\<lambda>contract.
     withSaveAndVerify rt contract ''RETHWstETHLPOracle'' [] verify))"

definition deployFRAX3CRVPOracle :: "'x runtime \<Rightarrow> bool \<Rightarrow> ('x, Instance) io" where
  "deployFRAX3CRVPOracle rt verify =
     await (getFirstSigner rt) (\<lambda>signer.
     await (deploy rt ''FRAX3CRVOracleFactory'' signer []) (\<lambda>contract.
     withSaveAndVerify rt contract ''FRAX3CRVOracle'' [] verify))"

definition deploySTECRVOracle :: "'x runtime \<Rightarrow> bool \<Rightarrow> ('x, Instance) io" where
  "deploySTECRVOracle rt verify =
     await (getFirstSigner rt) (\<lambda>signer.
     await (deploy rt ''STECRVOracleFactory'' signer []) (\<lambda>contract.
     withSaveAndVerify rt contract ''STECRVOracle'' [] verify))"

definition deployDOLA3CRVOracle :: "'x runtime \<Rightarrow> bool \<Rightarrow> ('x, Instance) io" where
  "deployDOLA3CRVOracle rt verify =
     await (getFirstSigner rt) (\<lambda>signer.
     await (deploy rt ''DOLA3CRVOracleFactory'' signer []) (\<lambda>contract.
     withSaveAndVerify rt contract ''DOLA3CRVOracle'' [] verify))"

definition deployLendingPoolCollateralManagerImpl :: "'x runtime \<Rightarrow> bool \<Rightarrow> ('x, Instance) io" where
  "deployLendingPoolCollateralManagerImpl rt verify =
     await (getFirstSigner rt) (\<lambda>signer.
     await (deploy rt ''LendingPoolCollateralManagerFactory'' signer []) (\<lambda>contract.
     withSaveAndVerify rt contract ''LendingPoolCollateralManagerImpl'' [] verify))"

definition deployLendingPoolCollateralManager :: "'x runtime \<Rightarrow> bool \<Rightarrow> ('x, Instance) io" where
  "deployLendingPoolCollateralManager rt verify =
     await (getFirstSigner rt) (\<lambda>signer.
     await (deploy rt ''LendingPoolCollateralManagerFactory'' signer []) (\<lambda>collateralManagerImpl.
     await (insertContractAddressInDb rt ''LendingPoolCollateralManagerImpl'' (contract_address collateralManagerImpl)) (\<lambda>_.
     withSaveAndVerify rt collateralManagerImpl ''LendingPoolCollateralManager'' [] verify)))"

definition deploySturdyProtocolDataProvider :: "'x runtime \<Rightarrow> string \<Rightarrow> bool \<Rightarrow> ('x, Instance) io" where
  "deploySturdyProtocolDataProvider rt addressesProvider verify =
     await (getFirstSigner rt) (\<lambda>signer.
     await (deploy rt ''SturdyProtocolDataProviderFactory'' signer [VStr addressesProvider]) (\<lambda>contract.
     withSaveAndVerify rt contract ''SturdyProtocolDataProvider'' [VStr addressesProvider] verify))"

definition deployMintableERC20 :: "'x runtime \<Rightarrow> js_val list \<Rightarrow> bool \<Rightarrow> ('x, Instance) io" where
  "deployMintableERC20 rt args verify =
     await (getFirstSigner rt) (\<lambda>signer.
     await (deploy rt ''MintableERC20Factory'' signer args) (\<lambda>contract.
     withSaveAndVerify rt contract ''MintableERC20'' args verify))"

definition deployMintableDelegationERC20 :: "'x runtime \<Rightarrow> js_val list \<Rightarrow> bool \<Rightarrow> ('x, Instance) io" where
  "deployMintableDelegationERC20 rt args verify =
     await (getFirstSigner rt) (\<lambda>signer.
     await (deploy rt ''MintableDelegationERC20Factory'' signer args) (\<lambda>contract.
     withSaveAndVerify rt contract ''MintableDelegationERC20'' args verify))"

definition deployDefaultReserveInterestRateStrategy :: "'x runtime \<Rightarrow> js_val list \<Rightarrow> bool \<Rightarrow> ('x, Instance) io" where
  "deployDefaultReserveInterestRateStrategy rt args verify =
     await (getFirstSigner rt) (\<lambda>signer.
     await (deploy rt ''DefaultReserveInterestRateStrategyFactory'' signer args) (\<lambda>contract.
     withSaveAndVerify rt contract ''DefaultReserveInterestRateStrategy'' args verify))"

definition deployStableDebtToken :: "'x runtime \<Rightarrow> js_val list \<Rightarrow> bool \<Rightarrow> ('x, Instance) io" where
  "deployStableDebtToken rt args verify =
     await (getFirstSigner rt) (\<lambda>signer.
     await (deploy rt ''StableDebtTokenFactory'' signer []) (\<lambda>contract.
     await (withSaveAndVerify rt contract ''StableDebtToken'' [] verify) (\<lambda>instance.
     await (send rt instance ''initialize'' [arg args 0, arg args 1, arg args 2, arg args 5, arg args 3, arg args 4, VStr ''0x10'']) (\<lambda>_.
     return_io instance))))"

definition deployVariableDebtToken :: "'x runtime \<Rightarrow> js_val list \<Rightarrow> bool \<Rightarrow> ('x, Instance) io" where
  "deployVariableDebtToken rt args verify =
     await (getFirstSigner rt) (\<lambda>signer.
     await (deploy rt ''VariableDebtTokenFactory'' signer []) (\<lambda>contract.
     await (withSaveAndVerify rt contract ''VariableDebtToken'' [] verify) (\<lambda>instance.
     await (send rt instance ''initialize'' [arg args 0, arg args 1, arg args 2, arg args 5, arg args 3, arg args 4, VStr ''0x10'']) (\<lambda>_.
     return_io instance))))"

definition deployGenericStableDebtToken :: "'x runtime \<Rightarrow> ('x, Instance) io" where
  "deployGenericStableDebtToken rt =
     await (getFirstSigner rt) (\<lambda>signer.
     await (deploy rt ''StableDebtTokenFactory'' signer []) (\<lambda>contract.
     withSaveAndVerify rt contract ''StableDebtToken'' [] False))"

definition deployGenericVariableDebtToken :: "'x runtime \<Rightarrow> ('x, Instance) io" where
  "deployGenericVariableDebtToken rt =
     await (getFirstSigner rt) (\<lambda>signer.
     await (deploy rt ''VariableDebtTokenFactory'' signer []) (\<lambda>contract.
     withSaveAndVerify rt contract ''VariableDebtToken'' [] False))"

definition deployGenericAToken :: "'x runtime \<Rightarrow> js_val list \<Rightarrow> bool \<Rightarrow> ('x, Instance) io" where
  "deployGenericAToken rt args verify =
     await (getFirstSigner rt) (\<lambda>signer.
     await (deploy rt ''ATokenFactory'' signer []) (\<lambda>contract.
     await (withSaveAndVerify rt contract ''AToken'' [] verify) (\<lambda>instance.
     await (send rt instance ''initialize'' [arg args 0, arg args 2, arg args 1, arg args 3, arg args 6, arg args 4, arg args 5, VStr ''0x10'']) (\<lambda>_.
     return_io instance))))"

definition deployCollateralAToken :: "'x runtime \<Rightarrow> js_val list \<Rightarrow> bool \<Rightarrow> ('x, Instance) io" where
  "deployCollateralAToken rt args verify =
     await (getFirstSigner rt) (\<lambda>signer.
     await (deploy rt ''ATokenForCollateralFactory'' signer []) (\<lambda>contract.
     await (withSaveAndVerify rt contract ''ATokenForCollateral'' [] verify) (\<lambda>instance.
     await (send rt instance ''initialize'' [arg args 0, arg args 2, arg args 1, arg args 3, arg args 6, arg args 4, arg args 5, VStr ''0x10'']) (\<lambda>_.
     return_io instance))))"

definition deployGenericATokenImpl :: "'x runtime \<Rightarrow> bool \<Rightarrow> ('x, Instance) io" where
  "deployGenericATokenImpl rt verify =
     await (getFirstSigner rt) (\<lambda>signer.
     await (deploy rt ''ATokenFactory'' signer []) (\<lambda>contract.
     withSaveAndVerify rt contract ''AToken'' [] verify))"

definition deployCollateralATokenImpl :: "'x runtime \<Rightarrow> bool \<Rightarrow> ('x, Instance) io" where
  "deployCollateralATokenImpl rt verify =
     await (getFirstSigner rt) (\<lambda>signer.
     await (deploy rt ''ATokenForCollateralFactory'' signer []) (\<lambda>contract.
     withSaveAndVerify rt contract ''ATokenForCollateral'' [] verify))"

definition deployAllMockTokens :: "'x runtime \<Rightarrow> bool \<Rightarrow> ('x, Instance obj) io" where
  "deployAllMockTokens rt verify =
     (let protoConfigData = getReservesConfigByPool proto in
      for_fold (\<lambda>tokens tokenSymbol.
          let decimals = (case obj_get protoConfigData tokenSymbol of
                            None \<Rightarrow> ''18'' | Some configData \<Rightarrow> reserveDecimals configData) in
          await (deployMintableERC20 rt [VStr tokenSymbol, VStr tokenSymbol, VStr decimals] verify) (\<lambda>token.
          await (registerContractInJsonDb rt (toUpperCase tokenSymbol) token) (\<lambda>_.
          return_io (obj_set tokenSymbol token tokens))))
        [] TokenContractId)"

definition deployMockTokens :: "'x runtime \<Rightarrow> PoolConfiguration \<Rightarrow> bool \<Rightarrow> ('x, Instance obj) io" where
  "deployMockTokens rt config verify =
     (let configData = ReservesConfig config in
      for_fold (\<lambda>tokens tokenSymbol.
          await (lift_result (deref (obj_get configData tokenSymbol))) (\<lambda>params.
          let decimals = (if reserveDecimals params = [] then ''18'' else reserveDecimals params) in
          await (deployMintableERC20 rt [VStr tokenSymbol, VStr tokenSymbol, VStr decimals] verify) (\<lambda>token.
          await (registerContractInJsonDb rt (toUpperCase tokenSymbol) token) (\<lambda>_.
          return_io (obj_set tokenSymbol token tokens)))))
        [] (obj_keys configData))"

definition deployStableAndVariableTokensHelper :: "'x runtime \<Rightarrow> js_val list \<Rightarrow> bool \<Rightarrow> ('x, Instance) io" where
  "deployStableAndVariableTokensHelper rt args verify =
     await (getFirstSigner rt) (\<lambda>signer.
     await (deploy rt ''StableAndVariableTokensHelperFactory'' signer args) (\<lambda>contract.
     withSaveAndVerify rt contract ''StableAndVariableTokensHelper'' args verify))"

definition deployATokensAndRatesHelper :: "'x runtime \<Rightarrow> js_val list \<Rightarrow> bool \<Rightarrow> ('x, Instance) io" where
  "deployATokensAndRatesHelper rt args verify =
     await (getFirstSigner rt) (\<lambda>signer.
     await (deploy rt ''ATokensAndRatesHelperFactory'' signer args) (\<lambda>contract.
     withSaveAndVerify rt contract ''ATokensAndRatesHelper'' args verify))"

definition deployMockStableDebtToken :: "'x runtime \<Rightarrow> js_val list \<Rightarrow> bool \<Rightarrow> ('x, Instance) io" where
  "deployMockStableDebtToken rt args verify =
     await (getFirstSigner rt) (\<lambda>signer.
     await (deploy rt ''MockStableDebtTokenFactory'' signer []) (\<lambda>contract.
     await (withSaveAndVerify rt contract ''MockStableDebtToken'' [] verify) (\<lambda>instance.
     await (send rt instance ''initialize'' [arg args 0, arg args 1, arg args 2, VStr ''18'', arg args 3, arg args 4, arg args 5]) (\<lambda>_.
     return_io instance))))"

definition deployWETHMocked :: "'x runtime \<Rightarrow> bool \<Rightarrow> ('x, Instance) io" where
  "deployWETHMocked rt verify =
     await (getFirstSigner rt) (\<lambda>signer.
     await (deploy rt ''WETH9MockedFactory'' signer []) (\<lambda>contract.
     withSaveAndVerify rt contract ''WETHMocked'' [] verify))"

definition deployMockVariableDebtToken :: "'x runtime \<Rightarrow> js_val list \<Rightarrow> bool \<Rightarrow> ('x, Instance) io" where
  "deployMockVariableDebtToken rt args verify =
     await (getFirstSigner rt) (\<lambda>signer.
     await (deploy rt ''MockVariableDebtTokenFactory'' signer []) (\<lambda>contract.
     await (withSaveAndVerify rt contract ''MockVariableDebtToken'' [] verify) (\<lambda>instance.
     await (send rt instance ''initialize'' [arg args 0, arg args 1, arg args 2, VStr ''18'', arg args 3, arg args 4, arg args 5]) (\<lambda>_.
     return_io instance))))"

definition deployMockAToken :: "'x runtime \<Rightarrow> js_val list \<Rightarrow> bool \<Rightarrow> ('x, Instance) io" where
  "deployMockAToken rt args verify =
     await (getFirstSigner rt) (\<lambda>signer.
     await (deploy rt ''MockATokenFactory'' signer []) (\<lambda>contract.
     await (withSaveAndVerify rt contract ''MockAToken'' [] verify) (\<lambda>instance.
     await (send rt instance ''initialize'' [arg args 0, arg args 2, arg args 1, arg args 3, VStr ''18'', arg args 4, arg args 5, arg args 6]) (\<lambda>_.
     return_io instance))))"

definition deployWalletBalancerProvider :: "'x runtime \<Rightarrow> bool \<Rightarrow> ('x, Instance) io" where
  "deployWalletBalancerProvider rt verify =
     await (getFirstSigner rt) (\<lambda>signer.
     await (deploy rt ''WalletBalanceProviderFactory'' signer []) (\<lambda>contract.
     withSaveAndVerify rt contract ''WalletBalanceProvider'' [] verify))"

definition deployUiPoolDataProvider :: "'x runtime \<Rightarrow> js_val list \<Rightarrow> bool \<Rightarrow> ('x, Instance) io" where
  "deployUiPoolDataProvider rt args verify =
     (let cid = ''UiPoolDataProvider''; args = [arg args 0, arg args 1] in
      await (deployContract rt cid args) (\<lambda>instance.
      await (if verify then await (verifyContract rt cid instance args) (\<lambda>_. return_io ()) else return_io ()) (\<lambda>_.
      return_io instance)))"

definition deployUiIncentiveDataProvider :: "'x runtime \<Rightarrow> bool \<Rightarrow> ('x, Instance) io" where
  "deployUiIncentiveDataProvider rt verify =
     await (getFirstSigner rt) (\<lambda>signer.
     await (deploy rt ''UiIncentiveDataProviderFactory'' signer []) (\<lambda>contract.
     withSaveAndVerify rt contract ''UiIncentiveDataProvider'' [] verify))"

definition deployMockDai :: "'x runtime \<Rightarrow> js_val \<Rightarrow> bool \<Rightarrow> ('x, Instance) io" where
  "deployMockDai rt chainId verify =
     await (getFirstSigner rt) (\<lambda>signer.
     await (deploy rt ''DaiFactory'' signer [chainId]) (\<lambda>contract.
     withSaveAndVerify rt contract ''DAIToken'' [chainId] verify))"

definition deployMockUSDC :: "'x runtime \<Rightarrow> js_val list \<Rightarrow> bool \<Rightarrow> ('x, Instance) io" where
  "deployMockUSDC rt args verify =
     await (getFirstSigner rt) (\<lambda>signer.
     await (deploy rt ''UsdcFactory'' signer args) (\<lambda>contract.
     withSaveAndVerify rt contract ''USDCToken'' args verify))"

definition deployMockUSDT :: "'x runtime \<Rightarrow> js_val list \<Rightarrow> bool \<Rightarrow> ('x, Instance) io" where
  "deployMockUSDT rt args verify =
     await (getFirstSigner rt) (\<lambda>signer.
     await (deploy rt ''UsdtFactory'' signer args) (\<lambda>contract.
     withSaveAndVerify rt contract ''USDTToken'' args verify))"

definition deployMockyvWFTM :: "'x runtime \<Rightarrow> js_val list \<Rightarrow> bool \<Rightarrow> ('x, Instance) io" where
  "deployMockyvWFTM rt args verify =
     await (getFirstSigner rt) (\<lambda>signer.
     await (deploy rt ''MockyvWFTMFactory'' signer args) (\<lambda>contract.
     withSaveAndVerify rt contract ''MockyvWFTM'' args verify))"

definition deployMockyvWETH :: "'x runtime \<Rightarrow> js_val list \<Rightarrow> bool \<Rightarrow> ('x, Instance) io" where
  "deployMockyvWETH rt args verify =
     await (getFirstSigner rt) (\<lambda>signer.
     await (deploy rt ''MockyvWETHFactory'' signer args) (\<lambda>contract.
     withSaveAndVerify rt contract ''MockyvWETH'' args verify))"

definition deployMockyvWBTC :: "'x runtime \<Rightarrow> js_val list \<Rightarrow> bool \<Rightarrow> ('x, Instance) io" where
  "deployMockyvWBTC rt args verify =
     await (getFirstSigner rt) (\<lambda>signer.
     await (deploy rt ''MockyvWBTCFactory'' signer args) (\<lambda>contract.
     withSaveAndVerify rt contract ''MockyvWBTC'' args verify))"

definition deployMockyvBOO :: "'x runtime \<Rightarrow> js_val list \<Rightarrow> bool \<Rightarrow> ('x, Instance) io" where
  "deployMockyvBOO rt args verify =
     await (getFirstSigner rt) (\<lambda>signer.
     await (deploy rt ''MockyvBOOFactory'' signer args) (\<lambda>contract.
     withSaveAndVerify rt contract ''MockyvBOO'' args verify))"

definition deployMockWETHForFTM :: "'x runtime \<Rightarrow> js_val list \<Rightarrow> bool \<Rightarrow> ('x, Instance) io" where
  "deployMockWETHForFTM rt args verify =
     await (getFirstSigner rt) (\<lambda>signer.
     await (deploy rt ''MockWETHForFTMFactory'' signer args) (\<lambda>contract.
     withSaveAndVerify rt contract ''MockWETHForFTM'' args verify))"

definition deployMockWBTCForFTM :: "'x runtime \<Rightarrow> js_val list \<Rightarrow> bool \<Rightarrow> ('x, Instance) io" where
  "deployMockWBTCForFTM rt args verify =
     await (getFirstSigner rt) (\<lambda>signer.
     await (deploy rt ''MockWBTCForFTMFactory'' signer args) (\<lambda>contract.
     withSaveAndVerify rt contract ''MockWBTCForFTM'' args verify))"

definition deployMockBOOForFTM :: "'x runtime \<Rightarrow> js_val list \<Rightarrow> bool \<Rightarrow> ('x, Instance) io" where
  "deployMockBOOForFTM rt args verify =
     await (getFirstSigner rt) (\<lambda>signer.
     await (deploy rt ''MockBOOForFTMFactory'' signer args) (\<lambda>contract.
     withSaveAndVerify rt contract ''MockBOOForFTM'' args verify))"

definition deployMockMooTOMBFTM :: "'x runtime \<Rightarrow> js_val list \<Rightarrow> bool \<Rightarrow> ('x, Instance) io" where
  "deployMockMooTOMBFTM rt args verify =
     await (getFirstSigner rt) (\<lambda>signer.
     await (deploy rt ''MockMooTOMBFTMFactory'' signer args) (\<lambda>contract.
     withSaveAndVerify rt contract ''MockMooTOMBFTM'' args verify))"

definition deployMockMooTOMBMIMATIC :: "'x runtime \<Rightarrow> js_val list \<Rightarrow> bool \<Rightarrow> ('x, Instance) io" where
  "deployMockMooTOMBMIMATIC rt args verify =
     await (getFirstSigner rt) (\<lambda>signer.
     await (deploy rt ''MockMooTOMBMIMATICFactory'' signer args) (\<lambda>contract.
     withSaveAndVerify rt contract ''MockMooTOMBMIMATIC'' args verify))"

definition deployMockMooBASEDMIMATIC :: "'x runtime \<Rightarrow> js_val list \<Rightarrow> bool \<Rightarrow> ('x, Instance) io" where
  "deployMockMooBASEDMIMATIC rt args verify =
     await (getFirstSigner rt) (\<lambda>signer.
     await (deploy rt ''MockMooBASEDMIMATICFactory'' signer args) (\<lambda>contract.
     withSaveAndVerify rt contract ''MockMooBASEDMIMATIC'' args verify))"

definition deployMockYearnVault :: "'x runtime \<Rightarrow> string \<Rightarrow> js_val list \<Rightarrow> bool \<Rightarrow> ('x, Instance) io" where
  "deployMockYearnVault rt cid args verify =
     await (getFirstSigner rt) (\<lambda>signer.
     await (deploy rt ''MockYearnVaultFactory'' signer args) (\<lambda>contract.
     withSaveAndVerify rt contract cid args verify))"

definition deployMockBeefyVault :: "'x runtime \<Rightarrow> string \<Rightarrow> js_val list \<Rightarrow> bool \<Rightarrow> ('x, Instance) io" where
  "deployMockBeefyVault rt cid args verify =
     await (getFirstSigner rt) (\<lambda>signer.
     await (deploy rt ''MockBeefyVaultFactory'' signer args) (\<lambda>contract.
     withSaveAndVerify rt contract cid args verify))"

definition deployVaultHelper :: "'x runtime \<Rightarrow> js_val list \<Rightarrow> bool \<Rightarrow> ('x, Instance) io" where
  "deployVaultHelper rt args verify =
     await (getFirstSigner rt) (\<lambda>signer.
     await (deploy rt ''DeployVaultHelperFactory'' signer args) (\<lambda>contract.
     withSaveAndVerify rt contract ''DeployVaultHelper'' args verify))"

end
