(* ===== verification/Configuration.thy ===== *)
theory Configuration
  imports Deployments
begin

text \<open>
  The parameters a deployment reads from a pool's configuration (\<^verbatim>\<open>helpers/configuration.ts\<close>)
  and the address maps of the mocks (\<^verbatim>\<open>helpers/mock-helpers.ts\<close>).
\<close>

section \<open>Parameters of the current network\<close>

text \<open>\<open>process.env.FORK ? process.env.FORK : DRE.network.name\<close>\<close>

definition currentNetwork :: "'x runtime \<Rightarrow> string" where
  "currentNetwork rt = (case env_FORK rt of Some f \<Rightarrow> if f \<noteq> [] then f else network_name rt | None \<Rightarrow> network_name rt)"

definition js_truthy :: "js_val \<Rightarrow> bool" where
  "js_truthy v = (case v of VUndef \<Rightarrow> False | VStr s \<Rightarrow> s \<noteq> [] | VNum n \<Rightarrow> n \<noteq> 0 | VBool b \<Rightarrow> b | _ \<Rightarrow> True)"

definition getGenesisPoolAdmin :: "'x runtime \<Rightarrow> PoolConfiguration \<Rightarrow> ('x, js_val) io" where
  "getGenesisPoolAdmin rt config =
     await (lift_result (networkParam rt config ''PoolAdmin'' (currentNetwork rt))) (\<lambda>targetAddress.
     if js_truthy targetAddress then return_io targetAddress
     else
       await (getEthersSignersAddresses rt) (\<lambda>addressList.
       let addressIndex = PoolAdminIndex config in
       return_io (opt_val (js_at addressList (int addressIndex)))))"

definition getEmergencyAdmin :: "'x runtime \<Rightarrow> PoolConfiguration \<Rightarrow> ('x, js_val) io" where
  "getEmergencyAdmin rt config =
     await (lift_result (networkParam rt config ''EmergencyAdmin'' (currentNetwork rt))) (\<lambda>targetAddress.
     if js_truthy targetAddress then return_io targetAddress
     else
       await (getEthersSignersAddresses rt) (\<lambda>addressList.
       let addressIndex = EmergencyAdminIndex config in
       return_io (opt_val (js_at addressList (int addressIndex)))))"

definition getTreasuryAddress :: "'x runtime \<Rightarrow> PoolConfiguration \<Rightarrow> ('x, js_val) io" where
  "getTreasuryAddress rt config =
     lift_result (networkParam rt config ''ReserveFactorTreasuryAddress'' (currentNetwork rt))"

definition getATokenDomainSeparatorPerNetwork :: "'x runtime \<Rightarrow> string \<Rightarrow> PoolConfiguration \<Rightarrow> js_val result" where
  "getATokenDomainSeparatorPerNetwork rt network config = networkParam rt config ''ATokenDomainSeparator'' network"

definition getWrappedNativeTokenAddress :: "'x runtime \<Rightarrow> PoolConfiguration \<Rightarrow> ('x, js_val) io" where
  "getWrappedNativeTokenAddress rt config =
     await (lift_result (networkParam rt config ''WrappedNativeToken'' (currentNetwork rt))) (\<lambda>wethAddress.
     if js_truthy wethAddress then return_io wethAddress
     else if str_includes (currentNetwork rt) ''main''
     then throw_io (Thrown ''WETH not set at mainnet configuration.'')
     else
       await (deployWETHMocked rt False) (\<lambda>weth.
       return_io (VStr (contract_address weth))))"

text \<open>
  The keys of the network's assets are read for each rate, so a network without assets is a
  \<open>TypeError\<close> unless there are no rates.
\<close>

definition getLendingRateOracles :: "'x runtime \<Rightarrow> PoolConfiguration \<Rightarrow> IMarketRates obj result" where
  "getLendingRateOracles rt poolConfig =
     (case obj_get (ReserveAssets poolConfig) (currentNetwork rt) of
        Some assets \<Rightarrow>
          Inr (filterMapBy (LendingRateOracleRatesCommon poolConfig) (\<lambda>key. key \<in> set (obj_keys assets)))
      | None \<Rightarrow> if LendingRateOracleRatesCommon poolConfig = [] then Inr [] else Inl TypeError)"

definition getQuoteCurrency :: "'x runtime \<Rightarrow> PoolConfiguration \<Rightarrow> ('x, js_val) io" where
  "getQuoteCurrency rt config =
     (if OracleQuoteCurrency config = ''ETH'' \<or> OracleQuoteCurrency config = ''WETH''
      then getWrappedNativeTokenAddress rt config
      else if OracleQuoteCurrency config = ''USD''
      then return_io (VStr (UsdAddress (ProtocolGlobalParams config)))
      else throw_io (Thrown (''Quote '' @ OracleQuoteCurrency config
             @ '' currency not set. Add a new case to getQuoteCurrency switch'')))"

section \<open>Addresses of the mocks\<close>

definition getAllTokenAddresses :: "Instance obj \<Rightarrow> tEthereumAddress obj" where
  "getAllTokenAddresses mockTokens =
     foldl (\<lambda>accum (tokenSymbol, tokenContract). obj_set tokenSymbol (contract_address tokenContract) accum) [] mockTokens"

definition getAllAggregatorsAddresses :: "Instance obj \<Rightarrow> tEthereumAddress obj" where
  "getAllAggregatorsAddresses mockAggregators =
     foldl (\<lambda>accum (tokenSymbol, aggregator). obj_set tokenSymbol (contract_address aggregator) accum) [] mockAggregators"

section \<open>Facts\<close>

lemma writes_configuration [frame_rules]:
  "writes rt S (getGenesisPoolAdmin rt config)" "writes rt S (getEmergencyAdmin rt config)"
  "writes rt S (getTreasuryAddress rt config)"
  by (auto simp: getGenesisPoolAdmin_def getEmergencyAdmin_def getTreasuryAddress_def Let_def intro!: frame_rules)

lemma foldl_obj_set_fresh:
  "distinct (obj_keys ob) \<Longrightarrow> set (obj_keys ob) \<inter> set (obj_keys acc) = {} \<Longrightarrow>
   foldl (\<lambda>accum (k, v). obj_set k (f v) accum) acc ob = acc @ map (\<lambda>(k, v). (k, f v)) ob"
proof (induction ob arbitrary: acc)
  case (Cons e ob)
  obtain k v where e: "e = (k, v)" by (cases e)
  with Cons.prems have "obj_set k (f v) acc = acc @ [(k, f v)]" by (intro obj_set_fresh) (simp add: obj_keys_def)
  with Cons.IH [of "acc @ [(k, f v)]"] Cons.prems e show ?case by (auto simp: obj_keys_def)
qed (simp add: obj_keys_def)

lemma getAllTokenAddresses_eq:
  "distinct (obj_keys tokens) \<Longrightarrow> getAllTokenAddresses tokens = map (\<lambda>(k, c). (k, contract_address c)) tokens"
  by (simp add: getAllTokenAddresses_def foldl_obj_set_fresh obj_keys_def)

end
