(* ===== verification/OraclesHelpers.thy ===== *)
theory OraclesHelpers
  imports Configuration
begin

text \<open>
  \<^verbatim>\<open>helpers/oracles-helpers.ts\<close>: the initial borrow rates and prices the scripts send to the
  oracles, and the mock aggregators.
\<close>

section \<open>The lookup idiom\<close>

text \<open>
  \<open>Object.entries(ob)[Object.keys(ob).findIndex((value) => value === key)]\<close>, destructured: a missing
  key has index -1, and destructuring the entry there is a \<open>TypeError\<close>.
\<close>

definition entry_of :: "'v obj \<Rightarrow> string \<Rightarrow> 'v result" where
  "entry_of ob key = bindR (deref (js_at ob (findIndex (\<lambda>v. v = key) (obj_keys ob)))) (\<lambda>entry. Inr (snd entry))"

lemma entry_of_eq: "entry_of ob key = deref (obj_get ob key)"
  by (simp add: entry_of_def entries_at_findIndex deref_def split: option.split)

section \<open>Borrow rates\<close>

text \<open>The loop collects the addresses, the rates and the symbols, in that order.\<close>

definition push_rate ::
    "tEthereumAddress obj \<Rightarrow> (string list \<times> string list \<times> string list) \<Rightarrow> string \<times> IMarketRates
     \<Rightarrow> ('x, string list \<times> string list \<times> string list) io" where
  "push_rate assetsAddresses pushed rate =
     (case (pushed, rate) of ((assetAddresses, borrowRates, symbols), (assetSymbol, r)) \<Rightarrow>
        await (lift_result (entry_of assetsAddresses assetSymbol)) (\<lambda>assetAddress.
        return_io (assetAddresses @ [assetAddress], borrowRates @ [borrowRate r], symbols @ [assetSymbol])))"

definition setInitialMarketRatesInRatesOracleByHelper ::
    "'x runtime \<Rightarrow> IMarketRates obj \<Rightarrow> tEthereumAddress obj \<Rightarrow> Instance \<Rightarrow> js_val \<Rightarrow> ('x, unit) io" where
  "setInitialMarketRatesInRatesOracleByHelper rt marketRates assetsAddresses lendingRateOracleInstance admin =
     await (getStableAndVariableTokensHelper rt None) (\<lambda>stableAndVariableTokenHelper.
     await (for_fold (push_rate assetsAddresses) ([], [], []) marketRates) (\<lambda>(assetAddresses, borrowRates, symbols).
     let ratesChunks = 20;
         chunkedTokens = chunk assetAddresses ratesChunks;
         chunkedRates = chunk borrowRates ratesChunks
     in
     await (sendAndWait rt lendingRateOracleInstance ''transferOwnership''
              [VStr (contract_address stableAndVariableTokenHelper)]) (\<lambda>_.
     await (for_each (\<lambda>chunkIndex.
              sendAndWait rt stableAndVariableTokenHelper ''setOracleBorrowRates''
                [VArr (map VStr (chunkedTokens ! chunkIndex)), VArr (map VStr (chunkedRates ! chunkIndex)),
                 VStr (contract_address lendingRateOracleInstance)])
            [0..<length chunkedTokens]) (\<lambda>_.
     sendAndWait rt stableAndVariableTokenHelper ''setOracleOwnership''
       [VStr (contract_address lendingRateOracleInstance), admin]))))"

section \<open>Prices\<close>

definition setInitialAssetPricesInOracle ::
    "'x runtime \<Rightarrow> string obj \<Rightarrow> tEthereumAddress obj \<Rightarrow> Instance \<Rightarrow> ('x, unit) io" where
  "setInitialAssetPricesInOracle rt prices assetsAddresses priceOracleInstance =
     for_each (\<lambda>(assetSymbol, price).
       await (lift_result (entry_of assetsAddresses assetSymbol)) (\<lambda>assetAddress.
       if assetAddress = [] then return_io ()
       else sendAndWait rt priceOracleInstance ''setAssetPrice'' [VStr assetAddress, VStr price])) prices"

definition setAssetPricesInOracle ::
    "'x runtime \<Rightarrow> string obj \<Rightarrow> tEthereumAddress obj \<Rightarrow> Instance \<Rightarrow> ('x, unit) io" where
  "setAssetPricesInOracle rt prices assetsAddresses priceOracleInstance =
     for_each (\<lambda>(assetSymbol, price).
       await (lift_result (entry_of assetsAddresses assetSymbol)) (\<lambda>assetAddress.
       sendAndWait rt priceOracleInstance ''setAssetPrice'' [VStr assetAddress, VStr price])) prices"

section \<open>Mock aggregators\<close>

definition deployMockAggregators :: "'x runtime \<Rightarrow> string obj \<Rightarrow> bool \<Rightarrow> ('x, Instance obj) io" where
  "deployMockAggregators rt initialPrices verify =
     for_fold (\<lambda>aggregators tokenContractName.
       if tokenContractName \<noteq> ''ETH''
       then
         await (lift_result (entry_of initialPrices tokenContractName)) (\<lambda>price.
         await (deployMockAggregator rt price verify) (\<lambda>aggregator.
         return_io (obj_set tokenContractName aggregator aggregators)))
       else return_io aggregators) [] (obj_keys initialPrices)"

definition deployAllMockAggregators :: "'x runtime \<Rightarrow> string obj \<Rightarrow> bool \<Rightarrow> ('x, Instance obj) io" where
  "deployAllMockAggregators rt initialPrices verify =
     for_fold (\<lambda>aggregators tokenContractName.
       if tokenContractName \<noteq> ''ETH''
       then
         await (lift_result (entry_of initialPrices tokenContractName)) (\<lambda>price.
         await (deployMockAggregator rt price verify) (\<lambda>aggregator.
         return_io (obj_set tokenContractName aggregator aggregators)))
       else return_io aggregators) [] (obj_keys initialPrices)"

end
