(* ===== verification/InitHelpers.thy ===== *)
theory InitHelpers
  imports OraclesHelpers
begin

text \<open>
  \<^verbatim>\<open>helpers/init-helpers.ts\<close>: initialising and configuring the reserves of a market, in batches
  through the pool's configurator and the rates helper. \<open>rawInsertContractAddressInDb\<close> is called without
  \<open>await\<close>; its body writes before its first \<open>await\<close>, so the entry is there when the call returns. The
  gas options of a transaction are left out.
\<close>

section \<open>The implementation of an aToken\<close>

definition chooseATokenDeployment ::
    "'x runtime \<Rightarrow> eContractid \<Rightarrow> (js_val list \<Rightarrow> bool \<Rightarrow> ('x, Instance) io) result" where
  "chooseATokenDeployment rt cid =
     (if cid = ''AToken'' then Inr (deployGenericAToken rt)
      else if cid = ''ATokenForCollateral'' then Inr (deployCollateralAToken rt)
      else Inl (Thrown (''Missing aToken deployment script for: '' @ cid)))"

section \<open>Initialising reserves\<close>

record InitReserveInput =
  in_aTokenImpl :: string
  in_stableDebtTokenImpl :: string
  in_variableDebtTokenImpl :: string
  in_underlyingAssetDecimals :: string
  in_interestRateStrategyAddress :: string
  in_yieldAddress :: string
  in_underlyingAsset :: string
  in_treasury :: js_val
  in_incentivesController :: string
  in_underlyingAssetName :: string
  in_aTokenName :: string
  in_aTokenSymbol :: string
  in_variableDebtTokenName :: string
  in_variableDebtTokenSymbol :: string
  in_stableDebtTokenName :: string
  in_stableDebtTokenSymbol :: string
  in_params :: string

definition init_input_val :: "InitReserveInput \<Rightarrow> js_val" where
  "init_input_val i = VObj
     [(''aTokenImpl'', VStr (in_aTokenImpl i)),
      (''stableDebtTokenImpl'', VStr (in_stableDebtTokenImpl i)),
      (''variableDebtTokenImpl'', VStr (in_variableDebtTokenImpl i)),
      (''underlyingAssetDecimals'', VStr (in_underlyingAssetDecimals i)),
      (''interestRateStrategyAddress'', VStr (in_interestRateStrategyAddress i)),
      (''yieldAddress'', VStr (in_yieldAddress i)),
      (''underlyingAsset'', VStr (in_underlyingAsset i)),
      (''treasury'', in_treasury i),
      (''incentivesController'', VStr (in_incentivesController i)),
      (''underlyingAssetName'', VStr (in_underlyingAssetName i)),
      (''aTokenName'', VStr (in_aTokenName i)),
      (''aTokenSymbol'', VStr (in_aTokenSymbol i)),
      (''variableDebtTokenName'', VStr (in_variableDebtTokenName i)),
      (''variableDebtTokenSymbol'', VStr (in_variableDebtTokenSymbol i)),
      (''stableDebtTokenName'', VStr (in_stableDebtTokenName i)),
      (''stableDebtTokenSymbol'', VStr (in_stableDebtTokenSymbol i)),
      (''params'', VStr (in_params i))]"

text \<open>The variables the loop over the reserves updates.\<close>

record init_state =
  rateStrategies :: "js_val list obj"
  strategyAddresses :: "tEthereumAddress obj"
  strategyAddressPerAsset :: "string obj"
  aTokenType :: "string obj"
  reserveInitDecimals :: "string list"
  reserveTokens :: "string list"
  reserveSymbols :: "string list"
  emissionPerSeconds :: "string list"

definition init_state0 :: init_state where
  "init_state0 = \<lparr>rateStrategies = [], strategyAddresses = [], strategyAddressPerAsset = [], aTokenType = [],
     reserveInitDecimals = [], reserveTokens = [], reserveSymbols = [], emissionPerSeconds = []\<rparr>"

text \<open>A strategy is deployed once per name and recorded under it.\<close>

definition deployStrategyOnce ::
    "'x runtime \<Rightarrow> Instance \<Rightarrow> bool \<Rightarrow> init_state \<Rightarrow> IInterestRateStrategyParams \<Rightarrow> ('x, init_state) io" where
  "deployStrategyOnce rt addressProvider verify st strat =
     (if \<not> truthy_string (obj_get (strategyAddresses st) (strategy_name strat))
      then
        let rates =
              [VStr (contract_address addressProvider),
               VStr (optimalUtilizationRate strat), VStr (baseVariableBorrowRate strat),
               VStr (variableRateSlope1 strat), VStr (variableRateSlope2 strat),
               VStr (stableRateSlope1 strat), VStr (stableRateSlope2 strat)]
        in
        await (deployDefaultReserveInterestRateStrategy rt rates verify) (\<lambda>deployed.
        await (rawInsertContractAddressInDb rt (strategy_name strat) (contract_address deployed)) (\<lambda>_.
        return_io
          (st\<lparr>rateStrategies := obj_set (strategy_name strat) rates (rateStrategies st),
              strategyAddresses := obj_set (strategy_name strat) (contract_address deployed) (strategyAddresses st)\<rparr>)))
      else return_io st)"

text \<open>
  One reserve: skipped when the market has no address for it. The reserves reaching here have one of
  the two aToken implementations.
\<close>

definition init_reserve ::
    "'x runtime \<Rightarrow> Instance \<Rightarrow> tEthereumAddress obj \<Rightarrow> bool \<Rightarrow> init_state \<Rightarrow> string \<times> IReserveParams \<Rightarrow> ('x, init_state) io" where
  "init_reserve rt addressProvider tokenAddresses verify st reserve =
     (case reserve of (symbol, params) \<Rightarrow>
        if \<not> truthy_string (obj_get tokenAddresses symbol) then return_io st
        else
          await (deployStrategyOnce rt addressProvider verify st (strategy params)) (\<lambda>st.
          await (lift_result (deref (obj_get (strategyAddresses st) (strategy_name (strategy params))))) (\<lambda>strategyAddress.
          return_io
            (st\<lparr>strategyAddressPerAsset := obj_set symbol strategyAddress (strategyAddressPerAsset st),
                aTokenType :=
                  (if aTokenImpl params = ''AToken'' then obj_set symbol ''generic'' (aTokenType st)
                   else if aTokenImpl params = ''ATokenForCollateral'' then obj_set symbol ''collateral'' (aTokenType st)
                   else aTokenType st),
                reserveInitDecimals := reserveInitDecimals st @ [reserveDecimals params],
                reserveTokens := reserveTokens st @ [the (obj_get tokenAddresses symbol)],
                reserveSymbols := reserveSymbols st @ [symbol],
                emissionPerSeconds := emissionPerSeconds st @ [emissionPerSecond params]\<rparr>))))"

text \<open>The names and addresses all inputs share.\<close>

record init_names =
  aTokenNamePrefix :: string
  stableDebtTokenNamePrefix :: string
  variableDebtTokenNamePrefix :: string
  symbolPrefix :: string
  treasuryAddress :: js_val
  yieldAddresses :: "tEthereumAddress obj"
  stableDebtTokenImplementationAddress :: string
  variableDebtTokenImplementationAddress :: string
  aTokenImplementationAddress :: string
  collateralATokenImplementationAddress :: string
  incentivesAddress :: string

definition init_input :: "init_names \<Rightarrow> init_state \<Rightarrow> nat \<Rightarrow> InitReserveInput" where
  "init_input names st i =
     (let symbol = reserveSymbols st ! i;
          aTokenToUse = (if obj_get (aTokenType st) symbol = Some ''generic'' then aTokenImplementationAddress names
                         else collateralATokenImplementationAddress names)
      in
      \<lparr>in_aTokenImpl = aTokenToUse,
       in_stableDebtTokenImpl = stableDebtTokenImplementationAddress names,
       in_variableDebtTokenImpl = variableDebtTokenImplementationAddress names,
       in_underlyingAssetDecimals = reserveInitDecimals st ! i,
       in_interestRateStrategyAddress = (case obj_get (strategyAddressPerAsset st) symbol of Some a \<Rightarrow> a | None \<Rightarrow> []),
       in_yieldAddress =
         (if truthy_string (obj_get (yieldAddresses names) symbol) then the (obj_get (yieldAddresses names) symbol)
          else ZERO_ADDRESS),
       in_underlyingAsset = reserveTokens st ! i,
       in_treasury = treasuryAddress names,
       in_incentivesController = incentivesAddress names,
       in_underlyingAssetName = symbol,
       in_aTokenName = aTokenNamePrefix names @ '' '' @ symbol,
       in_aTokenSymbol = ''s'' @ symbolPrefix names @ symbol,
       in_variableDebtTokenName = variableDebtTokenNamePrefix names @ '' '' @ symbolPrefix names @ symbol,
       in_variableDebtTokenSymbol = ''variableDebt'' @ symbolPrefix names @ symbol,
       in_stableDebtTokenName = stableDebtTokenNamePrefix names @ '' '' @ symbol,
       in_stableDebtTokenSymbol = ''stableDebt'' @ symbolPrefix names @ symbol,
       in_params = ''0x10''\<rparr>)"

text \<open>A field of the object a view returned.\<close>

definition js_field :: "js_val \<Rightarrow> string \<Rightarrow> js_val result" where
  "js_field v k = (case v of VUndef \<Rightarrow> Inl TypeError | VObj ob \<Rightarrow> Inr (case obj_get ob k of Some f \<Rightarrow> f | None \<Rightarrow> VUndef)
     | _ \<Rightarrow> Inr VUndef)"

text \<open>After a batch, the tokens of each of its reserves with their emissions.\<close>

definition collect_incentives ::
    "'x runtime \<Rightarrow> Instance \<Rightarrow> (nat \<Rightarrow> InitReserveInput) \<Rightarrow> (nat \<Rightarrow> string)
     \<Rightarrow> js_val list \<times> js_val list \<Rightarrow> nat \<Rightarrow> ('x, js_val list \<times> js_val list) io" where
  "collect_incentives rt pool inputs emissions collected tokenIndex =
     await (call rt pool ''getReserveData'' [VStr (in_underlyingAsset (inputs tokenIndex))]) (\<lambda>response.
     await (lift_result (js_field response ''aTokenAddress'')) (\<lambda>aTokenAddress.
     await (lift_result (js_field response ''variableDebtTokenAddress'')) (\<lambda>variableDebtTokenAddress.
     return_io
       (fst collected @ [aTokenAddress, variableDebtTokenAddress],
        snd collected @ [VStr (emissions tokenIndex), VStr (emissions tokenIndex)]))))"

definition init_batch ::
    "'x runtime \<Rightarrow> Instance \<Rightarrow> Instance \<Rightarrow> nat \<Rightarrow> InitReserveInput list list \<Rightarrow> string list
     \<Rightarrow> js_val list \<times> js_val list \<Rightarrow> nat \<Rightarrow> ('x, js_val list \<times> js_val list) io" where
  "init_batch rt configurator pool initChunks chunkedInitInputParams emissions collected chunkIndex =
     await (sendAndWait rt configurator ''batchInitReserve''
              [VArr (map init_input_val (chunkedInitInputParams ! chunkIndex))]) (\<lambda>_.
     for_fold
       (collect_incentives rt pool (\<lambda>tokenIndex. chunkedInitInputParams ! chunkIndex ! tokenIndex)
          (\<lambda>tokenIndex. emissions ! (chunkIndex * initChunks + tokenIndex)))
       collected [0..<length (chunkedInitInputParams ! chunkIndex)])"

definition initReservesByHelper ::
    "'x runtime \<Rightarrow> IReserveParams obj \<Rightarrow> tEthereumAddress obj \<Rightarrow> string \<Rightarrow> string \<Rightarrow> string \<Rightarrow> string
     \<Rightarrow> tEthereumAddress \<Rightarrow> js_val \<Rightarrow> tEthereumAddress obj \<Rightarrow> bool \<Rightarrow> ('x, int) io" where
  "initReservesByHelper rt reservesParams tokenAddresses aTokenPrefix stablePrefix variablePrefix symbPrefix
       admin treasury yields verify =
     await (getStableAndVariableTokensHelper rt None) (\<lambda>stableAndVariableDeployer.
     await (getLendingPoolAddressesProvider rt None) (\<lambda>addressProvider.
     let initChunks = 4 in
     await (deployGenericStableDebtToken rt) (\<lambda>stableDebtToken.
     await (deployGenericVariableDebtToken rt) (\<lambda>variableDebtToken.
     await (getSturdyIncentivesController rt None) (\<lambda>incentives.
     await (deployGenericATokenImpl rt verify) (\<lambda>aTokenImplementation.
     await (rawInsertContractAddressInDb rt ''aTokenImpl'' (contract_address aTokenImplementation)) (\<lambda>_.
     await (deployCollateralATokenImpl rt verify) (\<lambda>collateralATokenImplementation.
     await (rawInsertContractAddressInDb rt ''aTokenForCollateralImpl''
              (contract_address collateralATokenImplementation)) (\<lambda>_.
     let reserves = filter (\<lambda>(_, params). aTokenImpl params = ''AToken'' \<or> aTokenImpl params = ''ATokenForCollateral'')
                      reservesParams in
     await (for_fold (init_reserve rt addressProvider tokenAddresses verify) init_state0 reserves) (\<lambda>st.
     let names = \<lparr>aTokenNamePrefix = aTokenPrefix, stableDebtTokenNamePrefix = stablePrefix,
                  variableDebtTokenNamePrefix = variablePrefix, symbolPrefix = symbPrefix,
                  treasuryAddress = treasury, yieldAddresses = yields,
                  stableDebtTokenImplementationAddress = contract_address stableDebtToken,
                  variableDebtTokenImplementationAddress = contract_address variableDebtToken,
                  aTokenImplementationAddress = contract_address aTokenImplementation,
                  collateralATokenImplementationAddress = contract_address collateralATokenImplementation,
                  incentivesAddress = contract_address incentives\<rparr>;
         initInputParams = map (init_input names st) [0..<length (reserveSymbols st)];
         chunkedInitInputParams = chunk initInputParams initChunks
     in
     await (getLendingPoolConfiguratorProxy rt None) (\<lambda>configurator.
     await (getLendingPool rt None) (\<lambda>pool.
     await (for_fold (init_batch rt configurator pool initChunks chunkedInitInputParams (emissionPerSeconds st))
              ([], []) [0..<length chunkedInitInputParams]) (\<lambda>(tokensForIncentive, emissionsPerSecond).
     await (send rt incentives ''configureAssets'' [VArr tokensForIncentive, VArr emissionsPerSecond]) (\<lambda>_.
     return_io 0))))))))))))))"

section \<open>Assets and their aggregators\<close>

text \<open>This file's own \<open>getPairsTokenAggregator\<close>: it leaves out ETH, USD and WETH whatever the quote currency.\<close>

definition getPairsTokenAggregator_init ::
    "tEthereumAddress obj \<Rightarrow> tEthereumAddress obj \<Rightarrow> (tEthereumAddress list \<times> tEthereumAddress list) result" where
  "getPairsTokenAggregator_init allAssetsAddresses aggregatorsAddresses =
     (let assetsAddressesWithoutEth = filter (\<lambda>(k, _). k \<notin> {''ETH'', ''USD'', ''WETH''}) allAssetsAddresses in
      bindR (mapR (tokenAggregator aggregatorsAddresses) assetsAddressesWithoutEth) (\<lambda>pairs.
      Inr (map fst pairs, map snd pairs)))"

section \<open>Configuring reserves\<close>

definition configure_input :: "string \<Rightarrow> IReserveParams \<Rightarrow> js_val" where
  "configure_input tokenAddress params = VObj
     [(''asset'', VStr tokenAddress),
      (''baseLTV'', VStr (baseLTVAsCollateral params)),
      (''liquidationThreshold'', VStr (liquidationThreshold params)),
      (''liquidationBonus'', VStr (liquidationBonus params)),
      (''reserveFactor'', VStr (reserveFactor params)),
      (''stableBorrowingEnabled'', VBool (stableBorrowRateEnabled params)),
      (''borrowingEnabled'', VBool (borrowingEnabled params)),
      (''collateralEnabled'', VBool (collateralEnabled params))]"

text \<open>
  The loop collects the inputs and the token addresses; a reserve without an address, with an LTV of -1
  or already enabled as collateral is skipped.
\<close>

definition configure_reserve ::
    "'x runtime \<Rightarrow> tEthereumAddress obj \<Rightarrow> Instance \<Rightarrow> js_val list \<times> string list \<Rightarrow> string \<times> IReserveParams
     \<Rightarrow> ('x, js_val list \<times> string list) io" where
  "configure_reserve rt tokenAddresses helpers collected reserve =
     (case (collected, reserve) of ((inputParams, tokens), (assetSymbol, params)) \<Rightarrow>
        if \<not> truthy_string (obj_get tokenAddresses assetSymbol) then return_io (inputParams, tokens)
        else if baseLTVAsCollateral params = ''-1'' then return_io (inputParams, tokens)
        else
          await (lift_result (entry_of tokenAddresses assetSymbol)) (\<lambda>tokenAddress.
          await (call rt helpers ''getReserveConfigurationData'' [VStr tokenAddress]) (\<lambda>configuration.
          await (lift_result (js_field configuration ''usageAsCollateralEnabled'')) (\<lambda>alreadyEnabled.
          if js_truthy alreadyEnabled then return_io (inputParams, tokens)
          else return_io (inputParams @ [configure_input tokenAddress params], tokens @ [tokenAddress])))))"

definition configureReservesByHelper ::
    "'x runtime \<Rightarrow> IReserveParams obj \<Rightarrow> tEthereumAddress obj \<Rightarrow> Instance \<Rightarrow> tEthereumAddress \<Rightarrow> ('x, unit) io" where
  "configureReservesByHelper rt reservesParams tokenAddresses helpers admin =
     await (getLendingPoolAddressesProvider rt None) (\<lambda>addressProvider.
     await (getATokensAndRatesHelper rt None) (\<lambda>atokenAndRatesDeployer.
     await (for_fold (configure_reserve rt tokenAddresses helpers) ([], []) reservesParams) (\<lambda>(inputParams, tokens).
     if length tokens > 0
     then
       await (sendAndWait rt addressProvider ''setPoolAdmin'' [VStr (contract_address atokenAndRatesDeployer)]) (\<lambda>_.
       let enableChunks = 20;
           chunkedInputParams = chunk inputParams enableChunks
       in
       await (for_each (\<lambda>chunkIndex.
                sendAndWait rt atokenAndRatesDeployer ''configureReserves'' [VArr (chunkedInputParams ! chunkIndex)])
              [0..<length chunkedInputParams]) (\<lambda>_.
       sendAndWait rt addressProvider ''setPoolAdmin'' [VStr admin]))
     else return_io ())))"

end
