(* ===== verification/Suite.thy ===== *)
theory Suite
  imports InitHelpers Markets "HOL-Library.Char_ord"
begin

text \<open>
  What the scenario suites of \<^verbatim>\<open>test-suites/test-ftm\<close> run in: the node's blocks, receipts and
  requests, the matchers of the assertion library, the values the contracts return, and the time and
  unit helpers of \<^verbatim>\<open>helpers/misc-utils.ts\<close> and \<^verbatim>\<open>helpers/contracts-helpers.ts\<close> that only the suites use.
\<close>

section \<open>The node and the matchers\<close>

text \<open>A mined transaction's receipt, the fields the suites read.\<close>

record receipt =
  receipt_blockNumber :: "int option"
  receipt_transactionHash :: "string option"
  receipt_cumulativeGasUsed :: "int option"

text \<open>
  Code outside the repository, taken as a parameter: \<open>node_wait\<close> is \<open>tx.wait(1)\<close>; \<open>node_getBlock\<close> the
  timestamp of a block, given by number or tag (no block is \<open>None\<close>); \<open>node_gasPrice\<close> the gas price of a
  transaction; \<open>node_request\<close> is \<open>provider.send\<close>; \<open>ethers_parseUnits\<close> is \<open>ethers.utils.parseUnits\<close>; the
  last two are the conditions of waffle's \<open>reverted\<close> and \<open>revertedWith\<close> on the reason of a rejection.
\<close>

record 'x node =
  node_wait :: "string \<Rightarrow> 'x \<Rightarrow> receipt result \<times> 'x"
  node_getBlockNumber :: "'x \<Rightarrow> int result \<times> 'x"
  node_getBlock :: "js_val \<Rightarrow> 'x \<Rightarrow> int option result \<times> 'x"
  node_gasPrice :: "string \<Rightarrow> 'x \<Rightarrow> int option result \<times> 'x"
  node_request :: "string \<Rightarrow> js_val list \<Rightarrow> 'x \<Rightarrow> js_val result \<times> 'x"
  ethers_parseUnits :: "string \<Rightarrow> string \<Rightarrow> int result"
  waffle_reverted :: "js_error \<Rightarrow> bool"
  waffle_revertedWith :: "string \<Rightarrow> js_error \<Rightarrow> bool"

text \<open>
  The suite's setting: runtime, node and BigNumber package, and the module variables
  \<open>configuration\<close> of \<open>actions.ts\<close> and \<open>calculations.ts\<close>.
\<close>

record ('x, 'b) suite =
  suite_rt :: "'x runtime"
  suite_node :: "'x node"
  suite_bn :: "'b bn_api"
  skipIntegrityCheck :: bool
  reservesParams :: "IReserveParams obj"

record SignerWithAddress =
  signer :: string
  signer_address :: tEthereumAddress

text \<open>The members of \<open>TestEnv\<close> the scenario actions use.\<close>

record TestEnv =
  users :: "SignerWithAddress list"
  pool :: Instance
  helpersContract :: Instance
  usdc :: Instance
  dai :: Instance
  WFTM :: Instance
  yearnVault :: Instance

text \<open>\<open>contract.connect(signer)\<close>\<close>

definition connect :: "Instance \<Rightarrow> string \<Rightarrow> Instance" where
  "connect c s = c\<lparr>connected_signer := Some s\<rparr>"

text \<open>\<open>await waitForTx(await contract.method(args))\<close>, with the receipt.\<close>

definition transact :: "('x, 'b) suite \<Rightarrow> Instance \<Rightarrow> string \<Rightarrow> js_val list \<Rightarrow> ('x, receipt) io" where
  "transact S c meth args =
     await (send (suite_rt S) c meth args) (\<lambda>tx. on_network (node_wait (suite_node S) tx))"

section \<open>Assertions\<close>

text \<open>A failed assertion throws an error with the assertion's message.\<close>

definition assert_that :: "bool \<Rightarrow> string \<Rightarrow> unit result" where
  "assert_that c msg = (if c then Inr () else Inl (Thrown msg))"

text \<open>\<open>await expect(promise, message).to.be.<matcher>\<close> for a matcher that wants a rejection.\<close>

definition expect_rejection :: "(js_error \<Rightarrow> bool) \<Rightarrow> ('x, 'a) io \<Rightarrow> ('x, unit) io" where
  "expect_rejection matches m = (\<lambda>w.
     case m w of
       (Inr a, w') \<Rightarrow> (Inl (Thrown ''Expected transaction to be reverted''), w')
     | (Inl e, w') \<Rightarrow> (if matches e then Inr () else Inl (Thrown ''Expected transaction to be reverted''), w'))"

section \<open>Values a view returns\<close>

text \<open>
  \<open>v.toString()\<close> of what a contract returns: numbers, strings and booleans. \<open>undefined\<close> has no methods.
\<close>

definition js_toString :: "js_val \<Rightarrow> string result" where
  "js_toString v =
     (case v of
        VStr s \<Rightarrow> Inr s
      | VNum n \<Rightarrow> Inr (dec n)
      | VBool b \<Rightarrow> Inr (if b then ''true'' else ''false'')
      | VUndef \<Rightarrow> Inl TypeError
      | _ \<Rightarrow> Inr ''[object Object]'')"

text \<open>\<open>new BigNumber(v)\<close>: what is not a number is NaN.\<close>

definition new_BigNumber :: "'b bn_api \<Rightarrow> js_val \<Rightarrow> 'b" where
  "new_BigNumber B v =
     (case v of
        VNum n \<Rightarrow> bn_of B n
      | VStr s \<Rightarrow> bn_parse B s
      | _ \<Rightarrow> bn_parse B ''NaN'')"

text \<open>\<open>new BigNumber(v.field.toString())\<close>\<close>

definition field_number :: "'b bn_api \<Rightarrow> js_val \<Rightarrow> string \<Rightarrow> 'b result" where
  "field_number B v k = bindR (js_field v k) (\<lambda>f. bindR (js_toString f) (\<lambda>s. Inr (bn_parse B s)))"

text \<open>A value passed on as an address or a symbol.\<close>

definition opt_string :: "js_val \<Rightarrow> string option" where
  "opt_string v = (case v of VStr s \<Rightarrow> Some s | _ \<Rightarrow> None)"

section \<open>Time\<close>

definition timeLatest :: "('x, 'b) suite \<Rightarrow> ('x, 'b) io" where
  "timeLatest S =
     await (on_network (node_getBlock (suite_node S) (VStr ''latest''))) (\<lambda>block.
     await (lift_result (deref block)) (\<lambda>timestamp.
     return_io (bn_of (suite_bn S) timestamp)))"

definition advanceBlock :: "('x, 'b) suite \<Rightarrow> int \<Rightarrow> ('x, js_val) io" where
  "advanceBlock S timestamp = on_network (node_request (suite_node S) ''evm_mine'' [VNum timestamp])"

definition increaseTime :: "('x, 'b) suite \<Rightarrow> int \<Rightarrow> ('x, unit) io" where
  "increaseTime S secondsToIncrease =
     await (on_network (node_request (suite_node S) ''evm_increaseTime'' [VNum secondsToIncrease])) (\<lambda>_.
     await (on_network (node_request (suite_node S) ''evm_mine'' [])) (\<lambda>_.
     return_io ()))"

definition advanceTimeAndBlock :: "('x, 'b) suite \<Rightarrow> int \<Rightarrow> ('x, unit) io" where
  "advanceTimeAndBlock S forwardTime =
     await (on_network (node_getBlockNumber (suite_node S))) (\<lambda>currentBlockNumber.
     await (on_network (node_getBlock (suite_node S) (VNum currentBlockNumber))) (\<lambda>currentBlock.
     case currentBlock of
       None \<Rightarrow>
         await (on_network (node_request (suite_node S) ''evm_increaseTime'' [VNum forwardTime])) (\<lambda>_.
         await (on_network (node_request (suite_node S) ''evm_mine'' [])) (\<lambda>_.
         await (on_network (node_request (suite_node S) ''evm_increaseTime'' [VNum 15])) (\<lambda>_.
         return_io ())))
     | Some currentTime \<Rightarrow>
         let futureTime = currentTime + forwardTime in
         await (on_network (node_request (suite_node S) ''evm_setNextBlockTimestamp'' [VNum futureTime])) (\<lambda>_.
         await (on_network (node_request (suite_node S) ''evm_mine'' [])) (\<lambda>_.
         return_io ()))))"

definition evmSnapshot :: "('x, 'b) suite \<Rightarrow> ('x, js_val) io" where
  "evmSnapshot S = on_network (node_request (suite_node S) ''evm_snapshot'' [])"

definition evmRevert :: "('x, 'b) suite \<Rightarrow> js_val \<Rightarrow> ('x, js_val) io" where
  "evmRevert S snapshot = on_network (node_request (suite_node S) ''evm_revert'' [snapshot])"

section \<open>Units\<close>

definition convertToCurrencyDecimals :: "('x, 'b) suite \<Rightarrow> tEthereumAddress \<Rightarrow> string \<Rightarrow> ('x, int) io" where
  "convertToCurrencyDecimals S tokenAddress amount =
     await (getIErc20Detailed (suite_rt S) (Some tokenAddress)) (\<lambda>token.
     await (call (suite_rt S) token ''decimals'' []) (\<lambda>v.
     await (lift_result (js_toString v)) (\<lambda>decimals.
     lift_result (ethers_parseUnits (suite_node S) amount decimals))))"

section \<open>Strings\<close>

text \<open>\<open>s.toLowerCase()\<close> on the ASCII letters.\<close>

definition toLowerCase :: "string \<Rightarrow> string" where
  "toLowerCase s = map (\<lambda>c. if CHR ''A'' \<le> c \<and> c \<le> CHR ''Z'' then char_of ((of_char c :: nat) + 32) else c) s"

text \<open>
  \<open>parseInt(s)\<close>: the number the longest prefix of digits stands for, after white space and a sign;
  \<open>None\<close> is NaN. With no radix given, a prefix \<open>0x\<close> makes it hexadecimal.
\<close>

fun digits_prefix :: "(char \<Rightarrow> nat option) \<Rightarrow> nat \<Rightarrow> string \<Rightarrow> nat \<Rightarrow> nat" where
  "digits_prefix digit base [] acc = acc"
| "digits_prefix digit base (c # cs) acc =
     (case digit c of None \<Rightarrow> acc | Some d \<Rightarrow> digits_prefix digit base cs (base * acc + d))"

definition parse_prefix :: "(char \<Rightarrow> nat option) \<Rightarrow> nat \<Rightarrow> string \<Rightarrow> int option" where
  "parse_prefix digit base s =
     (case s of [] \<Rightarrow> None | c # cs \<Rightarrow> if digit c = None then None else Some (int (digits_prefix digit base s 0)))"

definition hex_digit_any :: "char \<Rightarrow> nat option" where
  "hex_digit_any c = map_of (zip ''0123456789abcdefABCDEF'' ([0..<16] @ [10..<16])) c"

definition js_space :: "char \<Rightarrow> bool" where
  "js_space c \<longleftrightarrow> c \<in> {CHR '' '', CHR 0x09, CHR 0x0A, CHR 0x0B, CHR 0x0C, CHR 0x0D, CHR 0xA0}"

definition parse_unsigned :: "bool \<Rightarrow> string \<Rightarrow> int option" where
  "parse_unsigned hexadecimal s =
     (if hexadecimal \<and> (take 2 s = ''0x'' \<or> take 2 s = ''0X'') then parse_prefix hex_digit_any 16 (drop 2 s)
      else parse_prefix char_digit 10 s)"

definition parseInt :: "string \<Rightarrow> int option" where
  "parseInt s =
     (case dropWhile js_space s of
        [] \<Rightarrow> None
      | c # cs \<Rightarrow>
          if c = CHR ''-'' then map_option uminus (parse_unsigned True cs)
          else if c = CHR ''+'' then parse_unsigned True cs
          else parse_unsigned True (c # cs))"

definition parseInt10 :: "string \<Rightarrow> int option" where
  "parseInt10 s =
     (case dropWhile js_space s of
        [] \<Rightarrow> None
      | c # cs \<Rightarrow>
          if c = CHR ''-'' then map_option uminus (parse_unsigned False cs)
          else if c = CHR ''+'' then parse_unsigned False cs
          else parse_unsigned False (c # cs))"

text \<open>\<open>users[parseInt(i)]\<close>: \<open>undefined\<close> when the index is NaN or out of range.\<close>

definition user_at :: "SignerWithAddress list \<Rightarrow> int option \<Rightarrow> SignerWithAddress option" where
  "user_at us i = (case i of None \<Rightarrow> None | Some n \<Rightarrow> js_at us n)"

end
