(* ===== verification/SolMath.thy ===== *)
theory SolMath
  imports RayMath "HOL-Library.Word"
begin

text \<open>
  The contracts' arithmetic on 256-bit words: \<^verbatim>\<open>SafeMath\<close>, \<^verbatim>\<open>WadRayMath\<close>, \<^verbatim>\<open>PercentageMath\<close> and
  \<^verbatim>\<open>MathUtils\<close>. The contracts are compiled with Solidity 0.6.12, where \<open>+\<close>, \<open>-\<close> and \<open>*\<close> wrap, so
  each function is modelled on words with its \<open>require\<close> as a branch. The first group of lemmas
  says that no function that returns has wrapped; the second that the BigNumber methods of
  \<^theory_text>\<open>RayMath\<close> compute the same numbers.
\<close>

section \<open>Checked arithmetic\<close>

type_synonym uint256 = "256 word"

abbreviation sol_max :: uint256 where "sol_max \<equiv> - 1"

definition require :: "bool \<Rightarrow> string \<Rightarrow> 'a result \<Rightarrow> 'a result" where
  "require c msg k = (if c then k else Inl (Rejected msg))"

lemma require_Inr_iff [simp]: "require c msg k = Inr x \<longleftrightarrow> c \<and> k = Inr x"
  by (simp add: require_def)

definition sol_add :: "uint256 \<Rightarrow> uint256 \<Rightarrow> uint256 result" where
  "sol_add a b = (let c = a + b in require (c \<ge> a) ''SafeMath: addition overflow'' (Inr c))"

definition sol_sub :: "uint256 \<Rightarrow> uint256 \<Rightarrow> uint256 result" where
  "sol_sub a b = require (b \<le> a) ''SafeMath: subtraction overflow'' (let c = a - b in Inr c)"

definition sol_mul :: "uint256 \<Rightarrow> uint256 \<Rightarrow> uint256 result" where
  "sol_mul a b =
     (if a = 0 then Inr 0
      else let c = a * b in require (c div a = b) ''SafeMath: multiplication overflow'' (Inr c))"

definition sol_WAD :: uint256 where "sol_WAD = 1000000000000000000"
definition sol_RAY :: uint256 where "sol_RAY = 1000000000000000000000000000"
definition sol_RATIO :: uint256 where "sol_RATIO = 1000000000"
definition sol_PERCENTAGE_FACTOR :: uint256 where "sol_PERCENTAGE_FACTOR = 10000"
definition SECONDS_PER_YEAR :: uint256 where "SECONDS_PER_YEAR = 365 * 86400"

definition sol_wadMul :: "uint256 \<Rightarrow> uint256 \<Rightarrow> uint256 result" where
  "sol_wadMul a b =
     (if a = 0 \<or> b = 0 then Inr 0
      else require (a \<le> (sol_max - sol_WAD div 2) div b) ''48'' (Inr ((a * b + sol_WAD div 2) div sol_WAD)))"

definition sol_wadDiv :: "uint256 \<Rightarrow> uint256 \<Rightarrow> uint256 result" where
  "sol_wadDiv a b =
     require (b \<noteq> 0) ''50'' (let halfB = b div 2 in
     require (a \<le> (sol_max - halfB) div sol_WAD) ''48'' (Inr ((a * sol_WAD + halfB) div b)))"

definition sol_rayMul :: "uint256 \<Rightarrow> uint256 \<Rightarrow> uint256 result" where
  "sol_rayMul a b =
     (if a = 0 \<or> b = 0 then Inr 0
      else require (a \<le> (sol_max - sol_RAY div 2) div b) ''48'' (Inr ((a * b + sol_RAY div 2) div sol_RAY)))"

definition sol_rayDiv :: "uint256 \<Rightarrow> uint256 \<Rightarrow> uint256 result" where
  "sol_rayDiv a b =
     require (b \<noteq> 0) ''50'' (let halfB = b div 2 in
     require (a \<le> (sol_max - halfB) div sol_RAY) ''48'' (Inr ((a * sol_RAY + halfB) div b)))"

definition sol_rayToWad :: "uint256 \<Rightarrow> uint256 result" where
  "sol_rayToWad a =
     (let halfRatio = sol_RATIO div 2; res = halfRatio + a
      in require (res \<ge> halfRatio) ''49'' (Inr (res div sol_RATIO)))"

definition sol_wadToRay :: "uint256 \<Rightarrow> uint256 result" where
  "sol_wadToRay a =
     (let res = a * sol_RATIO in require (res div sol_RATIO = a) ''48'' (Inr res))"

definition sol_percentMul :: "uint256 \<Rightarrow> uint256 \<Rightarrow> uint256 result" where
  "sol_percentMul v percentage =
     (if v = 0 \<or> percentage = 0 then Inr 0
      else require (v \<le> (sol_max - sol_PERCENTAGE_FACTOR div 2) div percentage) ''48''
             (Inr ((v * percentage + sol_PERCENTAGE_FACTOR div 2) div sol_PERCENTAGE_FACTOR)))"

definition sol_percentDiv :: "uint256 \<Rightarrow> uint256 \<Rightarrow> uint256 result" where
  "sol_percentDiv v percentage =
     require (percentage \<noteq> 0) ''50'' (let halfPercentage = percentage div 2 in
     require (v \<le> (sol_max - halfPercentage) div sol_PERCENTAGE_FACTOR) ''48''
       (Inr ((v * sol_PERCENTAGE_FACTOR + halfPercentage) div percentage)))"

section \<open>What returns has not wrapped\<close>

lemma uint_less_256: "uint (w :: uint256) < 2 ^ 256"
  using uint_bounded [of w] by simp

lemma uint_sol_max: "uint sol_max = 2 ^ 256 - 1"
  by (simp add: unsigned_minus_1_eq_mask mask_eq_exp_minus_1)

lemma uint_max_minus: "uint (sol_max - h) = 2 ^ 256 - 1 - uint h"
proof -
  have "uint h \<le> uint sol_max" using uint_less_256 [of h] by (simp add: uint_sol_max)
  then have "uint (sol_max - h) = uint sol_max - uint h" by (simp only: uint_sub_lem)
  then show ?thesis by (simp only: uint_sol_max)
qed

lemma uint_sum_exact: "uint (a :: uint256) + uint b < 2 ^ 256 \<Longrightarrow> uint (a + b) = uint a + uint b"
  using uint_add_lem [of a b] by simp

lemma uint_prod_exact: "uint (a :: uint256) * uint b < 2 ^ 256 \<Longrightarrow> uint (a * b) = uint a * uint b"
  using uint_mult_lem [of a b] by simp

lemma le_div_iff_mult_le: "0 < c \<Longrightarrow> (a :: int) \<le> b div c \<longleftrightarrow> a * c \<le> b"
proof
  assume c: "0 < c" and "a \<le> b div c"
  then have "a * c \<le> b div c * c" by simp
  also have "\<dots> \<le> b" using c by (simp add: minus_mod_eq_div_mult [symmetric])
  finally show "a * c \<le> b" .
next
  assume "0 < c" "a * c \<le> b"
  then show "a \<le> b div c" using zdiv_mono1 [of "a * c" b c] by simp
qed

lemma uint_pos_iff: "0 < uint (w :: uint256) \<longleftrightarrow> w \<noteq> 0"
  by (metis less_le uint_0_iff unsigned_greater_eq)

text \<open>The code's overflow guards say what they are meant to say.\<close>

lemma mul_guard_iff:
  "b \<noteq> 0 \<Longrightarrow> a \<le> (sol_max - h) div b \<longleftrightarrow> uint a * uint b + uint h < 2 ^ 256"
proof -
  assume "b \<noteq> 0"
  then have "0 < uint b" by (simp add: uint_pos_iff)
  then show ?thesis
    by (simp only: word_le_def uint_div uint_max_minus le_div_iff_mult_le) auto
qed

lemma scaled_product_exact:
  fixes a b h u :: uint256
  assumes "uint a * uint b + uint h < 2 ^ 256"
  shows "uint ((a * b + h) div u) = (uint a * uint b + uint h) div uint u"
proof -
  have ab: "uint (a * b) = uint a * uint b"
    by (rule uint_prod_exact) (rule le_less_trans [OF _ assms], simp)
  then have "uint (a * b + h) = uint a * uint b + uint h"
    using assms by (simp add: uint_sum_exact)
  then show ?thesis by (simp only: uint_div)
qed

lemma sol_add_Inr_iff: "sol_add a b = Inr c \<longleftrightarrow> uint a + uint b < 2 ^ 256 \<and> c = a + b"
  using no_olen_add [of a b] by (auto simp: sol_add_def Let_def)

lemma sol_add_uint: "sol_add a b = Inr c \<Longrightarrow> uint c = uint a + uint b"
  by (auto simp: sol_add_Inr_iff intro: uint_sum_exact)

lemma sol_sub_uint: "sol_sub a b = Inr c \<Longrightarrow> uint c = uint a - uint b \<and> uint b \<le> uint a"
  by (auto simp: sol_sub_def Let_def word_le_def uint_sub_lem)

lemma sol_mul_Inr_iff: "sol_mul a b = Inr c \<longleftrightarrow> uint a * uint b < 2 ^ 256 \<and> c = a * b"
proof (cases "a = 0")
  case True
  then show ?thesis by (auto simp: sol_mul_def)
next
  case False
  have "a * b div a = b \<longleftrightarrow> uint a * uint b < 2 ^ 256"
  proof
    assume "a * b div a = b"
    then have "uint (a * b) div uint a = uint b" by (metis uint_div)
    then have "uint a * uint b \<le> uint (a * b)"
      using False by (metis uint_pos_iff le_div_iff_mult_le mult.commute order_refl)
    then show "uint a * uint b < 2 ^ 256" using uint_less_256 [of "a * b"] by linarith
  next
    assume "uint a * uint b < 2 ^ 256"
    then have "uint (a * b div a) = uint a * uint b div uint a"
      by (simp add: uint_div uint_prod_exact)
    also have "\<dots> = uint b" using False by (simp add: uint_0_iff)
    finally show "a * b div a = b" by (simp only: word_uint_eq_iff)
  qed
  with False show ?thesis by (auto simp: sol_mul_def Let_def)
qed

lemma sol_mul_uint: "sol_mul a b = Inr c \<Longrightarrow> uint c = uint a * uint b"
  by (auto simp: sol_mul_Inr_iff intro: uint_prod_exact)

section \<open>The word functions compute the specification\<close>

text \<open>The shared shape of \<open>rayMul\<close>, \<open>wadMul\<close> and \<open>percentMul\<close>, and of the three divisions.\<close>

lemma scaled_mul_iff:
  fixes a b h u r :: uint256
  assumes "uint h < uint u"
  shows "(if a = 0 \<or> b = 0 then Inr 0
          else require (a \<le> (sol_max - h) div b) msg (Inr ((a * b + h) div u))) = Inr r
    \<longleftrightarrow> uint a * uint b + uint h < 2 ^ 256 \<and> uint r = mul_spec (uint u) (uint h) (uint a) (uint b)"
proof (cases "a = 0 \<or> b = 0")
  case True
  then have "uint a * uint b = 0" by auto
  moreover have "mul_spec (uint u) (uint h) (uint a) (uint b) = 0"
    using True assms by (auto simp: mul_spec_zero)
  ultimately show ?thesis
    using True uint_less_256 [of h] by (auto simp: word_uint_eq_iff)
next
  case False
  then show ?thesis
    using uint_lt_0 [of a] uint_lt_0 [of b] uint_lt_0 [of h] uint_lt_0 [of u]
    by (auto simp: mul_guard_iff scaled_product_exact mul_spec_nonneg word_uint_eq_iff)
qed

lemma scaled_div_iff:
  fixes a b u r :: uint256
  assumes "u \<noteq> 0"
  shows "require (b \<noteq> 0) m1 (let halfB = b div 2 in
          require (a \<le> (sol_max - halfB) div u) m2 (Inr ((a * u + halfB) div b))) = Inr r
    \<longleftrightarrow> b \<noteq> 0 \<and> uint a * uint u + uint b div 2 < 2 ^ 256 \<and> uint r = div_spec (uint u) (uint a) (uint b)"
proof -
  have h: "uint (b div 2) = uint b div 2" by (simp add: uint_div)
  show ?thesis
    using assms uint_lt_0 [of a] uint_lt_0 [of u] uint_pos_iff [of b]
    by (auto simp: Let_def mul_guard_iff h scaled_product_exact div_spec_nonneg word_uint_eq_iff)
qed

lemma uint_constants [simp]:
  "uint sol_WAD = WAD" "uint sol_RAY = RAY" "uint sol_RATIO = WAD_RAY_RATIO"
  "uint sol_PERCENTAGE_FACTOR = PERCENTAGE_FACTOR" "uint SECONDS_PER_YEAR = ONE_YEAR"
  "uint (sol_WAD div 2) = HALF_WAD" "uint (sol_RAY div 2) = HALF_RAY" "uint (sol_RATIO div 2) = WAD_RAY_RATIO div 2"
  "uint (sol_PERCENTAGE_FACTOR div 2) = HALF_PERCENTAGE"
  "sol_WAD \<noteq> 0" "sol_RAY \<noteq> 0" "sol_RATIO \<noteq> 0" "sol_PERCENTAGE_FACTOR \<noteq> 0" "SECONDS_PER_YEAR \<noteq> 0"
  by (simp_all add: sol_WAD_def sol_RAY_def sol_RATIO_def sol_PERCENTAGE_FACTOR_def SECONDS_PER_YEAR_def
      constant_defs uint_div)

lemma half_less: "HALF_RAY < RAY" "HALF_WAD < WAD" "HALF_PERCENTAGE < PERCENTAGE_FACTOR"
  by (simp_all add: constant_defs)

lemma sol_rayMul_iff:
  "sol_rayMul a b = Inr r \<longleftrightarrow>
   uint a * uint b + HALF_RAY < 2 ^ 256 \<and> uint r = ray_mul (uint a) (uint b)"
  unfolding sol_rayMul_def by (subst scaled_mul_iff) (simp_all add: half_less)

lemma sol_wadMul_iff:
  "sol_wadMul a b = Inr r \<longleftrightarrow>
   uint a * uint b + HALF_WAD < 2 ^ 256 \<and> uint r = wad_mul (uint a) (uint b)"
  unfolding sol_wadMul_def by (subst scaled_mul_iff) (simp_all add: half_less)

lemma sol_percentMul_iff:
  "sol_percentMul a b = Inr r \<longleftrightarrow>
   uint a * uint b + HALF_PERCENTAGE < 2 ^ 256 \<and> uint r = percent_mul (uint a) (uint b)"
  unfolding sol_percentMul_def by (subst scaled_mul_iff) (simp_all add: half_less)

lemma sol_rayDiv_iff:
  "sol_rayDiv a b = Inr r \<longleftrightarrow>
   b \<noteq> 0 \<and> uint a * RAY + uint b div 2 < 2 ^ 256 \<and> uint r = ray_div (uint a) (uint b)"
  unfolding sol_rayDiv_def by (subst scaled_div_iff) simp_all

lemma sol_wadDiv_iff:
  "sol_wadDiv a b = Inr r \<longleftrightarrow>
   b \<noteq> 0 \<and> uint a * WAD + uint b div 2 < 2 ^ 256 \<and> uint r = wad_div (uint a) (uint b)"
  unfolding sol_wadDiv_def by (subst scaled_div_iff) simp_all

lemma sol_percentDiv_iff:
  "sol_percentDiv a b = Inr r \<longleftrightarrow>
   b \<noteq> 0 \<and> uint a * PERCENTAGE_FACTOR + uint b div 2 < 2 ^ 256 \<and> uint r = percent_div (uint a) (uint b)"
  unfolding sol_percentDiv_def by (subst scaled_div_iff) simp_all

lemma sol_wadToRay_iff:
  "sol_wadToRay a = Inr r \<longleftrightarrow> uint a * WAD_RAY_RATIO < 2 ^ 256 \<and> uint r = uint a * WAD_RAY_RATIO"
proof -
  have "sol_wadToRay a = Inr r \<longleftrightarrow> sol_mul sol_RATIO a = Inr r"
    by (simp add: sol_wadToRay_def sol_mul_def Let_def mult.commute)
  also have "\<dots> \<longleftrightarrow> uint a * WAD_RAY_RATIO < 2 ^ 256 \<and> uint r = uint a * WAD_RAY_RATIO"
    by (auto simp: sol_mul_Inr_iff word_uint_eq_iff mult.commute uint_prod_exact)
  finally show ?thesis .
qed

lemma sol_rayToWad_iff:
  "sol_rayToWad a = Inr r \<longleftrightarrow>
   WAD_RAY_RATIO div 2 + uint a < 2 ^ 256 \<and> uint r = (WAD_RAY_RATIO div 2 + uint a) div WAD_RAY_RATIO"
  using no_olen_add [of "sol_RATIO div 2" a]
  by (auto simp: sol_rayToWad_def Let_def word_uint_eq_iff uint_div uint_sum_exact)

section \<open>When the contracts revert\<close>

lemma require_Inl_iff: "require c msg k = Inl e \<longleftrightarrow> (if c then k = Inl e else e = Rejected msg)"
  by (auto simp: require_def)

lemma scaled_mul_Inl:
  fixes a b h u :: uint256
  shows "(if a = 0 \<or> b = 0 then Inr 0
     else require (a \<le> (sol_max - h) div b) msg (Inr ((a * b + h) div u))) = Inl e \<Longrightarrow>
   e = Rejected msg \<and> 2 ^ 256 \<le> uint a * uint b + uint h"
  by (auto simp: require_Inl_iff mul_guard_iff not_less split: if_splits)

lemma scaled_div_Inl:
  fixes a b u :: uint256
  assumes "u \<noteq> 0"
  shows "require (b \<noteq> 0) m1 (let halfB = b div 2 in
     require (a \<le> (sol_max - halfB) div u) m2 (Inr ((a * u + halfB) div b))) = Inl e \<Longrightarrow>
   (e = Rejected m1 \<and> b = 0) \<or> (e = Rejected m2 \<and> 2 ^ 256 \<le> uint a * uint u + uint b div 2)"
  using assms by (auto simp: require_Inl_iff mul_guard_iff Let_def uint_div not_less split: if_splits)

lemma sol_mul_Inl:
  "sol_rayMul a b = Inl e \<Longrightarrow> e = Rejected ''48'' \<and> 2 ^ 256 \<le> uint a * uint b + HALF_RAY"
  "sol_wadMul a b = Inl e \<Longrightarrow> e = Rejected ''48'' \<and> 2 ^ 256 \<le> uint a * uint b + HALF_WAD"
  "sol_percentMul a b = Inl e \<Longrightarrow> e = Rejected ''48'' \<and> 2 ^ 256 \<le> uint a * uint b + HALF_PERCENTAGE"
  unfolding sol_rayMul_def sol_wadMul_def sol_percentMul_def
  by (drule scaled_mul_Inl, simp)+

lemma sol_div_Inl:
  "sol_rayDiv a b = Inl e \<Longrightarrow> (e = Rejected ''50'' \<and> b = 0) \<or> (e = Rejected ''48'' \<and> 2 ^ 256 \<le> uint a * RAY + uint b div 2)"
  "sol_wadDiv a b = Inl e \<Longrightarrow> (e = Rejected ''50'' \<and> b = 0) \<or> (e = Rejected ''48'' \<and> 2 ^ 256 \<le> uint a * WAD + uint b div 2)"
  "sol_percentDiv a b = Inl e \<Longrightarrow>
    (e = Rejected ''50'' \<and> b = 0) \<or> (e = Rejected ''48'' \<and> 2 ^ 256 \<le> uint a * PERCENTAGE_FACTOR + uint b div 2)"
  unfolding sol_rayDiv_def sol_wadDiv_def sol_percentDiv_def
  by (drule scaled_div_Inl [rotated], simp, simp)+

section \<open>The methods against the contracts\<close>

text \<open>
  C1: On operands that fit a word, \<open>rayMul\<close> and \<open>rayDiv\<close> of the test arithmetic give the number the
  contract's functions return, and the contract reverts only on division by zero or when the exact
  intermediate value does not fit 256 bits.
\<close>

theorem ray_ops_agree:
  assumes "bignumber_int B val" "denotes val x (uint a)" "denotes val y (uint b)"
  shows "(case sol_rayMul a b of
            Inr r \<Rightarrow> denotes val (rayMul B x y) (uint r)
          | Inl e \<Rightarrow> e = Rejected ''48'' \<and> 2 ^ 256 \<le> uint a * uint b + HALF_RAY)
       \<and> (case sol_rayDiv a b of
            Inr r \<Rightarrow> denotes val (rayDiv B x y) (uint r)
          | Inl e \<Rightarrow> (e = Rejected ''50'' \<and> b = 0)
              \<or> (e = Rejected ''48'' \<and> 2 ^ 256 \<le> uint a * RAY + uint b div 2))"
  using bignumber_int.denotes_rayMul [OF assms] bignumber_int.denotes_rayDiv [OF assms, unfolded uint_0_iff]
    sol_mul_Inl(1) [of a b] sol_div_Inl(1) [of a b]
  by (auto simp: sol_rayMul_iff sol_rayDiv_iff split: sum.splits)

theorem ray_ops_agree_witness:
  "(case sol_rayMul (3 * 10 ^ 27) 7 of
      Inr r \<Rightarrow> denotes id (rayMul scenario_bn (Some (3 * 10 ^ 27)) (Some 7)) (uint r)
    | Inl e \<Rightarrow> e = Rejected ''48'' \<and> 2 ^ 256 \<le> uint (3 * 10 ^ 27 :: uint256) * uint (7 :: uint256) + HALF_RAY)
   \<and> (case sol_rayDiv (3 * 10 ^ 27) 7 of
      Inr r \<Rightarrow> denotes id (rayDiv scenario_bn (Some (3 * 10 ^ 27)) (Some 7)) (uint r)
    | Inl e \<Rightarrow> (e = Rejected ''50'' \<and> (7 :: uint256) = 0)
        \<or> (e = Rejected ''48'' \<and> 2 ^ 256 \<le> uint (3 * 10 ^ 27 :: uint256) * RAY + uint (7 :: uint256) div 2))"
  by (rule ray_ops_agree [OF scenario_bignumber_int]) (simp_all add: denotes_def)

text \<open>
  The same for the wad and percentage operations: each method agrees with the contract's
  function wherever that returns, and the reverts are exactly overflow and division by zero.
\<close>

theorem wad_percent_ops_agree:
  assumes "bignumber_int B val" "denotes val x (uint a)" "denotes val y (uint b)"
  shows "(case sol_wadMul a b of
            Inr r \<Rightarrow> denotes val (wadMul B x y) (uint r)
          | Inl e \<Rightarrow> e = Rejected ''48'' \<and> 2 ^ 256 \<le> uint a * uint b + HALF_WAD)
       \<and> (case sol_wadDiv a b of
            Inr r \<Rightarrow> denotes val (wadDiv B x y) (uint r)
          | Inl e \<Rightarrow> (e = Rejected ''50'' \<and> b = 0)
              \<or> (e = Rejected ''48'' \<and> 2 ^ 256 \<le> uint a * WAD + uint b div 2))
       \<and> (case sol_percentMul a b of
            Inr r \<Rightarrow> denotes val (percentMul B x y) (uint r)
          | Inl e \<Rightarrow> e = Rejected ''48'' \<and> 2 ^ 256 \<le> uint a * uint b + HALF_PERCENTAGE)
       \<and> (case sol_percentDiv a b of
            Inr r \<Rightarrow> denotes val (percentDiv B x y) (uint r)
          | Inl e \<Rightarrow> (e = Rejected ''50'' \<and> b = 0)
              \<or> (e = Rejected ''48'' \<and> 2 ^ 256 \<le> uint a * PERCENTAGE_FACTOR + uint b div 2))"
  using bignumber_int.denotes_wadMul [OF assms] bignumber_int.denotes_wadDiv [OF assms, unfolded uint_0_iff]
    bignumber_int.denotes_percentMul [OF assms] bignumber_int.denotes_percentDiv [OF assms, unfolded uint_0_iff]
    sol_mul_Inl(2,3) [of a b] sol_div_Inl(2,3) [of a b]
  by (intro conjI)
    (auto simp: sol_wadMul_iff sol_wadDiv_iff sol_percentMul_iff sol_percentDiv_iff split: sum.splits)

theorem wad_percent_ops_agree_witness:
  "case sol_percentMul 12345 2500 of
     Inr r \<Rightarrow> denotes id (percentMul scenario_bn (Some 12345) (Some 2500)) (uint r)
   | Inl e \<Rightarrow> e = Rejected ''48'' \<and> 2 ^ 256 \<le> uint (12345 :: uint256) * uint (2500 :: uint256) + HALF_PERCENTAGE"
  using wad_percent_ops_agree [OF scenario_bignumber_int, of "Some 12345" 12345 "Some 2500" 2500]
  by (simp add: denotes_def)

text \<open>
  \<open>wadToRay\<close> and \<open>rayToWad\<close> agree with the contract's conversions, and converting a wad amount to
  a ray amount and back is the identity.
\<close>

theorem wad_ray_round_trip:
  assumes "bignumber_int B val" "denotes val x (uint a)"
  shows "(\<forall>r. sol_wadToRay a = Inr r \<longrightarrow> denotes val (wadToRay B x) (uint r))
       \<and> (\<forall>r. sol_rayToWad a = Inr r \<longrightarrow> denotes val (rayToWad B x) (uint r))
       \<and> denotes val (rayToWad B (wadToRay B x)) (uint a)"
proof -
  have "(WAD_RAY_RATIO sdiv 2 + uint a * WAD_RAY_RATIO) sdiv WAD_RAY_RATIO = uint a"
    by (simp add: sdiv_nonneg WAD_RAY_RATIO_def)
  moreover have "(WAD_RAY_RATIO sdiv 2 + uint a) sdiv WAD_RAY_RATIO = (WAD_RAY_RATIO div 2 + uint a) div WAD_RAY_RATIO"
    by (simp add: sdiv_nonneg WAD_RAY_RATIO_def)
  ultimately show ?thesis
    using bignumber_int.denotes_wadToRay [OF assms] bignumber_int.denotes_rayToWad [OF assms]
      bignumber_int.denotes_rayToWad [OF assms(1) bignumber_int.denotes_wadToRay [OF assms]]
    by (auto simp: sol_wadToRay_iff sol_rayToWad_iff)
qed

theorem wad_ray_round_trip_witness: "denotes id (rayToWad scenario_bn (wadToRay scenario_bn (Some 123))) 123"
  using wad_ray_round_trip [OF scenario_bignumber_int, of "Some 123" 123] by (simp add: denotes_def)

text \<open>
  The agreement rests on the configuration of the package the scenario suites set: under its
  default (20 decimal places, half-up) a quotient just below an integer is rounded up before
  \<open>rayDiv\<close> truncates it, and the method is off by one where the contract gives 0.
\<close>

theorem default_configuration_diverges:
  "sol_rayDiv 1 (2 * 10 ^ 27 + 1) = Inr 0
   \<and> rayDiv scenario_bn (Some 1) (Some (2 * 10 ^ 27 + 1)) = Some 0
   \<and> rayDiv default_bn (Some 1) (Some (2 * 10 ^ 27 + 1)) = Some 1"
  by (simp, intro conjI; code_simp)

end
