(* ===== verification/Interest.thy ===== *)
theory Interest
  imports SolMath
begin

text \<open>
  Interest accrual: \<open>calcLinearInterest\<close> and \<open>calcCompoundedInterest\<close> of
  \<^verbatim>\<open>test-suites/test-ftm/helpers/utils/calculations.ts\<close>, the contract's
  \<open>calculateLinearInterest\<close> and \<open>calculateCompoundedInterest\<close> (\<^verbatim>\<open>MathUtils.sol\<close>), and the integer
  functions both compute: a rate times a time span, and the first four terms of the binomial
  expansion of the per-second compound. The t0 section bounds and orders the factors.
\<close>

section \<open>The expected factors\<close>

definition calcLinearInterest :: "'b bn_api \<Rightarrow> 'b \<Rightarrow> 'b \<Rightarrow> 'b \<Rightarrow> 'b" where
  "calcLinearInterest B rate currentTimestamp lastUpdateTimestamp =
     (let timeDifference = bn_minus B currentTimestamp lastUpdateTimestamp;
          cumulatedInterest =
            bn_plus B (bn_div B (bn_times B rate timeDifference) (bn_of B ONE_YEAR)) (bn_of B RAY)
      in cumulatedInterest)"

definition calcCompoundedInterest :: "'b bn_api \<Rightarrow> 'b \<Rightarrow> 'b \<Rightarrow> 'b \<Rightarrow> 'b" where
  "calcCompoundedInterest B rate currentTimestamp lastUpdateTimestamp =
     (let timeDifference = bn_minus B currentTimestamp lastUpdateTimestamp
      in if bn_eq B timeDifference (bn_of B 0) then bn_of B RAY
         else
           let expMinusOne = bn_minus B timeDifference (bn_of B 1);
               expMinusTwo = (if bn_gt B timeDifference (bn_of B 2)
                              then bn_minus B timeDifference (bn_of B 2) else bn_of B 0);
               ratePerSecond = bn_div B rate (bn_of B ONE_YEAR);
               basePowerTwo = rayMul B ratePerSecond ratePerSecond;
               basePowerThree = rayMul B basePowerTwo ratePerSecond;
               secondTerm =
                 bn_div B (bn_times B (bn_times B timeDifference expMinusOne) basePowerTwo) (bn_of B 2);
               thirdTerm =
                 bn_div B (bn_times B (bn_times B (bn_times B timeDifference expMinusOne) expMinusTwo)
                   basePowerThree) (bn_of B 6)
           in bn_plus B (bn_plus B (bn_plus B (bn_of B RAY) (bn_times B ratePerSecond timeDifference))
                secondTerm) thirdTerm)"

section \<open>The contract's factors\<close>

text \<open>\<open>block.timestamp\<close> is the argument \<open>now\<close>; a \<open>uint40\<close> is widened by \<open>ucast\<close>.\<close>

type_synonym uint40 = "40 word"

definition calculateLinearInterest :: "uint256 \<Rightarrow> uint256 \<Rightarrow> uint40 \<Rightarrow> uint256 result" where
  "calculateLinearInterest now rate lastUpdateTimestamp =
     bindR (sol_sub now (ucast lastUpdateTimestamp)) (\<lambda>timeDifference.
     bindR (sol_mul rate timeDifference) (\<lambda>p.
     sol_add (p div SECONDS_PER_YEAR) sol_RAY))"

definition calculateCompoundedInterest :: "uint256 \<Rightarrow> uint40 \<Rightarrow> uint256 \<Rightarrow> uint256 result" where
  "calculateCompoundedInterest rate lastUpdateTimestamp currentTimestamp =
     bindR (sol_sub currentTimestamp (ucast lastUpdateTimestamp)) (\<lambda>expn.
     if expn = 0 then Inr sol_RAY
     else
       let expMinusOne = expn - 1;
           expMinusTwo = (if expn > 2 then expn - 2 else 0);
           ratePerSecond = rate div SECONDS_PER_YEAR
       in bindR (sol_rayMul ratePerSecond ratePerSecond) (\<lambda>basePowerTwo.
          bindR (sol_rayMul basePowerTwo ratePerSecond) (\<lambda>basePowerThree.
          bindR (bindR (sol_mul expn expMinusOne) (\<lambda>p. sol_mul p basePowerTwo)) (\<lambda>s.
          let secondTerm = s div 2 in
          bindR (bindR (bindR (sol_mul expn expMinusOne) (\<lambda>p. sol_mul p expMinusTwo))
                   (\<lambda>p. sol_mul p basePowerThree)) (\<lambda>t.
          let thirdTerm = t div 6 in
          bindR (bindR (bindR (sol_mul ratePerSecond expn) (sol_add sol_RAY))
                   (\<lambda>a. sol_add a secondTerm)) (\<lambda>a. sol_add a thirdTerm))))))"

section \<open>Both compute the same integers\<close>

definition linear_factor :: "int \<Rightarrow> int \<Rightarrow> int" where
  "linear_factor rate dt = (rate * dt) sdiv ONE_YEAR + RAY"

definition compound_factor :: "int \<Rightarrow> int \<Rightarrow> int" where
  "compound_factor rate dt =
     (if dt = 0 then RAY
      else
        let r = rate sdiv ONE_YEAR; p2 = ray_mul r r; p3 = ray_mul p2 r;
            d2 = (if dt > 2 then dt - 2 else 0)
        in RAY + r * dt + (dt * (dt - 1) * p2) sdiv 2 + (dt * (dt - 1) * d2 * p3) sdiv 6)"

context bignumber_int
begin

lemma denotes_linear:
  assumes "denotes val r rate" "denotes val t now" "denotes val u t0"
  shows "denotes val (calcLinearInterest B r t u) (linear_factor rate (now - t0))"
  using assms by (simp add: calcLinearInterest_def linear_factor_def denotes_rules)

lemma denotes_compound:
  assumes "denotes val r rate" "denotes val t now" "denotes val u t0"
  shows "denotes val (calcCompoundedInterest B r t u) (compound_factor rate (now - t0))"
proof -
  define d where "d = bn_minus B t u"
  have d: "denotes val d (now - t0)"
    unfolding d_def using assms by (intro denotes_minus)
  have eq0: "bn_eq B d (bn_of B 0) \<longleftrightarrow> now - t0 = 0"
    and gt2: "bn_gt B d (bn_of B 2) \<longleftrightarrow> now - t0 > 2"
    using eq_iff [OF d denotes_of] gt_iff [OF d denotes_of] by simp_all
  show ?thesis
    unfolding calcCompoundedInterest_def d_def [symmetric] compound_factor_def Let_def eq0 gt2
    using assms d by (intro denotes_if denotes_rules denotes_math) simp_all
qed

end

lemma uint_ucast_uint40 [simp]: "uint (ucast (t :: uint40) :: uint256) = uint t"
  using uint_bounded [of t]
  by (simp add: unsigned_ucast_eq take_bit_int_eq_self_iff)

lemma calculateLinearInterest_uint:
  assumes "calculateLinearInterest now rate t0 = Inr f"
  shows "uint f = linear_factor (uint rate) (uint now - uint t0) \<and> uint t0 \<le> uint now"
proof -
  from assms obtain d p where d: "sol_sub now (ucast t0) = Inr d" and p: "sol_mul rate d = Inr p"
    and f: "sol_add (p div SECONDS_PER_YEAR) sol_RAY = Inr f"
    by (auto simp: calculateLinearInterest_def bindR_Inr_iff)
  with sol_sub_uint [OF d] sol_mul_uint [OF p] sol_add_uint [OF f] show ?thesis
    by (simp add: linear_factor_def uint_div sdiv_nonneg)
qed


lemma calculateCompoundedInterest_uint:
  assumes "calculateCompoundedInterest rate t0 now = Inr f"
  shows "uint f = compound_factor (uint rate) (uint now - uint t0) \<and> uint t0 \<le> uint now"
proof -
  from assms obtain e where e: "sol_sub now (ucast t0) = Inr e"
    by (auto simp: calculateCompoundedInterest_def bindR_Inr_iff)
  have ue: "uint e = uint now - uint t0" "uint t0 \<le> uint now"
    using sol_sub_uint [OF e] by simp_all
  show ?thesis
  proof (cases "e = 0")
    case True
    with assms e ue show ?thesis
      by (auto simp: calculateCompoundedInterest_def compound_factor_def)
  next
    case False
    define r where "r = rate div SECONDS_PER_YEAR"
    define d2 where "d2 = (if e > 2 then e - 2 else 0)"
    from False assms e obtain p2 p3 a s b c t g h i where
      p2: "sol_rayMul r r = Inr p2" and p3: "sol_rayMul p2 r = Inr p3"
      and a: "sol_mul e (e - 1) = Inr a" and s: "sol_mul a p2 = Inr s"
      and c: "sol_mul a d2 = Inr c" and t: "sol_mul c p3 = Inr t"
      and g: "sol_mul r e = Inr g" and h: "sol_add sol_RAY g = Inr h"
      and i: "sol_add h (s div 2) = Inr i" and f: "sol_add i (t div 6) = Inr f"
      by (auto simp: calculateCompoundedInterest_def Let_def bindR_Inr_iff r_def d2_def)
    have ur: "uint r = uint rate sdiv ONE_YEAR"
      by (simp add: r_def uint_div sdiv_nonneg)
    have "1 \<le> uint e" using False by (simp add: uint_pos_iff [symmetric])
    then have u1: "uint (e - 1) = uint e - 1"
      using uint_sub_lem [of 1 e] by simp
    have u2: "uint d2 = (if uint e > 2 then uint e - 2 else 0)"
      using uint_sub_lem [of 2 e] by (auto simp: d2_def word_less_def)
    have e0: "uint now - uint t0 \<noteq> 0" using False ue by (simp add: uint_0_iff [symmetric])
    have nn: "0 \<le> uint s" "0 \<le> uint t" by simp_all
    have "uint f = RAY + uint r * uint e + uint s sdiv 2 + uint t sdiv 6"
      using sol_mul_uint [OF g] sol_add_uint [OF h] sol_add_uint [OF i] sol_add_uint [OF f]
      by (simp add: uint_div sdiv_nonneg)
    moreover have "uint s = uint e * (uint e - 1) * ray_mul (uint r) (uint r)"
      using sol_mul_uint [OF a] sol_mul_uint [OF s] p2 by (simp add: sol_rayMul_iff u1)
    moreover have "uint t = uint e * (uint e - 1) * uint d2 * ray_mul (ray_mul (uint r) (uint r)) (uint r)"
      using sol_mul_uint [OF a] sol_mul_uint [OF c] sol_mul_uint [OF t] p2 p3
      by (simp add: sol_rayMul_iff u1)
    ultimately show ?thesis
      using e0 ue by (simp add: compound_factor_def Let_def ur u2)
  qed
qed

section \<open>Bounds and growth of the factors\<close>

lemma linear_factor_nonneg: "0 \<le> rate \<Longrightarrow> 0 \<le> dt \<Longrightarrow> linear_factor rate dt = rate * dt div ONE_YEAR + RAY"
  by (simp add: linear_factor_def sdiv_nonneg)

lemma linear_factor_zero [simp]: "linear_factor 0 dt = RAY" "linear_factor rate 0 = RAY"
  by (simp_all add: linear_factor_def)

lemma linear_factor_ge_RAY: "0 \<le> rate \<Longrightarrow> 0 \<le> dt \<Longrightarrow> RAY \<le> linear_factor rate dt"
  by (simp add: linear_factor_nonneg pos_imp_zdiv_nonneg_iff constants_pos)

lemma linear_factor_mono:
  "0 \<le> rate \<Longrightarrow> rate \<le> rate' \<Longrightarrow> 0 \<le> dt \<Longrightarrow> dt \<le> dt' \<Longrightarrow> linear_factor rate dt \<le> linear_factor rate' dt'"
  by (simp add: linear_factor_nonneg zdiv_mono1 mult_mono constants_pos)

lemma compound_factor_nonneg:
  assumes "0 \<le> rate" "0 < dt"
  defines "r \<equiv> rate div ONE_YEAR"
  shows "compound_factor rate dt =
    RAY + r * dt + dt * (dt - 1) * ray_mul r r div 2
      + dt * (dt - 1) * (if dt > 2 then dt - 2 else 0) * ray_mul (ray_mul r r) r div 6"
proof -
  have r: "rate sdiv ONE_YEAR = r" "0 \<le> r"
    using assms by (simp_all add: sdiv_nonneg pos_imp_zdiv_nonneg_iff constants_pos)
  have "0 \<le> ray_mul r r" "0 \<le> ray_mul (ray_mul r r) r"
    using r by (simp_all add: mul_spec_ge0 constants_pos)
  with assms r show ?thesis
    by (simp add: compound_factor_def Let_def sdiv_nonneg)
qed

lemma compound_factor_zero [simp]: "compound_factor rate 0 = RAY"
  by (simp add: compound_factor_def)

lemma compound_factor_ge:
  assumes "0 \<le> rate" "0 \<le> dt"
  shows "RAY + (rate div ONE_YEAR) * dt \<le> compound_factor rate dt"
proof (cases "dt = 0")
  case False
  let ?r = "rate div ONE_YEAR"
  have r: "0 \<le> ?r" using assms by (simp add: pos_imp_zdiv_nonneg_iff constants_pos)
  then have "0 \<le> ray_mul ?r ?r" "0 \<le> ray_mul (ray_mul ?r ?r) ?r"
    by (simp_all add: mul_spec_ge0 constants_pos)
  then have "0 \<le> dt * (dt - 1) * ray_mul ?r ?r div 2"
    "0 \<le> dt * (dt - 1) * (if dt > 2 then dt - 2 else 0) * ray_mul (ray_mul ?r ?r) ?r div 6"
    using False assms by (auto simp: pos_imp_zdiv_nonneg_iff)
  then show ?thesis using False assms by (simp add: compound_factor_nonneg)
qed simp

lemma compound_factor_ge_RAY: "0 \<le> rate \<Longrightarrow> 0 \<le> dt \<Longrightarrow> RAY \<le> compound_factor rate dt"
  using compound_factor_ge [of rate dt] constants_pos
  by (smt (verit) mult_nonneg_nonneg pos_imp_zdiv_nonneg_iff)

lemma compound_factor_mono:
  assumes "0 \<le> rate" "rate \<le> rate'" "0 \<le> dt" "dt \<le> dt'"
  shows "compound_factor rate dt \<le> compound_factor rate' dt'"
proof (cases "dt = 0")
  case True
  then show ?thesis using assms by (simp add: compound_factor_ge_RAY)
next
  case False
  let ?r = "rate div ONE_YEAR" and ?r' = "rate' div ONE_YEAR"
  let ?d = "\<lambda>d. if d > 2 then d - 2 else (0::int)"
  have r: "0 \<le> ?r" "?r \<le> ?r'"
    using assms by (simp_all add: pos_imp_zdiv_nonneg_iff constants_pos zdiv_mono1)
  then have p2: "0 \<le> ray_mul ?r ?r" "ray_mul ?r ?r \<le> ray_mul ?r' ?r'"
    by (simp_all add: mul_spec_ge0 mul_spec_mono constants_pos)
  with r have p3: "0 \<le> ray_mul (ray_mul ?r ?r) ?r" "ray_mul (ray_mul ?r ?r) ?r \<le> ray_mul (ray_mul ?r' ?r') ?r'"
    by (simp_all add: mul_spec_ge0 mul_spec_mono constants_pos)
  have d: "0 \<le> dt * (dt - 1)" "dt * (dt - 1) \<le> dt' * (dt' - 1)" "0 \<le> ?d dt" "?d dt \<le> ?d dt'"
    using False assms by (auto intro!: mult_mono)
  have "?r * dt \<le> ?r' * dt'" using r assms by (intro mult_mono) auto
  moreover have "dt * (dt - 1) * ray_mul ?r ?r div 2 \<le> dt' * (dt' - 1) * ray_mul ?r' ?r' div 2"
    using mult_mono [OF d(2) p2(2)] p2 d by (simp add: zdiv_mono1)
  moreover have "dt * (dt - 1) * ?d dt * ray_mul (ray_mul ?r ?r) ?r div 6
      \<le> dt' * (dt' - 1) * ?d dt' * ray_mul (ray_mul ?r' ?r') ?r' div 6"
  proof (rule zdiv_mono1)
    have "dt * (dt - 1) * ?d dt \<le> dt' * (dt' - 1) * ?d dt'" "0 \<le> dt' * (dt' - 1) * ?d dt'"
      using mult_mono [OF d(2) d(4)] d by (simp_all only: mult_nonneg_nonneg order_trans [OF d(1) d(2)]
          order_trans [OF d(3) d(4)])
    then show "dt * (dt - 1) * ?d dt * ray_mul (ray_mul ?r ?r) ?r
        \<le> dt' * (dt' - 1) * ?d dt' * ray_mul (ray_mul ?r' ?r') ?r'"
      using p3 by (simp only: mult_mono)
  qed simp
  ultimately show ?thesis using False assms by (simp add: compound_factor_nonneg)
qed

text \<open>Compounding never falls behind simple interest by more than one unit per second.\<close>

lemma compound_vs_linear:
  assumes "0 \<le> rate" "0 \<le> dt"
  shows "linear_factor rate dt \<le> compound_factor rate dt + dt"
proof -
  have "rate \<le> (rate div ONE_YEAR + 1) * ONE_YEAR"
  proof -
    have "rate mod ONE_YEAR \<le> ONE_YEAR" using constants_pos(8) by (simp add: less_imp_le)
    then show ?thesis by (simp add: distrib_right minus_mod_eq_div_mult [symmetric])
  qed
  then have "rate * dt \<le> (rate div ONE_YEAR + 1) * ONE_YEAR * dt"
    using assms by (intro mult_right_mono) auto
  then have "rate * dt div ONE_YEAR \<le> (rate div ONE_YEAR + 1) * dt"
    using zdiv_mono1 [of "rate * dt" "((rate div ONE_YEAR + 1) * dt) * ONE_YEAR" ONE_YEAR] constants_pos(8)
    by (simp add: mult.assoc mult.commute [of ONE_YEAR])
  with compound_factor_ge [OF assms] assms show ?thesis
    by (simp add: linear_factor_nonneg algebra_simps)
qed

section \<open>The code against the contract\<close>

text \<open>
  Where the contract's \<open>calculateLinearInterest\<close> returns, \<open>calcLinearInterest\<close> gives the same number.
\<close>

theorem linear_interest_agrees:
  assumes "bignumber_int B val"
    and "denotes val r (uint rate)" "denotes val t (uint now)" "denotes val u (uint t0)"
    and "calculateLinearInterest now rate t0 = Inr f"
  shows "denotes val (calcLinearInterest B r t u) (uint f)"
  using bignumber_int.denotes_linear [OF assms(1-4)] calculateLinearInterest_uint [OF assms(5)] by simp

theorem linear_interest_agrees_witness:
  "denotes id (calcLinearInterest scenario_bn (Some (10 ^ 26)) (Some 1000) (Some 400))
     (uint (1902587519025875190258 + sol_RAY))"
  by (rule linear_interest_agrees [OF scenario_bignumber_int, of _ "10 ^ 26" _ 1000 _ 400])
    (simp_all add: denotes_def calculateLinearInterest_def sol_sub_def sol_mul_def sol_add_def require_def
      SECONDS_PER_YEAR_def sol_RAY_def Let_def)

text \<open>
  C2: Where the contract's \<open>calculateCompoundedInterest\<close> returns, none of its steps having overflowed,
  \<open>calcCompoundedInterest\<close> gives the same number: the two binomial expansions agree term by term.
\<close>

theorem compounded_interest_agrees:
  assumes "bignumber_int B val"
    and "denotes val r (uint rate)" "denotes val t (uint now)" "denotes val u (uint t0)"
    and "calculateCompoundedInterest rate t0 now = Inr f"
  shows "denotes val (calcCompoundedInterest B r t u) (uint f)"
  using bignumber_int.denotes_compound [OF assms(1-4)] calculateCompoundedInterest_uint [OF assms(5)] by simp

theorem compounded_interest_agrees_witness:
  "\<exists>f. denotes id (calcCompoundedInterest scenario_bn (Some (10 ^ 26)) (Some 1000) (Some 400)) (uint f)
     \<and> calculateCompoundedInterest (10 ^ 26) 400 1000 = Inr f"
proof -
  have "\<exists>f. calculateCompoundedInterest (10 ^ 26) 400 1000 = Inr f"
    by (simp add: calculateCompoundedInterest_def sol_sub_def sol_mul_def sol_add_def sol_rayMul_def
        require_def SECONDS_PER_YEAR_def sol_RAY_def Let_def)
  then obtain f where f: "calculateCompoundedInterest (10 ^ 26) 400 1000 = Inr f" ..
  show ?thesis
    using compounded_interest_agrees [OF scenario_bignumber_int _ _ _ f, of "Some (10 ^ 26)" "Some 1000" "Some 400"] f
    by (simp add: denotes_def)
qed

text \<open>
  The factors are ordered. Both are at least a ray, neither shrinks as time passes or the rate
  grows, and compounding falls behind simple interest by at most one unit per second, what dividing
  the rate by the seconds of a year first can lose.
\<close>

theorem interest_factors_ordered:
  assumes "bignumber_int B val"
    and "denotes val r rate" "denotes val r' rate'" "denotes val t now" "denotes val t' now'" "denotes val u t0"
    and "0 \<le> rate" "rate \<le> rate'" "t0 \<le> now" "now \<le> now'"
  shows "\<exists>l l' c c'. denotes val (calcLinearInterest B r t u) l \<and> denotes val (calcLinearInterest B r' t' u) l'
    \<and> denotes val (calcCompoundedInterest B r t u) c \<and> denotes val (calcCompoundedInterest B r' t' u) c'
    \<and> RAY \<le> l \<and> l \<le> l' \<and> RAY \<le> c \<and> c \<le> c' \<and> l \<le> c + (now - t0)"
proof -
  have dt: "0 \<le> now - t0" "now - t0 \<le> now' - t0" using assms by simp_all
  show ?thesis
    using bignumber_int.denotes_linear [OF assms(1,2,4,6)] bignumber_int.denotes_linear [OF assms(1,3,5,6)]
      bignumber_int.denotes_compound [OF assms(1,2,4,6)] bignumber_int.denotes_compound [OF assms(1,3,5,6)]
      linear_factor_ge_RAY [OF assms(7) dt(1)] linear_factor_mono [OF assms(7,8) dt]
      compound_factor_ge_RAY [OF assms(7) dt(1)] compound_factor_mono [OF assms(7,8) dt]
      compound_vs_linear [OF assms(7) dt(1)]
    by blast
qed

theorem interest_factors_ordered_witness:
  "\<exists>l l' c c'. denotes id (calcLinearInterest scenario_bn (Some 5) (Some 20) (Some 10)) l
    \<and> denotes id (calcLinearInterest scenario_bn (Some 6) (Some 30) (Some 10)) l'
    \<and> denotes id (calcCompoundedInterest scenario_bn (Some 5) (Some 20) (Some 10)) c
    \<and> denotes id (calcCompoundedInterest scenario_bn (Some 6) (Some 30) (Some 10)) c'
    \<and> RAY \<le> l \<and> l \<le> l' \<and> RAY \<le> c \<and> c \<le> c' \<and> l \<le> c + (20 - 10)"
  by (rule interest_factors_ordered [OF scenario_bignumber_int, of _ 5 _ 6 _ 20 _ 30 _ 10])
    (simp_all add: denotes_def)

end
