(* ===== verification/Rates.thy ===== *)
theory Rates
  imports Interest ConfigTypes
begin

text \<open>
  Interest rates: \<open>calcExpectedUtilizationRate\<close>, \<open>calcExpectedOverallBorrowRate\<close> and
  \<open>calcExpectedInterestRates\<close> of \<^verbatim>\<open>calculations.ts\<close> against
  \<^verbatim>\<open>DefaultReserveInterestRateStrategy.sol\<close>. Both compute a utilization rate, two rates that rise
  linearly up to an optimal utilization and more steeply beyond it, and a liquidity rate. They
  differ in one place: below the optimum the code divides the utilization by the optimum and then
  multiplies by the slope, the contract multiplies first. The lemmas at the end say where the two
  agree exactly and bound the difference elsewhere.
\<close>

section \<open>The expected rates\<close>

definition calcExpectedUtilizationRate :: "'b bn_api \<Rightarrow> 'b \<Rightarrow> 'b \<Rightarrow> 'b \<Rightarrow> 'b" where
  "calcExpectedUtilizationRate B totalStableDebt totalVariableDebt totalLiquidity =
     (if bn_eq B totalStableDebt (bn_of B 0) \<and> bn_eq B totalVariableDebt (bn_of B 0) then bn_of B 0
      else let utilization = rayDiv B (bn_plus B totalStableDebt totalVariableDebt) totalLiquidity
           in utilization)"

definition calcExpectedOverallBorrowRate :: "'b bn_api \<Rightarrow> 'b \<Rightarrow> 'b \<Rightarrow> 'b \<Rightarrow> 'b \<Rightarrow> 'b" where
  "calcExpectedOverallBorrowRate B totalStableDebt totalVariableDebt currentVariableBorrowRate
       currentAverageStableBorrowRate =
     (let totalBorrows = bn_plus B totalStableDebt totalVariableDebt
      in if bn_eq B totalBorrows (bn_of B 0) then bn_of B 0
         else
           let weightedVariableRate = rayMul B (wadToRay B totalVariableDebt) currentVariableBorrowRate;
               weightedStableRate = rayMul B (wadToRay B totalStableDebt) currentAverageStableBorrowRate;
               overallBorrowRate =
                 rayDiv B (bn_plus B weightedVariableRate weightedStableRate) (wadToRay B totalBorrows)
           in overallBorrowRate)"

text \<open>
  \<open>reservesParams\<close> is \<open>configuration.reservesParams\<close>, which the test actions set. A symbol it has
  no entry for is the index -1, and destructuring \<open>undefined\<close> raises a \<open>TypeError\<close>. The result is
  the array \<open>[liquidityRate, stableBorrowRate, variableBorrowRate]\<close>.
\<close>

definition calcExpectedInterestRates ::
    "'b bn_api \<Rightarrow> IReserveParams obj \<Rightarrow> string option \<Rightarrow> 'b \<Rightarrow> 'b \<Rightarrow> 'b \<Rightarrow> 'b \<Rightarrow> 'b \<Rightarrow> ('b \<times> 'b \<times> 'b) result" where
  "calcExpectedInterestRates B reservesParams reserveSymbol marketStableRate utilizationRate
       totalStableDebt totalVariableDebt averageStableBorrowRate =
     (let reserveIndex = findIndex (\<lambda>v. Some v = reserveSymbol) (obj_keys reservesParams)
      in bindR (deref (js_at reservesParams reserveIndex)) (\<lambda>(_, reserveConfiguration).
     let strat = strategy reserveConfiguration;
         stableBorrowRate0 = marketStableRate;
         variableBorrowRate0 = bn_parse B (baseVariableBorrowRate strat);
         optimalRate = bn_parse B (optimalUtilizationRate strat);
         excessRate = bn_minus B (bn_of B RAY) optimalRate;
         (stableBorrowRate, variableBorrowRate) =
           (if bn_gt B utilizationRate optimalRate then
              let excessUtilizationRateRatio =
                    rayDiv B (bn_minus B utilizationRate (bn_parse B (optimalUtilizationRate strat))) excessRate
              in (bn_plus B (bn_plus B stableBorrowRate0 (bn_parse B (stableRateSlope1 strat)))
                    (rayMul B (bn_parse B (stableRateSlope2 strat)) excessUtilizationRateRatio),
                  bn_plus B (bn_plus B variableBorrowRate0 (bn_parse B (variableRateSlope1 strat)))
                    (rayMul B (bn_parse B (variableRateSlope2 strat)) excessUtilizationRateRatio))
            else
              (bn_plus B stableBorrowRate0
                 (rayMul B (bn_parse B (stableRateSlope1 strat)) (rayDiv B utilizationRate optimalRate)),
               bn_plus B variableBorrowRate0
                 (rayMul B (rayDiv B utilizationRate optimalRate) (bn_parse B (variableRateSlope1 strat)))));
         expectedOverallRate =
           calcExpectedOverallBorrowRate B totalStableDebt totalVariableDebt variableBorrowRate
             averageStableBorrowRate;
         liquidityRate =
           percentMul B (rayMul B expectedOverallRate utilizationRate)
             (bn_minus B (bn_of B PERCENTAGE_FACTOR) (bn_parse B (reserveFactor reserveConfiguration)))
     in Inr (liquidityRate, stableBorrowRate, variableBorrowRate)))"

text \<open>A configured symbol always gets rates, whatever the numbers are; any other is a \<open>TypeError\<close>.\<close>

definition configured :: "'a obj \<Rightarrow> string option \<Rightarrow> bool" where
  "configured params symb = (case symb of None \<Rightarrow> False | Some s \<Rightarrow> obj_get params s \<noteq> None)"

lemma findIndex_none [simp]: "findIndex (\<lambda>v. False) ks = -1"
proof -
  have "findIndex_from i (\<lambda>v. False) xs = -1" for i and xs :: "'a list"
    by (induction xs arbitrary: i) auto
  then show ?thesis by (simp add: findIndex_def)
qed

lemma reserve_entry:
  "js_at params (findIndex (\<lambda>v. Some v = symb) (obj_keys params)) =
   (case symb of None \<Rightarrow> None | Some s \<Rightarrow> map_option (Pair s) (obj_get params s))"
proof (cases symb)
  case None
  then show ?thesis by (simp only: option.distinct findIndex_none) (simp add: js_at_def)
qed (simp add: entries_at_findIndex)

lemma interest_rates_run:
  "configured params symb \<Longrightarrow> \<exists>r. calcExpectedInterestRates B params symb m w x y a = Inr r"
  unfolding calcExpectedInterestRates_def Let_def reserve_entry
  by (auto simp: configured_def split_beta split: option.splits)

lemma interest_rates_fail:
  "\<not> configured params symb \<Longrightarrow> calcExpectedInterestRates B params symb m w x y a = Inl TypeError"
  unfolding calcExpectedInterestRates_def Let_def reserve_entry
  by (auto simp: configured_def split: option.splits)

section \<open>The contract's rates\<close>

text \<open>
  The immutable state of the strategy contract and its constructor. \<open>getMarketBorrowRate\<close> is the
  argument \<open>marketRate\<close>: what the lending rate oracle answers for the reserve.
\<close>

record sol_strategy =
  OPTIMAL_UTILIZATION_RATE :: uint256
  EXCESS_UTILIZATION_RATE :: uint256
  sol_baseVariableBorrowRate :: uint256
  sol_variableRateSlope1 :: uint256
  sol_variableRateSlope2 :: uint256
  sol_stableRateSlope1 :: uint256
  sol_stableRateSlope2 :: uint256

definition sol_strategy_new ::
    "uint256 \<Rightarrow> uint256 \<Rightarrow> uint256 \<Rightarrow> uint256 \<Rightarrow> uint256 \<Rightarrow> uint256 \<Rightarrow> sol_strategy result" where
  "sol_strategy_new optimal base vs1 vs2 ss1 ss2 =
     bindR (sol_sub sol_RAY optimal) (\<lambda>excess.
     Inr \<lparr>OPTIMAL_UTILIZATION_RATE = optimal, EXCESS_UTILIZATION_RATE = excess,
       sol_baseVariableBorrowRate = base, sol_variableRateSlope1 = vs1, sol_variableRateSlope2 = vs2,
       sol_stableRateSlope1 = ss1, sol_stableRateSlope2 = ss2\<rparr>)"

definition getOverallBorrowRate :: "uint256 \<Rightarrow> uint256 \<Rightarrow> uint256 \<Rightarrow> uint256 \<Rightarrow> uint256 result" where
  "getOverallBorrowRate totalStableDebt totalVariableDebt currentVariableBorrowRate
       currentAverageStableBorrowRate =
     bindR (sol_add totalStableDebt totalVariableDebt) (\<lambda>totalDebt.
     if totalDebt = 0 then Inr 0
     else bindR (bindR (sol_wadToRay totalVariableDebt) (\<lambda>w. sol_rayMul w currentVariableBorrowRate))
       (\<lambda>weightedVariableRate.
     bindR (bindR (sol_wadToRay totalStableDebt) (\<lambda>w. sol_rayMul w currentAverageStableBorrowRate))
       (\<lambda>weightedStableRate.
     bindR (sol_add weightedVariableRate weightedStableRate) (\<lambda>sm.
     bindR (sol_wadToRay totalDebt) (\<lambda>d. sol_rayDiv sm d)))))"

definition calculateInterestRates ::
    "sol_strategy \<Rightarrow> uint256 \<Rightarrow> uint256 \<Rightarrow> uint256 \<Rightarrow> uint256 \<Rightarrow> uint256 \<Rightarrow> uint256 \<Rightarrow>
     (uint256 \<times> uint256 \<times> uint256) result" where
  "calculateInterestRates S marketRate availableLiquidity totalStableDebt totalVariableDebt
       averageStableBorrowRate rFactor =
     bindR (sol_add totalStableDebt totalVariableDebt) (\<lambda>totalDebt.
     bindR (if totalDebt = 0 then Inr 0
            else bindR (sol_add availableLiquidity totalDebt) (\<lambda>l. sol_rayDiv totalDebt l))
       (\<lambda>utilizationRate.
     bindR (if utilizationRate > OPTIMAL_UTILIZATION_RATE S then
              bindR (bindR (sol_sub utilizationRate (OPTIMAL_UTILIZATION_RATE S))
                       (\<lambda>d. sol_rayDiv d (EXCESS_UTILIZATION_RATE S))) (\<lambda>ratio.
              bindR (sol_add marketRate (sol_stableRateSlope1 S)) (\<lambda>a.
              bindR (sol_rayMul (sol_stableRateSlope2 S) ratio) (\<lambda>b.
              bindR (sol_add a b) (\<lambda>stableRate.
              bindR (sol_add (sol_baseVariableBorrowRate S) (sol_variableRateSlope1 S)) (\<lambda>c.
              bindR (sol_rayMul (sol_variableRateSlope2 S) ratio) (\<lambda>d.
              bindR (sol_add c d) (\<lambda>variableRate. Inr (stableRate, variableRate))))))))
            else
              bindR (sol_rayDiv utilizationRate (OPTIMAL_UTILIZATION_RATE S)) (\<lambda>q.
              bindR (sol_rayMul (sol_stableRateSlope1 S) q) (\<lambda>a.
              bindR (sol_add marketRate a) (\<lambda>stableRate.
              bindR (sol_rayMul utilizationRate (sol_variableRateSlope1 S)) (\<lambda>b.
              bindR (sol_rayDiv b (OPTIMAL_UTILIZATION_RATE S)) (\<lambda>c.
              bindR (sol_add (sol_baseVariableBorrowRate S) c) (\<lambda>variableRate.
              Inr (stableRate, variableRate))))))))
       (\<lambda>(currentStableBorrowRate, currentVariableBorrowRate).
     bindR (getOverallBorrowRate totalStableDebt totalVariableDebt currentVariableBorrowRate
              averageStableBorrowRate) (\<lambda>overall.
     bindR (sol_rayMul overall utilizationRate) (\<lambda>r.
     bindR (sol_sub sol_PERCENTAGE_FACTOR rFactor) (\<lambda>f.
     bindR (sol_percentMul r f) (\<lambda>currentLiquidityRate.
     Inr (currentLiquidityRate, currentStableBorrowRate, currentVariableBorrowRate))))))))"

section \<open>What both compute on integers\<close>

text \<open>
  The parameter \<open>below\<close> is the variable rate's term below the optimum, the one place where the two
  programs differ.
\<close>

record rate_params =
  p_optimal :: int
  p_base :: int
  p_vs1 :: int
  p_vs2 :: int
  p_ss1 :: int
  p_ss2 :: int

definition utilization_spec :: "int \<Rightarrow> int \<Rightarrow> int \<Rightarrow> int" where
  "utilization_spec s v l = (if s = 0 \<and> v = 0 then 0 else ray_div (s + v) l)"

definition overall_spec :: "int \<Rightarrow> int \<Rightarrow> int \<Rightarrow> int \<Rightarrow> int" where
  "overall_spec s v vr ar =
     (if s + v = 0 then 0
      else ray_div (ray_mul (v * WAD_RAY_RATIO) vr + ray_mul (s * WAD_RAY_RATIO) ar) ((s + v) * WAD_RAY_RATIO))"

definition below_code :: "int \<Rightarrow> int \<Rightarrow> int \<Rightarrow> int" where
  "below_code u opt slope = ray_mul (ray_div u opt) slope"

definition below_contract :: "int \<Rightarrow> int \<Rightarrow> int \<Rightarrow> int" where
  "below_contract u opt slope = ray_div (ray_mul u slope) opt"

definition rates_spec ::
    "(int \<Rightarrow> int \<Rightarrow> int \<Rightarrow> int) \<Rightarrow> rate_params \<Rightarrow> int \<Rightarrow> int \<Rightarrow> int \<Rightarrow> int \<Rightarrow> int \<Rightarrow> int \<Rightarrow> int \<times> int \<times> int" where
  "rates_spec below P mkt u s v avg rf =
     (let opt = p_optimal P;
          x = ray_div (u - opt) (RAY - opt);
          sr = (if u > opt then mkt + p_ss1 P + ray_mul (p_ss2 P) x else mkt + ray_mul (p_ss1 P) (ray_div u opt));
          vr = (if u > opt then p_base P + p_vs1 P + ray_mul (p_vs2 P) x else p_base P + below u opt (p_vs1 P));
          lr = percent_mul (ray_mul (overall_spec s v vr avg) u) (PERCENTAGE_FACTOR - rf)
      in (lr, sr, vr))"

text \<open>A configured strategy and the numbers its strings stand for.\<close>

definition params_denote :: "'b bn_api \<Rightarrow> ('b \<Rightarrow> rat option) \<Rightarrow> IInterestRateStrategyParams \<Rightarrow> rate_params \<Rightarrow> bool" where
  "params_denote B val st P \<longleftrightarrow>
     denotes val (bn_parse B (optimalUtilizationRate st)) (p_optimal P) \<and>
     denotes val (bn_parse B (baseVariableBorrowRate st)) (p_base P) \<and>
     denotes val (bn_parse B (variableRateSlope1 st)) (p_vs1 P) \<and>
     denotes val (bn_parse B (variableRateSlope2 st)) (p_vs2 P) \<and>
     denotes val (bn_parse B (stableRateSlope1 st)) (p_ss1 P) \<and>
     denotes val (bn_parse B (stableRateSlope2 st)) (p_ss2 P)"

lemmas params_denoteD = params_denote_def [THEN iffD1]

context bignumber_int
begin

lemma denotes_utilization:
  assumes "denotes val x s" "denotes val y v" "denotes val z l" "l \<noteq> 0"
  shows "denotes val (calcExpectedUtilizationRate B x y z) (utilization_spec s v l)"
proof -
  have "bn_eq B x (bn_of B 0) \<and> bn_eq B y (bn_of B 0) \<longleftrightarrow> s = 0 \<and> v = 0"
    using eq_iff [OF assms(1) denotes_of] eq_iff [OF assms(2) denotes_of] by simp
  with assms show ?thesis
    unfolding calcExpectedUtilizationRate_def utilization_spec_def Let_def
    by (auto intro: denotes_rules denotes_math)
qed

lemma denotes_overall:
  assumes "denotes val x s" "denotes val y v" "denotes val r vr" "denotes val a ar"
  shows "denotes val (calcExpectedOverallBorrowRate B x y r a) (overall_spec s v vr ar)"
proof -
  have "bn_eq B (bn_plus B x y) (bn_of B 0) \<longleftrightarrow> s + v = 0"
    using assms by (intro eq_iff denotes_rules)
  with assms show ?thesis
    unfolding calcExpectedOverallBorrowRate_def overall_spec_def Let_def
    by (auto intro!: denotes_rules denotes_math)
qed

lemma denotes_interest_rates:
  assumes config: "obj_get params symb = Some rc" "params_denote B val (strategy rc) P"
    "denotes val (bn_parse B (reserveFactor rc)) rf"
    and args: "denotes val m mkt" "denotes val w u" "denotes val x s" "denotes val y v" "denotes val a avg"
    and opt: "p_optimal P \<noteq> 0" "p_optimal P \<noteq> RAY"
  obtains lr sr vr where "calcExpectedInterestRates B params (Some symb) m w x y a = Inr (lr, sr, vr)"
    "denotes val lr (fst (rates_spec below_code P mkt u s v avg rf))"
    "denotes val sr (fst (snd (rates_spec below_code P mkt u s v avg rf)))"
    "denotes val vr (snd (snd (rates_spec below_code P mkt u s v avg rf)))"
proof -
  have entry: "js_at params (findIndex (\<lambda>v. v = symb) (obj_keys params)) = Some (symb, rc)"
    by (simp add: entries_at_findIndex config)
  note P = params_denoteD [OF config(2)]
  have gt: "bn_gt B w (bn_parse B (optimalUtilizationRate (strategy rc))) \<longleftrightarrow> u > p_optimal P"
    using args P by (intro gt_iff) auto
  show ?thesis
  proof (cases "u > p_optimal P")
    case True
    with gt show ?thesis
      using args P config opt
      by (intro that)
        (auto simp: calcExpectedInterestRates_def entry rates_spec_def Let_def
          intro!: denotes_rules denotes_math denotes_overall)
  next
    case False
    with gt show ?thesis
      using args P config opt
      by (intro that)
        (auto simp: calcExpectedInterestRates_def entry rates_spec_def Let_def below_code_def
          intro!: denotes_rules denotes_math denotes_overall)
  qed
qed

end

section \<open>The contract computes its specification\<close>

definition sol_params :: "sol_strategy \<Rightarrow> rate_params" where
  "sol_params S = \<lparr>p_optimal = uint (OPTIMAL_UTILIZATION_RATE S), p_base = uint (sol_baseVariableBorrowRate S),
     p_vs1 = uint (sol_variableRateSlope1 S), p_vs2 = uint (sol_variableRateSlope2 S),
     p_ss1 = uint (sol_stableRateSlope1 S), p_ss2 = uint (sol_stableRateSlope2 S)\<rparr>"

text \<open>What the constructor establishes: the excess range is the rest of the ray.\<close>

definition sol_strategy_ok :: "sol_strategy \<Rightarrow> bool" where
  "sol_strategy_ok S \<longleftrightarrow> uint (EXCESS_UTILIZATION_RATE S) = RAY - uint (OPTIMAL_UTILIZATION_RATE S)"

lemma sol_strategy_new_ok: "sol_strategy_new opt b v1 v2 s1 s2 = Inr S \<Longrightarrow> sol_strategy_ok S"
  by (auto simp: sol_strategy_new_def bindR_Inr_iff sol_strategy_ok_def dest: sol_sub_uint)

named_theorems sol_uint

lemmas [sol_uint] = sol_add_uint sol_mul_uint

lemma sol_sub_uintD [sol_uint]: "sol_sub a b = Inr c \<Longrightarrow> uint c = uint a - uint b"
  by (simp add: sol_sub_uint)

lemma sol_math_uintD [sol_uint]:
  "sol_rayMul a b = Inr c \<Longrightarrow> uint c = ray_mul (uint a) (uint b)"
  "sol_rayDiv a b = Inr c \<Longrightarrow> uint c = ray_div (uint a) (uint b)"
  "sol_percentMul a b = Inr c \<Longrightarrow> uint c = percent_mul (uint a) (uint b)"
  "sol_wadToRay a = Inr c \<Longrightarrow> uint c = uint a * WAD_RAY_RATIO"
  by (simp_all add: sol_rayMul_iff sol_rayDiv_iff sol_percentMul_iff sol_wadToRay_iff)

lemma getOverallBorrowRate_uint:
  assumes "getOverallBorrowRate s v vr ar = Inr r"
  shows "uint r = overall_spec (uint s) (uint v) (uint vr) (uint ar)"
proof -
  from assms obtain t where t: "sol_add s v = Inr t"
    by (auto simp: getOverallBorrowRate_def bindR_Inr_iff)
  then have ut: "uint t = uint s + uint v" by (rule sol_add_uint)
  show ?thesis
  proof (cases "t = 0")
    case True
    with assms t ut show ?thesis by (simp add: getOverallBorrowRate_def overall_spec_def)
  next
    case False
    then have "uint s + uint v \<noteq> 0" using ut by (simp add: uint_0_iff [symmetric])
    with False assms t ut show ?thesis
      by (auto simp: getOverallBorrowRate_def bindR_Inr_iff overall_spec_def dest!: sol_uint)
  qed
qed

lemma calculateInterestRates_uint:
  assumes ok: "sol_strategy_ok S"
    and run: "calculateInterestRates S mkt avail s v avg rf = Inr (lr, sr, vr)"
  defines "u \<equiv> utilization_spec (uint s) (uint v) (uint avail + (uint s + uint v))"
  shows "(uint lr, uint sr, uint vr) =
    rates_spec below_contract (sol_params S) (uint mkt) u (uint s) (uint v) (uint avg) (uint rf)"
proof -
  from run obtain t w where t: "sol_add s v = Inr t"
    and w: "(if t = 0 then Inr 0 else bindR (sol_add avail t) (\<lambda>l. sol_rayDiv t l)) = Inr w"
    by (auto simp: calculateInterestRates_def bindR_Inr_iff)
  have ut: "uint t = uint s + uint v" using t by (rule sol_add_uint)
  have uw: "uint w = u"
  proof (cases "t = 0")
    case True
    with ut have "uint s = 0 \<and> uint v = 0"
      by (simp add: add_nonneg_eq_0_iff)
    with True w show ?thesis by (simp add: u_def utilization_spec_def)
  next
    case False
    then have "uint s + uint v \<noteq> 0" using ut by (simp add: uint_0_iff [symmetric])
    then have "\<not> (uint s = 0 \<and> uint v = 0)" by simp
    with False w ut show ?thesis
      by (auto simp: u_def utilization_spec_def bindR_Inr_iff simp del: uint_0_iff dest!: sol_uint)
  qed
  show ?thesis
  proof (cases "w > OPTIMAL_UTILIZATION_RATE S")
    case True
    then have "u > p_optimal (sol_params S)" by (simp add: word_less_def uw sol_params_def)
    with True run t w ok show ?thesis
      by (auto simp: calculateInterestRates_def bindR_Inr_iff rates_spec_def Let_def sol_params_def
          uw sol_strategy_ok_def split: prod.splits dest!: sol_uint getOverallBorrowRate_uint)
  next
    case False
    then have "\<not> u > p_optimal (sol_params S)" by (simp add: word_less_def uw sol_params_def)
    with False run t w ok show ?thesis
      by (auto simp: calculateInterestRates_def bindR_Inr_iff rates_spec_def Let_def sol_params_def
          uw sol_strategy_ok_def below_contract_def split: prod.splits dest!: sol_uint getOverallBorrowRate_uint)
  qed
qed

section \<open>Where the code and the contract agree\<close>

lemma below_slope_zero: "0 \<le> u \<Longrightarrow> 0 < opt \<Longrightarrow> below_code u opt 0 = 0 \<and> below_contract u opt 0 = 0"
  by (simp add: below_code_def below_contract_def half_less div_spec_nonneg)

text \<open>Above the optimum, and with a zero first slope everywhere, the three rates are the same.\<close>

lemma rates_spec_agree:
  assumes "u > p_optimal P \<or> (p_vs1 P = 0 \<and> 0 \<le> u \<and> 0 < p_optimal P)"
  shows "rates_spec below_code P mkt u s v avg rf = rates_spec below_contract P mkt u s v avg rf"
  using assms below_slope_zero [of u "p_optimal P"] by (auto simp: rates_spec_def Let_def)

text \<open>
  Below the optimum each of the two orders is within half a unit of its own exact value at each
  step; together they differ by at most the rounding of two divisions and two multiplications.
\<close>

lemma below_difference:
  assumes "0 \<le> u" "0 < opt" "0 \<le> slope"
  shows "2 * (opt * RAY) * \<bar>below_code u opt slope - below_contract u opt slope\<bar>
    \<le> opt * slope + RAY * RAY + 2 * (opt * RAY)"
proof -
  define q where "q = ray_div u opt"
  define c where "c = ray_mul q slope"
  define m where "m = ray_mul u slope"
  define k where "k = ray_div m opt"
  have nn: "0 \<le> q" "0 \<le> m"
    using assms by (simp_all add: q_def m_def div_spec_ge0 mul_spec_ge0 constants_pos)
  have q: "\<bar>2 * (q * opt - u * RAY)\<bar> \<le> opt" unfolding q_def using assms by (intro ray_div_error)
  have c: "\<bar>2 * (c * RAY - q * slope)\<bar> \<le> RAY" unfolding c_def using assms nn by (intro ray_mul_error)
  have m: "\<bar>2 * (m * RAY - u * slope)\<bar> \<le> RAY" unfolding m_def using assms by (intro ray_mul_error)
  have k: "\<bar>2 * (k * opt - m * RAY)\<bar> \<le> opt" unfolding k_def using assms nn by (intro ray_div_error)
  have "2 * (opt * RAY) * (c - k) =
      opt * (2 * (c * RAY - q * slope)) + slope * (2 * (q * opt - u * RAY))
      - RAY * (2 * (k * opt - m * RAY)) - RAY * (2 * (m * RAY - u * slope))"
    by (simp add: algebra_simps)
  moreover have "\<bar>opt * (2 * (c * RAY - q * slope))\<bar> \<le> opt * RAY"
    using c assms by (simp add: abs_mult mult_left_mono)
  moreover have "\<bar>slope * (2 * (q * opt - u * RAY))\<bar> \<le> opt * slope"
    using mult_left_mono [OF q assms(3)] assms by (simp add: abs_mult mult.commute)
  moreover have "\<bar>RAY * (2 * (k * opt - m * RAY))\<bar> \<le> opt * RAY"
    using mult_left_mono [OF k, of RAY] by (simp add: abs_mult mult.commute)
  moreover have "\<bar>RAY * (2 * (m * RAY - u * slope))\<bar> \<le> RAY * RAY"
    using mult_left_mono [OF m, of RAY] by (simp add: abs_mult)
  ultimately have "\<bar>2 * (opt * RAY) * (c - k)\<bar> \<le> opt * slope + RAY * RAY + 2 * (opt * RAY)"
    by linarith
  then show ?thesis
    using assms by (simp add: abs_mult below_code_def below_contract_def q_def c_def m_def k_def)
qed

lemma below_difference_small:
  assumes "0 \<le> u" "RAY \<le> 4 * opt" "0 \<le> slope" "slope \<le> RAY"
  shows "\<bar>below_code u opt slope - below_contract u opt slope\<bar> \<le> 3"
proof -
  let ?d = "\<bar>below_code u opt slope - below_contract u opt slope\<bar>"
  have opt: "0 < opt" using assms constants_pos(5) by linarith
  have "opt * slope \<le> opt * RAY" using opt assms by (intro mult_left_mono) auto
  moreover have "RAY * RAY \<le> 4 * opt * RAY" using assms by (intro mult_right_mono) auto
  ultimately have "2 * (opt * RAY) * ?d \<le> 7 * (opt * RAY)"
    using below_difference [OF assms(1) opt assms(3)] by (simp add: mult.assoc)
  then have "opt * RAY * (2 * ?d) \<le> opt * RAY * 7" by (simp only: ac_simps)
  moreover have "0 < opt * RAY" using opt constants_pos by simp
  ultimately have "2 * ?d \<le> 7" by (simp only: mult_le_cancel_left_pos)
  moreover have "2 * x \<le> 7 \<Longrightarrow> x \<le> 3" for x :: int by simp
  ultimately show ?thesis by blast
qed

section \<open>Bounds of the rates\<close>

text \<open>With liquidity at least the debt, the utilization is a fraction of a ray.\<close>

lemma utilization_bounds:
  assumes "0 \<le> s" "0 \<le> v" "s + v \<le> l"
  shows "0 \<le> utilization_spec s v l \<and> utilization_spec s v l \<le> RAY"
proof (cases "s = 0 \<and> v = 0")
  case True
  then show ?thesis by (simp add: utilization_spec_def)
next
  case False
  then have l: "0 < l" using assms by linarith
  have "(s + v) * RAY + l div 2 < l * (RAY + 1)"
  proof -
    have "(s + v) * RAY \<le> l * RAY" using assms by (intro mult_right_mono) auto
    moreover have "l div 2 < l" using l by linarith
    ultimately show ?thesis by (simp add: distrib_left)
  qed
  then have "\<not> RAY + 1 \<le> ray_div (s + v) l"
    using l assms by (simp add: div_spec_nonneg le_div_iff_mult_le mult.commute)
  with False l assms show ?thesis by (simp add: utilization_spec_def div_spec_ge0)
qed

section \<open>The code against the contract\<close>

text \<open>
  C4: Where the strategy contract returns rates, and the utilization is above the optimum or the first
  variable slope is zero, \<open>calcExpectedInterestRates\<close> succeeds with the same three rates.
\<close>

theorem interest_rates_agree:
  assumes "bignumber_int B val"
    and "obj_get params symb = Some rc" "params_denote B val (strategy rc) (sol_params S)"
    and "denotes val (bn_parse B (reserveFactor rc)) (uint rf)"
    and "denotes val m (uint mkt)" "denotes val x (uint s)" "denotes val y (uint v)" "denotes val a (uint avg)"
    and "denotes val w u" "u = utilization_spec (uint s) (uint v) (uint avail + (uint s + uint v))"
    and "sol_strategy_ok S" "p_optimal (sol_params S) \<noteq> 0" "p_optimal (sol_params S) \<noteq> RAY"
    and "u > p_optimal (sol_params S) \<or> p_vs1 (sol_params S) = 0"
    and "calculateInterestRates S mkt avail s v avg rf = Inr (lr, sr, vr)"
  shows "\<exists>lr' sr' vr'. calcExpectedInterestRates B params (Some symb) m w x y a = Inr (lr', sr', vr')
    \<and> denotes val lr' (uint lr) \<and> denotes val sr' (uint sr) \<and> denotes val vr' (uint vr)"
proof -
  have opt: "0 < p_optimal (sol_params S)" using assms(12) by (simp add: sol_params_def less_le)
  have "uint s + uint v \<le> uint avail + (uint s + uint v)" by simp
  then have "0 \<le> u" unfolding assms(10) by (intro conjunct1 [OF utilization_bounds]) simp_all
  then have agree: "rates_spec below_code (sol_params S) (uint mkt) u (uint s) (uint v) (uint avg) (uint rf)
      = (uint lr, uint sr, uint vr)"
    using rates_spec_agree [of "sol_params S" u] opt assms(14)
      calculateInterestRates_uint [OF assms(11) assms(15)] assms(10) by auto
  obtain lr' sr' vr' where r: "calcExpectedInterestRates B params (Some symb) m w x y a = Inr (lr', sr', vr')"
    "denotes val lr' (fst (rates_spec below_code (sol_params S) (uint mkt) u (uint s) (uint v) (uint avg) (uint rf)))"
    "denotes val sr' (fst (snd (rates_spec below_code (sol_params S) (uint mkt) u (uint s) (uint v) (uint avg) (uint rf))))"
    "denotes val vr' (snd (snd (rates_spec below_code (sol_params S) (uint mkt) u (uint s) (uint v) (uint avg) (uint rf))))"
    using bignumber_int.denotes_interest_rates [OF assms(1) assms(2) assms(3) assms(4) assms(5) assms(9)
        assms(6) assms(7) assms(8) assms(12) assms(13)] .
  then show ?thesis unfolding agree by auto
qed

text \<open>The stable-coin strategy both markets configure, and the contract deployed with it.\<close>

definition sample_strategy :: IInterestRateStrategyParams where
  "sample_strategy = \<lparr>strategy_name = ''rateStrategyStableTwo'', optimalUtilizationRate = dec (9 * 10 ^ 26),
     baseVariableBorrowRate = dec 0, variableRateSlope1 = dec 0, variableRateSlope2 = dec (2 * 10 ^ 26),
     stableRateSlope1 = dec 0, stableRateSlope2 = dec 0, capacity = dec 0\<rparr>"

definition sample_reserve :: IReserveParams where
  "sample_reserve = \<lparr>borrowingEnabled = True, stableBorrowRateEnabled = False, reserveDecimals = ''18'',
     baseLTVAsCollateral = ''0'', liquidationThreshold = ''0'', liquidationBonus = ''0'',
     collateralEnabled = False, aTokenImpl = ''AToken'', reserveFactor = dec 1000,
     emissionPerSecond = ''10'', strategy = sample_strategy\<rparr>"

definition sample_params :: "IReserveParams obj" where
  "sample_params = [(''DAI'', sample_reserve)]"

definition sample_contract :: sol_strategy where
  "sample_contract = \<lparr>OPTIMAL_UTILIZATION_RATE = 9 * 10 ^ 26, EXCESS_UTILIZATION_RATE = 10 ^ 26,
     sol_baseVariableBorrowRate = 0, sol_variableRateSlope1 = 0, sol_variableRateSlope2 = 2 * 10 ^ 26,
     sol_stableRateSlope1 = 0, sol_stableRateSlope2 = 0\<rparr>"

lemma sample_contract_runs: "\<exists>r. calculateInterestRates sample_contract 0 40 100 860 (3 * 10 ^ 25) 1000 = Inr r"
  by (simp add: calculateInterestRates_def getOverallBorrowRate_def sample_contract_def sol_sub_def sol_mul_def
      sol_add_def sol_rayMul_def sol_rayDiv_def sol_wadToRay_def sol_percentMul_def sol_PERCENTAGE_FACTOR_def
      require_def sol_RAY_def sol_RATIO_def Let_def)

lemma sample_params_denote: "params_denote scenario_bn id sample_strategy (sol_params sample_contract)"
  using scenario.denotes_parse [of "9 * 10 ^ 26"] scenario.denotes_parse [of "2 * 10 ^ 26"]
    scenario.denotes_parse [of 0]
  by (simp add: params_denote_def sample_strategy_def sol_params_def sample_contract_def)

theorem interest_rates_agree_witness:
  "\<exists>lr sr vr lr' sr' vr'. calculateInterestRates sample_contract 0 40 100 860 (3 * 10 ^ 25) 1000 = Inr (lr, sr, vr)
    \<and> calcExpectedInterestRates scenario_bn sample_params (Some ''DAI'') (Some 0) (Some (96 * 10 ^ 25))
        (Some 100) (Some 860) (Some (3 * 10 ^ 25)) = Inr (lr', sr', vr')
    \<and> denotes id lr' (uint lr) \<and> denotes id sr' (uint sr) \<and> denotes id vr' (uint vr)"
proof -
  obtain lr sr vr where run: "calculateInterestRates sample_contract 0 40 100 860 (3 * 10 ^ 25) 1000 = Inr (lr, sr, vr)"
    using sample_contract_runs by auto
  have u: "(96 * 10 ^ 25 :: int) = utilization_spec (uint (100 :: uint256)) (uint (860 :: uint256))
      (uint (40 :: uint256) + (uint (100 :: uint256) + uint (860 :: uint256)))"
    by (simp add: utilization_spec_def div_spec_nonneg RAY_def)
  have "\<exists>lr' sr' vr'. calcExpectedInterestRates scenario_bn sample_params (Some ''DAI'') (Some 0)
      (Some (96 * 10 ^ 25)) (Some 100) (Some 860) (Some (3 * 10 ^ 25)) = Inr (lr', sr', vr')
    \<and> denotes id lr' (uint lr) \<and> denotes id sr' (uint sr) \<and> denotes id vr' (uint vr)"
    by (rule interest_rates_agree [where rc = sample_reserve, OF scenario_bignumber_int _ _ _ _ _ _ _ _ u _ _ _ _ run])
      (use sample_params_denote scenario.denotes_parse [of 1000] in
        \<open>simp_all add: sample_params_def sample_reserve_def obj_get_def denotes_def sol_strategy_ok_def sol_params_def
          sample_contract_def RAY_def\<close>)
  with run show ?thesis by blast
qed

text \<open>
  C13: Below the optimum the two programs round in a different order. The stable rate still agrees
  exactly and the variable rate is within three units (of 1e-27) of the contract's, for an optimum of
  at least a quarter and a first slope of at most a ray.
\<close>

theorem interest_rates_close:
  assumes "bignumber_int B val"
    and "obj_get params symb = Some rc" "params_denote B val (strategy rc) (sol_params S)"
    and "denotes val (bn_parse B (reserveFactor rc)) (uint rf)"
    and "denotes val m (uint mkt)" "denotes val x (uint s)" "denotes val y (uint v)" "denotes val a (uint avg)"
    and "denotes val w u" "u = utilization_spec (uint s) (uint v) (uint avail + (uint s + uint v))"
    and "sol_strategy_ok S" "RAY \<le> 4 * p_optimal (sol_params S)" "p_optimal (sol_params S) < RAY"
    and "p_vs1 (sol_params S) \<le> RAY"
    and "calculateInterestRates S mkt avail s v avg rf = Inr (lr, sr, vr)"
  shows "\<exists>lr' sr' vr' vi. calcExpectedInterestRates B params (Some symb) m w x y a = Inr (lr', sr', vr')
    \<and> denotes val sr' (uint sr) \<and> denotes val vr' vi \<and> \<bar>vi - uint vr\<bar> \<le> 3"
proof -
  let ?spec = "\<lambda>below. rates_spec below (sol_params S) (uint mkt) u (uint s) (uint v) (uint avg) (uint rf)"
  have opt: "p_optimal (sol_params S) \<noteq> 0" "p_optimal (sol_params S) \<noteq> RAY"
    using assms(12,13) constants_pos by auto
  have "uint s + uint v \<le> uint avail + (uint s + uint v)" by simp
  then have u: "0 \<le> u" unfolding assms(10) by (intro conjunct1 [OF utilization_bounds]) simp_all
  have contract: "(uint lr, uint sr, uint vr) = ?spec below_contract"
    using calculateInterestRates_uint [OF assms(11,15)] assms(10) by simp
  have vs1: "0 \<le> p_vs1 (sol_params S)" by (simp add: sol_params_def)
  obtain lr' sr' vr' where r: "calcExpectedInterestRates B params (Some symb) m w x y a = Inr (lr', sr', vr')"
    "denotes val lr' (fst (?spec below_code))" "denotes val sr' (fst (snd (?spec below_code)))"
    "denotes val vr' (snd (snd (?spec below_code)))"
    using bignumber_int.denotes_interest_rates [OF assms(1,2,3,4,5,9,6,7,8) opt] .
  have sr: "fst (snd (?spec below_code)) = uint sr"
    using arg_cong [OF contract, of "\<lambda>p. fst (snd p)"] by (simp add: rates_spec_def Let_def)
  have vr: "\<bar>snd (snd (?spec below_code)) - uint vr\<bar> \<le> 3"
    using arg_cong [OF contract, of "\<lambda>p. snd (snd p)"] below_difference_small [OF u assms(12) vs1 assms(14)]
    by (simp add: rates_spec_def Let_def)
  show ?thesis using r(1,3,4) sr vr by metis
qed

definition sloped_contract :: sol_strategy where
  "sloped_contract = sample_contract\<lparr>sol_variableRateSlope1 := 4 * 10 ^ 25\<rparr>"

definition sloped_reserve :: IReserveParams where
  "sloped_reserve = sample_reserve\<lparr>strategy := sample_strategy\<lparr>variableRateSlope1 := dec (4 * 10 ^ 25)\<rparr>\<rparr>"

definition sloped_params :: "IReserveParams obj" where
  "sloped_params = [(''DAI'', sloped_reserve)]"

lemma sloped_params_denote:
  "params_denote scenario_bn id (strategy sloped_reserve) (sol_params sloped_contract)"
  "denotes id (bn_parse scenario_bn (reserveFactor sloped_reserve)) 1000"
  using scenario.denotes_parse [of "9 * 10 ^ 26"] scenario.denotes_parse [of "2 * 10 ^ 26"]
    scenario.denotes_parse [of "4 * 10 ^ 25"] scenario.denotes_parse [of 0] scenario.denotes_parse [of 1000]
  by (simp_all add: params_denote_def sample_strategy_def sol_params_def sloped_contract_def
      sample_contract_def sloped_reserve_def sample_reserve_def)

lemma sloped_contract_runs: "calculateInterestRates sloped_contract 0 (10 ^ 27 - 12) 0 12 0 1000 = Inr (0, 0, 0)"
  by (simp add: calculateInterestRates_def getOverallBorrowRate_def sloped_contract_def sample_contract_def
      sol_sub_def sol_mul_def sol_add_def sol_rayMul_def sol_rayDiv_def sol_wadToRay_def sol_percentMul_def
      sol_PERCENTAGE_FACTOR_def require_def sol_RAY_def sol_RATIO_def Let_def)

theorem interest_rates_close_witness:
  "\<exists>lr' sr' vr' vi. calcExpectedInterestRates scenario_bn sloped_params (Some ''DAI'') (Some 0) (Some 12)
        (Some 0) (Some 12) (Some 0) = Inr (lr', sr', vr')
    \<and> denotes id sr' (uint (0 :: uint256)) \<and> denotes id vr' vi \<and> \<bar>vi - uint (0 :: uint256)\<bar> \<le> 3"
proof (rule interest_rates_close [where rc = sloped_reserve,
      OF scenario_bignumber_int _ sloped_params_denote(1) _ _ _ _ _ _ _ _ _ _ _ sloped_contract_runs])
  show "denotes id (bn_parse scenario_bn (reserveFactor sloped_reserve)) (uint (1000 :: uint256))"
    using sloped_params_denote by simp
  show "(12 :: int) = utilization_spec (uint (0 :: uint256)) (uint (12 :: uint256))
     (uint (10 ^ 27 - 12 :: uint256) + (uint (0 :: uint256) + uint (12 :: uint256)))"
    by (simp add: utilization_spec_def div_spec_nonneg RAY_def)
qed (simp_all add: sloped_params_def obj_get_def denotes_def sol_strategy_ok_def sol_params_def sloped_contract_def
    sample_contract_def RAY_def)


text \<open>
  The utilization rate is a fraction between 0 and one ray whenever the liquidity covers the debts.
\<close>

theorem utilization_in_range:
  assumes "bignumber_int B val" "denotes val x s" "denotes val y v" "denotes val z l"
    and "0 \<le> s" "0 \<le> v" "s + v \<le> l" "0 < l"
  shows "\<exists>u. denotes val (calcExpectedUtilizationRate B x y z) u \<and> 0 \<le> u \<and> u \<le> RAY"
proof -
  have "l \<noteq> 0" using assms by simp
  then show ?thesis
    using bignumber_int.denotes_utilization [OF assms(1-4)] utilization_bounds [OF assms(5-7)] by blast
qed

theorem utilization_in_range_witness:
  "\<exists>u. denotes id (calcExpectedUtilizationRate scenario_bn (Some 3) (Some 4) (Some 10)) u \<and> 0 \<le> u \<and> u \<le> RAY"
  by (rule utilization_in_range [OF scenario_bignumber_int, of _ 3 _ 4 _ 10]) (simp_all add: denotes_def)

text \<open>
  The rates fail in exactly one case, a reserve symbol that is \<open>undefined\<close> or has no entry in the
  configured reserves, and then with a \<open>TypeError\<close>; every library of numbers gives a triple otherwise.
\<close>

theorem interest_rates_fail_iff:
  "(calcExpectedInterestRates B params symb m w x y a = Inl TypeError
      \<longleftrightarrow> (case symb of None \<Rightarrow> True | Some s \<Rightarrow> obj_get params s = None))
   \<and> (\<forall>e. calcExpectedInterestRates B params symb m w x y a = Inl e \<longrightarrow> e = TypeError)"
proof (cases "configured params symb")
  case True
  then obtain r where "calcExpectedInterestRates B params symb m w x y a = Inr r"
    using interest_rates_run [OF True, of B m w x y a] by blast
  with True show ?thesis by (auto simp: configured_def split: option.splits)
next
  case False
  then show ?thesis using interest_rates_fail [OF False, of B m w x y a] by (auto simp: configured_def split: option.splits)
qed

theorem interest_rates_fail_iff_witness:
  "calcExpectedInterestRates scenario_bn sample_params (Some ''WBTC'') (Some 0) (Some 0) (Some 0) (Some 0) (Some 0)
    = Inl TypeError"
  using interest_rates_fail_iff [of scenario_bn sample_params "Some ''WBTC''"]
  by (simp add: sample_params_def obj_get_def)

end
