(* ===== verification/Accrual.thy ===== *)
theory Accrual
  imports Rates
begin

text \<open>
  The data of a reserve and of a user's position (\<^verbatim>\<open>utils/interfaces/index.ts\<close>) and the helpers of
  \<^verbatim>\<open>calculations.ts\<close> that accrue them to a timestamp: indexes, normalized income and debt, token
  balances and average rates. They are compared with \<^verbatim>\<open>ReserveLogic.sol\<close>, whose
  \<open>getNormalizedIncome\<close>, \<open>getNormalizedDebt\<close> and \<open>_updateIndexes\<close> are modelled on words.
\<close>

section \<open>Data\<close>

text \<open>
  A field never assigned is \<open>undefined\<close>: \<open>None\<close> for a string, \<open>bn_undef\<close> for a number. The last
  two fields of a user are keys the interface admits through its index signature.
\<close>

record 'b ReserveData =
  r_address :: "string option"
  r_symbol :: "string option"
  r_decimals :: 'b
  r_totalLiquidity :: 'b
  r_availableLiquidity :: 'b
  r_totalStableDebt :: 'b
  r_totalVariableDebt :: 'b
  r_principalStableDebt :: 'b
  r_scaledVariableDebt :: 'b
  r_averageStableBorrowRate :: 'b
  r_variableBorrowRate :: 'b
  r_stableBorrowRate :: 'b
  r_utilizationRate :: 'b
  r_liquidityIndex :: 'b
  r_variableBorrowIndex :: 'b
  r_aTokenAddress :: "string option"
  r_marketStableRate :: 'b
  r_lastUpdateTimestamp :: 'b
  r_totalStableDebtLastUpdated :: 'b
  r_liquidityRate :: 'b

record 'b UserReserveData =
  u_scaledATokenBalance :: 'b
  u_currentATokenBalance :: 'b
  u_currentStableDebt :: 'b
  u_currentVariableDebt :: 'b
  u_principalStableDebt :: 'b
  u_scaledVariableDebt :: 'b
  u_liquidityRate :: 'b
  u_stableBorrowRate :: 'b
  u_stableRateLastUpdated :: 'b
  u_usageAsCollateralEnabled :: bool
  u_walletBalance :: 'b
  u_variableBorrowIndex :: 'b
  u_principalVariableDebt :: 'b

section \<open>Token balances and indexes\<close>

definition calcExpectedScaledATokenBalance :: "'b bn_api \<Rightarrow> 'b UserReserveData \<Rightarrow> 'b \<Rightarrow> 'b \<Rightarrow> 'b \<Rightarrow> 'b" where
  "calcExpectedScaledATokenBalance B userDataBeforeAction index amountAdded amountTaken =
     bn_minus B
       (bn_plus B (u_scaledATokenBalance userDataBeforeAction) (rayDiv B amountAdded index))
       (rayDiv B amountTaken index)"

definition calcExpectedReserveNormalizedIncome :: "'b bn_api \<Rightarrow> 'b ReserveData \<Rightarrow> 'b \<Rightarrow> 'b" where
  "calcExpectedReserveNormalizedIncome B reserveData currentTimestamp =
     (if bn_eq B (r_liquidityRate reserveData) (bn_of B 0) then r_liquidityIndex reserveData
      else
        let cumulatedInterest =
              calcLinearInterest B (r_liquidityRate reserveData) currentTimestamp
                (r_lastUpdateTimestamp reserveData);
            income = rayMul B cumulatedInterest (r_liquidityIndex reserveData)
        in income)"

definition calcExpectedATokenBalance :: "'b bn_api \<Rightarrow> 'b ReserveData \<Rightarrow> 'b UserReserveData \<Rightarrow> 'b \<Rightarrow> 'b" where
  "calcExpectedATokenBalance B reserveData userData currentTimestamp =
     (let index = calcExpectedReserveNormalizedIncome B reserveData currentTimestamp;
          scaledBalanceBeforeAction = u_scaledATokenBalance userData
      in rayMul B scaledBalanceBeforeAction index)"

definition calcExpectedAverageStableBorrowRate :: "'b bn_api \<Rightarrow> 'b \<Rightarrow> 'b \<Rightarrow> 'b \<Rightarrow> 'b \<Rightarrow> 'b" where
  "calcExpectedAverageStableBorrowRate B avgStableRateBefore totalStableDebtBefore amountChanged rate =
     (let weightedTotalBorrows = bn_times B avgStableRateBefore totalStableDebtBefore;
          weightedAmountBorrowed = bn_times B rate amountChanged;
          totalBorrowedStable = bn_plus B totalStableDebtBefore amountChanged
      in if bn_eq B totalBorrowedStable (bn_of B 0) then bn_of B 0
         else bn_dp0 B (bn_div B (bn_plus B weightedTotalBorrows weightedAmountBorrowed) totalBorrowedStable))"

definition calcExpectedAverageStableBorrowRateRebalance :: "'b bn_api \<Rightarrow> 'b \<Rightarrow> 'b \<Rightarrow> 'b \<Rightarrow> 'b \<Rightarrow> 'b" where
  "calcExpectedAverageStableBorrowRateRebalance B avgStableRateBefore totalStableDebtBefore amountChanged rate =
     (let weightedTotalBorrows = rayMul B avgStableRateBefore totalStableDebtBefore;
          weightedAmountBorrowed = rayMul B rate (wadToRay B amountChanged);
          totalBorrowedStable = bn_plus B totalStableDebtBefore (wadToRay B amountChanged)
      in if bn_eq B totalBorrowedStable (bn_of B 0) then bn_of B 0
         else bn_dp0 B (rayDiv B (bn_plus B weightedTotalBorrows weightedAmountBorrowed) totalBorrowedStable))"

definition calcExpectedReserveNormalizedDebt :: "'b bn_api \<Rightarrow> 'b \<Rightarrow> 'b \<Rightarrow> 'b \<Rightarrow> 'b \<Rightarrow> 'b" where
  "calcExpectedReserveNormalizedDebt B borrowRate borrowIndex lastUpdateTimestamp currentTimestamp =
     (if bn_eq B borrowRate (bn_of B 0) then borrowIndex
      else
        let cumulatedInterest = calcCompoundedInterest B borrowRate currentTimestamp lastUpdateTimestamp;
            debt = rayMul B cumulatedInterest borrowIndex
        in debt)"

definition calcExpectedVariableDebtTokenBalance :: "'b bn_api \<Rightarrow> 'b ReserveData \<Rightarrow> 'b UserReserveData \<Rightarrow> 'b \<Rightarrow> 'b" where
  "calcExpectedVariableDebtTokenBalance B reserveData userData currentTimestamp =
     (let normalizedDebt =
            calcExpectedReserveNormalizedDebt B (r_variableBorrowRate reserveData)
              (r_variableBorrowIndex reserveData) (r_lastUpdateTimestamp reserveData) currentTimestamp
      in rayMul B (u_scaledVariableDebt userData) normalizedDebt)"

definition calcExpectedStableDebtTokenBalance :: "'b bn_api \<Rightarrow> 'b \<Rightarrow> 'b \<Rightarrow> 'b \<Rightarrow> 'b \<Rightarrow> 'b" where
  "calcExpectedStableDebtTokenBalance B principalDebt rate rateLastUpdated currentTimestamp =
     (if bn_eq B rate (bn_of B 0) \<or> bn_eq B currentTimestamp rateLastUpdated
         \<or> bn_eq B rateLastUpdated (bn_of B 0)
      then principalDebt
      else
        let cumulatedInterest = calcCompoundedInterest B rate currentTimestamp rateLastUpdated
        in rayMul B principalDebt cumulatedInterest)"

definition calcExpectedUserStableRate :: "'b bn_api \<Rightarrow> 'b \<Rightarrow> 'b \<Rightarrow> 'b \<Rightarrow> 'b \<Rightarrow> 'b" where
  "calcExpectedUserStableRate B balanceBefore rateBefore amount rateNew =
     bn_div B (bn_plus B (bn_times B balanceBefore rateBefore) (bn_times B amount rateNew))
       (bn_plus B balanceBefore amount)"

definition calcExpectedLiquidityIndex :: "'b bn_api \<Rightarrow> 'b ReserveData \<Rightarrow> 'b \<Rightarrow> 'b" where
  "calcExpectedLiquidityIndex B reserveData timestamp =
     (if bn_eq B (r_utilizationRate reserveData) (bn_of B 0) then r_liquidityIndex reserveData
      else
        let cumulatedInterest =
              calcLinearInterest B (r_liquidityRate reserveData) timestamp (r_lastUpdateTimestamp reserveData)
        in rayMul B cumulatedInterest (r_liquidityIndex reserveData))"

definition calcExpectedVariableBorrowIndex :: "'b bn_api \<Rightarrow> 'b ReserveData \<Rightarrow> 'b \<Rightarrow> 'b" where
  "calcExpectedVariableBorrowIndex B reserveData timestamp =
     (if bn_eq B (r_totalVariableDebt reserveData) (bn_of B 0) then r_variableBorrowIndex reserveData
      else
        let cumulatedInterest =
              calcCompoundedInterest B (r_variableBorrowRate reserveData) timestamp
                (r_lastUpdateTimestamp reserveData)
        in rayMul B cumulatedInterest (r_variableBorrowIndex reserveData))"

definition calcExpectedTotalStableDebt :: "'b bn_api \<Rightarrow> 'b \<Rightarrow> 'b \<Rightarrow> 'b \<Rightarrow> 'b \<Rightarrow> 'b" where
  "calcExpectedTotalStableDebt B principalDebt averageRate lastUpdateTimestamp currentTimestamp =
     (let cumulatedInterest = calcCompoundedInterest B averageRate currentTimestamp lastUpdateTimestamp
      in rayMul B cumulatedInterest principalDebt)"

definition calcExpectedTotalVariableDebt :: "'b bn_api \<Rightarrow> 'b ReserveData \<Rightarrow> 'b \<Rightarrow> 'b" where
  "calcExpectedTotalVariableDebt B reserveData expectedVariableDebtIndex =
     rayMul B (r_scaledVariableDebt reserveData) expectedVariableDebtIndex"

section \<open>The contract's indexes\<close>

text \<open>The fields of \<open>DataTypes.ReserveData\<close> that accrue, at their widths.\<close>

record sol_reserve =
  s_liquidityIndex :: "128 word"
  s_variableBorrowIndex :: "128 word"
  s_currentLiquidityRate :: "128 word"
  s_currentVariableBorrowRate :: "128 word"
  s_lastUpdateTimestamp :: uint40

definition getNormalizedIncome :: "uint256 \<Rightarrow> sol_reserve \<Rightarrow> uint256 result" where
  "getNormalizedIncome now reserve =
     (let timestamp = s_lastUpdateTimestamp reserve
      in if timestamp = ucast now then Inr (ucast (s_liquidityIndex reserve))
         else bindR (calculateLinearInterest now (ucast (s_currentLiquidityRate reserve)) timestamp)
                (\<lambda>f. sol_rayMul f (ucast (s_liquidityIndex reserve))))"

definition getNormalizedDebt :: "uint256 \<Rightarrow> sol_reserve \<Rightarrow> uint256 result" where
  "getNormalizedDebt now reserve =
     (let timestamp = s_lastUpdateTimestamp reserve
      in if timestamp = ucast now then Inr (ucast (s_variableBorrowIndex reserve))
         else bindR (calculateCompoundedInterest (ucast (s_currentVariableBorrowRate reserve)) timestamp now)
                (\<lambda>f. sol_rayMul f (ucast (s_variableBorrowIndex reserve))))"

definition updateIndexes ::
    "uint256 \<Rightarrow> sol_reserve \<Rightarrow> uint256 \<Rightarrow> uint256 \<Rightarrow> uint256 \<Rightarrow> uint40 \<Rightarrow> (sol_reserve \<times> uint256 \<times> uint256) result" where
  "updateIndexes now reserve scaledVariableDebt lIndex vIndex timestamp =
     (let currentLiquidityRate = (ucast (s_currentLiquidityRate reserve) :: uint256)
      in bindR
        (if currentLiquidityRate > 0 then
           bindR (calculateLinearInterest now currentLiquidityRate timestamp) (\<lambda>cumulatedLiquidityInterest.
           bindR (sol_rayMul cumulatedLiquidityInterest lIndex) (\<lambda>newLiquidityIndex.
           require (newLiquidityIndex \<le> 2 ^ 128 - 1) ''51''
             (let reserve1 = reserve\<lparr>s_liquidityIndex := ucast newLiquidityIndex\<rparr>
              in if scaledVariableDebt \<noteq> 0 then
                   bindR (calculateCompoundedInterest (ucast (s_currentVariableBorrowRate reserve1)) timestamp now)
                     (\<lambda>cumulatedVariableBorrowInterest.
                   bindR (sol_rayMul cumulatedVariableBorrowInterest vIndex) (\<lambda>newVariableBorrowIndex.
                   require (newVariableBorrowIndex \<le> 2 ^ 128 - 1) ''52''
                     (Inr (reserve1\<lparr>s_variableBorrowIndex := ucast newVariableBorrowIndex\<rparr>,
                           newLiquidityIndex, newVariableBorrowIndex))))
                 else Inr (reserve1, newLiquidityIndex, vIndex))))
         else Inr (reserve, lIndex, vIndex))
        (\<lambda>(reserve2, newLiquidityIndex, newVariableBorrowIndex).
           Inr (reserve2\<lparr>s_lastUpdateTimestamp := ucast now\<rparr>, newLiquidityIndex, newVariableBorrowIndex)))"

section \<open>What both compute on integers\<close>

definition scaled_balance_spec :: "int \<Rightarrow> int \<Rightarrow> int \<Rightarrow> int \<Rightarrow> int" where
  "scaled_balance_spec scaled index added taken = scaled + ray_div added index - ray_div taken index"

definition income_spec :: "int \<Rightarrow> int \<Rightarrow> int \<Rightarrow> int" where
  "income_spec rate index dt = (if rate = 0 then index else ray_mul (linear_factor rate dt) index)"

definition debt_spec :: "int \<Rightarrow> int \<Rightarrow> int \<Rightarrow> int" where
  "debt_spec rate index dt = (if rate = 0 then index else ray_mul (compound_factor rate dt) index)"

definition average_rate_spec :: "int \<Rightarrow> int \<Rightarrow> int \<Rightarrow> int \<Rightarrow> int" where
  "average_rate_spec avg tot amount rate =
     (if tot + amount = 0 then 0 else (avg * tot + rate * amount) sdiv (tot + amount))"

text \<open>With a zero rate the factor is a ray, so the branch of the two specifications is no special case.\<close>

lemma compound_factor_rate0 [simp]: "compound_factor 0 dt = RAY"
  by (simp add: compound_factor_def Let_def constants_pos half_less)

lemma income_spec_eq: "0 \<le> index \<Longrightarrow> income_spec rate index dt = ray_mul (linear_factor rate dt) index"
  by (simp add: income_spec_def ray_mul_RAY)

lemma debt_spec_eq: "0 \<le> index \<Longrightarrow> debt_spec rate index dt = ray_mul (compound_factor rate dt) index"
  by (simp add: debt_spec_def ray_mul_RAY)

lemma income_spec_now [simp]: "0 \<le> index \<Longrightarrow> income_spec rate index 0 = index"
  by (simp add: income_spec_eq ray_mul_RAY)

lemma debt_spec_now [simp]: "0 \<le> index \<Longrightarrow> debt_spec rate index 0 = index"
  by (simp add: debt_spec_eq ray_mul_RAY)

lemma income_spec_ge: "0 \<le> rate \<Longrightarrow> 0 \<le> dt \<Longrightarrow> 0 \<le> index \<Longrightarrow> index \<le> income_spec rate index dt"
  by (simp add: income_spec_eq ray_mul_ge' linear_factor_ge_RAY)

lemma debt_spec_ge: "0 \<le> rate \<Longrightarrow> 0 \<le> dt \<Longrightarrow> 0 \<le> index \<Longrightarrow> index \<le> debt_spec rate index dt"
  by (simp add: debt_spec_eq ray_mul_ge' compound_factor_ge_RAY)

lemma income_spec_mono:
  assumes "0 \<le> rate" "0 \<le> dt" "dt \<le> dt'" "0 \<le> index"
  shows "income_spec rate index dt \<le> income_spec rate index dt'"
  using assms linear_factor_mono [of rate rate dt dt'] linear_factor_ge_RAY [of rate dt]
  by (auto simp: income_spec_eq constants_pos intro!: mul_spec_mono intro: order_trans [OF constants_nonneg(5)])

lemma debt_spec_mono:
  assumes "0 \<le> rate" "0 \<le> dt" "dt \<le> dt'" "0 \<le> index"
  shows "debt_spec rate index dt \<le> debt_spec rate index dt'"
  using assms compound_factor_mono [of rate rate dt dt'] compound_factor_ge_RAY [of rate dt]
  by (auto simp: debt_spec_eq constants_pos intro!: mul_spec_mono intro: order_trans [OF constants_nonneg(5)])

context bignumber_int
begin

lemma denotes_scaled_balance:
  "denotes val (u_scaledATokenBalance u) s \<Longrightarrow> denotes val x m \<Longrightarrow> denotes val y n \<Longrightarrow> denotes val i k \<Longrightarrow>
   k \<noteq> 0 \<Longrightarrow> denotes val (calcExpectedScaledATokenBalance B u i x y) (scaled_balance_spec s k m n)"
  unfolding calcExpectedScaledATokenBalance_def scaled_balance_spec_def
  by (intro denotes_rules denotes_math)

lemma denotes_income:
  assumes "denotes val (r_liquidityRate d) rate" "denotes val (r_liquidityIndex d) index"
    "denotes val (r_lastUpdateTimestamp d) t0" "denotes val t now"
  shows "denotes val (calcExpectedReserveNormalizedIncome B d t) (income_spec rate index (now - t0))"
  unfolding calcExpectedReserveNormalizedIncome_def income_spec_def Let_def
    eq_iff [OF assms(1) denotes_of]
  by (intro denotes_if denotes_rules denotes_math denotes_linear assms)

lemma denotes_debt:
  assumes "denotes val r rate" "denotes val i index" "denotes val u t0" "denotes val t now"
  shows "denotes val (calcExpectedReserveNormalizedDebt B r i u t) (debt_spec rate index (now - t0))"
  unfolding calcExpectedReserveNormalizedDebt_def debt_spec_def Let_def eq_iff [OF assms(1) denotes_of]
  by (intro denotes_if denotes_rules denotes_math denotes_compound assms)

lemma denotes_average_rate:
  assumes "denotes val a avg" "denotes val x tot" "denotes val y amount" "denotes val r rate"
  shows "denotes val (calcExpectedAverageStableBorrowRate B a x y r) (average_rate_spec avg tot amount rate)"
proof -
  have z: "bn_eq B (bn_plus B x y) (bn_of B 0) \<longleftrightarrow> tot + amount = 0"
    using assms by (intro eq_iff denotes_rules)
  show ?thesis
    unfolding calcExpectedAverageStableBorrowRate_def average_rate_spec_def Let_def z
    by (intro denotes_if denotes_rules assms)
qed

end

section \<open>The contract computes its specification\<close>

lemma uint_ucast_128 [simp]: "uint (ucast (w :: 128 word) :: uint256) = uint w"
  using uint_bounded [of w] by (simp add: unsigned_ucast_eq take_bit_int_eq_self_iff)

text \<open>
  The timestamp is stored in 40 bits; until the year 36812 that loses nothing, and the hypothesis
  \<open>now < 2 ^ 40\<close> says so.
\<close>

lemma ucast_timestamp_eq: "uint now < 2 ^ 40 \<Longrightarrow> t = (ucast (now :: uint256) :: uint40) \<longleftrightarrow> uint t = uint now"
  using uint_lt_0 [of now] by (simp add: word_uint_eq_iff unsigned_ucast_eq take_bit_int_eq_self)

lemma getNormalizedIncome_uint:
  assumes "getNormalizedIncome now s = Inr n" "uint now < 2 ^ 40"
  shows "uint n = income_spec (uint (s_currentLiquidityRate s)) (uint (s_liquidityIndex s))
      (uint now - uint (s_lastUpdateTimestamp s)) \<and> uint (s_lastUpdateTimestamp s) \<le> uint now"
  using assms
  by (auto simp: getNormalizedIncome_def Let_def ucast_timestamp_eq bindR_Inr_iff sol_rayMul_iff income_spec_eq ray_mul_RAY
      dest!: calculateLinearInterest_uint split: if_splits)

lemma getNormalizedDebt_uint:
  assumes "getNormalizedDebt now s = Inr n" "uint now < 2 ^ 40"
  shows "uint n = debt_spec (uint (s_currentVariableBorrowRate s)) (uint (s_variableBorrowIndex s))
      (uint now - uint (s_lastUpdateTimestamp s)) \<and> uint (s_lastUpdateTimestamp s) \<le> uint now"
  using assms
  by (auto simp: getNormalizedDebt_def Let_def ucast_timestamp_eq bindR_Inr_iff sol_rayMul_iff debt_spec_eq ray_mul_RAY
      dest!: calculateCompoundedInterest_uint split: if_splits)

lemma uint_ucast_to_128: "(w :: uint256) \<le> 2 ^ 128 - 1 \<Longrightarrow> uint (ucast w :: 128 word) = uint w"
  by (simp add: word_le_def unsigned_ucast_eq take_bit_int_eq_self_iff)

text \<open>
  The new indexes are the ones returned, and what the storage holds afterwards when the caller
  passed the stored indexes in, as \<open>updateState\<close> does.
\<close>

lemma updateIndexes_uint:
  assumes "updateIndexes now s scaled (ucast (s_liquidityIndex s)) (ucast (s_variableBorrowIndex s)) t0
      = Inr (s', li, vi)"
  defines "rate \<equiv> uint (s_currentLiquidityRate s)"
  shows "uint li = income_spec rate (uint (s_liquidityIndex s)) (uint now - uint t0)"
    and "uint vi = (if rate = 0 \<or> scaled = 0 then uint (s_variableBorrowIndex s)
      else debt_spec (uint (s_currentVariableBorrowRate s)) (uint (s_variableBorrowIndex s)) (uint now - uint t0))"
    and "uint (s_liquidityIndex s') = uint li" "uint (s_variableBorrowIndex s') = uint vi"
    and "s_lastUpdateTimestamp s' = ucast now"
    and "s_currentLiquidityRate s' = s_currentLiquidityRate s"
    and "s_currentVariableBorrowRate s' = s_currentVariableBorrowRate s"
proof -
  have pos: "0 < (ucast (s_currentLiquidityRate s) :: uint256) \<longleftrightarrow> rate \<noteq> 0"
    unfolding rate_def by (simp add: word_less_def less_le)
  note u = assms(1) [unfolded updateIndexes_def Let_def pos]
  show "uint li = income_spec rate (uint (s_liquidityIndex s)) (uint now - uint t0)"
    using u by (cases "rate = 0")
      (auto simp: bindR_Inr_iff sol_rayMul_iff income_spec_def rate_def dest!: calculateLinearInterest_uint
        split: if_splits)
  show "uint vi = (if rate = 0 \<or> scaled = 0 then uint (s_variableBorrowIndex s)
      else debt_spec (uint (s_currentVariableBorrowRate s)) (uint (s_variableBorrowIndex s)) (uint now - uint t0))"
    using u by (cases "rate = 0")
      (auto simp: bindR_Inr_iff sol_rayMul_iff debt_spec_eq dest!: calculateCompoundedInterest_uint
        split: if_splits)
  show "uint (s_liquidityIndex s') = uint li" "uint (s_variableBorrowIndex s') = uint vi"
    using u by (cases "rate = 0", auto simp: bindR_Inr_iff uint_ucast_to_128 split: if_splits)+
  show "s_lastUpdateTimestamp s' = ucast now" "s_currentLiquidityRate s' = s_currentLiquidityRate s"
    "s_currentVariableBorrowRate s' = s_currentVariableBorrowRate s"
    using u by (cases "rate = 0", auto simp: bindR_Inr_iff split: if_splits)+
qed

section \<open>The records and the integers they stand for\<close>

text \<open>
  The abstract state of a reserve or a user is the same record over the integers. A state whose
  numbers are all finite integers stands for one; what the functions compute from it is stated on
  the integers.
\<close>

definition reserve_denotes :: "('b \<Rightarrow> rat option) \<Rightarrow> 'b ReserveData \<Rightarrow> int ReserveData \<Rightarrow> bool" where
  "reserve_denotes val d R \<longleftrightarrow>
     denotes val (r_totalLiquidity d) (r_totalLiquidity R) \<and>
     denotes val (r_availableLiquidity d) (r_availableLiquidity R) \<and>
     denotes val (r_totalStableDebt d) (r_totalStableDebt R) \<and>
     denotes val (r_totalVariableDebt d) (r_totalVariableDebt R) \<and>
     denotes val (r_principalStableDebt d) (r_principalStableDebt R) \<and>
     denotes val (r_scaledVariableDebt d) (r_scaledVariableDebt R) \<and>
     denotes val (r_averageStableBorrowRate d) (r_averageStableBorrowRate R) \<and>
     denotes val (r_variableBorrowRate d) (r_variableBorrowRate R) \<and>
     denotes val (r_stableBorrowRate d) (r_stableBorrowRate R) \<and>
     denotes val (r_utilizationRate d) (r_utilizationRate R) \<and>
     denotes val (r_liquidityIndex d) (r_liquidityIndex R) \<and>
     denotes val (r_variableBorrowIndex d) (r_variableBorrowIndex R) \<and>
     denotes val (r_marketStableRate d) (r_marketStableRate R) \<and>
     denotes val (r_lastUpdateTimestamp d) (r_lastUpdateTimestamp R) \<and>
     denotes val (r_totalStableDebtLastUpdated d) (r_totalStableDebtLastUpdated R) \<and>
     denotes val (r_liquidityRate d) (r_liquidityRate R)"

definition user_denotes :: "('b \<Rightarrow> rat option) \<Rightarrow> 'b UserReserveData \<Rightarrow> int UserReserveData \<Rightarrow> bool" where
  "user_denotes val u U \<longleftrightarrow>
     denotes val (u_scaledATokenBalance u) (u_scaledATokenBalance U) \<and>
     denotes val (u_currentATokenBalance u) (u_currentATokenBalance U) \<and>
     denotes val (u_currentStableDebt u) (u_currentStableDebt U) \<and>
     denotes val (u_principalStableDebt u) (u_principalStableDebt U) \<and>
     denotes val (u_scaledVariableDebt u) (u_scaledVariableDebt U) \<and>
     denotes val (u_stableBorrowRate u) (u_stableBorrowRate U) \<and>
     denotes val (u_stableRateLastUpdated u) (u_stableRateLastUpdated U) \<and>
     denotes val (u_walletBalance u) (u_walletBalance U) \<and>
     u_usageAsCollateralEnabled u = u_usageAsCollateralEnabled U"

lemmas reserve_denotesD = reserve_denotes_def [THEN iffD1]
lemmas user_denotesD = user_denotes_def [THEN iffD1]

definition income_at :: "int ReserveData \<Rightarrow> int \<Rightarrow> int" where
  "income_at R now = income_spec (r_liquidityRate R) (r_liquidityIndex R) (now - r_lastUpdateTimestamp R)"

definition debt_at :: "int ReserveData \<Rightarrow> int \<Rightarrow> int" where
  "debt_at R now = debt_spec (r_variableBorrowRate R) (r_variableBorrowIndex R) (now - r_lastUpdateTimestamp R)"

definition liquidity_index_at :: "int ReserveData \<Rightarrow> int \<Rightarrow> int" where
  "liquidity_index_at R now =
     (if r_utilizationRate R = 0 then r_liquidityIndex R
      else ray_mul (linear_factor (r_liquidityRate R) (now - r_lastUpdateTimestamp R)) (r_liquidityIndex R))"

definition variable_index_at :: "int ReserveData \<Rightarrow> int \<Rightarrow> int" where
  "variable_index_at R now =
     (if r_totalVariableDebt R = 0 then r_variableBorrowIndex R
      else ray_mul (compound_factor (r_variableBorrowRate R) (now - r_lastUpdateTimestamp R))
             (r_variableBorrowIndex R))"

definition stable_balance_spec :: "int \<Rightarrow> int \<Rightarrow> int \<Rightarrow> int \<Rightarrow> int" where
  "stable_balance_spec debt rate t0 now =
     (if rate = 0 \<or> now = t0 \<or> t0 = 0 then debt else ray_mul debt (compound_factor rate (now - t0)))"

definition stable_total_at :: "int ReserveData \<Rightarrow> int \<Rightarrow> int" where
  "stable_total_at R now =
     ray_mul (compound_factor (r_averageStableBorrowRate R) (now - r_totalStableDebtLastUpdated R))
       (r_principalStableDebt R)"

definition user_stable_debt_at :: "int UserReserveData \<Rightarrow> int \<Rightarrow> int" where
  "user_stable_debt_at U now =
     stable_balance_spec (u_principalStableDebt U) (u_stableBorrowRate U) (u_stableRateLastUpdated U) now"

context bignumber_int
begin

lemma denotes_income_at:
  "reserve_denotes val d R \<Longrightarrow> denotes val t now \<Longrightarrow>
   denotes val (calcExpectedReserveNormalizedIncome B d t) (income_at R now)"
  unfolding income_at_def by (rule denotes_income) (auto dest: reserve_denotesD)

lemma denotes_aToken:
  "reserve_denotes val d R \<Longrightarrow> user_denotes val u U \<Longrightarrow> denotes val t now \<Longrightarrow>
   denotes val (calcExpectedATokenBalance B d u t) (ray_mul (u_scaledATokenBalance U) (income_at R now))"
  unfolding calcExpectedATokenBalance_def Let_def
  by (intro denotes_math denotes_income_at) (auto dest: user_denotesD)

lemma denotes_variable_debt:
  "reserve_denotes val d R \<Longrightarrow> user_denotes val u U \<Longrightarrow> denotes val t now \<Longrightarrow>
   denotes val (calcExpectedVariableDebtTokenBalance B d u t) (ray_mul (u_scaledVariableDebt U) (debt_at R now))"
  unfolding calcExpectedVariableDebtTokenBalance_def Let_def debt_at_def
  by (intro denotes_math denotes_debt) (auto dest: user_denotesD reserve_denotesD)

lemma denotes_stable_balance:
  assumes "denotes val p debt" "denotes val r rate" "denotes val u t0" "denotes val t now"
  shows "denotes val (calcExpectedStableDebtTokenBalance B p r u t) (stable_balance_spec debt rate t0 now)"
  unfolding calcExpectedStableDebtTokenBalance_def stable_balance_spec_def Let_def
    eq_iff [OF assms(2) denotes_of] eq_iff [OF assms(3) denotes_of] eq_iff [OF assms(4,3)]
  by (intro denotes_if denotes_math denotes_compound assms)

lemma denotes_user_stable_debt:
  "user_denotes val u U \<Longrightarrow> denotes val t now \<Longrightarrow>
   denotes val (calcExpectedStableDebtTokenBalance B (u_principalStableDebt u) (u_stableBorrowRate u)
     (u_stableRateLastUpdated u) t) (user_stable_debt_at U now)"
  unfolding user_stable_debt_at_def by (rule denotes_stable_balance) (auto dest: user_denotesD)

lemma denotes_stable_total:
  "reserve_denotes val d R \<Longrightarrow> denotes val t now \<Longrightarrow>
   denotes val (calcExpectedTotalStableDebt B (r_principalStableDebt d) (r_averageStableBorrowRate d)
     (r_totalStableDebtLastUpdated d) t) (stable_total_at R now)"
  unfolding calcExpectedTotalStableDebt_def stable_total_at_def Let_def
  by (intro denotes_math denotes_compound) (auto dest: reserve_denotesD)

lemma denotes_liquidity_index:
  assumes "reserve_denotes val d R" "denotes val t now"
  shows "denotes val (calcExpectedLiquidityIndex B d t) (liquidity_index_at R now)"
proof -
  note d = reserve_denotesD [OF assms(1)]
  have "bn_eq B (r_utilizationRate d) (bn_of B 0) \<longleftrightarrow> r_utilizationRate R = 0"
    using d by (intro eq_iff denotes_of) simp
  then show ?thesis
    unfolding calcExpectedLiquidityIndex_def liquidity_index_at_def Let_def using d assms(2)
    by (auto intro!: denotes_math denotes_linear)
qed

lemma denotes_variable_index:
  assumes "reserve_denotes val d R" "denotes val t now"
  shows "denotes val (calcExpectedVariableBorrowIndex B d t) (variable_index_at R now)"
proof -
  note d = reserve_denotesD [OF assms(1)]
  have "bn_eq B (r_totalVariableDebt d) (bn_of B 0) \<longleftrightarrow> r_totalVariableDebt R = 0"
    using d by (intro eq_iff denotes_of) simp
  then show ?thesis
    unfolding calcExpectedVariableBorrowIndex_def variable_index_at_def Let_def using d assms(2)
    by (auto intro!: denotes_math denotes_compound)
qed

lemma denotes_user_stable_rate:
  assumes "denotes val x b" "denotes val r rb" "denotes val a am" "denotes val q rn" "b + am \<noteq> 0"
  shows "denotes val (calcExpectedUserStableRate B x r a q) ((b * rb + am * rn) sdiv (b + am))"
  unfolding calcExpectedUserStableRate_def by (intro denotes_rules assms)

end

section \<open>The code against the contract\<close>

text \<open>The contract's reserve and the integers the test suite read from it.\<close>

definition reserve_matches :: "int ReserveData \<Rightarrow> sol_reserve \<Rightarrow> bool" where
  "reserve_matches R s \<longleftrightarrow>
     r_liquidityIndex R = uint (s_liquidityIndex s) \<and> r_variableBorrowIndex R = uint (s_variableBorrowIndex s) \<and>
     r_liquidityRate R = uint (s_currentLiquidityRate s) \<and>
     r_variableBorrowRate R = uint (s_currentVariableBorrowRate s) \<and>
     r_lastUpdateTimestamp R = uint (s_lastUpdateTimestamp s)"

text \<open>A concrete reserve for the witnesses: a year-old state with debts at 10 per cent.\<close>

definition sample_R :: "int ReserveData" where
  "sample_R = \<lparr>r_address = None, r_symbol = Some ''DAI'', r_decimals = 18, r_totalLiquidity = 1000,
     r_availableLiquidity = 300, r_totalStableDebt = 200, r_totalVariableDebt = 500,
     r_principalStableDebt = 200, r_scaledVariableDebt = 500, r_averageStableBorrowRate = 10 ^ 26,
     r_variableBorrowRate = 10 ^ 26, r_stableBorrowRate = 10 ^ 26, r_utilizationRate = 7 * 10 ^ 26,
     r_liquidityIndex = 10 ^ 27, r_variableBorrowIndex = 10 ^ 27, r_aTokenAddress = None,
     r_marketStableRate = 0, r_lastUpdateTimestamp = 1000, r_totalStableDebtLastUpdated = 1000,
     r_liquidityRate = 6 * 10 ^ 25\<rparr>"

definition lift_reserve :: "int ReserveData \<Rightarrow> rat option ReserveData" where
  "lift_reserve R = \<lparr>r_address = r_address R, r_symbol = r_symbol R, r_decimals = Some (of_int (r_decimals R)),
     r_totalLiquidity = Some (of_int (r_totalLiquidity R)),
     r_availableLiquidity = Some (of_int (r_availableLiquidity R)),
     r_totalStableDebt = Some (of_int (r_totalStableDebt R)),
     r_totalVariableDebt = Some (of_int (r_totalVariableDebt R)),
     r_principalStableDebt = Some (of_int (r_principalStableDebt R)),
     r_scaledVariableDebt = Some (of_int (r_scaledVariableDebt R)),
     r_averageStableBorrowRate = Some (of_int (r_averageStableBorrowRate R)),
     r_variableBorrowRate = Some (of_int (r_variableBorrowRate R)),
     r_stableBorrowRate = Some (of_int (r_stableBorrowRate R)),
     r_utilizationRate = Some (of_int (r_utilizationRate R)),
     r_liquidityIndex = Some (of_int (r_liquidityIndex R)),
     r_variableBorrowIndex = Some (of_int (r_variableBorrowIndex R)), r_aTokenAddress = r_aTokenAddress R,
     r_marketStableRate = Some (of_int (r_marketStableRate R)),
     r_lastUpdateTimestamp = Some (of_int (r_lastUpdateTimestamp R)),
     r_totalStableDebtLastUpdated = Some (of_int (r_totalStableDebtLastUpdated R)),
     r_liquidityRate = Some (of_int (r_liquidityRate R))\<rparr>"

lemma lift_reserve_denotes [simp]: "reserve_denotes id (lift_reserve R) R"
  by (simp add: reserve_denotes_def denotes_def lift_reserve_def)

definition sample_s :: sol_reserve where
  "sample_s = \<lparr>s_liquidityIndex = 10 ^ 27, s_variableBorrowIndex = 10 ^ 27,
     s_currentLiquidityRate = 6 * 10 ^ 25, s_currentVariableBorrowRate = 10 ^ 26, s_lastUpdateTimestamp = 1000\<rparr>"

lemma sample_matches [simp]: "reserve_matches sample_R sample_s"
  by (simp add: reserve_matches_def sample_R_def sample_s_def)

lemmas contract_eval = sol_sub_def sol_mul_def sol_add_def sol_rayMul_def require_def SECONDS_PER_YEAR_def
  sol_RAY_def Let_def calculateLinearInterest_def calculateCompoundedInterest_def

text \<open>
  C12: The normalized income and the normalized variable debt the test suite expects are the ones the
  contract's \<open>getNormalizedIncome\<close> and \<open>getNormalizedDebt\<close> return, for every timestamp that fits
  \<open>uint40\<close>; the code's shortcut for a zero rate and the contract's for an update in the same block
  give the same values.
\<close>

theorem normalized_income_and_debt_agree:
  assumes "bignumber_int B val" "reserve_denotes val d R" "reserve_matches R s"
    and "denotes val t (uint now)" "uint now < 2 ^ 40"
    and "getNormalizedIncome now s = Inr i" "getNormalizedDebt now s = Inr v"
  shows "denotes val (calcExpectedReserveNormalizedIncome B d t) (uint i)
    \<and> denotes val (calcExpectedReserveNormalizedDebt B (r_variableBorrowRate d) (r_variableBorrowIndex d)
        (r_lastUpdateTimestamp d) t) (uint v)"
proof
  show "denotes val (calcExpectedReserveNormalizedIncome B d t) (uint i)"
    using bignumber_int.denotes_income_at [OF assms(1,2,4)] getNormalizedIncome_uint [OF assms(6,5)] assms(3)
    by (simp add: income_at_def reserve_matches_def)
  show "denotes val (calcExpectedReserveNormalizedDebt B (r_variableBorrowRate d) (r_variableBorrowIndex d)
        (r_lastUpdateTimestamp d) t) (uint v)"
    using bignumber_int.denotes_debt [OF assms(1) _ _ _ assms(4), of "r_variableBorrowRate d" "r_variableBorrowRate R"]
      reserve_denotesD [OF assms(2)] getNormalizedDebt_uint [OF assms(7,5)] assms(3)
    by (simp add: reserve_matches_def)
qed

theorem normalized_income_and_debt_agree_witness:
  "\<exists>i v. getNormalizedIncome 5000 sample_s = Inr i \<and> getNormalizedDebt 5000 sample_s = Inr v
    \<and> denotes id (calcExpectedReserveNormalizedIncome scenario_bn (lift_reserve sample_R) (Some 5000)) (uint i)"
proof -
  obtain i v where "getNormalizedIncome 5000 sample_s = Inr i" "getNormalizedDebt 5000 sample_s = Inr v"
    by (simp add: getNormalizedIncome_def getNormalizedDebt_def sample_s_def contract_eval)
  with normalized_income_and_debt_agree [OF scenario_bignumber_int lift_reserve_denotes sample_matches, of "Some 5000" 5000]
  show ?thesis by (simp add: denotes_def)
qed

text \<open>
  C3: The indexes the suite expects after an action are the ones \<open>_updateIndexes\<close> stores, as long as
  the reserve is in a state the protocol reaches in the scenarios: no liquidity rate at zero
  utilization, a liquidity rate when there is variable debt, and variable debt exactly when the
  scaled supply is not zero.
\<close>

theorem indexes_agree:
  assumes "bignumber_int B val" "reserve_denotes val d R" "reserve_matches R s"
    and "denotes val t (uint now)"
    and "r_utilizationRate R = 0 \<longrightarrow> r_liquidityRate R = 0"
    and "r_totalVariableDebt R \<noteq> 0 \<longrightarrow> r_liquidityRate R \<noteq> 0"
    and "r_totalVariableDebt R = 0 \<longleftrightarrow> scaled = 0"
    and "updateIndexes now s scaled (ucast (s_liquidityIndex s)) (ucast (s_variableBorrowIndex s))
          (s_lastUpdateTimestamp s) = Inr (s', li, vi)"
  shows "denotes val (calcExpectedLiquidityIndex B d t) (uint (s_liquidityIndex s'))
    \<and> denotes val (calcExpectedVariableBorrowIndex B d t) (uint (s_variableBorrowIndex s'))"
proof -
  note m = assms(3) [unfolded reserve_matches_def] and u = updateIndexes_uint [OF assms(8)]
  have "uint (s_liquidityIndex s') = liquidity_index_at R (uint now)"
    unfolding u(3) u(1) using m assms(5)
    by (auto simp: liquidity_index_at_def income_spec_def ray_mul_RAY)
  moreover have "uint (s_variableBorrowIndex s') = variable_index_at R (uint now)"
    unfolding u(4) u(2) using m assms(6,7)
    by (auto simp: variable_index_at_def debt_spec_eq)
  ultimately show ?thesis
    using bignumber_int.denotes_liquidity_index [OF assms(1,2,4)]
      bignumber_int.denotes_variable_index [OF assms(1,2,4)] by simp
qed

theorem indexes_agree_witness:
  "\<exists>s' li vi. updateIndexes 5000 sample_s 500 (10 ^ 27) (10 ^ 27) 1000 = Inr (s', li, vi)
    \<and> denotes id (calcExpectedLiquidityIndex scenario_bn (lift_reserve sample_R) (Some 5000)) (uint (s_liquidityIndex s'))
    \<and> denotes id (calcExpectedVariableBorrowIndex scenario_bn (lift_reserve sample_R) (Some 5000)) (uint (s_variableBorrowIndex s'))"
proof -
  obtain s' li vi where r: "updateIndexes 5000 sample_s 500 (10 ^ 27) (10 ^ 27) 1000 = Inr (s', li, vi)"
    by (simp add: updateIndexes_def sample_s_def contract_eval)
  have e: "(ucast (s_liquidityIndex sample_s) :: uint256) = 10 ^ 27" "(ucast (s_variableBorrowIndex sample_s) :: uint256) = 10 ^ 27"
    "s_lastUpdateTimestamp sample_s = 1000"
    by (simp_all add: sample_s_def)
  show ?thesis
    using indexes_agree [OF scenario_bignumber_int lift_reserve_denotes sample_matches, of "Some 5000" 5000 500 s' li vi] r
    unfolding e by (simp add: denotes_def sample_R_def)
qed

definition no_income_R :: "int ReserveData" where
  "no_income_R = sample_R\<lparr>r_liquidityRate := 0\<rparr>"

definition no_income_s :: sol_reserve where
  "no_income_s = sample_s\<lparr>s_currentLiquidityRate := 0\<rparr>"


section \<open>Accrual never takes anything away\<close>

definition reserve_ok :: "int ReserveData \<Rightarrow> int \<Rightarrow> bool" where
  "reserve_ok R now \<longleftrightarrow>
     RAY \<le> r_liquidityIndex R \<and> RAY \<le> r_variableBorrowIndex R \<and>
     0 \<le> r_liquidityRate R \<and> 0 \<le> r_variableBorrowRate R \<and> 0 \<le> r_averageStableBorrowRate R \<and>
     0 \<le> r_principalStableDebt R \<and> 0 \<le> r_scaledVariableDebt R \<and>
     r_lastUpdateTimestamp R \<le> now \<and> r_totalStableDebtLastUpdated R \<le> now"

lemma sample_ok [simp]: "1000 \<le> now \<Longrightarrow> reserve_ok sample_R now"
  by (simp add: reserve_ok_def sample_R_def RAY_def)

lemma reserve_okD:
  assumes "reserve_ok R now"
  shows "RAY \<le> r_liquidityIndex R" "RAY \<le> r_variableBorrowIndex R" "0 \<le> r_liquidityIndex R"
    "0 \<le> r_variableBorrowIndex R" "0 \<le> r_liquidityRate R" "0 \<le> r_variableBorrowRate R"
    "0 \<le> r_averageStableBorrowRate R" "0 \<le> r_principalStableDebt R" "0 \<le> r_scaledVariableDebt R"
    "0 \<le> now - r_lastUpdateTimestamp R" "0 \<le> now - r_totalStableDebtLastUpdated R"
  using assms constants_pos(5) by (auto simp: reserve_ok_def)

lemma liquidity_index_ge: "reserve_ok R now \<Longrightarrow> r_liquidityIndex R \<le> liquidity_index_at R now"
  using reserve_okD [of R now] by (simp add: liquidity_index_at_def ray_mul_ge' linear_factor_ge_RAY)

lemma variable_index_ge: "reserve_ok R now \<Longrightarrow> r_variableBorrowIndex R \<le> variable_index_at R now"
  using reserve_okD [of R now] by (simp add: variable_index_at_def ray_mul_ge' compound_factor_ge_RAY)

lemma income_at_ge: "reserve_ok R now \<Longrightarrow> r_liquidityIndex R \<le> income_at R now"
  using reserve_okD [of R now] by (simp add: income_at_def income_spec_ge)

lemma debt_at_ge: "reserve_ok R now \<Longrightarrow> r_variableBorrowIndex R \<le> debt_at R now"
  using reserve_okD [of R now] by (simp add: debt_at_def debt_spec_ge)

lemma stable_total_ge: "reserve_ok R now \<Longrightarrow> r_principalStableDebt R \<le> stable_total_at R now"
  using reserve_okD [of R now] by (simp add: stable_total_at_def ray_mul_ge' compound_factor_ge_RAY)

lemma stable_balance_ge:
  "0 \<le> debt \<Longrightarrow> 0 \<le> rate \<Longrightarrow> t0 \<le> now \<Longrightarrow> debt \<le> stable_balance_spec debt rate t0 now"
  by (simp add: stable_balance_spec_def ray_mul_ge compound_factor_ge_RAY)

text \<open>The index an action stores is the normalized income at its time, in every reachable rate state.\<close>

lemma liquidity_index_income:
  "0 \<le> r_liquidityIndex R \<Longrightarrow> (r_utilizationRate R = 0 \<longrightarrow> r_liquidityRate R = 0) \<Longrightarrow>
   liquidity_index_at R now = income_at R now"
  by (auto simp: liquidity_index_at_def income_at_def income_spec_eq ray_mul_RAY)

lemma variable_index_debt:
  "0 \<le> r_variableBorrowIndex R \<Longrightarrow> (r_totalVariableDebt R = 0 \<longrightarrow> r_variableBorrowRate R = 0) \<Longrightarrow>
   variable_index_at R now = debt_at R now"
  by (auto simp: variable_index_at_def debt_at_def debt_spec_eq ray_mul_RAY)


definition sample_U :: "int UserReserveData" where
  "sample_U = \<lparr>u_scaledATokenBalance = 100, u_currentATokenBalance = 100, u_currentStableDebt = 20,
     u_currentVariableDebt = 50, u_principalStableDebt = 20, u_scaledVariableDebt = 50,
     u_liquidityRate = 0, u_stableBorrowRate = 10 ^ 26, u_stableRateLastUpdated = 1000,
     u_usageAsCollateralEnabled = True, u_walletBalance = 10000, u_variableBorrowIndex = 10 ^ 27,
     u_principalVariableDebt = 0\<rparr>"

definition lift_user :: "int UserReserveData \<Rightarrow> rat option UserReserveData" where
  "lift_user U = \<lparr>u_scaledATokenBalance = Some (of_int (u_scaledATokenBalance U)),
     u_currentATokenBalance = Some (of_int (u_currentATokenBalance U)),
     u_currentStableDebt = Some (of_int (u_currentStableDebt U)),
     u_currentVariableDebt = Some (of_int (u_currentVariableDebt U)),
     u_principalStableDebt = Some (of_int (u_principalStableDebt U)),
     u_scaledVariableDebt = Some (of_int (u_scaledVariableDebt U)),
     u_liquidityRate = Some (of_int (u_liquidityRate U)),
     u_stableBorrowRate = Some (of_int (u_stableBorrowRate U)),
     u_stableRateLastUpdated = Some (of_int (u_stableRateLastUpdated U)),
     u_usageAsCollateralEnabled = u_usageAsCollateralEnabled U,
     u_walletBalance = Some (of_int (u_walletBalance U)),
     u_variableBorrowIndex = Some (of_int (u_variableBorrowIndex U)),
     u_principalVariableDebt = Some (of_int (u_principalVariableDebt U))\<rparr>"

lemma lift_user_denotes [simp]: "user_denotes id (lift_user U) U"
  by (simp add: user_denotes_def denotes_def lift_user_def)


section \<open>Average rates\<close>

lemma weighted_mean_bounds:
  fixes a b x y :: int
  assumes "0 \<le> x" "0 \<le> y" "0 < x + y" "0 \<le> a" "0 \<le> b"
  shows "min a b \<le> (a * x + b * y) div (x + y) \<and> (a * x + b * y) div (x + y) \<le> max a b"
proof
  have "min a b * x \<le> a * x" "min a b * y \<le> b * y" using assms by (intro mult_right_mono; simp)+
  then have "min a b * (x + y) \<le> a * x + b * y" by (simp add: distrib_left)
  then show "min a b \<le> (a * x + b * y) div (x + y)" using assms by (simp add: le_div_iff_mult_le)
  have "a * x \<le> max a b * x" "b * y \<le> max a b * y" using assms by (intro mult_right_mono; simp)+
  then have "a * x + b * y \<le> max a b * (x + y)" by (simp add: distrib_left)
  then have "(a * x + b * y) div (x + y) \<le> (max a b * (x + y)) div (x + y)" using assms by (intro zdiv_mono1)
  then show "(a * x + b * y) div (x + y) \<le> max a b" using assms by simp
qed

text \<open>
  The average stable rate after a borrow and the borrower's own stable rate are weighted means:
  each lies between the rate before and the rate of the new loan.
\<close>

theorem average_rates_between:
  assumes "bignumber_int B val"
    and "denotes val x debt" "denotes val a avg" "denotes val y amount" "denotes val r rate"
    and "0 \<le> debt" "0 \<le> amount" "0 < debt + amount" "0 \<le> avg" "0 \<le> rate"
  shows "\<exists>n k. denotes val (calcExpectedAverageStableBorrowRate B a x y r) n
    \<and> denotes val (calcExpectedUserStableRate B x a y r) k
    \<and> min avg rate \<le> n \<and> n \<le> max avg rate \<and> k = n"
proof -
  let ?n = "(avg * debt + rate * amount) div (debt + amount)"
  have nn: "0 \<le> avg * debt + rate * amount" using assms by simp
  have "average_rate_spec avg debt amount rate = ?n"
    using assms nn by (simp add: average_rate_spec_def sdiv_nonneg)
  moreover have "(debt * avg + amount * rate) sdiv (debt + amount) = ?n"
    using assms nn by (simp add: sdiv_nonneg mult.commute)
  ultimately show ?thesis
    using bignumber_int.denotes_average_rate [OF assms(1,3,2,4,5)]
      bignumber_int.denotes_user_stable_rate [OF assms(1,2,3,4,5)] weighted_mean_bounds [OF assms(6-10)] assms(8)
    by auto
qed

theorem average_rates_between_witness:
  "\<exists>n k. denotes id (calcExpectedAverageStableBorrowRate scenario_bn (Some 5) (Some 200) (Some 100) (Some 9)) n
    \<and> denotes id (calcExpectedUserStableRate scenario_bn (Some 200) (Some 5) (Some 100) (Some 9)) k
    \<and> min 5 9 \<le> n \<and> n \<le> max 5 9 \<and> k = n"
  by (rule average_rates_between [OF scenario_bignumber_int, of _ 200 _ 5 _ 100 _ 9]) (simp_all add: denotes_def)

end
