(* ===== verification/ReserveCalc.thy ===== *)
theory ReserveCalc
  imports Accrual
begin

text \<open>
  The expected state of a reserve after an action: the functions
  \<open>calcExpectedReserveDataAfter\<close>... of \<^verbatim>\<open>test-suites/test-ftm/helpers/utils/calculations.ts\<close>.
  Each starts from an empty object; a local variable of the model is the field of the same name,
  and the result is the object with the fields the code assigns, the others left \<open>undefined\<close>.
  The only failure is an unknown reserve symbol, in \<open>calcExpectedInterestRates\<close>.
\<close>

definition empty_ReserveData :: "'b bn_api \<Rightarrow> 'b ReserveData" where
  "empty_ReserveData B = \<lparr>r_address = None, r_symbol = None, r_decimals = bn_undef B,
     r_totalLiquidity = bn_undef B, r_availableLiquidity = bn_undef B, r_totalStableDebt = bn_undef B,
     r_totalVariableDebt = bn_undef B, r_principalStableDebt = bn_undef B,
     r_scaledVariableDebt = bn_undef B, r_averageStableBorrowRate = bn_undef B,
     r_variableBorrowRate = bn_undef B, r_stableBorrowRate = bn_undef B,
     r_utilizationRate = bn_undef B, r_liquidityIndex = bn_undef B, r_variableBorrowIndex = bn_undef B,
     r_aTokenAddress = None, r_marketStableRate = bn_undef B, r_lastUpdateTimestamp = bn_undef B,
     r_totalStableDebtLastUpdated = bn_undef B, r_liquidityRate = bn_undef B\<rparr>"

section \<open>Deposits\<close>

definition calcExpectedReserveDataAfterDeposit ::
    "'b bn_api \<Rightarrow> IReserveParams obj \<Rightarrow> string \<Rightarrow> 'b ReserveData \<Rightarrow> 'b \<Rightarrow> 'b ReserveData result" where
  "calcExpectedReserveDataAfterDeposit B params amountDeposited before txTimestamp =
     (let totalLiquidity = bn_plus B (r_totalLiquidity before) (bn_parse B amountDeposited);
          availableLiquidity = bn_plus B (r_availableLiquidity before) (bn_parse B amountDeposited);
          averageStableBorrowRate = r_averageStableBorrowRate before;
          liquidityIndex = calcExpectedLiquidityIndex B before txTimestamp;
          variableBorrowIndex = calcExpectedVariableBorrowIndex B before txTimestamp;
          totalStableDebt =
            calcExpectedTotalStableDebt B (r_principalStableDebt before) (r_averageStableBorrowRate before)
              (r_totalStableDebtLastUpdated before) txTimestamp;
          totalVariableDebt = calcExpectedTotalVariableDebt B before variableBorrowIndex;
          utilizationRate = calcExpectedUtilizationRate B totalStableDebt totalVariableDebt totalLiquidity
      in bindR (calcExpectedInterestRates B params (r_symbol before) (r_marketStableRate before)
                  utilizationRate totalStableDebt totalVariableDebt averageStableBorrowRate)
           (\<lambda>(liquidityRate, stableBorrowRate, variableBorrowRate).
         Inr ((empty_ReserveData B)\<lparr>r_address := r_address before, r_totalLiquidity := totalLiquidity,
           r_availableLiquidity := availableLiquidity, r_averageStableBorrowRate := averageStableBorrowRate,
           r_liquidityIndex := liquidityIndex, r_variableBorrowIndex := variableBorrowIndex,
           r_totalStableDebt := totalStableDebt, r_totalVariableDebt := totalVariableDebt,
           r_scaledVariableDebt := r_scaledVariableDebt before,
           r_principalStableDebt := r_principalStableDebt before, r_utilizationRate := utilizationRate,
           r_liquidityRate := liquidityRate, r_stableBorrowRate := stableBorrowRate,
           r_variableBorrowRate := variableBorrowRate\<rparr>)))"

definition calcExpectedReserveDataAfterDepositCollateral ::
    "'b bn_api \<Rightarrow> IReserveParams obj \<Rightarrow> string \<Rightarrow> 'b ReserveData \<Rightarrow> 'b ReserveData \<Rightarrow> 'b \<Rightarrow> 'b ReserveData result" where
  "calcExpectedReserveDataAfterDepositCollateral B params amountDeposited before after txTimestamp =
     (let totalLiquidity =
            bn_plus B (r_totalLiquidity before) (rayDiv B (bn_parse B amountDeposited) (r_liquidityIndex after));
          availableLiquidity =
            bn_plus B (r_availableLiquidity before) (rayDiv B (bn_parse B amountDeposited) (r_liquidityIndex after));
          averageStableBorrowRate = r_averageStableBorrowRate before;
          liquidityIndex = calcExpectedLiquidityIndex B after txTimestamp;
          variableBorrowIndex = calcExpectedVariableBorrowIndex B before txTimestamp;
          totalStableDebt =
            calcExpectedTotalStableDebt B (r_principalStableDebt before) (r_averageStableBorrowRate before)
              (r_totalStableDebtLastUpdated before) txTimestamp;
          totalVariableDebt = calcExpectedTotalVariableDebt B before variableBorrowIndex;
          utilizationRate = calcExpectedUtilizationRate B totalStableDebt totalVariableDebt totalLiquidity
      in bindR (calcExpectedInterestRates B params (r_symbol before) (r_marketStableRate before)
                  utilizationRate totalStableDebt totalVariableDebt averageStableBorrowRate)
           (\<lambda>(liquidityRate, stableBorrowRate, variableBorrowRate).
         Inr ((empty_ReserveData B)\<lparr>r_address := r_address before, r_totalLiquidity := totalLiquidity,
           r_availableLiquidity := availableLiquidity, r_averageStableBorrowRate := averageStableBorrowRate,
           r_liquidityIndex := liquidityIndex, r_variableBorrowIndex := variableBorrowIndex,
           r_totalStableDebt := totalStableDebt, r_totalVariableDebt := totalVariableDebt,
           r_scaledVariableDebt := r_scaledVariableDebt before,
           r_principalStableDebt := r_principalStableDebt before, r_utilizationRate := utilizationRate,
           r_liquidityRate := liquidityRate, r_stableBorrowRate := stableBorrowRate,
           r_variableBorrowRate := variableBorrowRate\<rparr>)))"

section \<open>Withdrawals\<close>

definition calcExpectedReserveDataAfterWithdraw ::
    "'b bn_api \<Rightarrow> IReserveParams obj \<Rightarrow> string \<Rightarrow> 'b ReserveData \<Rightarrow> 'b UserReserveData \<Rightarrow> 'b \<Rightarrow> 'b ReserveData result" where
  "calcExpectedReserveDataAfterWithdraw B params amountWithdrawn0 before userBefore txTimestamp =
     (let amountWithdrawn =
            (if amountWithdrawn0 = MAX_UINT_AMOUNT
             then bn_toFixed B (calcExpectedATokenBalance B before userBefore txTimestamp)
             else amountWithdrawn0);
          availableLiquidity = bn_minus B (r_availableLiquidity before) (bn_parse B amountWithdrawn);
          scaledVariableDebt = r_scaledVariableDebt before;
          liquidityIndex = calcExpectedLiquidityIndex B before txTimestamp;
          variableBorrowIndex = calcExpectedVariableBorrowIndex B before txTimestamp;
          totalStableDebt =
            calcExpectedTotalStableDebt B (r_principalStableDebt before) (r_averageStableBorrowRate before)
              (r_totalStableDebtLastUpdated before) txTimestamp;
          totalVariableDebt = rayMul B scaledVariableDebt variableBorrowIndex;
          averageStableBorrowRate = r_averageStableBorrowRate before;
          totalLiquidity =
            bn_plus B (bn_plus B (bn_minus B (r_availableLiquidity before) (bn_parse B amountWithdrawn))
              totalVariableDebt) totalStableDebt;
          utilizationRate = calcExpectedUtilizationRate B totalStableDebt totalVariableDebt totalLiquidity
      in bindR (calcExpectedInterestRates B params (r_symbol before) (r_marketStableRate before)
                  utilizationRate totalStableDebt totalVariableDebt averageStableBorrowRate)
           (\<lambda>(liquidityRate, stableBorrowRate, variableBorrowRate).
         Inr ((empty_ReserveData B)\<lparr>r_address := r_address before, r_availableLiquidity := availableLiquidity,
           r_principalStableDebt := r_principalStableDebt before, r_scaledVariableDebt := scaledVariableDebt,
           r_liquidityIndex := liquidityIndex, r_variableBorrowIndex := variableBorrowIndex,
           r_totalStableDebt := totalStableDebt, r_totalVariableDebt := totalVariableDebt,
           r_averageStableBorrowRate := averageStableBorrowRate, r_totalLiquidity := totalLiquidity,
           r_utilizationRate := utilizationRate, r_liquidityRate := liquidityRate,
           r_stableBorrowRate := stableBorrowRate, r_variableBorrowRate := variableBorrowRate\<rparr>)))"

definition calcExpectedReserveDataAfterWithdrawCollateral ::
    "'b bn_api \<Rightarrow> IReserveParams obj \<Rightarrow> string \<Rightarrow> 'b ReserveData \<Rightarrow> 'b ReserveData \<Rightarrow> 'b UserReserveData \<Rightarrow> 'b
     \<Rightarrow> 'b ReserveData result" where
  "calcExpectedReserveDataAfterWithdrawCollateral B params amountWithdrawn0 before after userBefore txTimestamp =
     (let amountWithdrawn =
            (if amountWithdrawn0 = MAX_UINT_AMOUNT then bn_toString B (u_scaledATokenBalance userBefore)
             else amountWithdrawn0);
          availableLiquidity =
            bn_minus B (r_availableLiquidity before) (rayDiv B (bn_parse B amountWithdrawn) (r_liquidityIndex after));
          scaledVariableDebt = r_scaledVariableDebt before;
          liquidityIndex = calcExpectedLiquidityIndex B after txTimestamp;
          variableBorrowIndex = calcExpectedVariableBorrowIndex B before txTimestamp;
          totalStableDebt =
            calcExpectedTotalStableDebt B (r_principalStableDebt before) (r_averageStableBorrowRate before)
              (r_totalStableDebtLastUpdated before) txTimestamp;
          totalVariableDebt = rayMul B scaledVariableDebt variableBorrowIndex;
          averageStableBorrowRate = r_averageStableBorrowRate before;
          totalLiquidity =
            bn_plus B (bn_plus B (bn_minus B (r_availableLiquidity before)
                (rayDiv B (bn_parse B amountWithdrawn) (r_liquidityIndex after)))
              totalVariableDebt) totalStableDebt;
          utilizationRate = calcExpectedUtilizationRate B totalStableDebt totalVariableDebt totalLiquidity
      in bindR (calcExpectedInterestRates B params (r_symbol before) (r_marketStableRate before)
                  utilizationRate totalStableDebt totalVariableDebt averageStableBorrowRate)
           (\<lambda>(liquidityRate, stableBorrowRate, variableBorrowRate).
         Inr ((empty_ReserveData B)\<lparr>r_address := r_address before, r_availableLiquidity := availableLiquidity,
           r_principalStableDebt := r_principalStableDebt before, r_scaledVariableDebt := scaledVariableDebt,
           r_liquidityIndex := liquidityIndex, r_variableBorrowIndex := variableBorrowIndex,
           r_totalStableDebt := totalStableDebt, r_totalVariableDebt := totalVariableDebt,
           r_averageStableBorrowRate := averageStableBorrowRate, r_totalLiquidity := totalLiquidity,
           r_utilizationRate := utilizationRate, r_liquidityRate := liquidityRate,
           r_stableBorrowRate := stableBorrowRate, r_variableBorrowRate := variableBorrowRate\<rparr>)))"

section \<open>Borrowing and repaying\<close>

text \<open>
  The rates after a borrow are computed from the debts at the transaction; the totals reported are
  then accrued from the transaction to \<open>currentTimestamp\<close> at the new rates.
\<close>

definition calcExpectedReserveDataAfterBorrow ::
    "'b bn_api \<Rightarrow> IReserveParams obj \<Rightarrow> string \<Rightarrow> string \<Rightarrow> 'b ReserveData \<Rightarrow> 'b UserReserveData \<Rightarrow> 'b \<Rightarrow> 'b
     \<Rightarrow> 'b ReserveData result" where
  "calcExpectedReserveDataAfterBorrow B params amountBorrowed borrowRateMode before userBefore
       txTimestamp currentTimestamp =
     (let amountBorrowedBN = bn_parse B amountBorrowed;
          liquidityIndex = calcExpectedLiquidityIndex B before txTimestamp;
          variableBorrowIndex = calcExpectedVariableBorrowIndex B before txTimestamp;
          availableLiquidity = bn_minus B (r_availableLiquidity before) amountBorrowedBN;
          lastUpdateTimestamp = txTimestamp
      in if borrowRateMode = rate_mode_value Stable then
           let scaledVariableDebt = r_scaledVariableDebt before;
               expectedVariableDebtAfterTx = rayMul B scaledVariableDebt variableBorrowIndex;
               expectedStableDebtUntilTx =
                 calcExpectedTotalStableDebt B (r_principalStableDebt before) (r_averageStableBorrowRate before)
                   (r_totalStableDebtLastUpdated before) txTimestamp;
               principalStableDebt = bn_plus B expectedStableDebtUntilTx amountBorrowedBN;
               averageStableBorrowRate =
                 calcExpectedAverageStableBorrowRate B (r_averageStableBorrowRate before)
                   expectedStableDebtUntilTx amountBorrowedBN (r_stableBorrowRate before);
               totalLiquidityAfterTx =
                 bn_plus B (bn_plus B availableLiquidity principalStableDebt) expectedVariableDebtAfterTx;
               utilizationRateAfterTx =
                 calcExpectedUtilizationRate B principalStableDebt expectedVariableDebtAfterTx totalLiquidityAfterTx
           in bindR (calcExpectedInterestRates B params (r_symbol before) (r_marketStableRate before)
                       utilizationRateAfterTx principalStableDebt expectedVariableDebtAfterTx
                       averageStableBorrowRate)
                (\<lambda>(liquidityRate, stableBorrowRate, variableBorrowRate).
              let totalStableDebt =
                    calcExpectedTotalStableDebt B principalStableDebt averageStableBorrowRate
                      txTimestamp currentTimestamp;
                  totalVariableDebt =
                    rayMul B (r_scaledVariableDebt before)
                      (calcExpectedReserveNormalizedDebt B variableBorrowRate variableBorrowIndex
                        txTimestamp currentTimestamp);
                  totalLiquidity =
                    bn_plus B (bn_plus B availableLiquidity totalVariableDebt) totalStableDebt;
                  utilizationRate =
                    calcExpectedUtilizationRate B totalStableDebt totalVariableDebt totalLiquidity
              in Inr ((empty_ReserveData B)\<lparr>r_address := r_address before, r_liquidityIndex := liquidityIndex,
                   r_variableBorrowIndex := variableBorrowIndex, r_availableLiquidity := availableLiquidity,
                   r_lastUpdateTimestamp := lastUpdateTimestamp, r_scaledVariableDebt := scaledVariableDebt,
                   r_principalStableDebt := principalStableDebt,
                   r_averageStableBorrowRate := averageStableBorrowRate, r_liquidityRate := liquidityRate,
                   r_stableBorrowRate := stableBorrowRate, r_variableBorrowRate := variableBorrowRate,
                   r_totalStableDebt := totalStableDebt, r_totalVariableDebt := totalVariableDebt,
                   r_totalLiquidity := totalLiquidity, r_utilizationRate := utilizationRate\<rparr>))
         else
           let principalStableDebt = r_principalStableDebt before;
               totalStableDebtAfterTx =
                 calcExpectedStableDebtTokenBalance B (r_principalStableDebt before)
                   (r_averageStableBorrowRate before) (r_totalStableDebtLastUpdated before) txTimestamp;
               totalStableDebt =
                 calcExpectedTotalStableDebt B (r_principalStableDebt before) (r_averageStableBorrowRate before)
                   (r_totalStableDebtLastUpdated before) currentTimestamp;
               averageStableBorrowRate = r_averageStableBorrowRate before;
               scaledVariableDebt =
                 bn_plus B (r_scaledVariableDebt before) (rayDiv B amountBorrowedBN variableBorrowIndex);
               totalVariableDebtAfterTx = rayMul B scaledVariableDebt variableBorrowIndex;
               utilizationRateAfterTx =
                 calcExpectedUtilizationRate B totalStableDebtAfterTx totalVariableDebtAfterTx
                   (bn_plus B (bn_plus B availableLiquidity totalStableDebtAfterTx) totalVariableDebtAfterTx)
           in bindR (calcExpectedInterestRates B params (r_symbol before) (r_marketStableRate before)
                       utilizationRateAfterTx totalStableDebtAfterTx totalVariableDebtAfterTx
                       averageStableBorrowRate)
                (\<lambda>(liquidityRate, stableBorrowRate, variableBorrowRate).
              let totalVariableDebt =
                    rayMul B scaledVariableDebt
                      (calcExpectedReserveNormalizedDebt B variableBorrowRate variableBorrowIndex
                        txTimestamp currentTimestamp);
                  totalLiquidity =
                    bn_plus B (bn_plus B availableLiquidity totalStableDebt) totalVariableDebt;
                  utilizationRate =
                    calcExpectedUtilizationRate B totalStableDebt totalVariableDebt totalLiquidity
              in Inr ((empty_ReserveData B)\<lparr>r_address := r_address before, r_liquidityIndex := liquidityIndex,
                   r_variableBorrowIndex := variableBorrowIndex, r_availableLiquidity := availableLiquidity,
                   r_lastUpdateTimestamp := lastUpdateTimestamp, r_principalStableDebt := principalStableDebt,
                   r_totalStableDebt := totalStableDebt,
                   r_averageStableBorrowRate := averageStableBorrowRate,
                   r_scaledVariableDebt := scaledVariableDebt, r_liquidityRate := liquidityRate,
                   r_stableBorrowRate := stableBorrowRate, r_variableBorrowRate := variableBorrowRate,
                   r_totalVariableDebt := totalVariableDebt, r_totalLiquidity := totalLiquidity,
                   r_utilizationRate := utilizationRate\<rparr>)))"

text \<open>
  \<open>repay_stable_totals\<close> is the clamping of the stable branch: the principal, the total and the
  average rate after \<open>amountRepaidBN\<close> is taken off a total of \<open>expectedDebt\<close>.
\<close>

definition repay_stable_totals ::
    "'b bn_api \<Rightarrow> 'b ReserveData \<Rightarrow> 'b UserReserveData \<Rightarrow> 'b \<Rightarrow> 'b \<Rightarrow> 'b \<times> 'b \<times> 'b" where
  "repay_stable_totals B before userBefore expectedDebt amountRepaidBN =
     (let totalStableDebt = bn_minus B expectedDebt amountRepaidBN;
          principalStableDebt = totalStableDebt
      in if bn_lt B totalStableDebt (bn_of B 0) then (bn_of B 0, bn_of B 0, bn_of B 0)
         else
           let averageStableBorrowRate =
                 calcExpectedAverageStableBorrowRate B (r_averageStableBorrowRate before) expectedDebt
                   (bn_negated B amountRepaidBN) (u_stableBorrowRate userBefore)
           in if bn_lt B averageStableBorrowRate (bn_of B 0) then (bn_of B 0, bn_of B 0, bn_of B 0)
              else (principalStableDebt, totalStableDebt, averageStableBorrowRate))"

definition calcExpectedReserveDataAfterRepay ::
    "'b bn_api \<Rightarrow> IReserveParams obj \<Rightarrow> string \<Rightarrow> string \<Rightarrow> 'b ReserveData \<Rightarrow> 'b UserReserveData \<Rightarrow> 'b \<Rightarrow> 'b
     \<Rightarrow> 'b ReserveData result" where
  "calcExpectedReserveDataAfterRepay B params amountRepaid borrowRateMode before userBefore
       txTimestamp currentTimestamp =
     (let amountRepaidBN0 = bn_parse B amountRepaid;
          userStableDebt =
            calcExpectedStableDebtTokenBalance B (u_principalStableDebt userBefore)
              (u_stableBorrowRate userBefore) (u_stableRateLastUpdated userBefore) txTimestamp;
          userVariableDebt = calcExpectedVariableDebtTokenBalance B before userBefore txTimestamp;
          amountRepaidBN =
            (if bn_eq B (bn_abs B amountRepaidBN0) (bn_parse B MAX_UINT_AMOUNT)
             then (if borrowRateMode = rate_mode_value Stable then userStableDebt else userVariableDebt)
             else amountRepaidBN0);
          liquidityIndex = calcExpectedLiquidityIndex B before txTimestamp;
          variableBorrowIndex = calcExpectedVariableBorrowIndex B before txTimestamp;
          (principalStableDebt, totalStableDebt, averageStableBorrowRate, scaledVariableDebt, totalVariableDebt) =
            (if borrowRateMode = rate_mode_value Stable then
               let expectedDebt =
                     calcExpectedTotalStableDebt B (r_principalStableDebt before)
                       (r_averageStableBorrowRate before) (r_totalStableDebtLastUpdated before) txTimestamp;
                   (principalStableDebt, totalStableDebt, averageStableBorrowRate) =
                     repay_stable_totals B before userBefore expectedDebt amountRepaidBN;
                   scaledVariableDebt = r_scaledVariableDebt before
               in (principalStableDebt, totalStableDebt, averageStableBorrowRate, scaledVariableDebt,
                   rayMul B scaledVariableDebt variableBorrowIndex)
             else
               let scaledVariableDebt =
                     bn_minus B (r_scaledVariableDebt before) (rayDiv B amountRepaidBN variableBorrowIndex)
               in (r_principalStableDebt before, r_totalStableDebt before, r_averageStableBorrowRate before,
                   scaledVariableDebt, rayMul B scaledVariableDebt variableBorrowIndex));
          availableLiquidity = bn_plus B (r_availableLiquidity before) amountRepaidBN;
          totalLiquidity = bn_plus B (bn_plus B availableLiquidity totalStableDebt) totalVariableDebt;
          utilizationRate = calcExpectedUtilizationRate B totalStableDebt totalVariableDebt totalLiquidity
      in bindR (calcExpectedInterestRates B params (r_symbol before) (r_marketStableRate before)
                  utilizationRate totalStableDebt totalVariableDebt averageStableBorrowRate)
           (\<lambda>(liquidityRate, stableBorrowRate, variableBorrowRate).
         Inr ((empty_ReserveData B)\<lparr>r_address := r_address before, r_liquidityIndex := liquidityIndex,
           r_variableBorrowIndex := variableBorrowIndex, r_principalStableDebt := principalStableDebt,
           r_totalStableDebt := totalStableDebt, r_averageStableBorrowRate := averageStableBorrowRate,
           r_scaledVariableDebt := scaledVariableDebt, r_totalVariableDebt := totalVariableDebt,
           r_availableLiquidity := availableLiquidity, r_totalLiquidity := totalLiquidity,
           r_utilizationRate := utilizationRate, r_liquidityRate := liquidityRate,
           r_stableBorrowRate := stableBorrowRate, r_variableBorrowRate := variableBorrowRate,
           r_lastUpdateTimestamp := txTimestamp\<rparr>)))"

section \<open>Swapping and rebalancing\<close>

definition calcExpectedReserveDataAfterSwapRateMode ::
    "'b bn_api \<Rightarrow> IReserveParams obj \<Rightarrow> 'b ReserveData \<Rightarrow> 'b UserReserveData \<Rightarrow> string \<Rightarrow> 'b \<Rightarrow> 'b ReserveData result" where
  "calcExpectedReserveDataAfterSwapRateMode B params before userBefore rateMode txTimestamp =
     (let variableDebt = calcExpectedVariableDebtTokenBalance B before userBefore txTimestamp;
          stableDebt =
            calcExpectedStableDebtTokenBalance B (u_principalStableDebt userBefore)
              (u_stableBorrowRate userBefore) (u_stableRateLastUpdated userBefore) txTimestamp;
          liquidityIndex = calcExpectedLiquidityIndex B before txTimestamp;
          variableBorrowIndex = calcExpectedVariableBorrowIndex B before txTimestamp;
          availableLiquidity = r_availableLiquidity before;
          totalStableDebtUntilTx =
            calcExpectedTotalStableDebt B (r_principalStableDebt before) (r_averageStableBorrowRate before)
              (r_totalStableDebtLastUpdated before) txTimestamp;
          (scaledVariableDebt, totalVariableDebt, principalStableDebt, totalStableDebt, averageStableBorrowRate) =
            (if rateMode = rate_mode_value Stable then
               let scaledVariableDebt =
                     bn_plus B (r_scaledVariableDebt before) (rayDiv B stableDebt variableBorrowIndex);
                   totalVariableDebt = rayMul B scaledVariableDebt variableBorrowIndex;
                   totalStableDebt = bn_minus B totalStableDebtUntilTx stableDebt;
                   principalStableDebt = totalStableDebt
               in (scaledVariableDebt, totalVariableDebt, principalStableDebt, totalStableDebt,
                   calcExpectedAverageStableBorrowRate B (r_averageStableBorrowRate before)
                     (bn_plus B principalStableDebt stableDebt) (bn_negated B stableDebt)
                     (u_stableBorrowRate userBefore))
             else
               let totalStableDebt = bn_plus B totalStableDebtUntilTx variableDebt;
                   principalStableDebt = totalStableDebt;
                   scaledVariableDebt =
                     bn_minus B (r_scaledVariableDebt before) (rayDiv B variableDebt variableBorrowIndex);
                   totalVariableDebt = rayMul B scaledVariableDebt variableBorrowIndex
               in (scaledVariableDebt, totalVariableDebt, principalStableDebt, totalStableDebt,
                   calcExpectedAverageStableBorrowRate B (r_averageStableBorrowRate before)
                     (r_totalStableDebt before) variableDebt (r_stableBorrowRate before)));
          totalLiquidity =
            bn_plus B (bn_plus B (r_availableLiquidity before) totalStableDebt) totalVariableDebt;
          utilizationRate = calcExpectedUtilizationRate B totalStableDebt totalVariableDebt totalLiquidity
      in bindR (calcExpectedInterestRates B params (r_symbol before) (r_marketStableRate before)
                  utilizationRate totalStableDebt totalVariableDebt averageStableBorrowRate)
           (\<lambda>(liquidityRate, stableBorrowRate, variableBorrowRate).
         Inr ((empty_ReserveData B)\<lparr>r_address := r_address before, r_liquidityIndex := liquidityIndex,
           r_variableBorrowIndex := variableBorrowIndex, r_availableLiquidity := availableLiquidity,
           r_scaledVariableDebt := scaledVariableDebt, r_totalVariableDebt := totalVariableDebt,
           r_principalStableDebt := principalStableDebt, r_totalStableDebt := totalStableDebt,
           r_averageStableBorrowRate := averageStableBorrowRate, r_totalLiquidity := totalLiquidity,
           r_utilizationRate := utilizationRate, r_liquidityRate := liquidityRate,
           r_stableBorrowRate := stableBorrowRate, r_variableBorrowRate := variableBorrowRate\<rparr>)))"

definition calcExpectedReserveDataAfterStableRateRebalance ::
    "'b bn_api \<Rightarrow> IReserveParams obj \<Rightarrow> 'b ReserveData \<Rightarrow> 'b UserReserveData \<Rightarrow> 'b \<Rightarrow> 'b ReserveData result" where
  "calcExpectedReserveDataAfterStableRateRebalance B params before userBefore txTimestamp =
     (let userStableDebt =
            calcExpectedStableDebtTokenBalance B (u_principalStableDebt userBefore)
              (u_stableBorrowRate userBefore) (u_stableRateLastUpdated userBefore) txTimestamp;
          liquidityIndex = calcExpectedLiquidityIndex B before txTimestamp;
          variableBorrowIndex = calcExpectedVariableBorrowIndex B before txTimestamp;
          scaledVariableDebt = r_scaledVariableDebt before;
          totalVariableDebt = rayMul B scaledVariableDebt variableBorrowIndex;
          totalStableDebt =
            calcExpectedTotalStableDebt B (r_principalStableDebt before) (r_averageStableBorrowRate before)
              (r_totalStableDebtLastUpdated before) txTimestamp;
          principalStableDebt = totalStableDebt;
          availableLiquidity = r_availableLiquidity before;
          totalLiquidity = bn_plus B (bn_plus B availableLiquidity totalStableDebt) totalVariableDebt;
          avgRateBefore =
            calcExpectedAverageStableBorrowRateRebalance B (r_averageStableBorrowRate before)
              totalStableDebt (bn_negated B userStableDebt) (u_stableBorrowRate userBefore);
          averageStableBorrowRate =
            calcExpectedAverageStableBorrowRateRebalance B avgRateBefore
              (bn_minus B totalStableDebt userStableDebt) userStableDebt (r_stableBorrowRate before);
          utilizationRate = calcExpectedUtilizationRate B totalStableDebt totalVariableDebt totalLiquidity
      in bindR (calcExpectedInterestRates B params (r_symbol before) (r_marketStableRate before)
                  utilizationRate totalStableDebt totalVariableDebt averageStableBorrowRate)
           (\<lambda>(liquidityRate, stableBorrowRate, variableBorrowRate).
         Inr ((empty_ReserveData B)\<lparr>r_address := r_address before, r_liquidityIndex := liquidityIndex,
           r_variableBorrowIndex := variableBorrowIndex, r_availableLiquidity := availableLiquidity,
           r_scaledVariableDebt := scaledVariableDebt, r_totalVariableDebt := totalVariableDebt,
           r_principalStableDebt := principalStableDebt, r_totalStableDebt := totalStableDebt,
           r_averageStableBorrowRate := averageStableBorrowRate, r_totalLiquidity := totalLiquidity,
           r_utilizationRate := utilizationRate, r_liquidityRate := liquidityRate,
           r_stableBorrowRate := stableBorrowRate, r_variableBorrowRate := variableBorrowRate\<rparr>)))"

end
