(* ===== verification/UserCalc.thy ===== *)
theory UserCalc
  imports Accrual
begin

text \<open>
  The expected position of a user after an action: the functions \<open>calcExpectedUserDataAfter\<close>... of
  \<^verbatim>\<open>test-suites/test-ftm/helpers/utils/calculations.ts\<close>. The arguments the code never reads are kept
  out of the model (\<open>currentTimestamp\<close> and \<open>txCost\<close> of most of them). \<open>reservesConfig\<close> is
  \<open>loadPoolConfig(ConfigNames.Fantom).ReservesConfig\<close>.
\<close>

definition empty_UserReserveData :: "'b bn_api \<Rightarrow> 'b UserReserveData" where
  "empty_UserReserveData B = \<lparr>u_scaledATokenBalance = bn_undef B, u_currentATokenBalance = bn_undef B,
     u_currentStableDebt = bn_undef B, u_currentVariableDebt = bn_undef B,
     u_principalStableDebt = bn_undef B, u_scaledVariableDebt = bn_undef B,
     u_liquidityRate = bn_undef B, u_stableBorrowRate = bn_undef B, u_stableRateLastUpdated = bn_undef B,
     u_usageAsCollateralEnabled = False, u_walletBalance = bn_undef B,
     u_variableBorrowIndex = bn_undef B, u_principalVariableDebt = bn_undef B\<rparr>"

text \<open>\<open>reservesConfig[symbol]?.collateralEnabled\<close> as a condition.\<close>

definition collateral_enabled :: "IReserveParams obj \<Rightarrow> string \<Rightarrow> bool" where
  "collateral_enabled reservesConfig reserveSymbol =
     (case obj_get reservesConfig reserveSymbol of None \<Rightarrow> False | Some p \<Rightarrow> collateralEnabled p)"

section \<open>Deposits\<close>

text \<open>
  The last assignment chains \<open>currentVariableDebt = principalStableDebt = \<dots>\<close>, so the principal of
  the stable debt ends up with the variable debt.
\<close>

definition calcExpectedUserDataAfterDeposit ::
    "'b bn_api \<Rightarrow> IReserveParams obj \<Rightarrow> string \<Rightarrow> 'b ReserveData \<Rightarrow> 'b ReserveData \<Rightarrow> 'b UserReserveData \<Rightarrow> 'b
     \<Rightarrow> string \<Rightarrow> 'b UserReserveData" where
  "calcExpectedUserDataAfterDeposit B reservesConfig amountDeposited before after userBefore txTimestamp
       reserveSymbol =
     (let e = empty_UserReserveData B;
          e = e\<lparr>u_scaledVariableDebt := u_scaledVariableDebt userBefore,
                u_variableBorrowIndex := u_variableBorrowIndex userBefore,
                u_stableBorrowRate := u_stableBorrowRate userBefore,
                u_stableRateLastUpdated := u_stableRateLastUpdated userBefore,
                u_liquidityRate := r_liquidityRate after,
                u_scaledATokenBalance :=
                  calcExpectedScaledATokenBalance B userBefore (r_liquidityIndex after)
                    (bn_parse B amountDeposited) (bn_of B 0),
                u_currentATokenBalance :=
                  bn_plus B (calcExpectedATokenBalance B before userBefore txTimestamp)
                    (bn_parse B amountDeposited),
                u_usageAsCollateralEnabled :=
                  (if collateral_enabled reservesConfig reserveSymbol
                      \<and> bn_eq B (u_currentATokenBalance userBefore) (bn_of B 0)
                   then True else u_usageAsCollateralEnabled userBefore),
                u_walletBalance := bn_minus B (u_walletBalance userBefore) (bn_parse B amountDeposited)\<rparr>;
          stableDebt =
            calcExpectedStableDebtTokenBalance B (u_principalStableDebt userBefore)
              (u_stableBorrowRate userBefore) (u_stableRateLastUpdated userBefore) txTimestamp;
          e = e\<lparr>u_principalStableDebt := stableDebt, u_currentStableDebt := stableDebt\<rparr>;
          variableDebt = calcExpectedVariableDebtTokenBalance B before userBefore txTimestamp
      in e\<lparr>u_principalStableDebt := variableDebt, u_currentVariableDebt := variableDebt\<rparr>)"

definition calcExpectedUserDataAfterDepositCollateral ::
    "'b bn_api \<Rightarrow> IReserveParams obj \<Rightarrow> string \<Rightarrow> 'b ReserveData \<Rightarrow> 'b ReserveData \<Rightarrow> 'b UserReserveData \<Rightarrow> 'b
     \<Rightarrow> string \<Rightarrow> 'b UserReserveData" where
  "calcExpectedUserDataAfterDepositCollateral B reservesConfig amountDeposited before after userBefore
       txTimestamp reserveSymbol =
     (let e = empty_UserReserveData B;
          scaledATokenBalance =
            calcExpectedScaledATokenBalance B userBefore (bn_of B (10 ^ 27)) (bn_parse B amountDeposited)
              (bn_of B 0);
          e = e\<lparr>u_scaledVariableDebt := u_scaledVariableDebt userBefore,
                u_variableBorrowIndex := u_variableBorrowIndex userBefore,
                u_stableBorrowRate := u_stableBorrowRate userBefore,
                u_stableRateLastUpdated := u_stableRateLastUpdated userBefore,
                u_liquidityRate := r_liquidityRate after,
                u_scaledATokenBalance := scaledATokenBalance,
                u_currentATokenBalance := scaledATokenBalance,
                u_usageAsCollateralEnabled :=
                  (if collateral_enabled reservesConfig reserveSymbol
                      \<and> bn_eq B (u_currentATokenBalance userBefore) (bn_of B 0)
                   then True else u_usageAsCollateralEnabled userBefore),
                u_walletBalance := bn_minus B (u_walletBalance userBefore) (bn_parse B amountDeposited)\<rparr>;
          stableDebt =
            calcExpectedStableDebtTokenBalance B (u_principalStableDebt userBefore)
              (u_stableBorrowRate userBefore) (u_stableRateLastUpdated userBefore) txTimestamp;
          e = e\<lparr>u_principalStableDebt := stableDebt, u_currentStableDebt := stableDebt\<rparr>;
          variableDebt = calcExpectedVariableDebtTokenBalance B before userBefore txTimestamp
      in e\<lparr>u_principalStableDebt := variableDebt, u_currentVariableDebt := variableDebt\<rparr>)"

section \<open>Withdrawals\<close>

definition calcExpectedUserDataAfterWithdraw ::
    "'b bn_api \<Rightarrow> string \<Rightarrow> 'b ReserveData \<Rightarrow> 'b ReserveData \<Rightarrow> 'b UserReserveData \<Rightarrow> 'b \<Rightarrow> 'b UserReserveData" where
  "calcExpectedUserDataAfterWithdraw B amountWithdrawn0 before after userBefore txTimestamp =
     (let aTokenBalance = calcExpectedATokenBalance B before userBefore txTimestamp;
          amountWithdrawn =
            (if amountWithdrawn0 = MAX_UINT_AMOUNT then bn_toFixed0 B aTokenBalance else amountWithdrawn0);
          currentATokenBalance = bn_minus B aTokenBalance (bn_parse B amountWithdrawn)
      in (empty_UserReserveData B)\<lparr>
           u_scaledATokenBalance :=
             calcExpectedScaledATokenBalance B userBefore (r_liquidityIndex after) (bn_of B 0)
               (bn_parse B amountWithdrawn),
           u_currentATokenBalance := currentATokenBalance,
           u_principalStableDebt := u_principalStableDebt userBefore,
           u_scaledVariableDebt := u_scaledVariableDebt userBefore,
           u_currentStableDebt :=
             calcExpectedStableDebtTokenBalance B (u_principalStableDebt userBefore)
               (u_stableBorrowRate userBefore) (u_stableRateLastUpdated userBefore) txTimestamp,
           u_currentVariableDebt := calcExpectedVariableDebtTokenBalance B before userBefore txTimestamp,
           u_variableBorrowIndex := u_variableBorrowIndex userBefore,
           u_stableBorrowRate := u_stableBorrowRate userBefore,
           u_stableRateLastUpdated := u_stableRateLastUpdated userBefore,
           u_liquidityRate := r_liquidityRate after,
           u_usageAsCollateralEnabled :=
             (if bn_eq B (u_currentATokenBalance userBefore) (bn_of B 0) then True
              else if bn_eq B currentATokenBalance (bn_of B 0) then False
              else u_usageAsCollateralEnabled userBefore),
           u_walletBalance := bn_plus B (u_walletBalance userBefore) (bn_parse B amountWithdrawn)\<rparr>)"

definition calcExpectedUserDataAfterWithdrawCollateral ::
    "'b bn_api \<Rightarrow> string \<Rightarrow> 'b ReserveData \<Rightarrow> 'b ReserveData \<Rightarrow> 'b UserReserveData \<Rightarrow> 'b \<Rightarrow> 'b UserReserveData" where
  "calcExpectedUserDataAfterWithdrawCollateral B amountWithdrawn0 before after userBefore txTimestamp =
     (let aTokenBalance = u_scaledATokenBalance userBefore;
          amountWithdrawn =
            (if amountWithdrawn0 = MAX_UINT_AMOUNT then bn_toFixed0 B aTokenBalance else amountWithdrawn0);
          scaledATokenBalance =
            calcExpectedScaledATokenBalance B userBefore (bn_of B (10 ^ 27)) (bn_of B 0)
              (bn_parse B amountWithdrawn);
          currentATokenBalance = scaledATokenBalance
      in (empty_UserReserveData B)\<lparr>
           u_scaledATokenBalance := scaledATokenBalance,
           u_currentATokenBalance := currentATokenBalance,
           u_principalStableDebt := u_principalStableDebt userBefore,
           u_scaledVariableDebt := u_scaledVariableDebt userBefore,
           u_currentStableDebt :=
             calcExpectedStableDebtTokenBalance B (u_principalStableDebt userBefore)
               (u_stableBorrowRate userBefore) (u_stableRateLastUpdated userBefore) txTimestamp,
           u_currentVariableDebt := calcExpectedVariableDebtTokenBalance B before userBefore txTimestamp,
           u_variableBorrowIndex := u_variableBorrowIndex userBefore,
           u_stableBorrowRate := u_stableBorrowRate userBefore,
           u_stableRateLastUpdated := u_stableRateLastUpdated userBefore,
           u_liquidityRate := r_liquidityRate after,
           u_usageAsCollateralEnabled :=
             (if bn_eq B (u_currentATokenBalance userBefore) (bn_of B 0) then True
              else if bn_eq B currentATokenBalance (bn_of B 0) then False
              else u_usageAsCollateralEnabled userBefore),
           u_walletBalance := bn_plus B (u_walletBalance userBefore) (bn_parse B amountWithdrawn)\<rparr>)"

section \<open>Borrowing and repaying\<close>

definition calcExpectedUserDataAfterBorrow ::
    "'b bn_api \<Rightarrow> string \<Rightarrow> string \<Rightarrow> 'b ReserveData \<Rightarrow> 'b ReserveData \<Rightarrow> 'b UserReserveData \<Rightarrow> 'b \<Rightarrow> 'b
     \<Rightarrow> 'b UserReserveData" where
  "calcExpectedUserDataAfterBorrow B amountBorrowed interestRateMode before expectedAfter userBefore
       txTimestamp currentTimestamp =
     (let e = empty_UserReserveData B;
          amountBorrowedBN = bn_parse B amountBorrowed;
          e = (if interestRateMode = rate_mode_value Stable then
                 let stableDebtUntilTx =
                       calcExpectedStableDebtTokenBalance B (u_principalStableDebt userBefore)
                         (u_stableBorrowRate userBefore) (u_stableRateLastUpdated userBefore) txTimestamp;
                     principalStableDebt = bn_plus B stableDebtUntilTx (bn_parse B amountBorrowed);
                     stableBorrowRate =
                       calcExpectedUserStableRate B stableDebtUntilTx (u_stableBorrowRate userBefore)
                         amountBorrowedBN (r_stableBorrowRate before)
                 in e\<lparr>u_principalStableDebt := principalStableDebt,
                      u_stableRateLastUpdated := txTimestamp,
                      u_stableBorrowRate := stableBorrowRate,
                      u_currentStableDebt :=
                        calcExpectedStableDebtTokenBalance B principalStableDebt stableBorrowRate
                          txTimestamp currentTimestamp,
                      u_scaledVariableDebt := u_scaledVariableDebt userBefore\<rparr>
               else
                 e\<lparr>u_scaledVariableDebt :=
                      bn_plus B (u_scaledVariableDebt userBefore)
                        (rayDiv B amountBorrowedBN (r_variableBorrowIndex expectedAfter)),
                    u_principalStableDebt := u_principalStableDebt userBefore,
                    u_stableBorrowRate := u_stableBorrowRate userBefore,
                    u_stableRateLastUpdated := u_stableRateLastUpdated userBefore,
                    u_currentStableDebt :=
                      calcExpectedStableDebtTokenBalance B (u_principalStableDebt userBefore)
                        (u_stableBorrowRate userBefore) (u_stableRateLastUpdated userBefore)
                        currentTimestamp\<rparr>)
      in e\<lparr>u_currentVariableDebt := calcExpectedVariableDebtTokenBalance B expectedAfter e currentTimestamp,
           u_liquidityRate := r_liquidityRate expectedAfter,
           u_usageAsCollateralEnabled := u_usageAsCollateralEnabled userBefore,
           u_currentATokenBalance := calcExpectedATokenBalance B expectedAfter userBefore currentTimestamp,
           u_scaledATokenBalance := u_scaledATokenBalance userBefore,
           u_walletBalance := bn_plus B (u_walletBalance userBefore) (bn_parse B amountBorrowed)\<rparr>)"

definition calcExpectedUserDataAfterRepay ::
    "'b bn_api \<Rightarrow> string \<Rightarrow> string \<Rightarrow> 'b ReserveData \<Rightarrow> 'b ReserveData \<Rightarrow> 'b UserReserveData \<Rightarrow> string \<Rightarrow> string
     \<Rightarrow> 'b \<Rightarrow> 'b \<Rightarrow> 'b UserReserveData" where
  "calcExpectedUserDataAfterRepay B totalRepaid rateMode before expectedAfter userBefore user onBehalfOf
       txTimestamp currentTimestamp =
     (let variableDebt = calcExpectedVariableDebtTokenBalance B before userBefore currentTimestamp;
          stableDebt =
            calcExpectedStableDebtTokenBalance B (u_principalStableDebt userBefore)
              (u_stableBorrowRate userBefore) (u_stableRateLastUpdated userBefore) currentTimestamp;
          totalRepaidBN0 = bn_parse B totalRepaid;
          totalRepaidBN =
            (if bn_eq B (bn_abs B totalRepaidBN0) (bn_parse B MAX_UINT_AMOUNT)
             then (if rateMode = rate_mode_value Stable then stableDebt else variableDebt)
             else totalRepaidBN0);
          e = empty_UserReserveData B;
          e = (if rateMode = rate_mode_value Stable then
                 let currentStableDebt = bn_minus B stableDebt totalRepaidBN;
                     e = e\<lparr>u_scaledVariableDebt := u_scaledVariableDebt userBefore,
                           u_currentVariableDebt := variableDebt,
                           u_principalStableDebt := currentStableDebt,
                           u_currentStableDebt := currentStableDebt\<rparr>
                 in if bn_eq B currentStableDebt (bn_parse B ''0'')
                    then e\<lparr>u_stableBorrowRate := bn_parse B ''0'', u_stableRateLastUpdated := bn_parse B ''0''\<rparr>
                    else e\<lparr>u_stableBorrowRate := u_stableBorrowRate userBefore,
                           u_stableRateLastUpdated := txTimestamp\<rparr>
               else
                 let scaledVariableDebt =
                       bn_minus B (u_scaledVariableDebt userBefore)
                         (rayDiv B totalRepaidBN (r_variableBorrowIndex expectedAfter))
                 in e\<lparr>u_currentStableDebt := u_principalStableDebt userBefore,
                      u_principalStableDebt := stableDebt,
                      u_stableBorrowRate := u_stableBorrowRate userBefore,
                      u_stableRateLastUpdated := u_stableRateLastUpdated userBefore,
                      u_scaledVariableDebt := scaledVariableDebt,
                      u_currentVariableDebt :=
                        rayMul B scaledVariableDebt (r_variableBorrowIndex expectedAfter)\<rparr>)
      in e\<lparr>u_liquidityRate := r_liquidityRate expectedAfter,
           u_usageAsCollateralEnabled := u_usageAsCollateralEnabled userBefore,
           u_currentATokenBalance := calcExpectedATokenBalance B before userBefore txTimestamp,
           u_scaledATokenBalance := u_scaledATokenBalance userBefore,
           u_walletBalance :=
             (if user = onBehalfOf then bn_minus B (u_walletBalance userBefore) totalRepaidBN
              else u_walletBalance userBefore)\<rparr>)"

section \<open>Collateral, swapping and rebalancing\<close>

definition calcExpectedUserDataAfterSetUseAsCollateral ::
    "bool \<Rightarrow> 'b UserReserveData \<Rightarrow> 'b UserReserveData" where
  "calcExpectedUserDataAfterSetUseAsCollateral useAsCollateral userBefore =
     userBefore\<lparr>u_usageAsCollateralEnabled := useAsCollateral\<rparr>"

definition calcExpectedUserDataAfterSwapRateMode ::
    "'b bn_api \<Rightarrow> 'b ReserveData \<Rightarrow> 'b ReserveData \<Rightarrow> 'b UserReserveData \<Rightarrow> string \<Rightarrow> 'b \<Rightarrow> 'b UserReserveData" where
  "calcExpectedUserDataAfterSwapRateMode B before expectedAfter userBefore rateMode txTimestamp =
     (let e = userBefore;
          stableDebtBalance =
            calcExpectedStableDebtTokenBalance B (u_principalStableDebt userBefore)
              (u_stableBorrowRate userBefore) (u_stableRateLastUpdated userBefore) txTimestamp;
          variableDebtBalance = calcExpectedVariableDebtTokenBalance B before userBefore txTimestamp;
          e = e\<lparr>u_currentATokenBalance := calcExpectedATokenBalance B before userBefore txTimestamp\<rparr>;
          e = (if rateMode = rate_mode_value Stable then
                 let scaledVariableDebt =
                       bn_plus B (u_scaledVariableDebt userBefore)
                         (rayDiv B stableDebtBalance (r_variableBorrowIndex expectedAfter))
                 in e\<lparr>u_principalStableDebt := bn_of B 0, u_currentStableDebt := bn_of B 0,
                      u_stableBorrowRate := bn_of B 0, u_scaledVariableDebt := scaledVariableDebt,
                      u_currentVariableDebt :=
                        rayMul B scaledVariableDebt (r_variableBorrowIndex expectedAfter),
                      u_stableRateLastUpdated := bn_of B 0\<rparr>
               else
                 let currentStableDebt = bn_plus B (u_currentStableDebt userBefore) variableDebtBalance
                 in e\<lparr>u_currentStableDebt := currentStableDebt, u_principalStableDebt := currentStableDebt,
                      u_stableBorrowRate :=
                        calcExpectedUserStableRate B stableDebtBalance (u_stableBorrowRate userBefore)
                          variableDebtBalance (r_stableBorrowRate before),
                      u_stableRateLastUpdated := txTimestamp,
                      u_scaledVariableDebt := bn_of B 0, u_currentVariableDebt := bn_of B 0\<rparr>)
      in e\<lparr>u_liquidityRate := r_liquidityRate expectedAfter\<rparr>)"

definition calcExpectedUserDataAfterStableRateRebalance ::
    "'b bn_api \<Rightarrow> 'b ReserveData \<Rightarrow> 'b ReserveData \<Rightarrow> 'b UserReserveData \<Rightarrow> 'b \<Rightarrow> 'b UserReserveData" where
  "calcExpectedUserDataAfterStableRateRebalance B before expectedAfter userBefore txTimestamp =
     (let e = userBefore;
          e = e\<lparr>u_principalStableDebt := u_principalStableDebt userBefore,
                u_principalVariableDebt := calcExpectedVariableDebtTokenBalance B before userBefore txTimestamp\<rparr>;
          stableDebt =
            calcExpectedStableDebtTokenBalance B (u_principalStableDebt userBefore)
              (u_stableBorrowRate userBefore) (u_stableRateLastUpdated userBefore) txTimestamp
      in e\<lparr>u_principalStableDebt := stableDebt, u_currentStableDebt := stableDebt,
           u_currentVariableDebt := calcExpectedVariableDebtTokenBalance B before userBefore txTimestamp,
           u_stableRateLastUpdated := txTimestamp,
           u_principalVariableDebt := u_principalVariableDebt userBefore,
           u_stableBorrowRate := r_averageStableBorrowRate expectedAfter,
           u_liquidityRate := r_liquidityRate expectedAfter,
           u_currentATokenBalance := calcExpectedATokenBalance B before userBefore txTimestamp\<rparr>)"

end
