(* ===== verification/SuiteHelpers.thy ===== *)
theory SuiteHelpers
  imports Suite ReserveCalc UserCalc
begin

text \<open>
  \<^verbatim>\<open>test-suites/test-ftm/helpers/utils/helpers.ts\<close>: reading a reserve's and a user's state off the
  contracts. The reads of one \<open>Promise.all\<close> are made one after the other.
\<close>

section \<open>Reserves\<close>

definition getReserveData :: "('x, 'b) suite \<Rightarrow> Instance \<Rightarrow> tEthereumAddress \<Rightarrow> ('x, 'b ReserveData) io" where
  "getReserveData S helper reserve =
     (let rt = suite_rt S; B = suite_bn S in
     await (call rt helper ''getReserveData'' [VStr reserve]) (\<lambda>reserveData.
     await (call rt helper ''getReserveTokensAddresses'' [VStr reserve]) (\<lambda>tokenAddresses.
     await (getLendingRateOracle rt None) (\<lambda>rateOracle.
     await (getIErc20Detailed rt (Some reserve)) (\<lambda>token.
     await (lift_result (js_field tokenAddresses ''stableDebtTokenAddress'')) (\<lambda>stableDebtTokenAddress.
     await (getStableDebtToken rt (opt_string stableDebtTokenAddress)) (\<lambda>stableDebtToken.
     await (lift_result (js_field tokenAddresses ''variableDebtTokenAddress'')) (\<lambda>variableDebtTokenAddress.
     await (getVariableDebtToken rt (opt_string variableDebtTokenAddress)) (\<lambda>variableDebtToken.
     await (call rt stableDebtToken ''getSupplyData'' []) (\<lambda>supplyData.
     await (lift_result (js_field supplyData ''0'')) (\<lambda>principalStableDebt.
     await (call rt stableDebtToken ''getTotalSupplyLastUpdated'' []) (\<lambda>totalStableDebtLastUpdated.
     await (call rt variableDebtToken ''scaledTotalSupply'' []) (\<lambda>scaledVariableDebt.
     await (call rt rateOracle ''getMarketBorrowRate'' [VStr reserve]) (\<lambda>marketBorrowRate.
     await (lift_result (js_toString marketBorrowRate)) (\<lambda>rate.
     await (call rt token ''symbol'' []) (\<lambda>symbol.
     await (call rt token ''decimals'' []) (\<lambda>decimals.
     await (lift_result (field_number B reserveData ''availableLiquidity'')) (\<lambda>availableLiquidity.
     await (lift_result (field_number B reserveData ''totalStableDebt'')) (\<lambda>totalStableDebt.
     await (lift_result (field_number B reserveData ''totalVariableDebt'')) (\<lambda>totalVariableDebt.
     let totalLiquidity = bn_plus B (bn_plus B availableLiquidity totalStableDebt) totalVariableDebt;
         totalDebt = bn_plus B totalStableDebt totalVariableDebt;
         utilizationRate = (if bn_eq B totalLiquidity (bn_of B 0) then bn_of B 0 else rayDiv B totalDebt totalLiquidity)
     in
     await (lift_result (field_number B reserveData ''liquidityRate'')) (\<lambda>liquidityRate.
     await (lift_result (field_number B reserveData ''variableBorrowRate'')) (\<lambda>variableBorrowRate.
     await (lift_result (field_number B reserveData ''stableBorrowRate'')) (\<lambda>stableBorrowRate.
     await (lift_result (field_number B reserveData ''averageStableBorrowRate'')) (\<lambda>averageStableBorrowRate.
     await (lift_result (field_number B reserveData ''liquidityIndex'')) (\<lambda>liquidityIndex.
     await (lift_result (field_number B reserveData ''variableBorrowIndex'')) (\<lambda>variableBorrowIndex.
     await (lift_result (js_field reserveData ''lastUpdateTimestamp'')) (\<lambda>lastUpdateTimestamp.
     await (lift_result (js_toString principalStableDebt)) (\<lambda>principal.
     await (lift_result (js_toString scaledVariableDebt)) (\<lambda>scaled.
     await (lift_result (js_field tokenAddresses ''aTokenAddress'')) (\<lambda>aTokenAddress.
     return_io
       \<lparr>r_address = Some reserve, r_symbol = opt_string symbol, r_decimals = new_BigNumber B decimals,
        r_totalLiquidity = totalLiquidity, r_availableLiquidity = availableLiquidity,
        r_totalStableDebt = totalStableDebt, r_totalVariableDebt = totalVariableDebt,
        r_principalStableDebt = bn_parse B principal, r_scaledVariableDebt = bn_parse B scaled,
        r_averageStableBorrowRate = averageStableBorrowRate, r_variableBorrowRate = variableBorrowRate,
        r_stableBorrowRate = stableBorrowRate, r_utilizationRate = utilizationRate,
        r_liquidityIndex = liquidityIndex, r_variableBorrowIndex = variableBorrowIndex,
        r_aTokenAddress = opt_string aTokenAddress, r_marketStableRate = bn_parse B rate,
        r_lastUpdateTimestamp = new_BigNumber B lastUpdateTimestamp,
        r_totalStableDebtLastUpdated = new_BigNumber B totalStableDebtLastUpdated,
        r_liquidityRate = liquidityRate\<rparr>))))))))))))))))))))))))))))))"

section \<open>Users\<close>

definition getATokenUserData :: "('x, 'b) suite \<Rightarrow> string \<Rightarrow> string \<Rightarrow> Instance \<Rightarrow> ('x, string) io" where
  "getATokenUserData S reserve user helper =
     await (call (suite_rt S) helper ''getReserveTokensAddresses'' [VStr reserve]) (\<lambda>tokenAddresses.
     await (lift_result (js_field tokenAddresses ''aTokenAddress'')) (\<lambda>aTokenAddress.
     await (getAToken (suite_rt S) (opt_string aTokenAddress)) (\<lambda>aToken.
     await (call (suite_rt S) aToken ''scaledBalanceOf'' [VStr user]) (\<lambda>scaledBalance.
     lift_result (js_toString scaledBalance)))))"

text \<open>
  The wallet holds the underlying of the collateral token yvWFTM, so that reserve's balance is read
  off WFTM. The two members of a user's data the calculations also know, \<open>variableBorrowIndex\<close> and
  \<open>principalVariableDebt\<close>, are not read.
\<close>

definition getUserData ::
    "('x, 'b) suite \<Rightarrow> Instance \<Rightarrow> string \<Rightarrow> tEthereumAddress \<Rightarrow> tEthereumAddress option \<Rightarrow> ('x, 'b UserReserveData) io" where
  "getUserData S helper reserve user sender =
     (let rt = suite_rt S; B = suite_bn S; network = network_name rt in
     await (call rt helper ''getUserReserveData'' [VStr reserve, VStr user]) (\<lambda>userData.
     await (getATokenUserData S reserve user helper) (\<lambda>scaledATokenBalance.
     await (lift_result (loadPoolConfig ''Fantom'')) (\<lambda>config.
     let reserveAssets = getParamPerNetwork (env_FORK rt) (ReserveAssets config) network in
     await (lift_result (networkParam rt config ''WFTM'' network)) (\<lambda>wftm.
     await (getMintableERC20 rt (Some reserve)) (\<lambda>reserveToken.
     await (lift_result (deref reserveAssets)) (\<lambda>reserveAssets.
     await (if obj_get reserveAssets ''yvWFTM'' = Some reserve then getMintableERC20 rt (opt_string wftm)
            else return_io reserveToken) (\<lambda>token.
     await (call rt token ''balanceOf'' [VStr (if truthy_string sender then the sender else user)]) (\<lambda>balance.
     await (lift_result (js_toString balance)) (\<lambda>walletBalance.
     await (lift_result (field_number B userData ''currentATokenBalance'')) (\<lambda>currentATokenBalance.
     await (lift_result (field_number B userData ''currentStableDebt'')) (\<lambda>currentStableDebt.
     await (lift_result (field_number B userData ''currentVariableDebt'')) (\<lambda>currentVariableDebt.
     await (lift_result (field_number B userData ''principalStableDebt'')) (\<lambda>principalStableDebt.
     await (lift_result (field_number B userData ''scaledVariableDebt'')) (\<lambda>scaledVariableDebt.
     await (lift_result (field_number B userData ''stableBorrowRate'')) (\<lambda>stableBorrowRate.
     await (lift_result (field_number B userData ''liquidityRate'')) (\<lambda>liquidityRate.
     await (lift_result (js_field userData ''usageAsCollateralEnabled'')) (\<lambda>usageAsCollateralEnabled.
     await (lift_result (field_number B userData ''stableRateLastUpdated'')) (\<lambda>stableRateLastUpdated.
     return_io
       ((empty_UserReserveData B)
         \<lparr>u_scaledATokenBalance := bn_parse B scaledATokenBalance,
          u_currentATokenBalance := currentATokenBalance, u_currentStableDebt := currentStableDebt,
          u_currentVariableDebt := currentVariableDebt, u_principalStableDebt := principalStableDebt,
          u_scaledVariableDebt := scaledVariableDebt, u_stableBorrowRate := stableBorrowRate,
          u_liquidityRate := liquidityRate, u_usageAsCollateralEnabled := js_truthy usageAsCollateralEnabled,
          u_stableRateLastUpdated := stableRateLastUpdated,
          u_walletBalance := bn_parse B walletBalance\<rparr>))))))))))))))))))))"

section \<open>Symbols\<close>

text \<open>The address of a symbol: of the market's assets, else of the deployment database.\<close>

definition getReserveAddressFromSymbol :: "('x, 'b) suite \<Rightarrow> string \<Rightarrow> ('x, tEthereumAddress) io" where
  "getReserveAddressFromSymbol S symbol =
     (let rt = suite_rt S in
     await (lift_result (loadPoolConfig ''Fantom'')) (\<lambda>config.
     await (lift_result (deref (getParamPerNetwork (env_FORK rt) (ReserveAssets config) (network_name rt)))) (\<lambda>reserveAssets.
     await (if truthy_string (obj_get reserveAssets symbol) then return_io (obj_get reserveAssets symbol)
            else await (db_get rt symbol) (\<lambda>e. return_io (map_option entry_address e))) (\<lambda>address.
     await (getMintableERC20 rt address) (\<lambda>token.
     return_io (contract_address token))))))"

end
