(* ===== verification/ActionChecks.thy ===== *)
theory ActionChecks
  imports SuiteHelpers
begin

text \<open>
  The comparison of \<^verbatim>\<open>test-suites/test-ftm/helpers/actions.ts\<close>: \<open>almostEqualOrEqual\<close>, which every action
  uses to compare the state it reads with the state it expects, and the exact set of states it accepts.
\<close>

section \<open>The compared objects\<close>

datatype 'b js_prop = PUndef | PNum 'b | PStr string | PBool bool

definition num_prop :: "'b bn_api \<Rightarrow> 'b \<Rightarrow> 'b js_prop" where
  "num_prop B x = (if x = bn_undef B then PUndef else PNum x)"

definition str_prop :: "string option \<Rightarrow> 'b js_prop" where
  "str_prop s = (case s of None \<Rightarrow> PUndef | Some t \<Rightarrow> PStr t)"

text \<open>The own properties in the order \<open>getReserveData\<close> and \<open>getUserData\<close> build them.\<close>

definition reserve_object :: "'b bn_api \<Rightarrow> 'b ReserveData \<Rightarrow> 'b js_prop obj" where
  "reserve_object B r =
     [(''totalLiquidity'', num_prop B (r_totalLiquidity r)),
      (''utilizationRate'', num_prop B (r_utilizationRate r)),
      (''availableLiquidity'', num_prop B (r_availableLiquidity r)),
      (''totalStableDebt'', num_prop B (r_totalStableDebt r)),
      (''totalVariableDebt'', num_prop B (r_totalVariableDebt r)),
      (''liquidityRate'', num_prop B (r_liquidityRate r)),
      (''variableBorrowRate'', num_prop B (r_variableBorrowRate r)),
      (''stableBorrowRate'', num_prop B (r_stableBorrowRate r)),
      (''averageStableBorrowRate'', num_prop B (r_averageStableBorrowRate r)),
      (''liquidityIndex'', num_prop B (r_liquidityIndex r)),
      (''variableBorrowIndex'', num_prop B (r_variableBorrowIndex r)),
      (''lastUpdateTimestamp'', num_prop B (r_lastUpdateTimestamp r)),
      (''totalStableDebtLastUpdated'', num_prop B (r_totalStableDebtLastUpdated r)),
      (''principalStableDebt'', num_prop B (r_principalStableDebt r)),
      (''scaledVariableDebt'', num_prop B (r_scaledVariableDebt r)),
      (''address'', str_prop (r_address r)),
      (''aTokenAddress'', str_prop (r_aTokenAddress r)),
      (''symbol'', str_prop (r_symbol r)),
      (''decimals'', num_prop B (r_decimals r)),
      (''marketStableRate'', num_prop B (r_marketStableRate r))]"

definition user_object :: "'b bn_api \<Rightarrow> 'b UserReserveData \<Rightarrow> 'b js_prop obj" where
  "user_object B u =
     [(''scaledATokenBalance'', num_prop B (u_scaledATokenBalance u)),
      (''currentATokenBalance'', num_prop B (u_currentATokenBalance u)),
      (''currentStableDebt'', num_prop B (u_currentStableDebt u)),
      (''currentVariableDebt'', num_prop B (u_currentVariableDebt u)),
      (''principalStableDebt'', num_prop B (u_principalStableDebt u)),
      (''scaledVariableDebt'', num_prop B (u_scaledVariableDebt u)),
      (''stableBorrowRate'', num_prop B (u_stableBorrowRate u)),
      (''liquidityRate'', num_prop B (u_liquidityRate u)),
      (''usageAsCollateralEnabled'', PBool (u_usageAsCollateralEnabled u)),
      (''stableRateLastUpdated'', num_prop B (u_stableRateLastUpdated u)),
      (''walletBalance'', num_prop B (u_walletBalance u))]"

text \<open>\<open>const { k1, k2, ...rest } = ob\<close>\<close>

definition obj_rest :: "string list \<Rightarrow> 'v obj \<Rightarrow> 'v obj" where
  "obj_rest ks ob = filter (\<lambda>(k, _). k \<notin> set ks) ob"

section \<open>The comparison\<close>

text \<open>
  \<open>prop.toString()\<close>; \<open>undefined\<close> has no methods. The two \<open>decimalPlaces\<close> calls truncate; a string or
  a boolean has no such method.
\<close>

definition prop_toString :: "'b bn_api \<Rightarrow> 'b js_prop \<Rightarrow> string result" where
  "prop_toString B p =
     (case p of
        PUndef \<Rightarrow> Inl TypeError
      | PNum x \<Rightarrow> Inr (bn_toString B x)
      | PStr s \<Rightarrow> Inr s
      | PBool b \<Rightarrow> Inr (if b then ''true'' else ''false''))"

definition prop_truncated :: "'b bn_api \<Rightarrow> 'b js_prop \<Rightarrow> 'b result" where
  "prop_truncated B p = (case p of PNum x \<Rightarrow> Inr (bn_dp0 B x) | _ \<Rightarrow> Inl TypeError)"

definition accessory :: "string set" where
  "accessory = {''lastUpdateTimestamp'', ''marketStableRate'', ''symbol'', ''aTokenAddress'', ''decimals'',
     ''totalStableDebtLastUpdated''}"

definition close_values :: "'b bn_api \<Rightarrow> 'b \<Rightarrow> 'b \<Rightarrow> bool" where
  "close_values B actualValue expectedValue \<longleftrightarrow>
     bn_eq B actualValue expectedValue
     \<or> bn_eq B (bn_plus B actualValue (bn_of B 1)) expectedValue
     \<or> bn_eq B actualValue (bn_plus B expectedValue (bn_of B 1))
     \<or> bn_eq B (bn_plus B actualValue (bn_of B 2)) expectedValue
     \<or> bn_eq B actualValue (bn_plus B expectedValue (bn_of B 2))
     \<or> bn_eq B (bn_plus B actualValue (bn_of B 3)) expectedValue
     \<or> bn_eq B actualValue (bn_plus B expectedValue (bn_of B 3))"

text \<open>
  One key. The second \<open>expect\<close> of the code has no matcher, so nothing comes of it. A property that
  is \<open>undefined\<close> in the expected data alone is a \<open>TypeError\<close> of the method called on it.
\<close>

definition compare_key :: "'b bn_api \<Rightarrow> 'b js_prop obj \<Rightarrow> string \<times> 'b js_prop \<Rightarrow> unit result" where
  "compare_key B expected entry =
     (case entry of (key, actual_value) \<Rightarrow>
        if key \<in> accessory then Inr ()
        else
          bindR (assert_that (actual_value \<noteq> PUndef) (''Property '' @ key @ '' is undefined in the actual data'')) (\<lambda>_.
          let expected_value = (case obj_get expected key of None \<Rightarrow> PUndef | Some p \<Rightarrow> p) in
          case actual_value of
            PNum x \<Rightarrow>
              bindR (prop_truncated B (PNum x)) (\<lambda>actualValue.
              bindR (prop_truncated B expected_value) (\<lambda>expectedValue.
              assert_that (close_values B actualValue expectedValue)
                (''expected #{act} to be almost equal or equal #{exp} for property '' @ key)))
          | _ \<Rightarrow>
              bindR (prop_toString B actual_value) (\<lambda>a.
              bindR (prop_toString B expected_value) (\<lambda>e.
              assert_that (a = e) (''expected #{act} to be equal #{exp} for property '' @ key)))))"

fun compare_keys :: "'b bn_api \<Rightarrow> 'b js_prop obj \<Rightarrow> 'b js_prop obj \<Rightarrow> unit result" where
  "compare_keys B expected [] = Inr ()"
| "compare_keys B expected (entry # actual) = bindR (compare_key B expected entry) (\<lambda>_. compare_keys B expected actual)"

definition almostEqualOrEqual :: "'b bn_api \<Rightarrow> 'b js_prop obj \<Rightarrow> 'b js_prop obj \<Rightarrow> unit result" where
  "almostEqualOrEqual B expected actual = compare_keys B expected actual"

text \<open>\<open>expectEqual(actual, expected)\<close>, unless the integrity checks are switched off.\<close>

definition expectEqual :: "('x, 'b) suite \<Rightarrow> 'b js_prop obj \<Rightarrow> 'b js_prop obj \<Rightarrow> unit result" where
  "expectEqual S actual expected =
     (if \<not> skipIntegrityCheck S then almostEqualOrEqual (suite_bn S) expected actual else Inr ())"

section \<open>What it accepts\<close>

lemma assert_that_Inr [simp]: "assert_that c msg = Inr u \<longleftrightarrow> c"
  by (simp add: assert_that_def)

lemma compare_keys_Inr: "compare_keys B expected actual = Inr u \<longleftrightarrow> (\<forall>e \<in> set actual. compare_key B expected e = Inr ())"
  by (induction actual) (auto simp: bindR_Inr_iff)

text \<open>The members that are compared as numbers, in the order of the keys.\<close>

definition reserve_numbers :: "'b ReserveData \<Rightarrow> 'b list" where
  "reserve_numbers r = [r_totalLiquidity r, r_utilizationRate r, r_availableLiquidity r, r_totalStableDebt r,
     r_totalVariableDebt r, r_liquidityRate r, r_variableBorrowRate r, r_stableBorrowRate r,
     r_averageStableBorrowRate r, r_liquidityIndex r, r_variableBorrowIndex r, r_principalStableDebt r,
     r_scaledVariableDebt r]"

definition user_numbers :: "'b UserReserveData \<Rightarrow> 'b list" where
  "user_numbers u = [u_scaledATokenBalance u, u_currentATokenBalance u, u_currentStableDebt u,
     u_currentVariableDebt u, u_principalStableDebt u, u_scaledVariableDebt u, u_stableBorrowRate u,
     u_liquidityRate u, u_stableRateLastUpdated u, u_walletBalance u]"

context bignumber_int
begin

lemma close_values_iff:
  "denotes val x m \<Longrightarrow> denotes val y n \<Longrightarrow> close_values B x y \<longleftrightarrow> \<bar>m - n\<bar> \<le> 3"
proof -
  assume d: "denotes val x m" "denotes val y n"
  have p: "denotes val (bn_plus B x (bn_of B k)) (m + k)" "denotes val (bn_plus B y (bn_of B k)) (n + k)" for k
    using d by (auto intro: denotes_plus denotes_of)
  show ?thesis
    unfolding close_values_def eq_iff [OF d] eq_iff [OF p(1) d(2)] eq_iff [OF d(1) p(2)] by arith
qed

lemma num_prop_denotes: "val (bn_undef B) = None \<Longrightarrow> denotes val x m \<Longrightarrow> num_prop B x = PNum x"
  by (auto simp: num_prop_def denotes_def)

lemma compare_number:
  "compare_key B expected (key, PNum x) = Inr u \<longleftrightarrow> key \<in> accessory
     \<or> (\<exists>y. obj_get expected key = Some (PNum y) \<and> close_values B (bn_dp0 B x) (bn_dp0 B y))"
  by (auto simp: compare_key_def assert_that_def prop_truncated_def Let_def bindR_Inr_iff split: option.splits js_prop.splits)

lemma compare_string:
  "compare_key B expected (key, PStr s) = Inr u \<longleftrightarrow> key \<in> accessory
     \<or> (\<exists>p. obj_get expected key = Some p \<and> prop_toString B p = Inr s)"
  by (auto simp: compare_key_def prop_toString_def assert_that_def Let_def bindR_Inr_iff split: option.splits js_prop.splits)

lemma compare_flag:
  "compare_key B expected (key, PBool a) = Inr u \<longleftrightarrow> key \<in> accessory
     \<or> (\<exists>p. obj_get expected key = Some p \<and> prop_toString B p = Inr (if a then ''true'' else ''false''))"
  by (auto simp: compare_key_def prop_toString_def assert_that_def Let_def bindR_Inr_iff split: option.splits js_prop.splits if_splits)

lemma compare_accessory: "key \<in> accessory \<Longrightarrow> compare_key B expected (key, p) = Inr ()"
  by (simp add: compare_key_def)

lemma close_lists:
  "list_all2 (denotes val) as xs \<Longrightarrow> list_all2 (denotes val) es ys \<Longrightarrow>
   list_all2 (\<lambda>a e. close_values B (bn_dp0 B a) (bn_dp0 B e)) as es \<longleftrightarrow> list_all2 (\<lambda>x y. \<bar>x - y\<bar> \<le> 3) xs ys"
proof (induction as xs arbitrary: es ys rule: list_all2_induct)
  case Nil
  then show ?case by (cases es; cases ys) auto
next
  case (Cons a x as xs)
  show ?case
  proof (cases es)
    case Nil
    with Cons.prems show ?thesis by auto
  next
    case (Cons e es')
    with Cons.prems obtain y ys' where ys: "ys = y # ys'" "denotes val e y" "list_all2 (denotes val) es' ys'"
      by (auto simp: list_all2_Cons1)
    show ?thesis
      unfolding ys(1) Cons list_all2_Cons Cons.IH [OF ys(3)]
        close_values_iff [OF denotes_dp0 [OF Cons.hyps(1)] denotes_dp0 [OF ys(2)]] ..
  qed
qed

lemma numbers_defined:
  "val (bn_undef B) = None \<Longrightarrow> list_all2 (denotes val) as xs \<Longrightarrow> \<forall>x \<in> set as. num_prop B x = PNum x"
  by (fastforce simp: in_set_conv_nth list_all2_conv_all_nth intro: num_prop_denotes)

lemma str_prop_toString: "prop_toString B (str_prop t) = Inr s \<longleftrightarrow> t = Some s"
  by (cases t) (simp_all add: str_prop_def prop_toString_def)

lemma reserve_comparison:
  assumes undef: "val (bn_undef B) = None" and a: "list_all2 (denotes val) (reserve_numbers actual) xs"
    and e: "list_all2 (denotes val) (reserve_numbers expected) ys" and addr: "r_address actual = Some s"
  shows "almostEqualOrEqual B (reserve_object B expected) (reserve_object B actual) = Inr () \<longleftrightarrow>
     r_address expected = Some s \<and> list_all2 (\<lambda>x y. \<bar>x - y\<bar> \<le> 3) xs ys"
proof -
  note num = numbers_defined [OF undef a, unfolded reserve_numbers_def] numbers_defined [OF undef e, unfolded reserve_numbers_def]
  show ?thesis
    unfolding close_lists [OF a e, symmetric] almostEqualOrEqual_def compare_keys_Inr
    unfolding reserve_object_def addr reserve_numbers_def
    using num by (simp add: compare_accessory [unfolded accessory_def] compare_number compare_string str_prop_toString
        obj_get_def accessory_def str_prop_def [of "Some s"] conj_comms conj_left_commute)
qed

lemma user_comparison:
  assumes undef: "val (bn_undef B) = None" and a: "list_all2 (denotes val) (user_numbers actual) xs"
    and e: "list_all2 (denotes val) (user_numbers expected) ys"
  shows "almostEqualOrEqual B (user_object B expected) (user_object B actual) = Inr () \<longleftrightarrow>
     u_usageAsCollateralEnabled actual = u_usageAsCollateralEnabled expected \<and> list_all2 (\<lambda>x y. \<bar>x - y\<bar> \<le> 3) xs ys"
proof -
  note num = numbers_defined [OF undef a, unfolded user_numbers_def] numbers_defined [OF undef e, unfolded user_numbers_def]
  show ?thesis
    unfolding close_lists [OF a e, symmetric] almostEqualOrEqual_def compare_keys_Inr
    unfolding user_object_def user_numbers_def
    using num by (simp add: compare_number compare_flag prop_toString_def obj_get_def accessory_def
        conj_comms conj_left_commute)
qed

end

end
