(* ===== verification/Actions.thy ===== *)
theory Actions
  imports ActionChecks
begin

text \<open>
  The actions of \<^verbatim>\<open>test-suites/test-ftm/helpers/actions.ts\<close>: each sends its transaction, reads the state
  before and after, and compares the state after with what the calculations expect; or expects the
  transaction to be rejected; or, for any other expectation, does neither. A user that the scenario
  does not have is \<open>undefined\<close>. The arguments that are never read (\<open>txCost\<close> of most calculations, the
  aToken instance of \<open>getDataBeforeAction\<close>) are fetched as the code fetches them.
\<close>

section \<open>Reading the state\<close>

definition getTxCostAndTimestamp :: "('x, 'b) suite \<Rightarrow> receipt \<Rightarrow> ('x, 'b \<times> 'b) io" where
  "getTxCostAndTimestamp S tx =
     (let B = suite_bn S in
     case (receipt_blockNumber tx, receipt_transactionHash tx, receipt_cumulativeGasUsed tx) of
       (Some number, Some hash, Some gas) \<Rightarrow>
         if number = 0 \<or> hash = [] then throw_io (Thrown ''No tx blocknumber'')
         else
           await (on_network (node_getBlock (suite_node S) (VNum number))) (\<lambda>block.
           await (lift_result (deref block)) (\<lambda>timestamp.
           let txTimestamp = bn_of B timestamp in
           await (on_network (node_gasPrice (suite_node S) hash)) (\<lambda>gasPrice.
           await (lift_result (deref gasPrice)) (\<lambda>gasPrice.
           let txCost = bn_times B (bn_parse B (dec gas)) (bn_parse B (dec gasPrice)) in
           return_io (txCost, txTimestamp)))))
     | _ \<Rightarrow> throw_io (Thrown ''No tx blocknumber''))"

definition getContractsData ::
    "('x, 'b) suite \<Rightarrow> string \<Rightarrow> string \<Rightarrow> TestEnv \<Rightarrow> string option
     \<Rightarrow> ('x, 'b ReserveData \<times> 'b UserReserveData \<times> 'b) io" where
  "getContractsData S reserve user env sender =
     await (getUserData S (helpersContract env) reserve user (if truthy_string sender then sender else Some user)) (\<lambda>userData.
     await (getReserveData S (helpersContract env) reserve) (\<lambda>reserveData.
     await (timeLatest S) (\<lambda>timestamp.
     return_io (reserveData, userData, timestamp))))"

definition getDataBeforeAction ::
    "('x, 'b) suite \<Rightarrow> string \<Rightarrow> tEthereumAddress \<Rightarrow> TestEnv
     \<Rightarrow> ('x, string \<times> 'b ReserveData \<times> 'b UserReserveData \<times> Instance) io" where
  "getDataBeforeAction S reserveSymbol user env =
     await (getReserveAddressFromSymbol S reserveSymbol) (\<lambda>reserve.
     await (getContractsData S reserve user env None) (\<lambda>(reserveData, userData, _).
     await (getAToken (suite_rt S) (r_aTokenAddress reserveData)) (\<lambda>aTokenInstance.
     return_io (reserve, reserveData, userData, aTokenInstance))))"

text \<open>The objects \<open>expectEqual\<close> gets, and its failure as a failure of the action.\<close>

definition expect_reserve :: "('x, 'b) suite \<Rightarrow> 'b ReserveData \<Rightarrow> 'b ReserveData \<Rightarrow> ('x, unit) io" where
  "expect_reserve S actual expected =
     lift_result (expectEqual S (reserve_object (suite_bn S) actual) (reserve_object (suite_bn S) expected))"

definition expect_user :: "('x, 'b) suite \<Rightarrow> 'b UserReserveData \<Rightarrow> 'b UserReserveData \<Rightarrow> ('x, unit) io" where
  "expect_user S actual expected =
     lift_result (expectEqual S (user_object (suite_bn S) actual) (user_object (suite_bn S) expected))"

text \<open>\<open>expect(x.minus(y).lte(n)).to.equal(true)\<close>\<close>

definition expect_lte :: "('x, 'b) suite \<Rightarrow> 'b \<Rightarrow> 'b \<Rightarrow> int \<Rightarrow> ('x, unit) io" where
  "expect_lte S x y n =
     lift_result (assert_that (bn_lte (suite_bn S) (bn_minus (suite_bn S) x y) (bn_of (suite_bn S) n))
       ''expected false to equal true'')"

section \<open>Funding and approving\<close>

definition mint ::
    "('x, 'b) suite \<Rightarrow> string \<Rightarrow> string \<Rightarrow> SignerWithAddress option \<Rightarrow> TestEnv \<Rightarrow> ('x, unit) io" where
  "mint S reserveSymbol amount user env =
     (let (ownerAddress, token) =
            (if reserveSymbol = ''USDC'' then (''0x93C08a3168fC469F3fC165cd3A471D19a37ca19e'', Some (usdc env))
             else if reserveSymbol = ''DAI'' then (''0x6Bf97f2534be2242dDb3A29bfb24d498212DcdED'', Some (dai env))
             else if reserveSymbol = ''yvWFTM'' then (''0x4901C740607E415685b4d09E4Aa960329cd183Ca'', Some (WFTM env))
             else ('''', None))
     in
     await (lift_result (deref token)) (\<lambda>token.
     await (convertToCurrencyDecimals S (contract_address token) amount) (\<lambda>depositAmount.
     await (impersonateAccountsHardhat (suite_rt S) [ownerAddress]) (\<lambda>_.
     await (on_network (rt_getSigner (suite_rt S) ownerAddress)) (\<lambda>owner.
     await (lift_result (deref user)) (\<lambda>user.
     await (transact S (connect token owner) ''transfer'' [VStr (signer_address user), VNum depositAmount]) (\<lambda>_.
     return_io ())))))))"

definition max_approval :: js_val where
  "max_approval = VStr ''100000000000000000000000000000''"

definition approve ::
    "('x, 'b) suite \<Rightarrow> string \<Rightarrow> SignerWithAddress option \<Rightarrow> TestEnv \<Rightarrow> ('x, unit) io" where
  "approve S reserveSymbol user env =
     await (getReserveAddressFromSymbol S reserveSymbol) (\<lambda>reserve.
     await (getMintableERC20 (suite_rt S) (Some reserve)) (\<lambda>token.
     await (lift_result (deref user)) (\<lambda>user.
     await (transact S (connect token (signer user)) ''approve''
              [VStr (contract_address (pool env)), max_approval]) (\<lambda>_.
     return_io ()))))"

definition approveVault ::
    "('x, 'b) suite \<Rightarrow> string \<Rightarrow> SignerWithAddress option \<Rightarrow> TestEnv \<Rightarrow> ('x, unit) io" where
  "approveVault S reserveSymbol user env =
     await (getMintableERC20 (suite_rt S) (Some (contract_address (WFTM env)))) (\<lambda>token.
     await (lift_result (deref user)) (\<lambda>user.
     await (transact S (connect token (signer user)) ''approve''
              [VStr (contract_address (yearnVault env)), max_approval]) (\<lambda>_.
     return_io ())))"

section \<open>Deposits\<close>

text \<open>The options object of a transaction: \<open>{}\<close>, or \<open>{value}\<close> when a value is sent along.\<close>

definition tx_options :: "js_val option \<Rightarrow> js_val" where
  "tx_options v = VObj (case v of None \<Rightarrow> [] | Some n \<Rightarrow> [(''value'', n)])"

definition value_option :: "('x, 'b) suite \<Rightarrow> tEthereumAddress \<Rightarrow> string option \<Rightarrow> ('x, js_val) io" where
  "value_option S token sendValue =
     (case sendValue of
        None \<Rightarrow> return_io (tx_options None)
      | Some v \<Rightarrow> if v = [] then return_io (tx_options None)
                  else await (convertToCurrencyDecimals S token v) (\<lambda>n. return_io (tx_options (Some (VNum n)))))"

definition deposit ::
    "('x, 'b) suite \<Rightarrow> string \<Rightarrow> string \<Rightarrow> SignerWithAddress option \<Rightarrow> tEthereumAddress \<Rightarrow> string option \<Rightarrow> string
     \<Rightarrow> TestEnv \<Rightarrow> string option \<Rightarrow> ('x, unit) io" where
  "deposit S reserveSymbol amount sender onBehalfOf sendValue expectedResult env revertMessage =
     (let B = suite_bn S in
     await (getReserveAddressFromSymbol S reserveSymbol) (\<lambda>reserve.
     await (convertToCurrencyDecimals S reserve amount) (\<lambda>amountToDeposit.
     await (lift_result (deref sender)) (\<lambda>sender.
     await (getContractsData S reserve onBehalfOf env (Some (signer_address sender))) (\<lambda>(reserveDataBefore, userDataBefore, _).
     await (value_option S reserve sendValue) (\<lambda>txOptions.
     let lendingPool = connect (pool env) (signer sender);
         args = [VStr reserve, VNum amountToDeposit, VStr onBehalfOf, VStr ''0'', txOptions]
     in
     if expectedResult = ''success'' then
       await (transact S lendingPool ''deposit'' args) (\<lambda>txResult.
       await (getContractsData S reserve onBehalfOf env (Some (signer_address sender))) (\<lambda>(reserveDataAfter, userDataAfter, _).
       await (getTxCostAndTimestamp S txResult) (\<lambda>(txCost, txTimestamp).
       await (lift_result (calcExpectedReserveDataAfterDeposit B (reservesParams S) (dec amountToDeposit)
                reserveDataBefore txTimestamp)) (\<lambda>expectedReserveData.
       let expectedUserReserveData = calcExpectedUserDataAfterDeposit B (ReservesConfig FantomConfig)
             (dec amountToDeposit) reserveDataBefore expectedReserveData userDataBefore txTimestamp reserveSymbol in
       await (expect_reserve S reserveDataAfter expectedReserveData) (\<lambda>_.
       expect_user S userDataAfter expectedUserReserveData)))))
     else if expectedResult = ''revert'' then
       expect_rejection (waffle_reverted (suite_node S)) (send (suite_rt S) lendingPool ''deposit'' args)
     else return_io ()))))))"

text \<open>
  Through the Yearn vault, which takes the underlying WFTM. The reserve's liquidity and the user's
  aToken balances are only bounded from above; the other members are compared.
\<close>

definition depositCollateral ::
    "('x, 'b) suite \<Rightarrow> string \<Rightarrow> string \<Rightarrow> SignerWithAddress option \<Rightarrow> tEthereumAddress \<Rightarrow> string option \<Rightarrow> string
     \<Rightarrow> TestEnv \<Rightarrow> string option \<Rightarrow> ('x, unit) io" where
  "depositCollateral S reserveSymbol amount sender onBehalfOf sendValue expectedResult env revertMessage =
     (let B = suite_bn S in
     await (getReserveAddressFromSymbol S reserveSymbol) (\<lambda>reserve.
     await (convertToCurrencyDecimals S reserve amount) (\<lambda>amountToDeposit.
     await (lift_result (deref sender)) (\<lambda>sender.
     await (getContractsData S reserve onBehalfOf env (Some (signer_address sender))) (\<lambda>(reserveDataBefore, userDataBefore, _).
     await (value_option S (contract_address (WFTM env)) sendValue) (\<lambda>txOptions.
     let vault = connect (yearnVault env) (signer sender) in
     if expectedResult = ''success'' then
       await (transact S vault ''depositCollateral''
                [VStr (contract_address (WFTM env)), VNum amountToDeposit, txOptions]) (\<lambda>txResult.
       await (getContractsData S reserve onBehalfOf env (Some (signer_address sender))) (\<lambda>(reserveDataAfter, userDataAfter, _).
       await (getTxCostAndTimestamp S txResult) (\<lambda>(txCost, txTimestamp).
       await (lift_result (calcExpectedReserveDataAfterDepositCollateral B (reservesParams S) (dec amountToDeposit)
                reserveDataBefore reserveDataAfter txTimestamp)) (\<lambda>expectedReserveData.
       let expectedUserReserveData = calcExpectedUserDataAfterDepositCollateral B (ReservesConfig FantomConfig)
             (dec amountToDeposit) reserveDataBefore expectedReserveData userDataBefore txTimestamp reserveSymbol;
           bounded = [''totalLiquidity'', ''availableLiquidity''];
           userBounded = [''scaledATokenBalance'', ''currentATokenBalance'']
       in
       await (lift_result (expectEqual S (obj_rest bounded (reserve_object B reserveDataAfter))
                (obj_rest bounded (reserve_object B expectedReserveData)))) (\<lambda>_.
       await (expect_lte S (r_totalLiquidity expectedReserveData) (r_totalLiquidity reserveDataAfter) 10000) (\<lambda>_.
       await (expect_lte S (r_availableLiquidity expectedReserveData) (r_availableLiquidity reserveDataAfter) 10000) (\<lambda>_.
       await (lift_result (expectEqual S (obj_rest userBounded (user_object B userDataAfter))
                (obj_rest userBounded (user_object B expectedUserReserveData)))) (\<lambda>_.
       await (expect_lte S (u_scaledATokenBalance expectedUserReserveData) (u_scaledATokenBalance userDataAfter) 1000) (\<lambda>_.
       expect_lte S (u_currentATokenBalance expectedUserReserveData) (u_currentATokenBalance userDataAfter) 1000)))))))))
     else if expectedResult = ''revert'' then
       expect_rejection (waffle_reverted (suite_node S))
         (send (suite_rt S) vault ''depositCollateral'' [VStr reserve, VNum amountToDeposit, txOptions])
     else return_io ()))))))"

section \<open>Withdrawals\<close>

text \<open>\<open>amount !== '-1' ? convert(amount).toString() : MAX_UINT_AMOUNT\<close>\<close>

definition amount_or_max :: "('x, 'b) suite \<Rightarrow> tEthereumAddress \<Rightarrow> string \<Rightarrow> ('x, string) io" where
  "amount_or_max S token amount =
     (if amount \<noteq> ''-1'' then await (convertToCurrencyDecimals S token amount) (\<lambda>n. return_io (dec n))
      else return_io MAX_UINT_AMOUNT)"

definition withdraw ::
    "('x, 'b) suite \<Rightarrow> string \<Rightarrow> string \<Rightarrow> SignerWithAddress option \<Rightarrow> string \<Rightarrow> TestEnv \<Rightarrow> string option
     \<Rightarrow> ('x, unit) io" where
  "withdraw S reserveSymbol amount user expectedResult env revertMessage =
     (let B = suite_bn S in
     await (lift_result (deref user)) (\<lambda>user.
     await (getDataBeforeAction S reserveSymbol (signer_address user) env) (\<lambda>(reserve, reserveDataBefore, userDataBefore, _).
     await (amount_or_max S reserve amount) (\<lambda>amountToWithdraw.
     let lendingPool = connect (pool env) (signer user);
         args = [VStr reserve, VStr amountToWithdraw, VStr (signer_address user)]
     in
     if expectedResult = ''success'' then
       await (transact S lendingPool ''withdraw'' args) (\<lambda>txResult.
       await (getContractsData S reserve (signer_address user) env None) (\<lambda>(reserveDataAfter, userDataAfter, _).
       await (getTxCostAndTimestamp S txResult) (\<lambda>(txCost, txTimestamp).
       await (lift_result (calcExpectedReserveDataAfterWithdraw B (reservesParams S) amountToWithdraw
                reserveDataBefore userDataBefore txTimestamp)) (\<lambda>expectedReserveData.
       let expectedUserData = calcExpectedUserDataAfterWithdraw B amountToWithdraw reserveDataBefore
             expectedReserveData userDataBefore txTimestamp in
       await (expect_reserve S reserveDataAfter expectedReserveData) (\<lambda>_.
       expect_user S userDataAfter expectedUserData)))))
     else if expectedResult = ''revert'' then
       expect_rejection (waffle_reverted (suite_node S)) (send (suite_rt S) lendingPool ''withdraw'' args)
     else return_io ()))))"

text \<open>
  The last comparison has no wallet balance among the actual members, so it repeats the one before
  the bound.
\<close>

definition withdrawCollateral ::
    "('x, 'b) suite \<Rightarrow> string \<Rightarrow> string \<Rightarrow> SignerWithAddress option \<Rightarrow> string \<Rightarrow> TestEnv \<Rightarrow> string option
     \<Rightarrow> ('x, unit) io" where
  "withdrawCollateral S reserveSymbol amount user expectedResult env revertMessage =
     (let B = suite_bn S in
     await (lift_result (deref user)) (\<lambda>user.
     await (getDataBeforeAction S reserveSymbol (signer_address user) env) (\<lambda>(reserve, reserveDataBefore, userDataBefore, _).
     await (amount_or_max S (contract_address (WFTM env)) amount) (\<lambda>amountToWithdraw.
     let vault = connect (yearnVault env) (signer user) in
     if expectedResult = ''success'' then
       await (transact S vault ''withdrawCollateral''
                [VStr (contract_address (WFTM env)), VStr amountToWithdraw, VStr (signer_address user)]) (\<lambda>txResult.
       await (getContractsData S reserve (signer_address user) env None) (\<lambda>(reserveDataAfter, userDataAfter, _).
       await (getTxCostAndTimestamp S txResult) (\<lambda>(txCost, txTimestamp).
       await (lift_result (calcExpectedReserveDataAfterWithdrawCollateral B (reservesParams S) amountToWithdraw
                reserveDataBefore reserveDataAfter userDataBefore txTimestamp)) (\<lambda>expectedReserveData.
       let expectedUserData = calcExpectedUserDataAfterWithdrawCollateral B amountToWithdraw reserveDataBefore
             expectedReserveData userDataBefore txTimestamp;
           userDataAfterRemained = obj_rest [''walletBalance''] (user_object B userDataAfter)
       in
       await (expect_reserve S reserveDataAfter expectedReserveData) (\<lambda>_.
       await (lift_result (expectEqual S userDataAfterRemained
                (obj_rest [''walletBalance''] (user_object B expectedUserData)))) (\<lambda>_.
       await (expect_lte S (u_walletBalance userDataAfter) (u_walletBalance expectedUserData) 1000) (\<lambda>_.
       lift_result (expectEqual S userDataAfterRemained (user_object B expectedUserData)))))))))
     else if expectedResult = ''revert'' then
       expect_rejection (waffle_reverted (suite_node S))
         (send (suite_rt S) vault ''withdrawCollateral''
            [VStr reserve, VStr amountToWithdraw, VStr (signer_address user)])
     else return_io ()))))"

section \<open>Borrowing and repaying\<close>

definition delegateBorrowAllowance ::
    "('x, 'b) suite \<Rightarrow> string \<Rightarrow> string \<Rightarrow> string \<Rightarrow> SignerWithAddress option \<Rightarrow> tEthereumAddress \<Rightarrow> string
     \<Rightarrow> TestEnv \<Rightarrow> string option \<Rightarrow> ('x, unit) io" where
  "delegateBorrowAllowance S reserve amount interestRateMode user receiver expectedResult env revertMessage =
     (let rt = suite_rt S in
     await (getReserveAddressFromSymbol S reserve) (\<lambda>reserveAddress.
     await (convertToCurrencyDecimals S reserveAddress amount) (\<lambda>n.
     let amountToDelegate = dec n in
     await (call rt (pool env) ''getReserveData'' [VStr reserveAddress]) (\<lambda>reserveData.
     await (if interestRateMode = ''1''
            then await (lift_result (js_field reserveData ''stableDebtTokenAddress'')) (\<lambda>a. getStableDebtToken rt (opt_string a))
            else await (lift_result (js_field reserveData ''variableDebtTokenAddress'')) (\<lambda>a. getVariableDebtToken rt (opt_string a)))
       (\<lambda>debtToken.
     await (lift_result (deref user)) (\<lambda>user.
     let delegator = connect debtToken (signer user);
         args = [VStr receiver, VStr amountToDelegate]
     in
     if expectedResult = ''revert'' \<and> truthy_string revertMessage then
       expect_rejection (waffle_revertedWith (suite_node S) (the revertMessage)) (send rt delegator ''approveDelegation'' args)
     else
       await (transact S delegator ''approveDelegation'' args) (\<lambda>_.
       await (call rt debtToken ''borrowAllowance'' [VStr (signer_address user), VStr receiver]) (\<lambda>v.
       await (lift_result (js_toString v)) (\<lambda>allowance.
       lift_result (assert_that (allowance = amountToDelegate) ''borrowAllowance is set incorrectly''))))))))))"

definition borrow ::
    "('x, 'b) suite \<Rightarrow> string \<Rightarrow> string \<Rightarrow> string \<Rightarrow> SignerWithAddress option \<Rightarrow> tEthereumAddress \<Rightarrow> string option
     \<Rightarrow> string \<Rightarrow> TestEnv \<Rightarrow> string option \<Rightarrow> ('x, unit) io" where
  "borrow S reserveSymbol amount interestRateMode user onBehalfOf timeTravel expectedResult env revertMessage =
     (let B = suite_bn S in
     await (getReserveAddressFromSymbol S reserveSymbol) (\<lambda>reserve.
     await (lift_result (deref user)) (\<lambda>user.
     await (getContractsData S reserve onBehalfOf env (Some (signer_address user))) (\<lambda>(reserveDataBefore, userDataBefore, _).
     await (convertToCurrencyDecimals S reserve amount) (\<lambda>amountToBorrow.
     let lendingPool = connect (pool env) (signer user);
         args = [VStr reserve, VNum amountToBorrow, VStr interestRateMode, VStr ''0'', VStr onBehalfOf]
     in
     if expectedResult = ''success'' then
       await (transact S lendingPool ''borrow'' args) (\<lambda>txResult.
       await (getTxCostAndTimestamp S txResult) (\<lambda>(txCost, txTimestamp).
       await (if truthy_string timeTravel
              then advanceTimeAndBlock S
                     (bn_toNumber B (bn_div B (bn_times B (bn_parse B (the timeTravel)) (bn_of B ONE_YEAR)) (bn_of B 365)))
              else return_io ()) (\<lambda>_.
       await (getContractsData S reserve onBehalfOf env (Some (signer_address user))) (\<lambda>(reserveDataAfter, userDataAfter, timestamp).
       await (lift_result (calcExpectedReserveDataAfterBorrow B (reservesParams S) (dec amountToBorrow) interestRateMode
                reserveDataBefore userDataBefore txTimestamp timestamp)) (\<lambda>expectedReserveData.
       let expectedUserData = calcExpectedUserDataAfterBorrow B (dec amountToBorrow) interestRateMode reserveDataBefore
             expectedReserveData userDataBefore txTimestamp timestamp in
       await (expect_reserve S reserveDataAfter expectedReserveData) (\<lambda>_.
       expect_user S userDataAfter expectedUserData))))))
     else if expectedResult = ''revert'' then
       expect_rejection (waffle_reverted (suite_node S)) (send (suite_rt S) lendingPool ''borrow'' args)
     else return_io ())))))"

text \<open>The amounts are sent, and handed to the calculations, in hexadecimal.\<close>

definition hex_amount :: "'b bn_api \<Rightarrow> string \<Rightarrow> string" where
  "hex_amount B s = ''0x'' @ bn_toString16 B (bn_parse B s)"

definition repay ::
    "('x, 'b) suite \<Rightarrow> string \<Rightarrow> string \<Rightarrow> string \<Rightarrow> SignerWithAddress option \<Rightarrow> SignerWithAddress option
     \<Rightarrow> string option \<Rightarrow> string \<Rightarrow> TestEnv \<Rightarrow> string option \<Rightarrow> ('x, unit) io" where
  "repay S reserveSymbol amount rateMode user onBehalfOf sendValue expectedResult env revertMessage =
     (let B = suite_bn S in
     await (getReserveAddressFromSymbol S reserveSymbol) (\<lambda>reserve.
     await (lift_result (deref onBehalfOf)) (\<lambda>onBehalfOf.
     await (getContractsData S reserve (signer_address onBehalfOf) env None) (\<lambda>(reserveDataBefore, userDataBefore, _).
     await (amount_or_max S reserve amount) (\<lambda>decimalAmount.
     let amountToRepay = hex_amount B decimalAmount in
     await (if truthy_string sendValue
            then await (convertToCurrencyDecimals S reserve (the sendValue)) (\<lambda>n.
                 return_io (tx_options (Some (VStr (hex_amount B (dec n))))))
            else return_io (tx_options None)) (\<lambda>txOptions.
     let args = [VStr reserve, VStr amountToRepay, VStr rateMode, VStr (signer_address onBehalfOf), txOptions] in
     if expectedResult = ''success'' then
       await (lift_result (deref user)) (\<lambda>user.
       await (transact S (connect (pool env) (signer user)) ''repay'' args) (\<lambda>txResult.
       await (getTxCostAndTimestamp S txResult) (\<lambda>(txCost, txTimestamp).
       await (getContractsData S reserve (signer_address onBehalfOf) env None) (\<lambda>(reserveDataAfter, userDataAfter, timestamp).
       await (lift_result (calcExpectedReserveDataAfterRepay B (reservesParams S) amountToRepay rateMode
                reserveDataBefore userDataBefore txTimestamp timestamp)) (\<lambda>expectedReserveData.
       let expectedUserData = calcExpectedUserDataAfterRepay B amountToRepay rateMode reserveDataBefore
             expectedReserveData userDataBefore (signer_address user) (signer_address onBehalfOf) txTimestamp timestamp in
       await (expect_reserve S reserveDataAfter expectedReserveData) (\<lambda>_.
       expect_user S userDataAfter expectedUserData))))))
     else if expectedResult = ''revert'' then
       await (lift_result (deref user)) (\<lambda>user.
       expect_rejection (waffle_reverted (suite_node S)) (send (suite_rt S) (connect (pool env) (signer user)) ''repay'' args))
     else return_io ()))))))"

section \<open>Collateral\<close>

definition setUseAsCollateral ::
    "('x, 'b) suite \<Rightarrow> string \<Rightarrow> SignerWithAddress option \<Rightarrow> string \<Rightarrow> string \<Rightarrow> TestEnv \<Rightarrow> string option
     \<Rightarrow> ('x, unit) io" where
  "setUseAsCollateral S reserveSymbol user useAsCollateral expectedResult env revertMessage =
     await (getReserveAddressFromSymbol S reserveSymbol) (\<lambda>reserve.
     await (lift_result (deref user)) (\<lambda>user.
     await (getContractsData S reserve (signer_address user) env None) (\<lambda>(reserveDataBefore, userDataBefore, _).
     let useAsCollateralBool = (toLowerCase useAsCollateral = ''true'');
         lendingPool = connect (pool env) (signer user);
         args = [VStr reserve, VBool useAsCollateralBool]
     in
     if expectedResult = ''success'' then
       await (transact S lendingPool ''setUserUseReserveAsCollateral'' args) (\<lambda>txResult.
       await (getTxCostAndTimestamp S txResult) (\<lambda>(txCost, _).
       await (getContractsData S reserve (signer_address user) env None) (\<lambda>(_, userDataAfter, _).
       let expectedUserData = calcExpectedUserDataAfterSetUseAsCollateral useAsCollateralBool userDataBefore in
       expect_user S userDataAfter expectedUserData)))
     else if expectedResult = ''revert'' then
       expect_rejection (waffle_reverted (suite_node S))
         (send (suite_rt S) lendingPool ''setUserUseReserveAsCollateral'' args)
     else return_io ())))"

end
