(* ===== verification/ScenarioEngine.thy ===== *)
theory ScenarioEngine
  imports Actions
begin

text \<open>
  \<^verbatim>\<open>test-suites/test-ftm/helpers/scenario-engine.ts\<close>: a story runs its actions in order; an action is
  checked and handed to the function of its name. An action comes from a JSON file, so its members may
  be missing; the arguments are strings. \<open>users[i]\<close> is \<open>undefined\<close> out of range.
\<close>

section \<open>Scenarios\<close>

record Action =
  action_name :: "string option"
  action_args :: "string obj option"
  action_expected :: "string option"
  action_revertMessage :: "string option"

record Story =
  story_description :: string
  story_actions :: "Action list"

record Scenario =
  scenario_title :: string
  scenario_description :: string
  scenario_stories :: "Story list"

section \<open>Executing an action\<close>

text \<open>The rate mode an action is executed with: \<open>stable\<close> and \<open>variable\<close> are both the variable mode.\<close>

definition rate_mode_of :: "string option \<Rightarrow> string" where
  "rate_mode_of borrowRateMode =
     (if truthy_string borrowRateMode then
        (if borrowRateMode = Some ''none'' then rate_mode_value RateNone
         else if borrowRateMode = Some ''stable'' then rate_mode_value Variable
         else if borrowRateMode = Some ''variable'' then rate_mode_value Variable
         else ''4'')
      else rate_mode_value RateNone)"

text \<open>\<open>users[parseInt(i)].address\<close>, or the default when there is no index.\<close>

definition address_of_user :: "SignerWithAddress list \<Rightarrow> SignerWithAddress option \<Rightarrow> string option \<Rightarrow> tEthereumAddress result" where
  "address_of_user us user i =
     (if truthy_string i then bindR (deref (user_at us (parseInt (the i)))) (\<lambda>u. Inr (signer_address u))
      else bindR (deref user) (\<lambda>u. Inr (signer_address u)))"

text \<open>An argument that must be given.\<close>

definition require_arg :: "string option \<Rightarrow> string \<Rightarrow> string result" where
  "require_arg v msg = (if truthy_string v then Inr (the v) else Inl (Thrown msg))"

text \<open>The action's own arguments and the call, by the action's name.\<close>

definition dispatchAction ::
    "('x, 'b) suite \<Rightarrow> string \<Rightarrow> string obj \<Rightarrow> string \<Rightarrow> string \<Rightarrow> SignerWithAddress option \<Rightarrow> string
     \<Rightarrow> string option \<Rightarrow> SignerWithAddress list \<Rightarrow> TestEnv \<Rightarrow> ('x, unit) io" where
  "dispatchAction S name args reserve rateMode user expected revertMessage us env =
     (let amount = obj_get args ''amount'';
          sendValue = obj_get args ''sendValue'';
          onBehalfOfIndex = obj_get args ''onBehalfOf''
      in
      if name = ''mint'' then
        await (lift_result (require_arg amount (''Invalid amount of '' @ reserve @ '' to mint''))) (\<lambda>amount.
        mint S reserve amount user env)
      else if name = ''approve'' then approve S reserve user env
      else if name = ''approveVault'' then approveVault S reserve user env
      else if name = ''depositCollateral'' then
        await (lift_result (address_of_user us user onBehalfOfIndex)) (\<lambda>onBehalfOf.
        await (lift_result (require_arg amount (''Invalid amount to deposit into the '' @ reserve @ '' reserve''))) (\<lambda>amount.
        depositCollateral S reserve amount user onBehalfOf sendValue expected env revertMessage))
      else if name = ''deposit'' then
        await (lift_result (address_of_user us user onBehalfOfIndex)) (\<lambda>onBehalfOf.
        await (lift_result (require_arg amount (''Invalid amount to deposit into the '' @ reserve @ '' reserve''))) (\<lambda>amount.
        deposit S reserve amount user onBehalfOf sendValue expected env revertMessage))
      else if name = ''delegateBorrowAllowance'' then
        let toUserIndex = (case obj_get args ''toUser'' of None \<Rightarrow> ''undefined'' | Some i \<Rightarrow> i) in
        await (lift_result (deref (user_at us (parseInt10 toUserIndex)))) (\<lambda>toUser.
        await (lift_result (require_arg amount (''Invalid amount to deposit into the '' @ reserve @ '' reserve''))) (\<lambda>amount.
        delegateBorrowAllowance S reserve amount rateMode user (signer_address toUser) expected env revertMessage))
      else if name = ''withdraw'' then
        await (lift_result (require_arg amount (''Invalid amount to withdraw from the '' @ reserve @ '' reserve''))) (\<lambda>amount.
        withdraw S reserve amount user expected env revertMessage)
      else if name = ''withdrawCollateral'' then
        await (lift_result (require_arg amount (''Invalid amount to withdraw from the '' @ reserve @ '' reserve''))) (\<lambda>amount.
        withdrawCollateral S reserve amount user expected env revertMessage)
      else if name = ''borrow'' then
        await (lift_result (address_of_user us user onBehalfOfIndex)) (\<lambda>onBehalfOf.
        await (lift_result (require_arg amount (''Invalid amount to borrow from the '' @ reserve @ '' reserve''))) (\<lambda>amount.
        borrow S reserve amount rateMode user onBehalfOf (obj_get args ''timeTravel'') expected env revertMessage))
      else if name = ''repay'' then
        await (lift_result (require_arg amount (''Invalid amount to repay into the '' @ reserve @ '' reserve''))) (\<lambda>amount.
        let userToRepayOnBehalf =
              (if truthy_string onBehalfOfIndex then user_at us (parseInt (the onBehalfOfIndex)) else user) in
        repay S reserve amount rateMode user userToRepayOnBehalf sendValue expected env revertMessage)
      else if name = ''setUseAsCollateral'' then
        await (lift_result (require_arg (obj_get args ''useAsCollateral'')
          (''A valid value for useAsCollateral needs to be set when calling setUseReserveAsCollateral on reserve '' @ reserve)))
          (\<lambda>useAsCollateral.
        setUseAsCollateral S reserve user useAsCollateral expected env revertMessage)
      else throw_io (Thrown (''Invalid action requested: '' @ name)))"

text \<open>The guards every action passes first, in the order of the code.\<close>

definition check_action :: "Action \<Rightarrow> (string obj \<times> string \<times> string \<times> string \<times> string) result" where
  "check_action act =
     bindR (deref (action_args act)) (\<lambda>args.
     bindR (require_arg (action_name act) ''Action name is missing'') (\<lambda>name.
     bindR (require_arg (obj_get args ''reserve'') ''Invalid reserve selected for deposit'') (\<lambda>reserve.
     bindR (require_arg (obj_get args ''user'') (''Invalid user selected to deposit into the '' @ reserve @ '' reserve'')) (\<lambda>userIndex.
     bindR (require_arg (action_expected act) (''An expected resut for action '' @ name @ '' is required'')) (\<lambda>expected.
     Inr (args, name, reserve, userIndex, expected))))))"

definition executeAction ::
    "('x, 'b) suite \<Rightarrow> Action \<Rightarrow> SignerWithAddress list \<Rightarrow> TestEnv \<Rightarrow> ('x, unit) io" where
  "executeAction S act us env =
     await (lift_result (check_action act)) (\<lambda>(args, name, reserve, userIndex, expected).
     let rateMode = rate_mode_of (obj_get args ''borrowRateMode'');
         user = user_at us (parseInt userIndex)
     in dispatchAction S name args reserve rateMode user expected (action_revertMessage act) us env)"

definition executeStory :: "('x, 'b) suite \<Rightarrow> Story \<Rightarrow> TestEnv \<Rightarrow> ('x, unit) io" where
  "executeStory S story env = for_each (\<lambda>act. executeAction S act (users env) env) (story_actions story)"

text \<open>The names the engine knows.\<close>

definition action_names :: "string list" where
  "action_names = [''mint'', ''approve'', ''approveVault'', ''depositCollateral'', ''deposit'', ''delegateBorrowAllowance'',
     ''withdraw'', ''withdrawCollateral'', ''borrow'', ''repay'', ''setUseAsCollateral'']"

end
