(* ===== verification/ScenarioFiles.thy ===== *)
theory ScenarioFiles
  imports ScenarioEngine
begin

text \<open>
  The scenarios of \<^verbatim>\<open>test-suites/test-ftm/helpers/scenarios\<close> that \<^verbatim>\<open>scenario.spec.ts\<close> runs, one
  definition per file, in the order of the directory. The descriptions of single actions, which nothing
  reads, are left out.
\<close>

section \<open>The files\<close>

definition scenario_action :: "string \<Rightarrow> string obj \<Rightarrow> string \<Rightarrow> string option \<Rightarrow> Action" where
  "scenario_action name args expected revertMessage =
     \<lparr>action_name = Some name, action_args = Some args, action_expected = Some expected,
      action_revertMessage = revertMessage\<rparr>"

definition scenario_borrow_negatives :: Scenario where
  "scenario_borrow_negatives =
     \<lparr>scenario_title = ''LendingPool: Borrow negatives (reverts)'',
      scenario_description = ''Test cases for the deposit function.'',
      scenario_stories =
       [\<lparr>story_description = ''User 0 deposits 1000 DAI, user 1 deposits 1000 WFTM as collateral and tries to borrow 100 DAI with rate mode NONE (revert expected)'',
         story_actions =
           [scenario_action ''mint'' [(''reserve'', ''DAI''), (''amount'', ''1000''), (''user'', ''0'')] ''success'' None,
            scenario_action ''approve'' [(''reserve'', ''DAI''), (''user'', ''0'')] ''success'' None,
            scenario_action ''deposit'' [(''reserve'', ''DAI''), (''amount'', ''1000''), (''user'', ''0'')] ''success'' None,
            scenario_action ''mint'' [(''reserve'', ''yvWFTM''), (''amount'', ''1000''), (''user'', ''1'')] ''success'' None,
            scenario_action ''approveVault'' [(''reserve'', ''yvWFTM''), (''user'', ''1'')] ''success'' None,
            scenario_action ''depositCollateral'' [(''reserve'', ''yvWFTM''), (''amount'', ''1000''), (''user'', ''1'')] ''success'' None,
            scenario_action ''borrow'' [(''reserve'', ''DAI''), (''amount'', ''100''), (''borrowRateMode'', ''none''), (''user'', ''1'')] ''revert'' (Some ''Invalid interest rate mode selected'')]\<rparr>,
        \<lparr>story_description = ''User 0 deposits 1000 DAI, user 1 deposits 1000 WFTM as collateral and tries to borrow 100 DAI with an invalid rate mode (revert expected)'',
         story_actions =
           [scenario_action ''mint'' [(''reserve'', ''DAI''), (''amount'', ''1000''), (''user'', ''0'')] ''success'' None,
            scenario_action ''approve'' [(''reserve'', ''DAI''), (''user'', ''0'')] ''success'' None,
            scenario_action ''deposit'' [(''reserve'', ''DAI''), (''amount'', ''1000''), (''user'', ''0'')] ''success'' None,
            scenario_action ''mint'' [(''reserve'', ''yvWFTM''), (''amount'', ''1000''), (''user'', ''1'')] ''success'' None,
            scenario_action ''approveVault'' [(''reserve'', ''yvWFTM''), (''user'', ''1'')] ''success'' None,
            scenario_action ''depositCollateral'' [(''reserve'', ''yvWFTM''), (''amount'', ''1000''), (''user'', ''1'')] ''success'' None,
            scenario_action ''borrow'' [(''reserve'', ''DAI''), (''amount'', ''100''), (''borrowRateMode'', ''invalid''), (''user'', ''1'')] ''revert'' (Some ''Invalid interest rate mode selected'')]\<rparr>]\<rparr>"

definition scenario_borrow_repay_stable :: Scenario where
  "scenario_borrow_repay_stable =
     \<lparr>scenario_title = ''LendingPool: Borrow/repay (stable rate)'',
      scenario_description = ''Test cases for the borrow function, stable mode.'',
      scenario_stories =
       [\<lparr>story_description = ''User 0 deposits 1000 DAI, user 1 deposits 1000 WFTM as collateral and borrows 100 DAI at stable rate'',
         story_actions =
           [scenario_action ''mint'' [(''reserve'', ''DAI''), (''amount'', ''1000''), (''user'', ''0'')] ''success'' None,
            scenario_action ''approve'' [(''reserve'', ''DAI''), (''user'', ''0'')] ''success'' None,
            scenario_action ''deposit'' [(''reserve'', ''DAI''), (''amount'', ''1000''), (''user'', ''0'')] ''success'' None,
            scenario_action ''mint'' [(''reserve'', ''yvWFTM''), (''amount'', ''1000''), (''user'', ''1'')] ''success'' None,
            scenario_action ''approveVault'' [(''reserve'', ''yvWFTM''), (''user'', ''1'')] ''success'' None,
            scenario_action ''depositCollateral'' [(''reserve'', ''yvWFTM''), (''amount'', ''1000''), (''user'', ''1'')] ''success'' None,
            scenario_action ''borrow'' [(''reserve'', ''DAI''), (''amount'', ''100''), (''borrowRateMode'', ''stable''), (''user'', ''1''), (''timeTravel'', ''365'')] ''success'' None]\<rparr>,
        \<lparr>story_description = ''User 1 tries to borrow the rest of the DAI liquidity (revert expected)'',
         story_actions =
           [scenario_action ''borrow'' [(''reserve'', ''DAI''), (''amount'', ''910''), (''borrowRateMode'', ''stable''), (''user'', ''1'')] ''revert'' (Some ''There is not enough collateral to cover a new borrow'')]\<rparr>,
        \<lparr>story_description = ''User 1 repays half of the DAI borrow after one year'',
         story_actions =
           [scenario_action ''mint'' [(''reserve'', ''DAI''), (''amount'', ''10''), (''user'', ''1'')] ''success'' None,
            scenario_action ''approve'' [(''reserve'', ''DAI''), (''user'', ''1'')] ''success'' None,
            scenario_action ''repay'' [(''reserve'', ''DAI''), (''amount'', ''50''), (''user'', ''1''), (''onBehalfOf'', ''1''), (''borrowRateMode'', ''stable'')] ''success'' None]\<rparr>,
        \<lparr>story_description = ''User 1 repays the rest of the DAI borrow after one year'',
         story_actions =
           [scenario_action ''mint'' [(''reserve'', ''DAI''), (''amount'', ''15''), (''user'', ''1'')] ''success'' None,
            scenario_action ''approve'' [(''reserve'', ''DAI''), (''user'', ''1'')] ''success'' None,
            scenario_action ''repay'' [(''reserve'', ''DAI''), (''amount'', ''-1''), (''user'', ''1''), (''onBehalfOf'', ''1''), (''borrowRateMode'', ''stable'')] ''success'' None]\<rparr>,
        \<lparr>story_description = ''User 0 withdraws the deposited DAI plus interest'',
         story_actions =
           [scenario_action ''withdraw'' [(''reserve'', ''DAI''), (''amount'', ''-1''), (''user'', ''0'')] ''success'' None]\<rparr>,
        \<lparr>story_description = ''User 1 deposits 1000 DAI, user 2 tries to borrow 1000 DAI at a stable rate without any collateral (revert expected) User 1 withdrawws'',
         story_actions =
           [scenario_action ''mint'' [(''reserve'', ''DAI''), (''amount'', ''1000''), (''user'', ''1'')] ''success'' None,
            scenario_action ''approve'' [(''reserve'', ''DAI''), (''user'', ''1'')] ''success'' None,
            scenario_action ''deposit'' [(''reserve'', ''DAI''), (''amount'', ''1000''), (''user'', ''1'')] ''success'' None,
            scenario_action ''borrow'' [(''reserve'', ''DAI''), (''amount'', ''1000''), (''borrowRateMode'', ''stable''), (''user'', ''2'')] ''revert'' (Some ''The collateral balance is 0''),
            scenario_action ''withdraw'' [(''reserve'', ''DAI''), (''amount'', ''1000''), (''user'', ''1'')] ''success'' None]\<rparr>,
        \<lparr>story_description = ''User 0 deposits 1000 DAI, user 1,2,3,4 deposit 1000 WFTM each and borrow 100 DAI at stable rate. Everything is repaid, user 0 withdraws'',
         story_actions =
           [scenario_action ''mint'' [(''reserve'', ''DAI''), (''amount'', ''1000''), (''user'', ''0'')] ''success'' None,
            scenario_action ''approve'' [(''reserve'', ''DAI''), (''user'', ''0'')] ''success'' None,
            scenario_action ''deposit'' [(''reserve'', ''DAI''), (''amount'', ''1000''), (''user'', ''0'')] ''success'' None,
            scenario_action ''mint'' [(''reserve'', ''yvWFTM''), (''amount'', ''1000''), (''user'', ''1'')] ''success'' None,
            scenario_action ''approveVault'' [(''reserve'', ''yvWFTM''), (''user'', ''1'')] ''success'' None,
            scenario_action ''depositCollateral'' [(''reserve'', ''yvWFTM''), (''amount'', ''1000''), (''user'', ''1'')] ''success'' None,
            scenario_action ''borrow'' [(''reserve'', ''DAI''), (''amount'', ''100''), (''borrowRateMode'', ''stable''), (''user'', ''1''), (''timeTravel'', ''365'')] ''success'' None,
            scenario_action ''mint'' [(''reserve'', ''yvWFTM''), (''amount'', ''1000''), (''user'', ''2'')] ''success'' None,
            scenario_action ''approveVault'' [(''reserve'', ''yvWFTM''), (''user'', ''2'')] ''success'' None,
            scenario_action ''depositCollateral'' [(''reserve'', ''yvWFTM''), (''amount'', ''1000''), (''user'', ''2'')] ''success'' None,
            scenario_action ''borrow'' [(''reserve'', ''DAI''), (''amount'', ''100''), (''borrowRateMode'', ''stable''), (''user'', ''2''), (''timeTravel'', ''365'')] ''success'' None,
            scenario_action ''mint'' [(''reserve'', ''yvWFTM''), (''amount'', ''1000''), (''user'', ''3'')] ''success'' None,
            scenario_action ''approveVault'' [(''reserve'', ''yvWFTM''), (''user'', ''3'')] ''success'' None,
            scenario_action ''depositCollateral'' [(''reserve'', ''yvWFTM''), (''amount'', ''1000''), (''user'', ''3'')] ''success'' None,
            scenario_action ''borrow'' [(''reserve'', ''DAI''), (''amount'', ''100''), (''borrowRateMode'', ''stable''), (''user'', ''3''), (''timeTravel'', ''365'')] ''success'' None,
            scenario_action ''mint'' [(''reserve'', ''yvWFTM''), (''amount'', ''1000''), (''user'', ''4'')] ''success'' None,
            scenario_action ''approveVault'' [(''reserve'', ''yvWFTM''), (''user'', ''4'')] ''success'' None,
            scenario_action ''depositCollateral'' [(''reserve'', ''yvWFTM''), (''amount'', ''1000''), (''user'', ''4'')] ''success'' None,
            scenario_action ''borrow'' [(''reserve'', ''DAI''), (''amount'', ''100''), (''borrowRateMode'', ''stable''), (''user'', ''4''), (''timeTravel'', ''365'')] ''success'' None,
            scenario_action ''mint'' [(''reserve'', ''DAI''), (''amount'', ''15''), (''user'', ''1'')] ''success'' None,
            scenario_action ''approve'' [(''reserve'', ''DAI''), (''user'', ''1'')] ''success'' None,
            scenario_action ''repay'' [(''reserve'', ''DAI''), (''amount'', ''-1''), (''user'', ''1''), (''onBehalfOf'', ''1''), (''borrowRateMode'', ''stable'')] ''success'' None,
            scenario_action ''mint'' [(''reserve'', ''DAI''), (''amount'', ''20''), (''user'', ''2'')] ''success'' None,
            scenario_action ''approve'' [(''reserve'', ''DAI''), (''user'', ''2'')] ''success'' None,
            scenario_action ''repay'' [(''reserve'', ''DAI''), (''amount'', ''-1''), (''user'', ''2''), (''onBehalfOf'', ''2''), (''borrowRateMode'', ''stable'')] ''success'' None,
            scenario_action ''mint'' [(''reserve'', ''DAI''), (''amount'', ''30''), (''user'', ''3'')] ''success'' None,
            scenario_action ''approve'' [(''reserve'', ''DAI''), (''user'', ''3'')] ''success'' None,
            scenario_action ''repay'' [(''reserve'', ''DAI''), (''amount'', ''-1''), (''user'', ''3''), (''onBehalfOf'', ''3''), (''borrowRateMode'', ''stable'')] ''success'' None,
            scenario_action ''mint'' [(''reserve'', ''DAI''), (''amount'', ''30''), (''user'', ''4'')] ''success'' None,
            scenario_action ''approve'' [(''reserve'', ''DAI''), (''user'', ''4'')] ''success'' None,
            scenario_action ''repay'' [(''reserve'', ''DAI''), (''amount'', ''-1''), (''user'', ''4''), (''onBehalfOf'', ''4''), (''borrowRateMode'', ''stable'')] ''success'' None,
            scenario_action ''withdraw'' [(''reserve'', ''DAI''), (''amount'', ''-1''), (''user'', ''0'')] ''success'' None]\<rparr>,
        \<lparr>story_description = ''User 0 deposits 1000 DAI, user 1 deposits 2000 WFTM and borrow 100 DAI at stable rate first, then 100 DAI at variable rate, repays everything. User 0 withdraws'',
         story_actions =
           [scenario_action ''mint'' [(''reserve'', ''DAI''), (''amount'', ''1000''), (''user'', ''0'')] ''success'' None,
            scenario_action ''approve'' [(''reserve'', ''DAI''), (''user'', ''0'')] ''success'' None,
            scenario_action ''deposit'' [(''reserve'', ''DAI''), (''amount'', ''1000''), (''user'', ''0'')] ''success'' None,
            scenario_action ''mint'' [(''reserve'', ''yvWFTM''), (''amount'', ''2000''), (''user'', ''1'')] ''success'' None,
            scenario_action ''approveVault'' [(''reserve'', ''yvWFTM''), (''user'', ''1'')] ''success'' None,
            scenario_action ''depositCollateral'' [(''reserve'', ''yvWFTM''), (''amount'', ''2000''), (''user'', ''1'')] ''success'' None,
            scenario_action ''borrow'' [(''reserve'', ''DAI''), (''amount'', ''100''), (''borrowRateMode'', ''variable''), (''user'', ''1''), (''timeTravel'', ''365'')] ''success'' None,
            scenario_action ''mint'' [(''reserve'', ''DAI''), (''amount'', ''50''), (''user'', ''1'')] ''success'' None,
            scenario_action ''approve'' [(''reserve'', ''DAI''), (''user'', ''1'')] ''success'' None,
            scenario_action ''repay'' [(''reserve'', ''DAI''), (''amount'', ''-1''), (''user'', ''1''), (''onBehalfOf'', ''1''), (''borrowRateMode'', ''variable'')] ''success'' None,
            scenario_action ''withdraw'' [(''reserve'', ''DAI''), (''amount'', ''-1''), (''user'', ''0'')] ''success'' None]\<rparr>]\<rparr>"

definition scenario_borrow_repay_variable :: Scenario where
  "scenario_borrow_repay_variable =
     \<lparr>scenario_title = ''LendingPool: Borrow/repay (variable rate)'',
      scenario_description = ''Test cases for the borrow function, variable mode.'',
      scenario_stories =
       [\<lparr>story_description = ''User 2 deposits 1 DAI to account for rounding errors'',
         story_actions =
           [scenario_action ''mint'' [(''reserve'', ''DAI''), (''amount'', ''1''), (''user'', ''2'')] ''success'' None,
            scenario_action ''approve'' [(''reserve'', ''DAI''), (''user'', ''2'')] ''success'' None,
            scenario_action ''deposit'' [(''reserve'', ''DAI''), (''amount'', ''1''), (''user'', ''2'')] ''success'' None]\<rparr>,
        \<lparr>story_description = ''User 0 deposits 1000 DAI, user 1 deposits 1000 WFTM as collateral and borrows 100 DAI at variable rate'',
         story_actions =
           [scenario_action ''mint'' [(''reserve'', ''DAI''), (''amount'', ''1000''), (''user'', ''0'')] ''success'' None,
            scenario_action ''approve'' [(''reserve'', ''DAI''), (''user'', ''0'')] ''success'' None,
            scenario_action ''deposit'' [(''reserve'', ''DAI''), (''amount'', ''1000''), (''user'', ''0'')] ''success'' None,
            scenario_action ''mint'' [(''reserve'', ''yvWFTM''), (''amount'', ''1000''), (''user'', ''1'')] ''success'' None,
            scenario_action ''approveVault'' [(''reserve'', ''yvWFTM''), (''user'', ''1'')] ''success'' None,
            scenario_action ''depositCollateral'' [(''reserve'', ''yvWFTM''), (''amount'', ''1000''), (''user'', ''1'')] ''success'' None,
            scenario_action ''borrow'' [(''reserve'', ''DAI''), (''amount'', ''100''), (''borrowRateMode'', ''variable''), (''user'', ''1''), (''timeTravel'', ''365'')] ''success'' None]\<rparr>,
        \<lparr>story_description = ''User 1 tries to borrow the rest of the DAI liquidity (revert expected)'',
         story_actions =
           [scenario_action ''borrow'' [(''reserve'', ''DAI''), (''amount'', ''910''), (''borrowRateMode'', ''variable''), (''user'', ''1'')] ''revert'' (Some ''There is not enough collateral to cover a new borrow'')]\<rparr>,
        \<lparr>story_description = ''User 1 tries to repay 0 DAI (revert expected)'',
         story_actions =
           [scenario_action ''repay'' [(''reserve'', ''DAI''), (''amount'', ''0''), (''user'', ''1''), (''onBehalfOf'', ''1'')] ''revert'' (Some ''Amount must be greater than 0'')]\<rparr>,
        \<lparr>story_description = ''User 1 repays a small amount of DAI, enough to cover a small part of the interest'',
         story_actions =
           [scenario_action ''approve'' [(''reserve'', ''DAI''), (''user'', ''1'')] ''success'' None,
            scenario_action ''repay'' [(''reserve'', ''DAI''), (''amount'', ''1.25''), (''user'', ''1''), (''onBehalfOf'', ''1''), (''borrowRateMode'', ''variable'')] ''success'' None]\<rparr>,
        \<lparr>story_description = ''User 1 repays the DAI borrow after one year'',
         story_actions =
           [scenario_action ''mint'' [(''reserve'', ''DAI''), (''amount'', ''10''), (''user'', ''1'')] ''success'' None,
            scenario_action ''repay'' [(''reserve'', ''DAI''), (''amount'', ''-1''), (''user'', ''1''), (''onBehalfOf'', ''1''), (''borrowRateMode'', ''variable'')] ''success'' None]\<rparr>,
        \<lparr>story_description = ''User 0 withdraws the deposited DAI plus interest'',
         story_actions =
           [scenario_action ''withdraw'' [(''reserve'', ''DAI''), (''amount'', ''-1''), (''user'', ''0'')] ''success'' None]\<rparr>,
        \<lparr>story_description = ''User 1 withdraws the collateral'',
         story_actions =
           [scenario_action ''withdrawCollateral'' [(''reserve'', ''yvWFTM''), (''amount'', ''-1''), (''user'', ''1'')] ''success'' None]\<rparr>,
        \<lparr>story_description = ''User 2 deposits 1 USDC to account for rounding errors'',
         story_actions =
           [scenario_action ''mint'' [(''reserve'', ''USDC''), (''amount'', ''1''), (''user'', ''2'')] ''success'' None,
            scenario_action ''approve'' [(''reserve'', ''USDC''), (''user'', ''2'')] ''success'' None,
            scenario_action ''deposit'' [(''reserve'', ''USDC''), (''amount'', ''1''), (''user'', ''2'')] ''success'' None]\<rparr>,
        \<lparr>story_description = ''User 0 deposits 1000 USDC, user 1 deposits 1000 WFTM as collateral and borrows 100 USDC at variable rate'',
         story_actions =
           [scenario_action ''mint'' [(''reserve'', ''USDC''), (''amount'', ''1000''), (''user'', ''0'')] ''success'' None,
            scenario_action ''approve'' [(''reserve'', ''USDC''), (''user'', ''0'')] ''success'' None,
            scenario_action ''deposit'' [(''reserve'', ''USDC''), (''amount'', ''1000''), (''user'', ''0'')] ''success'' None,
            scenario_action ''mint'' [(''reserve'', ''yvWFTM''), (''amount'', ''1000''), (''user'', ''1'')] ''success'' None,
            scenario_action ''approveVault'' [(''reserve'', ''yvWFTM''), (''user'', ''1'')] ''success'' None,
            scenario_action ''depositCollateral'' [(''reserve'', ''yvWFTM''), (''amount'', ''1000''), (''user'', ''1'')] ''success'' None,
            scenario_action ''borrow'' [(''reserve'', ''USDC''), (''amount'', ''100''), (''borrowRateMode'', ''variable''), (''user'', ''1''), (''timeTravel'', ''365'')] ''success'' None]\<rparr>,
        \<lparr>story_description = ''User 1 tries to borrow the rest of the USDC liquidity (revert expected)'',
         story_actions =
           [scenario_action ''borrow'' [(''reserve'', ''USDC''), (''amount'', ''910''), (''borrowRateMode'', ''variable''), (''user'', ''1'')] ''revert'' (Some ''There is not enough collateral to cover a new borrow'')]\<rparr>,
        \<lparr>story_description = ''User 1 repays the USDC borrow after one year'',
         story_actions =
           [scenario_action ''mint'' [(''reserve'', ''USDC''), (''amount'', ''10''), (''user'', ''1'')] ''success'' None,
            scenario_action ''approve'' [(''reserve'', ''USDC''), (''user'', ''1'')] ''success'' None,
            scenario_action ''repay'' [(''reserve'', ''USDC''), (''amount'', ''-1''), (''user'', ''1''), (''onBehalfOf'', ''1''), (''borrowRateMode'', ''variable'')] ''success'' None]\<rparr>,
        \<lparr>story_description = ''User 0 withdraws the deposited USDC plus interest'',
         story_actions =
           [scenario_action ''withdraw'' [(''reserve'', ''USDC''), (''amount'', ''-1''), (''user'', ''0'')] ''success'' None]\<rparr>,
        \<lparr>story_description = ''User 1 withdraws the collateral'',
         story_actions =
           [scenario_action ''withdrawCollateral'' [(''reserve'', ''yvWFTM''), (''amount'', ''-1''), (''user'', ''1'')] ''success'' None]\<rparr>,
        \<lparr>story_description = ''User 1 deposits 1000 DAI, user 3 tries to borrow 1000 DAI without any collateral (revert expected)'',
         story_actions =
           [scenario_action ''mint'' [(''reserve'', ''DAI''), (''amount'', ''1000''), (''user'', ''1'')] ''success'' None,
            scenario_action ''approve'' [(''reserve'', ''DAI''), (''user'', ''1'')] ''success'' None,
            scenario_action ''deposit'' [(''reserve'', ''DAI''), (''amount'', ''1000''), (''user'', ''1'')] ''success'' None,
            scenario_action ''borrow'' [(''reserve'', ''DAI''), (''amount'', ''1000''), (''borrowRateMode'', ''variable''), (''user'', ''3'')] ''revert'' (Some ''The collateral balance is 0'')]\<rparr>,
        \<lparr>story_description = ''user 3 deposits 100 WFTM collateral to borrow 100 DAI; 100 WFTM is not enough to borrow 100 DAI (revert expected)'',
         story_actions =
           [scenario_action ''mint'' [(''reserve'', ''yvWFTM''), (''amount'', ''100''), (''user'', ''3'')] ''success'' None,
            scenario_action ''approveVault'' [(''reserve'', ''yvWFTM''), (''user'', ''3'')] ''success'' None,
            scenario_action ''depositCollateral'' [(''reserve'', ''yvWFTM''), (''amount'', ''100''), (''user'', ''3'')] ''success'' None,
            scenario_action ''borrow'' [(''reserve'', ''DAI''), (''amount'', ''500''), (''borrowRateMode'', ''variable''), (''user'', ''3'')] ''revert'' (Some ''There is not enough collateral to cover a new borrow'')]\<rparr>,
        \<lparr>story_description = ''user 3 withdraws the 100 WFTM'',
         story_actions =
           [scenario_action ''withdrawCollateral'' [(''reserve'', ''yvWFTM''), (''amount'', ''-1''), (''user'', ''3'')] ''success'' None]\<rparr>,
        \<lparr>story_description = ''User 1 deposits 1000 USDC, user 3 tries to borrow 1000 USDC without any collateral (revert expected)'',
         story_actions =
           [scenario_action ''mint'' [(''reserve'', ''USDC''), (''amount'', ''1000''), (''user'', ''1'')] ''success'' None,
            scenario_action ''approve'' [(''reserve'', ''USDC''), (''user'', ''1'')] ''success'' None,
            scenario_action ''deposit'' [(''reserve'', ''USDC''), (''amount'', ''1000''), (''user'', ''1'')] ''success'' None,
            scenario_action ''borrow'' [(''reserve'', ''USDC''), (''amount'', ''1000''), (''borrowRateMode'', ''variable''), (''user'', ''3'')] ''revert'' (Some ''The collateral balance is 0'')]\<rparr>,
        \<lparr>story_description = ''user 3 deposits 100 WFTM collateral to borrow 100 USDC; 100 WFTM is not enough to borrow 100 USDC (revert expected)'',
         story_actions =
           [scenario_action ''mint'' [(''reserve'', ''yvWFTM''), (''amount'', ''100''), (''user'', ''3'')] ''success'' None,
            scenario_action ''approveVault'' [(''reserve'', ''yvWFTM''), (''user'', ''3'')] ''success'' None,
            scenario_action ''depositCollateral'' [(''reserve'', ''yvWFTM''), (''amount'', ''100''), (''user'', ''3'')] ''success'' None,
            scenario_action ''borrow'' [(''reserve'', ''USDC''), (''amount'', ''500''), (''borrowRateMode'', ''variable''), (''user'', ''3'')] ''revert'' (Some ''There is not enough collateral to cover a new borrow'')]\<rparr>,
        \<lparr>story_description = ''user 3 withdraws the 100 WFTM'',
         story_actions =
           [scenario_action ''withdrawCollateral'' [(''reserve'', ''yvWFTM''), (''amount'', ''-1''), (''user'', ''3'')] ''success'' None]\<rparr>,
        \<lparr>story_description = ''User 0 deposits 1000 DAI, user 6 deposits 2000 WFTM and borrow 100 DAI at variable rate first, then 100 DAI at stable rate, repays everything. User 0 withdraws'',
         story_actions =
           [scenario_action ''mint'' [(''reserve'', ''DAI''), (''amount'', ''1000''), (''user'', ''0'')] ''success'' None,
            scenario_action ''approve'' [(''reserve'', ''DAI''), (''user'', ''0'')] ''success'' None,
            scenario_action ''deposit'' [(''reserve'', ''DAI''), (''amount'', ''1000''), (''user'', ''0'')] ''success'' None,
            scenario_action ''mint'' [(''reserve'', ''yvWFTM''), (''amount'', ''2000''), (''user'', ''6'')] ''success'' None,
            scenario_action ''approveVault'' [(''reserve'', ''yvWFTM''), (''user'', ''6'')] ''success'' None,
            scenario_action ''depositCollateral'' [(''reserve'', ''yvWFTM''), (''amount'', ''2000''), (''user'', ''6'')] ''success'' None,
            scenario_action ''borrow'' [(''reserve'', ''DAI''), (''amount'', ''100''), (''borrowRateMode'', ''variable''), (''user'', ''6''), (''timeTravel'', ''365'')] ''success'' None,
            scenario_action ''mint'' [(''reserve'', ''DAI''), (''amount'', ''50''), (''user'', ''6'')] ''success'' None,
            scenario_action ''approve'' [(''reserve'', ''DAI''), (''user'', ''6'')] ''success'' None,
            scenario_action ''repay'' [(''reserve'', ''DAI''), (''amount'', ''-1''), (''user'', ''6''), (''onBehalfOf'', ''6''), (''borrowRateMode'', ''variable'')] ''success'' None,
            scenario_action ''withdraw'' [(''reserve'', ''DAI''), (''amount'', ''-1''), (''user'', ''0'')] ''success'' None]\<rparr>]\<rparr>"

definition scenario_credit_delegation :: Scenario where
  "scenario_credit_delegation =
     \<lparr>scenario_title = ''LendingPool: credit delegation'',
      scenario_description = ''Test cases for the credit delegation related functions.'',
      scenario_stories =
       []\<rparr>"

definition scenario_deposit :: Scenario where
  "scenario_deposit =
     \<lparr>scenario_title = ''LendingPool: Deposit'',
      scenario_description = ''Test cases for the deposit function.'',
      scenario_stories =
       [\<lparr>story_description = ''User 0 Deposits 1000 DAI in an empty reserve'',
         story_actions =
           [scenario_action ''mint'' [(''reserve'', ''DAI''), (''amount'', ''1000''), (''user'', ''0'')] ''success'' None,
            scenario_action ''approve'' [(''reserve'', ''DAI''), (''user'', ''0'')] ''success'' None,
            scenario_action ''deposit'' [(''reserve'', ''DAI''), (''amount'', ''1000''), (''user'', ''0'')] ''success'' None]\<rparr>,
        \<lparr>story_description = ''User 1 deposits 1000 DAI after user 0'',
         story_actions =
           [scenario_action ''mint'' [(''reserve'', ''DAI''), (''amount'', ''1000''), (''user'', ''1'')] ''success'' None,
            scenario_action ''approve'' [(''reserve'', ''DAI''), (''user'', ''1'')] ''success'' None,
            scenario_action ''deposit'' [(''reserve'', ''DAI''), (''amount'', ''1000''), (''user'', ''1'')] ''success'' None]\<rparr>,
        \<lparr>story_description = ''User 0 deposits 1000 USDC in an empty reserve'',
         story_actions =
           [scenario_action ''mint'' [(''reserve'', ''USDC''), (''amount'', ''1000''), (''user'', ''0'')] ''success'' None,
            scenario_action ''approve'' [(''reserve'', ''USDC''), (''user'', ''0'')] ''success'' None,
            scenario_action ''deposit'' [(''reserve'', ''USDC''), (''amount'', ''1000''), (''user'', ''0'')] ''success'' None]\<rparr>,
        \<lparr>story_description = ''User 1 deposits 1000 USDC after user 0'',
         story_actions =
           [scenario_action ''mint'' [(''reserve'', ''USDC''), (''amount'', ''1000''), (''user'', ''1'')] ''success'' None,
            scenario_action ''approve'' [(''reserve'', ''USDC''), (''user'', ''1'')] ''success'' None,
            scenario_action ''deposit'' [(''reserve'', ''USDC''), (''amount'', ''1000''), (''user'', ''1'')] ''success'' None]\<rparr>,
        \<lparr>story_description = ''User 0 deposits 1000 WFTM in an empty reserve'',
         story_actions =
           [scenario_action ''mint'' [(''reserve'', ''yvWFTM''), (''amount'', ''1000''), (''user'', ''0'')] ''success'' None,
            scenario_action ''approve'' [(''reserve'', ''yvWFTM''), (''user'', ''0'')] ''success'' None,
            scenario_action ''deposit'' [(''reserve'', ''yvWFTM''), (''amount'', ''1000''), (''user'', ''0'')] ''revert'' (Some ''82'')]\<rparr>,
        \<lparr>story_description = ''User 1 deposits 1000 WFTM after user 0'',
         story_actions =
           [scenario_action ''mint'' [(''reserve'', ''yvWFTM''), (''amount'', ''1000''), (''user'', ''1'')] ''success'' None,
            scenario_action ''approve'' [(''reserve'', ''yvWFTM''), (''user'', ''1'')] ''success'' None,
            scenario_action ''deposit'' [(''reserve'', ''yvWFTM''), (''amount'', ''1000''), (''user'', ''1'')] ''revert'' (Some ''82'')]\<rparr>,
        \<lparr>story_description = ''User 1 deposits 0 WFTM (revert expected)'',
         story_actions =
           [scenario_action ''mint'' [(''reserve'', ''yvWFTM''), (''amount'', ''1000''), (''user'', ''0'')] ''success'' None,
            scenario_action ''deposit'' [(''reserve'', ''yvWFTM''), (''amount'', ''0''), (''user'', ''1'')] ''revert'' (Some ''Amount must be greater than 0'')]\<rparr>,
        \<lparr>story_description = ''User 1 deposits 0 DAI'',
         story_actions =
           [scenario_action ''deposit'' [(''reserve'', ''DAI''), (''amount'', ''0''), (''user'', ''1'')] ''revert'' (Some ''Amount must be greater than 0'')]\<rparr>,
        \<lparr>story_description = ''User 1 deposits 1000 WFTM on behalf of user 2, user 2 tries to borrow 2000 USDC'',
         story_actions =
           [scenario_action ''mint'' [(''reserve'', ''yvWFTM''), (''amount'', ''1000''), (''user'', ''1'')] ''success'' None,
            scenario_action ''approveVault'' [(''reserve'', ''yvWFTM''), (''user'', ''1'')] ''success'' None,
            scenario_action ''depositCollateral'' [(''reserve'', ''yvWFTM''), (''amount'', ''1000''), (''user'', ''1''), (''onBehalfOf'', ''1'')] ''success'' None,
            scenario_action ''borrow'' [(''reserve'', ''USDC''), (''amount'', ''1000''), (''borrowRateMode'', ''variable''), (''user'', ''1'')] ''success'' None]\<rparr>]\<rparr>"

definition scenario_rebalance_stable_rate :: Scenario where
  "scenario_rebalance_stable_rate =
     \<lparr>scenario_title = ''LendingPool: Rebalance stable rate'',
      scenario_description = ''Test cases for the rebalanceStableBorrowRate() function.'',
      scenario_stories =
       []\<rparr>"

definition scenario_set_use_as_collateral :: Scenario where
  "scenario_set_use_as_collateral =
     \<lparr>scenario_title = ''LendingPool: Usage as collateral'',
      scenario_description = ''Test cases for the setUserUseReserveAsCollateral() function.'',
      scenario_stories =
       [\<lparr>story_description = ''User 0 Deposits 1000 DAI, disables DAI as collateral'',
         story_actions =
           [scenario_action ''mint'' [(''reserve'', ''DAI''), (''amount'', ''1000''), (''user'', ''0'')] ''success'' None,
            scenario_action ''approve'' [(''reserve'', ''DAI''), (''user'', ''0'')] ''success'' None,
            scenario_action ''deposit'' [(''reserve'', ''DAI''), (''amount'', ''1000''), (''user'', ''0'')] ''success'' None,
            scenario_action ''setUseAsCollateral'' [(''reserve'', ''DAI''), (''user'', ''0''), (''useAsCollateral'', ''false'')] ''success'' None]\<rparr>,
        \<lparr>story_description = ''User 1 Deposits 2000 WFTM, disables WFTM as collateral, borrows 400 DAI (revert expected)'',
         story_actions =
           [scenario_action ''mint'' [(''reserve'', ''yvWFTM''), (''amount'', ''2000''), (''user'', ''1'')] ''success'' None,
            scenario_action ''approve'' [(''reserve'', ''yvWFTM''), (''user'', ''1'')] ''success'' None,
            scenario_action ''deposit'' [(''reserve'', ''yvWFTM''), (''amount'', ''2000''), (''user'', ''1'')] ''revert'' (Some ''82''),
            scenario_action ''setUseAsCollateral'' [(''reserve'', ''yvWFTM''), (''user'', ''1''), (''useAsCollateral'', ''false'')] ''revert'' (Some ''19''),
            scenario_action ''borrow'' [(''reserve'', ''DAI''), (''amount'', ''400''), (''borrowRateMode'', ''variable''), (''user'', ''1'')] ''revert'' (Some ''The collateral balance is 0'')]\<rparr>]\<rparr>"

definition scenario_swap_rate_mode :: Scenario where
  "scenario_swap_rate_mode =
     \<lparr>scenario_title = ''LendingPool: Swap rate mode'',
      scenario_description = ''Test cases for the swapBorrowRateMode() function.'',
      scenario_stories =
       [\<lparr>story_description = ''User 0 deposits 1000 DAI, user 1 deposits 2000 WFTM as collateral, borrows 100 DAI at variable rate and swaps to stable after one year'',
         story_actions =
           [scenario_action ''mint'' [(''reserve'', ''DAI''), (''amount'', ''1000''), (''user'', ''0'')] ''success'' None,
            scenario_action ''approve'' [(''reserve'', ''DAI''), (''user'', ''0'')] ''success'' None,
            scenario_action ''deposit'' [(''reserve'', ''DAI''), (''amount'', ''1000''), (''user'', ''0'')] ''success'' None,
            scenario_action ''mint'' [(''reserve'', ''yvWFTM''), (''amount'', ''2000''), (''user'', ''1'')] ''success'' None,
            scenario_action ''approveVault'' [(''reserve'', ''yvWFTM''), (''user'', ''1'')] ''success'' None,
            scenario_action ''depositCollateral'' [(''reserve'', ''yvWFTM''), (''amount'', ''2000''), (''user'', ''1'')] ''success'' None,
            scenario_action ''borrow'' [(''reserve'', ''DAI''), (''amount'', ''100''), (''borrowRateMode'', ''variable''), (''user'', ''1''), (''timeTravel'', ''365'')] ''success'' None]\<rparr>,
        \<lparr>story_description = ''User 1 borrows another 100 DAI, and swaps back to variable after one year, repays the loan'',
         story_actions =
           [scenario_action ''borrow'' [(''reserve'', ''DAI''), (''amount'', ''100''), (''borrowRateMode'', ''stable''), (''user'', ''1''), (''timeTravel'', ''365'')] ''success'' None,
            scenario_action ''mint'' [(''reserve'', ''DAI''), (''amount'', ''50''), (''user'', ''1'')] ''success'' None,
            scenario_action ''approve'' [(''reserve'', ''DAI''), (''user'', ''1'')] ''success'' None,
            scenario_action ''repay'' [(''reserve'', ''DAI''), (''amount'', ''-1''), (''user'', ''1''), (''onBehalfOf'', ''1''), (''borrowRateMode'', ''variable'')] ''success'' None]\<rparr>]\<rparr>"

definition scenario_withdraw_negatives :: Scenario where
  "scenario_withdraw_negatives =
     \<lparr>scenario_title = ''LendingPool: Redeem negative test cases'',
      scenario_description = ''Redeem function.'',
      scenario_stories =
       [\<lparr>story_description = ''Users 0 Deposits 1000 DAI and tries to redeem 0 DAI (revert expected)'',
         story_actions =
           [scenario_action ''mint'' [(''reserve'', ''DAI''), (''amount'', ''1000''), (''user'', ''0'')] ''success'' None,
            scenario_action ''approve'' [(''reserve'', ''DAI''), (''user'', ''0'')] ''success'' None,
            scenario_action ''deposit'' [(''reserve'', ''DAI''), (''amount'', ''1000''), (''user'', ''0'')] ''success'' None,
            scenario_action ''withdraw'' [(''reserve'', ''DAI''), (''amount'', ''0''), (''user'', ''0'')] ''revert'' (Some ''Amount to redeem needs to be > 0'')]\<rparr>,
        \<lparr>story_description = ''Users 0 tries to redeem 1100 DAI from the 1000 DAI deposited (revert expected)'',
         story_actions =
           [scenario_action ''withdraw'' [(''reserve'', ''DAI''), (''amount'', ''1100''), (''user'', ''0'')] ''revert'' (Some ''User cannot redeem more than the available balance'')]\<rparr>,
        \<lparr>story_description = ''Users 1 deposits 1000 WFTM, borrows 800 DAI, tries to redeem the 1000 WFTM deposited (revert expected)'',
         story_actions =
           [scenario_action ''mint'' [(''reserve'', ''yvWFTM''), (''amount'', ''1000''), (''user'', ''1'')] ''success'' None,
            scenario_action ''approveVault'' [(''reserve'', ''yvWFTM''), (''user'', ''1'')] ''success'' None,
            scenario_action ''depositCollateral'' [(''reserve'', ''yvWFTM''), (''amount'', ''1000''), (''user'', ''1'')] ''success'' None,
            scenario_action ''borrow'' [(''reserve'', ''DAI''), (''amount'', ''100''), (''user'', ''1''), (''borrowRateMode'', ''stable'')] ''success'' None,
            scenario_action ''withdrawCollateral'' [(''reserve'', ''yvWFTM''), (''amount'', ''-1''), (''user'', ''1'')] ''revert'' (Some ''Transfer cannot be allowed.'')]\<rparr>]\<rparr>"

definition scenario_withdraw :: Scenario where
  "scenario_withdraw =
     \<lparr>scenario_title = ''LendingPool: withdraw'',
      scenario_description = ''withdraw function.'',
      scenario_stories =
       [\<lparr>story_description = ''User 0 Deposits 1000 DAI in an empty reserve'',
         story_actions =
           [scenario_action ''mint'' [(''reserve'', ''DAI''), (''amount'', ''1000''), (''user'', ''0'')] ''success'' None,
            scenario_action ''approve'' [(''reserve'', ''DAI''), (''user'', ''0'')] ''success'' None,
            scenario_action ''deposit'' [(''reserve'', ''DAI''), (''amount'', ''1000''), (''user'', ''0'')] ''success'' None]\<rparr>,
        \<lparr>story_description = ''User 0 withdraws half of the deposited DAI'',
         story_actions =
           [scenario_action ''withdraw'' [(''reserve'', ''DAI''), (''amount'', ''500''), (''user'', ''0'')] ''success'' None]\<rparr>,
        \<lparr>story_description = ''User 0 withdraws remaining half of the deposited DAI'',
         story_actions =
           [scenario_action ''withdraw'' [(''reserve'', ''DAI''), (''amount'', ''-1''), (''user'', ''0'')] ''success'' None]\<rparr>,
        \<lparr>story_description = ''User 0 Deposits 1000 USDC in an empty reserve'',
         story_actions =
           [scenario_action ''mint'' [(''reserve'', ''USDC''), (''amount'', ''1000''), (''user'', ''0'')] ''success'' None,
            scenario_action ''approve'' [(''reserve'', ''USDC''), (''user'', ''0'')] ''success'' None,
            scenario_action ''deposit'' [(''reserve'', ''USDC''), (''amount'', ''1000''), (''user'', ''0'')] ''success'' None]\<rparr>,
        \<lparr>story_description = ''User 0 withdraws half of the deposited USDC'',
         story_actions =
           [scenario_action ''withdraw'' [(''reserve'', ''USDC''), (''amount'', ''500''), (''user'', ''0'')] ''success'' None]\<rparr>,
        \<lparr>story_description = ''User 0 withdraws remaining half of the deposited USDC'',
         story_actions =
           [scenario_action ''withdraw'' [(''reserve'', ''USDC''), (''amount'', ''-1''), (''user'', ''0'')] ''success'' None]\<rparr>,
        \<lparr>story_description = ''User 0 Deposits 1000 WFTM in an empty reserve'',
         story_actions =
           [scenario_action ''mint'' [(''reserve'', ''yvWFTM''), (''amount'', ''1000''), (''user'', ''0'')] ''success'' None,
            scenario_action ''approve'' [(''reserve'', ''yvWFTM''), (''user'', ''0'')] ''success'' None,
            scenario_action ''deposit'' [(''reserve'', ''yvWFTM''), (''amount'', ''1000''), (''user'', ''0'')] ''revert'' (Some ''82'')]\<rparr>,
        \<lparr>story_description = ''Users 0 and 1 Deposit 1000 DAI, both withdraw'',
         story_actions =
           [scenario_action ''mint'' [(''reserve'', ''DAI''), (''amount'', ''1000''), (''user'', ''1'')] ''success'' None,
            scenario_action ''approve'' [(''reserve'', ''DAI''), (''user'', ''1'')] ''success'' None,
            scenario_action ''deposit'' [(''reserve'', ''DAI''), (''amount'', ''1000''), (''user'', ''0'')] ''success'' None,
            scenario_action ''deposit'' [(''reserve'', ''DAI''), (''amount'', ''1000''), (''user'', ''1'')] ''success'' None,
            scenario_action ''withdraw'' [(''reserve'', ''DAI''), (''amount'', ''-1''), (''user'', ''0'')] ''success'' None,
            scenario_action ''withdraw'' [(''reserve'', ''DAI''), (''amount'', ''-1''), (''user'', ''1'')] ''success'' None]\<rparr>,
        \<lparr>story_description = ''Users 0 deposits 1000 DAI, user 1 Deposit 1000 USDC and 1000 WFTM, borrows 100 DAI. User 1 tries to withdraw all the USDC'',
         story_actions =
           [scenario_action ''deposit'' [(''reserve'', ''DAI''), (''amount'', ''1000''), (''user'', ''0'')] ''success'' None,
            scenario_action ''mint'' [(''reserve'', ''USDC''), (''amount'', ''1000''), (''user'', ''1'')] ''success'' None,
            scenario_action ''approve'' [(''reserve'', ''USDC''), (''user'', ''1'')] ''success'' None,
            scenario_action ''deposit'' [(''reserve'', ''USDC''), (''amount'', ''1000''), (''user'', ''1'')] ''success'' None,
            scenario_action ''mint'' [(''reserve'', ''yvWFTM''), (''amount'', ''1000''), (''user'', ''1'')] ''success'' None,
            scenario_action ''approveVault'' [(''reserve'', ''yvWFTM''), (''user'', ''1'')] ''success'' None,
            scenario_action ''depositCollateral'' [(''reserve'', ''yvWFTM''), (''amount'', ''1000''), (''user'', ''1'')] ''success'' None,
            scenario_action ''borrow'' [(''reserve'', ''DAI''), (''amount'', ''100''), (''user'', ''1''), (''borrowRateMode'', ''stable'')] ''success'' None,
            scenario_action ''withdraw'' [(''reserve'', ''USDC''), (''amount'', ''-1''), (''user'', ''1'')] ''success'' None]\<rparr>,
        \<lparr>story_description = ''Users 1 tries to withdraw 50 WFTM, which does not bring the HF below 1'',
         story_actions =
           [scenario_action ''withdrawCollateral'' [(''reserve'', ''yvWFTM''), (''amount'', ''50''), (''user'', ''1'')] ''success'' None]\<rparr>]\<rparr>"

definition scenario_files :: "Scenario list" where
  "scenario_files = [scenario_borrow_negatives, scenario_borrow_repay_stable, scenario_borrow_repay_variable, scenario_credit_delegation, scenario_deposit, scenario_rebalance_stable_rate, scenario_set_use_as_collateral, scenario_swap_rate_mode, scenario_withdraw_negatives, scenario_withdraw]"

section \<open>What the engine needs\<close>

definition scenario_actions :: "Scenario \<Rightarrow> Action list" where
  "scenario_actions s = concat (map story_actions (scenario_stories s))"

definition user_below :: "int \<Rightarrow> string option \<Rightarrow> bool" where
  "user_below n i \<longleftrightarrow>
     \<not> truthy_string i \<or> (case parseInt (the i) of None \<Rightarrow> False | Some k \<Rightarrow> 0 \<le> k \<and> k < n)"

text \<open>
  An action the engine can execute with seven users: it passes the guards, has a known name, the
  arguments of its name, users among the seven, one of the two expectations, and mints a token that
  has a holder.
\<close>

definition complete_action :: "Action \<Rightarrow> bool" where
  "complete_action act \<longleftrightarrow>
     (case check_action act of
        Inl e \<Rightarrow> False
      | Inr (args, name, reserve, userIndex, expected) \<Rightarrow>
          name \<in> set action_names
          \<and> (name \<in> {''mint'', ''deposit'', ''depositCollateral'', ''withdraw'', ''withdrawCollateral'', ''borrow'', ''repay''}
               \<longrightarrow> truthy_string (obj_get args ''amount''))
          \<and> (name = ''setUseAsCollateral'' \<longrightarrow> truthy_string (obj_get args ''useAsCollateral''))
          \<and> user_below 7 (Some userIndex) \<and> user_below 7 (obj_get args ''onBehalfOf'')
          \<and> expected \<in> {''success'', ''revert''}
          \<and> (name = ''mint'' \<longrightarrow> reserve \<in> {''USDC'', ''DAI'', ''yvWFTM''}))"

lemma complete_files:
  "list_all complete_action (scenario_actions scenario_borrow_negatives)"
  "list_all complete_action (scenario_actions scenario_borrow_repay_stable)"
  "list_all complete_action (scenario_actions scenario_borrow_repay_variable)"
  "list_all complete_action (scenario_actions scenario_credit_delegation)"
  "list_all complete_action (scenario_actions scenario_deposit)"
  "list_all complete_action (scenario_actions scenario_rebalance_stable_rate)"
  "list_all complete_action (scenario_actions scenario_set_use_as_collateral)"
  "list_all complete_action (scenario_actions scenario_swap_rate_mode)"
  "list_all complete_action (scenario_actions scenario_withdraw_negatives)"
  "list_all complete_action (scenario_actions scenario_withdraw)"
  by code_simp+


end
