(* ===== verification/VaultDeployments.thy ===== *)
theory VaultDeployments
  imports Deployments
begin

text \<open>
  \<^verbatim>\<open>helpers/contracts-deployments.ts\<close>, the contracts behind a proxy of the addresses provider
  (vaults, collateral adapter, incentives, yield manager), the libraries they link, and the
  liquidators. Two functions start \<open>withSaveAndVerify\<close> without awaiting or returning it
  (\<open>deployYearnRETHWstETHVaultImpl\<close>, \<open>deployYieldManagerImpl\<close>): they return before the contract is
  recorded, and the model returns the computation that is still to run.
\<close>

definition deployCurveswapAdapterLibrary :: "'x runtime \<Rightarrow> bool \<Rightarrow> ('x, Instance) io" where
  "deployCurveswapAdapterLibrary rt verify =
     await (getCurveswapAdapterAddress rt) (\<lambda>contractAddress.
     if truthy_string contractAddress
     then getContract rt ''CurveswapAdapter'' (the contractAddress)
     else
       await (lift_result (loadPoolConfig ''Sturdy'')) (\<lambda>config.
       await (getLendingPoolAddressesProvider rt None) (\<lambda>addressesProvider.
       await (setAddressFromConfig rt addressesProvider ''CURVE_ADDRESS_PROVIDER'' config ''CurveswapAddressProvider'') (\<lambda>_.
       await (readArtifact rt ''CurveswapAdapter'') (\<lambda>curveswapAdapterArtifact.
       let linkedCurveswapAdapterByteCode = linkBytecode curveswapAdapterArtifact [] in
       await (getFirstSigner rt) (\<lambda>signer.
       await (deployBytecode rt (artifact_abi curveswapAdapterArtifact) linkedCurveswapAdapterByteCode signer) (\<lambda>curveswapAdapter.
       withSaveAndVerify rt curveswapAdapter ''CurveswapAdapter'' [] verify)))))))"

definition deployLidoVaultLibraries :: "'x runtime \<Rightarrow> bool \<Rightarrow> ('x, string obj) io" where
  "deployLidoVaultLibraries rt verify =
     await (deployCurveswapAdapterLibrary rt verify) (\<lambda>curveswapAdapter.
     return_io [(''__$dd23f1857e690ebd380179be2f7f3c5f60$__'', contract_address curveswapAdapter)])"

definition deployUniswapAdapterLibrary :: "'x runtime \<Rightarrow> bool \<Rightarrow> ('x, Instance) io" where
  "deployUniswapAdapterLibrary rt verify =
     await (getUniswapAdapterAddress rt) (\<lambda>contractAddress.
     if truthy_string contractAddress
     then getContract rt ''UniswapAdapter'' (the contractAddress)
     else
       await (readArtifact rt ''UniswapAdapter'') (\<lambda>uniswapAdapterArtifact.
       let linkedUniswapAdapterByteCode = linkBytecode uniswapAdapterArtifact [] in
       await (getFirstSigner rt) (\<lambda>signer.
       await (deployBytecode rt (artifact_abi uniswapAdapterArtifact) linkedUniswapAdapterByteCode signer) (\<lambda>uniswapAdapter.
       withSaveAndVerify rt uniswapAdapter ''UniswapAdapter'' [] verify))))"

definition deployYieldManagerLibraries :: "'x runtime \<Rightarrow> bool \<Rightarrow> ('x, string obj) io" where
  "deployYieldManagerLibraries rt verify =
     await (deployUniswapAdapterLibrary rt verify) (\<lambda>uniswapAdapter.
     await (deployCurveswapAdapterLibrary rt verify) (\<lambda>curveswapAdapter.
     return_io [(''__$efebe91d5f5edc44768630199364d824de$__'', contract_address uniswapAdapter), (''__$dd23f1857e690ebd380179be2f7f3c5f60$__'', contract_address curveswapAdapter)]))"

definition deployLidoVaultImpl :: "'x runtime \<Rightarrow> bool \<Rightarrow> ('x, Instance) io" where
  "deployLidoVaultImpl rt verify =
     await (deployYieldManagerLibraries rt verify) (\<lambda>libraries.
     await (getFirstSigner rt) (\<lambda>signer.
     await (deployLinked rt ''LidoVaultFactory'' libraries signer []) (\<lambda>contract.
     withSaveAndVerify rt contract ''LidoVaultImpl'' [] verify)))"

definition deployLidoVault :: "'x runtime \<Rightarrow> bool \<Rightarrow> ('x, Instance) io" where
  "deployLidoVault rt verify =
     await (deployYieldManagerLibraries rt verify) (\<lambda>libraries.
     await (getFirstSigner rt) (\<lambda>signer.
     await (deployLinked rt ''LidoVaultFactory'' libraries signer []) (\<lambda>contract.
     await (withSaveAndVerify rt contract ''LidoVaultImpl'' [] verify) (\<lambda>lidoVaultImpl.
     await (getLendingPoolAddressesProvider rt None) (\<lambda>addressesProvider.
     await (sendAndWait rt addressesProvider ''setAddressAsProxy'' [VBytes32 ''LIDO_VAULT'', VStr (contract_address lidoVaultImpl)]) (\<lambda>_.
     await (lift_result (loadPoolConfig ''Sturdy'')) (\<lambda>config.
     await (setAddressFromConfig rt addressesProvider ''LIDO'' config ''Lido'') (\<lambda>_.
     await (setAddressFromConfig rt addressesProvider ''STETH_ETH_POOL'' config ''CurveswapLidoPool'') (\<lambda>_.
     await (setAddressFromConfig rt addressesProvider ''uniswapRouter'' config ''UniswapRouter'') (\<lambda>_.
     await (setAddressFromConfig rt addressesProvider ''WETH'' config ''WETH'') (\<lambda>_.
     await (callAddress rt addressesProvider ''getAddress'' [VBytes32 ''LIDO_VAULT'']) (\<lambda>lidoVaultProxyAddress.
     await (insertContractAddressInDb rt ''LidoVault'' lidoVaultProxyAddress) (\<lambda>_.
     getLidoVault rt None)))))))))))))"

definition deployYearnRETHWstETHVaultLibraries :: "'x runtime \<Rightarrow> bool \<Rightarrow> ('x, string obj) io" where
  "deployYearnRETHWstETHVaultLibraries rt verify =
     await (deployCurveswapAdapterLibrary rt verify) (\<lambda>curveswapAdapter.
     return_io [(''__$dd23f1857e690ebd380179be2f7f3c5f60$__'', contract_address curveswapAdapter)])"

definition deployYearnRETHWstETHVaultImpl :: "'x runtime \<Rightarrow> bool \<Rightarrow> ('x, ('x, Instance) io) io" where
  "deployYearnRETHWstETHVaultImpl rt verify =
     await (deployYearnRETHWstETHVaultLibraries rt verify) (\<lambda>libraries.
     await (getFirstSigner rt) (\<lambda>signer.
     await (deployLinked rt ''YearnRETHWstETHVaultFactory'' libraries signer []) (\<lambda>contract.
     return_io (withSaveAndVerify rt contract ''YearnRETHWstETHVaultImpl'' [] verify))))"

definition deployYearnRETHWstETHVaultVault :: "'x runtime \<Rightarrow> bool \<Rightarrow> ('x, Instance) io" where
  "deployYearnRETHWstETHVaultVault rt verify =
     await (deployYearnRETHWstETHVaultLibraries rt verify) (\<lambda>libraries.
     await (getFirstSigner rt) (\<lambda>signer.
     await (deployLinked rt ''YearnRETHWstETHVaultFactory'' libraries signer []) (\<lambda>contract.
     await (withSaveAndVerify rt contract ''YearnRETHWstETHVaultImpl'' [] verify) (\<lambda>vaultImpl.
     await (getLendingPoolAddressesProvider rt None) (\<lambda>addressesProvider.
     await (sendAndWait rt addressesProvider ''setAddressAsProxy'' [VBytes32 ''YEARN_RETH_WSTETH_VAULT'', VStr (contract_address vaultImpl)]) (\<lambda>_.
     await (lift_result (loadPoolConfig ''Sturdy'')) (\<lambda>config.
     await (setAddressFromConfig rt addressesProvider ''YVRETH_WSTETH'' config ''YearnRETHWstETHVault'') (\<lambda>_.
     await (setAddressFromConfig rt addressesProvider ''RETH_WSTETH'' config ''RETH_WSTETH_LP'') (\<lambda>_.
     await (setAddressFromConfig rt addressesProvider ''WSTETH'' config ''WSTETH'') (\<lambda>_.
     await (callAddress rt addressesProvider ''getAddress'' [VBytes32 ''YEARN_RETH_WSTETH_VAULT'']) (\<lambda>proxyAddress.
     await (insertContractAddressInDb rt ''YearnRETHWstETHVault'' proxyAddress) (\<lambda>_.
     getYearnRETHWstETHVault rt None))))))))))))"

definition deployConvexRocketPoolETHVaultImpl :: "'x runtime \<Rightarrow> bool \<Rightarrow> ('x, Instance) io" where
  "deployConvexRocketPoolETHVaultImpl rt verify =
     await (getFirstSigner rt) (\<lambda>signer.
     await (deploy rt ''ConvexCurveLPVaultFactory'' signer []) (\<lambda>contract.
     withSaveAndVerify rt contract ''ConvexRocketPoolETHVaulttImpl'' [] verify))"

definition deployConvexRocketPoolETHVault :: "'x runtime \<Rightarrow> bool \<Rightarrow> ('x, Instance) io" where
  "deployConvexRocketPoolETHVault rt verify =
     await (lift_result (loadPoolConfig ''Sturdy'')) (\<lambda>config.
     await (getFirstSigner rt) (\<lambda>signer.
     await (deploy rt ''ConvexCurveLPVaultFactory'' signer []) (\<lambda>contract.
     await (withSaveAndVerify rt contract ''ConvexRocketPoolETHVaulttImpl'' [] verify) (\<lambda>vaultImpl.
     await (getLendingPoolAddressesProvider rt None) (\<lambda>addressesProvider.
     await (sendAndWait rt addressesProvider ''setAddressAsProxy'' [VBytes32 ''CONVEX_ROCKET_POOL_ETH_VAULT'', VStr (contract_address vaultImpl)]) (\<lambda>_.
     await (setAddressFromConfig rt addressesProvider ''RETH_WSTETH'' config ''RETH_WSTETH_LP'') (\<lambda>_.
     await (setAddressFromConfig rt addressesProvider ''WSTETH'' config ''WSTETH'') (\<lambda>_.
     await (setAddressFromConfig rt addressesProvider ''CRV'' config ''CRV'') (\<lambda>_.
     await (setAddressFromConfig rt addressesProvider ''CVX'' config ''CVX'') (\<lambda>_.
     await (callAddress rt addressesProvider ''getAddress'' [VBytes32 ''CONVEX_ROCKET_POOL_ETH_VAULT'']) (\<lambda>proxyAddress.
     await (insertContractAddressInDb rt ''ConvexRocketPoolETHVault'' proxyAddress) (\<lambda>_.
     getConvexRocketPoolETHVault rt None))))))))))))"

definition deployConvexFRAX3CRVVaultImpl :: "'x runtime \<Rightarrow> bool \<Rightarrow> ('x, Instance) io" where
  "deployConvexFRAX3CRVVaultImpl rt verify =
     await (getFirstSigner rt) (\<lambda>signer.
     await (deploy rt ''ConvexCurveLPVaultFactory'' signer []) (\<lambda>contract.
     withSaveAndVerify rt contract ''ConvexFRAX3CRVVaultImpl'' [] verify))"

definition deployConvexFRAX3CRVVault :: "'x runtime \<Rightarrow> bool \<Rightarrow> ('x, Instance) io" where
  "deployConvexFRAX3CRVVault rt verify =
     await (lift_result (loadPoolConfig ''Sturdy'')) (\<lambda>config.
     await (getFirstSigner rt) (\<lambda>signer.
     await (deploy rt ''ConvexCurveLPVaultFactory'' signer []) (\<lambda>contract.
     await (withSaveAndVerify rt contract ''ConvexFRAX3CRVVaultImpl'' [] verify) (\<lambda>vaultImpl.
     await (getLendingPoolAddressesProvider rt None) (\<lambda>addressesProvider.
     await (sendAndWait rt addressesProvider ''setAddressAsProxy'' [VBytes32 ''CONVEX_FRAX_3CRV_VAULT'', VStr (contract_address vaultImpl)]) (\<lambda>_.
     await (setAddressFromConfig rt addressesProvider ''CRV'' config ''CRV'') (\<lambda>_.
     await (setAddressFromConfig rt addressesProvider ''CVX'' config ''CVX'') (\<lambda>_.
     await (callAddress rt addressesProvider ''getAddress'' [VBytes32 ''CONVEX_FRAX_3CRV_VAULT'']) (\<lambda>proxyAddress.
     await (insertContractAddressInDb rt ''ConvexFRAX3CRVVault'' proxyAddress) (\<lambda>_.
     getConvexFRAX3CRVVault rt None))))))))))"

definition deployConvexSTETHVaultImpl :: "'x runtime \<Rightarrow> bool \<Rightarrow> ('x, Instance) io" where
  "deployConvexSTETHVaultImpl rt verify =
     await (getFirstSigner rt) (\<lambda>signer.
     await (deploy rt ''ConvexCurveLPVaultFactory'' signer []) (\<lambda>contract.
     withSaveAndVerify rt contract ''ConvexSTETHVaultImpl'' [] verify))"

definition deployConvexSTETHVault :: "'x runtime \<Rightarrow> bool \<Rightarrow> ('x, Instance) io" where
  "deployConvexSTETHVault rt verify =
     await (lift_result (loadPoolConfig ''Sturdy'')) (\<lambda>config.
     await (getFirstSigner rt) (\<lambda>signer.
     await (deploy rt ''ConvexCurveLPVaultFactory'' signer []) (\<lambda>contract.
     await (withSaveAndVerify rt contract ''ConvexSTETHVaultImpl'' [] verify) (\<lambda>vaultImpl.
     await (getLendingPoolAddressesProvider rt None) (\<lambda>addressesProvider.
     await (sendAndWait rt addressesProvider ''setAddressAsProxy'' [VBytes32 ''CONVEX_STETH_VAULT'', VStr (contract_address vaultImpl)]) (\<lambda>_.
     await (setAddressFromConfig rt addressesProvider ''CRV'' config ''CRV'') (\<lambda>_.
     await (setAddressFromConfig rt addressesProvider ''CVX'' config ''CVX'') (\<lambda>_.
     await (callAddress rt addressesProvider ''getAddress'' [VBytes32 ''CONVEX_STETH_VAULT'']) (\<lambda>proxyAddress.
     await (insertContractAddressInDb rt ''ConvexSTETHVault'' proxyAddress) (\<lambda>_.
     getConvexSTETHVault rt None))))))))))"

definition deployConvexDOLA3CRVVaultImpl :: "'x runtime \<Rightarrow> bool \<Rightarrow> ('x, Instance) io" where
  "deployConvexDOLA3CRVVaultImpl rt verify =
     await (getFirstSigner rt) (\<lambda>signer.
     await (deploy rt ''ConvexCurveLPVaultFactory'' signer []) (\<lambda>contract.
     withSaveAndVerify rt contract ''ConvexDOLA3CRVVaultImpl'' [] verify))"

definition deployConvexDOLA3CRVVault :: "'x runtime \<Rightarrow> bool \<Rightarrow> ('x, Instance) io" where
  "deployConvexDOLA3CRVVault rt verify =
     await (lift_result (loadPoolConfig ''Sturdy'')) (\<lambda>config.
     await (getFirstSigner rt) (\<lambda>signer.
     await (deploy rt ''ConvexCurveLPVaultFactory'' signer []) (\<lambda>contract.
     await (withSaveAndVerify rt contract ''ConvexDOLA3CRVVaultImpl'' [] verify) (\<lambda>vaultImpl.
     await (getLendingPoolAddressesProvider rt None) (\<lambda>addressesProvider.
     await (sendAndWait rt addressesProvider ''setAddressAsProxy'' [VBytes32 ''CONVEX_DOLA_3CRV_VAULT'', VStr (contract_address vaultImpl)]) (\<lambda>_.
     await (setAddressFromConfig rt addressesProvider ''CRV'' config ''CRV'') (\<lambda>_.
     await (setAddressFromConfig rt addressesProvider ''CVX'' config ''CVX'') (\<lambda>_.
     await (callAddress rt addressesProvider ''getAddress'' [VBytes32 ''CONVEX_DOLA_3CRV_VAULT'']) (\<lambda>proxyAddress.
     await (insertContractAddressInDb rt ''ConvexDOLA3CRVVault'' proxyAddress) (\<lambda>_.
     getConvexDOLA3CRVVault rt None))))))))))"

definition deployYearnVaultImpl :: "'x runtime \<Rightarrow> bool \<Rightarrow> ('x, Instance) io" where
  "deployYearnVaultImpl rt verify =
     await (getFirstSigner rt) (\<lambda>signer.
     await (deploy rt ''YearnVaultFactory'' signer []) (\<lambda>contract.
     withSaveAndVerify rt contract ''YearnVaultImpl'' [] verify))"

definition deployYearnVault :: "'x runtime \<Rightarrow> bool \<Rightarrow> ('x, Instance) io" where
  "deployYearnVault rt verify =
     await (getFirstSigner rt) (\<lambda>signer.
     await (deploy rt ''YearnVaultFactory'' signer []) (\<lambda>contract.
     await (withSaveAndVerify rt contract ''YearnVaultImpl'' [] verify) (\<lambda>yearnVaultImpl.
     await (getLendingPoolAddressesProvider rt None) (\<lambda>addressesProvider.
     await (sendAndWait rt addressesProvider ''setAddressAsProxy'' [VBytes32 ''YEARN_VAULT'', VStr (contract_address yearnVaultImpl)]) (\<lambda>_.
     await (lift_result (loadPoolConfig ''Fantom'')) (\<lambda>config.
     await (setAddressFromConfig rt addressesProvider ''YVWFTM'' config ''YearnVaultFTM'') (\<lambda>_.
     await (setAddressFromConfig rt addressesProvider ''uniswapRouter'' config ''UniswapRouter'') (\<lambda>_.
     await (setAddressFromConfig rt addressesProvider ''WFTM'' config ''WFTM'') (\<lambda>_.
     await (callAddress rt addressesProvider ''getAddress'' [VBytes32 ''YEARN_VAULT'']) (\<lambda>yearnVaultProxyAddress.
     await (insertContractAddressInDb rt ''YearnVault'' yearnVaultProxyAddress) (\<lambda>_.
     getYearnVault rt None)))))))))))"

definition deployYearnWETHVaultImpl :: "'x runtime \<Rightarrow> bool \<Rightarrow> ('x, Instance) io" where
  "deployYearnWETHVaultImpl rt verify =
     await (getFirstSigner rt) (\<lambda>signer.
     await (deploy rt ''YearnWETHVaultFactory'' signer []) (\<lambda>contract.
     withSaveAndVerify rt contract ''YearnWETHVaultImpl'' [] verify))"

definition deployYearnWETHVault :: "'x runtime \<Rightarrow> bool \<Rightarrow> ('x, Instance) io" where
  "deployYearnWETHVault rt verify =
     await (getFirstSigner rt) (\<lambda>signer.
     await (deploy rt ''YearnWETHVaultFactory'' signer []) (\<lambda>contract.
     await (withSaveAndVerify rt contract ''YearnWETHVaultImpl'' [] verify) (\<lambda>yearnWETHVaultImpl.
     await (getLendingPoolAddressesProvider rt None) (\<lambda>addressesProvider.
     await (sendAndWait rt addressesProvider ''setAddressAsProxy'' [VBytes32 ''YEARN_WETH_VAULT'', VStr (contract_address yearnWETHVaultImpl)]) (\<lambda>_.
     await (lift_result (loadPoolConfig ''Fantom'')) (\<lambda>config.
     await (setAddressFromConfig rt addressesProvider ''YVWETH'' config ''YearnWETHVaultFTM'') (\<lambda>_.
     await (setAddressFromConfig rt addressesProvider ''WETH'' config ''WETH'') (\<lambda>_.
     await (callAddress rt addressesProvider ''getAddress'' [VBytes32 ''YEARN_WETH_VAULT'']) (\<lambda>yearnWETHVaultProxyAddress.
     await (insertContractAddressInDb rt ''YearnWETHVault'' yearnWETHVaultProxyAddress) (\<lambda>_.
     getYearnWETHVault rt None))))))))))"

definition deployYearnWBTCVaultImpl :: "'x runtime \<Rightarrow> bool \<Rightarrow> ('x, Instance) io" where
  "deployYearnWBTCVaultImpl rt verify =
     await (getFirstSigner rt) (\<lambda>signer.
     await (deploy rt ''YearnWBTCVaultFactory'' signer []) (\<lambda>contract.
     withSaveAndVerify rt contract ''YearnWBTCVaultImpl'' [] verify))"

definition deployYearnWBTCVault :: "'x runtime \<Rightarrow> bool \<Rightarrow> ('x, Instance) io" where
  "deployYearnWBTCVault rt verify =
     await (getFirstSigner rt) (\<lambda>signer.
     await (deploy rt ''YearnWBTCVaultFactory'' signer []) (\<lambda>contract.
     await (withSaveAndVerify rt contract ''YearnWBTCVaultImpl'' [] verify) (\<lambda>yearnWBTCVaultImpl.
     await (getLendingPoolAddressesProvider rt None) (\<lambda>addressesProvider.
     await (sendAndWait rt addressesProvider ''setAddressAsProxy'' [VBytes32 ''YEARN_WBTC_VAULT'', VStr (contract_address yearnWBTCVaultImpl)]) (\<lambda>_.
     await (lift_result (loadPoolConfig ''Fantom'')) (\<lambda>config.
     await (setAddressFromConfig rt addressesProvider ''YVWBTC'' config ''YearnWBTCVaultFTM'') (\<lambda>_.
     await (setAddressFromConfig rt addressesProvider ''WBTC'' config ''WBTC'') (\<lambda>_.
     await (callAddress rt addressesProvider ''getAddress'' [VBytes32 ''YEARN_WBTC_VAULT'']) (\<lambda>yearnWBTCVaultProxyAddress.
     await (insertContractAddressInDb rt ''YearnWBTCVault'' yearnWBTCVaultProxyAddress) (\<lambda>_.
     getYearnWBTCVault rt None))))))))))"

definition deployYearnBOOVaultImpl :: "'x runtime \<Rightarrow> bool \<Rightarrow> ('x, Instance) io" where
  "deployYearnBOOVaultImpl rt verify =
     await (getFirstSigner rt) (\<lambda>signer.
     await (deploy rt ''YearnBOOVaultFactory'' signer []) (\<lambda>contract.
     withSaveAndVerify rt contract ''YearnBOOVaultImpl'' [] verify))"

definition deployYearnBOOVault :: "'x runtime \<Rightarrow> bool \<Rightarrow> ('x, Instance) io" where
  "deployYearnBOOVault rt verify =
     await (getFirstSigner rt) (\<lambda>signer.
     await (deploy rt ''YearnBOOVaultFactory'' signer []) (\<lambda>contract.
     await (withSaveAndVerify rt contract ''YearnBOOVaultImpl'' [] verify) (\<lambda>yearnBOOVaultImpl.
     await (getLendingPoolAddressesProvider rt None) (\<lambda>addressesProvider.
     await (sendAndWait rt addressesProvider ''setAddressAsProxy'' [VBytes32 ''YEARN_BOO_VAULT'', VStr (contract_address yearnBOOVaultImpl)]) (\<lambda>_.
     await (lift_result (loadPoolConfig ''Fantom'')) (\<lambda>config.
     await (setAddressFromConfig rt addressesProvider ''YVBOO'' config ''YearnBOOVaultFTM'') (\<lambda>_.
     await (setAddressFromConfig rt addressesProvider ''BOO'' config ''BOO'') (\<lambda>_.
     await (callAddress rt addressesProvider ''getAddress'' [VBytes32 ''YEARN_BOO_VAULT'']) (\<lambda>yearnBOOVaultProxyAddress.
     await (insertContractAddressInDb rt ''YearnBOOVault'' yearnBOOVaultProxyAddress) (\<lambda>_.
     getYearnBOOVault rt None))))))))))"

definition deployTombFTMBeefyVaultImpl :: "'x runtime \<Rightarrow> bool \<Rightarrow> ('x, Instance) io" where
  "deployTombFTMBeefyVaultImpl rt verify =
     await (getFirstSigner rt) (\<lambda>signer.
     await (deploy rt ''TombFtmBeefyVaultFactory'' signer []) (\<lambda>contract.
     withSaveAndVerify rt contract ''TombFtmBeefyVaultImpl'' [] verify))"

definition deployTombFTMBeefyVault :: "'x runtime \<Rightarrow> bool \<Rightarrow> ('x, Instance) io" where
  "deployTombFTMBeefyVault rt verify =
     await (getFirstSigner rt) (\<lambda>signer.
     await (deploy rt ''TombFtmBeefyVaultFactory'' signer []) (\<lambda>contract.
     await (withSaveAndVerify rt contract ''TombFtmBeefyVaultImpl'' [] verify) (\<lambda>tombFtmBeefyVaultImpl.
     await (getLendingPoolAddressesProvider rt None) (\<lambda>addressesProvider.
     await (sendAndWait rt addressesProvider ''setAddressAsProxy'' [VBytes32 ''BEEFY_TOMB_FTM_VAULT'', VStr (contract_address tombFtmBeefyVaultImpl)]) (\<lambda>_.
     await (lift_result (loadPoolConfig ''Fantom'')) (\<lambda>config.
     await (setAddressFromConfig rt addressesProvider ''mooTombTOMB-FTM'' config ''BeefyVaultTOMB_FTM'') (\<lambda>_.
     await (setAddressFromConfig rt addressesProvider ''TOMB_FTM_LP'' config ''TOMB_FTM_LP'') (\<lambda>_.
     await (setAddressFromConfig rt addressesProvider ''TOMB'' config ''TOMB'') (\<lambda>_.
     await (callAddress rt addressesProvider ''getAddress'' [VBytes32 ''BEEFY_TOMB_FTM_VAULT'']) (\<lambda>tombFtmBeefyVaultProxyAddress.
     await (insertContractAddressInDb rt ''TombFtmBeefyVault'' tombFtmBeefyVaultProxyAddress) (\<lambda>_.
     getTombFtmBeefyVault rt None)))))))))))"

definition deployTombMiMaticBeefyVaultImpl :: "'x runtime \<Rightarrow> bool \<Rightarrow> ('x, Instance) io" where
  "deployTombMiMaticBeefyVaultImpl rt verify =
     await (getFirstSigner rt) (\<lambda>signer.
     await (deploy rt ''TombMimaticBeefyVaultFactory'' signer []) (\<lambda>contract.
     withSaveAndVerify rt contract ''TombMiMaticBeefyVaultImpl'' [] verify))"

definition deployTombMiMaticBeefyVault :: "'x runtime \<Rightarrow> bool \<Rightarrow> ('x, Instance) io" where
  "deployTombMiMaticBeefyVault rt verify =
     await (getFirstSigner rt) (\<lambda>signer.
     await (deploy rt ''TombMimaticBeefyVaultFactory'' signer []) (\<lambda>contract.
     await (withSaveAndVerify rt contract ''TombMiMaticBeefyVaultImpl'' [] verify) (\<lambda>tombMiMaticBeefyVaultImpl.
     await (getLendingPoolAddressesProvider rt None) (\<lambda>addressesProvider.
     await (sendAndWait rt addressesProvider ''setAddressAsProxy'' [VBytes32 ''BEEFY_TOMB_MIMATIC_VAULT'', VStr (contract_address tombMiMaticBeefyVaultImpl)]) (\<lambda>_.
     await (lift_result (loadPoolConfig ''Fantom'')) (\<lambda>config.
     await (setAddressFromConfig rt addressesProvider ''mooTombTOMB-MIMATIC'' config ''BeefyVaultTOMB_MIMATIC'') (\<lambda>_.
     await (setAddressFromConfig rt addressesProvider ''TOMB_MIMATIC_LP'' config ''TOMB_MIMATIC_LP'') (\<lambda>_.
     await (setAddressFromConfig rt addressesProvider ''MIMATIC'' config ''MIMATIC'') (\<lambda>_.
     await (setReserveAssetFromConfig rt addressesProvider ''USDC'' config ''USDC'') (\<lambda>_.
     await (setAddressFromConfig rt addressesProvider ''tombSwapRouter'' config ''TombSwapRouter'') (\<lambda>_.
     await (callAddress rt addressesProvider ''getAddress'' [VBytes32 ''BEEFY_TOMB_MIMATIC_VAULT'']) (\<lambda>tombMiMaticBeefyVaultProxyAddress.
     await (insertContractAddressInDb rt ''TombMiMaticBeefyVault'' tombMiMaticBeefyVaultProxyAddress) (\<lambda>_.
     getTombMiMaticBeefyVault rt None)))))))))))))"

definition deployBasedMiMaticBeefyVaultImpl :: "'x runtime \<Rightarrow> bool \<Rightarrow> ('x, Instance) io" where
  "deployBasedMiMaticBeefyVaultImpl rt verify =
     await (getFirstSigner rt) (\<lambda>signer.
     await (deploy rt ''BasedMimaticBeefyVaultFactory'' signer []) (\<lambda>contract.
     withSaveAndVerify rt contract ''BasedMiMaticBeefyVaultImpl'' [] verify))"

definition deployBasedMiMaticBeefyVault :: "'x runtime \<Rightarrow> bool \<Rightarrow> ('x, Instance) io" where
  "deployBasedMiMaticBeefyVault rt verify =
     await (getFirstSigner rt) (\<lambda>signer.
     await (deploy rt ''BasedMimaticBeefyVaultFactory'' signer []) (\<lambda>contract.
     await (withSaveAndVerify rt contract ''BasedMiMaticBeefyVaultImpl'' [] verify) (\<lambda>basedMiMaticBeefyVaultImpl.
     await (getLendingPoolAddressesProvider rt None) (\<lambda>addressesProvider.
     await (sendAndWait rt addressesProvider ''setAddressAsProxy'' [VBytes32 ''BEEFY_BASED_MIMATIC_VAULT'', VStr (contract_address basedMiMaticBeefyVaultImpl)]) (\<lambda>_.
     await (lift_result (loadPoolConfig ''Fantom'')) (\<lambda>config.
     await (setAddressFromConfig rt addressesProvider ''mooTombBASED-MIMATIC'' config ''BeefyVaultBASED_MIMATIC'') (\<lambda>_.
     await (setAddressFromConfig rt addressesProvider ''BASED_MIMATIC_LP'' config ''BASED_MIMATIC_LP'') (\<lambda>_.
     await (setAddressFromConfig rt addressesProvider ''BASED'' config ''BASED'') (\<lambda>_.
     await (callAddress rt addressesProvider ''getAddress'' [VBytes32 ''BEEFY_BASED_MIMATIC_VAULT'']) (\<lambda>basedMiMaticBeefyVaultProxyAddress.
     await (insertContractAddressInDb rt ''BasedMiMaticBeefyVault'' basedMiMaticBeefyVaultProxyAddress) (\<lambda>_.
     getBasedMiMaticBeefyVault rt None)))))))))))"

definition deployYearnFBeetsVaultImpl :: "'x runtime \<Rightarrow> bool \<Rightarrow> ('x, Instance) io" where
  "deployYearnFBeetsVaultImpl rt verify =
     await (getFirstSigner rt) (\<lambda>signer.
     await (deploy rt ''YearnFBEETSVaultFactory'' signer []) (\<lambda>contract.
     withSaveAndVerify rt contract ''YearnFBEETSVaultImpl'' [] verify))"

definition deployYearnFBeetsVault :: "'x runtime \<Rightarrow> bool \<Rightarrow> ('x, Instance) io" where
  "deployYearnFBeetsVault rt verify =
     await (getFirstSigner rt) (\<lambda>signer.
     await (deploy rt ''YearnFBEETSVaultFactory'' signer []) (\<lambda>contract.
     await (withSaveAndVerify rt contract ''YearnFBEETSVaultImpl'' [] verify) (\<lambda>yearnFBEETSVaultImpl.
     await (getLendingPoolAddressesProvider rt None) (\<lambda>addressesProvider.
     await (sendAndWait rt addressesProvider ''setAddressAsProxy'' [VBytes32 ''YEARN_FBEETS_VAULT'', VStr (contract_address yearnFBEETSVaultImpl)]) (\<lambda>_.
     await (lift_result (loadPoolConfig ''Fantom'')) (\<lambda>config.
     await (setAddressFromConfig rt addressesProvider ''YVFBEETS'' config ''YearnFBEETSVaultFTM'') (\<lambda>_.
     await (setAddressFromConfig rt addressesProvider ''fBEETS'' config ''fBEETS'') (\<lambda>_.
     await (setAddressFromConfig rt addressesProvider ''BEETS'' config ''BEETS'') (\<lambda>_.
     await (callAddress rt addressesProvider ''getAddress'' [VBytes32 ''YEARN_FBEETS_VAULT'']) (\<lambda>yearnFBEETSVaultProxyAddress.
     await (insertContractAddressInDb rt ''YearnFBEETSVault'' yearnFBEETSVaultProxyAddress) (\<lambda>_.
     getYearnFBEETSVault rt None)))))))))))"

definition deployYearnLINKVaultImpl :: "'x runtime \<Rightarrow> bool \<Rightarrow> ('x, Instance) io" where
  "deployYearnLINKVaultImpl rt verify =
     await (getFirstSigner rt) (\<lambda>signer.
     await (deploy rt ''YearnLINKVaultFactory'' signer []) (\<lambda>contract.
     withSaveAndVerify rt contract ''YearnLINKVaultImpl'' [] verify))"

definition deployYearnLINKVault :: "'x runtime \<Rightarrow> bool \<Rightarrow> ('x, Instance) io" where
  "deployYearnLINKVault rt verify =
     await (getFirstSigner rt) (\<lambda>signer.
     await (deploy rt ''YearnLINKVaultFactory'' signer []) (\<lambda>contract.
     await (withSaveAndVerify rt contract ''YearnLINKVaultImpl'' [] verify) (\<lambda>yearnLINKVaultImpl.
     await (getLendingPoolAddressesProvider rt None) (\<lambda>addressesProvider.
     await (sendAndWait rt addressesProvider ''setAddressAsProxy'' [VBytes32 ''YEARN_LINK_VAULT'', VStr (contract_address yearnLINKVaultImpl)]) (\<lambda>_.
     await (lift_result (loadPoolConfig ''Fantom'')) (\<lambda>config.
     await (setAddressFromConfig rt addressesProvider ''YVLINK'' config ''YearnLINKVaultFTM'') (\<lambda>_.
     await (setAddressFromConfig rt addressesProvider ''LINK'' config ''LINK'') (\<lambda>_.
     await (callAddress rt addressesProvider ''getAddress'' [VBytes32 ''YEARN_LINK_VAULT'']) (\<lambda>yearnLINKVaultProxyAddress.
     await (insertContractAddressInDb rt ''YearnLINKVault'' yearnLINKVaultProxyAddress) (\<lambda>_.
     getYearnLINKVault rt None))))))))))"

definition deployBeefyETHVault :: "'x runtime \<Rightarrow> bool \<Rightarrow> ('x, Instance) io" where
  "deployBeefyETHVault rt verify =
     await (getFirstSigner rt) (\<lambda>signer.
     await (deploy rt ''BeefyETHVaultFactory'' signer []) (\<lambda>contract.
     await (withSaveAndVerify rt contract ''BeefyETHVaultImpl'' [] verify) (\<lambda>beefyETHVault.
     await (getLendingPoolAddressesProvider rt None) (\<lambda>addressesProvider.
     await (sendAndWait rt addressesProvider ''setAddressAsProxy'' [VBytes32 ''BEEFY_ETH_VAULT'', VStr (contract_address beefyETHVault)]) (\<lambda>_.
     await (lift_result (loadPoolConfig ''Fantom'')) (\<lambda>config.
     await (setAddressFromConfig rt addressesProvider ''MOOWETH'' config ''BeefyETHVault'') (\<lambda>_.
     await (setAddressFromConfig rt addressesProvider ''WETH'' config ''WETH'') (\<lambda>_.
     await (callAddress rt addressesProvider ''getAddress'' [VBytes32 ''BEEFY_ETH_VAULT'']) (\<lambda>beefyVaultProxyAddress.
     await (insertContractAddressInDb rt ''BeefyETHVault'' beefyVaultProxyAddress) (\<lambda>_.
     getBeefyETHVault rt None))))))))))"

definition deployYearnCRVVaultImpl :: "'x runtime \<Rightarrow> bool \<Rightarrow> ('x, Instance) io" where
  "deployYearnCRVVaultImpl rt verify =
     await (getFirstSigner rt) (\<lambda>signer.
     await (deploy rt ''YearnCRVVaultFactory'' signer []) (\<lambda>contract.
     withSaveAndVerify rt contract ''YearnCRVVaultImpl'' [] verify))"

definition deployYearnCRVVault :: "'x runtime \<Rightarrow> bool \<Rightarrow> ('x, Instance) io" where
  "deployYearnCRVVault rt verify =
     await (getFirstSigner rt) (\<lambda>signer.
     await (deploy rt ''YearnCRVVaultFactory'' signer []) (\<lambda>contract.
     await (withSaveAndVerify rt contract ''YearnCRVVaultImpl'' [] verify) (\<lambda>yearnCRVVaultImpl.
     await (getLendingPoolAddressesProvider rt None) (\<lambda>addressesProvider.
     await (sendAndWait rt addressesProvider ''setAddressAsProxy'' [VBytes32 ''YEARN_CRV_VAULT'', VStr (contract_address yearnCRVVaultImpl)]) (\<lambda>_.
     await (lift_result (loadPoolConfig ''Fantom'')) (\<lambda>config.
     await (setAddressFromConfig rt addressesProvider ''YVCRV'' config ''YearnCRVVaultFTM'') (\<lambda>_.
     await (setAddressFromConfig rt addressesProvider ''CRV'' config ''CRV'') (\<lambda>_.
     await (callAddress rt addressesProvider ''getAddress'' [VBytes32 ''YEARN_CRV_VAULT'']) (\<lambda>yearnCRVVaultProxyAddress.
     await (insertContractAddressInDb rt ''YearnCRVVault'' yearnCRVVaultProxyAddress) (\<lambda>_.
     getYearnCRVVault rt None))))))))))"

definition deployYearnSPELLVaultImpl :: "'x runtime \<Rightarrow> bool \<Rightarrow> ('x, Instance) io" where
  "deployYearnSPELLVaultImpl rt verify =
     await (getFirstSigner rt) (\<lambda>signer.
     await (deploy rt ''YearnSPELLVaultFactory'' signer []) (\<lambda>contract.
     withSaveAndVerify rt contract ''YearnSPELLVaultImpl'' [] verify))"

definition deployYearnSPELLVault :: "'x runtime \<Rightarrow> bool \<Rightarrow> ('x, Instance) io" where
  "deployYearnSPELLVault rt verify =
     await (getFirstSigner rt) (\<lambda>signer.
     await (deploy rt ''YearnSPELLVaultFactory'' signer []) (\<lambda>contract.
     await (withSaveAndVerify rt contract ''YearnSPELLVaultImpl'' [] verify) (\<lambda>yearnSPELLVaultImpl.
     await (getLendingPoolAddressesProvider rt None) (\<lambda>addressesProvider.
     await (sendAndWait rt addressesProvider ''setAddressAsProxy'' [VBytes32 ''YEARN_SPELL_VAULT'', VStr (contract_address yearnSPELLVaultImpl)]) (\<lambda>_.
     await (lift_result (loadPoolConfig ''Fantom'')) (\<lambda>config.
     await (setAddressFromConfig rt addressesProvider ''YVSPELL'' config ''YearnSPELLVaultFTM'') (\<lambda>_.
     await (setAddressFromConfig rt addressesProvider ''SPELL'' config ''SPELL'') (\<lambda>_.
     await (callAddress rt addressesProvider ''getAddress'' [VBytes32 ''YEARN_SPELL_VAULT'']) (\<lambda>yearnSPELLVaultProxyAddress.
     await (insertContractAddressInDb rt ''YearnSPELLVault'' yearnSPELLVaultProxyAddress) (\<lambda>_.
     getYearnSPELLVault rt None))))))))))"

definition deploySturdyIncentivesControllerImpl :: "'x runtime \<Rightarrow> js_val list \<Rightarrow> bool \<Rightarrow> ('x, Instance) io" where
  "deploySturdyIncentivesControllerImpl rt args verify =
     await (getFirstSigner rt) (\<lambda>signer.
     await (deploy rt ''StakedTokenIncentivesControllerFactory'' signer args) (\<lambda>contract.
     withSaveAndVerify rt contract ''StakedTokenIncentivesControllerImpl'' args verify))"

definition deploySturdyIncentivesController :: "'x runtime \<Rightarrow> js_val list \<Rightarrow> bool \<Rightarrow> ('x, Instance) io" where
  "deploySturdyIncentivesController rt args verify =
     await (getFirstSigner rt) (\<lambda>signer.
     await (deploy rt ''StakedTokenIncentivesControllerFactory'' signer args) (\<lambda>contract.
     await (withSaveAndVerify rt contract ''StakedTokenIncentivesControllerImpl'' args verify) (\<lambda>incentiveControllerImpl.
     await (getLendingPoolAddressesProvider rt None) (\<lambda>addressesProvider.
     await (sendAndWait rt addressesProvider ''setIncentiveControllerImpl'' [VStr (contract_address incentiveControllerImpl)]) (\<lambda>_.
     await (callAddress rt addressesProvider ''getIncentiveController'' []) (\<lambda>incentiveControllerProxyAddress.
     await (insertContractAddressInDb rt ''StakedTokenIncentivesController'' incentiveControllerProxyAddress) (\<lambda>_.
     getSturdyIncentivesController rt None)))))))"

definition deploySturdyTokenImpl :: "'x runtime \<Rightarrow> bool \<Rightarrow> ('x, Instance) io" where
  "deploySturdyTokenImpl rt verify =
     await (getFirstSigner rt) (\<lambda>signer.
     await (deploy rt ''SturdyTokenFactory'' signer []) (\<lambda>contract.
     withSaveAndVerify rt contract ''SturdyTokenImpl'' [] verify))"

definition deploySturdyToken :: "'x runtime \<Rightarrow> bool \<Rightarrow> ('x, Instance) io" where
  "deploySturdyToken rt verify =
     await (getFirstSigner rt) (\<lambda>signer.
     await (deploy rt ''SturdyTokenFactory'' signer []) (\<lambda>contract.
     await (withSaveAndVerify rt contract ''SturdyTokenImpl'' [] verify) (\<lambda>incentiveTokenImpl.
     await (getLendingPoolAddressesProvider rt None) (\<lambda>addressesProvider.
     await (sendAndWait rt addressesProvider ''setIncentiveTokenImpl'' [VStr (contract_address incentiveTokenImpl)]) (\<lambda>_.
     await (callAddress rt addressesProvider ''getIncentiveToken'' []) (\<lambda>incentiveTokenProxyAddress.
     await (insertContractAddressInDb rt ''SturdyToken'' incentiveTokenProxyAddress) (\<lambda>_.
     getSturdyToken rt None)))))))"

definition deployCollateralAdapter :: "'x runtime \<Rightarrow> bool \<Rightarrow> ('x, Instance) io" where
  "deployCollateralAdapter rt verify =
     await (getFirstSigner rt) (\<lambda>signer.
     await (deploy rt ''CollateralAdapterFactory'' signer []) (\<lambda>contract.
     await (withSaveAndVerify rt contract ''CollateralAdapterImpl'' [] verify) (\<lambda>collateralAdapterImpl.
     await (getLendingPoolAddressesProvider rt None) (\<lambda>addressesProvider.
     await (sendAndWait rt addressesProvider ''setAddressAsProxy'' [VBytes32 ''COLLATERAL_ADAPTER'', VStr (contract_address collateralAdapterImpl)]) (\<lambda>_.
     await (callAddress rt addressesProvider ''getAddress'' [VBytes32 ''COLLATERAL_ADAPTER'']) (\<lambda>collateralAdapterProxyAddress.
     await (insertContractAddressInDb rt ''CollateralAdapter'' collateralAdapterProxyAddress) (\<lambda>_.
     getCollateralAdapter rt None)))))))"

definition deployTempLiquidator :: "'x runtime \<Rightarrow> js_val list \<Rightarrow> bool \<Rightarrow> ('x, Instance) io" where
  "deployTempLiquidator rt args verify =
     await (getFirstSigner rt) (\<lambda>signer.
     await (deploy rt ''TempLiquidatorFactory'' signer args) (\<lambda>contract.
     await (withSaveAndVerify rt contract ''LiquidatorImpl'' args verify) (\<lambda>liquidatorImpl.
     await (insertContractAddressInDb rt ''Liquidator'' (contract_address liquidatorImpl)) (\<lambda>_.
     await (getLendingPoolAddressesProvider rt None) (\<lambda>addressesProvider.
     await (sendAndWait rt addressesProvider ''setAddress'' [VBytes32 ''LIQUIDATOR'', VStr (contract_address liquidatorImpl)]) (\<lambda>_.
     getLiquidator rt None))))))"

definition deployLiquidator :: "'x runtime \<Rightarrow> js_val list \<Rightarrow> string \<Rightarrow> bool \<Rightarrow> ('x, Instance) io" where
  "deployLiquidator rt args configName verify =
     await (getFirstSigner rt) (\<lambda>signer.
     await (deploy rt ''LiquidatorFactory'' signer args) (\<lambda>contract.
     await (withSaveAndVerify rt contract ''LiquidatorImpl'' args verify) (\<lambda>liquidatorImpl.
     await (insertContractAddressInDb rt ''Liquidator'' (contract_address liquidatorImpl)) (\<lambda>_.
     await (getLendingPoolAddressesProvider rt None) (\<lambda>addressesProvider.
     await (sendAndWait rt addressesProvider ''setAddress'' [VBytes32 ''LIQUIDATOR'', VStr (contract_address liquidatorImpl)]) (\<lambda>_.
     await (lift_result (if configName = ''Fantom'' then loadPoolConfig ''Fantom'' else loadPoolConfig ''Sturdy'')) (\<lambda>config.
     await (setAddressFromConfig rt addressesProvider ''AAVE_LENDING_POOL'' config ''AavePool'') (\<lambda>_.
     getLiquidator rt None))))))))"

definition deployYieldManagerImpl :: "'x runtime \<Rightarrow> bool \<Rightarrow> ('x, ('x, Instance) io) io" where
  "deployYieldManagerImpl rt verify =
     await (deployYieldManagerLibraries rt verify) (\<lambda>libraries.
     await (getFirstSigner rt) (\<lambda>signer.
     await (deployLinked rt ''YieldManagerFactory'' libraries signer []) (\<lambda>contract.
     return_io (withSaveAndVerify rt contract ''YieldManagerImpl'' [] verify))))"

definition deployYieldManager :: "'x runtime \<Rightarrow> bool \<Rightarrow> ('x, Instance) io" where
  "deployYieldManager rt verify =
     await (lift_result (loadPoolConfig ''Sturdy'')) (\<lambda>config.
     await (deployYieldManagerLibraries rt verify) (\<lambda>libraries.
     await (getFirstSigner rt) (\<lambda>signer.
     await (deployLinked rt ''YieldManagerFactory'' libraries signer []) (\<lambda>contract.
     await (withSaveAndVerify rt contract ''YieldManagerImpl'' [] verify) (\<lambda>yieldManagerImpl.
     await (getLendingPoolAddressesProvider rt None) (\<lambda>addressesProvider.
     await (sendAndWait rt addressesProvider ''setAddressAsProxy'' [VBytes32 ''YIELD_MANAGER'', VStr (contract_address yieldManagerImpl)]) (\<lambda>_.
     await (callAddress rt addressesProvider ''getAddress'' [VBytes32 ''YIELD_MANAGER'']) (\<lambda>proxyAddress.
     await (insertContractAddressInDb rt ''YieldManager'' proxyAddress) (\<lambda>_.
     getYieldManager rt None)))))))))"

end
