(* ===== verification/DeploymentFacts.thy ===== *)
theory DeploymentFacts
  imports Deployments
begin

text \<open>
  What deploying a contract does to the database: the entry it leaves is that of the contract it
  returns, the matching getter of \<^verbatim>\<open>helpers/contracts-getters.ts\<close> attaches to that contract, and
  no other entry changes, even when the deployment fails half-way.
\<close>

section \<open>The deployments and their getters\<close>

text \<open>
  The deployments of one contract that has a getter: the identifier it is recorded under, its
  factory, the deployment and the getter.
\<close>

definition plain_deployments ::
    "js_val list \<Rightarrow> (string \<times> string \<times> ('x runtime \<Rightarrow> bool \<Rightarrow> ('x, Instance) io)
       \<times> ('x runtime \<Rightarrow> tEthereumAddress option \<Rightarrow> ('x, Instance) io)) list" where
  "plain_deployments args =
     [(''LendingPoolConfiguratorImpl'', ''LendingPoolConfiguratorFactory'', deployLendingPoolConfiguratorImpl, getLendingPoolConfiguratorImpl),
      (''LendingPoolConfigurator'', ''LendingPoolConfiguratorFactory'', deployLendingPoolConfigurator, getLendingPoolConfiguratorProxy),
      (''ReserveLogic'', ''ReserveLogicFactory'', deployReserveLogicLibrary, getReserveLogic),
      (''LendingPool'', ''LendingPoolFactory'', deployLendingPool, getLendingPool),
      (''PriceOracle'', ''PriceOracleFactory'', deployPriceOracle, getPriceOracle),
      (''LendingRateOracle'', ''LendingRateOracleFactory'', deployLendingRateOracle, getLendingRateOracle),
      (''SturdyOracle'', ''SturdyOracleFactory'', \<lambda>rt. deploySturdyOracle rt args, getSturdyOracle),
      (''BooOracle'', ''BooOracleFactory'', deployBooOracle, getBooOracle),
      (''TombOracle'', ''TombOracleFactory'', deployTombOracle, getTombOracle),
      (''TombFtmLPOracle'', ''TombFtmLPOracleFactory'', deployTombFtmLPOracle, getTombFtmLPOracle),
      (''TombMiMaticLPOracle'', ''TombMiMaticLPOracleFactory'', deployTombMiMaticLPOracle, getTombMiMaticLPOracle),
      (''FBeetsOracle'', ''FBeetsOracleFactory'', deployFBeetsOracle, getFBeetsOracle),
      (''BeetsOracle'', ''BeetsOracleFactory'', deployBeetsOracle, getBeetsOracle),
      (''BasedOracle'', ''BasedOracleFactory'', deployBasedOracle, getBasedOracle),
      (''BasedMiMaticLPOracle'', ''BasedMiMaticLPOracleFactory'', deployBasedMiMaticLPOracle, getBasedMiMaticLPOracle),
      (''RETHWstETHLPOracle'', ''CrvREthWstETHOracleFactory'', deployRETHWstETHLPOracle, getRETHWstETHLPOracle),
      (''LendingPoolCollateralManagerImpl'', ''LendingPoolCollateralManagerFactory'', deployLendingPoolCollateralManagerImpl, getLendingPoolCollateralManagerImpl),
      (''LendingPoolCollateralManager'', ''LendingPoolCollateralManagerFactory'', deployLendingPoolCollateralManager, getLendingPoolCollateralManager),
      (''MintableERC20'', ''MintableERC20Factory'', \<lambda>rt. deployMintableERC20 rt args, getMintableERC20),
      (''DefaultReserveInterestRateStrategy'', ''DefaultReserveInterestRateStrategyFactory'', \<lambda>rt. deployDefaultReserveInterestRateStrategy rt args, getInterestRateStrategy),
      (''StableDebtToken'', ''StableDebtTokenFactory'', \<lambda>rt. deployStableDebtToken rt args, getStableDebtToken),
      (''VariableDebtToken'', ''VariableDebtTokenFactory'', \<lambda>rt. deployVariableDebtToken rt args, getVariableDebtToken),
      (''StableDebtToken'', ''StableDebtTokenFactory'', \<lambda>rt verify. deployGenericStableDebtToken rt, getStableDebtToken),
      (''VariableDebtToken'', ''VariableDebtTokenFactory'', \<lambda>rt verify. deployGenericVariableDebtToken rt, getVariableDebtToken),
      (''AToken'', ''ATokenFactory'', \<lambda>rt. deployGenericAToken rt args, getAToken),
      (''ATokenForCollateral'', ''ATokenForCollateralFactory'', \<lambda>rt. deployCollateralAToken rt args, getCollateralATokenImpl),
      (''AToken'', ''ATokenFactory'', deployGenericATokenImpl, getAToken),
      (''ATokenForCollateral'', ''ATokenForCollateralFactory'', deployCollateralATokenImpl, getCollateralATokenImpl),
      (''StableAndVariableTokensHelper'', ''StableAndVariableTokensHelperFactory'', \<lambda>rt. deployStableAndVariableTokensHelper rt args, getStableAndVariableTokensHelper),
      (''ATokensAndRatesHelper'', ''ATokensAndRatesHelperFactory'', \<lambda>rt. deployATokensAndRatesHelper rt args, getATokensAndRatesHelper),
      (''MockStableDebtToken'', ''MockStableDebtTokenFactory'', \<lambda>rt. deployMockStableDebtToken rt args, getMockStableDebtToken),
      (''WETHMocked'', ''WETH9MockedFactory'', deployWETHMocked, getWETHMocked),
      (''MockVariableDebtToken'', ''MockVariableDebtTokenFactory'', \<lambda>rt. deployMockVariableDebtToken rt args, getMockVariableDebtToken),
      (''MockAToken'', ''MockATokenFactory'', \<lambda>rt. deployMockAToken rt args, getMockAToken),
      (''WalletBalanceProvider'', ''WalletBalanceProviderFactory'', deployWalletBalancerProvider, getWalletProvider),
      (''UiIncentiveDataProvider'', ''UiIncentiveDataProviderFactory'', deployUiIncentiveDataProvider, getUiIncentiveDataProvider),
      (''MockyvWFTM'', ''MockyvWFTMFactory'', \<lambda>rt. deployMockyvWFTM rt args, getMockyvWFTM),
      (''MockyvWETH'', ''MockyvWETHFactory'', \<lambda>rt. deployMockyvWETH rt args, getMockyvWETH),
      (''MockyvWBTC'', ''MockyvWBTCFactory'', \<lambda>rt. deployMockyvWBTC rt args, getMockyvWBTC),
      (''MockyvBOO'', ''MockyvBOOFactory'', \<lambda>rt. deployMockyvBOO rt args, getMockyvBOO),
      (''MockWBTCForFTM'', ''MockWBTCForFTMFactory'', \<lambda>rt. deployMockWBTCForFTM rt args, getMockWBTCForFTM),
      (''MockMooTOMBFTM'', ''MockMooTOMBFTMFactory'', \<lambda>rt. deployMockMooTOMBFTM rt args, getMockMooTOMBFTM),
      (''MockMooTOMBMIMATIC'', ''MockMooTOMBMIMATICFactory'', \<lambda>rt. deployMockMooTOMBMIMATIC rt args, getMockMooTOMBMIMATIC),
      (''MockMooBASEDMIMATIC'', ''MockMooBASEDMIMATICFactory'', \<lambda>rt. deployMockMooBASEDMIMATIC rt args, getMockMooBASEDMIMATIC),
      (''DeployVaultHelper'', ''DeployVaultHelperFactory'', \<lambda>rt. deployVaultHelper rt args, getDeployVaultHelper)]"

lemmas plain_deployment_defs =
  deployLendingPoolConfiguratorImpl_def deployLendingPoolConfigurator_def deployReserveLogicLibrary_def
  deployLendingPool_def deployPriceOracle_def deployLendingRateOracle_def
  deploySturdyOracle_def deployBooOracle_def deployTombOracle_def
  deployTombFtmLPOracle_def deployTombMiMaticLPOracle_def deployFBeetsOracle_def
  deployBeetsOracle_def deployBasedOracle_def deployBasedMiMaticLPOracle_def
  deployRETHWstETHLPOracle_def deployLendingPoolCollateralManagerImpl_def deployLendingPoolCollateralManager_def
  deployMintableERC20_def deployDefaultReserveInterestRateStrategy_def deployStableDebtToken_def
  deployVariableDebtToken_def deployGenericStableDebtToken_def deployGenericVariableDebtToken_def
  deployGenericAToken_def deployCollateralAToken_def deployGenericATokenImpl_def
  deployCollateralATokenImpl_def deployStableAndVariableTokensHelper_def deployATokensAndRatesHelper_def
  deployMockStableDebtToken_def deployWETHMocked_def deployMockVariableDebtToken_def
  deployMockAToken_def deployWalletBalancerProvider_def deployUiIncentiveDataProvider_def
  deployMockyvWFTM_def deployMockyvWETH_def deployMockyvWBTC_def
  deployMockyvBOO_def deployMockWBTCForFTM_def deployMockMooTOMBFTM_def
  deployMockMooTOMBMIMATIC_def deployMockMooBASEDMIMATIC_def deployVaultHelper_def

section \<open>The entry a deployment leaves\<close>

definition saves :: "'x runtime \<Rightarrow> string \<Rightarrow> ('x, Instance) io \<Rightarrow> bool" where
  "saves rt cid m \<longleftrightarrow>
     (\<forall>w i w'. m w = (Inr i, w') \<longrightarrow>
        deployTransaction_from i \<noteq> None
        \<and> db_entry_of rt w' cid
            = Some \<lparr>entry_address = contract_address i, entry_deployer = deployTransaction_from i\<rparr>)"

named_theorems save_rules \<open>deployments that record what they return\<close>

lemma savesD:
  assumes "saves rt cid m" "m w = (Inr i, w')"
  shows "db_entry_of rt w' cid
      = Some \<lparr>entry_address = contract_address i, entry_deployer = deployTransaction_from i\<rparr>"
    "deployTransaction_from i \<noteq> None"
  using assms unfolding saves_def by blast+

lemma saves_withSaveAndVerify [save_rules]: "saves rt cid (withSaveAndVerify rt inst cid args verify)"
  unfolding saves_def using withSaveAndVerify_Inr by fastforce

lemma saves_await: "(\<And>a. saves rt cid (f a)) \<Longrightarrow> saves rt cid (await m f)"
  unfolding saves_def await_eq_Inr by blast

lemma saves_then_send [save_rules]:
  assumes "saves rt cid m"
  shows "saves rt cid (await m (\<lambda>i. await (send rt i meth (xs i)) (\<lambda>_. return_io i)))"
  unfolding saves_def
proof (intro allI impI)
  fix w i w'
  assume "await m (\<lambda>i. await (send rt i meth (xs i)) (\<lambda>_. return_io i)) w = (Inr i, w')"
  then obtain w1 u where m: "m w = (Inr i, w1)" and s: "send rt i meth (xs i) w1 = (Inr u, w')"
    by (auto simp: await_eq_Inr)
  have "db_entry_of rt w' cid = db_entry_of rt w1 cid"
    using s by (intro db_entry_of_no_writes [of rt "send rt i meth (xs i)" w1]) (auto intro: frame_rules)
  with savesD [OF assms m] show "deployTransaction_from i \<noteq> None \<and> db_entry_of rt w' cid
      = Some \<lparr>entry_address = contract_address i, entry_deployer = deployTransaction_from i\<rparr>"
    by simp
qed

lemmas saves_intros = save_rules saves_await

lemma plain_deployments_save:
  "(cid, F, d, g) \<in> set (plain_deployments args) \<Longrightarrow> saves rt cid (d rt verify)"
  unfolding plain_deployments_def
  by (simp, elim disjE; clarsimp; unfold plain_deployment_defs; intro saves_intros)

lemma plain_deployments_get:
  "(cid, F, d, g) \<in> set (plain_deployments args) \<Longrightarrow>
   g rt None = await (recordedAddress rt None cid) (\<lambda>address. await (getFirstSigner rt) (\<lambda>signer.
     return_io (attach F address signer)))"
  unfolding plain_deployments_def by (simp, elim disjE; simp add: getter_defs)

text \<open>
  C29: for each of these deployments, with or without verification, on any network: when it returns
  a contract, that contract carries its deployment transaction, the database holds its address and
  deployer under the deployment's identifier, and the getter called without an address attaches the
  same factory to the same address.
\<close>
theorem deployed_contract_is_found:
  assumes "(cid, factory, deployment, getter) \<in> set (plain_deployments args)"
    and "deployment rt verify w = (Inr contract, w')"
  shows "deployTransaction_from contract \<noteq> None
    \<and> db_entry_of rt w' cid
        = Some \<lparr>entry_address = contract_address contract, entry_deployer = deployTransaction_from contract\<rparr>
    \<and> getter rt None w'
        = await (getFirstSigner rt) (\<lambda>signer. return_io (attach factory (contract_address contract) signer)) w'"
  using savesD [OF plain_deployments_save [OF assms(1)] assms(2)]
  by (simp add: plain_deployments_get [OF assms(1)] await_recordedAddress)

end
