(* ===== verification/Registry.thy ===== *)
theory Registry
  imports VaultDeployments DeploymentFacts
begin

text \<open>
  What the deployment of a proxied contract relies on, as an interface: the laws of the addresses
  provider the scripts call. The client lemmas, proved once from the laws: which provider entries,
  proxy and database entries a successful vault deployment leaves.
\<close>

section \<open>Partial correctness\<close>

text \<open>\<open>post m Q w\<close>: if \<open>m\<close> returns normally from \<open>w\<close>, value and state satisfy \<open>Q\<close>.\<close>

definition post :: "('x, 'a) io \<Rightarrow> ('a \<Rightarrow> 'x world \<Rightarrow> bool) \<Rightarrow> 'x world \<Rightarrow> bool" where
  "post m Q w \<longleftrightarrow> (\<forall>a w'. m w = (Inr a, w') \<longrightarrow> Q a w')"

named_theorems post_rules \<open>what a step establishes when it returns\<close>

lemma postD: "post m Q w \<Longrightarrow> m w = (Inr a, w') \<Longrightarrow> Q a w'"
  by (simp add: post_def)

lemma post_await: "post m (\<lambda>a. post (f a) Q) w \<Longrightarrow> post (await m f) Q w"
  by (auto simp: post_def await_eq_Inr)

lemma post_return: "Q a w \<Longrightarrow> post (return_io a) Q w"
  by (simp add: post_def return_io_def)

lemma post_any: "(\<And>a w'. Q a w') \<Longrightarrow> post m Q w"
  by (simp add: post_def)

lemma post_lift: "(\<And>a. r = Inr a \<Longrightarrow> Q a w) \<Longrightarrow> post (lift_result r) Q w"
  by (auto simp: post_def lift_result_def)

lemma post_recordedAddress:
  "(\<And>e. db_entry_of rt w cid = Some e \<Longrightarrow> Q (entry_address e) w) \<Longrightarrow> post (recordedAddress rt None cid) Q w"
  by (auto simp: post_def recordedAddress_None await_eq_Inr lift_result_def)

lemma post_withSaveAndVerify:
  assumes "\<And>w' sender. deployTransaction_from inst = Some sender \<Longrightarrow>
      db_entry_of rt w' = (db_entry_of rt w)
        (cid \<mapsto> \<lparr>entry_address = contract_address inst, entry_deployer = Some sender\<rparr>) \<Longrightarrow> Q inst w'"
  shows "post (withSaveAndVerify rt inst cid args verify) Q w"
  unfolding post_def
proof (intro allI impI)
  fix i w'
  assume run: "withSaveAndVerify rt inst cid args verify w = (Inr i, w')"
  then obtain sender where i: "i = inst" "deployTransaction_from inst = Some sender"
    "db_entry_of rt w' cid = Some \<lparr>entry_address = contract_address inst, entry_deployer = Some sender\<rparr>"
    using withSaveAndVerify_Inr by blast
  moreover have "db_entry_of rt w' c = db_entry_of rt w c" if "c \<noteq> cid" for c
    using that run by (intro db_entry_of_writes [of rt "{cid}" "withSaveAndVerify rt inst cid args verify" w])
      (auto intro: frame_rules)
  ultimately show "Q i w'" using assms [of sender w'] by (auto simp: fun_eq_iff)
qed

lemma post_insert:
  "(\<And>w'. network_state w' = network_state w \<Longrightarrow>
      db_entry_of rt w' = (db_entry_of rt w)(cid \<mapsto> \<lparr>entry_address = addr, entry_deployer = None\<rparr>) \<Longrightarrow> Q () w') \<Longrightarrow>
   post (insertContractAddressInDb rt cid addr) Q w"
  by (auto simp: post_def insertContractAddressInDb_def db_set_def db_entry_of_def fun_eq_iff)

section \<open>Runs that return, runs that fail\<close>

definition total :: "('x, 'a) io \<Rightarrow> ('a \<Rightarrow> 'x world \<Rightarrow> bool) \<Rightarrow> 'x world \<Rightarrow> bool" where
  "total m Q w \<longleftrightarrow> (\<exists>a w'. m w = (Inr a, w') \<and> Q a w')"

definition fails :: "('x, 'a) io \<Rightarrow> (js_error \<Rightarrow> 'x world \<Rightarrow> bool) \<Rightarrow> 'x world \<Rightarrow> bool" where
  "fails m E w \<longleftrightarrow> (\<exists>e w'. m w = (Inl e, w') \<and> E e w')"

lemma total_await: "total m (\<lambda>a. total (f a) Q) w \<Longrightarrow> total (await m f) Q w"
  by (auto simp: total_def)

lemma total_return: "Q a w \<Longrightarrow> total (return_io a) Q w"
  by (simp add: total_def)

lemma total_lift: "r = Inr a \<Longrightarrow> Q a w \<Longrightarrow> total (lift_result r) Q w"
  by (simp add: total_def lift_result_def)

lemma fails_then: "total m (\<lambda>a. fails (f a) E) w \<Longrightarrow> fails (await m f) E w"
  by (fastforce simp: total_def fails_def)

lemma fails_here: "fails m E w \<Longrightarrow> fails (await m f) E w"
  by (auto simp: fails_def)

lemma total_network: "f (network_state w) = (Inr a, x') \<Longrightarrow> Q a (w\<lparr>network_state := x'\<rparr>) \<Longrightarrow> total (on_network f) Q w"
  by (simp add: total_def on_network_def)

lemma total_mono: "total m Q w \<Longrightarrow> (\<And>a w'. Q a w' \<Longrightarrow> Q' a w') \<Longrightarrow> total m Q' w"
  by (auto simp: total_def)

lemma total_for_each:
  "(\<And>x w. x \<in> set xs \<Longrightarrow> I w \<Longrightarrow> total (body x) (\<lambda>_. I) w) \<Longrightarrow> I w \<Longrightarrow> total (for_each body xs) (\<lambda>_. I) w"
proof (induction xs arbitrary: w)
  case (Cons x xs)
  show ?case
    unfolding for_each.simps
    by (rule total_await, rule total_mono [OF Cons.prems(1)]; (rule Cons.IH)?) (use Cons.prems in simp_all)
qed (simp add: total_return)

lemma total_for_fold:
  "(\<And>s x w. x \<in> set xs \<Longrightarrow> I w \<Longrightarrow> total (body s x) (\<lambda>_. I) w) \<Longrightarrow> I w \<Longrightarrow> total (for_fold body s xs) (\<lambda>_. I) w"
proof (induction xs arbitrary: s w)
  case (Cons x xs)
  show ?case
    unfolding for_fold.simps
    by (rule total_await, rule total_mono [OF Cons.prems(1)]; (rule Cons.IH)?) (use Cons.prems in simp_all)
qed (simp add: total_return)

section \<open>The interface\<close>

definition is_provider :: "Instance \<Rightarrow> bool" where
  "is_provider p \<longleftrightarrow> contract_abi p = ''LendingPoolAddressesProviderFactory''"

text \<open>
  \<open>registered x p k\<close> is the address the provider at \<open>p\<close> holds under the key \<open>k\<close> in the network
  state \<open>x\<close>, \<open>implementation x a\<close> the implementation behind the proxy at \<open>a\<close>.
\<close>

locale addresses_registry =
  fixes rt :: "'x runtime"
    and registered :: "'x \<Rightarrow> string \<Rightarrow> string \<Rightarrow> string"
    and implementation :: "'x \<Rightarrow> string \<Rightarrow> string"
  assumes setAddress: "is_provider p \<Longrightarrow> rt_send rt p ''setAddress'' [VBytes32 k, v] x = (Inr tx, x') \<Longrightarrow>
      \<exists>a. v = VStr a \<and> implementation x' = implementation x
        \<and> registered x' = (registered x)(contract_address p := (registered x (contract_address p))(k := a))"
    and setAddressAsProxy: "is_provider p \<Longrightarrow> rt_send rt p ''setAddressAsProxy'' [VBytes32 k, VStr a] x = (Inr tx, x') \<Longrightarrow>
      implementation x' (registered x' (contract_address p) k) = a
      \<and> (\<forall>q k'. q \<noteq> contract_address p \<or> k' \<noteq> k \<longrightarrow> registered x' q k' = registered x q k')"
    and getAddress: "is_provider p \<Longrightarrow> rt_call rt p ''getAddress'' [VBytes32 k] x = (Inr v, x') \<Longrightarrow>
      v = VStr (registered x (contract_address p) k) \<and> registered x' = registered x \<and> implementation x' = implementation x"
    and rt_wait_registry: "rt_wait rt tx x = (Inr u, x') \<Longrightarrow> registered x' = registered x \<and> implementation x' = implementation x"
    and getSigners_registry: "rt_getSigners rt x = (Inr ss, x') \<Longrightarrow> registered x' = registered x \<and> implementation x' = implementation x"
    and getSigner_registry: "rt_getSigner rt a x = (Inr s, x') \<Longrightarrow> registered x' = registered x \<and> implementation x' = implementation x"
    and getBalance_registry: "rt_getBalance rt a x = (Inr n, x') \<Longrightarrow> registered x' = registered x \<and> implementation x' = implementation x"
    and impersonate_registry: "rt_impersonate rt a x = (Inr u, x') \<Longrightarrow> registered x' = registered x \<and> implementation x' = implementation x"
begin

text \<open>The state of the registry, and steps that leave it and the database alone.\<close>

definition keeps :: "('x, 'a) io \<Rightarrow> bool" where
  "keeps m \<longleftrightarrow> (\<forall>w a w'. m w = (Inr a, w') \<longrightarrow> db_entry_of rt w' = db_entry_of rt w
     \<and> registered (network_state w') = registered (network_state w)
     \<and> implementation (network_state w') = implementation (network_state w))"

lemma keeps_await: "keeps m \<Longrightarrow> (\<And>a. keeps (f a)) \<Longrightarrow> keeps (await m f)"
  unfolding keeps_def await_eq_Inr by metis

lemma keeps_simple:
  "keeps (return_io a)" "keeps (lift_result r)" "keeps (db_get rt cid)"
  by (auto simp: keeps_def return_io_def lift_result_def)

lemma keeps_network:
  "(\<And>x a x'. f x = (Inr a, x') \<Longrightarrow> registered x' = registered x \<and> implementation x' = implementation x) \<Longrightarrow>
   keeps (on_network f)"
  by (auto simp: keeps_def on_network_def fun_eq_iff split: prod.splits)

lemma keeps_for_each: "(\<And>x. keeps (body x)) \<Longrightarrow> keeps (for_each body xs)"
  by (induction xs) (auto intro!: keeps_await keeps_simple)

lemma keeps_if: "keeps m \<Longrightarrow> keeps m' \<Longrightarrow> keeps (if b then m else m')"
  by simp

lemmas keeps_rules = keeps_await keeps_simple keeps_for_each keeps_if

lemma keeps_getFirstSigner: "keeps (getFirstSigner rt)"
  unfolding getFirstSigner_def getEthersSigners_def getDefenderRelaySigner_def impersonateAccountsHardhat_def Let_def
  by (intro keeps_rules keeps_network getSigners_registry getSigner_registry getBalance_registry impersonate_registry)

lemma keeps_waitForTx: "keeps (waitForTx rt tx)"
  unfolding waitForTx_def by (intro keeps_network rt_wait_registry)

lemma post_keeps:
  "keeps m \<Longrightarrow> (\<And>a w'. db_entry_of rt w' = db_entry_of rt w \<Longrightarrow>
      registered (network_state w') = registered (network_state w) \<Longrightarrow>
      implementation (network_state w') = implementation (network_state w) \<Longrightarrow> Q a w') \<Longrightarrow> post m Q w"
  by (auto simp: keeps_def post_def)

lemmas post_getFirstSigner = post_keeps [OF keeps_getFirstSigner]

lemma post_network:
  "(\<And>a x'. f (network_state w) = (Inr a, x') \<Longrightarrow> Q a (w\<lparr>network_state := x'\<rparr>)) \<Longrightarrow> post (on_network f) Q w"
  by (auto simp: post_def on_network_def split: prod.splits)

lemma post_sendAndWait:
  assumes "\<And>tx x' w'. rt_send rt p meth args (network_state w) = (Inr tx, x') \<Longrightarrow>
      db_entry_of rt w' = db_entry_of rt w \<Longrightarrow>
      registered (network_state w') = registered x' \<Longrightarrow>
      implementation (network_state w') = implementation x' \<Longrightarrow> Q () w'"
  shows "post (sendAndWait rt p meth args) Q w"
  unfolding sendAndWait_def send_def
proof (intro post_await post_network post_keeps [OF keeps_waitForTx])
  fix tx x' u w'
  assume "rt_send rt p meth args (network_state w) = (Inr tx, x')"
    "db_entry_of rt w' = db_entry_of rt (w\<lparr>network_state := x'\<rparr>)"
    "registered (network_state w') = registered (network_state (w\<lparr>network_state := x'\<rparr>))"
    "implementation (network_state w') = implementation (network_state (w\<lparr>network_state := x'\<rparr>))"
  then show "Q u w'" using assms [of tx x' w'] by (simp add: fun_eq_iff)
qed

lemma post_setAddress:
  assumes "is_provider p" "\<And>a w'. v = VStr a \<Longrightarrow> db_entry_of rt w' = db_entry_of rt w \<Longrightarrow>
      registered (network_state w') = (registered (network_state w))
        (contract_address p := (registered (network_state w) (contract_address p))(k := a)) \<Longrightarrow>
      implementation (network_state w') = implementation (network_state w) \<Longrightarrow> Q () w'"
  shows "post (sendAndWait rt p ''setAddress'' [VBytes32 k, v]) Q w"
  using setAddress [OF assms(1)] by (intro post_sendAndWait) (metis assms(2))

lemma post_setAddressAsProxy:
  assumes "is_provider p" "\<And>w'. db_entry_of rt w' = db_entry_of rt w \<Longrightarrow>
      implementation (network_state w') (registered (network_state w') (contract_address p) k) = a \<Longrightarrow> Q () w'"
  shows "post (sendAndWait rt p ''setAddressAsProxy'' [VBytes32 k, VStr a]) Q w"
  using setAddressAsProxy [OF assms(1)] by (intro post_sendAndWait) (metis assms(2))

lemma post_getAddress:
  assumes "is_provider p" "\<And>w'. db_entry_of rt w' = db_entry_of rt w \<Longrightarrow>
      registered (network_state w') = registered (network_state w) \<Longrightarrow>
      implementation (network_state w') = implementation (network_state w) \<Longrightarrow>
      Q (registered (network_state w) (contract_address p) k) w'"
  shows "post (callAddress rt p ''getAddress'' [VBytes32 k]) Q w"
  unfolding callAddress_def call_def
proof (intro post_await post_network post_return)
  fix v x'
  assume "rt_call rt p ''getAddress'' [VBytes32 k] (network_state w) = (Inr v, x')"
  from getAddress [OF assms(1) this]
  show "Q (as_string v) (w\<lparr>network_state := x'\<rparr>)"
    using assms(2) [of "w\<lparr>network_state := x'\<rparr>"] by (simp add: as_string_def fun_eq_iff)
qed

lemma post_provider:
  assumes "\<And>e signer w'. db_entry_of rt w ''LendingPoolAddressesProvider'' = Some e \<Longrightarrow>
      db_entry_of rt w' = db_entry_of rt w \<Longrightarrow>
      registered (network_state w') = registered (network_state w) \<Longrightarrow>
      implementation (network_state w') = implementation (network_state w) \<Longrightarrow>
      Q (attach ''LendingPoolAddressesProviderFactory'' (entry_address e) signer) w'"
  shows "post (getLendingPoolAddressesProvider rt None) Q w"
  unfolding getLendingPoolAddressesProvider_def
  by (intro post_await post_recordedAddress post_getFirstSigner post_return) (rule assms)

lemma post_fromConfig:
  assumes "is_provider p" "\<And>a w'. networkParam rt config field (network_name rt) = Inr (VStr a) \<Longrightarrow>
      db_entry_of rt w' = db_entry_of rt w \<Longrightarrow>
      registered (network_state w') = (registered (network_state w))
        (contract_address p := (registered (network_state w) (contract_address p))(k := a)) \<Longrightarrow>
      implementation (network_state w') = implementation (network_state w) \<Longrightarrow> Q () w'"
  shows "post (setAddressFromConfig rt p k config field) Q w"
  unfolding setAddressFromConfig_def
  by (intro post_await post_lift post_setAddress) (use assms in auto)

lemma post_reserveAssetFromConfig:
  assumes "is_provider p" "\<And>a w'. reserveAssetParam rt config symbol (network_name rt) = Inr (VStr a) \<Longrightarrow>
      db_entry_of rt w' = db_entry_of rt w \<Longrightarrow>
      registered (network_state w') = (registered (network_state w))
        (contract_address p := (registered (network_state w) (contract_address p))(k := a)) \<Longrightarrow>
      implementation (network_state w') = implementation (network_state w) \<Longrightarrow> Q () w'"
  shows "post (setReserveAssetFromConfig rt p k config symbol) Q w"
  unfolding setReserveAssetFromConfig_def
  by (intro post_await post_lift post_setAddress) (use assms in auto)

lemma post_getter:
  assumes "g rt None = await (recordedAddress rt None cid) (\<lambda>address. await (getFirstSigner rt) (\<lambda>signer.
      return_io (attach F address signer)))"
    and "\<And>e signer w'. db_entry_of rt w cid = Some e \<Longrightarrow>
      db_entry_of rt w' = db_entry_of rt w \<Longrightarrow>
      registered (network_state w') = registered (network_state w) \<Longrightarrow>
      implementation (network_state w') = implementation (network_state w) \<Longrightarrow>
      Q (attach F (entry_address e) signer) w'"
  shows "post (g rt None) Q w"
  unfolding assms(1) by (intro post_await post_recordedAddress post_getFirstSigner post_return) (rule assms(2))

end

end
