(* ===== verification/Transactions.thy ===== *)
theory Transactions
  imports InitHelpers Registry "HOL-Library.Sublist"
begin

text \<open>
  The transactions a helper sends, as an interface: a log that every accepted transaction extends and
  nothing else changes. The client lemmas compute the log of a computation, finished or failed; they
  are proved once for the interface and used for any runtime whose transactions are logged.
\<close>

section \<open>Loops\<close>

text \<open>A loop that returns, with an invariant of the rounds done.\<close>

lemma for_fold_invariant:
  assumes "\<And>ys x s w s' w'. prefix (ys @ [x]) xs \<Longrightarrow> I ys s \<Longrightarrow> body s x w = (Inr s', w') \<Longrightarrow> I (ys @ [x]) s'"
    and "I [] s" "for_fold body s xs w = (Inr s', w')"
  shows "I xs s'"
proof -
  have "for_fold body s zs w = (Inr s', w') \<Longrightarrow> I ys s \<Longrightarrow> xs = ys @ zs \<Longrightarrow> I xs s'" for s w ys zs
  proof (induction zs arbitrary: s w ys)
    case (Cons x zs)
    from Cons.prems(1) obtain s1 w1 where "body s x w = (Inr s1, w1)" "for_fold body s1 zs w1 = (Inr s', w')"
      by (auto simp: await_eq_Inr)
    moreover have "prefix (ys @ [x]) xs" using Cons.prems(3) by (simp add: prefix_def)
    ultimately show ?case using Cons.IH [of s1 w1 "ys @ [x]"] assms(1) Cons.prems(2,3) by simp
  qed simp
  with assms(2,3) show ?thesis by (metis append_Nil)
qed

section \<open>The interface\<close>

record tx =
  tx_from :: "string option"
  tx_to :: string
  tx_method :: string
  tx_args :: "js_val list"

definition tx_of :: "Instance \<Rightarrow> string \<Rightarrow> js_val list \<Rightarrow> tx" where
  "tx_of c meth args = \<lparr>tx_from = connected_signer c, tx_to = contract_address c, tx_method = meth, tx_args = args\<rparr>"

locale transaction_log =
  fixes rt :: "'x runtime"
    and log :: "'x \<Rightarrow> tx list"
  assumes send_log: "rt_send rt c meth args x = (r, x') \<Longrightarrow>
      log x' = log x @ (case r of Inl e \<Rightarrow> [] | Inr h \<Rightarrow> [tx_of c meth args])"
    and wait_log: "log (snd (rt_wait rt h x)) = log x"
    and call_log: "log (snd (rt_call rt c meth args x)) = log x"
    and signers_log: "log (snd (rt_getSigners rt x)) = log x" "log (snd (rt_getSigner rt a x)) = log x"
      "log (snd (rt_getBalance rt a x)) = log x" "log (snd (rt_impersonate rt a x)) = log x"
    and deploy_log: "log (snd (rt_deploy rt F libs signer args x)) = log x"
    and verify_log: "log (snd (rt_tenderlyVerify rt cid a x)) = log x" "log (snd (rt_tempFile rt args x)) = log x"
      "log (rt_cleanup rt path x) = log x" "log (snd (rt_run rt task params x)) = log x"
begin

text \<open>
  \<open>logs m Q E w\<close>: the transactions \<open>m\<close> sends from \<open>w\<close> satisfy \<open>Q\<close>, with the value, when it returns,
  and \<open>E\<close> when it fails.
\<close>

definition logs :: "('x, 'a) io \<Rightarrow> ('a \<Rightarrow> tx list \<Rightarrow> bool) \<Rightarrow> (tx list \<Rightarrow> bool) \<Rightarrow> 'x world \<Rightarrow> bool" where
  "logs m Q E w \<longleftrightarrow> (\<exists>new. log (network_state (snd (m w))) = log (network_state w) @ new
     \<and> (case fst (m w) of Inl e \<Rightarrow> E new | Inr a \<Rightarrow> Q a new))"

lemma logsI:
  "m w = (r, w') \<Longrightarrow> log (network_state w') = log (network_state w) @ new \<Longrightarrow>
   (\<And>e. r = Inl e \<Longrightarrow> E new) \<Longrightarrow> (\<And>a. r = Inr a \<Longrightarrow> Q a new) \<Longrightarrow> logs m Q E w"
  by (auto simp: logs_def split: sum.splits)

lemma logsE:
  assumes "logs m Q E w"
  obtains r w' new where "m w = (r, w')" "log (network_state w') = log (network_state w) @ new"
    "\<And>e. r = Inl e \<Longrightarrow> E new" "\<And>a. r = Inr a \<Longrightarrow> Q a new"
proof -
  obtain r w' where m: "m w = (r, w')" by fastforce
  with assms obtain new where "log (network_state w') = log (network_state w) @ new"
    "case r of Inl e \<Rightarrow> E new | Inr a \<Rightarrow> Q a new"
    by (auto simp: logs_def)
  with m show thesis by (intro that) auto
qed

lemma logs_mono:
  assumes "logs m Q E w" "\<And>a n. Q a n \<Longrightarrow> Q' a n" "\<And>n. E n \<Longrightarrow> E' n"
  shows "logs m Q' E' w"
  by (rule logsE [OF assms(1)], rule logsI) (use assms(2,3) in auto)

lemma logs_await:
  assumes "logs m (\<lambda>a n. \<forall>w'. logs (f a) (\<lambda>b n'. Q b (n @ n')) (\<lambda>n'. E (n @ n')) w') E w"
  shows "logs (await m f) Q E w"
proof (rule logsE [OF assms])
  fix r w1 n
  assume m: "m w = (r, w1)" "log (network_state w1) = log (network_state w) @ n"
    and err: "\<And>e. r = Inl e \<Longrightarrow> E n"
    and next_step: "\<And>a. r = Inr a \<Longrightarrow> \<forall>w'. logs (f a) (\<lambda>b n'. Q b (n @ n')) (\<lambda>n'. E (n @ n')) w'"
  show ?thesis
  proof (cases r)
    case (Inl e)
    with m err show ?thesis by (intro logsI [of _ _ "Inl e" w1 n]) auto
  next
    case (Inr a)
    with next_step have "logs (f a) (\<lambda>b n'. Q b (n @ n')) (\<lambda>n'. E (n @ n')) w1" by blast
    then show ?thesis
      by (rule logsE, intro logsI [of "await m f" w]) (use m Inr in auto)
  qed
qed

text \<open>Computations that send nothing.\<close>

definition silent :: "('x, 'a) io \<Rightarrow> bool" where
  "silent m \<longleftrightarrow> (\<forall>w. log (network_state (snd (m w))) = log (network_state w))"

lemma logs_silent: "silent m \<Longrightarrow> (\<And>a. Q a []) \<Longrightarrow> E [] \<Longrightarrow> logs m Q E w"
  by (auto simp: logs_def silent_def split: sum.splits)

lemma logs_value: "silent m \<Longrightarrow> (\<And>a. fst (m w) = Inr a \<Longrightarrow> Q a []) \<Longrightarrow> E [] \<Longrightarrow> logs m Q E w"
  by (auto simp: logs_def silent_def split: sum.splits)

lemma logs_return: "Q a [] \<Longrightarrow> logs (return_io a) Q E w"
  by (simp add: logs_def return_io_def)

lemma logs_lift: "(\<And>a. r = Inr a \<Longrightarrow> Q a []) \<Longrightarrow> E [] \<Longrightarrow> logs (lift_result r) Q E w"
  by (auto simp: logs_def lift_result_def split: sum.splits)

lemma logs_then_silent:
  "silent m \<Longrightarrow> E [] \<Longrightarrow> (\<And>a w'. logs (f a) Q E w') \<Longrightarrow> logs (await m f) Q E w"
  by (rule logs_await, rule logs_silent) auto

lemma logs_bind:
  assumes "silent m" "E []" "\<And>a w'. m w = (Inr a, w') \<Longrightarrow> logs (f a) Q E w'"
  shows "logs (await m f) Q E w"
proof (cases "m w")
  case (Pair r w1)
  then have log_w1: "log (network_state w1) = log (network_state w)"
    using assms(1) unfolding silent_def by (metis snd_conv)
  show ?thesis
  proof (cases r)
    case (Inl e)
    with Pair log_w1 assms(2) show ?thesis by (intro logsI [of _ _ "Inl e" w1 "[]"]) auto
  next
    case (Inr a)
    with assms(3) [of a w1] Pair have "logs (f a) Q E w1" by simp
    then show ?thesis by (rule logsE, intro logsI [of "await m f" w]) (use Pair Inr log_w1 in auto)
  qed
qed

lemma silent_await: "silent m \<Longrightarrow> (\<And>a. silent (f a)) \<Longrightarrow> silent (await m f)"
  unfolding silent_def await_def by (auto split: prod.splits sum.splits) (metis snd_conv)+

lemma silent_catch: "silent m \<Longrightarrow> (\<And>e. silent (h e)) \<Longrightarrow> silent (catch_io m h)"
  unfolding silent_def catch_io_def by (auto split: prod.splits sum.splits) (metis snd_conv)+

lemma silent_simple:
  "silent (return_io a)" "silent (throw_io e)" "silent (lift_result r)" "silent (db_get rt' cid)" "silent (db_set rt' cid e')"
  by (simp_all add: silent_def return_io_def throw_io_def lift_result_def db_get_def db_set_def)

lemma silent_if: "silent m \<Longrightarrow> silent m' \<Longrightarrow> silent (if b then m else m')"
  by simp

lemma silent_network: "(\<And>x. log (snd (f x)) = log x) \<Longrightarrow> silent (on_network f)"
  by (auto simp: silent_def on_network_def split: prod.splits) (metis snd_conv)

lemma silent_for_each: "(\<And>x. silent (body x)) \<Longrightarrow> silent (for_each body xs)"
  by (induction xs) (auto intro!: silent_await silent_simple)

lemma silent_for_fold: "(\<And>s x. silent (body s x)) \<Longrightarrow> silent (for_fold body s xs)"
  by (induction xs arbitrary: s) (auto intro!: silent_await silent_simple)

lemma silent_task: "silent (runTaskWithRetry rt task params attempts ms (rt_cleanup rt path))"
proof -
  have "rt' = rt \<longrightarrow> (\<forall>x. log (cleanup x) = log x) \<longrightarrow>
      log (network_state (snd (runTaskWithRetry rt' task params attempts ms cleanup w))) = log (network_state w)"
    for rt' cleanup w
  proof (induction rt' task params attempts ms cleanup w rule: runTaskWithRetry.induct)
    case (1 rt' task params attempts msDelay cleanup w)
    let ?p = "if attempts = 1 then params\<lparr>param_relatedSources := False\<rparr> else params"
    obtain r w1 where run: "on_network (rt_run rt' task ?p) w = (r, w1)" by fastforce
    then have "rt' = rt \<longrightarrow> log (network_state w1) = log (network_state w)"
      using verify_log(4) by (auto simp: on_network_def split: prod.splits) (metis snd_conv)
    with 1 [OF _ refl run [symmetric]] run show ?case
      by (subst runTaskWithRetry.simps, cases "attempts = 1") (auto simp: Let_def split: sum.splits if_splits)
  qed
  then show ?thesis by (simp add: silent_def verify_log(3))
qed

lemma silent_verifyEtherscanContract: "silent (verifyEtherscanContract rt a args libs)"
  unfolding verifyEtherscanContract_def Let_def
  by (intro silent_if silent_simple silent_catch silent_await silent_network silent_task verify_log)

lemma silent_getFirstSigner: "silent (getFirstSigner rt)"
  unfolding getFirstSigner_def getEthersSigners_def getDefenderRelaySigner_def impersonateAccountsHardhat_def Let_def
  by (intro silent_await silent_simple silent_if silent_for_each silent_network signers_log)

lemma silent_withSaveAndVerify: "silent (withSaveAndVerify rt inst cid args verify)"
  unfolding withSaveAndVerify_def waitForDeployment_def registerContractInJsonDb_def verifyContract_def
    verifyAtTenderly_def waitForTx_def
  by (intro silent_await silent_simple silent_if silent_network silent_verifyEtherscanContract verify_log wait_log)

lemma silent_operations:
  "silent (deploy rt F signer args)" "silent (call rt c meth args)"
  "silent (rawInsertContractAddressInDb rt cid a)" "silent (recordedAddress rt addr cid)"
  by (auto simp: deploy_def call_def rawInsertContractAddressInDb_def recordedAddress_def
      intro!: silent_network silent_simple silent_await deploy_log call_log split: option.splits)

lemmas silent_rules =
  silent_await silent_simple silent_if silent_for_each silent_for_fold silent_getFirstSigner
  silent_withSaveAndVerify silent_operations

section \<open>Transactions\<close>

lemma logs_send:
  assumes "\<And>h. Q h [tx_of c meth args]" "E []"
  shows "logs (send rt c meth args) Q E w"
proof -
  obtain r x' where run: "rt_send rt c meth args (network_state w) = (r, x')" by fastforce
  show ?thesis
    by (rule logsI [of _ w r "w\<lparr>network_state := x'\<rparr>" "case r of Inl e \<Rightarrow> [] | Inr h \<Rightarrow> [tx_of c meth args]"])
      (use send_log [OF run] run assms in \<open>auto simp: send_def on_network_def split: sum.splits\<close>)
qed

lemma silent_waitForTx: "silent (waitForTx rt h)"
  unfolding waitForTx_def by (intro silent_network wait_log)

lemma logs_sendAndWait:
  assumes "Q () [tx_of c meth args]" "E []" "E [tx_of c meth args]"
  shows "logs (sendAndWait rt c meth args) Q E w"
  unfolding sendAndWait_def
  by (intro logs_await logs_send allI logs_silent [OF silent_waitForTx]) (use assms in \<open>simp_all\<close>)

text \<open>A loop that sends one transaction per round: when it fails, it sent the first of them.\<close>

lemma logs_for_each_send:
  assumes "Q () (map (\<lambda>i. tx_of c meth (args i)) xs)" "\<And>n. prefix n (map (\<lambda>i. tx_of c meth (args i)) xs) \<Longrightarrow> E n"
  shows "logs (for_each (\<lambda>i. sendAndWait rt c meth (args i)) xs) Q E w"
  using assms
proof (induction xs arbitrary: Q E w)
  case Nil
  then show ?case by (simp add: logs_return)
next
  case (Cons i xs)
  show ?case
    unfolding for_each.simps
    by (intro logs_await logs_sendAndWait allI Cons.IH) (use Cons.prems in \<open>auto simp: prefix_Cons\<close>)
qed

text \<open>Such a loop between a first and a last transaction.\<close>

lemma logs_bracket:
  assumes "Q () (tx_of c1 m1 a1 # map (\<lambda>i. tx_of c2 m2 (args i)) xs @ [tx_of c3 m3 a3])"
    and "\<And>n. prefix n (tx_of c1 m1 a1 # map (\<lambda>i. tx_of c2 m2 (args i)) xs @ [tx_of c3 m3 a3]) \<Longrightarrow> E n"
  shows "logs (await (sendAndWait rt c1 m1 a1) (\<lambda>_.
    await (for_each (\<lambda>i. sendAndWait rt c2 m2 (args i)) xs) (\<lambda>_.
    sendAndWait rt c3 m3 a3))) Q E w"
proof (intro logs_await logs_sendAndWait logs_for_each_send allI)
  show "Q () ([tx_of c1 m1 a1] @ map (\<lambda>i. tx_of c2 m2 (args i)) xs @ [tx_of c3 m3 a3])"
    using assms(1) by simp
  fix n assume "prefix n (map (\<lambda>i. tx_of c2 m2 (args i)) xs)"
  then show "E ([tx_of c1 m1 a1] @ n)" by (intro assms(2)) (auto simp: prefix_def)
qed (intro assms(2), simp)+

end

section \<open>Logging a runtime's transactions\<close>

text \<open>Any runtime, with the transactions it accepts added to its state.\<close>

definition beside :: "('x \<Rightarrow> 'a \<times> 'x) \<Rightarrow> 'x \<times> 'l \<Rightarrow> 'a \<times> 'x \<times> 'l" where
  "beside f xl = (case f (fst xl) of (r, x') \<Rightarrow> (r, x', snd xl))"

definition logged :: "'x runtime \<Rightarrow> ('x \<times> tx list) runtime" where
  "logged rt =
     \<lparr>network_name = network_name rt, env_FORK = env_FORK rt, env_TENDERLY = env_TENDERLY rt,
      env_DEFENDER = env_DEFENDER rt, env_ETHERSCAN_KEY = env_ETHERSCAN_KEY rt,
      rt_getSigners = beside (rt_getSigners rt),
      rt_getSigner = (\<lambda>a. beside (rt_getSigner rt a)),
      rt_getBalance = (\<lambda>a. beside (rt_getBalance rt a)),
      rt_impersonate = (\<lambda>a. beside (rt_impersonate rt a)),
      rt_deploy = (\<lambda>F libs signer args. beside (rt_deploy rt F libs signer args)),
      rt_deployBytecode = (\<lambda>abi bytecode signer. beside (rt_deployBytecode rt abi bytecode signer)),
      rt_deployByName = (\<lambda>cid signer args. beside (rt_deployByName rt cid signer args)),
      rt_buidlerReadArtifact = (\<lambda>cid. beside (rt_buidlerReadArtifact rt cid)),
      rt_readArtifact = (\<lambda>cid. beside (rt_readArtifact rt cid)),
      rt_send = (\<lambda>c meth args (x, l).
        case rt_send rt c meth args x of
          (Inl e, x') \<Rightarrow> (Inl e, x', l)
        | (Inr h, x') \<Rightarrow> (Inr h, x', l @ [tx_of c meth args])),
      rt_wait = (\<lambda>h. beside (rt_wait rt h)),
      rt_call = (\<lambda>c meth args. beside (rt_call rt c meth args)),
      rt_tenderlyVerify = (\<lambda>cid a. beside (rt_tenderlyVerify rt cid a)),
      rt_tempFile = (\<lambda>args. beside (rt_tempFile rt args)),
      rt_cleanup = (\<lambda>path (x, l). (rt_cleanup rt path x, l)),
      rt_run = (\<lambda>task params. beside (rt_run rt task params))\<rparr>"

lemma snd_beside [simp]: "snd (snd (beside f xl)) = snd xl"
  by (simp add: beside_def split: prod.splits)

interpretation logged: transaction_log "logged rt" snd
  by unfold_locales (auto simp: logged_def split: prod.splits sum.splits)

definition log_of :: "('x \<times> tx list) world \<Rightarrow> tx list" where
  "log_of w = snd (network_state w)"

end
