(* ===== verification/ReserveTransactions.thy ===== *)
theory ReserveTransactions
  imports Transactions
begin

text \<open>
  What the helpers of \<^verbatim>\<open>helpers/init-helpers.ts\<close> and \<^verbatim>\<open>helpers/oracles-helpers.ts\<close> send: the exact
  list of transactions of a run that returns, and the part of it a failed run had sent.
\<close>

section \<open>Configuring reserves\<close>

text \<open>
  The reserves the market has an address for and does not exclude, and the transactions that configure
  a choice of them.
\<close>

definition configurable :: "tEthereumAddress obj \<Rightarrow> string \<times> IReserveParams \<Rightarrow> bool" where
  "configurable tokenAddresses reserve \<longleftrightarrow>
     truthy_string (obj_get tokenAddresses (fst reserve)) \<and> baseLTVAsCollateral (snd reserve) \<noteq> ''-1''"

definition reserve_input :: "tEthereumAddress obj \<Rightarrow> string \<times> IReserveParams \<Rightarrow> js_val" where
  "reserve_input tokenAddresses reserve =
     configure_input (the (obj_get tokenAddresses (fst reserve))) (snd reserve)"

definition configure_txs ::
    "Instance \<Rightarrow> Instance \<Rightarrow> tEthereumAddress \<Rightarrow> tEthereumAddress obj \<Rightarrow> (string \<times> IReserveParams) list \<Rightarrow> tx list" where
  "configure_txs provider helper admin tokenAddresses chosen =
     (if chosen = [] then []
      else tx_of provider ''setPoolAdmin'' [VStr (contract_address helper)]
           # map (\<lambda>batch. tx_of helper ''configureReserves'' [VArr batch])
               (chunk (map (reserve_input tokenAddresses) chosen) 20)
           @ [tx_of provider ''setPoolAdmin'' [VStr admin]])"

text \<open>An instance attached to what the database records.\<close>

definition recorded_instance :: "'x runtime \<Rightarrow> 'x world \<Rightarrow> string \<Rightarrow> string \<Rightarrow> Instance \<Rightarrow> bool" where
  "recorded_instance rt w cid F i \<longleftrightarrow>
     (\<exists>e signer. db_entry_of rt w cid = Some e \<and> i = attach F (entry_address e) signer)"

lemma getter_Inr:
  assumes "await (recordedAddress rt None cid) (\<lambda>address. await (getFirstSigner rt) (\<lambda>signer.
      return_io (attach F address signer))) w = (Inr i, w')"
  shows "recorded_instance rt w cid F i \<and> db_entry_of rt w' = db_entry_of rt w"
proof -
  let ?m = "await (recordedAddress rt None cid) (\<lambda>address. await (getFirstSigner rt) (\<lambda>signer.
      return_io (attach F address signer)))"
  have "db_entry_of rt w' c = db_entry_of rt w c" for c
    by (rule db_entry_of_no_writes [of rt ?m, OF _ assms]) (intro frame_rules)
  moreover have "recorded_instance rt w cid F i"
    using assms
    by (auto simp: recordedAddress_None await_eq_Inr lift_result_def recorded_instance_def)
  ultimately show ?thesis by (simp add: fun_eq_iff)
qed

lemma configure_reserve_step:
  assumes "configure_reserve rt tokenAddresses helpers s reserve w = (Inr s', w')"
    and "subseq ch (filter (configurable tokenAddresses) ys)
      \<and> s = (map (reserve_input tokenAddresses) ch, map (\<lambda>r. the (obj_get tokenAddresses (fst r))) ch)"
  shows "\<exists>ch'. subseq ch' (filter (configurable tokenAddresses) (ys @ [reserve]))
      \<and> s' = (map (reserve_input tokenAddresses) ch', map (\<lambda>r. the (obj_get tokenAddresses (fst r))) ch')"
proof (cases "s' = s")
  case True
  then show ?thesis using assms(2) by (intro exI [of _ ch]) auto
next
  case False
  obtain sym params where r: "reserve = (sym, params)" by (cases reserve)
  from assms False have "configurable tokenAddresses reserve"
      "s' = (fst s @ [reserve_input tokenAddresses reserve], snd s @ [the (obj_get tokenAddresses sym)])"
    by (auto simp: configure_reserve_def r configurable_def reserve_input_def await_eq_Inr lift_result_def entry_of_eq
        deref_def split: if_splits option.splits)
  with assms(2) show ?thesis
    by (intro exI [of _ "ch @ [reserve]"]) (auto simp: r)
qed

context transaction_log
begin

lemma silent_configure_reserve: "silent (configure_reserve rt tokenAddresses helpers s reserve)"
  by (cases s; cases reserve) (auto simp: configure_reserve_def intro!: silent_rules)

lemma silent_getters:
  "silent (getLendingPoolAddressesProvider rt None)" "silent (getATokensAndRatesHelper rt None)"
  "silent (getStableAndVariableTokensHelper rt None)" "silent (getSturdyIncentivesController rt None)"
  "silent (getLendingPoolConfiguratorProxy rt None)" "silent (getLendingPool rt None)"
  unfolding getLendingPoolAddressesProvider_def getATokensAndRatesHelper_def getStableAndVariableTokensHelper_def
    getSturdyIncentivesController_def getLendingPoolConfiguratorProxy_def getLendingPool_def
  by (intro silent_rules)+

text \<open>The roles of the two contracts and the choice of reserves.\<close>

definition configures ::
    "'x world \<Rightarrow> IReserveParams obj \<Rightarrow> tEthereumAddress obj \<Rightarrow> Instance \<Rightarrow> Instance \<Rightarrow> (string \<times> IReserveParams) list \<Rightarrow> bool" where
  "configures w reservesParams tokenAddresses provider helper chosen \<longleftrightarrow>
     recorded_instance rt w ''LendingPoolAddressesProvider'' ''LendingPoolAddressesProviderFactory'' provider
     \<and> recorded_instance rt w ''ATokensAndRatesHelper'' ''ATokensAndRatesHelperFactory'' helper
     \<and> subseq chosen (filter (configurable tokenAddresses) reservesParams)"

lemma configure_logs:
  "logs (configureReservesByHelper rt reservesParams tokenAddresses helpers admin)
     (\<lambda>u new. \<exists>p h ch. configures w reservesParams tokenAddresses p h ch \<and> new = configure_txs p h admin tokenAddresses ch)
     (\<lambda>new. new = [] \<or> (\<exists>p h ch. configures w reservesParams tokenAddresses p h ch
        \<and> prefix new (configure_txs p h admin tokenAddresses ch))) w"
  (is "logs _ ?Q ?E w")
proof -
  have tail: "logs
      (if length tokens > 0
       then await (sendAndWait rt p ''setPoolAdmin'' [VStr (contract_address h)]) (\<lambda>_.
         await (for_each (\<lambda>i. sendAndWait rt h ''configureReserves'' [VArr (chunk inputs 20 ! i)])
             [0..<length (chunk inputs 20)]) (\<lambda>_.
         sendAndWait rt p ''setPoolAdmin'' [VStr admin]))
       else return_io ()) ?Q ?E w'"
    if c: "configures w reservesParams tokenAddresses p h ch"
      and inputs: "inputs = map (reserve_input tokenAddresses) ch" and tokens: "length tokens = length ch"
    for p h ch inputs and tokens :: "string list" and w'
  proof (cases "ch = []")
    case True
    have "?Q () []" using c True by (intro exI [of _ p] exI [of _ h] exI [of _ ch]) (simp add: configure_txs_def)
    then have "logs (return_io ()) ?Q ?E w'" by (rule logs_return)
    with True tokens show ?thesis by simp
  next
    case False
    let ?batches = "map (\<lambda>i. tx_of h ''configureReserves'' [VArr (chunk inputs 20 ! i)]) [0..<length (chunk inputs 20)]"
    have batches: "?batches = map (\<lambda>batch. tx_of h ''configureReserves'' [VArr batch]) (chunk inputs 20)"
      by (intro nth_equalityI) simp_all
    have txs: "configure_txs p h admin tokenAddresses ch
        = tx_of p ''setPoolAdmin'' [VStr (contract_address h)] # ?batches @ [tx_of p ''setPoolAdmin'' [VStr admin]]"
      unfolding configure_txs_def batches using False inputs by simp
    have E: "?E n" if "prefix n (configure_txs p h admin tokenAddresses ch)" for n
      using that c by blast
    have Q: "?Q () (configure_txs p h admin tokenAddresses ch)" using c by blast
    have "logs (await (sendAndWait rt p ''setPoolAdmin'' [VStr (contract_address h)]) (\<lambda>_.
         await (for_each (\<lambda>i. sendAndWait rt h ''configureReserves'' [VArr (chunk inputs 20 ! i)])
             [0..<length (chunk inputs 20)]) (\<lambda>_.
         sendAndWait rt p ''setPoolAdmin'' [VStr admin]))) ?Q ?E w'"
      by (rule logs_bracket, fold txs) (rule Q, erule E)
    then show ?thesis using tokens False by simp
  qed
  show ?thesis
    unfolding configureReservesByHelper_def Let_def
  proof (intro logs_bind silent_getters silent_for_fold silent_configure_reserve)
    fix p w1 h w2 collected w3
    assume p: "getLendingPoolAddressesProvider rt None w = (Inr p, w1)"
      and h: "getATokensAndRatesHelper rt None w1 = (Inr h, w2)"
      and fold: "for_fold (configure_reserve rt tokenAddresses helpers) ([], []) reservesParams w2 = (Inr collected, w3)"
    from getter_Inr [OF p [unfolded getLendingPoolAddressesProvider_def]]
      getter_Inr [OF h [unfolded getATokensAndRatesHelper_def]]
    have roles: "recorded_instance rt w ''LendingPoolAddressesProvider'' ''LendingPoolAddressesProviderFactory'' p"
      "recorded_instance rt w ''ATokensAndRatesHelper'' ''ATokensAndRatesHelperFactory'' h"
      by (auto simp: recorded_instance_def)
    from for_fold_invariant [where I = "\<lambda>ys s. \<exists>ch. subseq ch (filter (configurable tokenAddresses) ys)
        \<and> s = (map (reserve_input tokenAddresses) ch, map (\<lambda>r. the (obj_get tokenAddresses (fst r))) ch)",
        OF _ _ fold] configure_reserve_step
    obtain ch where ch: "subseq ch (filter (configurable tokenAddresses) reservesParams)"
      and collected: "collected = (map (reserve_input tokenAddresses) ch, map (\<lambda>r. the (obj_get tokenAddresses (fst r))) ch)"
      by fastforce
    then have "configures w reservesParams tokenAddresses p h ch" using roles by (simp add: configures_def)
    from tail [OF this refl, of "map (\<lambda>r. the (obj_get tokenAddresses (fst r))) ch" w3] show "logs (case collected of (inputParams, tokens) \<Rightarrow>
        if length tokens > 0
        then await (sendAndWait rt p ''setPoolAdmin'' [VStr (contract_address h)]) (\<lambda>_.
          await (for_each (\<lambda>i. sendAndWait rt h ''configureReserves'' [VArr (chunk inputParams 20 ! i)])
              [0..<length (chunk inputParams 20)]) (\<lambda>_.
          sendAndWait rt p ''setPoolAdmin'' [VStr admin]))
        else return_io ()) ?Q ?E w3"
      unfolding collected split_conv by (simp only: length_map)
  qed simp_all
qed

end

text \<open>
  C30: \<open>configureReservesByHelper\<close> on any runtime: a run that returns sent nothing, when no reserve was
  left to configure, or made the recorded rates helper pool admin, had it configure the chosen
  reserves, in the configuration's order and in batches of at most 20, and gave the role to the
  admin; the chosen ones have an address and an LTV other than -1. A run that fails sent a prefix of
  such a list, so it can leave the helper as the pool admin.
\<close>
theorem configuration_transactions:
  assumes "configureReservesByHelper (logged rt) reservesParams tokenAddresses helpers admin w = (outcome, w')"
  shows "\<exists>new. log_of w' = log_of w @ new \<and>
    (let chooses = (\<lambda>provider helper chosen.
           recorded_instance (logged rt) w ''LendingPoolAddressesProvider'' ''LendingPoolAddressesProviderFactory'' provider
           \<and> recorded_instance (logged rt) w ''ATokensAndRatesHelper'' ''ATokensAndRatesHelperFactory'' helper
           \<and> subseq chosen (filter (configurable tokenAddresses) reservesParams))
     in case outcome of
          Inr _ \<Rightarrow> \<exists>provider helper chosen. chooses provider helper chosen
            \<and> new = configure_txs provider helper admin tokenAddresses chosen
        | Inl _ \<Rightarrow> new = [] \<or> (\<exists>provider helper chosen. chooses provider helper chosen
            \<and> prefix new (configure_txs provider helper admin tokenAddresses chosen)))"
  by (rule logged.logsE [OF logged.configure_logs [of rt reservesParams tokenAddresses helpers admin w]])
    (use assms in \<open>auto simp: log_of_def logged.configures_def Let_def split: sum.splits\<close>)

section \<open>A small runtime\<close>

text \<open>One account, every transaction accepted, no reserve enabled yet.\<close>

definition accepting_runtime :: "unit runtime" where
  "accepting_runtime =
     \<lparr>network_name = ''main'', env_FORK = None, env_TENDERLY = None, env_DEFENDER = None, env_ETHERSCAN_KEY = None,
      rt_getSigners = (\<lambda>x. (Inr [''0xowner''], x)), rt_getSigner = (\<lambda>a x. (Inr a, x)), rt_getBalance = (\<lambda>a x. (Inr 0, x)),
      rt_impersonate = (\<lambda>a x. (Inr (), x)),
      rt_deploy = (\<lambda>F libs signer args x. (Inr \<lparr>contract_abi = F, contract_address = ''0x'' @ F, connected_signer = signer,
        deployTransaction_from = signer\<rparr>, x)),
      rt_deployBytecode = (\<lambda>abi bytecode signer x. (Inl (Rejected ''no''), x)),
      rt_deployByName = (\<lambda>cid signer args x. (Inl (Rejected ''no''), x)),
      rt_buidlerReadArtifact = (\<lambda>cid x. (Inl (Rejected ''no''), x)), rt_readArtifact = (\<lambda>cid x. (Inl (Rejected ''no''), x)),
      rt_send = (\<lambda>c meth args x. (Inr ''0xhash'', x)), rt_wait = (\<lambda>h x. (Inr (), x)),
      rt_call = (\<lambda>c meth args x. (Inr (VObj [(''usageAsCollateralEnabled'', VBool False),
        (''aTokenAddress'', VStr ''0xa''), (''variableDebtTokenAddress'', VStr ''0xv'')]), x)),
      rt_tenderlyVerify = (\<lambda>cid a x. (Inr (), x)), rt_tempFile = (\<lambda>args x. (Inr '''', x)), rt_cleanup = (\<lambda>path x. x),
      rt_run = (\<lambda>task params x. (Inr (), x))\<rparr>"

definition recorded_world :: "(unit \<times> tx list) world" where
  "recorded_world = \<lparr>network_state = ((), []), deployed_contracts =
     map (\<lambda>cid. (cid, [(''main'', \<lparr>entry_address = ''0x'' @ cid, entry_deployer = None\<rparr>)]))
       [''LendingPoolAddressesProvider'', ''ATokensAndRatesHelper'', ''StableAndVariableTokensHelper'',
        ''LendingPoolConfigurator'', ''LendingPool'', ''StakedTokenIncentivesController'']\<rparr>"

lemma accepting_total:
  "total (sendAndWait (logged accepting_runtime) c meth args) (\<lambda>_ w'. deployed_contracts w' = deployed_contracts w) w"
  "total (send (logged accepting_runtime) c meth args) (\<lambda>_ w'. deployed_contracts w' = deployed_contracts w) w"
  by (auto simp: total_def sendAndWait_def send_def waitForTx_def await_def on_network_def logged_def accepting_runtime_def
      beside_def split: prod.splits)

lemma same_network [simp]: "w\<lparr>network_state := ((), snd (network_state w))\<rparr> = (w :: (unit \<times> 'l) world)"
  by (cases w) (simp add: prod_eq_iff)

lemma accepting_call:
  "total (call (logged accepting_runtime) c meth args) (\<lambda>v w'. v = VObj [(''usageAsCollateralEnabled'', VBool False),
     (''aTokenAddress'', VStr ''0xa''), (''variableDebtTokenAddress'', VStr ''0xv'')] \<and> w' = w) w"
  by (simp add: total_def call_def on_network_def logged_def accepting_runtime_def beside_def)

lemma accepting_signer: "getFirstSigner (logged accepting_runtime) w = (Inr (Some ''0xowner''), w)"
  by (simp add: getFirstSigner_def getEthersSigners_def usingDefender_def await_def on_network_def logged_def
      accepting_runtime_def beside_def return_io_def js_at_def)

lemma accepting_getter:
  assumes "db_entry_of (logged accepting_runtime) w cid = Some e"
  shows "total (await (recordedAddress (logged accepting_runtime) None cid) (\<lambda>address.
      await (getFirstSigner (logged accepting_runtime)) (\<lambda>signer. return_io (attach F address signer)))) (\<lambda>_ w'. w' = w) w"
  by (simp add: total_def await_recordedAddress [OF assms] accepting_signer)

lemma accepting_configure_reserve:
  "total (configure_reserve (logged accepting_runtime) tokenAddresses helpers s reserve) (\<lambda>_ w'. w' = w) w"
proof -
  obtain ip tk sym params where s: "s = (ip, tk)" and r: "reserve = (sym, params)" by (metis surj_pair)
  show ?thesis
  proof (cases "obj_get tokenAddresses sym")
    case (Some a)
    then show ?thesis
      using accepting_call [of helpers "''getReserveConfigurationData''" "[VStr a]" w]
      by (auto simp: configure_reserve_def s r truthy_string_def entry_of_eq deref_def total_def await_def lift_result_def
          return_io_def js_field_def obj_get_def js_truthy_def)
  qed (simp add: configure_reserve_def s r truthy_string_def total_return)
qed

lemma accepting_configures:
  assumes "db_entry_of (logged accepting_runtime) w ''LendingPoolAddressesProvider'' = Some p"
    "db_entry_of (logged accepting_runtime) w ''ATokensAndRatesHelper'' = Some h"
  shows "total (configureReservesByHelper (logged accepting_runtime) reservesParams tokenAddresses helpers admin) (\<lambda>_ _. True) w"
proof -
  have sends: "total (sendAndWait (logged accepting_runtime) c meth args) (\<lambda>_ _. True) w'" for c meth args w'
    by (rule total_mono [OF accepting_total(1)]) simp
  have fold: "total (for_fold (configure_reserve (logged accepting_runtime) tokenAddresses helpers) s reservesParams) (\<lambda>_ w'. w' = w) w"
    for s
    by (rule total_for_fold) (use accepting_configure_reserve in auto)
  show ?thesis
    unfolding configureReservesByHelper_def getLendingPoolAddressesProvider_def getATokensAndRatesHelper_def Let_def
    apply (rule total_await, rule total_mono [OF accepting_getter [OF assms(1)]], clarify)
    apply (rule total_await, rule total_mono [OF accepting_getter [OF assms(2)]], clarify)
    apply (rule total_await, rule total_mono [OF fold], clarify)
    apply (auto intro!: total_await total_mono [OF sends] total_return
        total_mono [OF total_for_each [where I = "\<lambda>_. True"]] sends)
    done
qed

theorem configuration_transactions_witness:
  "\<exists>w' provider helper chosen.
     configureReservesByHelper (logged accepting_runtime)
         [(''DAI'', sturdy_strategyDAI), (''USDC'', sturdy_strategyUSDC), (''stETH'', sturdy_strategySTETH)]
         [(''USDC'', ''0xusdc''), (''stETH'', ''0xsteth'')] (attach ''P'' ''0xp'' None) ''0xadmin'' recorded_world
       = (Inr (), w')
     \<and> log_of w' = configure_txs provider helper ''0xadmin'' [(''USDC'', ''0xusdc''), (''stETH'', ''0xsteth'')] chosen"
proof -
  let ?run = "configureReservesByHelper (logged accepting_runtime)
         [(''DAI'', sturdy_strategyDAI), (''USDC'', sturdy_strategyUSDC), (''stETH'', sturdy_strategySTETH)]
         [(''USDC'', ''0xusdc''), (''stETH'', ''0xsteth'')] (attach ''P'' ''0xp'' None) ''0xadmin'' recorded_world"
  have db: "db_entry_of (logged accepting_runtime) recorded_world cid
      = Some \<lparr>entry_address = ''0x'' @ cid, entry_deployer = None\<rparr>"
    if "cid \<in> {''LendingPoolAddressesProvider'', ''ATokensAndRatesHelper''}" for cid
    using that by (auto simp: db_entry_of_def recorded_world_def logged_def accepting_runtime_def db_lookup_def obj_get_def)
  have "total (\<lambda>w. ?run) (\<lambda>_ _. True) recorded_world"
    using accepting_configures [OF db db] unfolding total_def by simp
  then obtain w' where run: "?run = (Inr (), w')" by (auto simp: total_def)
  have "log_of recorded_world = []" by (simp add: log_of_def recorded_world_def)
  with configuration_transactions [OF run] run show ?thesis by (auto simp: Let_def)
qed

section \<open>Initial borrow rates\<close>

definition rates_txs :: "Instance \<Rightarrow> Instance \<Rightarrow> js_val \<Rightarrow> string list \<Rightarrow> string list \<Rightarrow> tx list" where
  "rates_txs rateOracle helper admin assetAddresses rates =
     tx_of rateOracle ''transferOwnership'' [VStr (contract_address helper)]
     # map (\<lambda>(tokens, rates). tx_of helper ''setOracleBorrowRates''
             [VArr (map VStr tokens), VArr (map VStr rates), VStr (contract_address rateOracle)])
         (zip (chunk assetAddresses 20) (chunk rates 20))
     @ [tx_of helper ''setOracleOwnership'' [VStr (contract_address rateOracle), admin]]"

lemma push_rates:
  "for_fold (push_rate assets) (a, b, c) rates w =
     (if \<forall>r \<in> set rates. obj_get assets (fst r) \<noteq> None
      then (Inr (a @ map (\<lambda>r. the (obj_get assets (fst r))) rates, b @ map (\<lambda>r. borrowRate (snd r)) rates, c @ map fst rates), w)
      else (Inl TypeError, w))"
proof (induction rates arbitrary: a b c)
  case (Cons r rates)
  obtain k v where "r = (k, v)" by (cases r)
  with Cons show ?case
    by (cases "obj_get assets k") (auto simp: push_rate_def entry_of_eq deref_def await_def lift_result_def return_io_def)
qed (simp add: return_io_def)

lemma map_zip_chunks:
  assumes "length xs = length ys" "0 < n"
  shows "map (\<lambda>i. f (chunk xs n ! i) (chunk ys n ! i)) [0..<length (chunk xs n)]
    = map (\<lambda>(a, b). f a b) (zip (chunk xs n) (chunk ys n))"
  using assms by (intro nth_equalityI) (simp_all add: length_chunk)

context transaction_log
begin

lemma rates_logs:
  "logs (setInitialMarketRatesInRatesOracleByHelper rt marketRates assets rateOracle admin)
     (\<lambda>u new. (\<forall>r \<in> set marketRates. obj_get assets (fst r) \<noteq> None) \<and>
        (\<exists>h. recorded_instance rt w ''StableAndVariableTokensHelper'' ''StableAndVariableTokensHelperFactory'' h
          \<and> new = rates_txs rateOracle h admin (map (\<lambda>r. the (obj_get assets (fst r))) marketRates)
                (map (\<lambda>r. borrowRate (snd r)) marketRates)))
     (\<lambda>new. new = [] \<or> (\<forall>r \<in> set marketRates. obj_get assets (fst r) \<noteq> None) \<and>
        (\<exists>h. recorded_instance rt w ''StableAndVariableTokensHelper'' ''StableAndVariableTokensHelperFactory'' h
          \<and> prefix new (rates_txs rateOracle h admin (map (\<lambda>r. the (obj_get assets (fst r))) marketRates)
                (map (\<lambda>r. borrowRate (snd r)) marketRates)))) w"
  (is "logs _ ?Q ?E w")
  unfolding setInitialMarketRatesInRatesOracleByHelper_def Let_def
proof (intro logs_bind silent_getters)
  fix h w1
  let ?addrs = "map (\<lambda>r. the (obj_get assets (fst r))) marketRates"
  let ?rates = "map (\<lambda>r. borrowRate (snd r)) marketRates"
  assume "getStableAndVariableTokensHelper rt None w = (Inr h, w1)"
  then have h: "recorded_instance rt w ''StableAndVariableTokensHelper'' ''StableAndVariableTokensHelperFactory'' h"
    using getter_Inr unfolding getStableAndVariableTokensHelper_def by blast
  show "silent (for_fold (push_rate assets) ([], [], []) marketRates)"
    unfolding silent_def push_rates by simp
  fix collected w2
  assume "for_fold (push_rate assets) ([], [], []) marketRates w1 = (Inr collected, w2)"
  then have known: "\<forall>r \<in> set marketRates. obj_get assets (fst r) \<noteq> None"
    and collected: "collected = (?addrs, ?rates, map fst marketRates)"
    by (auto simp: push_rates split: if_splits)
  let ?batches = "map (\<lambda>i. tx_of h ''setOracleBorrowRates'' [VArr (map VStr (chunk ?addrs 20 ! i)),
      VArr (map VStr (chunk ?rates 20 ! i)), VStr (contract_address rateOracle)]) [0..<length (chunk ?addrs 20)]"
  have txs: "rates_txs rateOracle h admin ?addrs ?rates = tx_of rateOracle ''transferOwnership'' [VStr (contract_address h)]
      # ?batches @ [tx_of h ''setOracleOwnership'' [VStr (contract_address rateOracle), admin]]"
    unfolding rates_txs_def by (subst map_zip_chunks) simp_all
  have Q: "?Q () (rates_txs rateOracle h admin ?addrs ?rates)" using known h by blast
  have E: "?E n" if "prefix n (rates_txs rateOracle h admin ?addrs ?rates)" for n using that known h by blast
  show "logs (case collected of (assetAddresses, borrowRates, symbols) \<Rightarrow>
      await (sendAndWait rt rateOracle ''transferOwnership'' [VStr (contract_address h)]) (\<lambda>_.
      await (for_each (\<lambda>i. sendAndWait rt h ''setOracleBorrowRates''
               [VArr (map VStr (chunk assetAddresses 20 ! i)), VArr (map VStr (chunk borrowRates 20 ! i)),
                VStr (contract_address rateOracle)])
             [0..<length (chunk assetAddresses 20)]) (\<lambda>_.
      sendAndWait rt h ''setOracleOwnership'' [VStr (contract_address rateOracle), admin]))) ?Q ?E w2"
    unfolding collected split_conv
    by (rule logs_bracket, fold txs) (rule Q, erule E)
qed simp_all

end

text \<open>
  C32: \<open>setInitialMarketRatesInRatesOracleByHelper\<close> on any runtime: it returns only if every rated
  symbol has an address, and then it handed the rate oracle to the recorded helper, had it set all
  rates, each at its asset's address, in order and in batches of at most 20, and had it give the oracle
  to the admin. With a symbol that has no address it fails before any transaction; a run that fails
  later sent a prefix of that list.
\<close>
theorem market_rates_transactions:
  assumes "setInitialMarketRatesInRatesOracleByHelper (logged rt) marketRates assets rateOracle admin w = (outcome, w')"
  shows "\<exists>new. log_of w' = log_of w @ new \<and>
    (let known = (\<forall>r \<in> set marketRates. obj_get assets (fst r) \<noteq> None);
         sends = (\<lambda>new. \<exists>helper all.
           recorded_instance (logged rt) w ''StableAndVariableTokensHelper'' ''StableAndVariableTokensHelperFactory'' helper
           \<and> all = rates_txs rateOracle helper admin (map (\<lambda>r. the (obj_get assets (fst r))) marketRates)
                (map (\<lambda>r. borrowRate (snd r)) marketRates)
           \<and> prefix new all \<and> (isl outcome \<or> new = all))
     in case outcome of Inr _ \<Rightarrow> known \<and> sends new | Inl _ \<Rightarrow> new = [] \<or> known \<and> sends new)"
  by (rule logged.logsE [OF logged.rates_logs [of rt marketRates assets rateOracle admin w]])
    (use assms in \<open>auto simp: log_of_def Let_def split: sum.splits\<close>)

lemma accepting_rates:
  assumes "db_entry_of (logged accepting_runtime) w ''StableAndVariableTokensHelper'' = Some e"
    "\<forall>r \<in> set rates. obj_get assets (fst r) \<noteq> None"
  shows "total (setInitialMarketRatesInRatesOracleByHelper (logged accepting_runtime) rates assets rateOracle admin) (\<lambda>_ _. True) w"
proof -
  have sends: "total (sendAndWait (logged accepting_runtime) c meth args) (\<lambda>_ _. True) w'" for c meth args w'
    by (rule total_mono [OF accepting_total(1)]) simp
  have fold: "total (for_fold (push_rate assets) ([], [], []) rates) (\<lambda>_ _. True) w'"
    for w' :: "(unit \<times> tx list) world"
    unfolding total_def push_rates using assms(2) by simp
  show ?thesis
    unfolding setInitialMarketRatesInRatesOracleByHelper_def getStableAndVariableTokensHelper_def Let_def
    by (rule total_await, rule total_mono [OF accepting_getter [OF assms(1)]], clarify)
      (auto intro!: total_await total_mono [OF sends] total_mono [OF fold] total_mono [OF total_for_each [where I = "\<lambda>_. True"]] sends)
qed

theorem market_rates_transactions_witness:
  "\<exists>w' helper.
     setInitialMarketRatesInRatesOracleByHelper (logged accepting_runtime) [(''DAI'', \<lparr>borrowRate = ''1''\<rparr>)]
       [(''DAI'', ''0xdai'')] (attach ''O'' ''0xoracle'' None) (VStr ''0xadmin'') recorded_world = (Inr (), w')
     \<and> log_of w' = rates_txs (attach ''O'' ''0xoracle'' None) helper (VStr ''0xadmin'') [''0xdai''] [''1'']"
proof -
  let ?run = "setInitialMarketRatesInRatesOracleByHelper (logged accepting_runtime) [(''DAI'', \<lparr>borrowRate = ''1''\<rparr>)]
       [(''DAI'', ''0xdai'')] (attach ''O'' ''0xoracle'' None) (VStr ''0xadmin'')"
  have "total ?run (\<lambda>_ _. True) recorded_world"
    by (rule accepting_rates [where e = "\<lparr>entry_address = ''0xStableAndVariableTokensHelper'', entry_deployer = None\<rparr>"])
      (simp_all add: db_entry_of_def recorded_world_def logged_def accepting_runtime_def db_lookup_def obj_get_def)
  then obtain w' where run: "?run recorded_world = (Inr (), w')" by (auto simp: total_def)
  have "log_of recorded_world = []" by (simp add: log_of_def recorded_world_def)
  with market_rates_transactions [OF run] run show ?thesis by (auto simp: Let_def obj_get_def)
qed

end
