(* ===== verification/ReserveInit.thy ===== *)
theory ReserveInit
  imports ReserveTransactions
begin

text \<open>
  \<open>initReservesByHelper\<close> of \<^verbatim>\<open>helpers/init-helpers.ts\<close>: which input each reserve is initialised with,
  how the inputs are batched, and which emissions the incentives controller is given.
\<close>

section \<open>The inputs\<close>

definition initialisable :: "tEthereumAddress obj \<Rightarrow> string \<times> IReserveParams \<Rightarrow> bool" where
  "initialisable tokenAddresses reserve \<longleftrightarrow>
     truthy_string (obj_get tokenAddresses (fst reserve))
     \<and> (aTokenImpl (snd reserve) = ''AToken'' \<or> aTokenImpl (snd reserve) = ''ATokenForCollateral'')"

text \<open>
  The input of one reserve: its asset, decimals and names; the aToken implementation of its kind; the
  strategy contract of its strategy's name; the treasury, and its yield address or the zero address.
\<close>

definition initialises ::
    "tEthereumAddress obj \<Rightarrow> tEthereumAddress obj \<Rightarrow> js_val \<Rightarrow> string \<Rightarrow> string \<Rightarrow> string \<Rightarrow> (string \<Rightarrow> string)
     \<Rightarrow> string \<times> IReserveParams \<Rightarrow> InitReserveInput \<Rightarrow> bool" where
  "initialises tokenAddresses yields treasury symbPrefix generic collateral strategies reserve inp \<longleftrightarrow>
     in_underlyingAssetName inp = fst reserve
     \<and> in_underlyingAsset inp = the (obj_get tokenAddresses (fst reserve))
     \<and> in_underlyingAssetDecimals inp = reserveDecimals (snd reserve)
     \<and> in_aTokenImpl inp = (if aTokenImpl (snd reserve) = ''AToken'' then generic else collateral)
     \<and> in_interestRateStrategyAddress inp = strategies (strategy_name (strategy (snd reserve)))
     \<and> in_treasury inp = treasury
     \<and> in_yieldAddress inp = (if truthy_string (obj_get yields (fst reserve)) then the (obj_get yields (fst reserve)) else ZERO_ADDRESS)
     \<and> in_aTokenSymbol inp = ''s'' @ symbPrefix @ fst reserve
     \<and> in_stableDebtTokenSymbol inp = ''stableDebt'' @ symbPrefix @ fst reserve
     \<and> in_variableDebtTokenSymbol inp = ''variableDebt'' @ symbPrefix @ fst reserve"

definition init_txs :: "Instance \<Rightarrow> InitReserveInput list \<Rightarrow> tx list" where
  "init_txs configurator inputs =
     map (\<lambda>batch. tx_of configurator ''batchInitReserve'' [VArr (map init_input_val batch)]) (chunk inputs 4)"

text \<open>Deployed contracts have an address.\<close>

definition deploys_somewhere :: "'x runtime \<Rightarrow> bool" where
  "deploys_somewhere rt \<longleftrightarrow>
     (\<forall>F libs s args x i x'. rt_deploy rt F libs s args x = (Inr i, x') \<longrightarrow> contract_address i \<noteq> [])"

section \<open>The loop over the reserves\<close>

definition init_done :: "tEthereumAddress obj \<Rightarrow> (string \<times> IReserveParams) list \<Rightarrow> init_state \<Rightarrow> bool" where
  "init_done tokenAddresses seen st \<longleftrightarrow>
     (let sel = filter (\<lambda>r. truthy_string (obj_get tokenAddresses (fst r))) seen in
      reserveSymbols st = map fst sel
      \<and> reserveTokens st = map (\<lambda>r. the (obj_get tokenAddresses (fst r))) sel
      \<and> reserveInitDecimals st = map (\<lambda>r. reserveDecimals (snd r)) sel
      \<and> emissionPerSeconds st = map (\<lambda>r. emissionPerSecond (snd r)) sel
      \<and> (\<forall>k a. obj_get (strategyAddresses st) k = Some a \<longrightarrow> a \<noteq> [])
      \<and> (\<forall>r \<in> set sel.
           obj_get (strategyAddressPerAsset st) (fst r) = obj_get (strategyAddresses st) (strategy_name (strategy (snd r)))
           \<and> obj_get (strategyAddressPerAsset st) (fst r) \<noteq> None
           \<and> obj_get (aTokenType st) (fst r)
               = Some (if aTokenImpl (snd r) = ''AToken'' then ''generic'' else ''collateral'')))"

lemma deploy_address_logged:
  "deploys_somewhere rt \<Longrightarrow> deploys_somewhere (logged rt)"
  unfolding deploys_somewhere_def by (clarsimp simp: logged_def beside_def split: prod.splits) blast

lemma strategy_address:
  assumes "deploys_somewhere rt" "deployDefaultReserveInterestRateStrategy rt args verify w = (Inr i, w')"
  shows "contract_address i \<noteq> []"
proof -
  from assms(2) obtain s w1 c w2 where "deploy rt ''DefaultReserveInterestRateStrategyFactory'' s args w1 = (Inr c, w2)"
    "withSaveAndVerify rt c ''DefaultReserveInterestRateStrategy'' args verify w2 = (Inr i, w')"
    by (auto simp: deployDefaultReserveInterestRateStrategy_def await_eq_Inr)
  with withSaveAndVerify_Inr assms(1) show ?thesis
    by (fastforce simp: deploys_somewhere_def deploy_def on_network_def split: prod.splits)
qed

lemma deployStrategyOnce_Inr:
  assumes "deploys_somewhere rt" "deployStrategyOnce rt addressProvider verify st strat w = (Inr st', w')"
  shows "st' = st \<and> truthy_string (obj_get (strategyAddresses st) (strategy_name strat))
    \<or> (\<exists>rates a. a \<noteq> [] \<and> \<not> truthy_string (obj_get (strategyAddresses st) (strategy_name strat))
         \<and> st' = st\<lparr>rateStrategies := rates, strategyAddresses := obj_set (strategy_name strat) a (strategyAddresses st)\<rparr>)"
proof (cases "truthy_string (obj_get (strategyAddresses st) (strategy_name strat))")
  case True
  with assms(2) show ?thesis by (simp add: deployStrategyOnce_def)
next
  case False
  let ?rates = "[VStr (contract_address addressProvider), VStr (optimalUtilizationRate strat),
    VStr (baseVariableBorrowRate strat), VStr (variableRateSlope1 strat), VStr (variableRateSlope2 strat),
    VStr (stableRateSlope1 strat), VStr (stableRateSlope2 strat)]"
  from assms(2) False obtain i w1 where "deployDefaultReserveInterestRateStrategy rt ?rates verify w = (Inr i, w1)"
    and "st' = st\<lparr>rateStrategies := obj_set (strategy_name strat) ?rates (rateStrategies st),
        strategyAddresses := obj_set (strategy_name strat) (contract_address i) (strategyAddresses st)\<rparr>"
    by (auto simp: deployStrategyOnce_def Let_def await_eq_Inr)
  with strategy_address [OF assms(1)] False show ?thesis by blast
qed

lemma init_reserve_done:
  assumes rt: "deploys_somewhere rt"
    and run: "init_reserve rt addressProvider tokenAddresses verify st reserve w = (Inr st', w')"
    and kind: "aTokenImpl (snd reserve) = ''AToken'' \<or> aTokenImpl (snd reserve) = ''ATokenForCollateral''"
    and fresh: "fst reserve \<notin> fst ` set seen"
    and inv: "init_done tokenAddresses seen st"
  shows "init_done tokenAddresses (seen @ [reserve]) st'"
proof (cases "truthy_string (obj_get tokenAddresses (fst reserve))")
  case False
  with run inv show ?thesis by (auto simp: init_reserve_def init_done_def Let_def split: prod.splits)
next
  case True
  obtain symbol params where r: "reserve = (symbol, params)" by (cases reserve)
  let ?name = "strategy_name (strategy params)"
  from run True obtain st1 w1 a where once: "deployStrategyOnce rt addressProvider verify st (strategy params) w = (Inr st1, w1)"
    and a: "obj_get (strategyAddresses st1) ?name = Some a"
    and st': "st' = st1\<lparr>strategyAddressPerAsset := obj_set symbol a (strategyAddressPerAsset st1),
        aTokenType := (if aTokenImpl params = ''AToken'' then obj_set symbol ''generic'' (aTokenType st1)
                   else if aTokenImpl params = ''ATokenForCollateral'' then obj_set symbol ''collateral'' (aTokenType st1)
                   else aTokenType st1),
        reserveInitDecimals := reserveInitDecimals st1 @ [reserveDecimals params],
        reserveTokens := reserveTokens st1 @ [the (obj_get tokenAddresses symbol)],
        reserveSymbols := reserveSymbols st1 @ [symbol],
        emissionPerSeconds := emissionPerSeconds st1 @ [emissionPerSecond params]\<rparr>"
    by (auto simp: init_reserve_def r await_eq_Inr lift_result_def deref_def split: option.splits)
  have old: "fst q \<noteq> symbol" if "q \<in> set seen" for q using fresh that r by auto
  from deployStrategyOnce_Inr [OF rt once] have st1: "init_done tokenAddresses seen st1"
  proof (elim disjE exE conjE)
    fix rates b
    assume b: "b \<noteq> []" "\<not> truthy_string (obj_get (strategyAddresses st) ?name)"
      and st1: "st1 = st\<lparr>rateStrategies := rates, strategyAddresses := obj_set ?name b (strategyAddresses st)\<rparr>"
    have none: "obj_get (strategyAddresses st) ?name = None"
    proof (cases "obj_get (strategyAddresses st) ?name")
      case (Some c)
      with inv b(2) show ?thesis by (simp add: init_done_def Let_def truthy_string_def)
    qed
    from inv have "\<forall>q \<in> set (filter (\<lambda>r. truthy_string (obj_get tokenAddresses (fst r))) seen).
        obj_get (strategyAddressPerAsset st) (fst q) = obj_get (strategyAddresses st) (strategy_name (strategy (snd q)))
        \<and> obj_get (strategyAddressPerAsset st) (fst q) \<noteq> None"
      unfolding init_done_def Let_def by blast
    then have names: "\<forall>q \<in> set (filter (\<lambda>r. truthy_string (obj_get tokenAddresses (fst r))) seen).
        strategy_name (strategy (snd q)) \<noteq> ?name"
      using none by metis
    have strategies: "obj_get (strategyAddresses st1) k = (if k = ?name then Some b else obj_get (strategyAddresses st) k)" for k
      by (simp add: st1)
    have rest: "reserveSymbols st1 = reserveSymbols st" "reserveTokens st1 = reserveTokens st"
      "reserveInitDecimals st1 = reserveInitDecimals st" "emissionPerSeconds st1 = emissionPerSeconds st"
      "strategyAddressPerAsset st1 = strategyAddressPerAsset st" "aTokenType st1 = aTokenType st"
      by (simp_all add: st1)
    show ?thesis
      using inv b(1) names unfolding init_done_def Let_def strategies rest by auto
  qed (use inv in simp)
  let ?sel = "filter (\<lambda>r. truthy_string (obj_get tokenAddresses (fst r))) seen"
  have sel: "filter (\<lambda>r. truthy_string (obj_get tokenAddresses (fst r))) (seen @ [reserve]) = ?sel @ [reserve]"
    using True by simp
  have type': "obj_get (aTokenType st') k = (if k = symbol then Some (if aTokenImpl params = ''AToken'' then ''generic'' else ''collateral'')
      else obj_get (aTokenType st1) k)" for k
    using kind by (auto simp: st' r)
  have asset': "obj_get (strategyAddressPerAsset st') k = (if k = symbol then Some a else obj_get (strategyAddressPerAsset st1) k)" for k
    by (simp add: st')
  have strategies': "strategyAddresses st' = strategyAddresses st1" by (simp add: st')
  have lists: "reserveSymbols st' = reserveSymbols st1 @ [symbol]"
    "reserveTokens st' = reserveTokens st1 @ [the (obj_get tokenAddresses symbol)]"
    "reserveInitDecimals st' = reserveInitDecimals st1 @ [reserveDecimals params]"
    "emissionPerSeconds st' = emissionPerSeconds st1 @ [emissionPerSecond params]"
    by (simp_all add: st')
  have "\<forall>q \<in> set ?sel. fst q \<noteq> symbol" using old by simp
  with st1 a show ?thesis
    unfolding init_done_def Let_def sel type' asset' strategies' lists by (auto simp: r)
qed

section \<open>The batches\<close>

lemma inputs_initialise:
  assumes "init_done tokenAddresses reserves st"
    and "\<forall>r \<in> set reserves. aTokenImpl (snd r) = ''AToken'' \<or> aTokenImpl (snd r) = ''ATokenForCollateral''"
  shows "list_all2
      (initialises tokenAddresses (yieldAddresses names) (treasuryAddress names) (symbolPrefix names)
         (aTokenImplementationAddress names) (collateralATokenImplementationAddress names)
         (\<lambda>n. case obj_get (strategyAddresses st) n of Some a \<Rightarrow> a | None \<Rightarrow> []))
      (filter (initialisable tokenAddresses) reserves)
      (map (init_input names st) [0..<length (reserveSymbols st)])"
proof -
  let ?sel = "filter (\<lambda>r. truthy_string (obj_get tokenAddresses (fst r))) reserves"
  have sel: "filter (initialisable tokenAddresses) reserves = ?sel"
    using assms(2) by (intro filter_cong) (auto simp: initialisable_def)
  have lists: "reserveSymbols st = map fst ?sel"
    "reserveTokens st = map (\<lambda>r. the (obj_get tokenAddresses (fst r))) ?sel"
    "reserveInitDecimals st = map (\<lambda>r. reserveDecimals (snd r)) ?sel"
    and entries: "\<forall>r \<in> set ?sel.
           obj_get (strategyAddressPerAsset st) (fst r) = obj_get (strategyAddresses st) (strategy_name (strategy (snd r)))
           \<and> obj_get (aTokenType st) (fst r)
               = Some (if aTokenImpl (snd r) = ''AToken'' then ''generic'' else ''collateral'')"
    using assms(1) unfolding init_done_def Let_def by blast+
  show ?thesis
    unfolding sel
  proof (rule list_all2_all_nthI)
    fix i assume i: "i < length ?sel"
    from bspec [OF entries nth_mem [OF i]] i show "initialises tokenAddresses (yieldAddresses names) (treasuryAddress names)
        (symbolPrefix names) (aTokenImplementationAddress names) (collateralATokenImplementationAddress names)
        (\<lambda>n. case obj_get (strategyAddresses st) n of Some a \<Rightarrow> a | None \<Rightarrow> [])
        (?sel ! i) (map (init_input names st) [0..<length (reserveSymbols st)] ! i)"
      by (simp add: lists initialises_def init_input_def Let_def)
  qed (simp add: lists)
qed

context transaction_log
begin

text \<open>A loop whose rounds send one transaction each, with an invariant of the rounds done.\<close>

lemma logs_for_fold_from:
  assumes body: "\<And>ys x s w. prefix (ys @ [x]) xs \<Longrightarrow> I ys s \<Longrightarrow>
      logs (body s x) (\<lambda>s' n. n = [t x] \<and> I (ys @ [x]) s') (\<lambda>n. prefix n [t x]) w"
  shows "xs = ys @ zs \<Longrightarrow> I ys s \<Longrightarrow>
    logs (for_fold body s zs) (\<lambda>s' n. n = map t zs \<and> I xs s') (\<lambda>n. prefix n (map t zs)) w"
proof (induction zs arbitrary: ys s w)
  case (Nil ys s w)
  then show ?case by (simp add: logs_return)
next
  case (Cons z zs ys s w)
  from Cons.prems(1) have "prefix (ys @ [z]) xs" by (simp add: prefix_def)
  from body [OF this Cons.prems(2), of w] show ?case
    unfolding for_fold.simps
  proof (intro logs_await, elim logs_mono)
    fix s' n
    assume n: "n = [t z] \<and> I (ys @ [z]) s'"
    have "logs (for_fold body s' zs) (\<lambda>s' n. n = map t zs \<and> I xs s') (\<lambda>n. prefix n (map t zs)) w'" for w'
      by (rule Cons.IH) (use Cons.prems n in auto)
    then show "\<forall>w'. logs (for_fold body s' zs) (\<lambda>b n'. n @ n' = map t (z # zs) \<and> I xs b) (\<lambda>n'. prefix (n @ n') (map t (z # zs))) w'"
      using n by simp
  qed (auto simp: prefix_Cons)
qed

lemma logs_for_fold:
  assumes "\<And>ys x s w. prefix (ys @ [x]) xs \<Longrightarrow> I ys s \<Longrightarrow>
      logs (body s x) (\<lambda>s' n. n = [t x] \<and> I (ys @ [x]) s') (\<lambda>n. prefix n [t x]) w"
    and "I [] s" "\<And>s'. I xs s' \<Longrightarrow> Q s' (map t xs)" "\<And>n. prefix n (map t xs) \<Longrightarrow> E n"
  shows "logs (for_fold body s xs) Q E w"
  by (rule logs_mono [OF logs_for_fold_from [of xs I body t "[]" xs s, OF assms(1)]]) (use assms in auto)

lemma collect_silent: "silent (collect_incentives rt pool inputs emissions collected i)"
  unfolding collect_incentives_def by (intro silent_rules)

lemma collect_step:
  assumes "collect_incentives rt pool inputs emissions c i w = (Inr c', w')"
  shows "snd c' = snd c @ [VStr (emissions i), VStr (emissions i)] \<and> length (fst c') = length (fst c) + 2"
  using assms by (auto simp: collect_incentives_def await_eq_Inr)

lemma batch_logs:
  assumes "prefix (ks @ [k]) [0..<length (chunk inputs 4)]" "length inputs = length emissions"
    and "snd c = concat (map (\<lambda>e. [VStr e, VStr e]) (take (length ks * 4) emissions)) \<and> length (fst c) = length (snd c)"
  shows "logs (init_batch rt configurator pool 4 (chunk inputs 4) emissions c k)
     (\<lambda>c' n. n = [tx_of configurator ''batchInitReserve'' [VArr (map init_input_val (chunk inputs 4 ! k))]]
        \<and> snd c' = concat (map (\<lambda>e. [VStr e, VStr e]) (take (length (ks @ [k]) * 4) emissions))
        \<and> length (fst c') = length (snd c'))
     (\<lambda>n. prefix n [tx_of configurator ''batchInitReserve'' [VArr (map init_input_val (chunk inputs 4 ! k))]]) w"
proof -
  obtain zs where zs: "[0..<length (chunk inputs 4)] = ks @ k # zs" using assms(1) by (auto simp: prefix_def)
  have "length (chunk inputs 4) = length ks + Suc (length zs)" using arg_cong [OF zs, of length] by simp
  then have less: "length ks < length (chunk inputs 4)" by linarith
  have "[0..<length (chunk inputs 4)] ! length ks = k" by (simp only: zs nth_append_length)
  with less nth_upt [of 0 "length ks" "length (chunk inputs 4)"]
  have k: "k = length ks" "k < length (chunk inputs 4)" by (simp_all only: add_0)
  let ?n = "length (chunk inputs 4 ! k)"
  have batch: "chunk inputs 4 ! k = take 4 (drop (k * 4) inputs)" using k by (simp add: nth_chunk)
  have fold: "snd c' = snd c @ concat (map (\<lambda>i. [VStr (emissions ! (k * 4 + i)), VStr (emissions ! (k * 4 + i))]) [0..<?n])
      \<and> length (fst c') = length (fst c) + 2 * length [0..<?n] \<and> length (snd c') = length (snd c) + 2 * length [0..<?n]"
    if "for_fold (collect_incentives rt pool (\<lambda>i. chunk inputs 4 ! k ! i) (\<lambda>i. emissions ! (k * 4 + i))) c [0..<?n] w1
      = (Inr c', w2)" for w1 w2 c'
    by (rule for_fold_invariant [where I = "\<lambda>is c'. snd c' = snd c
          @ concat (map (\<lambda>i. [VStr (emissions ! (k * 4 + i)), VStr (emissions ! (k * 4 + i))]) is)
        \<and> length (fst c') = length (fst c) + 2 * length is \<and> length (snd c') = length (snd c) + 2 * length is", OF _ _ that]) (auto dest: collect_step)
  have "map (\<lambda>i. emissions ! (k * 4 + i)) [0..<?n] = take 4 (drop (k * 4) emissions)"
    using assms(2) by (intro nth_equalityI) (auto simp: batch)
  then have "concat (map (\<lambda>i. [VStr (emissions ! (k * 4 + i)), VStr (emissions ! (k * 4 + i))]) [0..<?n])
      = concat (map (\<lambda>e. [VStr e, VStr e]) (take 4 (drop (k * 4) emissions)))"
    by (metis (no_types, lifting) map_map comp_def map_eq_conv)
  moreover have "take (length (ks @ [k]) * 4) emissions = take (k * 4) emissions @ take 4 (drop (k * 4) emissions)"
    using take_add [of "k * 4" 4 emissions] k by (simp add: add.commute)
  ultimately have collected: "snd c' = concat (map (\<lambda>e. [VStr e, VStr e]) (take (length (ks @ [k]) * 4) emissions))
      \<and> length (fst c') = length (snd c')"
    if "for_fold (collect_incentives rt pool (\<lambda>i. chunk inputs 4 ! k ! i) (\<lambda>i. emissions ! (k * 4 + i))) c [0..<?n] w1
      = (Inr c', w2)" for w1 w2 c'
    using conjunct1 [OF fold [OF that]] conjunct2 [OF fold [OF that]] assms(3) k(1) by (intro conjI) (simp, linarith)
  have collected': "snd c' = concat (map (\<lambda>e. [VStr e, VStr e]) (take (length (ks @ [k]) * 4) emissions))
      \<and> length (fst c') = length (snd c')"
    if "fst (for_fold (collect_incentives rt pool (\<lambda>i. chunk inputs 4 ! k ! i) (\<lambda>i. emissions ! (k * 4 + i))) c [0..<?n] w1)
      = Inr c'" for w1 c'
    by (rule collected) (use that in \<open>simp add: prod_eq_iff\<close>)
  show ?thesis
    unfolding init_batch_def
    by (intro logs_await logs_sendAndWait allI logs_value silent_for_fold collect_silent)
      (use collected' in \<open>simp_all only: append_Nil2 simp_thms prefix_order.refl Nil_prefix\<close>)
qed

end

section \<open>The whole initialisation\<close>

text \<open>Each emission twice: once for the aToken, once for the variable debt token.\<close>

definition emissions_twice :: "(string \<times> IReserveParams) list \<Rightarrow> js_val list" where
  "emissions_twice reserves =
     concat (map (\<lambda>r. [VStr (emissionPerSecond (snd r)), VStr (emissionPerSecond (snd r))]) reserves)"

definition attached :: "string \<Rightarrow> Instance \<Rightarrow> bool" where
  "attached F i \<longleftrightarrow> (\<exists>a signer. i = attach F a signer)"

lemma getter_attached:
  "await (recordedAddress rt None cid) (\<lambda>address. await (getFirstSigner rt) (\<lambda>signer.
      return_io (attach F address signer))) w = (Inr i, w') \<Longrightarrow> attached F i"
  by (auto simp: await_eq_Inr attached_def)

lemma init_reserves_done:
  assumes "deploys_somewhere rt" "distinct (map fst reserves)"
    and "\<forall>r \<in> set reserves. aTokenImpl (snd r) = ''AToken'' \<or> aTokenImpl (snd r) = ''ATokenForCollateral''"
    and "for_fold (init_reserve rt addressProvider tokenAddresses verify) init_state0 reserves w = (Inr st, w')"
  shows "init_done tokenAddresses reserves st"
proof (rule for_fold_invariant [OF _ _ assms(4)])
  fix ys x s v s' v'
  assume p: "prefix (ys @ [x]) reserves" and inv: "init_done tokenAddresses ys s"
    and run: "init_reserve rt addressProvider tokenAddresses verify s x v = (Inr s', v')"
  from p obtain zs where zs: "reserves = ys @ x # zs" by (auto simp: prefix_def)
  show "init_done tokenAddresses (ys @ [x]) s'"
    by (rule init_reserve_done [OF assms(1) run _ _ inv]) (use assms(2,3) in \<open>auto simp: zs\<close>)
qed (simp add: init_done_def init_state0_def obj_get_def)

context transaction_log
begin

lemma silent_deployments:
  "silent (deployGenericStableDebtToken rt)" "silent (deployGenericVariableDebtToken rt)"
  "silent (deployGenericATokenImpl rt verify)" "silent (deployCollateralATokenImpl rt verify)"
  "silent (deployDefaultReserveInterestRateStrategy rt args verify)"
  unfolding deployGenericStableDebtToken_def deployGenericVariableDebtToken_def deployGenericATokenImpl_def
    deployCollateralATokenImpl_def deployDefaultReserveInterestRateStrategy_def
  by (intro silent_rules)+

lemma silent_init_reserve: "silent (init_reserve rt addressProvider tokenAddresses verify st reserve)"
  unfolding init_reserve_def deployStrategyOnce_def Let_def
  by (cases reserve) (auto intro!: silent_rules silent_deployments)

lemma batches_logs:
  assumes "length inputs = length emissions"
  shows "logs (for_fold (init_batch rt configurator pool 4 (chunk inputs 4) emissions) ([], []) [0..<length (chunk inputs 4)])
     (\<lambda>c n. n = init_txs configurator inputs \<and> snd c = concat (map (\<lambda>e. [VStr e, VStr e]) emissions)
        \<and> length (fst c) = length (snd c))
     (\<lambda>n. prefix n (init_txs configurator inputs)) w"
proof (rule logs_for_fold [where I = "\<lambda>ks c. snd c = concat (map (\<lambda>e. [VStr e, VStr e]) (take (length ks * 4) emissions))
        \<and> length (fst c) = length (snd c)"], erule batch_logs [OF _ assms])
  let ?t = "\<lambda>k. tx_of configurator ''batchInitReserve'' [VArr (map init_input_val (chunk inputs 4 ! k))]"
  have txs: "map ?t [0..<length (chunk inputs 4)] = init_txs configurator inputs"
    unfolding init_txs_def by (intro nth_equalityI) simp_all
  have "length emissions \<le> length (chunk inputs 4) * 4"
    using assms by (simp add: length_chunk)
  then show "map ?t [0..<length (chunk inputs 4)] = init_txs configurator inputs \<and>
      snd c = concat (map (\<lambda>e. [VStr e, VStr e]) emissions) \<and> length (fst c) = length (snd c)"
    if "snd c = concat (map (\<lambda>e. [VStr e, VStr e]) (take (length [0..<length (chunk inputs 4)] * 4) emissions))
        \<and> length (fst c) = length (snd c)" for c :: "js_val list \<times> js_val list"
    using that txs by simp
  show "prefix n (init_txs configurator inputs)" if "prefix n (map ?t [0..<length (chunk inputs 4)])" for n
    using that txs by simp
qed simp_all

end

text \<open>What is sent to initialise a choice of inputs, and the roles of the contracts involved.\<close>

definition initialises_all ::
    "IReserveParams obj \<Rightarrow> tEthereumAddress obj \<Rightarrow> string \<Rightarrow> js_val \<Rightarrow> tEthereumAddress obj
     \<Rightarrow> Instance \<Rightarrow> InitReserveInput list \<Rightarrow> bool" where
  "initialises_all reservesParams tokenAddresses symbPrefix treasury yields configurator inputs \<longleftrightarrow>
     attached ''LendingPoolConfiguratorFactory'' configurator
     \<and> (\<exists>generic collateral strategies. list_all2
          (initialises tokenAddresses yields treasury symbPrefix generic collateral strategies)
          (filter (initialisable tokenAddresses) reservesParams) inputs)"

context transaction_log
begin

lemma incentives_logs:
  assumes all: "initialises_all reservesParams tokenAddresses symbPrefix treasury yields configurator inputs"
    and inc: "attached ''StakedTokenIncentivesControllerFactory'' incentives"
    and len: "length inputs = length sel" and ems: "emissions = map (\<lambda>r. emissionPerSecond (snd r)) sel"
    and sel: "sel = filter (initialisable tokenAddresses) reservesParams"
  shows "logs (await (for_fold (init_batch rt configurator pool 4 (chunk inputs 4) emissions)
              ([], []) [0..<length (chunk inputs 4)]) (\<lambda>(toks, ems).
     await (send rt incentives ''configureAssets'' [VArr toks, VArr ems]) (\<lambda>_. return_io (0::int))))
     (\<lambda>u n. \<exists>configurator incentives inputs tokens.
        initialises_all reservesParams tokenAddresses symbPrefix treasury yields configurator inputs
        \<and> attached ''StakedTokenIncentivesControllerFactory'' incentives
        \<and> length tokens = 2 * length inputs
        \<and> n = init_txs configurator inputs @ [tx_of incentives ''configureAssets'' [VArr tokens, VArr (emissions_twice sel)]])
     (\<lambda>n. n = [] \<or> (\<exists>configurator inputs.
        initialises_all reservesParams tokenAddresses symbPrefix treasury yields configurator inputs
        \<and> prefix n (init_txs configurator inputs))) w"
  (is "logs _ ?Q ?E w")
proof (rule logs_await, rule logs_mono [OF batches_logs])
  show "length inputs = length emissions" using len ems by simp
  show "?E n" if "prefix n (init_txs configurator inputs)" for n using that all by blast
  fix c :: "js_val list \<times> js_val list" and n
  assume c: "n = init_txs configurator inputs \<and> snd c = concat (map (\<lambda>e. [VStr e, VStr e]) emissions)
        \<and> length (fst c) = length (snd c)"
  obtain toks ems' where pair: "c = (toks, ems')" by fastforce
  with c have e: "ems' = emissions_twice sel" "n = init_txs configurator inputs"
    by (simp_all add: emissions_twice_def ems comp_def)
  with c pair len have toks: "length toks = 2 * length inputs"
    by (simp add: emissions_twice_def length_concat comp_def sum_list_triv)
  have E: "?E n" using all e(2) by blast
  have Q: "?Q 0 (n @ [tx_of incentives ''configureAssets'' [VArr toks, VArr ems']])"
    unfolding e by (intro exI conjI refl) (use all inc toks in auto)
  show "\<forall>w'. logs (case c of (toks, ems) \<Rightarrow> await (send rt incentives ''configureAssets'' [VArr toks, VArr ems]) (\<lambda>_. return_io (0::int)))
      (\<lambda>u n'. ?Q u (n @ n')) (\<lambda>n'. ?E (n @ n')) w'"
    unfolding pair split_conv
    by (intro allI logs_await logs_send logs_return) (use E Q in \<open>simp_all only: append_Nil2 append_assoc\<close>)
qed

lemma init_logs:
  assumes rt: "deploys_somewhere rt" and keys: "distinct (map fst reservesParams)"
  shows "logs (initReservesByHelper rt reservesParams tokenAddresses aTokenPrefix stablePrefix variablePrefix symbPrefix
       admin treasury yields verify)
     (\<lambda>u n. \<exists>configurator incentives inputs tokens.
        initialises_all reservesParams tokenAddresses symbPrefix treasury yields configurator inputs
        \<and> attached ''StakedTokenIncentivesControllerFactory'' incentives
        \<and> length tokens = 2 * length inputs
        \<and> n = init_txs configurator inputs @ [tx_of incentives ''configureAssets''
               [VArr tokens, VArr (emissions_twice (filter (initialisable tokenAddresses) reservesParams))]])
     (\<lambda>n. n = [] \<or> (\<exists>configurator inputs.
        initialises_all reservesParams tokenAddresses symbPrefix treasury yields configurator inputs
        \<and> prefix n (init_txs configurator inputs))) w"
  (is "logs _ ?Q ?E w")
  unfolding initReservesByHelper_def Let_def
proof ((rule logs_bind, (blast intro: silent_getters silent_deployments silent_operations silent_for_fold silent_init_reserve)[1], simp)+)
  fix provider incentives stableImpl variableImpl generic collateral st configurator and v1 v2 v3 v4 v5 v6 :: "'x world"
  let ?reserves = "filter (\<lambda>(_, params). aTokenImpl params = ''AToken'' \<or> aTokenImpl params = ''ATokenForCollateral'')
                      reservesParams"
  let ?sel = "filter (initialisable tokenAddresses) reservesParams"
  assume inc: "getSturdyIncentivesController rt None v1 = (Inr incentives, v2)"
    and fold: "for_fold (init_reserve rt provider tokenAddresses verify) init_state0 ?reserves v3 = (Inr st, v4)"
    and conf: "getLendingPoolConfiguratorProxy rt None v5 = (Inr configurator, v6)"
  let ?names = "\<lparr>aTokenNamePrefix = aTokenPrefix, stableDebtTokenNamePrefix = stablePrefix,
                  variableDebtTokenNamePrefix = variablePrefix, symbolPrefix = symbPrefix,
                  treasuryAddress = treasury, yieldAddresses = yields,
                  stableDebtTokenImplementationAddress = contract_address stableImpl,
                  variableDebtTokenImplementationAddress = contract_address variableImpl,
                  aTokenImplementationAddress = contract_address generic,
                  collateralATokenImplementationAddress = contract_address collateral,
                  incentivesAddress = contract_address incentives\<rparr>"
  let ?inputs = "map (init_input ?names st) [0..<length (reserveSymbols st)]"
  have kinds: "\<forall>r \<in> set ?reserves. aTokenImpl (snd r) = ''AToken'' \<or> aTokenImpl (snd r) = ''ATokenForCollateral''"
    by auto
  have done_all: "init_done tokenAddresses ?reserves st"
    by (rule init_reserves_done [OF rt _ kinds fold]) (use keys in \<open>simp add: distinct_map_filter\<close>)
  have sel: "filter (initialisable tokenAddresses) ?reserves = ?sel"
    "filter (\<lambda>r. truthy_string (obj_get tokenAddresses (fst r))) ?reserves = ?sel"
    by (auto simp: initialisable_def intro!: filter_cong)
  have all: "initialises_all reservesParams tokenAddresses symbPrefix treasury yields configurator ?inputs"
    using inputs_initialise [OF done_all kinds, of ?names] getter_attached
      conf [unfolded getLendingPoolConfiguratorProxy_def]
    unfolding initialises_all_def sel by (auto simp: )
  have lists: "length (reserveSymbols st) = length ?sel" "emissionPerSeconds st = map (\<lambda>r. emissionPerSecond (snd r)) ?sel"
    using done_all unfolding init_done_def Let_def sel by auto
  have inc': "attached ''StakedTokenIncentivesControllerFactory'' incentives"
    using getter_attached inc unfolding getSturdyIncentivesController_def by blast
  show "logs (await (for_fold (init_batch rt configurator pool 4 (chunk ?inputs 4) (emissionPerSeconds st))
              ([], []) [0..<length (chunk ?inputs 4)]) (\<lambda>(toks, ems).
     await (send rt incentives ''configureAssets'' [VArr toks, VArr ems]) (\<lambda>_. return_io (0::int)))) ?Q ?E w'" for pool w'
    by (rule incentives_logs [OF all inc' _ lists(2) refl]) (simp add: lists(1))
qed

end

text \<open>
  C31: \<open>initReservesByHelper\<close> on any runtime whose deployments yield an address, for a table of
  reserves without repeated symbols: a run that returns sent the configurator one input for each
  reserve that has an aToken implementation of either kind and a token address, in the order of the
  table and in batches of at most four, each input with its own reserve's token, decimals, aToken kind,
  yield address and strategy (the same strategy contract for the same strategy name), and then gave the
  incentives controller two tokens per reserve with that reserve's emission twice. A run that failed
  sent nothing or the first of these batches, and no emissions.
\<close>
theorem init_reserves_transactions:
  assumes "deploys_somewhere rt" "distinct (map fst reservesParams)"
    and "initReservesByHelper (logged rt) reservesParams tokenAddresses aTokenPrefix stablePrefix variablePrefix symbPrefix
       admin treasury yields verify w = (outcome, w')"
  shows "\<exists>new. log_of w' = log_of w @ new \<and>
    (let initialised = initialises_all reservesParams tokenAddresses symbPrefix treasury yields in
     case outcome of
       Inr _ \<Rightarrow> \<exists>configurator incentives inputs tokens.
         initialised configurator inputs \<and> attached ''StakedTokenIncentivesControllerFactory'' incentives
         \<and> length tokens = 2 * length inputs
         \<and> new = init_txs configurator inputs @ [tx_of incentives ''configureAssets''
             [VArr tokens, VArr (emissions_twice (filter (initialisable tokenAddresses) reservesParams))]]
     | Inl _ \<Rightarrow> new = [] \<or> (\<exists>configurator inputs.
         initialised configurator inputs \<and> prefix new (init_txs configurator inputs)))"
  by (rule logged.logsE [OF logged.init_logs [OF deploy_address_logged [OF assms(1)] assms(2),
        of tokenAddresses aTokenPrefix stablePrefix variablePrefix symbPrefix admin treasury yields verify w]])
    (use assms(3) in \<open>auto simp: log_of_def Let_def split: sum.splits\<close>)


section \<open>A run\<close>

text \<open>The contracts the helper reads are recorded; recording more keeps that.\<close>

definition helpers_recorded :: "(unit \<times> tx list) world \<Rightarrow> bool" where
  "helpers_recorded w \<longleftrightarrow> (\<forall>cid \<in> {''StableAndVariableTokensHelper'', ''LendingPoolAddressesProvider'',
     ''StakedTokenIncentivesController'', ''LendingPoolConfigurator'', ''LendingPool''}.
     db_entry_of (logged accepting_runtime) w cid \<noteq> None)"

lemma recorded_getter:
  assumes "helpers_recorded w" "cid \<in> {''StableAndVariableTokensHelper'', ''LendingPoolAddressesProvider'',
     ''StakedTokenIncentivesController'', ''LendingPoolConfigurator'', ''LendingPool''}"
    and "\<And>a. Q a w"
  shows "total (await (recordedAddress (logged accepting_runtime) None cid) (\<lambda>address.
      await (getFirstSigner (logged accepting_runtime)) (\<lambda>signer. return_io (attach F address signer)))) Q w"
proof -
  from bspec [OF assms(1) [unfolded helpers_recorded_def] assms(2)]
  obtain e where "db_entry_of (logged accepting_runtime) w cid = Some e" by (rule not_None_eq [THEN iffD1, THEN exE])
  from total_mono [OF accepting_getter [OF this]] assms(3) show ?thesis by simp
qed

lemma recorded_db_set:
  "helpers_recorded w \<Longrightarrow> (\<And>w'. helpers_recorded w' \<Longrightarrow> Q () w') \<Longrightarrow> total (db_set (logged accepting_runtime) cid e) Q w"
  by (auto simp: total_def db_set_def helpers_recorded_def db_entry_of_def)

lemma recorded_deployment:
  assumes "helpers_recorded w" "\<And>a w'. helpers_recorded w' \<Longrightarrow> Q a w'"
  shows "total (await (getFirstSigner (logged accepting_runtime)) (\<lambda>signer.
     await (deploy (logged accepting_runtime) F signer args) (\<lambda>contract.
     withSaveAndVerify (logged accepting_runtime) contract cid args' False))) Q w"
proof -
  let ?i = "\<lparr>contract_abi = F, contract_address = ''0x'' @ F, connected_signer = Some ''0xowner'',
        deployTransaction_from = Some ''0xowner''\<rparr>"
  let ?w = "w\<lparr>network_state := ((), snd (network_state w))\<rparr>"
  have "deploy (logged accepting_runtime) F (Some ''0xowner'') args w = (Inr ?i, w)"
    by (simp add: deploy_def on_network_def logged_def accepting_runtime_def beside_def)
  moreover have "waitForDeployment (logged accepting_runtime) ?i w = (Inr (), w)"
    by (simp add: waitForDeployment_def waitForTx_def on_network_def logged_def accepting_runtime_def beside_def
        await_def lift_result_def deref_def)
  moreover have "total (registerContractInJsonDb (logged accepting_runtime) cid ?i) (\<lambda>_ w'. Q ?i w') w"
    using assms unfolding registerContractInJsonDb_def
    by (auto simp: deref_def intro!: total_await total_lift recorded_db_set)
  ultimately show ?thesis
    by (simp add: total_def accepting_signer withSaveAndVerify_def) (auto simp: await_def return_io_def split: prod.splits sum.splits)
qed

lemma recorded_insert:
  "helpers_recorded w \<Longrightarrow> (\<And>a w'. helpers_recorded w' \<Longrightarrow> Q a w') \<Longrightarrow>
   total (rawInsertContractAddressInDb (logged accepting_runtime) cid a) Q w"
  unfolding rawInsertContractAddressInDb_def by (rule recorded_db_set)

lemma recorded_reserve:
  assumes "helpers_recorded w"
  shows "total (init_reserve (logged accepting_runtime) provider tokenAddresses False st reserve)
     (\<lambda>_ w'. helpers_recorded w') w"
proof -
  obtain symbol params where r: "reserve = (symbol, params)" by (cases reserve)
  have once: "total (deployStrategyOnce (logged accepting_runtime) provider False st (strategy params))
     (\<lambda>st' w'. helpers_recorded w' \<and> obj_get (strategyAddresses st') (strategy_name (strategy params)) \<noteq> None) w"
    using assms unfolding deployStrategyOnce_def deployDefaultReserveInterestRateStrategy_def Let_def
    by (auto simp: truthy_string_def split: option.splits intro!: total_await [where m = "await _ _"] recorded_deployment recorded_insert total_return total_await [where m = "rawInsertContractAddressInDb _ _ _"])
  show ?thesis
    unfolding init_reserve_def r split_conv
    by (auto simp: assms deref_def intro!: total_return total_await total_mono [OF once] total_lift)
qed

lemma recorded_batches:
  assumes "helpers_recorded w"
  shows "total (for_fold (init_batch (logged accepting_runtime) configurator pool n chunks emissions) c ks)
     (\<lambda>_ w'. helpers_recorded w') w"
proof (rule total_for_fold)
  have same: "helpers_recorded w' = helpers_recorded w''" if "deployed_contracts w' = deployed_contracts w''" for w' w''
    using that by (simp add: helpers_recorded_def db_entry_of_def)
  have collect: "total (collect_incentives (logged accepting_runtime) pool is es d i) (\<lambda>_ w''. helpers_recorded w'') w'"
    if "helpers_recorded w'" for "is" es d i w'
    unfolding collect_incentives_def using that
    by (auto simp: js_field_def obj_get_def intro!: total_await total_return total_lift total_mono [OF accepting_call])
  show "total (init_batch (logged accepting_runtime) configurator pool n chunks emissions s k) (\<lambda>_ w''. helpers_recorded w'') w'"
    if "helpers_recorded w'" for s k w'
    unfolding init_batch_def
  proof (rule total_await, rule total_mono [OF accepting_total(1)], rule total_for_fold)
    fix u and w1 :: "(unit \<times> tx list) world"
    assume "deployed_contracts w1 = deployed_contracts w'"
    with same that show "helpers_recorded w1" by blast
  qed (rule collect)
qed (use assms in auto)

lemmas recorded_then =
  total_await [OF recorded_getter] total_await [OF recorded_deployment] total_await [OF recorded_insert]

lemma accepting_initialises:
  assumes "helpers_recorded w"
  shows "total (initReservesByHelper (logged accepting_runtime) reservesParams tokenAddresses aTokenPrefix stablePrefix
     variablePrefix symbPrefix admin treasury yields False) (\<lambda>_ _. True) w"
proof -
  have reserves: "total (for_fold (init_reserve (logged accepting_runtime) provider tokenAddresses False) st rs)
      (\<lambda>_ w'. helpers_recorded w') w'" if "helpers_recorded w'" for provider st rs w'
    by (rule total_for_fold) (use that recorded_reserve in auto)
  have sends: "total (send (logged accepting_runtime) c meth args) (\<lambda>_ _. True) w'" for c meth args w'
    by (rule total_mono [OF accepting_total(2)]) simp
  show ?thesis
    unfolding initReservesByHelper_def Let_def getStableAndVariableTokensHelper_def getLendingPoolAddressesProvider_def
      deployGenericStableDebtToken_def deployGenericVariableDebtToken_def getSturdyIncentivesController_def
      deployGenericATokenImpl_def deployCollateralATokenImpl_def getLendingPoolConfiguratorProxy_def getLendingPool_def
    by ((rule recorded_then, assumption | rule recorded_then, rule assms | rule total_await [OF total_mono [OF reserves]], assumption
          | rule total_await [OF total_mono [OF recorded_batches]], assumption | (simp; fail))+)
      (auto intro!: total_await total_return total_mono [OF sends])
qed

theorem init_reserves_transactions_witness:
  "\<exists>w' configurator incentives inputs tokens.
     initReservesByHelper (logged accepting_runtime)
         [(''DAI'', sturdy_strategyDAI), (''USDC'', sturdy_strategyUSDC), (''stETH'', sturdy_strategySTETH)]
         [(''USDC'', ''0xusdc''), (''stETH'', ''0xsteth'')] ''a'' ''s'' ''v'' ''st'' ''0xadmin'' (VStr ''0xtreasury'')
         [(''stETH'', ''0xvault'')] False recorded_world = (Inr 0, w')
     \<and> length inputs = 2 \<and> length tokens = 4
     \<and> map in_yieldAddress inputs = [ZERO_ADDRESS, ''0xvault'']
     \<and> log_of w' = init_txs configurator inputs @ [tx_of incentives ''configureAssets'' [VArr tokens,
          VArr (emissions_twice [(''USDC'', sturdy_strategyUSDC), (''stETH'', sturdy_strategySTETH)])]]"
proof -
  let ?reserves = "[(''DAI'', sturdy_strategyDAI), (''USDC'', sturdy_strategyUSDC), (''stETH'', sturdy_strategySTETH)]"
  let ?tokens = "[(''USDC'', ''0xusdc''), (''stETH'', ''0xsteth'')]"
  let ?run = "initReservesByHelper (logged accepting_runtime) ?reserves ?tokens ''a'' ''s'' ''v'' ''st'' ''0xadmin''
     (VStr ''0xtreasury'') [(''stETH'', ''0xvault'')] False recorded_world"
  have "helpers_recorded recorded_world"
    by (simp add: helpers_recorded_def db_entry_of_def recorded_world_def logged_def accepting_runtime_def db_lookup_def obj_get_def)
  from accepting_initialises [OF this, unfolded total_def] obtain u w' where run: "?run = (Inr u, w')" by blast
  have rt: "deploys_somewhere accepting_runtime" by (simp add: deploys_somewhere_def accepting_runtime_def)
  have sel: "filter (initialisable ?tokens) ?reserves = [(''USDC'', sturdy_strategyUSDC), (''stETH'', sturdy_strategySTETH)]"
    by (simp add: initialisable_def truthy_string_def obj_get_def sturdy_strategyDAI_def sturdy_strategyUSDC_def sturdy_strategySTETH_def)
  have u: "u = 0" using run unfolding initReservesByHelper_def by (auto simp: await_eq_Inr Let_def split: prod.splits)
  have log: "log_of recorded_world = []" by (simp add: log_of_def recorded_world_def)
  have "distinct (map fst ?reserves)" by simp
  from init_reserves_transactions [OF rt this run] obtain configurator incentives inputs tokens where
    all: "initialises_all ?reserves ?tokens ''st'' (VStr ''0xtreasury'') [(''stETH'', ''0xvault'')] configurator inputs"
    and tokens: "length tokens = 2 * length inputs"
    and sent: "log_of w' = init_txs configurator inputs @ [tx_of incentives ''configureAssets'' [VArr tokens,
          VArr (emissions_twice [(''USDC'', sturdy_strategyUSDC), (''stETH'', sturdy_strategySTETH)])]]"
    unfolding sel by (auto simp: Let_def log)
  from all have "length inputs = 2 \<and> map in_yieldAddress inputs = [ZERO_ADDRESS, ''0xvault'']"
    unfolding initialises_all_def sel
    by (auto simp: list_all2_Cons1 initialises_def truthy_string_def obj_get_def)
  with run sent tokens u show ?thesis by (intro exI conjI) auto
qed
end
