(* ===== verification/SuiteLog.thy ===== *)
theory SuiteLog
  imports ScenarioFiles ReserveInit
begin

text \<open>
  The transactions the scenario engine sends. The log of a runtime's accepted transactions is extended
  to the node the suites read blocks and receipts from, which adds nothing to it; then reading the state
  and comparing it are silent, and each action sends at most one transaction.
\<close>

section \<open>The interface\<close>

locale suite_log = transaction_log "suite_rt S" log
  for S :: "('x, 'b) suite" and log :: "'x \<Rightarrow> tx list" +
  assumes node_log: "log (snd (node_wait (suite_node S) h x)) = log x"
      "log (snd (node_getBlockNumber (suite_node S) x)) = log x"
      "log (snd (node_getBlock (suite_node S) number x)) = log x"
      "log (snd (node_gasPrice (suite_node S) h x)) = log x"
      "log (snd (node_request (suite_node S) meth args x)) = log x"
begin

lemma silent_option: "(z = None \<Longrightarrow> silent m) \<Longrightarrow> (\<And>a. z = Some a \<Longrightarrow> silent (f a)) \<Longrightarrow>
   silent (case z of None \<Rightarrow> m | Some a \<Rightarrow> f a)"
  by (cases z) auto

lemma silent_node:
  "silent (on_network (node_wait (suite_node S) h))" "silent (on_network (node_getBlockNumber (suite_node S)))"
  "silent (on_network (node_getBlock (suite_node S) number))" "silent (on_network (node_gasPrice (suite_node S) h))"
  "silent (on_network (node_request (suite_node S) meth args))"
  by (intro silent_network node_log)+

lemma silent_token_getters:
  "silent (getIErc20Detailed (suite_rt S) a)" "silent (getMintableERC20 (suite_rt S) a)" "silent (getAToken (suite_rt S) a)"
  "silent (getStableDebtToken (suite_rt S) a)" "silent (getVariableDebtToken (suite_rt S) a)"
  "silent (getLendingRateOracle (suite_rt S) a)"
  unfolding getIErc20Detailed_def getMintableERC20_def getAToken_def getStableDebtToken_def getVariableDebtToken_def
    getLendingRateOracle_def
  by (intro silent_rules)+

lemmas suite_rules = silent_rules silent_node silent_token_getters

lemma silent_reads:
  "silent (timeLatest S)" "silent (advanceTimeAndBlock S t)" "silent (convertToCurrencyDecimals S a amount)"
  "silent (getReserveAddressFromSymbol S reserveSymbol)" "silent (getReserveData S helper reserve)"
  "silent (getATokenUserData S reserve user helper)"
  unfolding timeLatest_def advanceTimeAndBlock_def convertToCurrencyDecimals_def getReserveAddressFromSymbol_def
    getReserveData_def getATokenUserData_def Let_def
  by (intro suite_rules silent_option)+

lemma silent_users: "silent (getUserData S helper reserve user sender)"
  unfolding getUserData_def Let_def by (intro suite_rules silent_reads)

lemma silent_data:
  "silent (getContractsData S reserve user env sender)" "silent (getTxCostAndTimestamp S rc)"
  "silent (value_option S tok sendValue)" "silent (amount_or_max S tok amount)"
  "silent (expect_reserve S a e)" "silent (expect_user S u v)" "silent (expect_lte S x y n)"
  unfolding getContractsData_def getTxCostAndTimestamp_def value_option_def amount_or_max_def
    expect_reserve_def expect_user_def expect_lte_def Let_def
  by (auto split: option.splits intro!: suite_rules silent_reads silent_users)

lemma silent_before: "silent (getDataBeforeAction S reserveSymbol user env)"
  unfolding getDataBeforeAction_def by (auto intro!: suite_rules silent_reads silent_data)


section \<open>Transactions of the suites\<close>

lemma logs_transact:
  assumes "\<And>rc. Q rc [tx_of c meth args]" "E []" "E [tx_of c meth args]"
  shows "logs (transact S c meth args) Q E w"
  unfolding transact_def
  by (intro logs_await logs_send allI logs_silent [OF silent_node(1)]) (use assms in simp_all)

lemma logs_rejection:
  assumes "Q () []" "E []" "E [tx_of c meth args]"
  shows "logs (expect_rejection matches (send (suite_rt S) c meth args)) Q E w"
proof -
  have "logs (send (suite_rt S) c meth args) (\<lambda>_ n. n = [tx_of c meth args]) (\<lambda>n. n = []) w"
    by (rule logs_send) simp_all
  then show ?thesis
    by (rule logsE) (auto simp: logs_def expect_rejection_def assms split: sum.splits)
qed

lemma logs_prod: "(\<And>a b. p = (a, b) \<Longrightarrow> logs (f a b) Q E w) \<Longrightarrow> logs (case p of (a, b) \<Rightarrow> f a b) Q E w"
  by (cases p) simp

lemma logs_if: "(b \<Longrightarrow> logs m Q E w) \<Longrightarrow> (\<not> b \<Longrightarrow> logs m' Q E w) \<Longrightarrow> logs (if b then m else m') Q E w"
  by simp

text \<open>A transaction followed by steps that send nothing.\<close>

lemma logs_transact_then:
  assumes "\<And>rc. silent (f rc)" "\<And>b. Q b [tx_of c meth args]" "E []" "E [tx_of c meth args]"
  shows "logs (await (transact S c meth args) f) Q E w"
  by (intro logs_await logs_transact allI logs_silent assms(1)) (use assms(2-) in simp_all)

end

text \<open>
  A transaction of a user; the \<open>transfer\<close> of a mint is sent by an impersonated holder of the token.
  What an action leaves in the log: one transaction of the user when it succeeds with \<open>success\<close>, none
  when it succeeds with another expectation; at most that one when it fails.
\<close>

definition sent_by :: "SignerWithAddress option \<Rightarrow> string \<Rightarrow> tx \<Rightarrow> bool" where
  "sent_by user meth t \<longleftrightarrow>
     tx_method t = meth \<and> (meth = ''transfer'' \<or> (\<exists>u. user = Some u \<and> tx_from t = Some (signer u)))"

definition passed_log :: "SignerWithAddress option \<Rightarrow> string \<Rightarrow> bool \<Rightarrow> tx list \<Rightarrow> bool" where
  "passed_log user meth sends n \<longleftrightarrow> (if sends then \<exists>t. n = [t] \<and> sent_by user meth t else n = [])"

definition failed_log :: "SignerWithAddress option \<Rightarrow> string \<Rightarrow> tx list \<Rightarrow> bool" where
  "failed_log user meth n \<longleftrightarrow> n = [] \<or> (\<exists>t. n = [t] \<and> sent_by user meth t)"

lemma log_simps:
  "failed_log user meth []" "passed_log user meth False []"
  "user = Some u \<Longrightarrow> failed_log user meth [tx_of (connect c (signer u)) meth args]"
  "user = Some u \<Longrightarrow> passed_log user meth True [tx_of (connect c (signer u)) meth args]"
  "failed_log user ''transfer'' [tx_of c ''transfer'' args]" "passed_log user ''transfer'' True [tx_of c ''transfer'' args]"
  by (auto simp: failed_log_def passed_log_def sent_by_def tx_of_def connect_def)

context suite_log
begin

lemma skip:
  "silent m \<Longrightarrow> (\<And>a w'. logs (f a) Q (failed_log user meth) w') \<Longrightarrow> logs (await m f) Q (failed_log user meth) w"
  by (rule logs_bind) (auto simp: log_simps)

lemma skip_user:
  "(\<And>u w'. user = Some u \<Longrightarrow> logs (f u) Q (failed_log user meth) w') \<Longrightarrow>
   logs (await (lift_result (deref user)) f) Q (failed_log user meth) w"
  by (rule logs_bind [OF silent_simple(3)]) (auto simp: log_simps lift_result_def)

lemma silent_prod: "(\<And>a b. silent (f a b)) \<Longrightarrow> silent (case p of (a, b) \<Rightarrow> f a b)"
  by (cases p) simp

text \<open>The three expectations.\<close>

lemma expectation_logs:
  assumes "user = Some u" "\<And>rc. silent (check rc)"
  shows "logs
     (if expected = ''success'' then await (transact S (connect c (signer u)) meth args) check
      else if expected = ''revert'' then expect_rejection matches (send (suite_rt S) (connect c (signer u)) meth args')
      else return_io ()) (\<lambda>_. passed_log user meth (expected = ''success'')) (failed_log user meth) w"
  by (auto intro!: logs_transact_then logs_rejection logs_return assms(2) simp: log_simps assms(1))

lemmas checks_silent = silent_prod silent_data silent_reads silent_before silent_users silent_simple silent_if silent_await

text \<open>An action of whatever outcome sends once.\<close>

lemma sends_logs:
  "user = Some u \<Longrightarrow> (\<And>rc. silent (check rc)) \<Longrightarrow>
   logs (await (transact S (connect c (signer u)) meth args) check) (\<lambda>_. passed_log user meth True) (failed_log user meth) w"
  by (rule logs_transact_then) (auto simp: log_simps)

lemma rejection_logs:
  "user = Some u \<Longrightarrow> logs (expect_rejection matches (send (suite_rt S) (connect c (signer u)) meth args))
     (\<lambda>_. passed_log user meth False) (failed_log user meth) w"
  by (rule logs_rejection) (auto simp: log_simps)

lemma pool_action_logs:
  "logs (deposit S reserveSymbol amount user onBehalfOf sendValue expected env msg)
     (\<lambda>_. passed_log user ''deposit'' (expected = ''success'')) (failed_log user ''deposit'') w"
  "logs (depositCollateral S reserveSymbol amount user onBehalfOf sendValue expected env msg)
     (\<lambda>_. passed_log user ''depositCollateral'' (expected = ''success'')) (failed_log user ''depositCollateral'') w"
  "logs (withdraw S reserveSymbol amount user expected env msg)
     (\<lambda>_. passed_log user ''withdraw'' (expected = ''success'')) (failed_log user ''withdraw'') w"
  "logs (withdrawCollateral S reserveSymbol amount user expected env msg)
     (\<lambda>_. passed_log user ''withdrawCollateral'' (expected = ''success'')) (failed_log user ''withdrawCollateral'') w"
  "logs (borrow S reserveSymbol amount mode user onBehalfOf timeTravel expected env msg)
     (\<lambda>_. passed_log user ''borrow'' (expected = ''success'')) (failed_log user ''borrow'') w"
  "logs (setUseAsCollateral S reserveSymbol user flag expected env msg)
     (\<lambda>_. passed_log user ''setUserUseReserveAsCollateral'' (expected = ''success''))
     (failed_log user ''setUserUseReserveAsCollateral'') w"
  unfolding deposit_def depositCollateral_def withdraw_def withdrawCollateral_def borrow_def setUseAsCollateral_def Let_def
  by (intro expectation_logs skip_user skip logs_prod checks_silent; assumption)+

lemma repay_logs:
  "logs (repay S reserveSymbol amount mode user onBehalfOf sendValue expected env msg)
     (\<lambda>_. passed_log user ''repay'' (expected = ''success'')) (failed_log user ''repay'') w"
  unfolding repay_def Let_def
  by (rule skip, intro checks_silent, rule skip, intro checks_silent, rule skip, intro checks_silent,
      rule logs_prod, rule logs_prod, rule skip, intro checks_silent, rule skip, intro checks_silent)
    (auto intro!: skip_user sends_logs rejection_logs logs_return checks_silent simp: log_simps)

lemma delegate_logs:
  "logs (delegateBorrowAllowance S reserve amount mode user receiver expected env msg)
     (\<lambda>_. passed_log user ''approveDelegation'' (\<not> (expected = ''revert'' \<and> truthy_string msg)))
     (failed_log user ''approveDelegation'') w"
  unfolding delegateBorrowAllowance_def Let_def
  by (intro skip_user skip checks_silent suite_rules)
    (auto intro!: sends_logs rejection_logs suite_rules)

lemma funding_logs:
  "logs (mint S reserveSymbol amount user env) (\<lambda>_. passed_log user ''transfer'' True) (failed_log user ''transfer'') w"
  "logs (approve S reserveSymbol user env) (\<lambda>_. passed_log user ''approve'' True) (failed_log user ''approve'') w"
  "logs (approveVault S reserveSymbol user env) (\<lambda>_. passed_log user ''approve'' True) (failed_log user ''approve'') w"
proof -
  show "logs (mint S reserveSymbol amount user env) (\<lambda>_. passed_log user ''transfer'' True) (failed_log user ''transfer'') w"
    unfolding mint_def impersonateAccountsHardhat_def Let_def split_beta
    by (intro skip silent_simple silent_reads silent_if silent_for_each silent_network signers_log
        logs_transact_then) (auto simp: log_simps)
  show "logs (approve S reserveSymbol user env) (\<lambda>_. passed_log user ''approve'' True) (failed_log user ''approve'') w"
    unfolding approve_def by (intro sends_logs skip_user skip suite_rules silent_reads)
  show "logs (approveVault S reserveSymbol user env) (\<lambda>_. passed_log user ''approve'' True) (failed_log user ''approve'') w"
    unfolding approveVault_def by (intro sends_logs skip_user skip suite_rules)
qed

end

section \<open>Actions\<close>

text \<open>The transaction of an action, and when the action's success means that it was sent.\<close>

definition action_method :: "string \<Rightarrow> string" where
  "action_method name =
     (if name = ''mint'' then ''transfer''
      else if name = ''approveVault'' then ''approve''
      else if name = ''delegateBorrowAllowance'' then ''approveDelegation''
      else if name = ''setUseAsCollateral'' then ''setUserUseReserveAsCollateral''
      else name)"

definition sends_on_pass :: "string \<Rightarrow> string \<Rightarrow> string option \<Rightarrow> bool" where
  "sends_on_pass name expected revertMessage =
     (if name = ''mint'' \<or> name = ''approve'' \<or> name = ''approveVault'' then True
      else if name = ''delegateBorrowAllowance'' then \<not> (expected = ''revert'' \<and> truthy_string revertMessage)
      else expected = ''success'')"

context suite_log
begin

lemma skip_lift:
  "(\<And>a w'. logs (f a) Q (failed_log user meth) w') \<Longrightarrow> logs (await (lift_result r) f) Q (failed_log user meth) w"
  by (rule skip [OF silent_simple(3)])

lemma dispatch_logs:
  "logs (dispatchAction S name args reserve rateMode user expected msg us env)
     (\<lambda>_. passed_log user (action_method name) (sends_on_pass name expected msg))
     (failed_log user (action_method name)) w"
proof -
  note branch = dispatchAction_def Let_def action_method_def sends_on_pass_def
  show ?thesis
  proof (cases "name \<in> set action_names")
    case True
    then show ?thesis
      unfolding action_names_def list.set
      by (elim insertE emptyE; simp add: branch split del: if_split; intro skip_lift funding_logs pool_action_logs repay_logs delegate_logs [simplified])
  next
    case False
    then show ?thesis
      by (simp add: branch action_names_def) (rule logs_value [OF silent_simple(2)], simp_all add: throw_io_def log_simps)
  qed
qed

end

section \<open>A suite whose transactions are logged\<close>

definition logged_node :: "'x node \<Rightarrow> ('x \<times> tx list) node" where
  "logged_node nd =
     \<lparr>node_wait = (\<lambda>h. beside (node_wait nd h)), node_getBlockNumber = beside (node_getBlockNumber nd),
      node_getBlock = (\<lambda>number. beside (node_getBlock nd number)), node_gasPrice = (\<lambda>h. beside (node_gasPrice nd h)),
      node_request = (\<lambda>meth args. beside (node_request nd meth args)), ethers_parseUnits = ethers_parseUnits nd,
      waffle_reverted = waffle_reverted nd, waffle_revertedWith = waffle_revertedWith nd\<rparr>"

definition logged_suite :: "('x, 'b) suite \<Rightarrow> ('x \<times> tx list, 'b) suite" where
  "logged_suite S =
     \<lparr>suite_rt = logged (suite_rt S), suite_node = logged_node (suite_node S), suite_bn = suite_bn S,
      skipIntegrityCheck = skipIntegrityCheck S, reservesParams = reservesParams S\<rparr>"

interpretation logged_suite: suite_log "logged_suite S" snd
  unfolding suite_log_def suite_log_axioms_def logged_suite_def suite.select_convs
  by (intro conjI allI logged.transaction_log_axioms) (simp_all add: logged_node_def)


section \<open>Rate modes\<close>

text \<open>The rate mode is the only use of \<open>borrowRateMode\<close>.\<close>

lemma dispatch_other_args:
  "dispatchAction S name (obj_set ''borrowRateMode'' m args) reserve rateMode user expected msg us env
     = dispatchAction S name args reserve rateMode user expected msg us env"
proof -
  have other: "obj_get (obj_set ''borrowRateMode'' m args) k = obj_get args k"
    if "k \<in> {''amount'', ''sendValue'', ''onBehalfOf'', ''toUser'', ''timeTravel'', ''useAsCollateral''}" for k
    using that by auto
  show ?thesis
    unfolding dispatchAction_def
    by (simp only: other insert_iff simp_thms)
qed

lemma check_action_args:
  "check_action (act\<lparr>action_args := Some (obj_set ''borrowRateMode'' m args)\<rparr>) =
     bindR (check_action (act\<lparr>action_args := Some args\<rparr>)) (\<lambda>(_, rest). Inr (obj_set ''borrowRateMode'' m args, rest))"
  by (simp add: check_action_def bindR_assoc)

text \<open>
  The engine cannot execute anything at the stable rate: whatever an action's \<open>borrowRateMode\<close> says,
  the rate mode it is executed with is 0, 2 or 4, never the 1 of the stable mode, and an action that
  asks for the stable rate runs exactly as the same action asking for the variable rate.
\<close>
theorem stable_runs_as_variable:
  "rate_mode_of mode \<in> {''0'', ''2'', ''4''} \<and> rate_mode_of mode \<noteq> rate_mode_value Stable
   \<and> executeAction S (act\<lparr>action_args := Some (obj_set ''borrowRateMode'' ''stable'' args)\<rparr>) us env
     = executeAction S (act\<lparr>action_args := Some (obj_set ''borrowRateMode'' ''variable'' args)\<rparr>) us env"
proof (intro conjI)
  show "rate_mode_of mode \<in> {''0'', ''2'', ''4''}" "rate_mode_of mode \<noteq> rate_mode_value Stable"
    by (simp_all add: rate_mode_of_def)
  have modes: "rate_mode_of (Some ''stable'') = rate_mode_of (Some ''variable'')"
    by (simp add: rate_mode_of_def truthy_string_def)
  show "executeAction S (act\<lparr>action_args := Some (obj_set ''borrowRateMode'' ''stable'' args)\<rparr>) us env
     = executeAction S (act\<lparr>action_args := Some (obj_set ''borrowRateMode'' ''variable'' args)\<rparr>) us env"
  proof (cases "check_action (act\<lparr>action_args := Some args\<rparr>)")
    case (Inr checked)
    then show ?thesis
      by (cases checked) (simp add: executeAction_def check_action_args lift_result_def await_def modes dispatch_other_args)
  qed (simp add: executeAction_def check_action_args lift_result_def await_def)
qed

end
