(* ===== verification/Scenarios.thy ===== *)
theory Scenarios
  imports ReserveCalc UserCalc
begin

text \<open>
  Properties of whole actions: the expected reserve and the expected position the scenario suites
  compute after a deposit, withdrawal, borrow, repayment, swap or rebalance, composed as
  \<^verbatim>\<open>helpers/actions.ts\<close> composes them (the reserve first, then the user against the expected reserve).
\<close>

section \<open>What an action leaves in the reserve\<close>

lemma withdraw_reserve:
  assumes "calcExpectedReserveDataAfterWithdraw B params amount before u t = Inr d"
  defines "amt \<equiv> bn_parse B (if amount = MAX_UINT_AMOUNT then bn_toFixed B (calcExpectedATokenBalance B before u t)
      else amount)"
  shows "r_liquidityIndex d = calcExpectedLiquidityIndex B before t"
    and "r_availableLiquidity d = bn_minus B (r_availableLiquidity before) amt"
    and "r_totalLiquidity d = bn_plus B (bn_plus B (r_availableLiquidity d) (r_totalVariableDebt d)) (r_totalStableDebt d)"
  using assms(1)
  by (auto simp: calcExpectedReserveDataAfterWithdraw_def Let_def bindR_Inr_iff amt_def split: prod.splits)

lemma withdraw_collateral_reserve:
  assumes "calcExpectedReserveDataAfterWithdrawCollateral B params amount before after u t = Inr d"
  shows "r_totalLiquidity d = bn_plus B (bn_plus B (r_availableLiquidity d) (r_totalVariableDebt d)) (r_totalStableDebt d)"
  using assms
  by (auto simp: calcExpectedReserveDataAfterWithdrawCollateral_def Let_def bindR_Inr_iff split: prod.splits)

lemma borrow_reserve:
  assumes "calcExpectedReserveDataAfterBorrow B params amount mode before u t now = Inr d"
  shows "r_availableLiquidity d = bn_minus B (r_availableLiquidity before) (bn_parse B amount)"
    and "r_variableBorrowIndex d = calcExpectedVariableBorrowIndex B before t"
    and "r_totalLiquidity d
        = bn_plus B (bn_plus B (r_availableLiquidity d) (r_totalVariableDebt d)) (r_totalStableDebt d)
      \<or> r_totalLiquidity d
        = bn_plus B (bn_plus B (r_availableLiquidity d) (r_totalStableDebt d)) (r_totalVariableDebt d)"
  using assms
  by (auto simp: calcExpectedReserveDataAfterBorrow_def Let_def bindR_Inr_iff split: prod.splits if_splits)

lemma repay_reserve:
  assumes "calcExpectedReserveDataAfterRepay B params amount mode before u t now = Inr d"
  shows "r_totalLiquidity d = bn_plus B (bn_plus B (r_availableLiquidity d) (r_totalStableDebt d)) (r_totalVariableDebt d)"
    and "r_variableBorrowIndex d = calcExpectedVariableBorrowIndex B before t"
  using assms
  by (auto simp: calcExpectedReserveDataAfterRepay_def Let_def bindR_Inr_iff split: prod.splits if_splits)

lemma swap_reserve:
  assumes "calcExpectedReserveDataAfterSwapRateMode B params before u mode t = Inr d"
  shows "r_totalLiquidity d = bn_plus B (bn_plus B (r_availableLiquidity d) (r_totalStableDebt d)) (r_totalVariableDebt d)"
    and "r_variableBorrowIndex d = calcExpectedVariableBorrowIndex B before t"
  using assms
  by (auto simp: calcExpectedReserveDataAfterSwapRateMode_def Let_def bindR_Inr_iff split: prod.splits if_splits)

lemma rebalance_reserve:
  assumes "calcExpectedReserveDataAfterStableRateRebalance B params before u t = Inr d"
  shows "r_totalLiquidity d = bn_plus B (bn_plus B (r_availableLiquidity d) (r_totalStableDebt d)) (r_totalVariableDebt d)"
    and "r_availableLiquidity d = r_availableLiquidity before"
    and "r_totalStableDebt d = calcExpectedTotalStableDebt B (r_principalStableDebt before)
      (r_averageStableBorrowRate before) (r_totalStableDebtLastUpdated before) t"
    and "r_totalVariableDebt d = rayMul B (r_scaledVariableDebt before) (calcExpectedVariableBorrowIndex B before t)"
  using assms
  by (auto simp: calcExpectedReserveDataAfterStableRateRebalance_def Let_def bindR_Inr_iff split: prod.splits)

text \<open>
  C19: After every action but a deposit, the expected total liquidity is the available liquidity plus the
  expected stable and variable debts.
\<close>

theorem total_liquidity_consistent:
  assumes "bignumber_int B val"
    and "calcExpectedReserveDataAfterWithdraw B params amount before u t = Inr d
      \<or> calcExpectedReserveDataAfterWithdrawCollateral B params amount before after u t = Inr d
      \<or> calcExpectedReserveDataAfterBorrow B params amount mode before u t now = Inr d
      \<or> calcExpectedReserveDataAfterRepay B params amount mode before u t now = Inr d
      \<or> calcExpectedReserveDataAfterSwapRateMode B params before u mode t = Inr d
      \<or> calcExpectedReserveDataAfterStableRateRebalance B params before u t = Inr d"
    and "denotes val (r_availableLiquidity d) a" "denotes val (r_totalStableDebt d) s"
      "denotes val (r_totalVariableDebt d) v"
  shows "denotes val (r_totalLiquidity d) (a + s + v)"
proof -
  note plus = bignumber_int.denotes_plus [OF assms(1)]
  have "denotes val (bn_plus B (bn_plus B (r_availableLiquidity d) (r_totalStableDebt d)) (r_totalVariableDebt d)) (a + s + v)"
    "denotes val (bn_plus B (bn_plus B (r_availableLiquidity d) (r_totalVariableDebt d)) (r_totalStableDebt d)) (a + v + s)"
    using plus [OF plus [OF assms(3,4)] assms(5)] plus [OF plus [OF assms(3,5)] assms(4)] by simp_all
  moreover have "a + v + s = a + s + v" by simp
  ultimately show ?thesis
    using assms(2) withdraw_reserve(3) withdraw_collateral_reserve borrow_reserve(3) repay_reserve(1)
      swap_reserve(1) rebalance_reserve(1) by metis
qed

section \<open>When an action has an expected state\<close>

lemmas reserve_action_defs = calcExpectedReserveDataAfterDeposit_def calcExpectedReserveDataAfterDepositCollateral_def
  calcExpectedReserveDataAfterWithdraw_def calcExpectedReserveDataAfterWithdrawCollateral_def
  calcExpectedReserveDataAfterBorrow_def calcExpectedReserveDataAfterRepay_def
  calcExpectedReserveDataAfterSwapRateMode_def calcExpectedReserveDataAfterStableRateRebalance_def

lemma actions_run:
  assumes "configured params (r_symbol before)"
  shows "\<exists>d. calcExpectedReserveDataAfterDeposit B params amount before t = Inr d"
    and "\<exists>d. calcExpectedReserveDataAfterDepositCollateral B params amount before after t = Inr d"
    and "\<exists>d. calcExpectedReserveDataAfterWithdraw B params amount before u t = Inr d"
    and "\<exists>d. calcExpectedReserveDataAfterWithdrawCollateral B params amount before after u t = Inr d"
    and "\<exists>d. calcExpectedReserveDataAfterBorrow B params amount mode before u t now = Inr d"
    and "\<exists>d. calcExpectedReserveDataAfterRepay B params amount mode before u t now = Inr d"
    and "\<exists>d. calcExpectedReserveDataAfterSwapRateMode B params before u mode t = Inr d"
    and "\<exists>d. calcExpectedReserveDataAfterStableRateRebalance B params before u t = Inr d"
  unfolding reserve_action_defs Let_def split_beta
  by (auto intro!: bindR_total interest_rates_run [OF assms])

lemma actions_fail:
  assumes "\<not> configured params (r_symbol before)"
  shows "calcExpectedReserveDataAfterDeposit B params amount before t = Inl TypeError"
    and "calcExpectedReserveDataAfterDepositCollateral B params amount before after t = Inl TypeError"
    and "calcExpectedReserveDataAfterWithdraw B params amount before u t = Inl TypeError"
    and "calcExpectedReserveDataAfterWithdrawCollateral B params amount before after u t = Inl TypeError"
    and "calcExpectedReserveDataAfterBorrow B params amount mode before u t now = Inl TypeError"
    and "calcExpectedReserveDataAfterRepay B params amount mode before u t now = Inl TypeError"
    and "calcExpectedReserveDataAfterSwapRateMode B params before u mode t = Inl TypeError"
    and "calcExpectedReserveDataAfterStableRateRebalance B params before u t = Inl TypeError"
  unfolding reserve_action_defs Let_def split_beta
  by (simp_all add: interest_rates_fail [OF assms])

text \<open>
  The expected reserve of every action exists exactly when the reserve's symbol is in the configured
  reserves; otherwise the computation stops with a \<open>TypeError\<close>. No amount, rate mode or timestamp
  makes it fail.
\<close>

theorem actions_defined_iff_configured:
  assumes "R \<in> {calcExpectedReserveDataAfterDeposit B params amount before t,
        calcExpectedReserveDataAfterDepositCollateral B params amount before after t,
        calcExpectedReserveDataAfterWithdraw B params amount before u t,
        calcExpectedReserveDataAfterWithdrawCollateral B params amount before after u t,
        calcExpectedReserveDataAfterBorrow B params amount mode before u t now,
        calcExpectedReserveDataAfterRepay B params amount mode before u t now,
        calcExpectedReserveDataAfterSwapRateMode B params before u mode t,
        calcExpectedReserveDataAfterStableRateRebalance B params before u t}"
  shows "if configured params (r_symbol before) then \<exists>d. R = Inr d else R = Inl TypeError"
proof (cases "configured params (r_symbol before)")
  case True
  then show ?thesis using assms actions_run [OF True] by (elim insertE emptyE) simp_all
next
  case False
  then show ?thesis using assms actions_fail [OF False] by (elim insertE emptyE) simp_all
qed

lemma sample_values:
  "u_scaledATokenBalance sample_U = 100" "u_scaledVariableDebt sample_U = 50" "u_currentATokenBalance sample_U = 100"
  "r_scaledVariableDebt sample_R = 500" "r_totalVariableDebt sample_R = 500" "r_utilizationRate sample_R = 7 * 10 ^ 26"
  "r_averageStableBorrowRate sample_R = 10 ^ 26" "r_variableBorrowIndex sample_R = 10 ^ 27"
  by (simp_all add: sample_U_def sample_R_def)

lemma sample_configured [simp]: "configured sample_params (r_symbol (lift_reserve sample_R))"
  by (simp add: configured_def sample_params_def obj_get_def lift_reserve_def sample_R_def)

lemma not_configured_empty [simp]: "\<not> configured [] symb"
  by (simp add: configured_def obj_get_def split: option.splits)

theorem actions_defined_iff_configured_witness:
  "(\<exists>d. calcExpectedReserveDataAfterDeposit scenario_bn sample_params ''5'' (lift_reserve sample_R) (Some 5000) = Inr d)
   \<and> calcExpectedReserveDataAfterDeposit scenario_bn [] ''5'' (lift_reserve sample_R) (Some 5000) = Inl TypeError"
  using actions_defined_iff_configured [OF insertI1, where B = scenario_bn and params = sample_params
        and amount = "''5''" and before = "lift_reserve sample_R" and t = "Some 5000"]
    actions_defined_iff_configured [OF insertI1, where B = scenario_bn and params = "[]"
        and amount = "''5''" and before = "lift_reserve sample_R" and t = "Some 5000"]
  by simp

theorem total_liquidity_consistent_witness:
  "\<exists>d s v. calcExpectedReserveDataAfterStableRateRebalance scenario_bn sample_params (lift_reserve sample_R)
      (lift_user sample_U) (Some 5000) = Inr d
    \<and> denotes id (r_totalStableDebt d) s \<and> denotes id (r_totalVariableDebt d) v
    \<and> denotes id (r_totalLiquidity d) (300 + s + v)"
proof -
  obtain d where d: "calcExpectedReserveDataAfterStableRateRebalance scenario_bn sample_params (lift_reserve sample_R)
      (lift_user sample_U) (Some 5000) = Inr d"
    using actions_run(8) [OF sample_configured] by blast
  note r = rebalance_reserve [OF d] and R = lift_reserve_denotes [of sample_R]
  have t: "denotes id (Some 5000) 5000" by (simp add: denotes_def)
  have s: "denotes id (r_totalStableDebt d) (stable_total_at sample_R 5000)"
    unfolding r(3) by (rule scenario.denotes_stable_total [OF R t])
  have v: "denotes id (r_totalVariableDebt d) (ray_mul 500 (variable_index_at sample_R 5000))"
    unfolding r(4) by (rule scenario.denotes_rayMul [OF _ scenario.denotes_variable_index [OF R t]])
      (simp add: denotes_def lift_reserve_def sample_R_def)
  have a: "denotes id (r_availableLiquidity d) 300"
    unfolding r(2) by (simp add: denotes_def lift_reserve_def sample_R_def)
  show ?thesis
    using total_liquidity_consistent [OF scenario_bignumber_int _ a s v] d s v by blast
qed

section \<open>Deposits and withdrawals\<close>

lemma deposit_reserve:
  assumes "calcExpectedReserveDataAfterDeposit B params amount before t = Inr d"
  shows "r_totalLiquidity d = bn_plus B (r_totalLiquidity before) (bn_parse B amount)"
    and "r_availableLiquidity d = bn_plus B (r_availableLiquidity before) (bn_parse B amount)"
    and "r_totalStableDebt d = calcExpectedTotalStableDebt B (r_principalStableDebt before)
      (r_averageStableBorrowRate before) (r_totalStableDebtLastUpdated before) t"
    and "r_totalVariableDebt d
      = calcExpectedTotalVariableDebt B before (calcExpectedVariableBorrowIndex B before t)"
    and "r_liquidityIndex d = calcExpectedLiquidityIndex B before t"
  using assms
  by (auto simp: calcExpectedReserveDataAfterDeposit_def Let_def bindR_Inr_iff split: prod.splits)



lemma MAX_UINT_AMOUNT_dec: "MAX_UINT_AMOUNT = dec (2 ^ 256 - 1)"
  using numeral_dec [of MAX_UINT_AMOUNT "2 ^ 256 - 1"]
  by (simp add: MAX_UINT_AMOUNT_def char_digit_def upt_rec)

lemma withdraw_user:
  fixes B :: "'b bn_api"
  shows "u_scaledATokenBalance (calcExpectedUserDataAfterWithdraw B MAX_UINT_AMOUNT before after u t)
      = calcExpectedScaledATokenBalance B u (r_liquidityIndex after) (bn_of B 0)
          (bn_parse B (bn_toFixed0 B (calcExpectedATokenBalance B before u t)))"
    and "u_currentATokenBalance (calcExpectedUserDataAfterWithdraw B MAX_UINT_AMOUNT before after u t)
      = bn_minus B (calcExpectedATokenBalance B before u t)
          (bn_parse B (bn_toFixed0 B (calcExpectedATokenBalance B before u t)))"
    and "u_walletBalance (calcExpectedUserDataAfterWithdraw B MAX_UINT_AMOUNT before after u t)
      = bn_plus B (u_walletBalance u) (bn_parse B (bn_toFixed0 B (calcExpectedATokenBalance B before u t)))"
    and "u_usageAsCollateralEnabled (calcExpectedUserDataAfterWithdraw B MAX_UINT_AMOUNT before after u t) =
      (if bn_eq B (u_currentATokenBalance u) (bn_of B 0) then True
       else if bn_eq B (bn_minus B (calcExpectedATokenBalance B before u t)
           (bn_parse B (bn_toFixed0 B (calcExpectedATokenBalance B before u t)))) (bn_of B 0) then False
       else u_usageAsCollateralEnabled u)"
  by (simp_all add: calcExpectedUserDataAfterWithdraw_def Let_def)

lemma withdraw_all_effect:
  assumes "bignumber_int B val" "reserve_denotes val before R" "user_denotes val u U" "denotes val t now"
    and "reserve_ok R now" "0 \<le> u_scaledATokenBalance U"
    and "r_utilizationRate R = 0 \<longrightarrow> r_liquidityRate R = 0"
    and "calcExpectedReserveDataAfterWithdraw B params MAX_UINT_AMOUNT before u t = Inr after"
  defines "u' \<equiv> calcExpectedUserDataAfterWithdraw B MAX_UINT_AMOUNT before after u t"
  shows "denotes val (u_scaledATokenBalance u') 0 \<and> denotes val (u_currentATokenBalance u') 0
    \<and> (\<exists>b. denotes val (calcExpectedATokenBalance B before u t) b
          \<and> denotes val (u_walletBalance u') (u_walletBalance U + b)
          \<and> denotes val (r_availableLiquidity after) (r_availableLiquidity R - b))
    \<and> u_usageAsCollateralEnabled u' = (u_currentATokenBalance U = 0)"
proof -
  note fixed = bignumber_int.toFixed0_dec [OF assms(1)] bignumber_int.toFixed_dec [OF assms(1)]
  note parse = bignumber_int.denotes_parse [OF assms(1)]
  let ?i = "income_at R now" and ?b = "ray_mul (u_scaledATokenBalance U) (income_at R now)"
  have i: "RAY \<le> ?i" "?i \<noteq> 0" "0 < ?i"
    using income_at_ge [OF assms(5)] reserve_okD(1) [OF assms(5)] constants_pos(5) by auto
  have b: "denotes val (calcExpectedATokenBalance B before u t) ?b"
    by (rule bignumber_int.denotes_aToken [OF assms(1-4)])
  have ix: "denotes val (r_liquidityIndex after) ?i"
    using bignumber_int.denotes_liquidity_index [OF assms(1,2,4)] withdraw_reserve(1) [OF assms(8)]
      liquidity_index_income [OF reserve_okD(3) [OF assms(5)] assms(7), of now] by simp
  have "denotes val (u_scaledATokenBalance u') (scaled_balance_spec (u_scaledATokenBalance U) ?i 0 ?b)"
    unfolding u'_def withdraw_user fixed(1) [OF b]
    by (rule bignumber_int.denotes_scaled_balance [OF assms(1) _ bignumber_int.denotes_of [OF assms(1)] parse ix i(2)])
      (use user_denotesD [OF assms(3)] in simp)
  then have "denotes val (u_scaledATokenBalance u') 0"
    using i by (simp add: scaled_balance_spec_def ray_div_ray_mul [OF assms(6) i(1)])
  moreover have zero: "denotes val (bn_minus B (calcExpectedATokenBalance B before u t) (bn_parse B (dec ?b))) 0"
    using bignumber_int.denotes_minus [OF assms(1) b parse [of ?b]] by simp
  moreover have "denotes val (u_walletBalance u') (u_walletBalance U + ?b)"
    unfolding u'_def withdraw_user fixed(1) [OF b] using user_denotesD [OF assms(3)]
    by (intro bignumber_int.denotes_plus [OF assms(1)] parse) simp
  moreover have "denotes val (r_availableLiquidity after) (r_availableLiquidity R - ?b)"
    unfolding withdraw_reserve(2) [OF assms(8)] using reserve_denotesD [OF assms(2)] parse [of ?b]
    by (intro bignumber_int.denotes_minus [OF assms(1)]) (simp_all add: fixed(2) [OF b])
  moreover have "bn_eq B (u_currentATokenBalance u) (bn_of B 0) \<longleftrightarrow> u_currentATokenBalance U = 0"
    using user_denotesD [OF assms(3)] by (intro bignumber_int.eq_iff [OF assms(1)] bignumber_int.denotes_of [OF assms(1)]) simp
  ultimately show ?thesis
    using b bignumber_int.eq_iff [OF assms(1) zero bignumber_int.denotes_of [OF assms(1)], of 0]
    unfolding u'_def withdraw_user fixed(1) [OF b] by auto
qed

text \<open>
  C5: Withdrawing everything leaves nothing behind. With the reserve the withdrawal itself leaves, the
  expected scaled balance and balance are exactly 0 (scaling the balance up and back down loses
  nothing), the wallet gets the whole balance, and the reserve is no longer collateral unless the
  user held nothing to begin with.
\<close>

theorem withdraw_all_clears:
  assumes "bignumber_int B val" "reserve_denotes val before R" "user_denotes val u U" "denotes val t now"
    and "reserve_ok R now" "0 \<le> u_scaledATokenBalance U"
    and "r_utilizationRate R = 0 \<longrightarrow> r_liquidityRate R = 0"
    and "calcExpectedReserveDataAfterWithdraw B params MAX_UINT_AMOUNT before u t = Inr after"
  defines "u' \<equiv> calcExpectedUserDataAfterWithdraw B MAX_UINT_AMOUNT before after u t"
  shows "denotes val (u_scaledATokenBalance u') 0 \<and> denotes val (u_currentATokenBalance u') 0
    \<and> (\<exists>b. denotes val (calcExpectedATokenBalance B before u t) b
          \<and> denotes val (u_walletBalance u') (u_walletBalance U + b)
          \<and> denotes val (r_availableLiquidity after) (r_availableLiquidity R - b))
    \<and> u_usageAsCollateralEnabled u' = (u_currentATokenBalance U = 0)"
  unfolding u'_def by (rule withdraw_all_effect [OF assms(1-8)])

theorem withdraw_all_clears_witness:
  "\<exists>after. calcExpectedReserveDataAfterWithdraw scenario_bn sample_params MAX_UINT_AMOUNT (lift_reserve sample_R)
      (lift_user sample_U) (Some 5000) = Inr after
    \<and> denotes id (u_scaledATokenBalance (calcExpectedUserDataAfterWithdraw scenario_bn MAX_UINT_AMOUNT
        (lift_reserve sample_R) after (lift_user sample_U) (Some 5000))) 0"
proof -
  obtain after where a: "calcExpectedReserveDataAfterWithdraw scenario_bn sample_params MAX_UINT_AMOUNT
      (lift_reserve sample_R) (lift_user sample_U) (Some 5000) = Inr after"
    using actions_run(3) [OF sample_configured] by blast
  show ?thesis
    using withdraw_all_clears [OF scenario_bignumber_int lift_reserve_denotes lift_user_denotes _ _ _ _ a, of 5000] a
    by (simp add: denotes_def sample_U_def sample_R_def reserve_ok_def RAY_def)
qed

text \<open>
  C17: A deposit followed by a withdrawal of the same amount at the same liquidity index restores the
  user's scaled balance and wallet exactly, whatever the index and the amount.
\<close>

theorem deposit_withdraw_restores:
  fixes B :: "'b bn_api" and cfg before1 before2 t1 t2 symb
  assumes "bignumber_int B val" "user_denotes val u U"
    and "denotes val (r_liquidityIndex after1) i" "denotes val (r_liquidityIndex after2) i" "0 < i"
    and "n \<noteq> 2 ^ 256 - 1"
  defines "u1 \<equiv> calcExpectedUserDataAfterDeposit B cfg (dec n) before1 after1 u t1 symb"
  defines "u2 \<equiv> calcExpectedUserDataAfterWithdraw B (dec n) before2 after2 u1 t2"
  shows "denotes val (u_scaledATokenBalance u1) (u_scaledATokenBalance U + ray_div n i)
    \<and> denotes val (u_walletBalance u1) (u_walletBalance U - n)
    \<and> denotes val (u_scaledATokenBalance u2) (u_scaledATokenBalance U)
    \<and> denotes val (u_walletBalance u2) (u_walletBalance U)"
proof -
  note U = user_denotesD [OF assms(2)] and of_rule = bignumber_int.denotes_of [OF assms(1)]
    and parse = bignumber_int.denotes_parse [OF assms(1)]
  have amount: "dec n \<noteq> MAX_UINT_AMOUNT" using assms(6) by (simp add: MAX_UINT_AMOUNT_dec)
  have d0: "ray_div 0 i = 0" "i \<noteq> 0" using assms(5) by simp_all
  have s1: "denotes val (u_scaledATokenBalance u1) (u_scaledATokenBalance U + ray_div n i)"
    using bignumber_int.denotes_scaled_balance [OF assms(1) _ parse of_rule assms(3) d0(2), of u _ n 0] U d0
    by (simp add: u1_def calcExpectedUserDataAfterDeposit_def Let_def scaled_balance_spec_def)
  have w1: "denotes val (u_walletBalance u1) (u_walletBalance U - n)"
    using bignumber_int.denotes_minus [OF assms(1) _ parse, of "u_walletBalance u"] U
    by (simp add: u1_def calcExpectedUserDataAfterDeposit_def Let_def)
  have s2: "denotes val (u_scaledATokenBalance u2) (u_scaledATokenBalance U)"
    using bignumber_int.denotes_scaled_balance [OF assms(1) s1 of_rule parse assms(4) d0(2), of 0 n] d0 amount
    by (simp add: u2_def calcExpectedUserDataAfterWithdraw_def Let_def scaled_balance_spec_def)
  have "denotes val (u_walletBalance u2) (u_walletBalance U)"
    using bignumber_int.denotes_plus [OF assms(1) w1 parse, of n] amount
    by (simp add: u2_def calcExpectedUserDataAfterWithdraw_def Let_def)
  with s1 w1 s2 show ?thesis by simp
qed

theorem deposit_withdraw_restores_witness:
  "denotes id (u_scaledATokenBalance
     (calcExpectedUserDataAfterWithdraw scenario_bn (dec 50) (lift_reserve sample_R) (lift_reserve sample_R)
       (calcExpectedUserDataAfterDeposit scenario_bn sample_params (dec 50) (lift_reserve sample_R)
         (lift_reserve sample_R) (lift_user sample_U) (Some 5000) ''DAI'') (Some 5000))) 100"
  using deposit_withdraw_restores [OF scenario_bignumber_int lift_user_denotes, where ?after1.0 = "lift_reserve sample_R"
      and ?after2.0 = "lift_reserve sample_R" and i = "10 ^ 27" and n = 50 and U = sample_U]
  by (simp add: denotes_def lift_reserve_def sample_R_def sample_U_def)

text \<open>
  C18: A collateral position is kept in units of one ray: depositing an amount adds exactly that amount to
  the balance, and withdrawing everything afterwards returns the whole balance, leaves 0 and clears
  the collateral flag.
\<close>

theorem collateral_deposit_withdraw_all:
  fixes B :: "'b bn_api" and cfg before1 before2 after1 after2 t1 t2 symb
  assumes "bignumber_int B val" "user_denotes val u U" "0 \<le> u_scaledATokenBalance U" "0 < n"
  defines "u1 \<equiv> calcExpectedUserDataAfterDepositCollateral B cfg (dec n) before1 after1 u t1 symb"
  defines "u2 \<equiv> calcExpectedUserDataAfterWithdrawCollateral B MAX_UINT_AMOUNT before2 after2 u1 t2"
  shows "denotes val (u_currentATokenBalance u1) (u_scaledATokenBalance U + n)
    \<and> denotes val (u_currentATokenBalance u2) 0
    \<and> denotes val (u_walletBalance u2) (u_walletBalance U + u_scaledATokenBalance U)
    \<and> \<not> u_usageAsCollateralEnabled u2"
proof -
  note U = user_denotesD [OF assms(2)] and of_rule = bignumber_int.denotes_of [OF assms(1)]
    and parse = bignumber_int.denotes_parse [OF assms(1)] and eq = bignumber_int.eq_iff [OF assms(1)]
  let ?b = "u_scaledATokenBalance U + n"
  have ray: "1000000000000000000000000000 = RAY" "RAY \<noteq> 0" by (simp_all add: RAY_def)
  have s1: "denotes val (u_scaledATokenBalance u1) ?b" and c1: "u_currentATokenBalance u1 = u_scaledATokenBalance u1"
    using bignumber_int.denotes_scaled_balance [OF assms(1) _ parse of_rule of_rule ray(2), of u _ n 0] U assms(4)
    by (simp_all add: u1_def calcExpectedUserDataAfterDepositCollateral_def Let_def scaled_balance_spec_def ray constants_pos)
  have w1: "denotes val (u_walletBalance u1) (u_walletBalance U - n)"
    using bignumber_int.denotes_minus [OF assms(1) _ parse, of "u_walletBalance u"] U
    by (simp add: u1_def calcExpectedUserDataAfterDepositCollateral_def Let_def)
  note fix0 = bignumber_int.toFixed0_dec [OF assms(1) s1]
  have s2: "denotes val (u_scaledATokenBalance u2) 0" and c2: "u_currentATokenBalance u2 = u_scaledATokenBalance u2"
    using bignumber_int.denotes_scaled_balance [OF assms(1) s1 of_rule parse of_rule ray(2), of 0 ?b] assms(3,4)
    by (simp_all add: u2_def calcExpectedUserDataAfterWithdrawCollateral_def Let_def scaled_balance_spec_def ray
        constants_pos fix0)
  have w2: "denotes val (u_walletBalance u2) (u_walletBalance U + u_scaledATokenBalance U)"
    using bignumber_int.denotes_plus [OF assms(1) w1 parse, of ?b]
    by (simp add: u2_def calcExpectedUserDataAfterWithdrawCollateral_def Let_def fix0)
  have "\<not> bn_eq B (u_currentATokenBalance u1) (bn_of B 0)"
    using eq [OF s1 of_rule, of 0] c1 assms(3,4) by simp
  moreover have "bn_eq B (u_currentATokenBalance u2) (bn_of B 0)"
    using eq [OF s2 of_rule, of 0] c2 by simp
  ultimately have "\<not> u_usageAsCollateralEnabled u2"
    by (auto simp: u2_def calcExpectedUserDataAfterWithdrawCollateral_def Let_def)
  with s1 c1 s2 c2 w2 show ?thesis by simp
qed

theorem collateral_deposit_withdraw_all_witness:
  "\<not> u_usageAsCollateralEnabled
     (calcExpectedUserDataAfterWithdrawCollateral scenario_bn MAX_UINT_AMOUNT (lift_reserve sample_R) (lift_reserve sample_R)
       (calcExpectedUserDataAfterDepositCollateral scenario_bn sample_params (dec 50) (lift_reserve sample_R)
         (lift_reserve sample_R) (lift_user sample_U) (Some 5000) ''DAI'') (Some 5000))"
  using collateral_deposit_withdraw_all [OF scenario_bignumber_int lift_user_denotes, where U = sample_U and n = 50]
  by (simp add: sample_U_def)

text \<open>
  A deposit leaves the user's debts as accrued, except that the chained assignment overwrites the
  principal of the stable debt with the variable debt: the expected principal differs from the
  stable debt whenever the two debts do.
\<close>

theorem deposit_overwrites_principal:
  fixes B :: "'b bn_api" and cfg amount after symb
  assumes "bignumber_int B val" "reserve_denotes val before R" "user_denotes val u U" "denotes val t now"
  defines "u1 \<equiv> calcExpectedUserDataAfterDeposit B cfg amount before after u t symb"
  defines "u2 \<equiv> calcExpectedUserDataAfterDepositCollateral B cfg amount before after u t symb"
  shows "\<exists>s v. denotes val (u_currentStableDebt u1) s \<and> denotes val (u_currentVariableDebt u1) v
    \<and> denotes val (u_currentStableDebt u2) s \<and> denotes val (u_currentVariableDebt u2) v
    \<and> s = user_stable_debt_at U now \<and> v = ray_mul (u_scaledVariableDebt U) (debt_at R now)
    \<and> denotes val (u_principalStableDebt u1) v \<and> denotes val (u_principalStableDebt u2) v
    \<and> (denotes val (u_principalStableDebt u1) s \<longleftrightarrow> s = v)"
proof -
  have s: "denotes val (u_currentStableDebt u1) (user_stable_debt_at U now)"
    "denotes val (u_currentStableDebt u2) (user_stable_debt_at U now)"
    using bignumber_int.denotes_user_stable_debt [OF assms(1,3,4)]
    by (simp_all add: u1_def u2_def calcExpectedUserDataAfterDeposit_def
        calcExpectedUserDataAfterDepositCollateral_def Let_def)
  have v: "denotes val (u_currentVariableDebt u1) (ray_mul (u_scaledVariableDebt U) (debt_at R now))"
    "denotes val (u_currentVariableDebt u2) (ray_mul (u_scaledVariableDebt U) (debt_at R now))"
    "u_principalStableDebt u1 = u_currentVariableDebt u1" "u_principalStableDebt u2 = u_currentVariableDebt u2"
    using bignumber_int.denotes_variable_debt [OF assms(1-4)]
    by (simp_all add: u1_def u2_def calcExpectedUserDataAfterDeposit_def
        calcExpectedUserDataAfterDepositCollateral_def Let_def)
  show ?thesis using s v by (metis denotes_unique)
qed

theorem deposit_overwrites_principal_witness:
  "\<not> denotes id (u_principalStableDebt (calcExpectedUserDataAfterDeposit scenario_bn sample_params (dec 5)
      (lift_reserve sample_R) (lift_reserve sample_R) (lift_user sample_U) (Some 1000) ''DAI''))
      (user_stable_debt_at sample_U 1000)"
proof -
  have ray: "RAY = 1000000000000000000000000000" by (simp add: RAY_def)
  have "user_stable_debt_at sample_U 1000 = 20" "ray_mul (u_scaledVariableDebt sample_U) (debt_at sample_R 1000) = 50"
    by (simp_all add: user_stable_debt_at_def stable_balance_spec_def sample_U_def debt_at_def sample_R_def
        ray_mul_RAY(1) [of 50, unfolded ray] ray)
  then show ?thesis
    using deposit_overwrites_principal [OF scenario_bignumber_int lift_reserve_denotes lift_user_denotes,
        where t = "Some 1000" and now = 1000 and cfg = sample_params and amount = "dec 5" and R = sample_R
          and after = "lift_reserve sample_R" and U = sample_U and symb = "''DAI''"]
    by (auto simp: denotes_def)
qed

section \<open>Repayments\<close>

lemma zero_dec: "''0'' = dec 0"
  by (simp add: dec_def dec_nat_small digit_char_def)

lemma repays_all:
  assumes "bignumber_int B val"
  shows "bn_eq B (bn_abs B (bn_parse B MAX_UINT_AMOUNT)) (bn_parse B MAX_UINT_AMOUNT)"
  using bignumber_int.eq_iff [OF assms bignumber_int.denotes_abs [OF assms bignumber_int.denotes_parse [OF assms]]
      bignumber_int.denotes_parse [OF assms], of "2 ^ 256 - 1" "2 ^ 256 - 1"]
  by (simp add: MAX_UINT_AMOUNT_dec)

lemma mode_distinct [simp]: "rate_mode_value Variable \<noteq> rate_mode_value Stable"
  by simp

lemma repay_variable_reserve:
  assumes "bignumber_int B val"
    and "calcExpectedReserveDataAfterRepay B params MAX_UINT_AMOUNT (rate_mode_value Variable) before u t now = Inr d"
  shows "r_availableLiquidity d = bn_plus B (r_availableLiquidity before) (calcExpectedVariableDebtTokenBalance B before u t)"
    and "r_scaledVariableDebt d = bn_minus B (r_scaledVariableDebt before)
      (rayDiv B (calcExpectedVariableDebtTokenBalance B before u t) (calcExpectedVariableBorrowIndex B before t))"
  using assms(2) repays_all [OF assms(1)]
  by (auto simp: calcExpectedReserveDataAfterRepay_def Let_def bindR_Inr_iff split: prod.splits)

text \<open>
  C6: Repaying everything at the variable rate clears the position: computed against the reserve the
  repayment leaves, the scaled and the current variable debt are exactly 0, the payer's wallet and
  the available liquidity move by the whole debt, and the reserve's scaled debt falls by the user's.
\<close>

theorem repay_variable_all_clears:
  fixes B :: "'b bn_api" and onBehalfOf :: string
  assumes "bignumber_int B val" "reserve_denotes val before R" "user_denotes val u U" "denotes val t now"
    and "reserve_ok R now" "0 \<le> u_scaledVariableDebt U"
    and "r_totalVariableDebt R = 0 \<longrightarrow> r_variableBorrowRate R = 0"
    and "calcExpectedReserveDataAfterRepay B params MAX_UINT_AMOUNT (rate_mode_value Variable) before u t t = Inr after"
  defines "u' \<equiv> calcExpectedUserDataAfterRepay B MAX_UINT_AMOUNT (rate_mode_value Variable) before after u onBehalfOf
      onBehalfOf t t"
  shows "\<exists>debt. denotes val (calcExpectedVariableDebtTokenBalance B before u t) debt
    \<and> denotes val (u_scaledVariableDebt u') 0 \<and> denotes val (u_currentVariableDebt u') 0
    \<and> denotes val (u_walletBalance u') (u_walletBalance U - debt)
    \<and> denotes val (r_availableLiquidity after) (r_availableLiquidity R + debt)
    \<and> denotes val (r_scaledVariableDebt after) (r_scaledVariableDebt R - u_scaledVariableDebt U)"
proof -
  let ?i = "debt_at R now" and ?d = "ray_mul (u_scaledVariableDebt U) (debt_at R now)"
  note U = user_denotesD [OF assms(3)] and R = reserve_denotesD [OF assms(2)]
  note sub = bignumber_int.denotes_minus [OF assms(1)] and add = bignumber_int.denotes_plus [OF assms(1)]
    and dv = bignumber_int.denotes_rayDiv [OF assms(1)] and mul = bignumber_int.denotes_rayMul [OF assms(1)]
  note res = repay_variable_reserve [OF assms(1,8)]
  have i: "RAY \<le> ?i" "?i \<noteq> 0"
    using debt_at_ge [OF assms(5)] reserve_okD(2) [OF assms(5)] constants_pos(5) by auto
  have undo: "ray_div ?d ?i = u_scaledVariableDebt U" by (rule ray_div_ray_mul [OF assms(6) i(1)])
  have d: "denotes val (calcExpectedVariableDebtTokenBalance B before u t) ?d"
    by (rule bignumber_int.denotes_variable_debt [OF assms(1-4)])
  have ix: "denotes val (calcExpectedVariableBorrowIndex B before t) ?i"
    using bignumber_int.denotes_variable_index [OF assms(1,2,4)]
      variable_index_debt [OF reserve_okD(4) [OF assms(5)] assms(7), of now] by simp
  have scaled: "denotes val (u_scaledVariableDebt u') 0"
    using sub [OF _ dv [OF d ix i(2)], of "u_scaledVariableDebt u" "u_scaledVariableDebt U"] U
    unfolding undo u'_def calcExpectedUserDataAfterRepay_def Let_def repay_reserve(2) [OF assms(8)]
    by (simp add: repays_all [OF assms(1)])
  moreover have "denotes val (u_currentVariableDebt u') 0"
  proof -
    have "u_currentVariableDebt u' = rayMul B (u_scaledVariableDebt u') (calcExpectedVariableBorrowIndex B before t)"
      by (simp add: u'_def calcExpectedUserDataAfterRepay_def Let_def repay_reserve(2) [OF assms(8)])
    then show ?thesis using mul [OF scaled ix] by (simp add: half_less)
  qed
  moreover have "denotes val (u_walletBalance u') (u_walletBalance U - ?d)"
    using sub [OF _ d, of "u_walletBalance u"] U
    by (simp add: u'_def calcExpectedUserDataAfterRepay_def Let_def repays_all [OF assms(1)])
  moreover have "denotes val (r_availableLiquidity after) (r_availableLiquidity R + ?d)"
    unfolding res using add [OF _ d] R by simp
  moreover have "denotes val (r_scaledVariableDebt after) (r_scaledVariableDebt R - u_scaledVariableDebt U)"
    unfolding res using sub [OF _ dv [OF d ix i(2)]] R undo by simp
  ultimately show ?thesis using d by blast
qed

theorem repay_variable_all_clears_witness:
  "\<exists>after. calcExpectedReserveDataAfterRepay scenario_bn sample_params MAX_UINT_AMOUNT ''2'' (lift_reserve sample_R)
      (lift_user sample_U) (Some 5000) (Some 5000) = Inr after
    \<and> denotes id (r_scaledVariableDebt after) 450"
proof -
  obtain after where a: "calcExpectedReserveDataAfterRepay scenario_bn sample_params MAX_UINT_AMOUNT ''2''
      (lift_reserve sample_R) (lift_user sample_U) (Some 5000) (Some 5000) = Inr after"
    using actions_run(6) [OF sample_configured] by blast
  show ?thesis
    using repay_variable_all_clears [OF scenario_bignumber_int lift_reserve_denotes lift_user_denotes,
        of "Some 5000" 5000 sample_R sample_U sample_params after] a
    by (fastforce simp: denotes_def sample_values)
qed

text \<open>
  Repaying everything at the stable rate leaves the user a stable debt of 0 and resets the stable
  rate and its timestamp to 0, whatever the rate and the elapsed time were; the variable debt is the
  accrued one.
\<close>

theorem repay_stable_all_clears:
  fixes B :: "'b bn_api" and after t and onBehalfOf :: string
  assumes "bignumber_int B val" "reserve_denotes val before R" "user_denotes val u U" "denotes val t' now"
  defines "u' \<equiv> calcExpectedUserDataAfterRepay B MAX_UINT_AMOUNT (rate_mode_value Stable) before after u onBehalfOf
      onBehalfOf t t'"
  shows "denotes val (u_currentStableDebt u') 0 \<and> denotes val (u_principalStableDebt u') 0
    \<and> denotes val (u_stableBorrowRate u') 0 \<and> denotes val (u_stableRateLastUpdated u') 0
    \<and> denotes val (u_currentVariableDebt u') (ray_mul (u_scaledVariableDebt U) (debt_at R now))
    \<and> denotes val (u_walletBalance u') (u_walletBalance U - user_stable_debt_at U now)"
proof -
  note U = user_denotesD [OF assms(3)] and parse = bignumber_int.denotes_parse [OF assms(1)]
  note s = bignumber_int.denotes_user_stable_debt [OF assms(1,3,4)]
  have zero: "denotes val (bn_minus B
      (calcExpectedStableDebtTokenBalance B (u_principalStableDebt u) (u_stableBorrowRate u) (u_stableRateLastUpdated u) t')
      (calcExpectedStableDebtTokenBalance B (u_principalStableDebt u) (u_stableBorrowRate u) (u_stableRateLastUpdated u) t')) 0"
    using bignumber_int.denotes_minus [OF assms(1) s s] by simp
  have eq: "bn_eq B (bn_minus B
      (calcExpectedStableDebtTokenBalance B (u_principalStableDebt u) (u_stableBorrowRate u) (u_stableRateLastUpdated u) t')
      (calcExpectedStableDebtTokenBalance B (u_principalStableDebt u) (u_stableBorrowRate u) (u_stableRateLastUpdated u) t'))
      (bn_parse B (dec 0))"
    using bignumber_int.eq_iff [OF assms(1) zero parse, of 0] by simp
  show ?thesis
    using zero eq parse [of 0] U bignumber_int.denotes_variable_debt [OF assms(1-4)]
      bignumber_int.denotes_minus [OF assms(1) _ s, of "u_walletBalance u"]
    by (simp add: u'_def calcExpectedUserDataAfterRepay_def Let_def repays_all [OF assms(1)] zero_dec
        del: rate_mode_value.simps)
qed

theorem repay_stable_all_clears_witness:
  "denotes id (u_stableBorrowRate (calcExpectedUserDataAfterRepay scenario_bn MAX_UINT_AMOUNT (rate_mode_value Stable)
     (lift_reserve sample_R) (lift_reserve sample_R) (lift_user sample_U) ''a'' ''a'' (Some 5000) (Some 5001))) 0"
  using repay_stable_all_clears [OF scenario_bignumber_int lift_reserve_denotes lift_user_denotes,
      where t' = "Some 5001" and now = 5001 and after = "lift_reserve sample_R" and onBehalfOf = "''a''" and t = "Some 5000"]
  by (simp add: denotes_def)

lemma repay_stable_reserve:
  assumes "calcExpectedReserveDataAfterRepay B params amount (rate_mode_value Stable) before u t now = Inr d"
    and "\<not> bn_eq B (bn_abs B (bn_parse B amount)) (bn_parse B MAX_UINT_AMOUNT)"
  shows "(r_principalStableDebt d, r_totalStableDebt d, r_averageStableBorrowRate d) =
    repay_stable_totals B before u
      (calcExpectedTotalStableDebt B (r_principalStableDebt before) (r_averageStableBorrowRate before)
        (r_totalStableDebtLastUpdated before) t) (bn_parse B amount)"
  using assms
  by (auto simp: calcExpectedReserveDataAfterRepay_def Let_def bindR_Inr_iff split: prod.splits)

text \<open>The three results of the clamping, as integers.\<close>

definition repay_clamp :: "int \<Rightarrow> int \<Rightarrow> int \<Rightarrow> int \<Rightarrow> int \<times> int" where
  "repay_clamp avg debt amount rate =
     (let a = average_rate_spec avg debt (- amount) rate
      in if debt < amount \<or> a < 0 then (0, 0) else (debt - amount, a))"

lemma denotes_repay_totals:
  assumes "bignumber_int B val"
    and "denotes val (r_averageStableBorrowRate before) avg" "denotes val (u_stableBorrowRate u) rate"
    and "denotes val x debt" "denotes val y amount"
    and "repay_stable_totals B before u x y = (p, s, a)"
  shows "denotes val p (fst (repay_clamp avg debt amount rate)) \<and> denotes val s (fst (repay_clamp avg debt amount rate))
    \<and> denotes val a (snd (repay_clamp avg debt amount rate))"
proof -
  let ?z = "bn_minus B x y"
  let ?a = "calcExpectedAverageStableBorrowRate B (r_averageStableBorrowRate before) x (bn_negated B y) (u_stableBorrowRate u)"
  note of_rule = bignumber_int.denotes_of [OF assms(1)]
  have z: "denotes val ?z (debt - amount)" by (rule bignumber_int.denotes_minus [OF assms(1,4,5)])
  have a: "denotes val ?a (average_rate_spec avg debt (- amount) rate)"
    by (rule bignumber_int.denotes_average_rate [OF assms(1,2,4) bignumber_int.denotes_negated [OF assms(1,5)] assms(3)])
  have lt: "bn_lt B ?z (bn_of B 0) \<longleftrightarrow> debt < amount" "bn_lt B ?a (bn_of B 0) \<longleftrightarrow> average_rate_spec avg debt (- amount) rate < 0"
    using bignumber_int.lt_iff [OF assms(1) z of_rule, of 0] bignumber_int.lt_iff [OF assms(1) a of_rule, of 0] by simp_all
  show ?thesis
    using assms(6) z a of_rule [of 0]
    by (auto simp: repay_stable_totals_def repay_clamp_def Let_def lt split: if_splits)
qed



section \<open>Swapping the rate mode\<close>

lemma swap_stable_reserve:
  assumes "calcExpectedReserveDataAfterSwapRateMode B params before u (rate_mode_value Stable) t = Inr d"
  shows "r_totalStableDebt d = bn_minus B
      (calcExpectedTotalStableDebt B (r_principalStableDebt before) (r_averageStableBorrowRate before)
        (r_totalStableDebtLastUpdated before) t)
      (calcExpectedStableDebtTokenBalance B (u_principalStableDebt u) (u_stableBorrowRate u) (u_stableRateLastUpdated u) t)"
    and "r_totalVariableDebt d = rayMul B (bn_plus B (r_scaledVariableDebt before)
      (rayDiv B (calcExpectedStableDebtTokenBalance B (u_principalStableDebt u) (u_stableBorrowRate u)
        (u_stableRateLastUpdated u) t) (calcExpectedVariableBorrowIndex B before t)))
      (calcExpectedVariableBorrowIndex B before t)"
  using assms
  by (auto simp: calcExpectedReserveDataAfterSwapRateMode_def Let_def bindR_Inr_iff split: prod.splits)

text \<open>Adding an amount to a scaled total adds it to the total up to one unit, below an index of two rays.\<close>

lemma scaled_add_error:
  assumes "0 \<le> a" "0 \<le> m" "RAY \<le> i" "i < 2 * RAY"
  shows "\<bar>ray_mul (a + ray_div m i) i - (ray_mul a i + m)\<bar> \<le> 1"
proof -
  have i: "0 < i" "0 \<le> i" using assms constants_pos(5) by simp_all
  define q where "q = ray_div m i"
  have q: "0 \<le> q" unfolding q_def using assms i by (simp add: div_spec_ge0)
  let ?x = "ray_mul (a + q) i" and ?y = "ray_mul a i"
  have "\<bar>2 * (?x * RAY - (a + q) * i)\<bar> \<le> RAY" "\<bar>2 * (?y * RAY - a * i)\<bar> \<le> RAY"
    using assms i q by (intro ray_mul_error; simp)+
  moreover have "\<bar>2 * (q * i - m * RAY)\<bar> \<le> i" unfolding q_def using assms i by (intro ray_div_error)
  moreover have "2 * ((?x - ?y - m) * RAY) =
      2 * (?x * RAY - (a + q) * i) - 2 * (?y * RAY - a * i) + 2 * (q * i - m * RAY)"
    by (simp add: algebra_simps)
  ultimately have "\<bar>2 * ((?x - ?y - m) * RAY)\<bar> < 4 * RAY" using assms(4) by linarith
  then have "\<bar>?x - ?y - m\<bar> * RAY < 2 * RAY" by (simp add: abs_mult mult.commute)
  then have "\<bar>?x - ?y - m\<bar> < 2" using constants_pos(5) by simp
  then show ?thesis by (simp add: q_def algebra_simps)
qed

text \<open>
  C16: Swapping a stable loan to the variable mode moves debt without creating or losing any: the
  reserve's stable and variable debts after the swap add up to the accrued debts before it, to within
  one unit, as long as the borrow index is below two rays.
\<close>

theorem swap_conserves_debt:
  assumes "bignumber_int B val" "reserve_denotes val before R" "user_denotes val u U" "denotes val t now"
    and "reserve_ok R now" "0 \<le> user_stable_debt_at U now" "variable_index_at R now < 2 * RAY"
    and "calcExpectedReserveDataAfterSwapRateMode B params before u (rate_mode_value Stable) t = Inr d"
  shows "\<exists>s v. denotes val (r_totalStableDebt d) s \<and> denotes val (r_totalVariableDebt d) v
    \<and> s = stable_total_at R now - user_stable_debt_at U now
    \<and> \<bar>(s + v) - (stable_total_at R now + ray_mul (r_scaledVariableDebt R) (variable_index_at R now))\<bar> \<le> 1"
proof -
  let ?i = "variable_index_at R now" and ?m = "user_stable_debt_at U now"
  note ix = bignumber_int.denotes_variable_index [OF assms(1,2,4)]
    and m = bignumber_int.denotes_user_stable_debt [OF assms(1,3,4)]
  have i: "RAY \<le> ?i" "?i \<noteq> 0"
    using variable_index_ge [OF assms(5)] reserve_okD(2) [OF assms(5)] constants_pos(5) by auto
  have s: "denotes val (r_totalStableDebt d) (stable_total_at R now - ?m)"
    unfolding swap_stable_reserve(1) [OF assms(8)]
    by (rule bignumber_int.denotes_minus [OF assms(1) bignumber_int.denotes_stable_total [OF assms(1,2,4)] m])
  have v: "denotes val (r_totalVariableDebt d) (ray_mul (r_scaledVariableDebt R + ray_div ?m ?i) ?i)"
    unfolding swap_stable_reserve(2) [OF assms(8)]
    by (intro bignumber_int.denotes_rayMul [OF assms(1)] bignumber_int.denotes_plus [OF assms(1)]
        bignumber_int.denotes_rayDiv [OF assms(1)] ix m i(2)) (use reserve_denotesD [OF assms(2)] in simp)
  have "\<bar>ray_mul (r_scaledVariableDebt R + ray_div ?m ?i) ?i - (ray_mul (r_scaledVariableDebt R) ?i + ?m)\<bar> \<le> 1"
    by (rule scaled_add_error [OF reserve_okD(9) [OF assms(5)] assms(6) i(1) assms(7)])
  then have "\<bar>stable_total_at R now - ?m + ray_mul (r_scaledVariableDebt R + ray_div ?m ?i) ?i
      - (stable_total_at R now + ray_mul (r_scaledVariableDebt R) ?i)\<bar> \<le> 1" by (simp add: algebra_simps)
  then show ?thesis using s v by blast
qed

lemma sample_variable_index: "variable_index_at sample_R 1000 = 10 ^ 27" "user_stable_debt_at sample_U 1000 = 20"
  by (simp_all add: variable_index_at_def sample_R_def user_stable_debt_at_def stable_balance_spec_def sample_U_def
      ray_mul_RAY)

theorem swap_conserves_debt_witness:
  "\<exists>d s v. calcExpectedReserveDataAfterSwapRateMode scenario_bn sample_params (lift_reserve sample_R)
      (lift_user sample_U) (rate_mode_value Stable) (Some 1000) = Inr d
    \<and> denotes id (r_totalStableDebt d) s \<and> denotes id (r_totalVariableDebt d) v
    \<and> \<bar>(s + v) - (stable_total_at sample_R 1000 + ray_mul 500 (10 ^ 27))\<bar> \<le> 1"
proof -
  obtain d where d: "calcExpectedReserveDataAfterSwapRateMode scenario_bn sample_params (lift_reserve sample_R)
      (lift_user sample_U) (rate_mode_value Stable) (Some 1000) = Inr d"
    using actions_run(7) [OF sample_configured] by blast
  then show ?thesis
    using swap_conserves_debt [OF scenario_bignumber_int lift_reserve_denotes lift_user_denotes _ _ _ _ d, of 1000]
    by (auto simp: denotes_def sample_variable_index sample_values RAY_def)
qed

end
