(* ===== verification/ScenarioRuns.thy ===== *)
theory ScenarioRuns
  imports SuiteLog Scenarios
begin

text \<open>
  What a run of the scenario engine establishes: the state the suites read adds up, a comparison accepts
  exactly the states within three units of the expected one, and a passing withdrawal of everything leaves
  the user nothing. A small fork, where one withdrawal can be made, is the concrete suite of the examples.
\<close>

section \<open>A small fork\<close>

text \<open>
  A fork of Fantom with one DAI reserve that nobody borrows and one user, whose state is whether the
  user's aTokens have been withdrawn: before, the user holds 400 of the 1000 units the reserve has.
\<close>

definition fork_view :: "bool \<Rightarrow> string \<Rightarrow> js_val" where
  "fork_view withdrawn meth =
     (let aTokens = (if withdrawn then 0 else 400) in
      if meth = ''getReserveData'' then
        VObj [(''availableLiquidity'', VNum (600 + aTokens)), (''totalStableDebt'', VNum 0), (''totalVariableDebt'', VNum 0),
          (''liquidityRate'', VNum 0), (''variableBorrowRate'', VNum 0), (''stableBorrowRate'', VNum 0),
          (''averageStableBorrowRate'', VNum 0), (''liquidityIndex'', VNum (10 ^ 27)),
          (''variableBorrowIndex'', VNum (10 ^ 27)), (''lastUpdateTimestamp'', VNum 1000)]
      else if meth = ''getReserveTokensAddresses'' then
        VObj [(''aTokenAddress'', VStr ''0xa''), (''stableDebtTokenAddress'', VStr ''0xs''),
          (''variableDebtTokenAddress'', VStr ''0xv'')]
      else if meth = ''getUserReserveData'' then
        VObj [(''currentATokenBalance'', VNum aTokens), (''currentStableDebt'', VNum 0), (''currentVariableDebt'', VNum 0),
          (''principalStableDebt'', VNum 0), (''scaledVariableDebt'', VNum 0), (''stableBorrowRate'', VNum 0),
          (''liquidityRate'', VNum 0), (''usageAsCollateralEnabled'', VBool (\<not> withdrawn)), (''stableRateLastUpdated'', VNum 0)]
      else if meth = ''scaledBalanceOf'' then VNum aTokens
      else if meth = ''balanceOf'' then VNum (400 - aTokens)
      else if meth = ''getSupplyData'' then VObj [(''0'', VNum 0)]
      else if meth = ''symbol'' then VStr ''DAI''
      else if meth = ''decimals'' then VNum 18
      else if meth = ''getTotalSupplyLastUpdated'' then VNum 1000
      else VNum 0)"

definition fork_runtime :: "bool runtime" where
  "fork_runtime =
     \<lparr>network_name = ''ftm'', env_FORK = None, env_TENDERLY = None, env_DEFENDER = None, env_ETHERSCAN_KEY = None,
      rt_getSigners = (\<lambda>x. (Inr [''0xowner''], x)), rt_getSigner = (\<lambda>a x. (Inr a, x)), rt_getBalance = (\<lambda>a x. (Inr 0, x)),
      rt_impersonate = (\<lambda>a x. (Inr (), x)),
      rt_deploy = (\<lambda>F libs signer args x. (Inl (Rejected ''no''), x)),
      rt_deployBytecode = (\<lambda>abi bytecode signer x. (Inl (Rejected ''no''), x)),
      rt_deployByName = (\<lambda>cid signer args x. (Inl (Rejected ''no''), x)),
      rt_buidlerReadArtifact = (\<lambda>cid x. (Inl (Rejected ''no''), x)), rt_readArtifact = (\<lambda>cid x. (Inl (Rejected ''no''), x)),
      rt_send = (\<lambda>c meth args x. (Inr ''0xhash'', x \<or> meth = ''withdraw'')), rt_wait = (\<lambda>h x. (Inr (), x)),
      rt_call = (\<lambda>c meth args x. (Inr (fork_view x meth), x)),
      rt_tenderlyVerify = (\<lambda>cid a x. (Inr (), x)), rt_tempFile = (\<lambda>args x. (Inr [], x)), rt_cleanup = (\<lambda>path x. x),
      rt_run = (\<lambda>task params x. (Inr (), x))\<rparr>"

definition fork_suite :: "(bool, rat option) suite" where
  "fork_suite =
     \<lparr>suite_rt = fork_runtime,
      suite_node =
        \<lparr>node_wait = (\<lambda>h x. (Inr \<lparr>receipt_blockNumber = Some 7, receipt_transactionHash = Some h,
           receipt_cumulativeGasUsed = Some 21000\<rparr>, x)),
         node_getBlockNumber = (\<lambda>x. (Inr 7, x)), node_getBlock = (\<lambda>number x. (Inr (Some 1000), x)),
         node_gasPrice = (\<lambda>h x. (Inr (Some 1), x)), node_request = (\<lambda>meth args x. (Inr VUndef, x)),
         ethers_parseUnits = (\<lambda>amount decimals. Inr 5), waffle_reverted = (\<lambda>e. e \<noteq> TypeError),
         waffle_revertedWith = (\<lambda>msg e. e = Rejected msg)\<rparr>,
      suite_bn = scenario_bn, skipIntegrityCheck = False, reservesParams = [(''DAI'', fantom_strategyDAI)]\<rparr>"

definition fork_env :: TestEnv where
  "fork_env = \<lparr>users = [\<lparr>signer = ''0xu0'', signer_address = ''0xu0''\<rparr>], pool = attach ''LendingPoolFactory'' ''0xpool'' None,
     helpersContract = attach ''SturdyProtocolDataProviderFactory'' ''0xhelper'' None,
     usdc = attach ''SwapinERC20Factory'' ''0xusdc'' None, dai = attach ''MintableERC20Factory'' ''0xdai'' None,
     WFTM = attach ''MintableERC20Factory'' ''0xwftm'' None, yearnVault = attach ''YearnVaultFactory'' ''0xvault'' None\<rparr>"

definition fork_world :: "bool world" where
  "fork_world = \<lparr>network_state = False, deployed_contracts =
     [(''LendingRateOracle'', [(''ftm'', \<lparr>entry_address = ''0xrates'', entry_deployer = None\<rparr>)])]\<rparr>"

definition logged_world :: "'x world \<Rightarrow> ('x \<times> tx list) world" where
  "logged_world w = \<lparr>network_state = (network_state w, []), deployed_contracts = deployed_contracts w\<rparr>"

lemmas fork_defs = fork_suite_def logged_suite_def logged_node_def logged_def fork_runtime_def beside_def
  fork_env_def logged_world_def fork_world_def

lemmas run_defs = await_def lift_result_def return_io_def on_network_def throw_io_def call_def send_def transact_def
  getFirstSigner_def getEthersSigners_def usingDefender_def recordedAddress_def connect_def attach_def js_at_def
  js_toString_def deref_def db_get_def

lemma parse0: "parseInt ''0'' = Some 0" by code_simp

lemma mint_run:
  "executeAction (logged_suite fork_suite) (scenario_action ''mint'' [(''reserve'', ''DAI''), (''amount'', ''1000''), (''user'', ''0'')] ''success'' None)
     (users fork_env) fork_env (logged_world fork_world)
   = (Inr (), logged_world fork_world\<lparr>network_state := (False, [\<lparr>tx_from = Some ''0x6Bf97f2534be2242dDb3A29bfb24d498212DcdED'',
        tx_to = ''0xdai'', tx_method = ''transfer'', tx_args = [VStr ''0xu0'', VNum 5]\<rparr>])\<rparr>)"
  by (simp add: executeAction_def check_action_def scenario_action_def require_arg_def truthy_string_def obj_get_def
      user_at_def parse0 dispatchAction_def Let_def mint_def convertToCurrencyDecimals_def getIErc20Detailed_def
      impersonateAccountsHardhat_def fork_view_def tx_of_def run_defs fork_defs)


definition dai_address :: string where
  "dai_address = ''0x8D11eC38a3EB5E956B052f67Da8Bdc9bef8Abf3E''"

definition fork_R :: "bool \<Rightarrow> int ReserveData" where
  "fork_R withdrawn = \<lparr>r_address = Some dai_address, r_symbol = Some ''DAI'', r_decimals = 18,
     r_totalLiquidity = (if withdrawn then 600 else 1000), r_availableLiquidity = (if withdrawn then 600 else 1000),
     r_totalStableDebt = 0, r_totalVariableDebt = 0,
     r_principalStableDebt = 0, r_scaledVariableDebt = 0, r_averageStableBorrowRate = 0,
     r_variableBorrowRate = 0, r_stableBorrowRate = 0, r_utilizationRate = 0,
     r_liquidityIndex = 10 ^ 27, r_variableBorrowIndex = 10 ^ 27, r_aTokenAddress = Some ''0xa'',
     r_marketStableRate = 0, r_lastUpdateTimestamp = 1000, r_totalStableDebtLastUpdated = 1000,
     r_liquidityRate = 0\<rparr>"

lemma bn_simps: "bn_parse scenario_bn (dec n) = Some (of_int n)" "bn_of scenario_bn n = Some (of_int n)"
  "bn_plus scenario_bn (Some a) (Some b) = Some (a + b)" "bn_eq scenario_bn (Some a) (Some b) = (a = b)"
  "bn_minus scenario_bn (Some a) (Some b) = Some (a - b)" "bn_times scenario_bn (Some a) (Some b) = Some (a * b)"
  by (simp_all add: std_bn_def parse_num_dec lift2_def cmp2_def)

lemma rayDiv0: "0 < n \<Longrightarrow> rayDiv scenario_bn (Some 0) (Some (of_int n)) = Some 0"
  using bignumber_int.denotes_rayDiv [OF scenario_bignumber_int, of "Some 0" 0 "Some (of_int n)" n]
  by (simp add: denotes_def ray_div_zero)

lemma reserve_run:
  assumes "deployed_contracts w = deployed_contracts fork_world"
  shows "getReserveData (logged_suite fork_suite) (helpersContract fork_env) dai_address (w :: (bool \<times> tx list) world)
   = (Inr (lift_reserve (fork_R (fst (network_state w)))), w)"
  using assms rayDiv0 [of 1000] rayDiv0 [of 600]
  by (cases "network_state w"; cases "fst (network_state w)")
    (simp_all add: getReserveData_def Let_def getLendingRateOracle_def getIErc20Detailed_def getStableDebtToken_def
     getVariableDebtToken_def fork_view_def js_field_def obj_get_def opt_string_def field_number_def new_BigNumber_def
     run_defs fork_defs db_lookup_def bn_simps lift_reserve_def fork_R_def dai_address_def del: std_bn_def)

definition fork_U :: "bool \<Rightarrow> rat option UserReserveData" where
  "fork_U withdrawn = (empty_UserReserveData scenario_bn)
     \<lparr>u_scaledATokenBalance := Some (if withdrawn then 0 else 400), u_currentATokenBalance := Some (if withdrawn then 0 else 400),
      u_currentStableDebt := Some 0,
      u_currentVariableDebt := Some 0, u_principalStableDebt := Some 0, u_scaledVariableDebt := Some 0,
      u_stableBorrowRate := Some 0, u_liquidityRate := Some 0, u_usageAsCollateralEnabled := \<not> withdrawn,
      u_stableRateLastUpdated := Some 0, u_walletBalance := Some (if withdrawn then 400 else 0)\<rparr>"

lemma aTokens_ops:
  "rayMul scenario_bn (Some 400) (Some (10 ^ 27)) = Some 400" "rayDiv scenario_bn (Some 400) (Some (10 ^ 27)) = Some 400"
proof -
  have n: "denotes id (Some 400 :: rat option) 400" "denotes id (Some (10 ^ 27) :: rat option) (10 ^ 27)" by (simp_all add: denotes_def)
  have "ray_mul 400 (10 ^ 27) = 400" "ray_div 400 (10 ^ 27) = 400" by (simp_all add: mul_spec_def div_spec_def RAY_def HALF_RAY_def)
  then show "rayMul scenario_bn (Some 400) (Some (10 ^ 27)) = Some 400" "rayDiv scenario_bn (Some 400) (Some (10 ^ 27)) = Some 400"
    using bignumber_int.denotes_rayMul [OF scenario_bignumber_int n] bignumber_int.denotes_rayDiv [OF scenario_bignumber_int n]
    by (simp_all add: denotes_def)
qed

lemma zero_ops:
  "rayMul scenario_bn (Some 0) (Some x) = Some 0" "rayMul scenario_bn (Some x) (Some 0) = Some 0"
  "percentMul scenario_bn (Some 0) (Some x) = Some 0"
  by (simp_all add: rayMul_def percentMul_def halfRay_def halfPercentage_def std_bn_def lift2_def RAY_def PERCENTAGE_FACTOR_def
     HALF_RAY_def HALF_PERCENTAGE_def truncate_rat_def
     floor_unique)

lemma literals: "parse_num ''0'' = Some 0" "parse_num ''1000'' = Some 1000"
  by code_simp+

lemma parse_literals: "bn_parse scenario_bn ''0'' = Some 0" "bn_parse scenario_bn ''1000'' = Some 1000"
  by (simp_all add: std_bn_def literals)

lemma gt_bn: "bn_gt scenario_bn (Some a) (Some b) = (b < a)" "bn_lt scenario_bn (Some a) (Some b) = (a < b)"
  by (simp_all add: std_bn_def cmp2_def)

lemma fork_rates: "calcExpectedInterestRates scenario_bn [(''DAI'', fantom_strategyDAI)] (Some ''DAI'') (Some 0) (Some 0) (Some 0) (Some 0) (Some 0)
  = Inr (Some 0, Some 0, Some 0)"
proof -
  have entry: "js_at [(''DAI'', fantom_strategyDAI)] (findIndex (\<lambda>v. v = ''DAI'') (obj_keys [(''DAI'', fantom_strategyDAI)])) = Some (''DAI'', fantom_strategyDAI)"
    by (simp add: entries_at_findIndex obj_get_def)
  have "rayDiv scenario_bn (Some 0) (Some (of_int (9 * RAY div 10))) = Some 0" by (rule rayDiv0) (simp add: RAY_def)
  moreover have "\<not> of_int (9 * RAY div 10) < (0 :: rat)" by (simp add: RAY_def)
  ultimately show ?thesis
    unfolding calcExpectedInterestRates_def Let_def option.inject entry
    by (simp add: deref_def fantom_strategyDAI_def fantom_rateStrategyStableTwo_def
       bn_simps parse_literals calcExpectedOverallBorrowRate_def zero_ops gt_bn)
qed


definition fork_after :: "rat option ReserveData" where
  "fork_after = (empty_ReserveData scenario_bn)
     \<lparr>r_address := Some dai_address, r_availableLiquidity := Some 600, r_principalStableDebt := Some 0,
      r_scaledVariableDebt := Some 0, r_liquidityIndex := Some (10 ^ 27), r_variableBorrowIndex := Some (10 ^ 27),
      r_totalStableDebt := Some 0, r_totalVariableDebt := Some 0, r_averageStableBorrowRate := Some 0,
      r_totalLiquidity := Some 600, r_utilizationRate := Some 0, r_liquidityRate := Some 0,
      r_stableBorrowRate := Some 0, r_variableBorrowRate := Some 0\<rparr>"

lemma bn_print: "bn_parse scenario_bn (bn_toFixed scenario_bn (Some 400)) = Some 400"
  "bn_parse scenario_bn (bn_toFixed0 scenario_bn (Some 400)) = Some 400"
  using scenario.toFixed_dec [of "Some 400" 400] scenario.toFixed0_dec [of "Some 400" 400]
  by (simp_all add: denotes_def bn_simps)

lemma fork_withdraw: "calcExpectedReserveDataAfterWithdraw scenario_bn [(''DAI'', fantom_strategyDAI)] MAX_UINT_AMOUNT
    (lift_reserve (fork_R False)) (fork_U False) (Some 1000) = Inr fork_after"
  by (simp add: calcExpectedReserveDataAfterWithdraw_def calcExpectedATokenBalance_def calcExpectedReserveNormalizedIncome_def
    calcExpectedLiquidityIndex_def calcExpectedVariableBorrowIndex_def calcExpectedTotalStableDebt_def calcCompoundedInterest_def
    calcExpectedUtilizationRate_def lift_reserve_def fork_R_def fork_U_def bn_print parse_literals fork_after_def aTokens_ops [simplified]
    zero_ops bn_simps fork_rates Let_def)

lemma fork_withdraw_user: "calcExpectedUserDataAfterWithdraw scenario_bn MAX_UINT_AMOUNT (lift_reserve (fork_R False)) fork_after
    (fork_U False) (Some 1000) = fork_U True"
  by (simp add: calcExpectedUserDataAfterWithdraw_def calcExpectedATokenBalance_def calcExpectedReserveNormalizedIncome_def
    calcExpectedScaledATokenBalance_def calcExpectedStableDebtTokenBalance_def calcExpectedVariableDebtTokenBalance_def
    calcExpectedReserveNormalizedDebt_def empty_UserReserveData_def
    lift_reserve_def fork_R_def fork_U_def bn_print parse_literals fork_after_def aTokens_ops [simplified]
    zero_ops bn_simps Let_def rayDiv0 [of "10 ^ 27", simplified])

lemma fantom_assets:
  obtains assets where "getParamPerNetwork None (ReserveAssets FantomConfig) ''ftm'' = Some assets"
    "obj_get assets ''DAI'' = Some dai_address" "obj_get assets ''yvWFTM'' \<noteq> Some dai_address"
  by (rule that [of "snd (hd fantom_ReserveAssets)"])
    (simp_all add: FantomConfig_def fantom_ReserveAssets_def getParamPerNetwork_def obj_get_def dai_address_def truthy_string_def)

lemma fantom_WFTM:
  "\<exists>v. \<forall>rt :: 'x runtime. env_FORK rt = None \<longrightarrow> networkParam rt FantomConfig ''WFTM'' ''ftm'' = Inr v"
  by (simp add: networkParam_def deref_def Fantom_params fantom_addresses_def fantom_common_contracts_def fantom_common_tokens_def)

lemma load_Fantom: "loadPoolConfig ''Fantom'' = Inr FantomConfig"
  by (simp add: loadPoolConfig_def)

lemma dai_known: "truthy_string (Some dai_address)" "dai_address \<noteq> []"
  by (simp_all add: truthy_string_def dai_address_def)

lemma user_run:
  "getUserData (logged_suite fork_suite) (helpersContract fork_env) dai_address ''0xu0'' (Some ''0xu0'') (w :: (bool \<times> tx list) world)
   = (Inr (fork_U (fst (network_state w))), w)"
proof -
  obtain assets where assets: "getParamPerNetwork None (ReserveAssets FantomConfig) ''ftm'' = Some assets"
    "obj_get assets ''yvWFTM'' \<noteq> Some dai_address" by (rule fantom_assets)
  obtain v where wftm: "\<And>rt :: (bool \<times> tx list) runtime. env_FORK rt = None \<Longrightarrow> networkParam rt FantomConfig ''WFTM'' ''ftm'' = Inr v"
    using fantom_WFTM [where 'x = "bool \<times> tx list"] by blast
  show ?thesis
    by (cases "network_state w"; cases "fst (network_state w)")
      (simp_all add: getUserData_def Let_def getATokenUserData_def getAToken_def getMintableERC20_def load_Fantom assets wftm
        fork_view_def js_field_def obj_get_def [of "_ # _"] opt_string_def truthy_string_def
        field_number_def new_BigNumber_def run_defs fork_defs bn_simps dai_known fork_U_def js_truthy_def parse_literals)
qed

lemma address_run:
  "getReserveAddressFromSymbol (logged_suite fork_suite) ''DAI'' (w :: (bool \<times> tx list) world) = (Inr dai_address, w)"
proof -
  obtain assets where assets: "getParamPerNetwork None (ReserveAssets FantomConfig) ''ftm'' = Some assets"
    "obj_get assets ''DAI'' = Some dai_address" by (rule fantom_assets)
  then show ?thesis
    by (simp add: getReserveAddressFromSymbol_def getMintableERC20_def load_Fantom Let_def run_defs fork_defs dai_known)
qed

definition fork_user :: SignerWithAddress where
  "fork_user = \<lparr>signer = ''0xu0'', signer_address = ''0xu0''\<rparr>"

lemma contracts_run:
  "deployed_contracts w = deployed_contracts fork_world \<Longrightarrow>
   getContractsData (logged_suite fork_suite) dai_address ''0xu0'' fork_env None (w :: (bool \<times> tx list) world)
     = (Inr (lift_reserve (fork_R (fst (network_state w))), fork_U (fst (network_state w)), Some 1000), w)"
  using user_run [of w] reserve_run [of w]
  by (simp add: getContractsData_def await_def timeLatest_def on_network_def lift_result_def deref_def return_io_def
    truthy_string_def new_BigNumber_def bn_simps  logged_suite_def fork_suite_def logged_node_def beside_def)


definition withdrawal :: tx where
  "withdrawal = \<lparr>tx_from = Some ''0xu0'', tx_to = ''0xpool'', tx_method = ''withdraw'',
     tx_args = [VStr dai_address, VStr MAX_UINT_AMOUNT, VStr ''0xu0'']\<rparr>"

lemma sent_run:
  "transact (logged_suite fork_suite) (connect (pool fork_env) ''0xu0'') meth args (w :: (bool \<times> tx list) world)
   = (Inr \<lparr>receipt_blockNumber = Some 7, receipt_transactionHash = Some ''0xhash'', receipt_cumulativeGasUsed = Some 21000\<rparr>,
      w\<lparr>network_state := (fst (network_state w) \<or> meth = ''withdraw'', snd (network_state w) @ [\<lparr>tx_from = Some ''0xu0'', tx_to = ''0xpool'', tx_method = meth, tx_args = args\<rparr>])\<rparr>)"
  by (cases "network_state w") (simp add: run_defs fork_defs tx_of_def)

lemma cost_run:
  "getTxCostAndTimestamp (logged_suite fork_suite)
     \<lparr>receipt_blockNumber = Some 7, receipt_transactionHash = Some ''0xhash'', receipt_cumulativeGasUsed = Some 21000\<rparr>
     (w :: (bool \<times> tx list) world) = (Inr (Some 21000, Some 1000), w)"
  by (simp add: getTxCostAndTimestamp_def Let_def run_defs fork_defs bn_simps)

lemma suite_parts: "suite_bn (logged_suite S) = suite_bn S" "skipIntegrityCheck (logged_suite S) = skipIntegrityCheck S"
  by (simp_all add: logged_suite_def)

lemma fork_expect:
  "expect_reserve (logged_suite fork_suite) (lift_reserve (fork_R True)) fork_after w = (Inr (), w)"
  "expect_user (logged_suite fork_suite) (fork_U True) (fork_U True) w = (Inr (), w)"
proof -
  have parts: "suite_bn fork_suite = scenario_bn" "\<not> skipIntegrityCheck fork_suite" by (simp_all add: fork_suite_def)
  have undef: "id (bn_undef scenario_bn) = None" by (simp add: std_bn_def)
  have "almostEqualOrEqual scenario_bn (reserve_object scenario_bn fork_after) (reserve_object scenario_bn (lift_reserve (fork_R True))) = Inr ()"
    by (subst scenario.reserve_comparison [OF undef, where xs = "[600, 0, 600, 0, 0, 0, 0, 0, 0, 10 ^ 27, 10 ^ 27, 0, 0]"
        and ys = "[600, 0, 600, 0, 0, 0, 0, 0, 0, 10 ^ 27, 10 ^ 27, 0, 0]" and s = dai_address])
      (simp_all add: reserve_numbers_def fork_after_def lift_reserve_def fork_R_def denotes_def)
  moreover have "almostEqualOrEqual scenario_bn (user_object scenario_bn (fork_U True)) (user_object scenario_bn (fork_U True)) = Inr ()"
    by (subst scenario.user_comparison [OF undef, where xs = "[0, 0, 0, 0, 0, 0, 0, 0, 0, 400]"
        and ys = "[0, 0, 0, 0, 0, 0, 0, 0, 0, 400]"])
      (simp_all add: user_numbers_def fork_U_def denotes_def)
  ultimately show "expect_reserve (logged_suite fork_suite) (lift_reserve (fork_R True)) fork_after w = (Inr (), w)"
    "expect_user (logged_suite fork_suite) (fork_U True) (fork_U True) w = (Inr (), w)"
    by (simp_all add: expect_reserve_def expect_user_def expectEqual_def lift_result_def suite_parts parts)
qed

lemma fork_token:
  "getAToken (suite_rt (logged_suite fork_suite)) (r_aTokenAddress (lift_reserve (fork_R s))) (w :: (bool \<times> tx list) world)
   = (Inr (attach ''ATokenFactory'' ''0xa'' (Some ''0xowner'')), w)"
  by (simp add: getAToken_def lift_reserve_def fork_R_def run_defs fork_defs)

lemma withdraw_run:
  "withdraw (logged_suite fork_suite) ''DAI'' ''-1'' (Some fork_user) ''success'' fork_env None (logged_world fork_world)
     = (Inr (), logged_world fork_world\<lparr>network_state := (True, [withdrawal])\<rparr>)"
proof -
  have parts: "suite_bn (logged_suite fork_suite) = scenario_bn" "reservesParams (logged_suite fork_suite) = [(''DAI'', fantom_strategyDAI)]"
     "deployed_contracts (logged_world fork_world) = deployed_contracts fork_world" "network_state (logged_world fork_world) = (False, [])"
     "signer_address fork_user = ''0xu0''" "signer fork_user = ''0xu0''"
    by (simp_all add: fork_defs fork_user_def)
  show ?thesis
    by (simp add: withdraw_def getDataBeforeAction_def await_def lift_result_def deref_def return_io_def parts address_run contracts_run
        fork_token amount_or_max_def Let_def sent_run cost_run fork_withdraw fork_withdraw_user fork_expect withdrawal_def)
qed

section \<open>Reading a reserve\<close>

lemma getReserveData_totals:
  assumes "suite_bn S = B" "getReserveData S helper reserve w = (Inr r, w')"
  shows "r_totalLiquidity r = bn_plus (B) (bn_plus (B) (r_availableLiquidity r) (r_totalStableDebt r)) (r_totalVariableDebt r)
    \<and> r_utilizationRate r = (if bn_eq (B) (r_totalLiquidity r) (bn_of (B) 0) then bn_of (B) 0
         else rayDiv (B) (bn_plus (B) (r_totalStableDebt r) (r_totalVariableDebt r)) (r_totalLiquidity r))
    \<and> r_address r = Some reserve"
  using assms(2) unfolding getReserveData_def Let_def assms(1) await_eq_Inr return_io_eq
  by (elim exE conjE) (simp only: sum.inject ReserveData.select_convs simp_thms)

context bignumber_int
begin

lemma reserve_data_totals:
  assumes "suite_bn S = B" "getReserveData S helper reserve w = (Inr r, w')"
    and "denotes val (r_availableLiquidity r) a" "denotes val (r_totalStableDebt r) s" "denotes val (r_totalVariableDebt r) v"
    and "0 \<le> a" "0 \<le> s" "0 \<le> v"
  shows "denotes val (r_totalLiquidity r) (a + s + v) \<and> r_address r = Some reserve
    \<and> (\<exists>u. denotes val (r_utilizationRate r) u \<and> 0 \<le> u \<and> u \<le> RAY
         \<and> denotes val (calcExpectedUtilizationRate B (r_totalStableDebt r) (r_totalVariableDebt r)
              (r_totalLiquidity r)) u)"
proof -
  let ?u = "utilization_spec s v (a + s + v)"
  note r = getReserveData_totals [OF assms(1,2)]
  have total: "denotes val (r_totalLiquidity r) (a + s + v)"
    using r assms(3-5) by (simp add: denotes_plus)
  have zero: "bn_eq (B) (r_totalLiquidity r) (bn_of (B) 0) \<longleftrightarrow> a + s + v = 0"
    by (rule eq_iff [OF total denotes_of])
  have util: "denotes val (r_utilizationRate r) ?u"
  proof (cases "a + s + v = 0")
    case True
    with r zero assms(6-) show ?thesis by (simp add: utilization_spec_def denotes_of)
  next
    case False
    then have "denotes val (r_utilizationRate r) (ray_div (s + v) (a + s + v))"
      using r zero assms(4,5) total by (auto intro: denotes_rayDiv denotes_plus)
    with False assms(6-) show ?thesis by (auto simp: utilization_spec_def)
  qed
  have "denotes val (calcExpectedUtilizationRate (B) (r_totalStableDebt r) (r_totalVariableDebt r) (r_totalLiquidity r)) ?u"
  proof (cases "a + s + v = 0")
    case True
    with assms have "s = 0" "v = 0" by auto
    with eq_iff [OF assms(4) denotes_of [of 0]] eq_iff [OF assms(5) denotes_of [of 0]] show ?thesis
      by (simp add: calcExpectedUtilizationRate_def utilization_spec_def denotes_of)
  qed (rule denotes_utilization [OF assms(4,5) total])
  with total r util utilization_bounds [of s v "a + s + v"] assms(6-) show ?thesis by auto
qed


end

text \<open>
  C11: What the suites read of a reserve is consistent, so it can be the start of their calculations: the
  total liquidity is the available liquidity and the two debts, the utilization rate is the one
  \<open>calcExpectedUtilizationRate\<close> computes from the same totals, a fraction of a ray, and the address is
  the one that was asked for.
\<close>
theorem reserve_data_adds_up:
  assumes "bignumber_int (suite_bn S) val" "getReserveData S helper reserve w = (Inr r, w')"
    and "denotes val (r_availableLiquidity r) a" "denotes val (r_totalStableDebt r) s" "denotes val (r_totalVariableDebt r) v"
    and "0 \<le> a" "0 \<le> s" "0 \<le> v"
  shows "denotes val (r_totalLiquidity r) (a + s + v) \<and> r_address r = Some reserve
    \<and> (\<exists>u. denotes val (r_utilizationRate r) u \<and> 0 \<le> u \<and> u \<le> RAY
         \<and> denotes val (calcExpectedUtilizationRate (suite_bn S) (r_totalStableDebt r) (r_totalVariableDebt r)
              (r_totalLiquidity r)) u)"
  by (rule bignumber_int.reserve_data_totals [OF assms(1) refl assms(2-)])


theorem reserve_data_adds_up_witness:
  "\<exists>r. getReserveData (logged_suite fork_suite) (helpersContract fork_env) dai_address (logged_world fork_world)
      = (Inr r, logged_world fork_world)
    \<and> denotes id (r_totalLiquidity r) 1000 \<and> r_address r = Some dai_address"
proof -
  have run: "getReserveData (logged_suite fork_suite) (helpersContract fork_env) dai_address (logged_world fork_world)
      = (Inr (lift_reserve (fork_R False)), logged_world fork_world)"
    using reserve_run [of "logged_world fork_world"] by (simp add: logged_world_def fork_world_def)
  have "bignumber_int (suite_bn (logged_suite fork_suite)) id"
    using scenario_bignumber_int by (simp add: suite_parts fork_suite_def)
  from reserve_data_adds_up [OF this run, of 1000 0 0] show ?thesis
    using run by (auto simp: denotes_def lift_reserve_def fork_R_def)
qed

section \<open>Sending\<close>


section \<open>Comparisons\<close>

context bignumber_int
begin

text \<open>One number of a passing comparison.\<close>

lemma compared_number:
  assumes "val (bn_undef B) = None" "compare_keys B expected actual = Inr ()"
    and "(key, num_prop B x) \<in> set actual" "obj_get expected key = Some (num_prop B y)" "key \<notin> accessory"
    and "denotes val x m" "denotes val y n"
  shows "\<bar>m - n\<bar> \<le> 3"
proof -
  have "compare_key B expected (key, PNum x) = Inr ()"
    using assms(2,3) num_prop_denotes [OF assms(1,6)] by (auto simp: compare_keys_Inr)
  with assms(4,5) num_prop_denotes [OF assms(1,7)] have "close_values B (bn_dp0 B x) (bn_dp0 B y)"
    by (auto simp: compare_number)
  then show ?thesis using close_values_iff [OF denotes_dp0 [OF assms(6)] denotes_dp0 [OF assms(7)]] by simp
qed

lemma compared_user:
  assumes "val (bn_undef B) = None" "almostEqualOrEqual B (user_object B expected) (user_object B actual) = Inr ()"
    and "denotes val (u_scaledATokenBalance actual) s" "denotes val (u_scaledATokenBalance expected) s'"
    and "denotes val (u_currentATokenBalance actual) c" "denotes val (u_currentATokenBalance expected) c'"
  shows "\<bar>s - s'\<bar> \<le> 3 \<and> \<bar>c - c'\<bar> \<le> 3 \<and> u_usageAsCollateralEnabled actual = u_usageAsCollateralEnabled expected"
proof (intro conjI)
  note passed = assms(2) [unfolded almostEqualOrEqual_def]
  show "\<bar>s - s'\<bar> \<le> 3"
    by (rule compared_number [OF assms(1) passed _ _ _ assms(3,4), of "''scaledATokenBalance''"])
      (simp_all add: user_object_def obj_get_def accessory_def)
  show "\<bar>c - c'\<bar> \<le> 3"
    by (rule compared_number [OF assms(1) passed _ _ _ assms(5,6), of "''currentATokenBalance''"])
      (simp_all add: user_object_def obj_get_def accessory_def)
  have "compare_key B (user_object B expected) (''usageAsCollateralEnabled'', PBool (u_usageAsCollateralEnabled actual)) = Inr ()"
    using passed unfolding compare_keys_Inr by (rule bspec) (simp add: user_object_def)
  then show "u_usageAsCollateralEnabled actual = u_usageAsCollateralEnabled expected"
    by (auto simp: compare_flag user_object_def obj_get_def accessory_def prop_toString_def split: if_splits)
qed

end

text \<open>
  C8: What a comparison of the suites means. Unless the checks are switched off it accepts two states of a
  reserve exactly when the addresses agree and each of the thirteen compared numbers is within three units
  of the expected one, and two states of a user exactly when the collateral flags agree and each of the
  ten numbers is within three units: the other members of a reserve are not compared at all.
\<close>
theorem comparison_exact:
  assumes "bignumber_int (suite_bn S) val" "val (bn_undef (suite_bn S)) = None" "r_address r = Some a"
    and "list_all2 (denotes val) (reserve_numbers r) xs" "list_all2 (denotes val) (reserve_numbers r') ys"
    and "list_all2 (denotes val) (user_numbers u) ms" "list_all2 (denotes val) (user_numbers u') ns"
  shows "(expectEqual S (reserve_object (suite_bn S) r) (reserve_object (suite_bn S) r') = Inr () \<longleftrightarrow>
      skipIntegrityCheck S \<or> r_address r' = Some a \<and> list_all2 (\<lambda>x y. \<bar>x - y\<bar> \<le> 3) xs ys)
    \<and> (expectEqual S (user_object (suite_bn S) u) (user_object (suite_bn S) u') = Inr () \<longleftrightarrow>
      skipIntegrityCheck S \<or> u_usageAsCollateralEnabled u = u_usageAsCollateralEnabled u'
        \<and> list_all2 (\<lambda>x y. \<bar>x - y\<bar> \<le> 3) ms ns)"
  using bignumber_int.reserve_comparison [OF assms(1,2,4,5,3)] bignumber_int.user_comparison [OF assms(1,2,6,7)]
  by (simp add: expectEqual_def)

theorem comparison_exact_witness:
  "expectEqual fork_suite (reserve_object scenario_bn (lift_reserve (fork_R False)))
      (reserve_object scenario_bn ((lift_reserve (fork_R False))\<lparr>r_liquidityIndex := Some (10 ^ 27 + 3), r_symbol := None\<rparr>)) = Inr ()
   \<and> expectEqual fork_suite (user_object scenario_bn (fork_U False)) (user_object scenario_bn ((fork_U False)\<lparr>u_walletBalance := Some 4\<rparr>)) \<noteq> Inr ()"
  using comparison_exact [of fork_suite id "lift_reserve (fork_R False)" dai_address "[1000, 0, 1000, 0, 0, 0, 0, 0, 0, 10 ^ 27, 10 ^ 27, 0, 0]"
      "(lift_reserve (fork_R False))\<lparr>r_liquidityIndex := Some (10 ^ 27 + 3), r_symbol := None\<rparr>"
      "[1000, 0, 1000, 0, 0, 0, 0, 0, 0, 10 ^ 27 + 3, 10 ^ 27, 0, 0]" "fork_U False" "[400, 400, 0, 0, 0, 0, 0, 0, 0, 0]"
      "(fork_U False)\<lparr>u_walletBalance := Some 4\<rparr>" "[400, 400, 0, 0, 0, 0, 0, 0, 0, 4]"]
  by (simp add: fork_suite_def scenario_bignumber_int std_bn_def [of _ _, THEN arg_cong [where f = bn_undef]] reserve_numbers_def
      user_numbers_def lift_reserve_def fork_R_def fork_U_def denotes_def)

section \<open>Withdrawing everything\<close>

text \<open>What a passing withdrawal of everything read, sent and compared, in order.\<close>

lemma withdraw_all_passed:
  assumes "withdraw S reserveSymbol ''-1'' (Some user) ''success'' env msg w = (Inr (), w')"
  obtains reserve v1 before userBefore t1 v2 aToken v3 rc v4 after userAfter t2 v5 number now x cost expected where
    "getReserveAddressFromSymbol S reserveSymbol w = (Inr reserve, v1)"
    "getContractsData S reserve (signer_address user) env None v1 = (Inr (before, userBefore, t1), v2)"
    "getAToken (suite_rt S) (r_aTokenAddress before) v2 = (Inr aToken, v3)"
    "transact S (connect (pool env) (signer user)) ''withdraw''
       [VStr reserve, VStr MAX_UINT_AMOUNT, VStr (signer_address user)] v3 = (Inr rc, v4)"
    "getContractsData S reserve (signer_address user) env None v4 = (Inr (after, userAfter, t2), v5)"
    "getTxCostAndTimestamp S rc v5 = (Inr (cost, bn_of (suite_bn S) now), w')"
    "receipt_blockNumber rc = Some number" "node_getBlock (suite_node S) (VNum number) (network_state v5) = (Inr (Some now), x)"
    "calcExpectedReserveDataAfterWithdraw (suite_bn S) (reservesParams S) MAX_UINT_AMOUNT before userBefore
       (bn_of (suite_bn S) now) = Inr expected"
    "expectEqual S (user_object (suite_bn S) userAfter) (user_object (suite_bn S)
       (calcExpectedUserDataAfterWithdraw (suite_bn S) MAX_UINT_AMOUNT before expected userBefore (bn_of (suite_bn S) now))) = Inr ()"
proof -
  from assms obtain reserve before userBefore tok v3 rc v4 after userAfter t2 v5 cost ts expected where
    data: "getDataBeforeAction S reserveSymbol (signer_address user) env w = (Inr (reserve, before, userBefore, tok), v3)"
    and sent: "transact S (connect (pool env) (signer user)) ''withdraw''
       [VStr reserve, VStr MAX_UINT_AMOUNT, VStr (signer_address user)] v3 = (Inr rc, v4)"
    and after: "getContractsData S reserve (signer_address user) env None v4 = (Inr (after, userAfter, t2), v5)"
    and time: "getTxCostAndTimestamp S rc v5 = (Inr (cost, ts), w')"
    and expected: "calcExpectedReserveDataAfterWithdraw (suite_bn S) (reservesParams S) MAX_UINT_AMOUNT before userBefore ts = Inr expected"
    and equal: "expectEqual S (user_object (suite_bn S) userAfter) (user_object (suite_bn S)
       (calcExpectedUserDataAfterWithdraw (suite_bn S) MAX_UINT_AMOUNT before expected userBefore ts)) = Inr ()"
    unfolding withdraw_def Let_def
    by (auto simp: await_eq_Inr lift_result_def amount_or_max_def expect_reserve_def expect_user_def deref_def return_io_def
        split: prod.splits)
  from data obtain v1 t1 v2 where reads: "getReserveAddressFromSymbol S reserveSymbol w = (Inr reserve, v1)"
    "getContractsData S reserve (signer_address user) env None v1 = (Inr (before, userBefore, t1), v2)"
    "getAToken (suite_rt S) (r_aTokenAddress before) v2 = (Inr tok, v3)"
    unfolding getDataBeforeAction_def by (auto simp: await_eq_Inr return_io_def split: prod.splits)
  from time obtain number x now where "receipt_blockNumber rc = Some number"
    "node_getBlock (suite_node S) (VNum number) (network_state v5) = (Inr (Some now), x)" "ts = bn_of (suite_bn S) now"
    unfolding getTxCostAndTimestamp_def
    by (auto simp: await_eq_Inr lift_result_def on_network_def Let_def throw_io_def return_io_def deref_def
        split: option.splits prod.splits if_splits)
  with that reads sent after time expected equal show thesis by blast
qed

text \<open>
  C7: A scenario that withdraws everything checks that the user is left with nothing. Whenever the action
  passes, with the checks on, it went in this order: it looked up the reserve, read the reserve and the
  user, sent one \<open>withdraw\<close> of the reserve to the pool from the user's account, for the maximal amount and
  to the user itself, read the reserve and the user again, and took the time of the transaction's block.
  And if the state before is well formed at that time, the aToken balances read after are within three
  units of zero, and the collateral flag read after says whether the user had no balance before.
\<close>
theorem withdraw_everything_checked:
  assumes "bignumber_int (suite_bn S) val" "val (bn_undef (suite_bn S)) = None" "\<not> skipIntegrityCheck S"
    and "withdraw S reserveSymbol ''-1'' (Some user) ''success'' env msg w = (Inr (), w')"
  shows "\<exists>reserve v1 before userBefore t1 v2 aToken v3 rc v4 after userAfter t2 v5 number now x cost.
    getReserveAddressFromSymbol S reserveSymbol w = (Inr reserve, v1)
    \<and> getContractsData S reserve (signer_address user) env None v1 = (Inr (before, userBefore, t1), v2)
    \<and> getAToken (suite_rt S) (r_aTokenAddress before) v2 = (Inr aToken, v3)
    \<and> transact S (connect (pool env) (signer user)) ''withdraw''
        [VStr reserve, VStr MAX_UINT_AMOUNT, VStr (signer_address user)] v3 = (Inr rc, v4)
    \<and> getContractsData S reserve (signer_address user) env None v4 = (Inr (after, userAfter, t2), v5)
    \<and> getTxCostAndTimestamp S rc v5 = (Inr (cost, bn_of (suite_bn S) now), w')
    \<and> receipt_blockNumber rc = Some number
    \<and> node_getBlock (suite_node S) (VNum number) (network_state v5) = (Inr (Some now), x)
    \<and> (\<forall>R U UA. reserve_denotes val before R \<and> user_denotes val userBefore U \<and> user_denotes val userAfter UA
         \<and> reserve_ok R now \<and> 0 \<le> u_scaledATokenBalance U \<and> (r_utilizationRate R = 0 \<longrightarrow> r_liquidityRate R = 0)
         \<longrightarrow> \<bar>u_scaledATokenBalance UA\<bar> \<le> 3 \<and> \<bar>u_currentATokenBalance UA\<bar> \<le> 3
           \<and> (u_usageAsCollateralEnabled UA \<longleftrightarrow> u_currentATokenBalance U = 0))"
proof -
  obtain reserve v1 before userBefore t1 v2 aToken v3 rc v4 after userAfter t2 v5 number now x cost expected where
    run: "getReserveAddressFromSymbol S reserveSymbol w = (Inr reserve, v1)"
    "getContractsData S reserve (signer_address user) env None v1 = (Inr (before, userBefore, t1), v2)"
    "getAToken (suite_rt S) (r_aTokenAddress before) v2 = (Inr aToken, v3)"
    "transact S (connect (pool env) (signer user)) ''withdraw''
       [VStr reserve, VStr MAX_UINT_AMOUNT, VStr (signer_address user)] v3 = (Inr rc, v4)"
    "getContractsData S reserve (signer_address user) env None v4 = (Inr (after, userAfter, t2), v5)"
    "getTxCostAndTimestamp S rc v5 = (Inr (cost, bn_of (suite_bn S) now), w')"
    "receipt_blockNumber rc = Some number" "node_getBlock (suite_node S) (VNum number) (network_state v5) = (Inr (Some now), x)"
    and expected: "calcExpectedReserveDataAfterWithdraw (suite_bn S) (reservesParams S) MAX_UINT_AMOUNT before userBefore
       (bn_of (suite_bn S) now) = Inr expected"
    and equal: "expectEqual S (user_object (suite_bn S) userAfter) (user_object (suite_bn S)
       (calcExpectedUserDataAfterWithdraw (suite_bn S) MAX_UINT_AMOUNT before expected userBefore (bn_of (suite_bn S) now))) = Inr ()"
    by (rule withdraw_all_passed [OF assms(4)])
  note now = bignumber_int.denotes_of [OF assms(1)]
  have "\<bar>u_scaledATokenBalance UA\<bar> \<le> 3 \<and> \<bar>u_currentATokenBalance UA\<bar> \<le> 3
           \<and> (u_usageAsCollateralEnabled UA \<longleftrightarrow> u_currentATokenBalance U = 0)"
    if "reserve_denotes val before R" "user_denotes val userBefore U" "user_denotes val userAfter UA"
      "reserve_ok R now" "0 \<le> u_scaledATokenBalance U" "r_utilizationRate R = 0 \<longrightarrow> r_liquidityRate R = 0" for R U UA
    using withdraw_all_effect [OF assms(1) that(1,2) now that(4-6) expected]
      bignumber_int.compared_user [OF assms(1,2) equal [unfolded expectEqual_def, simplified assms(3) simp_thms if_True]]
      user_denotesD [OF that(3)] by fastforce
  then have "\<forall>R U UA. reserve_denotes val before R \<and> user_denotes val userBefore U \<and> user_denotes val userAfter UA
         \<and> reserve_ok R now \<and> 0 \<le> u_scaledATokenBalance U \<and> (r_utilizationRate R = 0 \<longrightarrow> r_liquidityRate R = 0)
         \<longrightarrow> \<bar>u_scaledATokenBalance UA\<bar> \<le> 3 \<and> \<bar>u_currentATokenBalance UA\<bar> \<le> 3
           \<and> (u_usageAsCollateralEnabled UA \<longleftrightarrow> u_currentATokenBalance U = 0)" by blast
  with run show ?thesis by (intro exI conjI)
qed

text \<open>The user of the small fork, who has 400 units before and, as the theorem says, next to none after.\<close>

definition held :: "bool \<Rightarrow> int UserReserveData" where
  "held withdrawn = \<lparr>u_scaledATokenBalance = (if withdrawn then 0 else 400),
     u_currentATokenBalance = (if withdrawn then 0 else 400), u_currentStableDebt = 0,
     u_currentVariableDebt = 0, u_principalStableDebt = 0, u_scaledVariableDebt = 0, u_liquidityRate = 0,
     u_stableBorrowRate = 0, u_stableRateLastUpdated = 0, u_usageAsCollateralEnabled = (\<not> withdrawn),
     u_walletBalance = (if withdrawn then 400 else 0),
     u_variableBorrowIndex = 0, u_principalVariableDebt = 0\<rparr>"

lemma held_denotes: "user_denotes id (fork_U withdrawn) (held withdrawn)"
  by (simp add: user_denotes_def fork_U_def held_def denotes_def)

theorem withdraw_everything_checked_witness:
  "\<exists>UA. withdraw (logged_suite fork_suite) ''DAI'' ''-1'' (Some fork_user) ''success'' fork_env None (logged_world fork_world)
       = (Inr (), logged_world fork_world\<lparr>network_state := (True, [withdrawal])\<rparr>)
    \<and> getContractsData (logged_suite fork_suite) dai_address ''0xu0'' fork_env None (logged_world fork_world)
      = (Inr (lift_reserve (fork_R False), fork_U False, Some 1000), logged_world fork_world)
    \<and> user_denotes id (fork_U False) (held False) \<and> u_scaledATokenBalance (held False) = 400
    \<and> user_denotes id (fork_U True) UA
    \<and> \<bar>u_scaledATokenBalance UA\<bar> \<le> 3 \<and> \<bar>u_currentATokenBalance UA\<bar> \<le> 3 \<and> \<not> u_usageAsCollateralEnabled UA"
proof -
  let ?S = "logged_suite fork_suite" and ?w = "logged_world fork_world"
  have "bignumber_int (suite_bn ?S) id" "id (bn_undef (suite_bn ?S)) = None" "\<not> skipIntegrityCheck ?S"
    using scenario_bignumber_int by (simp_all add: suite_parts fork_suite_def std_bn_def)
  from withdraw_everything_checked [OF this withdraw_run]
  obtain reserve v1 before userBefore t1 v2 aToken v3 rc v4 after userAfter t2 v5 number now x where
    run: "getReserveAddressFromSymbol ?S ''DAI'' ?w = (Inr reserve, v1)"
    "getContractsData ?S reserve (signer_address fork_user) fork_env None v1 = (Inr (before, userBefore, t1), v2)"
    "getAToken (suite_rt ?S) (r_aTokenAddress before) v2 = (Inr aToken, v3)"
    "transact ?S (connect (pool fork_env) (signer fork_user)) ''withdraw''
        [VStr reserve, VStr MAX_UINT_AMOUNT, VStr (signer_address fork_user)] v3 = (Inr rc, v4)"
    "getContractsData ?S reserve (signer_address fork_user) fork_env None v4 = (Inr (after, userAfter, t2), v5)"
    "node_getBlock (suite_node ?S) (VNum number) (network_state v5) = (Inr (Some now), x)"
    and left: "\<forall>R U UA. reserve_denotes id before R \<and> user_denotes id userBefore U \<and> user_denotes id userAfter UA
         \<and> reserve_ok R now \<and> 0 \<le> u_scaledATokenBalance U \<and> (r_utilizationRate R = 0 \<longrightarrow> r_liquidityRate R = 0)
         \<longrightarrow> \<bar>u_scaledATokenBalance UA\<bar> \<le> 3 \<and> \<bar>u_currentATokenBalance UA\<bar> \<le> 3
           \<and> (u_usageAsCollateralEnabled UA \<longleftrightarrow> u_currentATokenBalance U = 0)"
    by (elim exE conjE) (rule that)
  have user: "signer_address fork_user = ''0xu0''" "signer fork_user = ''0xu0''" by (simp_all add: fork_user_def)
  have start: "getContractsData ?S dai_address ''0xu0'' fork_env None ?w
      = (Inr (lift_reserve (fork_R False), fork_U False, Some 1000), ?w)"
    using contracts_run [of ?w] by (simp add: logged_world_def fork_world_def)
  with run(1,2) have first: "reserve = dai_address" "before = lift_reserve (fork_R False)" "userBefore = fork_U False" "v2 = ?w"
    by (simp_all add: address_run user)
  then have "v3 = ?w" using run(3) fork_token [of False ?w] by simp
  then have v4: "network_state v4 = (True, [withdrawal])" "deployed_contracts v4 = deployed_contracts fork_world"
    using run(4) by (auto simp: first user sent_run withdrawal_def logged_world_def fork_world_def)
  then have last: "userAfter = fork_U True" "v5 = v4"
    using run(5) by (simp_all add: first user contracts_run)
  have "now = 1000" using run(6) by (simp add: fork_defs last v4)
  moreover have "reserve_ok (fork_R False) 1000" "r_liquidityRate (fork_R False) = 0"
    by (simp_all add: reserve_ok_def fork_R_def RAY_def)
  moreover have held: "u_scaledATokenBalance (held False) = 400" "u_currentATokenBalance (held False) = 400"
    by (simp_all add: held_def)
  ultimately have "\<bar>u_scaledATokenBalance (held True)\<bar> \<le> 3 \<and> \<bar>u_currentATokenBalance (held True)\<bar> \<le> 3
      \<and> \<not> u_usageAsCollateralEnabled (held True)"
    using left [rule_format, of "fork_R False" "held False" "held True"] held_denotes [of False] held_denotes [of True]
      lift_reserve_denotes [of "fork_R False"] by (simp add: first last)
  then show ?thesis using withdraw_run start held_denotes held(1) by (intro exI [of _ "held True"]) simp
qed

end
