(* ===== verification/Tasks.thy ===== *)
theory Tasks
  imports Suite OraclesHelpers VaultDeployments
begin

text \<open>
  The deployment tasks of \<^verbatim>\<open>tasks/full\<close>, with \<^verbatim>\<open>tasks/misc/set-bre.ts\<close> and
  \<^verbatim>\<open>tasks/deployments/add-market-to-registry.ts\<close>: the steps of a deployment, each a function of the
  environment Hardhat hands to it, composed of the deployments, getters and helpers of the other
  theories. A task a script runs by name is the definition of that task. \<open>exit(n)\<close> ends the process:
  the failure \<open>Exited n\<close>, which no caller of the tasks catches. Console output is left out; the views it
  prints are read, since reading them can fail.
\<close>

section \<open>The environment of a task\<close>

text \<open>
  What a task takes from Hardhat besides the runtime: \<open>network.config.chainId\<close>, the two environment
  variables of a Tenderly fork, whether \<open>DRE\<close> of \<^verbatim>\<open>helpers/misc-utils.ts\<close> is set and how it is set, the
  operations of the Tenderly network, a plain transfer, \<open>isAddress\<close> of ethers and \<open>isZeroAddress\<close> of
  ethereumjs-util.
\<close>

record 'x hre =
  hre_runtime :: "'x runtime"
  chainId :: "int option"
  env_TENDERLY_FORK_ID :: "string option"
  env_TENDERLY_HEAD_ID :: "string option"
  DRE_isSet :: "'x \<Rightarrow> bool"
  setDRE :: "'x \<Rightarrow> 'x"
  tenderly_setFork :: "string \<Rightarrow> 'x \<Rightarrow> unit result \<times> 'x"
  tenderly_setHead :: "string \<Rightarrow> 'x \<Rightarrow> unit result \<times> 'x"
  tenderly_initializeFork :: "'x \<Rightarrow> unit result \<times> 'x"
  rt_sendEther :: "string option \<Rightarrow> string \<Rightarrow> 'x \<Rightarrow> unit result \<times> 'x"
  ethers_isAddress :: "string \<Rightarrow> bool"
  util_isZeroAddress :: "string \<Rightarrow> bool"

text \<open>\<open>set-DRE\<close>: once \<open>DRE\<close> is set it does nothing.\<close>

definition set_DRE :: "'x hre \<Rightarrow> ('x, unit) io" where
  "set_DRE h =
     await (on_network (\<lambda>x. (Inr (DRE_isSet h x), x))) (\<lambda>DRE.
     if DRE then return_io ()
     else
       await (if usingTenderly (hre_runtime h)
              then if truthy_string (env_TENDERLY_FORK_ID h) \<and> truthy_string (env_TENDERLY_HEAD_ID h)
                   then await (on_network (tenderly_setFork h (the (env_TENDERLY_FORK_ID h)))) (\<lambda>_.
                        on_network (tenderly_setHead h (the (env_TENDERLY_HEAD_ID h))))
                   else on_network (tenderly_initializeFork h)
              else return_io ()) (\<lambda>_.
       on_network (\<lambda>x. (Inr (), setDRE h x))))"

text \<open>How the tasks of \<^verbatim>\<open>tasks/full\<close> from the vaults on start.\<close>

definition on_chain :: "'x hre \<Rightarrow> ('x, 'a) io \<Rightarrow> ('x, 'a) io" where
  "on_chain h task =
     await (set_DRE h) (\<lambda>_.
     if chainId h = None \<or> chainId h = Some 0 then throw_io (Thrown ''INVALID_CHAIN_ID'') else task)"

text \<open>\<open>try { ... } catch (err) { console.error(err); exit(1) }\<close>\<close>

definition exit_on_error :: "('x, 'a) io \<Rightarrow> ('x, 'a) io" where
  "exit_on_error task = catch_io task (\<lambda>err. throw_io (Exited 1))"

section \<open>Parameters\<close>

text \<open>
  \<open>getParamPerNetwork(config.<field>, network)\<close> for the network of the run, and the entry of a symbol in
  the reserve assets and in the Chainlink aggregators of that network.
\<close>

definition param :: "'x runtime \<Rightarrow> PoolConfiguration \<Rightarrow> string \<Rightarrow> js_val result" where
  "param rt config field = networkParam rt config field (currentNetwork rt)"

definition asset :: "'x runtime \<Rightarrow> PoolConfiguration \<Rightarrow> string \<Rightarrow> js_val result" where
  "asset rt config symb = reserveAssetParam rt config symb (currentNetwork rt)"

definition aggregator :: "'x runtime \<Rightarrow> PoolConfiguration \<Rightarrow> string \<Rightarrow> js_val result" where
  "aggregator rt config symb =
     bindR (deref (getParamPerNetwork (env_FORK rt) (ChainlinkAggregator config) (currentNetwork rt))) (\<lambda>aggregators.
     Inr (opt_val (obj_get aggregators symb)))"

text \<open>\<open>notFalsyOrZeroAddress\<close> of a parameter.\<close>

definition usable :: "'x hre \<Rightarrow> js_val \<Rightarrow> bool" where
  "usable h v = notFalsyOrZeroAddress (ethers_isAddress h) (util_isZeroAddress h)
     (case v of VStr a \<Rightarrow> Some a | _ \<Rightarrow> None)"

section \<open>The protocol\<close>

definition deploy_address_provider_registry :: "'x hre \<Rightarrow> bool \<Rightarrow> string \<Rightarrow> ('x, unit) io" where
  "deploy_address_provider_registry h verify pool_name =
     (let rt = hre_runtime h in
     await (set_DRE h) (\<lambda>_.
     await (lift_result (loadPoolConfig pool_name)) (\<lambda>poolConfig.
     await (getFirstSigner rt) (\<lambda>signer.
     await (lift_result (networkParam rt poolConfig ''ProviderRegistry'' (network_name rt))) (\<lambda>providerRegistryAddress.
     await (lift_result (deref signer)) (\<lambda>signer.
     await (on_network (rt_getBalance rt signer)) (\<lambda>_.
     if usable h providerRegistryAddress then return_io ()
     else
       await (deployLendingPoolAddressesProviderRegistry rt verify) (\<lambda>_.
       return_io ()))))))))"

text \<open>
  The registry's owner, when the registry was not just deployed, must be the first account; on a fork
  the owner is impersonated and given ether instead.
\<close>

definition add_market_to_registry ::
    "'x hre \<Rightarrow> bool \<Rightarrow> tEthereumAddress option \<Rightarrow> string \<Rightarrow> bool \<Rightarrow> ('x, unit) io" where
  "add_market_to_registry h verify addressesProvider pool_name deployRegistry =
     (let rt = hre_runtime h; network = network_name rt;
          registry = getLendingPoolAddressesProviderRegistry (ethers_isAddress h) (util_isZeroAddress h) rt
      in
     await (set_DRE h) (\<lambda>_.
     await (lift_result (loadPoolConfig pool_name)) (\<lambda>poolConfig.
     await (lift_result (networkParam rt poolConfig ''ProviderRegistry'' network)) (\<lambda>providerRegistryAddress.
     await (lift_result (networkParam rt poolConfig ''ProviderRegistryOwner'' network)) (\<lambda>providerRegistryOwner.
     await (getFirstSigner rt) (\<lambda>first.
     await (lift_result (deref first)) (\<lambda>first.
     let currentSignerAddress = toLowerCase first in
     await (if deployRegistry \<or> \<not> usable h providerRegistryAddress
            then
              await (deploy_address_provider_registry h verify pool_name) (\<lambda>_.
              await (registry None) (\<lambda>r.
              await (getFirstSigner rt) (\<lambda>owner.
              await (lift_result (deref owner)) (\<lambda>owner.
              return_io (VStr (contract_address r), VStr owner, True)))))
            else return_io (providerRegistryAddress, providerRegistryOwner, False))
       (\<lambda>(providerRegistryAddress, providerRegistryOwner, deployed).
     if \<not> usable h providerRegistryOwner
     then throw_io (Thrown ''config.ProviderRegistryOwner is missing or is not an address.'')
     else
       let owner = as_string providerRegistryOwner in
       await (if truthy_string (env_FORK rt)
              then
                await (on_network (rt_impersonate rt owner)) (\<lambda>_.
                await (on_network (rt_getSigner rt owner)) (\<lambda>signer.
                await (getFirstSigner rt) (\<lambda>firstAccount.
                await (lift_result (deref firstAccount)) (\<lambda>firstAccount.
                await (on_network (rt_sendEther h (Some firstAccount) owner)) (\<lambda>_.
                return_io signer)))))
              else if \<not> deployed \<and> toLowerCase owner \<noteq> toLowerCase currentSignerAddress
              then throw_io (Exited 2)
              else on_network (rt_getSigner rt owner)) (\<lambda>signer.
       await (registry (Some (as_string providerRegistryAddress))) (\<lambda>r.
       let addressesProviderRegistry = connect r signer in
       await (getLendingPoolAddressesProvider rt addressesProvider) (\<lambda>addressesProviderInstance.
       sendAndWait rt addressesProviderRegistry ''registerAddressesProvider''
         [VStr (contract_address addressesProviderInstance), VNum (int (ProviderId poolConfig))])))))))))))"

definition deploy_address_provider :: "'x hre \<Rightarrow> bool \<Rightarrow> string \<Rightarrow> bool \<Rightarrow> ('x, unit) io" where
  "deploy_address_provider h verify pool_name skipRegistry =
     (let rt = hre_runtime h in
     await (set_DRE h) (\<lambda>_.
     await (lift_result (loadPoolConfig pool_name)) (\<lambda>poolConfig.
     await (deployLendingPoolAddressesProvider rt (MarketId poolConfig) verify) (\<lambda>addressesProvider.
     await (if skipRegistry then return_io ()
            else
              await (lift_result (networkParam rt poolConfig ''ProviderRegistry'' (network_name rt))) (\<lambda>providerRegistryAddress.
              add_market_to_registry h False (Some (contract_address addressesProvider)) pool_name
                (\<not> usable h providerRegistryAddress))) (\<lambda>_.
     await (getGenesisPoolAdmin rt poolConfig) (\<lambda>admin.
     await (sendAndWait rt addressesProvider ''setPoolAdmin'' [admin]) (\<lambda>_.
     await (getEmergencyAdmin rt poolConfig) (\<lambda>emergencyAdmin.
     await (sendAndWait rt addressesProvider ''setEmergencyAdmin'' [emergencyAdmin]) (\<lambda>_.
     await (call rt addressesProvider ''getPoolAdmin'' []) (\<lambda>_.
     await (call rt addressesProvider ''getEmergencyAdmin'' []) (\<lambda>_.
     return_io ())))))))))))"

definition deploy_lending_pool :: "'x hre \<Rightarrow> bool \<Rightarrow> string \<Rightarrow> ('x, unit) io" where
  "deploy_lending_pool h verify pool_name =
     (let rt = hre_runtime h; network = network_name rt in
     await (set_DRE h) (\<lambda>_.
     await (lift_result (loadPoolConfig pool_name)) (\<lambda>poolConfig.
     await (getLendingPoolAddressesProvider rt None) (\<lambda>addressesProvider.
     await (lift_result (networkParam rt poolConfig ''LendingPool'' network)) (\<lambda>configured.
     await (if \<not> usable h configured
            then
              await (deployLendingPool rt verify) (\<lambda>lendingPoolImpl.
              await (sendAndWait rt lendingPoolImpl ''initialize'' [VStr (contract_address addressesProvider)]) (\<lambda>_.
              return_io (VStr (contract_address lendingPoolImpl))))
            else return_io configured) (\<lambda>lendingPoolImplAddress.
     await (sendAndWait rt addressesProvider ''setLendingPoolImpl'' [lendingPoolImplAddress]) (\<lambda>_.
     await (callAddress rt addressesProvider ''getLendingPool'' []) (\<lambda>address.
     await (getLendingPool rt (Some address)) (\<lambda>lendingPoolProxy.
     await (insertContractAddressInDb rt ''LendingPool'' (contract_address lendingPoolProxy)) (\<lambda>_.
     await (lift_result (networkParam rt poolConfig ''LendingPoolConfigurator'' network)) (\<lambda>configured.
     await (if \<not> usable h configured
            then await (deployLendingPoolConfigurator rt verify) (\<lambda>c. return_io (VStr (contract_address c)))
            else return_io configured) (\<lambda>lendingPoolConfiguratorImplAddress.
     await (sendAndWait rt addressesProvider ''setLendingPoolConfiguratorImpl'' [lendingPoolConfiguratorImplAddress]) (\<lambda>_.
     await (callAddress rt addressesProvider ''getLendingPoolConfigurator'' []) (\<lambda>address.
     await (getLendingPoolConfiguratorProxy rt (Some address)) (\<lambda>lendingPoolConfiguratorProxy.
     await (insertContractAddressInDb rt ''LendingPoolConfigurator'' (contract_address lendingPoolConfiguratorProxy)) (\<lambda>_.
     await (deployStableAndVariableTokensHelper rt
              [VStr (contract_address lendingPoolProxy), VStr (contract_address addressesProvider)] verify) (\<lambda>_.
     await (deployATokensAndRatesHelper rt
              [VStr (contract_address lendingPoolProxy), VStr (contract_address addressesProvider),
               VStr (contract_address lendingPoolConfiguratorProxy)] verify) (\<lambda>_.
     return_io ()))))))))))))))))))"

text \<open>
  The tokens to watch are the reserve assets and the US dollar's placeholder address; a network without
  assets watches the placeholder alone. The rates leave the placeholder out.
\<close>

definition deploy_oracles :: "'x hre \<Rightarrow> bool \<Rightarrow> string \<Rightarrow> ('x, unit) io" where
  "deploy_oracles h verify pool_name =
     (let rt = hre_runtime h; network = currentNetwork rt in
     await (set_DRE h) (\<lambda>_.
     await (lift_result (loadPoolConfig pool_name)) (\<lambda>poolConfig.
     await (lift_result (getLendingRateOracles rt poolConfig)) (\<lambda>lendingRateOracles.
     await (getLendingPoolAddressesProvider rt None) (\<lambda>addressesProvider.
     await (getGenesisPoolAdmin rt poolConfig) (\<lambda>admin.
     await (lift_result (param rt poolConfig ''SturdyOracle'')) (\<lambda>sturdyOracleAddress.
     await (lift_result (param rt poolConfig ''LendingRateOracle'')) (\<lambda>lendingRateOracleAddress.
     await (lift_result (param rt poolConfig ''FallbackOracle'')) (\<lambda>fallbackOracleAddress.
     let reserveAssets = getParamPerNetwork (env_FORK rt) (ReserveAssets poolConfig) network;
         chainlinkAggregators = getParamPerNetwork (env_FORK rt) (ChainlinkAggregator poolConfig) network;
         tokensToWatch = obj_set ''USD'' (UsdAddress (ProtocolGlobalParams poolConfig))
           (case reserveAssets of None \<Rightarrow> [] | Some assets \<Rightarrow> assets)
     in
     await (lift_result (if chainlinkAggregators = None \<and> omit tokensToWatch (getQuoteCurrencies (OracleQuoteCurrency poolConfig)) = []
                         then Inr [] else deref chainlinkAggregators)) (\<lambda>chainlinkAggregators.
     await (lift_result (getPairsTokenAggregator tokensToWatch chainlinkAggregators (OracleQuoteCurrency poolConfig)))
       (\<lambda>(tokens, aggregators).
     await (if usable h sturdyOracleAddress
            then getSturdyOracle rt (Some (as_string sturdyOracleAddress))
            else
              await (getQuoteCurrency rt poolConfig) (\<lambda>quoteCurrency.
              deploySturdyOracle rt
                [VArr (map VStr tokens), VArr (map VStr aggregators), fallbackOracleAddress, quoteCurrency,
                 VStr (OracleQuoteUnit poolConfig)] verify)) (\<lambda>sturdyOracle.
     await (if usable h lendingRateOracleAddress
            then getLendingRateOracle rt (Some (as_string lendingRateOracleAddress))
            else
              await (deployLendingRateOracle rt verify) (\<lambda>lendingRateOracle.
              await (setInitialMarketRatesInRatesOracleByHelper rt lendingRateOracles
                       (omit tokensToWatch [''USD'']) lendingRateOracle admin) (\<lambda>_.
              return_io lendingRateOracle))) (\<lambda>lendingRateOracle.
     await (sendAndWait rt addressesProvider ''setPriceOracle'' [VStr (contract_address sturdyOracle)]) (\<lambda>_.
     sendAndWait rt addressesProvider ''setLendingRateOracle'' [VStr (contract_address lendingRateOracle)]))))))))))))))"

definition deploy_data_provider :: "'x hre \<Rightarrow> bool \<Rightarrow> ('x, unit) io" where
  "deploy_data_provider h verify =
     (let rt = hre_runtime h in
     exit_on_error
       (await (set_DRE h) (\<lambda>_.
        await (getLendingPoolAddressesProvider rt None) (\<lambda>addressesProvider.
        await (deploySturdyProtocolDataProvider rt (contract_address addressesProvider) verify) (\<lambda>_.
        return_io ())))))"

definition deploy_incentives_impl :: "'x hre \<Rightarrow> bool \<Rightarrow> string \<Rightarrow> ('x, unit) io" where
  "deploy_incentives_impl h verify pool_name =
     (let rt = hre_runtime h in
     exit_on_error
       (await (set_DRE h) (\<lambda>_.
        await (getFirstSigner rt) (\<lambda>signer.
        await (lift_result (deref signer)) (\<lambda>EMISSION_EXECUTOR.
        await (deploySturdyIncentivesController rt [VStr EMISSION_EXECUTOR] verify) (\<lambda>_.
        await (deploySturdyToken rt False) (\<lambda>_.
        return_io ())))))))"

definition deploy_liquidator :: "'x hre \<Rightarrow> bool \<Rightarrow> string \<Rightarrow> ('x, unit) io" where
  "deploy_liquidator h verify pool_name =
     (let rt = hre_runtime h in
     on_chain h
       (await (getLendingPoolAddressesProvider rt None) (\<lambda>addressesProvider.
        await (if pool_name = ''Fantom''
               then deployTempLiquidator rt [VStr (contract_address addressesProvider)] verify
               else deployLiquidator rt [VStr (contract_address addressesProvider)] pool_name verify) (\<lambda>_.
        return_io ()))))"

definition deploy_vault_helper :: "'x hre \<Rightarrow> bool \<Rightarrow> string \<Rightarrow> ('x, unit) io" where
  "deploy_vault_helper h verify pool_name =
     (let rt = hre_runtime h in
     on_chain h
       (await (getLendingPoolAddressesProvider rt None) (\<lambda>addressesProvider.
        await (deployVaultHelper rt [VStr (contract_address addressesProvider)] verify) (\<lambda>_.
        return_io ()))))"

text \<open>The transactions below are awaited only until they are sent.\<close>

definition deploy_yield_manager :: "'x hre \<Rightarrow> bool \<Rightarrow> string \<Rightarrow> ('x, unit) io" where
  "deploy_yield_manager h verify pool_name =
     (let rt = hre_runtime h in
     on_chain h
       (await (lift_result (loadPoolConfig pool_name)) (\<lambda>poolConfig.
        await (deployYieldManager rt verify) (\<lambda>yieldManager.
        await (getLendingPoolConfiguratorProxy rt None) (\<lambda>configurator.
        await (send rt configurator ''registerVault'' [VStr (contract_address yieldManager)]) (\<lambda>_.
        await (lift_result (asset rt poolConfig ''USDC'')) (\<lambda>USDC.
        await (send rt yieldManager ''setExchangeToken'' [USDC]) (\<lambda>_.
        await (lift_result (param rt poolConfig ''CRV'')) (\<lambda>CRV.
        await (send rt yieldManager ''registerAsset'' [CRV]) (\<lambda>_.
        await (lift_result (param rt poolConfig ''CVX'')) (\<lambda>CVX.
        await (send rt yieldManager ''registerAsset'' [CVX]) (\<lambda>_.
        await (lift_result (param rt poolConfig ''WETH'')) (\<lambda>WETH.
        await (send rt yieldManager ''registerAsset'' [WETH]) (\<lambda>_.
        await (lift_result (asset rt poolConfig ''DAI'')) (\<lambda>DAI.
        await (send rt yieldManager ''setCurvePool''
                 [USDC, DAI, VStr ''0xbEbc44782C7dB0a1A60Cb6fe97d0b483032FF1C7'']) (\<lambda>_.
        return_io ()))))))))))))))))"

section \<open>Collateral\<close>

text \<open>The addresses of the recorded contracts, one getter after the other.\<close>

fun addresses_of :: "(string \<times> ('x, Instance) io) list \<Rightarrow> ('x, tEthereumAddress obj) io" where
  "addresses_of [] = return_io []"
| "addresses_of ((symb, getter) # rest) =
     await getter (\<lambda>c.
     await (addresses_of rest) (\<lambda>ob.
     return_io ((symb, contract_address c) # ob)))"

definition reserveExternalAssets :: "'x runtime \<Rightarrow> PoolConfiguration \<Rightarrow> string \<Rightarrow> js_val obj result" where
  "reserveExternalAssets rt poolConfig pool_name =
     mapR (\<lambda>(symb, field). bindR (networkParam rt poolConfig field (network_name rt)) (\<lambda>v. Inr (symb, v)))
       (if pool_name = ''Sturdy''
        then
          [(''stETH'', ''Lido''),
           (''yvRETH_WSTETH'', ''RETH_WSTETH_LP''),
           (''cvxRETH_WSTETH'', ''RETH_WSTETH_LP''),
           (''cvxFRAX_3CRV'', ''FRAX_3CRV_LP''),
           (''cvxSTECRV'', ''STECRV_LP''),
           (''cvxDOLA_3CRV'', ''DOLA_3CRV_LP'')]
        else
          [(''yvWFTM'', ''WFTM''),
           (''yvWETH'', ''WETH''),
           (''yvWBTC'', ''WBTC''),
           (''yvBOO'', ''BOO''),
           (''mooTOMB_FTM'', ''TOMB_FTM_LP''),
           (''mooTOMB_MIMATIC'', ''TOMB_MIMATIC_LP''),
           (''mooBASED_MIMATIC'', ''BASED_MIMATIC_LP''),
           (''yvfBEETS'', ''fBEETS''),
           (''yvLINK'', ''LINK''),
           (''mooWETH'', ''WETH''),
           (''yvCRV'', ''CRV''),
           (''yvSPELL'', ''SPELL'')])"

definition acceptableVaults :: "'x runtime \<Rightarrow> string \<Rightarrow> ('x, tEthereumAddress obj) io" where
  "acceptableVaults rt pool_name =
     addresses_of
       (if pool_name = ''Sturdy''
        then
          [(''stETH'', getLidoVault rt None),
           (''yvRETH_WSTETH'', getYearnRETHWstETHVault rt None),
           (''cvxRETH_WSTETH'', getConvexRocketPoolETHVault rt None),
           (''cvxFRAX_3CRV'', getConvexFRAX3CRVVault rt None),
           (''cvxSTECRV'', getConvexSTETHVault rt None),
           (''cvxDOLA_3CRV'', getConvexDOLA3CRVVault rt None)]
        else
          [(''yvWFTM'', getYearnVault rt None),
           (''yvWETH'', getYearnWETHVault rt None),
           (''yvWBTC'', getYearnWBTCVault rt None),
           (''yvBOO'', getYearnBOOVault rt None),
           (''mooTOMB_FTM'', getTombFtmBeefyVault rt None),
           (''mooTOMB_MIMATIC'', getTombMiMaticBeefyVault rt None),
           (''mooBASED_MIMATIC'', getBasedMiMaticBeefyVault rt None),
           (''yvfBEETS'', getYearnFBEETSVault rt None),
           (''yvLINK'', getYearnLINKVault rt None),
           (''mooWETH'', getBeefyETHVault rt None),
           (''yvCRV'', getYearnCRVVault rt None),
           (''yvSPELL'', getYearnSPELLVault rt None)])"

text \<open>
  The loop registers every collateral reserve that has an address on the network. Reading the addresses
  of a network without assets is a \<open>TypeError\<close>, if there is a reserve to read one for.
\<close>

definition addCollateralAsset ::
    "'x runtime \<Rightarrow> Instance \<Rightarrow> js_val obj \<Rightarrow> tEthereumAddress obj option \<Rightarrow> tEthereumAddress obj
     \<Rightarrow> string \<times> IReserveParams \<Rightarrow> ('x, unit) io" where
  "addCollateralAsset rt collateralAdapter externalAssets reserveAssets vaults reserve =
     await (lift_result (deref reserveAssets)) (\<lambda>reserveAssets.
     let symb = fst reserve in
     if \<not> truthy_string (obj_get reserveAssets symb) then return_io ()
     else
       sendAndWait rt collateralAdapter ''addCollateralAsset''
         [case obj_get externalAssets symb of None \<Rightarrow> VUndef | Some v \<Rightarrow> v,
          opt_val (obj_get reserveAssets symb), opt_val (obj_get vaults symb)])"

definition deploy_collateral_adapter :: "'x hre \<Rightarrow> bool \<Rightarrow> string \<Rightarrow> ('x, unit) io" where
  "deploy_collateral_adapter h verify pool_name =
     (let rt = hre_runtime h in
     on_chain h
       (await (deployCollateralAdapter rt verify) (\<lambda>collateralAdapter.
        await (lift_result (loadPoolConfig pool_name)) (\<lambda>poolConfig.
        let reserveAssets = getParamPerNetwork (env_FORK rt) (ReserveAssets poolConfig) (network_name rt) in
        await (lift_result (reserveExternalAssets rt poolConfig pool_name)) (\<lambda>externalAssets.
        await (acceptableVaults rt pool_name) (\<lambda>vaults.
        let reserves = filter (\<lambda>(_, reserve). aTokenImpl reserve = ''ATokenForCollateral'') (ReservesConfig poolConfig) in
        for_each (addCollateralAsset rt collateralAdapter externalAssets reserveAssets vaults) reserves))))))"

section \<open>Initialising the pool\<close>

definition yieldAddresses_of :: "'x runtime \<Rightarrow> string \<Rightarrow> ('x, tEthereumAddress obj) io" where
  "yieldAddresses_of rt pool_name =
     addresses_of
       (if pool_name = ''Sturdy''
        then
          [(''yvRETH_WSTETH'', getYearnRETHWstETHVault rt None),
           (''cvxRETH_WSTETH'', getConvexRocketPoolETHVault rt None),
           (''cvxFRAX_3CRV'', getConvexFRAX3CRVVault rt None),
           (''cvxSTECRV'', getConvexSTETHVault rt None),
           (''cvxDOLA_3CRV'', getConvexDOLA3CRVVault rt None)]
        else
          [(''yvWFTM'', getYearnVault rt None),
           (''yvWETH'', getYearnWETHVault rt None),
           (''yvWBTC'', getYearnWBTCVault rt None),
           (''yvBOO'', getYearnBOOVault rt None),
           (''mooTOMB_FTM'', getTombFtmBeefyVault rt None),
           (''mooTOMB_MIMATIC'', getTombMiMaticBeefyVault rt None),
           (''mooBASED_MIMATIC'', getBasedMiMaticBeefyVault rt None),
           (''yvfBEETS'', getYearnFBEETSVault rt None),
           (''mooWETH'', getBeefyETHVault rt None),
           (''yvLINK'', getYearnLINKVault rt None),
           (''yvCRV'', getYearnCRVVault rt None),
           (''yvSPELL'', getYearnSPELLVault rt None)])"

definition initialize_lending_pool :: "'x hre \<Rightarrow> bool \<Rightarrow> string \<Rightarrow> ('x, unit) io" where
  "initialize_lending_pool h verify pool_name =
     (let rt = hre_runtime h; network = network_name rt in
     exit_on_error
       (await (set_DRE h) (\<lambda>_.
        await (lift_result (loadPoolConfig pool_name)) (\<lambda>poolConfig.
        let reserveAssets = getParamPerNetwork (env_FORK rt) (ReserveAssets poolConfig) network in
        await (lift_result (networkParam rt poolConfig ''IncentivesController'' network)) (\<lambda>incentivesController.
        await (getLendingPoolAddressesProvider rt None) (\<lambda>addressesProvider.
        await (getSturdyProtocolDataProvider rt None) (\<lambda>testHelpers.
        await (callAddress rt addressesProvider ''getPoolAdmin'' []) (\<lambda>admin.
        await (call rt addressesProvider ''getPriceOracle'' []) (\<lambda>oracle.
        case reserveAssets of
          None \<Rightarrow> throw_io (Thrown ''Reserve assets is undefined. Check ReserveAssets configuration at config directory'')
        | Some reserveAssets \<Rightarrow>
            await (getTreasuryAddress rt poolConfig) (\<lambda>treasury.
            await (yieldAddresses_of rt pool_name) (\<lambda>yields.
            await (initReservesByHelper rt (ReservesConfig poolConfig) reserveAssets (ATokenNamePrefix poolConfig)
                     (StableDebtTokenNamePrefix poolConfig) (VariableDebtTokenNamePrefix poolConfig)
                     (SymbolPrefix poolConfig) admin treasury yields verify) (\<lambda>_.
            await (configureReservesByHelper rt (ReservesConfig poolConfig) reserveAssets testHelpers admin) (\<lambda>_.
            await (lift_result (networkParam rt poolConfig ''LendingPoolCollateralManager'' network)) (\<lambda>configured.
            await (if \<not> usable h configured
                   then await (deployLendingPoolCollateralManager rt verify) (\<lambda>c. return_io (VStr (contract_address c)))
                   else return_io configured) (\<lambda>collateralManagerAddress.
            await (sendAndWait rt addressesProvider ''setLendingPoolCollateralManager'' [collateralManagerAddress]) (\<lambda>_.
            await (getSturdyProtocolDataProvider rt None) (\<lambda>sturdyProtocolDataProvider.
            await (sendAndWait rt addressesProvider ''setAddress''
                     [VStr ''0x0100000000000000000000000000000000000000000000000000000000000000'',
                      VStr (contract_address sturdyProtocolDataProvider)]) (\<lambda>_.
            await (deployWalletBalancerProvider rt verify) (\<lambda>_.
            await (deployUiPoolDataProvider rt [incentivesController, oracle] verify) (\<lambda>_.
            await (deployUiIncentiveDataProvider rt verify) (\<lambda>_.
            return_io ())))))))))))))))))))))"

end
