(* ===== verification/TaskVaults.thy ===== *)
theory TaskVaults
  imports Tasks
begin

text \<open>
  The vault tasks of \<^verbatim>\<open>tasks/full\<close> (steps 6 and 7): each deploys its vault, registers it at the pool's
  configurator, sets its fee, and registers the price sources of its assets, deploying the oracles the
  configuration has no address for. The transactions up to the price sources are awaited only until they
  are sent.
\<close>

section \<open>Shared steps\<close>

text \<open>Deploying and registering a vault, with the ten percent fee of the treasury.\<close>

definition register_vault :: "'x runtime \<Rightarrow> ('x, Instance) io \<Rightarrow> js_val \<Rightarrow> ('x, Instance) io" where
  "register_vault rt deployment treasury =
     await deployment (\<lambda>vault.
     await (getLendingPoolConfiguratorProxy rt None) (\<lambda>configurator.
     await (send rt configurator ''registerVault'' [VStr (contract_address vault)]) (\<lambda>_.
     await (send rt vault ''setTreasuryInfo'' [treasury, VStr ''1000'']) (\<lambda>_.
     return_io vault))))"

text \<open>The configured price source of a symbol, or a deployed oracle where there is none.\<close>

definition source_or_deploy :: "'x runtime \<Rightarrow> PoolConfiguration \<Rightarrow> string \<Rightarrow> ('x, Instance) io \<Rightarrow> ('x, js_val) io" where
  "source_or_deploy rt poolConfig symb deployment =
     await (lift_result (aggregator rt poolConfig symb)) (\<lambda>oracleAddress.
     if js_truthy oracleAddress then return_io oracleAddress
     else await deployment (\<lambda>priceOracle. return_io (VStr (contract_address priceOracle))))"

text \<open>Registering price sources at the recorded oracle and printing the prices of some assets.\<close>

definition set_sources :: "'x runtime \<Rightarrow> js_val result list \<Rightarrow> js_val result list \<Rightarrow> js_val result list \<Rightarrow> ('x, unit) io" where
  "set_sources rt assets sources printed =
     await (getSturdyOracle rt None) (\<lambda>sturdyOracle.
     await (lift_result (mapR (\<lambda>v. v) assets)) (\<lambda>assets.
     await (lift_result (mapR (\<lambda>v. v) sources)) (\<lambda>sources.
     await (sendAndWait rt sturdyOracle ''setAssetSources'' [VArr assets, VArr sources]) (\<lambda>_.
     for_each (\<lambda>asset.
       await (lift_result asset) (\<lambda>v.
       await (call rt sturdyOracle ''getAssetPrice'' [v]) (\<lambda>price.
       await (lift_result (js_toString price)) (\<lambda>_. return_io ())))) printed))))"

text \<open>How a vault task starts.\<close>

definition vault_task ::
    "'x hre \<Rightarrow> string \<Rightarrow> ('x, Instance) io \<Rightarrow> (PoolConfiguration \<Rightarrow> Instance \<Rightarrow> ('x, unit) io) \<Rightarrow> ('x, unit) io" where
  "vault_task h pool_name deployment rest =
     on_chain h
       (await (lift_result (loadPoolConfig pool_name)) (\<lambda>poolConfig.
        await (lift_result (param (hre_runtime h) poolConfig ''ReserveFactorTreasuryAddress'')) (\<lambda>treasury.
        await (register_vault (hre_runtime h) deployment treasury) (rest poolConfig))))"

section \<open>The Sturdy market\<close>

definition deploy_lido_vault :: "'x hre \<Rightarrow> bool \<Rightarrow> string \<Rightarrow> ('x, unit) io" where
  "deploy_lido_vault h verify pool_name =
     vault_task h pool_name (deployLidoVault (hre_runtime h) verify) (\<lambda>poolConfig vault. return_io ())"

definition deploy_yearn_reth_wsteth_vault :: "'x hre \<Rightarrow> bool \<Rightarrow> string \<Rightarrow> ('x, unit) io" where
  "deploy_yearn_reth_wsteth_vault h verify pool_name =
     (let rt = hre_runtime h in
     vault_task h pool_name (deployYearnRETHWstETHVaultVault rt verify) (\<lambda>poolConfig vault.
     await (source_or_deploy rt poolConfig ''yvRETH_WSTETH'' (deployRETHWstETHLPOracle rt False)) (\<lambda>oracleAddress.
     set_sources rt [asset rt poolConfig ''yvRETH_WSTETH''] [Inr oracleAddress] [asset rt poolConfig ''yvRETH_WSTETH''])))"

definition deploy_convex_rocket_pool_eth_vault :: "'x hre \<Rightarrow> bool \<Rightarrow> string \<Rightarrow> ('x, unit) io" where
  "deploy_convex_rocket_pool_eth_vault h verify pool_name =
     (let rt = hre_runtime h in
     vault_task h pool_name (deployConvexRocketPoolETHVault rt verify) (\<lambda>poolConfig vault.
     await (lift_result (param rt poolConfig ''RETH_WSTETH_LP'')) (\<lambda>lp.
     await (send rt vault ''setConfiguration'' [lp, VNum 73]) (\<lambda>_.
     await (callAddress rt vault ''getInternalAsset'' []) (\<lambda>internalAssetAddress.
     await (source_or_deploy rt poolConfig ''cvxRETH_WSTETH'' (deployRETHWstETHLPOracle rt False)) (\<lambda>oracleAddress.
     set_sources rt [Inr (VStr internalAssetAddress), param rt poolConfig ''CRV'', param rt poolConfig ''CVX'']
       [Inr oracleAddress, aggregator rt poolConfig ''CRV'', aggregator rt poolConfig ''CVX'']
       [Inr (VStr internalAssetAddress), param rt poolConfig ''CRV'', param rt poolConfig ''CVX'']))))))"

definition deploy_convex_frax_3crv_vault :: "'x hre \<Rightarrow> bool \<Rightarrow> string \<Rightarrow> ('x, unit) io" where
  "deploy_convex_frax_3crv_vault h verify pool_name =
     (let rt = hre_runtime h in
     vault_task h pool_name (deployConvexFRAX3CRVVault rt verify) (\<lambda>poolConfig vault.
     await (lift_result (param rt poolConfig ''FRAX_3CRV_LP'')) (\<lambda>lp.
     await (send rt vault ''setConfiguration'' [lp, VNum 32]) (\<lambda>_.
     await (callAddress rt vault ''getInternalAsset'' []) (\<lambda>internalAssetAddress.
     await (source_or_deploy rt poolConfig ''cvxFRAX_3CRV'' (deployFRAX3CRVPOracle rt False)) (\<lambda>oracleAddress.
     set_sources rt [Inr (VStr internalAssetAddress), param rt poolConfig ''CRV'', param rt poolConfig ''CVX'']
       [Inr oracleAddress, aggregator rt poolConfig ''CRV'', aggregator rt poolConfig ''CVX'']
       [Inr (VStr internalAssetAddress), param rt poolConfig ''CRV'', param rt poolConfig ''CVX'']))))))"

definition deploy_convex_steth_vault :: "'x hre \<Rightarrow> bool \<Rightarrow> string \<Rightarrow> ('x, unit) io" where
  "deploy_convex_steth_vault h verify pool_name =
     (let rt = hre_runtime h in
     vault_task h pool_name (deployConvexSTETHVault rt verify) (\<lambda>poolConfig vault.
     await (lift_result (param rt poolConfig ''STECRV_LP'')) (\<lambda>lp.
     await (send rt vault ''setConfiguration'' [lp, VNum 25]) (\<lambda>_.
     await (callAddress rt vault ''getInternalAsset'' []) (\<lambda>internalAssetAddress.
     await (source_or_deploy rt poolConfig ''cvxSTECRV'' (deploySTECRVOracle rt False)) (\<lambda>oracleAddress.
     set_sources rt [Inr (VStr internalAssetAddress), param rt poolConfig ''CRV'', param rt poolConfig ''CVX'']
       [Inr oracleAddress, aggregator rt poolConfig ''CRV'', aggregator rt poolConfig ''CVX'']
       [Inr (VStr internalAssetAddress), param rt poolConfig ''CRV'', param rt poolConfig ''CVX'']))))))"

definition deploy_convex_dola_3crv_vault :: "'x hre \<Rightarrow> bool \<Rightarrow> string \<Rightarrow> ('x, unit) io" where
  "deploy_convex_dola_3crv_vault h verify pool_name =
     (let rt = hre_runtime h in
     vault_task h pool_name (deployConvexDOLA3CRVVault rt verify) (\<lambda>poolConfig vault.
     await (lift_result (param rt poolConfig ''DOLA_3CRV_LP'')) (\<lambda>lp.
     await (send rt vault ''setConfiguration'' [lp, VNum 62]) (\<lambda>_.
     await (callAddress rt vault ''getInternalAsset'' []) (\<lambda>internalAssetAddress.
     await (source_or_deploy rt poolConfig ''cvxDOLA_3CRV'' (deployDOLA3CRVOracle rt False)) (\<lambda>oracleAddress.
     set_sources rt [Inr (VStr internalAssetAddress), param rt poolConfig ''CRV'', param rt poolConfig ''CVX'']
       [Inr oracleAddress, aggregator rt poolConfig ''CRV'', aggregator rt poolConfig ''CVX'']
       [Inr (VStr internalAssetAddress), param rt poolConfig ''CRV'', param rt poolConfig ''CVX'']))))))"

section \<open>The Fantom market\<close>

definition deploy_yearn_vault :: "'x hre \<Rightarrow> bool \<Rightarrow> string \<Rightarrow> ('x, unit) io" where
  "deploy_yearn_vault h verify pool_name =
     vault_task h pool_name (deployYearnVault (hre_runtime h) verify) (\<lambda>poolConfig vault. return_io ())"

definition deploy_beefy_eth_vault :: "'x hre \<Rightarrow> bool \<Rightarrow> string \<Rightarrow> ('x, unit) io" where
  "deploy_beefy_eth_vault h verify pool_name =
     (let rt = hre_runtime h in
     vault_task h pool_name (deployBeefyETHVault rt verify) (\<lambda>poolConfig vault.
     await (lift_result (aggregator rt poolConfig ''mooWETH'')) (\<lambda>mooWETHOracleAddress.
     set_sources rt [asset rt poolConfig ''mooWETH''] [Inr mooWETHOracleAddress] [asset rt poolConfig ''mooWETH''])))"

definition deploy_yearn_weth_vault :: "'x hre \<Rightarrow> bool \<Rightarrow> string \<Rightarrow> ('x, unit) io" where
  "deploy_yearn_weth_vault h verify pool_name =
     vault_task h pool_name (deployYearnWETHVault (hre_runtime h) verify) (\<lambda>poolConfig vault. return_io ())"

definition deploy_yearn_wbtc_vault :: "'x hre \<Rightarrow> bool \<Rightarrow> string \<Rightarrow> ('x, unit) io" where
  "deploy_yearn_wbtc_vault h verify pool_name =
     vault_task h pool_name (deployYearnWBTCVault (hre_runtime h) verify) (\<lambda>poolConfig vault. return_io ())"

definition deploy_yearn_boo_vault :: "'x hre \<Rightarrow> bool \<Rightarrow> string \<Rightarrow> ('x, unit) io" where
  "deploy_yearn_boo_vault h verify pool_name =
     vault_task h pool_name (deployYearnBOOVault (hre_runtime h) verify) (\<lambda>poolConfig vault. return_io ())"

definition deploy_tomb_ftm_beefy_vault :: "'x hre \<Rightarrow> bool \<Rightarrow> string \<Rightarrow> ('x, unit) io" where
  "deploy_tomb_ftm_beefy_vault h verify pool_name =
     (let rt = hre_runtime h in
     vault_task h pool_name (deployTombFTMBeefyVault rt verify) (\<lambda>poolConfig vault.
     await (source_or_deploy rt poolConfig ''TOMB'' (deployTombOracle rt False)) (\<lambda>tombOracleAddress.
     await (source_or_deploy rt poolConfig ''mooTOMB_FTM'' (deployTombFtmLPOracle rt False)) (\<lambda>mooTombFtmOracleAddress.
     set_sources rt [param rt poolConfig ''TOMB'', asset rt poolConfig ''mooTOMB_FTM'']
       [Inr tombOracleAddress, Inr mooTombFtmOracleAddress]
       [param rt poolConfig ''TOMB'', asset rt poolConfig ''mooTOMB_FTM'']))))"

definition deploy_tomb_mimatic_beefy_vault :: "'x hre \<Rightarrow> bool \<Rightarrow> string \<Rightarrow> ('x, unit) io" where
  "deploy_tomb_mimatic_beefy_vault h verify pool_name =
     (let rt = hre_runtime h in
     vault_task h pool_name (deployTombMiMaticBeefyVault rt verify) (\<lambda>poolConfig vault.
     await (source_or_deploy rt poolConfig ''mooTOMB_MIMATIC'' (deployTombMiMaticLPOracle rt False)) (\<lambda>mooTombMiMaticOracleAddress.
     set_sources rt [param rt poolConfig ''MIMATIC'', asset rt poolConfig ''mooTOMB_MIMATIC'']
       [aggregator rt poolConfig ''MIMATIC'', Inr mooTombMiMaticOracleAddress]
       [param rt poolConfig ''MIMATIC'', asset rt poolConfig ''mooTOMB_MIMATIC''])))"

definition deploy_yearn_fbeets_vault :: "'x hre \<Rightarrow> bool \<Rightarrow> string \<Rightarrow> ('x, unit) io" where
  "deploy_yearn_fbeets_vault h verify pool_name =
     (let rt = hre_runtime h; poolId = VStr ''0xcde5a11a4acb4ee4c805352cec57e236bdbc3837000200000000000000000019'' in
     vault_task h pool_name (deployYearnFBeetsVault rt verify) (\<lambda>poolConfig vault.
     await (send rt vault ''setBeethovenVaultAddress'' [VStr ''0x20dd72Ed959b6147912C2e529F0a0C651c33c9ce'']) (\<lambda>_.
     await (send rt vault ''setBeethovenLiquidityPoolId'' [poolId]) (\<lambda>_.
     await (send rt vault ''setBeethovenSwapPoolId'' [poolId]) (\<lambda>_.
     await (source_or_deploy rt poolConfig ''yvfBEETS'' (deployFBeetsOracle rt False)) (\<lambda>fbeetsOracleAddress.
     await (source_or_deploy rt poolConfig ''BEETS'' (deployBeetsOracle rt False)) (\<lambda>beetsOracleAddress.
     set_sources rt [asset rt poolConfig ''yvfBEETS'', param rt poolConfig ''BEETS'']
       [Inr fbeetsOracleAddress, Inr beetsOracleAddress]
       [asset rt poolConfig ''yvfBEETS'', param rt poolConfig ''BEETS''])))))))"

definition deploy_yearn_link_vault :: "'x hre \<Rightarrow> bool \<Rightarrow> string \<Rightarrow> ('x, unit) io" where
  "deploy_yearn_link_vault h verify pool_name =
     (let rt = hre_runtime h in
     vault_task h pool_name (deployYearnLINKVault rt verify) (\<lambda>poolConfig vault.
     set_sources rt [asset rt poolConfig ''yvLINK''] [aggregator rt poolConfig ''yvLINK'']
       [asset rt poolConfig ''yvLINK'']))"

definition deploy_yearn_crv_vault :: "'x hre \<Rightarrow> bool \<Rightarrow> string \<Rightarrow> ('x, unit) io" where
  "deploy_yearn_crv_vault h verify pool_name =
     (let rt = hre_runtime h in
     vault_task h pool_name (deployYearnCRVVault rt verify) (\<lambda>poolConfig vault.
     set_sources rt [asset rt poolConfig ''yvCRV''] [aggregator rt poolConfig ''yvCRV'']
       [asset rt poolConfig ''yvCRV'']))"

definition deploy_yearn_spell_vault :: "'x hre \<Rightarrow> bool \<Rightarrow> string \<Rightarrow> ('x, unit) io" where
  "deploy_yearn_spell_vault h verify pool_name =
     (let rt = hre_runtime h in
     vault_task h pool_name (deployYearnSPELLVault rt verify) (\<lambda>poolConfig vault.
     set_sources rt [asset rt poolConfig ''yvSPELL''] [aggregator rt poolConfig ''yvSPELL'']
       [asset rt poolConfig ''yvSPELL'']))"

definition deploy_based_mimatic_beefy_vault :: "'x hre \<Rightarrow> bool \<Rightarrow> string \<Rightarrow> ('x, unit) io" where
  "deploy_based_mimatic_beefy_vault h verify pool_name =
     (let rt = hre_runtime h in
     vault_task h pool_name (deployBasedMiMaticBeefyVault rt verify) (\<lambda>poolConfig vault.
     await (source_or_deploy rt poolConfig ''BASED'' (deployBasedOracle rt False)) (\<lambda>basedOracleAddress.
     await (source_or_deploy rt poolConfig ''mooBASED_MIMATIC'' (deployBasedMiMaticLPOracle rt False)) (\<lambda>mooBasedMiMaticOracleAddress.
     set_sources rt [param rt poolConfig ''BASED'', asset rt poolConfig ''mooBASED_MIMATIC'']
       [Inr basedOracleAddress, Inr mooBasedMiMaticOracleAddress]
       [param rt poolConfig ''BASED'', asset rt poolConfig ''mooBASED_MIMATIC'']))))"

end
