(* ===== verification/TaskVerification.thy ===== *)
theory TaskVerification
  imports TaskVaults
begin

text \<open>
  The verification tasks \<^verbatim>\<open>tasks/verifications/1_general.ts\<close> and \<^verbatim>\<open>2_tokens.ts\<close>, and
  \<^verbatim>\<open>tasks/misc/verify-sc.ts\<close>: which deployed contracts are submitted under which source, with which
  constructor arguments.
\<close>

section \<open>One contract\<close>

definition verify_proxy :: "'x runtime \<Rightarrow> Instance \<Rightarrow> Instance \<Rightarrow> ('x, unit) io" where
  "verify_proxy rt proxy owner =
     await (verifyContract rt ''InitializableImmutableAdminUpgradeabilityProxy'' proxy [VStr (contract_address owner)]) (\<lambda>_.
     return_io ())"

definition verify_impl :: "'x runtime \<Rightarrow> eContractid \<Rightarrow> Instance \<Rightarrow> js_val list \<Rightarrow> ('x, unit) io" where
  "verify_impl rt cid impl args = await (verifyContract rt cid impl args) (\<lambda>_. return_io ())"

text \<open>\<open>checkVerification\<close> as a step: it ends the process or goes on.\<close>

definition check_verification :: "'x runtime \<Rightarrow> ('x, unit) io" where
  "check_verification rt =
     (case checkVerification rt of None \<Rightarrow> return_io () | Some n \<Rightarrow> throw_io (Exited (int n)))"

definition verify_sc ::
    "'x hre \<Rightarrow> string \<Rightarrow> js_val list \<Rightarrow> string option \<Rightarrow> ('x, unit) io" where
  "verify_sc h address constructorArguments libraries =
     await (set_DRE h) (\<lambda>_.
     await (check_verification (hre_runtime h)) (\<lambda>_.
     verifyEtherscanContract (hre_runtime h) address constructorArguments libraries))"

section \<open>The protocol\<close>

text \<open>
  The part of \<open>verify:general\<close> behind \<open>all\<close>: every implementation. Off the two main networks the oracle
  is submitted as the test oracle, without arguments.
\<close>

definition verify_oracle :: "'x hre \<Rightarrow> PoolConfiguration \<Rightarrow> Instance \<Rightarrow> ('x, unit) io" where
  "verify_oracle h poolConfig priceOracle =
     (let rt = hre_runtime h; network = network_name rt in
     if network \<noteq> ''main'' \<and> network \<noteq> ''ftm'' then verify_impl rt ''PriceOracle'' priceOracle []
     else
       let reserveAssets = getParamPerNetwork (env_FORK rt) (ReserveAssets poolConfig) network;
           chainlinkAggregators = getParamPerNetwork (env_FORK rt) (ChainlinkAggregator poolConfig) network;
           tokensToWatch = obj_set ''USD'' (UsdAddress (ProtocolGlobalParams poolConfig))
             (case reserveAssets of None \<Rightarrow> [] | Some assets \<Rightarrow> assets)
       in
       await (lift_result (networkParam rt poolConfig ''FallbackOracle'' network)) (\<lambda>fallbackOracleAddress.
       await (lift_result (if chainlinkAggregators = None \<and> omit tokensToWatch (getQuoteCurrencies (OracleQuoteCurrency poolConfig)) = []
                           then Inr [] else deref chainlinkAggregators)) (\<lambda>chainlinkAggregators.
       await (lift_result (getPairsTokenAggregator tokensToWatch chainlinkAggregators (OracleQuoteCurrency poolConfig)))
         (\<lambda>(tokens, aggregators).
       await (getQuoteCurrency rt poolConfig) (\<lambda>quoteCurrency.
       verify_impl rt ''SturdyOracle'' priceOracle
         [VArr (map VStr tokens), VArr (map VStr aggregators), fallbackOracleAddress, quoteCurrency,
          VStr (OracleQuoteUnit poolConfig)])))))"

definition verify_implementations ::
    "'x hre \<Rightarrow> PoolConfiguration \<Rightarrow> Instance \<Rightarrow> Instance \<Rightarrow> Instance \<Rightarrow> string \<Rightarrow> string \<Rightarrow> string \<Rightarrow> ('x, unit) io" where
  "verify_implementations h poolConfig addressesProvider addressesProviderRegistry priceOracle
       EMISSION_EXECUTOR incentiveControllerAddress oracleAddress =
     (let rt = hre_runtime h; network = network_name rt in
     await (getLendingPoolImpl rt None) (\<lambda>lendingPoolImpl.
     await (getSturdyIncentivesControllerImpl rt None) (\<lambda>incentiveControllerImpl.
     await (getSturdyTokenImpl rt None) (\<lambda>incentiveTokenImpl.
     await (getWalletProvider rt None) (\<lambda>walletBalanceProvider.
     await (getUiPoolDataProvider rt None) (\<lambda>uiPoolDataProvider.
     await (getUiIncentiveDataProvider rt None) (\<lambda>uiIncentiveDataProvider.
     await (lift_result (networkParam rt poolConfig ''LendingPoolConfigurator'' network)) (\<lambda>configuratorAddress.
     await (getLendingPoolConfiguratorImpl rt
              (if usable h configuratorAddress then Some (as_string configuratorAddress) else None)) (\<lambda>lendingPoolConfiguratorImpl.
     await (lift_result (networkParam rt poolConfig ''LendingPoolCollateralManager'' network)) (\<lambda>managerAddress.
     await (getLendingPoolCollateralManagerImpl rt
              (if usable h managerAddress then Some (as_string managerAddress) else None)) (\<lambda>lendingPoolCollateralManagerImpl.
     await (getSturdyProtocolDataProvider rt None) (\<lambda>dataProvider.
     await (verify_impl rt ''LendingPoolAddressesProvider'' addressesProvider [VStr (MarketId poolConfig)]) (\<lambda>_.
     await (verify_oracle h poolConfig priceOracle) (\<lambda>_.
     await (verify_impl rt ''LendingPoolAddressesProviderRegistry'' addressesProviderRegistry []) (\<lambda>_.
     await (verify_impl rt ''LendingPool'' lendingPoolImpl []) (\<lambda>_.
     await (verify_impl rt ''LendingPoolConfigurator'' lendingPoolConfiguratorImpl []) (\<lambda>_.
     await (verify_impl rt ''LendingPoolCollateralManager'' lendingPoolCollateralManagerImpl []) (\<lambda>_.
     await (verify_impl rt ''StakedTokenIncentivesController'' incentiveControllerImpl [VStr EMISSION_EXECUTOR]) (\<lambda>_.
     await (verify_impl rt ''SturdyToken'' incentiveTokenImpl []) (\<lambda>_.
     await (verify_impl rt ''SturdyProtocolDataProvider'' dataProvider [VStr (contract_address addressesProvider)]) (\<lambda>_.
     await (verify_impl rt ''WalletBalanceProvider'' walletBalanceProvider []) (\<lambda>_.
     await (verify_impl rt ''UiPoolDataProvider'' uiPoolDataProvider
              [VStr incentiveControllerAddress, VStr oracleAddress]) (\<lambda>_.
     verify_impl rt ''UiIncentiveDataProvider'' uiIncentiveDataProvider [])))))))))))))))))))))))"

text \<open>The vaults: one of the Sturdy market, three of the Fantom market.\<close>

definition verify_vaults :: "'x runtime \<Rightarrow> bool \<Rightarrow> string \<Rightarrow> Instance \<Rightarrow> ('x, unit) io" where
  "verify_vaults rt all pool_name addressesProvider =
     (if pool_name = ''Sturdy''
      then
        await (callAddress rt addressesProvider ''getAddress'' [VBytes32 ''LIDO_VAULT'']) (\<lambda>lidoVaultAddress.
        await (getProxy rt lidoVaultAddress) (\<lambda>lidoVaultProxy.
        await (if all then await (getLidoVaultImpl rt None) (\<lambda>impl. verify_impl rt ''LidoVault'' impl []) else return_io ()) (\<lambda>_.
        verify_proxy rt lidoVaultProxy addressesProvider)))
      else if pool_name = ''Fantom''
      then
        await (callAddress rt addressesProvider ''getAddress'' [VBytes32 ''YEARN_VAULT'']) (\<lambda>yearnVaultAddress.
        await (callAddress rt addressesProvider ''getAddress'' [VBytes32 ''YEARN_WETH_VAULT'']) (\<lambda>yearnWETHVaultAddress.
        await (callAddress rt addressesProvider ''getAddress'' [VBytes32 ''YEARN_WBTC_VAULT'']) (\<lambda>yearnWBTCVaultAddress.
        await (getProxy rt yearnVaultAddress) (\<lambda>yearnVaultProxy.
        await (getProxy rt yearnWETHVaultAddress) (\<lambda>yearnWETHVaultProxy.
        await (getProxy rt yearnWBTCVaultAddress) (\<lambda>yearnWBTCVaultProxy.
        await (if all
               then
                 await (getYearnVaultImpl rt None) (\<lambda>impl.
                 await (verify_impl rt ''YearnVault'' impl []) (\<lambda>_.
                 await (getYearnWETHVaultImpl rt None) (\<lambda>impl.
                 await (verify_impl rt ''YearnWETHVault'' impl []) (\<lambda>_.
                 await (getYearnWBTCVaultImpl rt None) (\<lambda>impl.
                 verify_impl rt ''YearnWBTCVault'' impl [])))))
               else return_io ()) (\<lambda>_.
        await (verify_proxy rt yearnVaultProxy addressesProvider) (\<lambda>_.
        await (verify_proxy rt yearnWETHVaultProxy addressesProvider) (\<lambda>_.
        verify_proxy rt yearnWBTCVaultProxy addressesProvider)))))))))
      else return_io ())"

definition verify_general :: "'x hre \<Rightarrow> bool \<Rightarrow> string \<Rightarrow> ('x, unit) io" where
  "verify_general h all pool_name =
     (let rt = hre_runtime h; network = network_name rt;
          registry = getLendingPoolAddressesProviderRegistry (ethers_isAddress h) (util_isZeroAddress h) rt
      in
     await (set_DRE h) (\<lambda>_.
     await (lift_result (loadPoolConfig pool_name)) (\<lambda>poolConfig.
     await (getFirstSigner rt) (\<lambda>signer.
     await (lift_result (deref signer)) (\<lambda>EMISSION_EXECUTOR.
     await (lift_result (networkParam rt poolConfig ''ProviderRegistry'' network)) (\<lambda>registryAddress.
     await (getLendingPoolAddressesProvider rt None) (\<lambda>addressesProvider.
     await (registry (if usable h registryAddress then Some (as_string registryAddress) else None)) (\<lambda>addressesProviderRegistry.
     await (callAddress rt addressesProvider ''getLendingPool'' []) (\<lambda>lendingPoolAddress.
     await (callAddress rt addressesProvider ''getLendingPoolConfigurator'' []) (\<lambda>lendingPoolConfiguratorAddress.
     await (callAddress rt addressesProvider ''getLendingPoolCollateralManager'' []) (\<lambda>_.
     await (callAddress rt addressesProvider ''getIncentiveController'' []) (\<lambda>incentiveControllerAddress.
     await (callAddress rt addressesProvider ''getIncentiveToken'' []) (\<lambda>incentiveTokenAddress.
     await (callAddress rt addressesProvider ''getPriceOracle'' []) (\<lambda>oracleAddress.
     await (getSturdyOracle rt None) (\<lambda>priceOracle.
     await (getProxy rt lendingPoolAddress) (\<lambda>lendingPoolProxy.
     await (getProxy rt lendingPoolConfiguratorAddress) (\<lambda>lendingPoolConfiguratorProxy.
     await (getProxy rt incentiveControllerAddress) (\<lambda>incentiveControllerProxy.
     await (getProxy rt incentiveTokenAddress) (\<lambda>incentiveTokenProxy.
     await (if all
            then verify_implementations h poolConfig addressesProvider addressesProviderRegistry priceOracle
                   EMISSION_EXECUTOR incentiveControllerAddress oracleAddress
            else return_io ()) (\<lambda>_.
     await (verify_proxy rt lendingPoolProxy addressesProvider) (\<lambda>_.
     await (verify_proxy rt lendingPoolConfiguratorProxy addressesProvider) (\<lambda>_.
     await (verify_proxy rt incentiveControllerProxy addressesProvider) (\<lambda>_.
     await (verify_proxy rt incentiveTokenProxy addressesProvider) (\<lambda>_.
     verify_vaults rt all pool_name addressesProvider))))))))))))))))))))))))"

section \<open>The tokens\<close>

text \<open>
  The contracts of one reserve. The last two are submitted with the address of the aToken: the two
  addresses read for them are not used.
\<close>

definition verify_reserve :: "'x runtime \<Rightarrow> PoolConfiguration \<Rightarrow> Instance \<Rightarrow> Instance \<Rightarrow> Instance
     \<Rightarrow> string \<times> tEthereumAddress \<Rightarrow> ('x, unit) io" where
  "verify_reserve rt poolConfig addressesProvider lendingPoolProxy lendingPoolConfigurator entry =
     (case entry of (token, tokenAddress) \<Rightarrow>
     await (call rt lendingPoolProxy ''getReserveData'' [VStr tokenAddress]) (\<lambda>reserveData.
     await (lift_result (js_field reserveData ''stableDebtTokenAddress'')) (\<lambda>stableDebtTokenAddress.
     await (lift_result (js_field reserveData ''variableDebtTokenAddress'')) (\<lambda>variableDebtTokenAddress.
     await (lift_result (js_field reserveData ''aTokenAddress'')) (\<lambda>aTokenAddress.
     await (lift_result (js_field reserveData ''interestRateStrategyAddress'')) (\<lambda>interestRateStrategyAddress.
     case map_of (ReservesConfig poolConfig) token of
       None \<Rightarrow> throw_io (Thrown (''ReservesConfig not found for '' @ token @ '' token''))
     | Some tokenConfig \<Rightarrow>
         let strat = strategy tokenConfig in
         await (getProxy rt (as_string stableDebtTokenAddress)) (\<lambda>c.
         await (verify_proxy rt c lendingPoolConfigurator) (\<lambda>_.
         await (getProxy rt (as_string variableDebtTokenAddress)) (\<lambda>c.
         await (verify_proxy rt c lendingPoolConfigurator) (\<lambda>_.
         await (getProxy rt (as_string aTokenAddress)) (\<lambda>c.
         await (verify_proxy rt c lendingPoolConfigurator) (\<lambda>_.
         await (getInterestRateStrategy rt (opt_string interestRateStrategyAddress)) (\<lambda>c.
         await (verify_impl rt ''DefaultReserveInterestRateStrategy'' c
                  (map VStr [contract_address addressesProvider, optimalUtilizationRate strat,
                     baseVariableBorrowRate strat, variableRateSlope1 strat, variableRateSlope2 strat,
                     stableRateSlope1 strat, stableRateSlope2 strat])) (\<lambda>_.
         await (getAddressById rt ''StableDebtToken'') (\<lambda>stableDebt.
         await (getAddressById rt ''VariableDebtToken'') (\<lambda>variableDebt.
         await (getAddressById rt ''AToken'') (\<lambda>aToken.
         await (getAddressById rt ''ATokenForCollateral'') (\<lambda>aTokenForCollateral.
         await (getAToken rt aToken) (\<lambda>c.
         await (verify_impl rt ''AToken'' c []) (\<lambda>_.
         await (getAToken rt aTokenForCollateral) (\<lambda>c.
         await (verify_impl rt ''ATokenForCollateral'' c []) (\<lambda>_.
         await (getStableDebtToken rt aToken) (\<lambda>c.
         await (verify_impl rt ''StableDebtToken'' c []) (\<lambda>_.
         await (getVariableDebtToken rt aToken) (\<lambda>c.
         verify_impl rt ''VariableDebtToken'' c [])))))))))))))))))))))))))"

definition verify_tokens :: "'x hre \<Rightarrow> string \<Rightarrow> ('x, unit) io" where
  "verify_tokens h pool_name =
     (let rt = hre_runtime h in
     await (set_DRE h) (\<lambda>_.
     await (lift_result (loadPoolConfig pool_name)) (\<lambda>poolConfig.
     await (getTreasuryAddress rt poolConfig) (\<lambda>_.
     await (getLendingPoolAddressesProvider rt None) (\<lambda>addressesProvider.
     await (callAddress rt addressesProvider ''getLendingPool'' []) (\<lambda>poolAddress.
     await (getFirstSigner rt) (\<lambda>signer.
     let lendingPoolProxy = attach ''LendingPoolFactory'' poolAddress signer in
     await (callAddress rt addressesProvider ''getLendingPoolConfigurator'' []) (\<lambda>configuratorAddress.
     await (getFirstSigner rt) (\<lambda>signer.
     let lendingPoolConfigurator = attach ''LendingPoolConfiguratorFactory'' configuratorAddress signer in
     await (lift_result (deref (getParamPerNetwork (env_FORK rt) (ReserveAssets poolConfig) (network_name rt)))) (\<lambda>reserveAssets.
     for_each (verify_reserve rt poolConfig addressesProvider lendingPoolProxy lendingPoolConfigurator) reserveAssets))))))))))"

end
