(* ===== verification/VaultFacts.thy ===== *)
theory VaultFacts
  imports Registry
begin

text \<open>
  What a vault deployment leaves behind when it returns: the proxy the provider holds, the
  implementation behind it, the provider's configured entries and the database entries. Proved once
  over the interface of the registry, for the twenty deployments of a proxied contract.
\<close>

section \<open>The vault deployments\<close>

text \<open>
  For each deployment the provider key of its proxy, the identifiers its implementation and the
  proxy are recorded under, the factory its getter attaches, and the entries it sets at the
  provider with the configured values.
\<close>

record vault_entry =
  vault_key :: string
  vault_impl_id :: string
  vault_id :: string
  vault_factory :: string

definition vault_deployments ::
    "'x runtime \<Rightarrow> (vault_entry \<times> ('x runtime \<Rightarrow> bool \<Rightarrow> ('x, Instance) io) \<times> (string \<times> js_val result) list) list" where
  "vault_deployments rt =
     [(\<lparr>vault_key = ''LIDO_VAULT'', vault_impl_id = ''LidoVaultImpl'', vault_id = ''LidoVault'', vault_factory = ''LidoVaultFactory''\<rparr>, deployLidoVault,
       [(''LIDO'', networkParam rt SturdyConfig ''Lido'' (network_name rt)),
        (''STETH_ETH_POOL'', networkParam rt SturdyConfig ''CurveswapLidoPool'' (network_name rt)),
        (''uniswapRouter'', networkParam rt SturdyConfig ''UniswapRouter'' (network_name rt)),
        (''WETH'', networkParam rt SturdyConfig ''WETH'' (network_name rt))]),
      (\<lparr>vault_key = ''YEARN_RETH_WSTETH_VAULT'', vault_impl_id = ''YearnRETHWstETHVaultImpl'', vault_id = ''YearnRETHWstETHVault'', vault_factory = ''YearnRETHWstETHVaultFactory''\<rparr>, deployYearnRETHWstETHVaultVault,
       [(''YVRETH_WSTETH'', networkParam rt SturdyConfig ''YearnRETHWstETHVault'' (network_name rt)),
        (''RETH_WSTETH'', networkParam rt SturdyConfig ''RETH_WSTETH_LP'' (network_name rt)),
        (''WSTETH'', networkParam rt SturdyConfig ''WSTETH'' (network_name rt))]),
      (\<lparr>vault_key = ''CONVEX_ROCKET_POOL_ETH_VAULT'', vault_impl_id = ''ConvexRocketPoolETHVaulttImpl'', vault_id = ''ConvexRocketPoolETHVault'', vault_factory = ''ConvexCurveLPVaultFactory''\<rparr>, deployConvexRocketPoolETHVault,
       [(''RETH_WSTETH'', networkParam rt SturdyConfig ''RETH_WSTETH_LP'' (network_name rt)),
        (''WSTETH'', networkParam rt SturdyConfig ''WSTETH'' (network_name rt)),
        (''CRV'', networkParam rt SturdyConfig ''CRV'' (network_name rt)),
        (''CVX'', networkParam rt SturdyConfig ''CVX'' (network_name rt))]),
      (\<lparr>vault_key = ''CONVEX_FRAX_3CRV_VAULT'', vault_impl_id = ''ConvexFRAX3CRVVaultImpl'', vault_id = ''ConvexFRAX3CRVVault'', vault_factory = ''ConvexCurveLPVaultFactory''\<rparr>, deployConvexFRAX3CRVVault,
       [(''CRV'', networkParam rt SturdyConfig ''CRV'' (network_name rt)),
        (''CVX'', networkParam rt SturdyConfig ''CVX'' (network_name rt))]),
      (\<lparr>vault_key = ''CONVEX_STETH_VAULT'', vault_impl_id = ''ConvexSTETHVaultImpl'', vault_id = ''ConvexSTETHVault'', vault_factory = ''ConvexCurveLPVaultFactory''\<rparr>, deployConvexSTETHVault,
       [(''CRV'', networkParam rt SturdyConfig ''CRV'' (network_name rt)),
        (''CVX'', networkParam rt SturdyConfig ''CVX'' (network_name rt))]),
      (\<lparr>vault_key = ''CONVEX_DOLA_3CRV_VAULT'', vault_impl_id = ''ConvexDOLA3CRVVaultImpl'', vault_id = ''ConvexDOLA3CRVVault'', vault_factory = ''ConvexCurveLPVaultFactory''\<rparr>, deployConvexDOLA3CRVVault,
       [(''CRV'', networkParam rt SturdyConfig ''CRV'' (network_name rt)),
        (''CVX'', networkParam rt SturdyConfig ''CVX'' (network_name rt))]),
      (\<lparr>vault_key = ''YEARN_VAULT'', vault_impl_id = ''YearnVaultImpl'', vault_id = ''YearnVault'', vault_factory = ''YearnVaultFactory''\<rparr>, deployYearnVault,
       [(''YVWFTM'', networkParam rt FantomConfig ''YearnVaultFTM'' (network_name rt)),
        (''uniswapRouter'', networkParam rt FantomConfig ''UniswapRouter'' (network_name rt)),
        (''WFTM'', networkParam rt FantomConfig ''WFTM'' (network_name rt))]),
      (\<lparr>vault_key = ''YEARN_WETH_VAULT'', vault_impl_id = ''YearnWETHVaultImpl'', vault_id = ''YearnWETHVault'', vault_factory = ''YearnWETHVaultFactory''\<rparr>, deployYearnWETHVault,
       [(''YVWETH'', networkParam rt FantomConfig ''YearnWETHVaultFTM'' (network_name rt)),
        (''WETH'', networkParam rt FantomConfig ''WETH'' (network_name rt))]),
      (\<lparr>vault_key = ''YEARN_WBTC_VAULT'', vault_impl_id = ''YearnWBTCVaultImpl'', vault_id = ''YearnWBTCVault'', vault_factory = ''YearnWBTCVaultFactory''\<rparr>, deployYearnWBTCVault,
       [(''YVWBTC'', networkParam rt FantomConfig ''YearnWBTCVaultFTM'' (network_name rt)),
        (''WBTC'', networkParam rt FantomConfig ''WBTC'' (network_name rt))]),
      (\<lparr>vault_key = ''YEARN_BOO_VAULT'', vault_impl_id = ''YearnBOOVaultImpl'', vault_id = ''YearnBOOVault'', vault_factory = ''YearnBOOVaultFactory''\<rparr>, deployYearnBOOVault,
       [(''YVBOO'', networkParam rt FantomConfig ''YearnBOOVaultFTM'' (network_name rt)),
        (''BOO'', networkParam rt FantomConfig ''BOO'' (network_name rt))]),
      (\<lparr>vault_key = ''BEEFY_TOMB_FTM_VAULT'', vault_impl_id = ''TombFtmBeefyVaultImpl'', vault_id = ''TombFtmBeefyVault'', vault_factory = ''TombFtmBeefyVaultFactory''\<rparr>, deployTombFTMBeefyVault,
       [(''mooTombTOMB-FTM'', networkParam rt FantomConfig ''BeefyVaultTOMB_FTM'' (network_name rt)),
        (''TOMB_FTM_LP'', networkParam rt FantomConfig ''TOMB_FTM_LP'' (network_name rt)),
        (''TOMB'', networkParam rt FantomConfig ''TOMB'' (network_name rt))]),
      (\<lparr>vault_key = ''BEEFY_TOMB_MIMATIC_VAULT'', vault_impl_id = ''TombMiMaticBeefyVaultImpl'', vault_id = ''TombMiMaticBeefyVault'', vault_factory = ''TombMimaticBeefyVaultFactory''\<rparr>, deployTombMiMaticBeefyVault,
       [(''mooTombTOMB-MIMATIC'', networkParam rt FantomConfig ''BeefyVaultTOMB_MIMATIC'' (network_name rt)),
        (''TOMB_MIMATIC_LP'', networkParam rt FantomConfig ''TOMB_MIMATIC_LP'' (network_name rt)),
        (''MIMATIC'', networkParam rt FantomConfig ''MIMATIC'' (network_name rt)),
        (''USDC'', reserveAssetParam rt FantomConfig ''USDC'' (network_name rt)),
        (''tombSwapRouter'', networkParam rt FantomConfig ''TombSwapRouter'' (network_name rt))]),
      (\<lparr>vault_key = ''BEEFY_BASED_MIMATIC_VAULT'', vault_impl_id = ''BasedMiMaticBeefyVaultImpl'', vault_id = ''BasedMiMaticBeefyVault'', vault_factory = ''BasedMimaticBeefyVaultFactory''\<rparr>, deployBasedMiMaticBeefyVault,
       [(''mooTombBASED-MIMATIC'', networkParam rt FantomConfig ''BeefyVaultBASED_MIMATIC'' (network_name rt)),
        (''BASED_MIMATIC_LP'', networkParam rt FantomConfig ''BASED_MIMATIC_LP'' (network_name rt)),
        (''BASED'', networkParam rt FantomConfig ''BASED'' (network_name rt))]),
      (\<lparr>vault_key = ''YEARN_FBEETS_VAULT'', vault_impl_id = ''YearnFBEETSVaultImpl'', vault_id = ''YearnFBEETSVault'', vault_factory = ''YearnFBEETSVaultFactory''\<rparr>, deployYearnFBeetsVault,
       [(''YVFBEETS'', networkParam rt FantomConfig ''YearnFBEETSVaultFTM'' (network_name rt)),
        (''fBEETS'', networkParam rt FantomConfig ''fBEETS'' (network_name rt)),
        (''BEETS'', networkParam rt FantomConfig ''BEETS'' (network_name rt))]),
      (\<lparr>vault_key = ''YEARN_LINK_VAULT'', vault_impl_id = ''YearnLINKVaultImpl'', vault_id = ''YearnLINKVault'', vault_factory = ''YearnLINKVaultFactory''\<rparr>, deployYearnLINKVault,
       [(''YVLINK'', networkParam rt FantomConfig ''YearnLINKVaultFTM'' (network_name rt)),
        (''LINK'', networkParam rt FantomConfig ''LINK'' (network_name rt))]),
      (\<lparr>vault_key = ''BEEFY_ETH_VAULT'', vault_impl_id = ''BeefyETHVaultImpl'', vault_id = ''BeefyETHVault'', vault_factory = ''BeefyETHVaultFactory''\<rparr>, deployBeefyETHVault,
       [(''MOOWETH'', networkParam rt FantomConfig ''BeefyETHVault'' (network_name rt)),
        (''WETH'', networkParam rt FantomConfig ''WETH'' (network_name rt))]),
      (\<lparr>vault_key = ''YEARN_CRV_VAULT'', vault_impl_id = ''YearnCRVVaultImpl'', vault_id = ''YearnCRVVault'', vault_factory = ''YearnCRVVaultFactory''\<rparr>, deployYearnCRVVault,
       [(''YVCRV'', networkParam rt FantomConfig ''YearnCRVVaultFTM'' (network_name rt)),
        (''CRV'', networkParam rt FantomConfig ''CRV'' (network_name rt))]),
      (\<lparr>vault_key = ''YEARN_SPELL_VAULT'', vault_impl_id = ''YearnSPELLVaultImpl'', vault_id = ''YearnSPELLVault'', vault_factory = ''YearnSPELLVaultFactory''\<rparr>, deployYearnSPELLVault,
       [(''YVSPELL'', networkParam rt FantomConfig ''YearnSPELLVaultFTM'' (network_name rt)),
        (''SPELL'', networkParam rt FantomConfig ''SPELL'' (network_name rt))]),
      (\<lparr>vault_key = ''COLLATERAL_ADAPTER'', vault_impl_id = ''CollateralAdapterImpl'', vault_id = ''CollateralAdapter'', vault_factory = ''CollateralAdapterFactory''\<rparr>, deployCollateralAdapter,
       []),
      (\<lparr>vault_key = ''YIELD_MANAGER'', vault_impl_id = ''YieldManagerImpl'', vault_id = ''YieldManager'', vault_factory = ''YieldManagerFactory''\<rparr>, deployYieldManager,
       [])]"

lemmas vault_deployment_defs =
  deployLidoVault_def deployYearnRETHWstETHVaultVault_def deployConvexRocketPoolETHVault_def
  deployConvexFRAX3CRVVault_def deployConvexSTETHVault_def deployConvexDOLA3CRVVault_def
  deployYearnVault_def deployYearnWETHVault_def deployYearnWBTCVault_def
  deployYearnBOOVault_def deployTombFTMBeefyVault_def deployTombMiMaticBeefyVault_def
  deployBasedMiMaticBeefyVault_def deployYearnFBeetsVault_def deployYearnLINKVault_def
  deployBeefyETHVault_def deployYearnCRVVault_def deployYearnSPELLVault_def
  deployCollateralAdapter_def deployYieldManager_def

lemmas vault_getter_defs =
  getLidoVault_def getYearnRETHWstETHVault_def getConvexRocketPoolETHVault_def
  getConvexFRAX3CRVVault_def getConvexSTETHVault_def getConvexDOLA3CRVVault_def
  getYearnVault_def getYearnWETHVault_def getYearnWBTCVault_def
  getYearnBOOVault_def getTombFtmBeefyVault_def getTombMiMaticBeefyVault_def
  getBasedMiMaticBeefyVault_def getYearnFBEETSVault_def getYearnLINKVault_def
  getBeefyETHVault_def getYearnCRVVault_def getYearnSPELLVault_def
  getCollateralAdapter_def getYieldManager_def

lemma is_provider_attach [simp]: "is_provider (attach ''LendingPoolAddressesProviderFactory'' a s)"
  by (simp add: is_provider_def attach_def)

lemma contract_address_attach [simp]: "contract_address (attach f a s) = a"
  by (simp add: attach_def)

lemma loadPoolConfig_markets [simp]:
  "loadPoolConfig ''Sturdy'' = Inr SturdyConfig" "loadPoolConfig ''Fantom'' = Inr FantomConfig"
  by (simp_all add: loadPoolConfig_def)

context addresses_registry
begin

text \<open>What a returned vault \<open>v\<close> satisfies in the state \<open>w\<close>.\<close>

definition vault_in_place :: "vault_entry \<Rightarrow> (string \<times> js_val result) list \<Rightarrow> Instance \<Rightarrow> 'x world \<Rightarrow> bool" where
  "vault_in_place e settings v w \<longleftrightarrow>
     (\<exists>prov impl signer.
        db_entry_of rt w ''LendingPoolAddressesProvider'' = Some prov
        \<and> db_entry_of rt w (vault_impl_id e) = Some impl
        \<and> db_entry_of rt w (vault_id e) = Some \<lparr>entry_address = contract_address v, entry_deployer = None\<rparr>
        \<and> v = attach (vault_factory e) (contract_address v) signer
        \<and> registered (network_state w) (entry_address prov) (vault_key e) = contract_address v
        \<and> implementation (network_state w) (contract_address v) = entry_address impl
        \<and> (\<forall>(k, p) \<in> set settings. p = Inr (VStr (registered (network_state w) (entry_address prov) k))))"

text \<open>The steps before the implementation is recorded: nothing they leave matters later.\<close>

lemmas post_first_steps =
  post_any [where m = "deploy rt factory signer args" for factory signer args]
  post_any [where m = "deployLinked rt factory libraries signer args" for factory libraries signer args]
  post_any [where m = "deployYieldManagerLibraries rt verify" for verify]
  post_any [where m = "deployYearnRETHWstETHVaultLibraries rt verify" for verify]

lemmas vault_steps =
  post_await post_getFirstSigner post_withSaveAndVerify post_provider post_setAddressAsProxy
  post_fromConfig post_reserveAssetFromConfig post_getAddress post_insert post_lift
  post_recordedAddress post_return post_first_steps is_provider_attach

lemma vault_deployments_in_place:
  "(e, d, settings) \<in> set (vault_deployments rt) \<Longrightarrow> post (d rt verify) (vault_in_place e settings) w"
  unfolding vault_deployments_def
  by (simp, elim disjE; clarsimp; unfold vault_deployment_defs vault_getter_defs;
      intro vault_steps; clarsimp simp: vault_in_place_def; auto)

end

end
