(* ===== verification/Chain.thy ===== *)
theory Chain
  imports VaultFacts
begin

text \<open>
  A network for the scripts to run on: accounts, contract creation and the storage of
  \<^verbatim>\<open>contracts/protocol/configuration/LendingPoolAddressesProvider.sol\<close> with the proxies it creates
  (\<^verbatim>\<open>InitializableImmutableAdminUpgradeabilityProxy.sol\<close>, \<^verbatim>\<open>VersionedInitializable.sol\<close>).
  It provides the interface of the registry. Contracts other than the provider accept every call and
  keep their storage to themselves; a contract's revision, which decides whether a proxy can be
  upgraded to it, is a parameter, a function of its factory (0 for a contract without an
  initializer). Gas, value, events and time are left out.
\<close>

section \<open>Storage\<close>

record provider_contract =
  owner :: string
  addresses :: "string obj"

record proxy_contract =
  proxy_implementation :: string
  lastInitializedRevision :: nat

record evm =
  accounts :: "string list"
  created :: nat
  code_revision :: "nat obj"
  providers :: "provider_contract obj"
  proxies :: "proxy_contract obj"

text \<open>\<open>_addresses[id]\<close>: the zero address for an id that was never set.\<close>

definition provider_getAddress :: "provider_contract \<Rightarrow> string \<Rightarrow> string" where
  "provider_getAddress c k = (case obj_get (addresses c) k of None \<Rightarrow> ZERO_ADDRESS | Some a \<Rightarrow> a)"

fun hex_digits :: "nat \<Rightarrow> nat \<Rightarrow> string" where
  "hex_digits 0 n = []"
| "hex_digits (Suc k) n = hex_digits k (n div 16) @ [''0123456789abcdef'' ! (n mod 16)]"

text \<open>The address of the \<open>n\<close>-th contract created: a made-up one, never the zero address.\<close>

definition contract_at :: "nat \<Rightarrow> string" where
  "contract_at n = ''0x1'' @ hex_digits 39 n"

definition hex_chars :: string where
  "hex_chars = ''0123456789abcdefABCDEF''"

definition is_address :: "string \<Rightarrow> bool" where
  "is_address a \<longleftrightarrow> length a = 42 \<and> take 2 a = ''0x''
     \<and> list_all (\<lambda>c. c \<in> set hex_chars) (drop 2 a)"

section \<open>The addresses provider\<close>

definition revert :: "string \<Rightarrow> 'a result" where
  "revert reason = Inl (Rejected reason)"

definition setAddress_tx :: "string \<Rightarrow> provider_contract \<Rightarrow> string \<Rightarrow> string \<Rightarrow> evm \<Rightarrow> evm" where
  "setAddress_tx p c k newAddress x =
     x\<lparr>providers := obj_set p (c\<lparr>addresses := obj_set k newAddress (addresses c)\<rparr>) (providers x)\<rparr>"

text \<open>
  \<open>_updateImpl\<close>: a new proxy initialized with the implementation when there is none under the id,
  otherwise an upgrade in place, which the initializer refuses unless the revision is higher than
  the one the proxy was last initialized with. The implementation must be a contract, and says so;
  the proxy checks the delegated call to the initializer by a bare \<open>require(success)\<close>, so that
  whatever the initializer's own reason, or with no initializer at all, the transaction is reverted
  with no reason, here the empty one. So is the call of an address that is no proxy.
\<close>

definition updateImpl :: "string \<Rightarrow> provider_contract \<Rightarrow> string \<Rightarrow> string \<Rightarrow> evm \<Rightarrow> evm result" where
  "updateImpl p c k newAddress x =
     (let proxyAddress = provider_getAddress c k in
      if proxyAddress = ZERO_ADDRESS
      then
        (case obj_get (code_revision x) newAddress of
           None \<Rightarrow> revert ''Cannot set a proxy implementation to a non-contract address''
         | Some revision \<Rightarrow>
             let proxy = contract_at (Suc (created x)) in
             if revision > 0
             then Inr (setAddress_tx p c k proxy
                    (x\<lparr>created := Suc (created x),
                       code_revision := obj_set proxy 0 (code_revision x),
                       proxies := obj_set proxy
                         \<lparr>proxy_implementation = newAddress, lastInitializedRevision = revision\<rparr> (proxies x)\<rparr>))
             else revert [])
      else
        (case obj_get (proxies x) proxyAddress of
           None \<Rightarrow> revert []
         | Some proxy \<Rightarrow>
             (case obj_get (code_revision x) newAddress of
                None \<Rightarrow> revert ''Cannot set a proxy implementation to a non-contract address''
              | Some revision \<Rightarrow>
                  if revision > lastInitializedRevision proxy
                  then Inr (x\<lparr>proxies := obj_set proxyAddress
                         \<lparr>proxy_implementation = newAddress, lastInitializedRevision = revision\<rparr> (proxies x)\<rparr>)
                  else revert [])))"

text \<open>
  The setters of one fixed entry, with its id: those that put an implementation behind a proxy, and
  those that store the address itself. Each has a getter.
\<close>

definition impl_setters :: "(string \<times> string) list" where
  "impl_setters =
     [(''setLendingPoolImpl'', ''LENDING_POOL''),
      (''setIncentiveControllerImpl'', ''INCENTIVE_CONTROLLER''),
      (''setIncentiveTokenImpl'', ''INCENTIVE_TOKEN''),
      (''setLendingPoolConfiguratorImpl'', ''LENDING_POOL_CONFIGURATOR'')]"

definition plain_setters :: "(string \<times> string) list" where
  "plain_setters =
     [(''setLendingPoolCollateralManager'', ''COLLATERAL_MANAGER''),
      (''setPoolAdmin'', ''POOL_ADMIN''),
      (''setEmergencyAdmin'', ''EMERGENCY_ADMIN''),
      (''setPriceOracle'', ''PRICE_ORACLE''),
      (''setLendingRateOracle'', ''LENDING_RATE_ORACLE'')]"

definition provider_getters :: "(string \<times> string) list" where
  "provider_getters =
     [(''getLendingPool'', ''LENDING_POOL''),
      (''getIncentiveController'', ''INCENTIVE_CONTROLLER''),
      (''getIncentiveToken'', ''INCENTIVE_TOKEN''),
      (''getLendingPoolConfigurator'', ''LENDING_POOL_CONFIGURATOR''),
      (''getLendingPoolCollateralManager'', ''COLLATERAL_MANAGER''),
      (''getPoolAdmin'', ''POOL_ADMIN''),
      (''getEmergencyAdmin'', ''EMERGENCY_ADMIN''),
      (''getPriceOracle'', ''PRICE_ORACLE''),
      (''getLendingRateOracle'', ''LENDING_RATE_ORACLE'')]"

text \<open>
  The provider's transactions; \<open>onlyOwner\<close> guards all of them. ethers rejects an argument that is
  not an address before anything is sent.
\<close>

definition provider_tx :: "string \<Rightarrow> provider_contract \<Rightarrow> string \<Rightarrow> js_val list \<Rightarrow> evm \<Rightarrow> evm result" where
  "provider_tx p c meth args x =
     (if meth = ''setAddress'' then
        (case args of
           [VBytes32 k, VStr a] \<Rightarrow> if is_address a then Inr (setAddress_tx p c k a x) else revert ''invalid address''
         | _ \<Rightarrow> revert ''invalid arguments'')
      else if meth = ''setAddressAsProxy'' then
        (case args of
           [VBytes32 k, VStr a] \<Rightarrow> if is_address a then updateImpl p c k a x else revert ''invalid address''
         | _ \<Rightarrow> revert ''invalid arguments'')
      else
        (case map_of impl_setters meth of
           Some k \<Rightarrow>
             (case args of
                [VStr a] \<Rightarrow> if is_address a then updateImpl p c k a x else revert ''invalid address''
              | _ \<Rightarrow> revert ''invalid arguments'')
         | None \<Rightarrow>
             (case map_of plain_setters meth of
                Some k \<Rightarrow>
                  (case args of
                     [VStr a] \<Rightarrow> if is_address a then Inr (setAddress_tx p c k a x) else revert ''invalid address''
                   | _ \<Rightarrow> revert ''invalid arguments'')
              | None \<Rightarrow> revert ''function selector was not recognized'')))"

definition provider_view :: "provider_contract \<Rightarrow> string \<Rightarrow> js_val list \<Rightarrow> js_val result" where
  "provider_view c meth args =
     (if meth = ''getAddress'' then
        (case args of
           [VBytes32 k] \<Rightarrow> Inr (VStr (provider_getAddress c k))
         | _ \<Rightarrow> revert ''invalid arguments'')
      else
        (case map_of provider_getters meth of
           Some k \<Rightarrow> Inr (VStr (provider_getAddress c k))
         | None \<Rightarrow> revert ''function selector was not recognized''))"

section \<open>The network\<close>

definition evm_send :: "Instance \<Rightarrow> string \<Rightarrow> js_val list \<Rightarrow> evm \<Rightarrow> string result \<times> evm" where
  "evm_send inst meth args x =
     (case obj_get (providers x) (contract_address inst) of
        None \<Rightarrow> if is_provider inst then (revert ''call revert exception'', x) else (Inr ''0x'', x)
      | Some c \<Rightarrow>
          if connected_signer inst \<noteq> Some (owner c)
          then (revert ''Ownable: caller is not the owner'', x)
          else (case provider_tx (contract_address inst) c meth args x of
                  Inl e \<Rightarrow> (Inl e, x)
                | Inr x' \<Rightarrow> (Inr ''0x'', x')))"

definition evm_call :: "Instance \<Rightarrow> string \<Rightarrow> js_val list \<Rightarrow> evm \<Rightarrow> js_val result \<times> evm" where
  "evm_call inst meth args x =
     (case obj_get (providers x) (contract_address inst) of
        None \<Rightarrow> (revert ''call revert exception'', x)
      | Some c \<Rightarrow> (provider_view c meth args, x))"

definition evm_deploy ::
    "(string \<Rightarrow> nat) \<Rightarrow> string \<Rightarrow> string option \<Rightarrow> evm \<Rightarrow> Instance result \<times> evm" where
  "evm_deploy revisions factory signer x =
     (case signer of
        None \<Rightarrow> (revert ''sending a transaction requires a signer'', x)
      | Some s \<Rightarrow>
          let a = contract_at (Suc (created x)) in
          (Inr \<lparr>contract_abi = factory, contract_address = a, connected_signer = Some s,
                deployTransaction_from = Some s\<rparr>,
           x\<lparr>created := Suc (created x),
             code_revision := obj_set a (revisions factory) (code_revision x),
             providers := (if factory = ''LendingPoolAddressesProviderFactory''
                           then obj_set a \<lparr>owner = s, addresses = []\<rparr> (providers x) else providers x)\<rparr>))"

text \<open>
  The process environment and the compiled artifacts. A contract deployed from a bare ABI and
  bytecode has a name no generated factory has.
\<close>

record script_env =
  script_network :: string
  script_FORK :: "string option"
  script_TENDERLY :: "string option"
  script_DEFENDER :: "string option"
  script_ETHERSCAN_KEY :: "string option"
  script_artifacts :: "Artifact obj"
  script_revisions :: "string \<Rightarrow> nat"

definition evm_readArtifact :: "script_env \<Rightarrow> string \<Rightarrow> evm \<Rightarrow> Artifact result \<times> evm" where
  "evm_readArtifact env cid x =
     (case obj_get (script_artifacts env) cid of
        None \<Rightarrow> (Inl (Rejected ''HH700: Artifact not found''), x)
      | Some a \<Rightarrow> (Inr a, x))"

definition evm_runtime :: "script_env \<Rightarrow> evm runtime" where
  "evm_runtime env =
     \<lparr>network_name = script_network env, env_FORK = script_FORK env, env_TENDERLY = script_TENDERLY env,
      env_DEFENDER = script_DEFENDER env, env_ETHERSCAN_KEY = script_ETHERSCAN_KEY env,
      rt_getSigners = (\<lambda>x. (Inr (accounts x), x)),
      rt_getSigner = (\<lambda>a x. (Inr a, x)),
      rt_getBalance = (\<lambda>a x. (Inr 0, x)),
      rt_impersonate = (\<lambda>a x. (Inr (), x)),
      rt_deploy = (\<lambda>factory libraries signer args. evm_deploy (script_revisions env) factory signer),
      rt_deployBytecode = (\<lambda>abi bytecode signer. evm_deploy (script_revisions env) (''ABI '' @ abi) signer),
      rt_deployByName = (\<lambda>cid signer args. evm_deploy (script_revisions env) cid signer),
      rt_buidlerReadArtifact = evm_readArtifact env,
      rt_readArtifact = evm_readArtifact env,
      rt_send = evm_send,
      rt_wait = (\<lambda>tx x. (Inr (), x)),
      rt_call = evm_call,
      rt_tenderlyVerify = (\<lambda>cid a x. (Inr (), x)),
      rt_tempFile = (\<lambda>args x. (Inr ''/tmp/verify-params.js'', x)),
      rt_cleanup = (\<lambda>path x. x),
      rt_run = (\<lambda>task params x. (Inr (), x))\<rparr>"

section \<open>The network provides the registry\<close>

definition evm_registered :: "evm \<Rightarrow> string \<Rightarrow> string \<Rightarrow> string" where
  "evm_registered x p k =
     (case obj_get (providers x) p of None \<Rightarrow> ZERO_ADDRESS | Some c \<Rightarrow> provider_getAddress c k)"

definition evm_implementation :: "evm \<Rightarrow> string \<Rightarrow> string" where
  "evm_implementation x a =
     (case obj_get (proxies x) a of None \<Rightarrow> ZERO_ADDRESS | Some c \<Rightarrow> proxy_implementation c)"

lemma evm_runtime_simps [simp]:
  "network_name (evm_runtime env) = script_network env" "env_FORK (evm_runtime env) = script_FORK env"
  "env_TENDERLY (evm_runtime env) = script_TENDERLY env" "env_DEFENDER (evm_runtime env) = script_DEFENDER env"
  "env_ETHERSCAN_KEY (evm_runtime env) = script_ETHERSCAN_KEY env"
  "rt_getSigners (evm_runtime env) x = (Inr (accounts x), x)"
  "rt_getSigner (evm_runtime env) a x = (Inr a, x)" "rt_getBalance (evm_runtime env) a x = (Inr 0, x)"
  "rt_impersonate (evm_runtime env) a x = (Inr (), x)"
  "rt_deploy (evm_runtime env) factory libraries signer args = evm_deploy (script_revisions env) factory signer"
  "rt_send (evm_runtime env) = evm_send" "rt_wait (evm_runtime env) tx x = (Inr (), x)"
  "rt_call (evm_runtime env) = evm_call"
  by (simp_all add: evm_runtime_def)

lemma provider_getAddress_set [simp]:
  "provider_getAddress (c\<lparr>addresses := obj_set k a (addresses c)\<rparr>) k' = (if k' = k then a else provider_getAddress c k')"
  by (simp add: provider_getAddress_def)

lemma registered_setAddress_tx:
  "obj_get (providers x) p = Some c \<Longrightarrow>
   evm_registered (setAddress_tx p c k a x) = (evm_registered x)(p := (evm_registered x p)(k := a))"
  by (auto simp: setAddress_tx_def evm_registered_def fun_eq_iff)

lemma implementation_setAddress_tx [simp]: "evm_implementation (setAddress_tx p c k a x) = evm_implementation x"
  by (simp add: setAddress_tx_def evm_implementation_def fun_eq_iff)

lemma registered_only_providers [simp]:
  "evm_registered (x\<lparr>created := n, code_revision := r, proxies := px\<rparr>) = evm_registered x"
  "evm_registered (x\<lparr>proxies := px\<rparr>) = evm_registered x"
  by (simp_all add: evm_registered_def fun_eq_iff)

lemma updateImpl_Inr:
  assumes "updateImpl p c k a x = Inr x'" "obj_get (providers x) p = Some c"
  shows "evm_implementation x' (evm_registered x' p k) = a
    \<and> (\<forall>q k'. q \<noteq> p \<or> k' \<noteq> k \<longrightarrow> evm_registered x' q k' = evm_registered x q k')
    \<and> (evm_registered x p k \<noteq> ZERO_ADDRESS \<longrightarrow> evm_registered x' = evm_registered x)"
proof (cases "provider_getAddress c k = ZERO_ADDRESS")
  case True
  let ?y = "\<lambda>r. x\<lparr>created := Suc (created x),
    code_revision := obj_set (contract_at (Suc (created x))) 0 (code_revision x),
    proxies := obj_set (contract_at (Suc (created x)))
      \<lparr>proxy_implementation = a, lastInitializedRevision = r\<rparr> (proxies x)\<rparr>"
  have y: "obj_get (providers (?y r)) p = Some c" for r using assms(2) by simp
  from True assms(1) obtain r where "x' = setAddress_tx p c k (contract_at (Suc (created x))) (?y r)"
    by (auto simp: updateImpl_def bindR_Inr_iff Let_def revert_def split: if_splits option.splits)
  with registered_setAddress_tx [OF y [of r]] True assms(2) show ?thesis
    by (simp add: evm_implementation_def evm_registered_def setAddress_tx_def)
next
  case False
  with assms obtain r where "x' = x\<lparr>proxies := obj_set (provider_getAddress c k)
      \<lparr>proxy_implementation = a, lastInitializedRevision = r\<rparr> (proxies x)\<rparr>"
    by (auto simp: updateImpl_def bindR_Inr_iff Let_def revert_def split: if_splits option.splits)
  with assms(2) show ?thesis by (simp add: evm_implementation_def evm_registered_def)
qed

lemma evm_send_Inr:
  "evm_send inst meth args x = (Inr tx, x') \<Longrightarrow> is_provider inst \<Longrightarrow>
   \<exists>c. obj_get (providers x) (contract_address inst) = Some c
     \<and> provider_tx (contract_address inst) c meth args x = Inr x'"
  by (auto simp: evm_send_def revert_def split: option.splits if_splits sum.splits)

interpretation evm: addresses_registry "evm_runtime env" evm_registered evm_implementation
proof unfold_locales
  fix p k v x tx x'
  assume p: "is_provider p" and "rt_send (evm_runtime env) p ''setAddress'' [VBytes32 k, v] x = (Inr tx, x')"
  then obtain c where "obj_get (providers x) (contract_address p) = Some c"
    "provider_tx (contract_address p) c ''setAddress'' [VBytes32 k, v] x = Inr x'"
    using evm_send_Inr by fastforce
  then show "\<exists>a. v = VStr a \<and> evm_implementation x' = evm_implementation x
      \<and> evm_registered x' = (evm_registered x)
          (contract_address p := (evm_registered x (contract_address p))(k := a))"
    by (auto simp: provider_tx_def revert_def registered_setAddress_tx split: js_val.splits if_splits)
next
  fix p k a x tx x'
  assume p: "is_provider p" and "rt_send (evm_runtime env) p ''setAddressAsProxy'' [VBytes32 k, VStr a] x = (Inr tx, x')"
  then obtain c where c: "obj_get (providers x) (contract_address p) = Some c"
    "provider_tx (contract_address p) c ''setAddressAsProxy'' [VBytes32 k, VStr a] x = Inr x'"
    using evm_send_Inr by fastforce
  then have "updateImpl (contract_address p) c k a x = Inr x'"
    by (simp add: provider_tx_def revert_def split: if_splits)
  from updateImpl_Inr [OF this c(1)]
  show "evm_implementation x' (evm_registered x' (contract_address p) k) = a
      \<and> (\<forall>q k'. q \<noteq> contract_address p \<or> k' \<noteq> k \<longrightarrow> evm_registered x' q k' = evm_registered x q k')"
    by blast
qed (auto simp: evm_call_def provider_view_def evm_registered_def revert_def split: option.splits)

end
