(* ===== verification/VaultRuns.thy ===== *)
theory VaultRuns
  imports Chain
begin

text \<open>
  The vault deployments run on the network of \<^verbatim>\<open>Chain\<close>: when they return, what they leave (from
  the interface), that they do return on a network that is ready for them, and what is left when
  the provider refuses to upgrade a proxy.
\<close>

section \<open>A network ready for the scripts\<close>

text \<open>
  The first account \<open>s\<close> owns the provider at \<open>p\<close> the database records, and no relay signer
  replaces it.
\<close>

definition ready :: "script_env \<Rightarrow> string \<Rightarrow> string \<Rightarrow> evm world \<Rightarrow> bool" where
  "ready env s p w \<longleftrightarrow>
     script_DEFENDER env \<noteq> Some ''true''
     \<and> (\<exists>others. accounts (network_state w) = s # others)
     \<and> (\<exists>d. db_entry_of (evm_runtime env) w ''LendingPoolAddressesProvider'' = Some \<lparr>entry_address = p, entry_deployer = d\<rparr>)
     \<and> (\<exists>c. obj_get (providers (network_state w)) p = Some c \<and> owner c = s)"

text \<open>An implementation of revision \<open>r\<close> can go behind the proxy the provider holds under \<open>k\<close>.\<close>

definition upgradable :: "evm \<Rightarrow> string \<Rightarrow> string \<Rightarrow> nat \<Rightarrow> bool" where
  "upgradable x p k r \<longleftrightarrow>
     (if evm_registered x p k = ZERO_ADDRESS then r > 0
      else \<exists>px. obj_get (proxies x) (evm_registered x p k) = Some px \<and> lastInitializedRevision px < r)"

lemma ready_same_chain:
  "ready env s p w \<Longrightarrow> network_state w' = network_state w \<Longrightarrow>
   db_entry_of (evm_runtime env) w' ''LendingPoolAddressesProvider'' = db_entry_of (evm_runtime env) w ''LendingPoolAddressesProvider'' \<Longrightarrow>
   ready env s p w'"
  by (simp add: ready_def)

lemma getFirstSigner_run:
  assumes "ready env s p w"
  shows "getFirstSigner (evm_runtime env) w = (Inr (Some s), w)"
  using assms
  by (auto simp: ready_def getFirstSigner_def getEthersSigners_def usingDefender_def await_def on_network_def
      return_io_def js_at_def)

lemma length_hex_digits [simp]: "length (hex_digits k n) = k"
  by (induction k n rule: hex_digits.induct) simp_all

lemma hex_digit_in: "''0123456789abcdef'' ! (n mod 16) \<in> set hex_chars"
proof -
  have "''0123456789abcdef'' ! (n mod 16) \<in> set ''0123456789abcdef''" by (rule nth_mem) simp
  then show ?thesis unfolding hex_chars_def by auto
qed

lemma hex_digits_set: "c \<in> set (hex_digits k n) \<Longrightarrow> c \<in> set hex_chars"
  by (induction k n rule: hex_digits.induct) (auto simp: hex_digit_in)

lemma is_address_contract_at [simp]: "is_address (contract_at n)"
  using hex_digits_set by (auto simp: is_address_def contract_at_def list_all_iff hex_chars_def)

lemma total_getFirstSigner:
  "ready env s p w \<Longrightarrow> Q (Some s) w \<Longrightarrow> total (getFirstSigner (evm_runtime env)) Q w"
  by (simp add: total_def getFirstSigner_run)

lemma evm_registered_deploy:
  "evm_deploy revisions F signer x = (Inr i, x') \<Longrightarrow> F \<noteq> ''LendingPoolAddressesProviderFactory'' \<Longrightarrow>
   evm_registered x' = evm_registered x \<and> proxies x' = proxies x \<and> providers x' = providers x \<and> accounts x' = accounts x
   \<and> obj_get (code_revision x') (contract_address i) = Some (revisions F)"
  by (auto simp: evm_deploy_def Let_def revert_def evm_registered_def fun_eq_iff split: option.splits)

lemma evm_deploy_Some:
  "\<exists>i x'. evm_deploy revisions F (Some s) x = (Inr i, x') \<and> is_address (contract_address i)
     \<and> deployTransaction_from i = Some s"
  by (simp add: evm_deploy_def Let_def)

lemma total_evm_deploy:
  assumes "ready env s p w" "F \<noteq> ''LendingPoolAddressesProviderFactory''"
    and "\<And>i w'. ready env s p w' \<Longrightarrow> is_address (contract_address i) \<Longrightarrow> deployTransaction_from i = Some s \<Longrightarrow>
      evm_registered (network_state w') = evm_registered (network_state w) \<Longrightarrow>
      proxies (network_state w') = proxies (network_state w) \<Longrightarrow>
      db_entry_of (evm_runtime env) w' = db_entry_of (evm_runtime env) w \<Longrightarrow>
      obj_get (code_revision (network_state w')) (contract_address i) = Some (script_revisions env F) \<Longrightarrow> Q i w'"
  shows "total (on_network (evm_deploy (script_revisions env) F (Some s))) Q w"
proof -
  obtain i x' where run: "evm_deploy (script_revisions env) F (Some s) (network_state w) = (Inr i, x')"
    and i: "is_address (contract_address i)" "deployTransaction_from i = Some s"
    using evm_deploy_Some by blast
  show ?thesis
    by (rule total_network [where f = "evm_deploy (script_revisions env) F (Some s)", OF run], rule assms(3))
      (use evm_registered_deploy [OF run assms(2)] i assms(1) in \<open>auto simp: ready_def fun_eq_iff\<close>)
qed

lemma total_deploy:
  assumes "ready env s p w" "F \<noteq> ''LendingPoolAddressesProviderFactory''"
    and "\<And>i w'. ready env s p w' \<Longrightarrow> is_address (contract_address i) \<Longrightarrow> deployTransaction_from i = Some s \<Longrightarrow>
      evm_registered (network_state w') = evm_registered (network_state w) \<Longrightarrow>
      proxies (network_state w') = proxies (network_state w) \<Longrightarrow>
      db_entry_of (evm_runtime env) w' = db_entry_of (evm_runtime env) w \<Longrightarrow>
      obj_get (code_revision (network_state w')) (contract_address i) = Some (script_revisions env F) \<Longrightarrow> Q i w'"
  shows "total (deploy (evm_runtime env) F (Some s) args) Q w"
    and "total (deployLinked (evm_runtime env) F libs (Some s) args) Q w"
  using total_evm_deploy [OF assms] by (simp_all add: deploy_def deployLinked_def)

lemma total_withSave:
  assumes "ready env s p w" "deployTransaction_from i = Some s" "cid \<noteq> ''LendingPoolAddressesProvider''"
    and "\<And>w'. ready env s p w' \<Longrightarrow> network_state w' = network_state w \<Longrightarrow>
      db_entry_of (evm_runtime env) w' = (db_entry_of (evm_runtime env) w)
        (cid \<mapsto> \<lparr>entry_address = contract_address i, entry_deployer = Some s\<rparr>) \<Longrightarrow> Q i w'"
  shows "total (withSaveAndVerify (evm_runtime env) i cid args False) Q w"
proof -
  let ?rt = "evm_runtime env"
  let ?e = "\<lparr>entry_address = contract_address i, entry_deployer = Some s\<rparr>"
  let ?w = "w\<lparr>deployed_contracts := db_update cid (script_network env) ?e (deployed_contracts w)\<rparr>"
  have "withSaveAndVerify ?rt i cid args False w = (Inr i, ?w)"
    using assms(2)
    by (simp add: withSaveAndVerify_def waitForDeployment_def registerContractInJsonDb_def await_def lift_result_def
        waitForTx_def on_network_def db_set_def return_io_def)
  moreover have "db_entry_of ?rt ?w = (db_entry_of ?rt w)(cid \<mapsto> ?e)"
    by (auto simp: db_entry_of_def fun_eq_iff)
  moreover from this have "ready env s p ?w"
    using assms(1,3) by (intro ready_same_chain [OF assms(1)]) simp_all
  ultimately show ?thesis using assms(4) [of ?w] by (auto simp: total_def)
qed

lemma db_provider_ready:
  "ready env s p w \<Longrightarrow> \<exists>e. db_entry_of (evm_runtime env) w ''LendingPoolAddressesProvider'' = Some e \<and> entry_address e = p"
  by (auto simp: ready_def)

lemma total_provider:
  assumes "ready env s p w" "Q (attach ''LendingPoolAddressesProviderFactory'' p (Some s)) w"
  shows "total (getLendingPoolAddressesProvider (evm_runtime env) None) Q w"
  using db_provider_ready [OF assms(1)] assms
  by (auto simp: total_def getLendingPoolAddressesProvider_def await_recordedAddress getFirstSigner_run)

lemma evm_send_ready:
  assumes "ready env s p w" "obj_get (providers (network_state w)) p = Some c"
  shows "evm_send (attach ''LendingPoolAddressesProviderFactory'' p (Some s)) meth args (network_state w)
    = (case provider_tx p c meth args (network_state w) of Inl e \<Rightarrow> (Inl e, network_state w) | Inr x' \<Rightarrow> (Inr ''0x'', x'))"
  using assms by (auto simp: ready_def evm_send_def attach_def)

lemma sendAndWait_run:
  assumes "ready env s p w" "obj_get (providers (network_state w)) p = Some c"
    "provider_tx p c meth args (network_state w) = Inr x'"
  shows "sendAndWait (evm_runtime env) (attach ''LendingPoolAddressesProviderFactory'' p (Some s)) meth args w
    = (Inr (), w\<lparr>network_state := x'\<rparr>)"
  using evm_send_ready [OF assms(1,2), of meth args] assms(3)
  by (simp add: sendAndWait_def send_def waitForTx_def await_def on_network_def)

lemma sendAndWait_reverts:
  assumes "ready env s p w" "obj_get (providers (network_state w)) p = Some c"
    "provider_tx p c meth args (network_state w) = Inl e"
  shows "sendAndWait (evm_runtime env) (attach ''LendingPoolAddressesProviderFactory'' p (Some s)) meth args w = (Inl e, w)"
  using evm_send_ready [OF assms(1,2), of meth args] assms(3)
  by (simp add: sendAndWait_def send_def await_def on_network_def)

lemma ready_provider: "ready env s p w \<Longrightarrow> \<exists>c. obj_get (providers (network_state w)) p = Some c \<and> owner c = s"
  by (auto simp: ready_def)

lemma ready_network:
  "ready env s p w \<Longrightarrow> accounts x' = accounts (network_state w) \<Longrightarrow>
   \<exists>c. obj_get (providers x') p = Some c \<and> owner c = s \<Longrightarrow> ready env s p (w\<lparr>network_state := x'\<rparr>)"
  by (simp add: ready_def)

lemma total_setAddress:
  assumes "ready env s p w" "is_address a" "\<And>w'. ready env s p w' \<Longrightarrow> Q () w'"
  shows "total (sendAndWait (evm_runtime env) (attach ''LendingPoolAddressesProviderFactory'' p (Some s))
    ''setAddress'' [VBytes32 k, VStr a]) Q w"
proof -
  obtain c where c: "obj_get (providers (network_state w)) p = Some c" "owner c = s"
    using ready_provider [OF assms(1)] by blast
  let ?x = "setAddress_tx p c k a (network_state w)"
  have "provider_tx p c ''setAddress'' [VBytes32 k, VStr a] (network_state w) = Inr ?x"
    using assms(2) by (simp add: provider_tx_def)
  from sendAndWait_run [OF assms(1) c(1) this] c
  have "ready env s p (w\<lparr>network_state := ?x\<rparr>)"
    by (intro ready_network [OF assms(1)]) (simp_all add: setAddress_tx_def)
  with \<open>sendAndWait _ _ _ _ w = _\<close> assms(3) show ?thesis by (auto simp: total_def)
qed

text \<open>
  What one entry of a deployment's settings needs: a configured value, which is an address.
\<close>

definition configured_address :: "js_val result \<Rightarrow> bool" where
  "configured_address r \<longleftrightarrow> (case r of Inr (VStr a) \<Rightarrow> is_address a | _ \<Rightarrow> False)"

lemma configured_addressE: "configured_address r \<Longrightarrow> (\<And>a. r = Inr (VStr a) \<Longrightarrow> is_address a \<Longrightarrow> P) \<Longrightarrow> P"
  by (auto simp: configured_address_def split: sum.splits js_val.splits)

lemma total_fromConfig:
  assumes "ready env s p w" "configured_address (networkParam (evm_runtime env) config field (script_network env))"
    "\<And>w'. ready env s p w' \<Longrightarrow> Q () w'"
  shows "total (setAddressFromConfig (evm_runtime env) (attach ''LendingPoolAddressesProviderFactory'' p (Some s)) k config field) Q w"
  using assms(2)
  by (auto elim!: configured_addressE simp: setAddressFromConfig_def
      intro!: total_await total_lift total_setAddress [OF assms(1)] assms(3))

lemma total_reserveAssetFromConfig:
  assumes "ready env s p w" "configured_address (reserveAssetParam (evm_runtime env) config symbol (script_network env))"
    "\<And>w'. ready env s p w' \<Longrightarrow> Q () w'"
  shows "total (setReserveAssetFromConfig (evm_runtime env) (attach ''LendingPoolAddressesProviderFactory'' p (Some s)) k config symbol) Q w"
  using assms(2)
  by (auto elim!: configured_addressE simp: setReserveAssetFromConfig_def
      intro!: total_await total_lift total_setAddress [OF assms(1)] assms(3))

lemma registered_provider:
  "obj_get (providers x) p = Some c \<Longrightarrow> evm_registered x p k = provider_getAddress c k"
  by (simp add: evm_registered_def)

lemma updateImpl_upgradable:
  assumes "upgradable x p k r" "obj_get (providers x) p = Some c" "obj_get (code_revision x) a = Some r"
  shows "\<exists>x'. updateImpl p c k a x = Inr x' \<and> accounts x' = accounts x
    \<and> (\<exists>c'. obj_get (providers x') p = Some c' \<and> owner c' = owner c)"
proof (cases "provider_getAddress c k = ZERO_ADDRESS")
  case True
  with assms show ?thesis by (simp add: upgradable_def registered_provider updateImpl_def Let_def setAddress_tx_def)
next
  case False
  with assms show ?thesis by (auto simp: upgradable_def registered_provider updateImpl_def Let_def)
qed

lemma updateImpl_refused:
  assumes "evm_registered x p k \<noteq> ZERO_ADDRESS" "obj_get (proxies x) (evm_registered x p k) = Some px"
    "r \<le> lastInitializedRevision px" "obj_get (providers x) p = Some c" "obj_get (code_revision x) a = Some r"
  shows "updateImpl p c k a x = revert []"
  using assms by (simp add: registered_provider updateImpl_def Let_def)

lemma total_setAddressAsProxy:
  assumes "ready env s p w" "is_address a" "obj_get (code_revision (network_state w)) a = Some r"
    "upgradable (network_state w) p k r" "\<And>w'. ready env s p w' \<Longrightarrow> Q () w'"
  shows "total (sendAndWait (evm_runtime env) (attach ''LendingPoolAddressesProviderFactory'' p (Some s))
    ''setAddressAsProxy'' [VBytes32 k, VStr a]) Q w"
proof -
  obtain c where c: "obj_get (providers (network_state w)) p = Some c" "owner c = s"
    using ready_provider [OF assms(1)] by blast
  obtain x' where x': "updateImpl p c k a (network_state w) = Inr x'" "accounts x' = accounts (network_state w)"
    "\<exists>c'. obj_get (providers x') p = Some c' \<and> owner c' = owner c"
    using updateImpl_upgradable [OF assms(4) c(1) assms(3)] by blast
  then have "provider_tx p c ''setAddressAsProxy'' [VBytes32 k, VStr a] (network_state w) = Inr x'"
    using assms(2) by (simp add: provider_tx_def)
  from sendAndWait_run [OF assms(1) c(1) this]
  have "sendAndWait (evm_runtime env) (attach ''LendingPoolAddressesProviderFactory'' p (Some s))
    ''setAddressAsProxy'' [VBytes32 k, VStr a] w = (Inr (), w\<lparr>network_state := x'\<rparr>)" .
  moreover have "ready env s p (w\<lparr>network_state := x'\<rparr>)"
    using c x' by (intro ready_network [OF assms(1)]) auto
  ultimately show ?thesis using assms(5) by (auto simp: total_def)
qed

lemma fails_setAddressAsProxy:
  assumes "ready env s p w" "is_address a" "obj_get (code_revision (network_state w)) a = Some r"
    "evm_registered (network_state w) p k \<noteq> ZERO_ADDRESS"
    "obj_get (proxies (network_state w)) (evm_registered (network_state w) p k) = Some px"
    "r \<le> lastInitializedRevision px"
    "E (Rejected []) w"
  shows "fails (sendAndWait (evm_runtime env) (attach ''LendingPoolAddressesProviderFactory'' p (Some s))
    ''setAddressAsProxy'' [VBytes32 k, VStr a]) E w"
proof -
  obtain c where c: "obj_get (providers (network_state w)) p = Some c"
    using ready_provider [OF assms(1)] by blast
  have "provider_tx p c ''setAddressAsProxy'' [VBytes32 k, VStr a] (network_state w)
      = Inl (Rejected [])"
    using updateImpl_refused [OF assms(4-6) c assms(3)] assms(2) by (simp add: provider_tx_def revert_def)
  from sendAndWait_reverts [OF assms(1) c this] assms(7) show ?thesis by (simp add: fails_def)
qed

lemma total_getAddress:
  assumes "ready env s p w" "\<And>a. Q a w"
  shows "total (callAddress (evm_runtime env) (attach ''LendingPoolAddressesProviderFactory'' p (Some s))
    ''getAddress'' [VBytes32 k]) Q w"
  using ready_provider [OF assms(1)] assms(2)
  by (auto simp: total_def callAddress_def call_def await_def on_network_def evm_call_def provider_view_def
      attach_def return_io_def)

lemma total_insert:
  assumes "ready env s p w" "cid \<noteq> ''LendingPoolAddressesProvider''"
    "\<And>w'. ready env s p w' \<Longrightarrow> db_entry_of (evm_runtime env) w' cid = Some \<lparr>entry_address = a, entry_deployer = None\<rparr> \<Longrightarrow> Q () w'"
  shows "total (insertContractAddressInDb (evm_runtime env) cid a) Q w"
proof -
  let ?w = "w\<lparr>deployed_contracts := db_update cid (script_network env) \<lparr>entry_address = a, entry_deployer = None\<rparr> (deployed_contracts w)\<rparr>"
  have "ready env s p ?w"
    using assms(2) by (intro ready_same_chain [OF assms(1)]) (simp_all add: db_entry_of_def)
  with assms(3) [of ?w] show ?thesis by (simp add: total_def insertContractAddressInDb_def db_set_def db_entry_of_def)
qed

lemma total_recordedAddress:
  "db_entry_of rt w cid = Some e \<Longrightarrow> Q (entry_address e) w \<Longrightarrow> total (recordedAddress rt None cid) Q w"
  by (auto simp: total_def recordedAddress_None await_def lift_result_def return_io_def)

text \<open>The two adapter libraries are attached to when the database has them.\<close>

definition adapters_recorded :: "script_env \<Rightarrow> evm world \<Rightarrow> bool" where
  "adapters_recorded env w \<longleftrightarrow>
     (\<forall>cid \<in> {''UniswapAdapter'', ''CurveswapAdapter''}.
        \<exists>e. db_entry_of (evm_runtime env) w cid = Some e \<and> entry_address e \<noteq> [])"

lemma adapter_runs:
  assumes "adapters_recorded env w" "ready env s p w"
  shows "\<exists>i. deployUniswapAdapterLibrary (evm_runtime env) verify w = (Inr i, w)"
    and "\<exists>i. deployCurveswapAdapterLibrary (evm_runtime env) verify w = (Inr i, w)"
  using assms
  by (auto simp: adapters_recorded_def deployUniswapAdapterLibrary_def deployCurveswapAdapterLibrary_def
      getUniswapAdapterAddress_def getCurveswapAdapterAddress_def await_def return_io_def truthy_string_def
      getContract_def on_network_def)

lemma total_libraries:
  assumes "ready env s p w" "adapters_recorded env w" "\<And>l. Q l w"
  shows "total (deployYieldManagerLibraries (evm_runtime env) verify) Q w"
    and "total (deployYearnRETHWstETHVaultLibraries (evm_runtime env) verify) Q w"
  using adapter_runs [OF assms(2,1), of verify] assms(3)
  by (auto simp: total_def deployYieldManagerLibraries_def deployYearnRETHWstETHVaultLibraries_def return_io_def)

section \<open>Every vault deployment\<close>

lemma upgradable_same:
  "upgradable x p k r \<Longrightarrow> evm_registered x' = evm_registered x \<Longrightarrow> proxies x' = proxies x \<Longrightarrow> upgradable x' p k r"
  by (simp add: upgradable_def)

lemmas run_steps =
  total_await total_return total_lift [OF loadPoolConfig_markets(1)] total_lift [OF loadPoolConfig_markets(2)]

lemma total_proxy_after_save:
  assumes "ready env s p w" "network_state w = x" "evm_registered x = evm_registered x0" "proxies x = proxies x0"
    "is_address a" "obj_get (code_revision x) a = Some r" "upgradable x0 p k r" "\<And>w'. ready env s p w' \<Longrightarrow> Q () w'"
  shows "total (sendAndWait (evm_runtime env) (attach ''LendingPoolAddressesProviderFactory'' p (Some s))
    ''setAddressAsProxy'' [VBytes32 k, VStr a]) Q w"
  using assms upgradable_same [OF assms(7,3,4)] by (intro total_setAddressAsProxy) auto

lemma vault_deployments_run:
  fixes env :: script_env
  defines "rt \<equiv> evm_runtime env"
  assumes "ready env s p w" "adapters_recorded env w"
  shows "list_all (\<lambda>(e, d, settings).
      upgradable (network_state w) p (vault_key e) (script_revisions env (vault_factory e)) \<longrightarrow>
      list_all (\<lambda>(k, v). configured_address v) settings \<longrightarrow> total (d rt False) (\<lambda>_ _. True) w) (vault_deployments rt)"
proof -
  note steps = run_steps total_getFirstSigner [where s = s and p = p] total_deploy [where s = s and p = p]
    total_withSave [where s = s and p = p] total_provider [where s = s and p = p]
    total_proxy_after_save [where s = s and p = p] total_fromConfig [where s = s and p = p]
    total_reserveAssetFromConfig [where s = s and p = p] total_getAddress [where s = s and p = p]
    total_insert [where s = s and p = p] total_libraries [where s = s and p = p]
    total_recordedAddress
  have "network_name rt = script_network env" by (simp add: rt_def)
  note this [simp]
  show ?thesis
    using assms(2,3)
    unfolding vault_deployments_def rt_def list.pred_inject split_conv vault_entry.simps evm_runtime_simps
    by (intro conjI impI list.pred_inject(1); unfold vault_deployment_defs vault_getter_defs;
        (elim conjE)?; intro steps; ((assumption | rule TrueI | simp); fail))
qed

lemma vault_deployments_total:
  assumes "(e, d, settings) \<in> set (vault_deployments (evm_runtime env))" "ready env s p w" "adapters_recorded env w"
    "upgradable (network_state w) p (vault_key e) (script_revisions env (vault_factory e))"
    "list_all (\<lambda>(k, v). configured_address v) settings"
  shows "total (d (evm_runtime env) False) (\<lambda>_ _. True) w"
  using bspec [OF vault_deployments_run [OF assms(2,3), unfolded list_all_iff] assms(1)] assms(4,5)
  by (simp add: list_all_iff)

end
