(* ===== verification/VaultProperties.thy ===== *)
theory VaultProperties
  imports VaultRuns
begin

text \<open>
  The properties of the proxied deployments on the network of \<^verbatim>\<open>Chain\<close>, for each of the
  twenty of \<^verbatim>\<open>VaultFacts\<close>: what a returned deployment leaves, when a deployment is
  certain to return, and what is left when the provider refuses the upgrade.
\<close>

section \<open>An upgrade that is refused\<close>

lemma fails_steps:
  assumes "ready env s p w"
  shows "fails (f (Some s)) E w \<Longrightarrow> fails (await (getFirstSigner (evm_runtime env)) f) E w"
    and "fails (g (attach ''LendingPoolAddressesProviderFactory'' p (Some s))) E w \<Longrightarrow>
      fails (await (getLendingPoolAddressesProvider (evm_runtime env) None) g) E w"
  using assms by (auto intro!: fails_then total_getFirstSigner total_provider)

lemma fails_configured:
  "fails (f SturdyConfig) E w \<Longrightarrow> fails (await (lift_result (loadPoolConfig ''Sturdy'')) f) E w"
  "fails (f FantomConfig) E w \<Longrightarrow> fails (await (lift_result (loadPoolConfig ''Fantom'')) f) E w"
  by (simp_all add: fails_def lift_result_def)

lemmas fails_after =
  fails_then [OF total_deploy(1)] fails_then [OF total_deploy(2)] fails_then [OF total_withSave]
  fails_then [OF total_libraries(1)] fails_then [OF total_libraries(2)]

text \<open>What is left: only the entry of the implementation is new, and it is the refused contract's.\<close>

definition upgrade_refused :: "script_env \<Rightarrow> evm world \<Rightarrow> string \<Rightarrow> string \<Rightarrow> js_error \<Rightarrow> evm world \<Rightarrow> bool" where
  "upgrade_refused env w impl_id factory err w' \<longleftrightarrow>
     err = Rejected []
     \<and> evm_registered (network_state w') = evm_registered (network_state w)
     \<and> proxies (network_state w') = proxies (network_state w)
     \<and> (\<exists>e. db_entry_of (evm_runtime env) w' = (db_entry_of (evm_runtime env) w)(impl_id \<mapsto> e)
          \<and> obj_get (code_revision (network_state w')) (entry_address e) = Some (script_revisions env factory))"

lemma fails_refused:
  assumes "ready env s p w'" "network_state w' = x" "evm_registered x = evm_registered (network_state w)"
    "proxies x = proxies (network_state w)" "is_address a" "obj_get (code_revision x) a = Some (script_revisions env F)"
    "evm_registered (network_state w) p k \<noteq> ZERO_ADDRESS"
    "obj_get (proxies (network_state w)) (evm_registered (network_state w) p k) = Some px"
    "script_revisions env F \<le> lastInitializedRevision px"
    "db_entry_of (evm_runtime env) w' = d(iid \<mapsto> \<lparr>entry_address = a, entry_deployer = by\<rparr>)"
    "d = db_entry_of (evm_runtime env) w"
  shows "fails (await (sendAndWait (evm_runtime env) (attach ''LendingPoolAddressesProviderFactory'' p (Some s))
    ''setAddressAsProxy'' [VBytes32 k, VStr a]) f) (upgrade_refused env w iid F) w'"
proof (intro fails_here fails_setAddressAsProxy)
  show "upgrade_refused env w iid F (Rejected []) w'"
    using assms unfolding upgrade_refused_def by force
qed (use assms in simp_all)

lemma vault_redeployments_refused:
  fixes env :: script_env
  defines "rt \<equiv> evm_runtime env"
  assumes "ready env s p w" "adapters_recorded env w"
  shows "list_all (\<lambda>(e, d, settings).
      evm_registered (network_state w) p (vault_key e) \<noteq> ZERO_ADDRESS \<longrightarrow>
      obj_get (proxies (network_state w)) (evm_registered (network_state w) p (vault_key e)) = Some px \<longrightarrow>
      script_revisions env (vault_factory e) \<le> lastInitializedRevision px \<longrightarrow>
      fails (d rt False) (upgrade_refused env w (vault_impl_id e) (vault_factory e)) w) (vault_deployments rt)"
proof -
  note steps = fails_steps [where s = s and p = p] fails_configured fails_after [where s = s and p = p]
    fails_refused [where s = s and p = p and px = px]
  show ?thesis
    using assms(2,3)
    unfolding vault_deployments_def rt_def list.pred_inject split_conv vault_entry.simps evm_runtime_simps
    by (intro conjI impI list.pred_inject(1); unfold vault_deployment_defs vault_getter_defs;
        intro steps; ((assumption | rule refl | simp); fail))
qed

section \<open>A small network\<close>

text \<open>
  Fantom with one account, which owns the provider the database records; the adapter libraries are
  deployed, and every contract has revision 1.
\<close>

definition small_env :: script_env where
  "small_env = \<lparr>script_network = ''ftm'', script_FORK = None, script_TENDERLY = None, script_DEFENDER = None,
     script_ETHERSCAN_KEY = None, script_artifacts = [], script_revisions = \<lambda>_. 1\<rparr>"

definition small_entry :: "nat \<Rightarrow> db_entry obj" where
  "small_entry n = [(''ftm'', \<lparr>entry_address = contract_at n, entry_deployer = Some (contract_at 0)\<rparr>)]"

definition small_world :: "string obj \<Rightarrow> proxy_contract obj \<Rightarrow> evm world" where
  "small_world registry pxs =
     \<lparr>network_state = \<lparr>accounts = [contract_at 0], created = 5, code_revision = [],
        providers = [(contract_at 1, \<lparr>owner = contract_at 0, addresses = registry\<rparr>)], proxies = pxs\<rparr>,
      deployed_contracts =
        [(''LendingPoolAddressesProvider'', small_entry 1), (''UniswapAdapter'', small_entry 2),
         (''CurveswapAdapter'', small_entry 3)]\<rparr>"

lemma small_world_ready:
  "ready small_env (contract_at 0) (contract_at 1) (small_world registry pxs)"
  "adapters_recorded small_env (small_world registry pxs)"
  by (simp_all add: ready_def adapters_recorded_def small_world_def small_env_def small_entry_def db_entry_of_def
      db_lookup_def obj_get_def contract_at_def)

abbreviation yearn_entry :: vault_entry where
  "yearn_entry \<equiv> \<lparr>vault_key = ''YEARN_VAULT'', vault_impl_id = ''YearnVaultImpl'', vault_id = ''YearnVault'',
     vault_factory = ''YearnVaultFactory''\<rparr>"

abbreviation yearn_settings :: "(string \<times> js_val result) list" where
  "yearn_settings \<equiv>
     [(''YVWFTM'', networkParam (evm_runtime small_env) FantomConfig ''YearnVaultFTM'' (network_name (evm_runtime small_env))),
      (''uniswapRouter'', networkParam (evm_runtime small_env) FantomConfig ''UniswapRouter'' (network_name (evm_runtime small_env))),
      (''WFTM'', networkParam (evm_runtime small_env) FantomConfig ''WFTM'' (network_name (evm_runtime small_env)))]"

lemma yearn_listed: "(yearn_entry, deployYearnVault, yearn_settings) \<in> set (vault_deployments (evm_runtime small_env))"
  unfolding vault_deployments_def by simp

lemma yearn_configured: "list_all (\<lambda>(k, v). configured_address v) yearn_settings"
  by (simp add: Fantom_params param_defs small_env_def configured_address_def is_address_def hex_chars_def)

section \<open>The properties\<close>

text \<open>
  C25: a proxied deployment that returns, on any state of the network and with or without
  verification: the contract returned is attached to the address the database now has under the
  vault's identifier and the provider now has under the vault's key; the implementation behind that
  proxy is the contract recorded under the implementation's identifier; and each of the provider's
  configured entries holds the value the market's configuration has for this network.
\<close>
theorem vault_deployment_registered:
  assumes "(e, deployment, settings) \<in> set (vault_deployments (evm_runtime env))"
    and "deployment (evm_runtime env) verify w = (Inr v, w')"
  shows "\<exists>prov impl signer.
      db_entry_of (evm_runtime env) w' ''LendingPoolAddressesProvider'' = Some prov
      \<and> db_entry_of (evm_runtime env) w' (vault_impl_id e) = Some impl
      \<and> db_entry_of (evm_runtime env) w' (vault_id e) = Some \<lparr>entry_address = contract_address v, entry_deployer = None\<rparr>
      \<and> v = attach (vault_factory e) (contract_address v) signer
      \<and> evm_registered (network_state w') (entry_address prov) (vault_key e) = contract_address v
      \<and> evm_implementation (network_state w') (contract_address v) = entry_address impl
      \<and> (\<forall>(k, p) \<in> set settings. p = Inr (VStr (evm_registered (network_state w') (entry_address prov) k)))"
  using postD [OF evm.vault_deployments_in_place [OF assms(1)] assms(2)]
  by (simp add: evm.vault_in_place_def)

lemma yearn_upgradable:
  "upgradable (network_state (small_world [] [])) (contract_at 1) (vault_key yearn_entry)
     (script_revisions small_env (vault_factory yearn_entry))"
  by (simp add: upgradable_def evm_registered_def provider_getAddress_def small_world_def small_env_def obj_get_def)

lemma yearn_runs:
  "\<exists>v w'. deployYearnVault (evm_runtime small_env) False (small_world [] []) = (Inr v, w')"
  using vault_deployments_total [OF yearn_listed small_world_ready yearn_upgradable yearn_configured]
  by (auto simp: total_def)

theorem vault_deployment_registered_witness:
  "\<exists>v w' prov impl.
      deployYearnVault (evm_runtime small_env) False (small_world [] []) = (Inr v, w')
      \<and> db_entry_of (evm_runtime small_env) w' ''LendingPoolAddressesProvider'' = Some prov
      \<and> db_entry_of (evm_runtime small_env) w' ''YearnVaultImpl'' = Some impl
      \<and> evm_registered (network_state w') (entry_address prov) ''YEARN_VAULT'' = contract_address v
      \<and> evm_implementation (network_state w') (contract_address v) = entry_address impl"
proof -
  obtain v w' where run: "deployYearnVault (evm_runtime small_env) False (small_world [] []) = (Inr v, w')"
    using yearn_runs by blast
  from vault_deployment_registered [OF yearn_listed run] run show ?thesis by (simp, metis)
qed

text \<open>
  C26: a proxied deployment returns a contract whenever it is run without verification (\<open>verify\<close> is
  \<open>false\<close>), the database records an addresses provider that the first account owns, no Defender
  relay signer replaces that account, the two adapter libraries are recorded, the provider has nothing under the vault's key or a proxy of a lower revision, and the
  market configures every entry the deployment sets with an address.
\<close>
theorem vault_deployment_succeeds:
  assumes "(e, deployment, settings) \<in> set (vault_deployments (evm_runtime env))"
    and "ready env s p w" "adapters_recorded env w"
    and "upgradable (network_state w) p (vault_key e) (script_revisions env (vault_factory e))"
    and "\<forall>(k, v) \<in> set settings. configured_address v"
  shows "\<exists>v w'. deployment (evm_runtime env) False w = (Inr v, w')"
  using vault_deployments_total [OF assms(1-4)] assms(5) by (auto simp: total_def list_all_iff)

theorem vault_deployment_succeeds_witness:
  "\<exists>v w'. deployYearnVault (evm_runtime small_env) False (small_world [] []) = (Inr v, w')"
  by (rule vault_deployment_succeeds [OF yearn_listed small_world_ready yearn_upgradable])
    (use yearn_configured in \<open>simp add: list_all_iff\<close>)

text \<open>
  C27: running a proxied deployment again without a higher revision: it rejects, with no reason given
  since the proxy only requires that its delegated call succeeds; the provider and every proxy are as
  before, and so is the database but for the implementation's identifier, which now names the contract
  the proxy refused.
\<close>
theorem vault_redeployment_rejected:
  assumes "(e, deployment, settings) \<in> set (vault_deployments (evm_runtime env))"
    and "ready env s p w" "adapters_recorded env w"
    and "evm_registered (network_state w) p (vault_key e) \<noteq> ZERO_ADDRESS"
    and "obj_get (proxies (network_state w)) (evm_registered (network_state w) p (vault_key e)) = Some px"
    and "script_revisions env (vault_factory e) \<le> lastInitializedRevision px"
  shows "\<exists>w' refused.
      deployment (evm_runtime env) False w = (Inl (Rejected []), w')
      \<and> evm_registered (network_state w') = evm_registered (network_state w)
      \<and> proxies (network_state w') = proxies (network_state w)
      \<and> db_entry_of (evm_runtime env) w' = (db_entry_of (evm_runtime env) w)(vault_impl_id e \<mapsto> refused)
      \<and> obj_get (code_revision (network_state w')) (entry_address refused) = Some (script_revisions env (vault_factory e))"
proof -
  from vault_redeployments_refused [OF assms(2,3)] assms(1,4-6)
  have "fails (deployment (evm_runtime env) False) (upgrade_refused env w (vault_impl_id e) (vault_factory e)) w"
    by (fastforce simp: list_all_iff)
  then show ?thesis unfolding fails_def upgrade_refused_def by blast
qed

abbreviation yearn_proxied :: "evm world" where
  "yearn_proxied \<equiv> small_world [(''YEARN_VAULT'', contract_at 4)]
     [(contract_at 4, \<lparr>proxy_implementation = contract_at 5, lastInitializedRevision = 1\<rparr>)]"

theorem vault_redeployment_rejected_witness:
  "\<exists>w'. deployYearnVault (evm_runtime small_env) False yearn_proxied
      = (Inl (Rejected []), w')"
proof -
  have "evm_registered (network_state yearn_proxied) (contract_at 1) ''YEARN_VAULT'' = contract_at 4"
    by (simp add: evm_registered_def provider_getAddress_def small_world_def obj_get_def)
  moreover have "contract_at 4 \<noteq> ZERO_ADDRESS" by code_simp
  moreover have "obj_get (proxies (network_state yearn_proxied)) (contract_at 4)
      = Some \<lparr>proxy_implementation = contract_at 5, lastInitializedRevision = 1\<rparr>"
    by (simp add: small_world_def obj_get_def)
  ultimately show ?thesis
    using vault_redeployment_rejected [OF yearn_listed small_world_ready,
      of "[(''YEARN_VAULT'', contract_at 4)]"
         "[(contract_at 4, \<lparr>proxy_implementation = contract_at 5, lastInitializedRevision = 1\<rparr>)]"]
    by (auto simp: small_env_def)
qed

end
