(* ===== verification/DeploymentState.thy ===== *)
theory DeploymentState
  imports VaultProperties
begin

text \<open>
  The deployment scripts as a state machine: each step is one run of a deployment of
  \<^verbatim>\<open>helpers/contracts-deployments.ts\<close>, finished or failed anywhere, and what every step
  leaves alone.
\<close>

section \<open>The steps\<close>

text \<open>
  Each deployment with the identifiers whose entries it may write: its own; that of the implementation
  where it records one before the contract it returns; the libraries it deploys.
\<close>

definition written_ids :: "string \<Rightarrow> string list" where
  "written_ids cid =
     cid # (if cid = ''LendingPool'' then [''LendingPoolImpl'', ''ReserveLogic'', ''GenericLogic'', ''ValidationLogic'']
            else if cid = ''LendingPoolConfigurator'' then [''LendingPoolConfiguratorImpl'']
            else if cid = ''LendingPoolCollateralManager'' then [''LendingPoolCollateralManagerImpl'']
            else [])"

definition vault_written_ids :: "vault_entry \<Rightarrow> string list" where
  "vault_written_ids e = [vault_impl_id e, vault_id e, ''UniswapAdapter'', ''CurveswapAdapter'']"

text \<open>
  The deployments of one contract that are neither: the addresses provider and its registry, the
  implementations alone, the libraries, the mocks, and the contracts the provider learns of by another
  setter. The arguments of all of them are \<open>args\<close>, a string \<open>s\<close> (the market's id, a price, an
  address, the configuration's name) and two deployed libraries.
\<close>

definition other_deployments ::
    "js_val list \<Rightarrow> string \<Rightarrow> Instance \<Rightarrow> Instance \<Rightarrow>
     (string list \<times> ('x runtime \<Rightarrow> bool \<Rightarrow> ('x, Instance) io)) list" where
  "other_deployments args s reserveLogic genericLogic =
     [([''LendingPoolAddressesProvider''], \<lambda>rt. deployLendingPoolAddressesProvider rt s),
      ([''LendingPoolAddressesProviderRegistry''], deployLendingPoolAddressesProviderRegistry),
      ([''GenericLogic''], \<lambda>rt. deployGenericLogic rt reserveLogic),
      ([''ValidationLogic''], \<lambda>rt. deployValidationLogic rt reserveLogic genericLogic),
      ([''LendingPoolImpl'', ''ReserveLogic'', ''GenericLogic'', ''ValidationLogic''], deployLendingPoolImpl),
      ([''MockAggregator''], \<lambda>rt. deployMockAggregator rt s),
      ([''FRAX3CRVOracle''], deployFRAX3CRVPOracle),
      ([''STECRVOracle''], deploySTECRVOracle),
      ([''DOLA3CRVOracle''], deployDOLA3CRVOracle),
      ([''SturdyProtocolDataProvider''], \<lambda>rt. deploySturdyProtocolDataProvider rt s),
      ([''MintableDelegationERC20''], \<lambda>rt. deployMintableDelegationERC20 rt args),
      ([''UiPoolDataProvider''], \<lambda>rt. deployUiPoolDataProvider rt args),
      ([''DAIToken''], \<lambda>rt. deployMockDai rt (arg args 0)),
      ([''USDCToken''], \<lambda>rt. deployMockUSDC rt args),
      ([''USDTToken''], \<lambda>rt. deployMockUSDT rt args),
      ([''MockWETHForFTM''], \<lambda>rt. deployMockWETHForFTM rt args),
      ([''MockBOOForFTM''], \<lambda>rt. deployMockBOOForFTM rt args),
      ([''MockLINKForFTM''], \<lambda>rt. deployMockYearnVault rt ''MockLINKForFTM'' args),
      ([''MockFBEETSForFTM''], \<lambda>rt. deployMockYearnVault rt ''MockFBEETSForFTM'' args),
      ([''MockCRVForFTM''], \<lambda>rt. deployMockYearnVault rt ''MockCRVForFTM'' args),
      ([''MockSPELLForFTM''], \<lambda>rt. deployMockYearnVault rt ''MockSPELLForFTM'' args),
      ([''MockBeeefyETHForFTM''], \<lambda>rt. deployMockBeefyVault rt ''MockBeeefyETHForFTM'' args),
      ([''UniswapAdapter''], deployUniswapAdapterLibrary),
      ([''CurveswapAdapter''], deployCurveswapAdapterLibrary),
      ([''LidoVaultImpl'', ''UniswapAdapter'', ''CurveswapAdapter''], deployLidoVaultImpl),
      ([''ConvexRocketPoolETHVaulttImpl''], deployConvexRocketPoolETHVaultImpl),
      ([''ConvexFRAX3CRVVaultImpl''], deployConvexFRAX3CRVVaultImpl),
      ([''ConvexSTETHVaultImpl''], deployConvexSTETHVaultImpl),
      ([''ConvexDOLA3CRVVaultImpl''], deployConvexDOLA3CRVVaultImpl),
      ([''YearnVaultImpl''], deployYearnVaultImpl),
      ([''YearnWETHVaultImpl''], deployYearnWETHVaultImpl),
      ([''YearnWBTCVaultImpl''], deployYearnWBTCVaultImpl),
      ([''YearnBOOVaultImpl''], deployYearnBOOVaultImpl),
      ([''TombFtmBeefyVaultImpl''], deployTombFTMBeefyVaultImpl),
      ([''TombMiMaticBeefyVaultImpl''], deployTombMiMaticBeefyVaultImpl),
      ([''BasedMiMaticBeefyVaultImpl''], deployBasedMiMaticBeefyVaultImpl),
      ([''YearnFBEETSVaultImpl''], deployYearnFBeetsVaultImpl),
      ([''YearnLINKVaultImpl''], deployYearnLINKVaultImpl),
      ([''YearnCRVVaultImpl''], deployYearnCRVVaultImpl),
      ([''YearnSPELLVaultImpl''], deployYearnSPELLVaultImpl),
      ([''StakedTokenIncentivesControllerImpl''], \<lambda>rt. deploySturdyIncentivesControllerImpl rt args),
      ([''StakedTokenIncentivesControllerImpl'', ''StakedTokenIncentivesController''],
        \<lambda>rt. deploySturdyIncentivesController rt args),
      ([''SturdyTokenImpl''], deploySturdyTokenImpl),
      ([''SturdyTokenImpl'', ''SturdyToken''], deploySturdyToken),
      ([''LiquidatorImpl'', ''Liquidator''], \<lambda>rt. deployTempLiquidator rt args),
      ([''LiquidatorImpl'', ''Liquidator''], \<lambda>rt. deployLiquidator rt args s)]"

definition scripted_deployments ::
    "'x runtime \<Rightarrow> js_val list \<Rightarrow> string \<Rightarrow> Instance \<Rightarrow> Instance \<Rightarrow>
     (string list \<times> ('x runtime \<Rightarrow> bool \<Rightarrow> ('x, Instance) io)) list" where
  "scripted_deployments rt args s reserveLogic genericLogic =
     map (\<lambda>(cid, factory, d, getter). (written_ids cid, d)) (plain_deployments args)
     @ map (\<lambda>(e, d, settings). (vault_written_ids e, d)) (vault_deployments rt)
     @ other_deployments args s reserveLogic genericLogic"

text \<open>
  \<open>deploys env ids w w'\<close>: one deployment run, which may write the entries of \<open>ids\<close>. Five return
  something else than a contract: an object of the mock tokens, the addresses of the libraries, and
  nothing, with the saving of the contract left to run, as it does here, after the return. Of the whole
  script only \<open>deployMockTokens\<close>, which no one calls and which registers the symbols of its argument,
  is not a step, and the two mock vaults are deployed under the identifiers their callers give.
\<close>

inductive deploys :: "script_env \<Rightarrow> string list \<Rightarrow> evm world \<Rightarrow> evm world \<Rightarrow> bool" for env where
  deploys_contract: "(ids, d) \<in> set (scripted_deployments (evm_runtime env) args s reserveLogic genericLogic) \<Longrightarrow>
    d (evm_runtime env) verify w = (r, w') \<Longrightarrow> deploys env ids w w'"
| deploys_tokens: "deployAllMockTokens (evm_runtime env) verify w = (tokens, w') \<Longrightarrow>
    deploys env (''MintableERC20'' # map toUpperCase TokenContractId) w w'"
| deploys_sturdy_libraries: "deploySturdyLibraries (evm_runtime env) verify w = (libraries, w') \<Longrightarrow>
    deploys env [''ReserveLogic'', ''GenericLogic'', ''ValidationLogic''] w w'"
| deploys_lido_libraries: "deployLidoVaultLibraries (evm_runtime env) verify w = (libraries, w') \<Longrightarrow>
    deploys env [''CurveswapAdapter''] w w'"
| deploys_yearn_reth: "await (deployYearnRETHWstETHVaultImpl (evm_runtime env) verify) id w = (r, w') \<Longrightarrow>
    deploys env [''YearnRETHWstETHVaultImpl'', ''CurveswapAdapter''] w w'"
| deploys_yield_manager: "await (deployYieldManagerImpl (evm_runtime env) verify) id w = (r, w') \<Longrightarrow>
    deploys env [''YieldManagerImpl'', ''UniswapAdapter'', ''CurveswapAdapter''] w w'"

inductive_cases deploysE: "deploys env ids w w'"

section \<open>What a deployment writes\<close>

lemma writes_sturdy_libraries [frame_rules]:
  "{''ReserveLogic'', ''GenericLogic'', ''ValidationLogic''} \<subseteq> S \<Longrightarrow> writes rt S (deploySturdyLibraries rt verify)"
  by (auto simp: deploySturdyLibraries_def deployReserveLogicLibrary_def deployGenericLogic_def deployValidationLogic_def
      Let_def readArtifact_def deployBytecode_def intro!: frame_rules)

lemma plain_deployments_write:
  "(cid, F, d, g) \<in> set (plain_deployments args) \<Longrightarrow> writes rt (set (written_ids cid)) (d rt verify)"
  unfolding plain_deployments_def
  by (simp, elim disjE; clarsimp; unfold plain_deployment_defs; intro frame_rules; simp add: written_ids_def)

lemma writes_fromConfig [frame_rules]:
  "writes rt S (setAddressFromConfig rt p k config field)" "writes rt S (setReserveAssetFromConfig rt p k config symbol)"
  by (auto simp: setAddressFromConfig_def setReserveAssetFromConfig_def intro!: frame_rules)

lemma writes_adapters [frame_rules]:
  "''CurveswapAdapter'' \<in> S \<Longrightarrow> writes rt S (deployCurveswapAdapterLibrary rt verify)"
  "''UniswapAdapter'' \<in> S \<Longrightarrow> writes rt S (deployUniswapAdapterLibrary rt verify)"
  by (auto simp: deployCurveswapAdapterLibrary_def deployUniswapAdapterLibrary_def Let_def
      getCurveswapAdapterAddress_def getUniswapAdapterAddress_def readArtifact_def deployBytecode_def intro!: frame_rules)

lemma writes_libraries [frame_rules]:
  "''CurveswapAdapter'' \<in> S \<Longrightarrow> ''UniswapAdapter'' \<in> S \<Longrightarrow> writes rt S (deployYieldManagerLibraries rt verify)"
  "''CurveswapAdapter'' \<in> S \<Longrightarrow> writes rt S (deployYearnRETHWstETHVaultLibraries rt verify)"
  by (auto simp: deployYieldManagerLibraries_def deployYearnRETHWstETHVaultLibraries_def intro!: frame_rules)

lemma vault_deployments_write:
  "(e, d, settings) \<in> set (vault_deployments rt) \<Longrightarrow> writes rt (set (vault_written_ids e)) (d rt verify)"
  unfolding vault_deployments_def
  by (simp, elim disjE; clarsimp; unfold vault_deployment_defs; intro frame_rules; simp add: vault_written_ids_def)

lemmas other_deployment_defs =
  deployLendingPoolAddressesProvider_def deployLendingPoolAddressesProviderRegistry_def deployGenericLogic_def
  deployValidationLogic_def deployLendingPoolImpl_def deployMockAggregator_def deployFRAX3CRVPOracle_def
  deploySTECRVOracle_def deployDOLA3CRVOracle_def deploySturdyProtocolDataProvider_def
  deployMintableDelegationERC20_def deployUiPoolDataProvider_def deployMockDai_def deployMockUSDC_def
  deployMockUSDT_def deployMockWETHForFTM_def deployMockBOOForFTM_def deployMockYearnVault_def
  deployMockBeefyVault_def deployLidoVaultImpl_def
  deployConvexRocketPoolETHVaultImpl_def deployConvexFRAX3CRVVaultImpl_def deployConvexSTETHVaultImpl_def
  deployConvexDOLA3CRVVaultImpl_def deployYearnVaultImpl_def deployYearnWETHVaultImpl_def
  deployYearnWBTCVaultImpl_def deployYearnBOOVaultImpl_def deployTombFTMBeefyVaultImpl_def
  deployTombMiMaticBeefyVaultImpl_def deployBasedMiMaticBeefyVaultImpl_def deployYearnFBeetsVaultImpl_def
  deployYearnLINKVaultImpl_def deployYearnCRVVaultImpl_def deployYearnSPELLVaultImpl_def
  deploySturdyIncentivesControllerImpl_def deploySturdyIncentivesController_def deploySturdyTokenImpl_def
  deploySturdyToken_def deployTempLiquidator_def deployLiquidator_def

lemma writes_deployBytecode [frame_rules]: "writes rt S (deployBytecode rt abi bytecode signer)"
  "writes rt S (readArtifact rt cid)"
  by (auto simp: deployBytecode_def readArtifact_def intro!: frame_rules)

lemma other_deployments_write:
  "(ids, d) \<in> set (other_deployments args s reserveLogic genericLogic) \<Longrightarrow> writes rt (set ids) (d rt verify)"
  unfolding other_deployments_def
  by (simp, elim disjE; clarsimp; (unfold other_deployment_defs Let_def)?; intro frame_rules; simp)

lemma scripted_deployments_write:
  "(ids, d) \<in> set (scripted_deployments rt args s reserveLogic genericLogic) \<Longrightarrow> writes rt (set ids) (d rt verify)"
  unfolding scripted_deployments_def using plain_deployments_write vault_deployments_write other_deployments_write
  by fastforce

text \<open>
  C28: whatever runtime and network a deployment runs on, with or without verification, and whether it
  returns or fails at any step: the only database entries that change are those of the
  deployment's own identifiers on the current network.
\<close>
theorem deployments_leave_other_entries:
  assumes "(ids, deployment) \<in> set (scripted_deployments rt args s reserveLogic genericLogic)"
    and "deployment rt verify w = (outcome, w')"
    and "cid \<notin> set ids \<or> network \<noteq> network_name rt"
  shows "db_lookup (deployed_contracts w') cid network = db_lookup (deployed_contracts w) cid network"
  by (rule writesD [OF scripted_deployments_write [OF assms(1)] assms(2,3)])

theorem deployments_leave_other_entries_witness:
  "db_lookup (deployed_contracts (snd (deployYearnVault (evm_runtime small_env) True (small_world [] []))))
     ''LendingPoolAddressesProvider'' ''ftm'' = Some \<lparr>entry_address = contract_at 1, entry_deployer = Some (contract_at 0)\<rparr>"
proof -
  have "(vault_written_ids yearn_entry, deployYearnVault) \<in> set (scripted_deployments (evm_runtime small_env) [] s reserveLogic genericLogic)"
    using yearn_listed unfolding scripted_deployments_def by force
  from deployments_leave_other_entries [OF this surjective_pairing, of "''LendingPoolAddressesProvider''" "''ftm''"] show ?thesis
    by (simp add: vault_written_ids_def small_world_def small_entry_def db_lookup_def obj_get_def)
qed

section \<open>A deployed contract, on the small network\<close>

lemma wallet_provider_runs:
  "\<exists>contract w'. deployWalletBalancerProvider (evm_runtime small_env) False (small_world [] []) = (Inr contract, w')"
proof -
  have "total (deployWalletBalancerProvider (evm_runtime small_env) False) (\<lambda>_ _. True) (small_world [] [])"
    unfolding deployWalletBalancerProvider_def
    by (intro total_await total_getFirstSigner [OF small_world_ready(1)] total_deploy [where s = "contract_at 0" and p = "contract_at 1"]
        total_withSave [where s = "contract_at 0" and p = "contract_at 1"] small_world_ready(1) TrueI; (assumption | simp))
  then show ?thesis by (auto simp: total_def)
qed

theorem deployed_contract_is_found_witness:
  "\<exists>contract w'. deployWalletBalancerProvider (evm_runtime small_env) False (small_world [] []) = (Inr contract, w')
    \<and> db_entry_of (evm_runtime small_env) w' ''WalletBalanceProvider''
        = Some \<lparr>entry_address = contract_address contract, entry_deployer = deployTransaction_from contract\<rparr>"
proof -
  obtain contract w' where
    run: "deployWalletBalancerProvider (evm_runtime small_env) False (small_world [] []) = (Inr contract, w')"
    using wallet_provider_runs by blast
  have "(''WalletBalanceProvider'', ''WalletBalanceProviderFactory'', deployWalletBalancerProvider, getWalletProvider)
      \<in> set (plain_deployments [])"
    unfolding plain_deployments_def by simp
  from deployed_contract_is_found [OF this run] run show ?thesis by blast
qed

end
