(* ===== verification/Agreement.thy ===== *)
theory Agreement
  imports DeploymentState
begin

text \<open>
  The database and the addresses provider agree on every vault: an invariant that every deployment of
  the state machine of \<^verbatim>\<open>DeploymentState\<close> keeps but that of the provider itself
  (\<^verbatim>\<open>DeploymentRuns\<close>), by runs that fail half-way as much as by those that return.
\<close>

section \<open>What a step ensures\<close>

text \<open>
  \<open>ensures m Q E w\<close>: from \<open>w\<close>, \<open>m\<close> either returns with \<open>Q\<close> or fails in a state with \<open>E\<close>.
\<close>

definition ensures :: "('x, 'a) io \<Rightarrow> ('a \<Rightarrow> 'x world \<Rightarrow> bool) \<Rightarrow> ('x world \<Rightarrow> bool) \<Rightarrow> 'x world \<Rightarrow> bool" where
  "ensures m Q E w \<longleftrightarrow> (case m w of (Inl e, w') \<Rightarrow> E w' | (Inr a, w') \<Rightarrow> Q a w')"

lemma ensures_await: "ensures m (\<lambda>a. ensures (f a) Q E) E w \<Longrightarrow> ensures (await m f) Q E w"
  by (auto simp: ensures_def await_def split: prod.splits sum.splits)

lemma ensures_return: "Q a w \<Longrightarrow> ensures (return_io a) Q E w"
  by (simp add: ensures_def return_io_def)

lemma ensures_if: "(b \<Longrightarrow> ensures m Q E w) \<Longrightarrow> (\<not> b \<Longrightarrow> ensures m' Q E w) \<Longrightarrow> ensures (if b then m else m') Q E w"
  by simp

lemma ensures_mono: "ensures m Q E w \<Longrightarrow> (\<And>a w'. Q a w' \<Longrightarrow> Q' a w') \<Longrightarrow> ensures m Q' E w"
  by (auto simp: ensures_def split: prod.splits sum.splits)

section \<open>Steps that leave the registry alone\<close>

text \<open>The provider key of each vault and the identifier its proxy is recorded under.\<close>

definition vault_keys :: "(string \<times> string) list" where
  "vault_keys = map (\<lambda>(e, d, settings). (vault_key e, vault_id e))
     (vault_deployments (undefined :: unit runtime))"

lemma vault_keys_simps [simp]:
  "vault_keys =
     [(''LIDO_VAULT'', ''LidoVault''), (''YEARN_RETH_WSTETH_VAULT'', ''YearnRETHWstETHVault''),
      (''CONVEX_ROCKET_POOL_ETH_VAULT'', ''ConvexRocketPoolETHVault''),
      (''CONVEX_FRAX_3CRV_VAULT'', ''ConvexFRAX3CRVVault''), (''CONVEX_STETH_VAULT'', ''ConvexSTETHVault''),
      (''CONVEX_DOLA_3CRV_VAULT'', ''ConvexDOLA3CRVVault''), (''YEARN_VAULT'', ''YearnVault''),
      (''YEARN_WETH_VAULT'', ''YearnWETHVault''), (''YEARN_WBTC_VAULT'', ''YearnWBTCVault''),
      (''YEARN_BOO_VAULT'', ''YearnBOOVault''), (''BEEFY_TOMB_FTM_VAULT'', ''TombFtmBeefyVault''),
      (''BEEFY_TOMB_MIMATIC_VAULT'', ''TombMiMaticBeefyVault''),
      (''BEEFY_BASED_MIMATIC_VAULT'', ''BasedMiMaticBeefyVault''),
      (''YEARN_FBEETS_VAULT'', ''YearnFBEETSVault''), (''YEARN_LINK_VAULT'', ''YearnLINKVault''),
      (''BEEFY_ETH_VAULT'', ''BeefyETHVault''), (''YEARN_CRV_VAULT'', ''YearnCRVVault''),
      (''YEARN_SPELL_VAULT'', ''YearnSPELLVault''), (''COLLATERAL_ADAPTER'', ''CollateralAdapter''),
      (''YIELD_MANAGER'', ''YieldManager'')]"
  by (simp add: vault_keys_def vault_deployments_def)

lemma vault_keys_listed:
  "(e, d, settings) \<in> set (vault_deployments rt) \<Longrightarrow> (vault_key e, vault_id e) \<in> set vault_keys"
  unfolding vault_deployments_def by (simp, elim disjE; clarsimp)

definition guarded :: "string set" where
  "guarded = insert ''LendingPoolAddressesProvider'' (snd ` set vault_keys)"

lemma distinct_ids: "distinct (map snd vault_keys)"
  by simp

declare vault_keys_simps [simp del]

text \<open>\<open>still env m\<close>: returning or failing, \<open>m\<close> changes neither the registry nor a guarded entry.\<close>

definition still :: "script_env \<Rightarrow> (evm, 'a) io \<Rightarrow> bool" where
  "still env m \<longleftrightarrow> (\<forall>w.
     evm_registered (network_state (snd (m w))) = evm_registered (network_state w)
     \<and> (\<forall>cid \<in> guarded. db_entry_of (evm_runtime env) (snd (m w)) cid = db_entry_of (evm_runtime env) w cid))"

named_theorems still_rules \<open>steps that leave the registry alone\<close>

lemma still_await [still_rules]: "still env m \<Longrightarrow> (\<And>a. still env (f a)) \<Longrightarrow> still env (await m f)"
  unfolding still_def await_def by (auto split: prod.splits sum.splits) (metis snd_conv)+

lemma still_catch [still_rules]: "still env m \<Longrightarrow> (\<And>e. still env (h e)) \<Longrightarrow> still env (catch_io m h)"
  unfolding still_def catch_io_def by (auto split: prod.splits sum.splits) (metis snd_conv)+

lemma still_simple [still_rules]:
  "still env (return_io a)" "still env (throw_io e)" "still env (lift_result r)" "still env (db_get rt cid)"
  by (simp_all add: still_def return_io_def throw_io_def lift_result_def db_get_def)

lemma still_if [still_rules]: "still env m \<Longrightarrow> still env m' \<Longrightarrow> still env (if b then m else m')"
  by simp

lemma still_network: "(\<And>x. evm_registered (snd (f x)) = evm_registered x) \<Longrightarrow> still env (on_network f)"
  by (auto simp: still_def on_network_def split: prod.splits) (metis snd_conv)

lemma still_for_each [still_rules]: "(\<And>x. still env (body x)) \<Longrightarrow> still env (for_each body xs)"
  by (induction xs) (auto intro!: still_rules)

lemma still_db_set [still_rules]: "cid \<notin> guarded \<Longrightarrow> still env (db_set (evm_runtime env) cid e)"
  by (auto simp: still_def db_set_def db_entry_of_def)

lemma registered_evm_deploy:
  "F \<noteq> ''LendingPoolAddressesProviderFactory'' \<Longrightarrow> evm_registered (snd (evm_deploy revisions F signer x)) = evm_registered x"
  by (auto simp: evm_deploy_def Let_def evm_registered_def fun_eq_iff split: option.splits)

lemma still_deploy [still_rules]:
  "F \<noteq> ''LendingPoolAddressesProviderFactory'' \<Longrightarrow> still env (deploy (evm_runtime env) F signer args)"
  "F \<noteq> ''LendingPoolAddressesProviderFactory'' \<Longrightarrow> still env (deployLinked (evm_runtime env) F libs signer args)"
  "still env (deployBytecode (evm_runtime env) abi bytecode signer)"
  by (auto simp: deploy_def deployLinked_def deployBytecode_def evm_runtime_def registered_evm_deploy intro!: still_network)

definition provider_methods :: "string list" where
  "provider_methods =
     [''setAddress'', ''setAddressAsProxy''] @ map fst impl_setters @ map fst plain_setters"

lemma still_send [still_rules]:
  "meth \<notin> set provider_methods \<Longrightarrow> still env (send (evm_runtime env) c meth args)"
  by (auto simp: send_def evm_send_def provider_tx_def provider_methods_def revert_def map_of_eq_None_iff [symmetric]
      split: option.splits sum.splits intro!: still_network)

lemma still_quiet [still_rules]:
  "still env (waitForTx (evm_runtime env) tx)" "still env (callAddress (evm_runtime env) c meth args)"
  "still env (readArtifact (evm_runtime env) cid)" "still env (verifyAtTenderly (evm_runtime env) cid inst)"
  by (auto simp: waitForTx_def callAddress_def call_def readArtifact_def verifyAtTenderly_def evm_runtime_def
      evm_call_def evm_readArtifact_def split: option.splits intro!: still_rules still_network)

lemma still_signers [still_rules]: "still env (getFirstSigner (evm_runtime env))"
  by (auto simp: getFirstSigner_def getEthersSigners_def getDefenderRelaySigner_def impersonateAccountsHardhat_def
      Let_def intro!: still_rules still_network)

lemma still_recordedAddress [still_rules]: "still env (recordedAddress rt addr cid)"
  by (auto simp: recordedAddress_def split: option.splits intro!: still_rules)

lemma runTaskWithRetry_evm:
  "(\<And>x. cleanup x = x) \<Longrightarrow> runTaskWithRetry (evm_runtime env) task params 4 ms cleanup w = (Inr (), w)"
  by (simp add: runTaskWithRetry.simps on_network_def evm_runtime_def Let_def)

lemma still_verify [still_rules]: "still env (verifyEtherscanContract (evm_runtime env) a args libs)"
proof -
  have "still env (runTaskWithRetry (evm_runtime env) task params 4 ms (rt_cleanup (evm_runtime env) path))"
    for task params ms path
    by (simp add: still_def runTaskWithRetry_evm evm_runtime_def [of env, THEN arg_cong [of _ _ rt_cleanup]])
  then show ?thesis
    by (auto simp: verifyEtherscanContract_def Let_def evm_runtime_def intro!: still_rules still_network)
qed

lemma still_save [still_rules]:
  "cid \<notin> guarded \<Longrightarrow> still env (withSaveAndVerify (evm_runtime env) inst cid args verify)"
  "cid \<notin> guarded \<Longrightarrow> still env (insertContractAddressInDb (evm_runtime env) cid a)"
  by (auto simp: withSaveAndVerify_def waitForDeployment_def registerContractInJsonDb_def verifyContract_def
      insertContractAddressInDb_def intro!: still_rules)

section \<open>The invariant\<close>

text \<open>
  Every vault the database knows is, at its recorded address, what some provider holds under its key:
  the recorded provider, unless the entry is one of those that \<open>old\<close> excuses.
\<close>

definition agrees :: "script_env \<Rightarrow> (string \<Rightarrow> db_entry \<Rightarrow> bool) \<Rightarrow> evm world \<Rightarrow> bool" where
  "agrees env old w \<longleftrightarrow> (\<forall>(k, cid) \<in> set vault_keys. \<forall>e. db_entry_of (evm_runtime env) w cid = Some e \<longrightarrow>
     entry_address e \<noteq> ZERO_ADDRESS
     \<and> (\<exists>p. evm_registered (network_state w) p k = entry_address e
        \<and> (old cid e \<or> (\<exists>prov. db_entry_of (evm_runtime env) w ''LendingPoolAddressesProvider'' = Some prov
              \<and> entry_address prov = p))))"

text \<open>
  The invariant in the course of a deployment: \<open>Some (p, ks)\<close> once it has attached to the provider at
  \<open>p\<close>, which holds a proxy under the keys \<open>ks\<close>.
\<close>

definition agrees_at ::
    "script_env \<Rightarrow> (string \<Rightarrow> db_entry \<Rightarrow> bool) \<Rightarrow> (string \<times> string list) option \<Rightarrow> evm world \<Rightarrow> bool" where
  "agrees_at env old pos w \<longleftrightarrow> agrees env old w
     \<and> (case pos of None \<Rightarrow> True
        | Some (p, ks) \<Rightarrow>
            (\<exists>prov. db_entry_of (evm_runtime env) w ''LendingPoolAddressesProvider'' = Some prov \<and> entry_address prov = p)
            \<and> set ks \<subseteq> fst ` set vault_keys
            \<and> (\<forall>k \<in> set ks. evm_registered (network_state w) p k \<noteq> ZERO_ADDRESS))"

lemma guarded_ids: "''LendingPoolAddressesProvider'' \<in> guarded" "(k, cid) \<in> set vault_keys \<Longrightarrow> cid \<in> guarded"
  by (force simp: guarded_def)+

lemma agrees_cong:
  assumes "evm_registered (network_state w') = evm_registered (network_state w)"
    and "\<And>cid. cid \<in> guarded \<Longrightarrow> db_entry_of (evm_runtime env) w' cid = db_entry_of (evm_runtime env) w cid"
    and "agrees_at env old pos w"
  shows "agrees_at env old pos w'"
proof -
  have "agrees env old w'"
    using assms(3) unfolding agrees_at_def agrees_def assms(1)
    by (clarsimp simp: assms(2) [OF guarded_ids(1)] assms(2) [OF guarded_ids(2)]) fastforce
  then show ?thesis
    using assms(3) by (cases pos) (auto simp: agrees_at_def assms(1) assms(2) [OF guarded_ids(1)])
qed

lemma still_agrees: "still env m \<Longrightarrow> agrees_at env old pos w \<Longrightarrow> agrees_at env old pos (snd (m w))"
  by (rule agrees_cong [of "snd (m w)" w]) (auto simp: still_def)

lemma agrees_at_agrees: "agrees_at env old pos w \<Longrightarrow> agrees env old w"
  by (simp add: agrees_at_def)

lemma ensures_still:
  assumes "still env m" "agrees_at env old pos w" "\<And>a w'. agrees_at env old pos w' \<Longrightarrow> Q a w'"
  shows "ensures m Q (agrees env old) w"
  using still_agrees [OF assms(1,2)] assms(3)
  by (auto simp: ensures_def agrees_at_agrees split: prod.splits sum.splits)

lemma ensures_lift:
  "agrees_at env old pos w \<Longrightarrow> (\<And>a. r = Inr a \<Longrightarrow> Q a w) \<Longrightarrow> ensures (lift_result r) Q (agrees env old) w"
  by (auto simp: ensures_def lift_result_def agrees_at_agrees split: sum.splits)

lemma ensures_provider:
  assumes "agrees_at env old None w"
    and "\<And>p s w'. agrees_at env old (Some (p, [])) w' \<Longrightarrow> Q (attach ''LendingPoolAddressesProviderFactory'' p s) w'"
  shows "ensures (getLendingPoolAddressesProvider (evm_runtime env) None) Q (agrees env old) w"
proof (cases "db_entry_of (evm_runtime env) w ''LendingPoolAddressesProvider''")
  case None
  then show ?thesis
    using assms(1)
    by (simp add: ensures_def getLendingPoolAddressesProvider_def await_recordedAddress_missing agrees_at_agrees)
next
  case (Some prov)
  have "agrees_at env old (Some (entry_address prov, [])) w" using assms(1) Some by (simp add: agrees_at_def)
  then have "ensures (await (getFirstSigner (evm_runtime env)) (\<lambda>signer.
      return_io (attach ''LendingPoolAddressesProviderFactory'' (entry_address prov) signer))) Q (agrees env old) w"
    by (intro ensures_await ensures_still [OF still_signers] ensures_return assms(2))
  then show ?thesis
    using Some by (simp add: ensures_def getLendingPoolAddressesProvider_def await_recordedAddress)
qed

text \<open>A transaction to the provider either fails and changes nothing or is the provider's.\<close>

lemma ensures_tx:
  assumes "agrees_at env old pos w"
    and "\<And>c x'. obj_get (providers (network_state w)) p = Some c \<Longrightarrow>
      provider_tx p c meth args (network_state w) = Inr x' \<Longrightarrow> Q () (w\<lparr>network_state := x'\<rparr>)"
  shows "ensures (sendAndWait (evm_runtime env) (attach ''LendingPoolAddressesProviderFactory'' p s) meth args) Q (agrees env old) w"
proof -
  let ?c = "attach ''LendingPoolAddressesProviderFactory'' p s"
  obtain r x' where run: "evm_send ?c meth args (network_state w) = (r, x')" by fastforce
  show ?thesis
  proof (cases r)
    case (Inl e)
    then have "x' = network_state w" using run by (auto simp: evm_send_def split: option.splits if_splits sum.splits)
    then show ?thesis
      using run Inl agrees_at_agrees [OF assms(1)]
      by (simp add: ensures_def sendAndWait_def send_def await_def on_network_def)
  next
    case (Inr tx)
    with evm_send_Inr [of ?c meth args "network_state w" tx x'] run
    obtain c where "obj_get (providers (network_state w)) p = Some c" "provider_tx p c meth args (network_state w) = Inr x'"
      by auto
    from assms(2) [OF this] show ?thesis
      using run Inr by (simp add: ensures_def sendAndWait_def send_def waitForTx_def await_def on_network_def)
  qed
qed

text \<open>A network that registers more, and keeps what is registered, keeps the invariant.\<close>

lemma agrees_network:
  assumes "agrees env old w"
    and "\<And>q k. k \<in> fst ` set vault_keys \<Longrightarrow> evm_registered (network_state w) q k \<noteq> ZERO_ADDRESS \<Longrightarrow>
      evm_registered x' q k = evm_registered (network_state w) q k"
  shows "agrees env old (w\<lparr>network_state := x'\<rparr>)"
  unfolding agrees_def
proof (intro ballI allI impI, clarify)
  fix k cid e
  assume key: "(k, cid) \<in> set vault_keys" and "db_entry_of (evm_runtime env) (w\<lparr>network_state := x'\<rparr>) cid = Some e"
  then have "db_entry_of (evm_runtime env) w cid = Some e" by (simp add: db_entry_of_def)
  with assms(1) key obtain p where p: "entry_address e \<noteq> ZERO_ADDRESS" "evm_registered (network_state w) p k = entry_address e"
    "old cid e \<or> (\<exists>prov. db_entry_of (evm_runtime env) w ''LendingPoolAddressesProvider'' = Some prov \<and> entry_address prov = p)"
    unfolding agrees_def by blast
  moreover have "k \<in> fst ` set vault_keys" using key by force
  ultimately have "evm_registered x' p k = entry_address e" using assms(2) by simp
  with p show "entry_address e \<noteq> ZERO_ADDRESS
    \<and> (\<exists>p. evm_registered (network_state (w\<lparr>network_state := x'\<rparr>)) p k = entry_address e
       \<and> (old cid e \<or> (\<exists>prov. db_entry_of (evm_runtime env) (w\<lparr>network_state := x'\<rparr>) ''LendingPoolAddressesProvider'' = Some prov
            \<and> entry_address prov = p)))"
    by (auto simp: db_entry_of_def)
qed

lemma agrees_at_network:
  assumes "agrees_at env old (Some (p, ks)) w" "set ks' \<subseteq> fst ` set vault_keys"
    and "\<And>q k. k \<in> fst ` set vault_keys \<Longrightarrow> evm_registered (network_state w) q k \<noteq> ZERO_ADDRESS \<Longrightarrow>
      evm_registered x' q k = evm_registered (network_state w) q k"
    and "\<And>k. k \<in> set ks' \<Longrightarrow> evm_registered x' p k \<noteq> ZERO_ADDRESS"
  shows "agrees_at env old (Some (p, ks')) (w\<lparr>network_state := x'\<rparr>)"
  using assms(1,2,4) agrees_network [OF agrees_at_agrees [OF assms(1)] assms(3)]
  by (simp add: agrees_at_def db_entry_of_def)

lemma agrees_at_keys: "agrees_at env old (Some (p, ks)) w \<Longrightarrow> k \<in> set ks \<Longrightarrow> evm_registered (network_state w) p k \<noteq> ZERO_ADDRESS"
  "agrees_at env old (Some (p, ks)) w \<Longrightarrow> set ks \<subseteq> fst ` set vault_keys"
  by (simp_all add: agrees_at_def)

lemma ensures_setAddress:
  assumes "agrees_at env old (Some (p, ks)) w" "k \<notin> fst ` set vault_keys"
    and "\<And>w'. agrees_at env old (Some (p, ks)) w' \<Longrightarrow> Q () w'"
  shows "ensures (sendAndWait (evm_runtime env) (attach ''LendingPoolAddressesProviderFactory'' p s)
    ''setAddress'' [VBytes32 k, v]) Q (agrees env old) w"
proof (rule ensures_tx [OF assms(1)])
  fix c x'
  assume c: "obj_get (providers (network_state w)) p = Some c"
    and "provider_tx p c ''setAddress'' [VBytes32 k, v] (network_state w) = Inr x'"
  then obtain a where "x' = setAddress_tx p c k a (network_state w)"
    by (auto simp: provider_tx_def revert_def split: js_val.splits if_splits)
  then have "evm_registered x' = (evm_registered (network_state w))(p := (evm_registered (network_state w) p)(k := a))"
    using registered_setAddress_tx [OF c] by simp
  then have "agrees_at env old (Some (p, ks)) (w\<lparr>network_state := x'\<rparr>)"
    using assms(2) agrees_at_keys [OF assms(1)] by (intro agrees_at_network [OF assms(1)]) auto
  then show "Q () (w\<lparr>network_state := x'\<rparr>)" by (rule assms(3))
qed

lemma updateImpl_registered:
  assumes "updateImpl p c k a x = Inr x'" "obj_get (providers x) p = Some c"
  shows "evm_registered x' p k \<noteq> ZERO_ADDRESS"
    and "evm_registered x q k' \<noteq> ZERO_ADDRESS \<Longrightarrow> evm_registered x' q k' = evm_registered x q k'"
proof -
  show "evm_registered x' p k \<noteq> ZERO_ADDRESS"
  proof (cases "provider_getAddress c k = ZERO_ADDRESS")
    case True
    then show ?thesis
      using assms
      by (auto simp: updateImpl_def bindR_Inr_iff Let_def revert_def setAddress_tx_def evm_registered_def
          contract_at_def ZERO_ADDRESS_def split: if_splits option.splits)
  next
    case False
    then show ?thesis using updateImpl_Inr [OF assms] assms(2) by (simp add: registered_provider)
  qed
  show "evm_registered x q k' \<noteq> ZERO_ADDRESS \<Longrightarrow> evm_registered x' q k' = evm_registered x q k'"
    using updateImpl_Inr [OF assms] by (cases "q = p \<and> k' = k") auto
qed

lemma ensures_setAddressAsProxy:
  assumes "agrees_at env old (Some (p, ks)) w" "k \<in> fst ` set vault_keys"
    and "\<And>w'. agrees_at env old (Some (p, [k])) w' \<Longrightarrow> Q () w'"
  shows "ensures (sendAndWait (evm_runtime env) (attach ''LendingPoolAddressesProviderFactory'' p s)
    ''setAddressAsProxy'' [VBytes32 k, VStr a]) Q (agrees env old) w"
proof (rule ensures_tx [OF assms(1)])
  fix c x'
  assume c: "obj_get (providers (network_state w)) p = Some c"
    and "provider_tx p c ''setAddressAsProxy'' [VBytes32 k, VStr a] (network_state w) = Inr x'"
  then have "updateImpl p c k a (network_state w) = Inr x'"
    by (simp add: provider_tx_def revert_def split: if_splits)
  note x' = updateImpl_registered [OF this c]
  have "agrees_at env old (Some (p, [k])) (w\<lparr>network_state := x'\<rparr>)"
    using assms(2) x' by (intro agrees_at_network [OF assms(1)]) auto
  then show "Q () (w\<lparr>network_state := x'\<rparr>)" by (rule assms(3))
qed

lemma ensures_fromConfig:
  assumes "agrees_at env old (Some (p, ks)) w" "k \<notin> fst ` set vault_keys" "\<And>w'. agrees_at env old (Some (p, ks)) w' \<Longrightarrow> Q () w'"
  shows "ensures (setAddressFromConfig (evm_runtime env) (attach ''LendingPoolAddressesProviderFactory'' p s) k config field)
      Q (agrees env old) w"
    and "ensures (setReserveAssetFromConfig (evm_runtime env) (attach ''LendingPoolAddressesProviderFactory'' p s) k config symbol)
      Q (agrees env old) w"
  by (simp_all add: setAddressFromConfig_def setReserveAssetFromConfig_def)
    (intro ensures_await ensures_lift [OF assms(1)] ensures_setAddress [OF assms(1,2)] assms(3); assumption)+

lemma ensures_getAddress:
  assumes "agrees_at env old (Some (p, [k])) w"
    and "\<And>a. evm_registered (network_state w) p k = a \<Longrightarrow> Q a w"
  shows "ensures (callAddress (evm_runtime env) (attach ''LendingPoolAddressesProviderFactory'' p s) ''getAddress'' [VBytes32 k])
    Q (agrees env old) w"
  using assms agrees_at_agrees [OF assms(1)]
  by (auto simp: ensures_def callAddress_def call_def await_def on_network_def evm_call_def provider_view_def revert_def
      attach_def return_io_def as_string_def evm_registered_def split: option.splits)

lemma vault_key_unique: "(k, cid) \<in> set vault_keys \<Longrightarrow> (k', cid) \<in> set vault_keys \<Longrightarrow> k' = k"
  using inj_onD [OF conjunct2 [OF distinct_ids [unfolded distinct_map]], of "(k, cid)" "(k', cid)"] by simp

lemma ensures_insert:
  assumes "agrees_at env old (Some (p, [k])) w" "evm_registered (network_state w) p k = a" "(k, cid) \<in> set vault_keys"
    "cid \<noteq> ''LendingPoolAddressesProvider''" "\<And>w'. agrees_at env old (Some (p, [k])) w' \<Longrightarrow> Q () w'"
  shows "ensures (insertContractAddressInDb (evm_runtime env) cid a) Q (agrees env old) w"
proof -
  let ?e = "\<lparr>entry_address = a, entry_deployer = None\<rparr>"
  let ?w = "w\<lparr>deployed_contracts := db_update cid (script_network env) ?e (deployed_contracts w)\<rparr>"
  have "db_entry_of (evm_runtime env) ?w = (db_entry_of (evm_runtime env) w)(cid \<mapsto> ?e)"
    by (auto simp: db_entry_of_def fun_eq_iff)
  note db = this
  have "agrees env old ?w"
    unfolding agrees_def
  proof (clarify)
    fix k' cid' e
    assume key: "(k', cid') \<in> set vault_keys" and e: "db_entry_of (evm_runtime env) ?w cid' = Some e"
    show "entry_address e \<noteq> ZERO_ADDRESS
        \<and> (\<exists>p. evm_registered (network_state ?w) p k' = entry_address e
           \<and> (old cid' e \<or> (\<exists>prov. db_entry_of (evm_runtime env) ?w ''LendingPoolAddressesProvider'' = Some prov
                 \<and> entry_address prov = p)))"
    proof (cases "cid' = cid")
      case True
      then have "k' = k" "e = ?e" using key e assms(3) vault_key_unique by (simp_all add: db)
      then show ?thesis using assms(1,2,4) by (auto simp: db agrees_at_def)
    next
      case False
      then have "db_entry_of (evm_runtime env) w cid' = Some e" using e by (simp add: db)
      moreover have "agrees env old w" using assms(1) by (rule agrees_at_agrees)
      ultimately show ?thesis using key assms(4) unfolding agrees_def by (auto simp: db)
    qed
  qed
  then have "agrees_at env old (Some (p, [k])) ?w"
    using assms(1,4) by (simp add: db agrees_at_def)
  then show ?thesis by (simp add: ensures_def insertContractAddressInDb_def db_set_def assms(5))
qed

section \<open>Every deployment keeps the invariant\<close>

lemma agrees_at_None: "agrees_at env old pos w \<Longrightarrow> agrees_at env old None w"
  by (simp add: agrees_at_def)

lemma still_other [still_rules]:
  "still env (getCurveswapAdapterAddress (evm_runtime env))" "still env (getUniswapAdapterAddress (evm_runtime env))"
  "still env (getContract (evm_runtime env) cid a)"
  by (auto simp: getCurveswapAdapterAddress_def getUniswapAdapterAddress_def getContract_def intro!: still_rules still_network)

lemma still_uniswap [still_rules]: "still env (deployUniswapAdapterLibrary (evm_runtime env) verify)"
  by (auto simp: deployUniswapAdapterLibrary_def Let_def guarded_def vault_keys_simps intro!: still_rules)

lemma ensures_curveswap:
  assumes "agrees_at env old None w" "\<And>a w'. agrees_at env old None w' \<Longrightarrow> Q a w'"
  shows "ensures (deployCurveswapAdapterLibrary (evm_runtime env) verify) Q (agrees env old) w"
proof -
  have k: "''CURVE_ADDRESS_PROVIDER'' \<notin> fst ` set vault_keys" by (simp add: vault_keys_simps)
  have g: "''CurveswapAdapter'' \<notin> guarded" by (simp add: guarded_def vault_keys_simps)
  show ?thesis
    unfolding deployCurveswapAdapterLibrary_def Let_def
    by (intro ensures_await ensures_if ensures_still [OF still_other(1)] ensures_still [OF still_other(3)]
        ensures_lift ensures_provider ensures_fromConfig(1) [OF _ k] ensures_still [OF still_quiet(3)]
        ensures_still [OF still_signers] ensures_still [OF still_deploy(3)] ensures_still [OF still_save(1) [OF g]]
        assms; (assumption | rule assms(1) | erule agrees_at_None))
qed

lemma ensures_libraries:
  assumes "agrees_at env old None w" "\<And>a w'. agrees_at env old None w' \<Longrightarrow> Q a w'"
  shows "ensures (deployYieldManagerLibraries (evm_runtime env) verify) Q (agrees env old) w"
    and "ensures (deployYearnRETHWstETHVaultLibraries (evm_runtime env) verify) Q (agrees env old) w"
proof -
  show "ensures (deployYieldManagerLibraries (evm_runtime env) verify) Q (agrees env old) w"
    unfolding deployYieldManagerLibraries_def
    by (intro ensures_await ensures_still [OF still_uniswap assms(1)] ensures_curveswap ensures_return assms(2))
  show "ensures (deployYearnRETHWstETHVaultLibraries (evm_runtime env) verify) Q (agrees env old) w"
    unfolding deployYearnRETHWstETHVaultLibraries_def
    by (intro ensures_await ensures_curveswap [OF assms(1)] ensures_return assms(2))
qed

lemma still_sturdy_libraries [still_rules]: "still env (deploySturdyLibraries (evm_runtime env) verify)"
  by (auto simp: deploySturdyLibraries_def deployReserveLogicLibrary_def deployGenericLogic_def deployValidationLogic_def
      Let_def guarded_def vault_keys_simps intro!: still_rules)

lemma plain_deployments_still:
  "(cid, F, d, g) \<in> set (plain_deployments args) \<Longrightarrow> still env (d (evm_runtime env) verify)"
  unfolding plain_deployments_def
  by (simp, elim disjE; clarsimp; unfold plain_deployment_defs; intro still_rules;
      simp add: guarded_def vault_keys_simps provider_methods_def impl_setters_def plain_setters_def)

lemma vault_deployments_agree:
  assumes "agrees env old w"
  shows "list_all (\<lambda>(e, d, settings). ensures (d (evm_runtime env) verify) (\<lambda>_. agrees env old) (agrees env old) w)
    (vault_deployments (evm_runtime env))"
proof -
  have none: "agrees_at env old None w" using assms by (simp add: agrees_at_def)
  note steps = ensures_await ensures_if ensures_return ensures_libraries ensures_lift ensures_provider
    ensures_setAddressAsProxy ensures_fromConfig ensures_getAddress ensures_insert
    ensures_still [OF still_signers] ensures_still [OF still_deploy(1)] ensures_still [OF still_deploy(2)]
    ensures_still [OF still_save(1)] ensures_still [OF still_recordedAddress]
  note names = guarded_def vault_keys_simps
  show ?thesis
    using none
    unfolding vault_deployments_def list.pred_inject split_conv
    by (intro conjI list.pred_inject(1); unfold vault_deployment_defs vault_getter_defs)
      (intro steps; ((assumption | erule agrees_at_agrees | simp add: names); fail)?)+
qed

lemma still_contract [still_rules]:
  "still env (on_network (rt_deployByName (evm_runtime env) ''UiPoolDataProvider'' signer args))"
  "still env (verifyContract (evm_runtime env) cid inst args)" "still env (waitForDeployment (evm_runtime env) inst)"
  "cid \<notin> guarded \<Longrightarrow> still env (registerContractInJsonDb (evm_runtime env) cid inst)"
proof -
  show "still env (on_network (rt_deployByName (evm_runtime env) ''UiPoolDataProvider'' signer args))"
    by (rule still_network) (simp add: evm_runtime_def registered_evm_deploy)
qed (auto simp: verifyContract_def waitForDeployment_def registerContractInJsonDb_def intro!: still_rules)

lemma still_deployContract [still_rules]: "still env (deployContract (evm_runtime env) ''UiPoolDataProvider'' args)"
  unfolding deployContract_def by (intro still_rules; simp add: guarded_def vault_keys_simps)

lemma ensures_setImpl:
  assumes "agrees_at env old (Some (p, ks)) w" "map_of impl_setters meth = Some k"
    and "\<And>w'. agrees_at env old (Some (p, ks)) w' \<Longrightarrow> Q () w'"
  shows "ensures (sendAndWait (evm_runtime env) (attach ''LendingPoolAddressesProviderFactory'' p s) meth [VStr a])
    Q (agrees env old) w"
proof (rule ensures_tx [OF assms(1)])
  fix c x'
  assume c: "obj_get (providers (network_state w)) p = Some c"
    and "provider_tx p c meth [VStr a] (network_state w) = Inr x'"
  then have "updateImpl p c k a (network_state w) = Inr x'"
    using assms(2) by (auto simp: provider_tx_def revert_def impl_setters_def split: if_splits)
  note x' = updateImpl_registered [OF this c]
  have "agrees_at env old (Some (p, ks)) (w\<lparr>network_state := x'\<rparr>)"
    using agrees_at_keys [OF assms(1)] x' by (intro agrees_at_network [OF assms(1)]) auto
  then show "Q () (w\<lparr>network_state := x'\<rparr>)" by (rule assms(3))
qed

text \<open>The other deployments, but for the provider's, and for those that need it.\<close>

lemma other_deployments_still:
  "(ids, d) \<in> set (other_deployments args s reserveLogic genericLogic) \<Longrightarrow>
   set ids \<inter> {''LendingPoolAddressesProvider'', ''CurveswapAdapter'', ''StakedTokenIncentivesController'', ''SturdyToken'',
     ''Liquidator''} = {} \<Longrightarrow> still env (d (evm_runtime env) verify)"
  unfolding other_deployments_def
  by (simp, elim disjE; clarsimp; (unfold other_deployment_defs Let_def)?; intro still_rules; simp add: guarded_def vault_keys_simps)

lemma other_deployments_ensure:
  assumes "agrees_at env old None w"
  defines "E \<equiv> \<lambda>m. ensures m (\<lambda>_. agrees env old) (agrees env old) w"
  shows "E (deploySturdyIncentivesController (evm_runtime env) args verify)" "E (deploySturdyToken (evm_runtime env) verify)"
    "E (deployTempLiquidator (evm_runtime env) args verify)" "E (deployLiquidator (evm_runtime env) args s verify)"
    "E (deployCurveswapAdapterLibrary (evm_runtime env) verify)" "E (deployLidoVaultImpl (evm_runtime env) verify)"
    "E (await (deployYearnRETHWstETHVaultImpl (evm_runtime env) verify) id)"
    "E (await (deployYieldManagerImpl (evm_runtime env) verify) id)"
proof -
  note names = guarded_def vault_keys_simps impl_setters_def
  note defs = deploySturdyIncentivesController_def deploySturdyToken_def deployTempLiquidator_def deployLiquidator_def
    deployLidoVaultImpl_def deployYearnRETHWstETHVaultImpl_def deployYieldManagerImpl_def
    getSturdyIncentivesController_def getSturdyToken_def getLiquidator_def
  note steps = ensures_await ensures_if ensures_return ensures_libraries ensures_lift ensures_provider
    ensures_setImpl ensures_setAddress ensures_fromConfig ensures_curveswap
    ensures_still [OF still_signers] ensures_still [OF still_deploy(1)] ensures_still [OF still_deploy(2)]
    ensures_still [OF still_save(1)] ensures_still [OF still_save(2)] ensures_still [OF still_recordedAddress]
    ensures_still [OF still_quiet(2)]
  show "E (deploySturdyIncentivesController (evm_runtime env) args verify)" "E (deploySturdyToken (evm_runtime env) verify)"
    "E (deployTempLiquidator (evm_runtime env) args verify)" "E (deployLiquidator (evm_runtime env) args s verify)"
    "E (deployCurveswapAdapterLibrary (evm_runtime env) verify)" "E (deployLidoVaultImpl (evm_runtime env) verify)"
    "E (await (deployYearnRETHWstETHVaultImpl (evm_runtime env) verify) id)"
    "E (await (deployYieldManagerImpl (evm_runtime env) verify) id)"
    using assms(1) unfolding E_def defs id_def
    by - (intro steps; ((assumption | erule agrees_at_agrees | simp add: names); fail)?)+
qed

end
