(* ===== verification/DeploymentRuns.thy ===== *)
theory DeploymentRuns
  imports Agreement
begin

text \<open>
  Runs of the deployments in any order, the addresses provider's own deployment among them: every
  contract is created at a new address, so a new provider leaves what the others hold alone, and what
  the database records of the vaults can be followed through the whole run.
\<close>

section \<open>New contracts are at new addresses\<close>

text \<open>
  \<open>grows m\<close>: returning or failing, \<open>m\<close> never takes a creation back, and each provider contract
  there is after it was there before or is at the address of a contract created since.
\<close>

definition grown :: "evm \<Rightarrow> evm \<Rightarrow> bool" where
  "grown x x' \<longleftrightarrow> created x \<le> created x'
     \<and> (\<forall>p. obj_get (providers x') p \<noteq> None \<longrightarrow> obj_get (providers x) p \<noteq> None
          \<or> (\<exists>n. created x < n \<and> n \<le> created x' \<and> p = contract_at n))"

lemma grown_trans: "grown x y \<Longrightarrow> grown y z \<Longrightarrow> grown x z"
  unfolding grown_def by (meson le_trans le_less_trans less_le_trans)

lemma grown_refl [simp]: "grown x x"
  by (simp add: grown_def)

definition grows :: "(evm, 'a) io \<Rightarrow> bool" where
  "grows m \<longleftrightarrow> (\<forall>w. grown (network_state w) (network_state (snd (m w))))"

named_theorems grow_rules \<open>operations that only add contracts\<close>

lemma growsD: "grows m \<Longrightarrow> m w = (r, w') \<Longrightarrow> grown (network_state w) (network_state w')"
  by (metis grows_def snd_conv)

lemma grows_await [grow_rules]: "grows m \<Longrightarrow> (\<And>a. grows (f a)) \<Longrightarrow> grows (await m f)"
  unfolding grows_def await_def by (auto split: prod.splits sum.splits) (metis grown_trans snd_conv)+

lemma grows_catch [grow_rules]: "grows m \<Longrightarrow> (\<And>e. grows (h e)) \<Longrightarrow> grows (catch_io m h)"
  unfolding grows_def catch_io_def by (auto split: prod.splits sum.splits) (metis grown_trans snd_conv)+

lemma grows_simple [grow_rules]:
  "grows (return_io a)" "grows (throw_io e)" "grows (lift_result r)" "grows (db_get rt cid)" "grows (db_set rt cid entry)"
  by (simp_all add: grows_def return_io_def throw_io_def lift_result_def db_get_def db_set_def)

lemma grows_if [grow_rules]: "grows m \<Longrightarrow> grows m' \<Longrightarrow> grows (if b then m else m')"
  by simp

lemma grows_option [grow_rules]: "grows m \<Longrightarrow> (\<And>a. grows (f a)) \<Longrightarrow> grows (case z of None \<Rightarrow> m | Some a \<Rightarrow> f a)"
  by (cases z) auto

lemma grows_for_each [grow_rules]: "(\<And>x. grows (body x)) \<Longrightarrow> grows (for_each body xs)"
  by (induction xs) (auto intro!: grow_rules)

lemma grows_for_fold [grow_rules]: "(\<And>s x. grows (body s x)) \<Longrightarrow> grows (for_fold body s xs)"
  by (induction xs arbitrary: s) (auto intro!: grow_rules)

lemma grows_network: "(\<And>x. grown x (snd (f x))) \<Longrightarrow> grows (on_network f)"
  by (auto simp: grows_def on_network_def split: prod.splits) (metis snd_conv)

lemma grown_deploy: "grown x (snd (evm_deploy revisions factory signer x))"
  by (auto simp: evm_deploy_def grown_def Let_def split: option.splits)

lemma grown_setAddress: "obj_get (providers x) p \<noteq> None \<Longrightarrow> grown x (setAddress_tx p c k a x)"
  by (auto simp: setAddress_tx_def grown_def)

lemma grown_updateImpl: "obj_get (providers x) p \<noteq> None \<Longrightarrow> updateImpl p c k a x = Inr x' \<Longrightarrow> grown x x'"
  by (auto simp: updateImpl_def setAddress_tx_def grown_def Let_def revert_def split: if_splits option.splits)

lemma grown_tx:
  assumes "obj_get (providers x) p \<noteq> None" "provider_tx p c meth args x = Inr x'"
  shows "grown x x'"
  using assms grown_setAddress [OF assms(1)] grown_updateImpl [OF assms(1)]
  unfolding provider_tx_def revert_def by (auto split: if_splits list.splits js_val.splits option.splits)

lemma grown_send: "grown x (snd (evm_send c meth args x))"
  unfolding evm_send_def using grown_tx by (auto split: option.splits sum.splits) blast

lemma grows_runtime [grow_rules]:
  "grows (deploy (evm_runtime env) F signer args)" "grows (deployLinked (evm_runtime env) F libs signer args)"
  "grows (deployBytecode (evm_runtime env) abi bytecode signer)"
  "grows (on_network (rt_deployByName (evm_runtime env) cid signer args))"
  "grows (send (evm_runtime env) c meth args)"
  by (auto simp: deploy_def deployLinked_def deployBytecode_def send_def evm_runtime_def grown_deploy grown_send intro!: grows_network)

lemma grows_quiet [grow_rules]:
  "grows (waitForTx (evm_runtime env) tx)" "grows (callAddress (evm_runtime env) c meth args)"
  "grows (readArtifact (evm_runtime env) cid)" "grows (verifyAtTenderly (evm_runtime env) cid inst)"
  "grows (getFirstSigner (evm_runtime env))" "grows (getContract (evm_runtime env) cid a)"
  "grows (recordedAddress rt addr cid)"
  by (auto simp: waitForTx_def callAddress_def call_def readArtifact_def verifyAtTenderly_def evm_runtime_def
      evm_call_def evm_readArtifact_def getFirstSigner_def getEthersSigners_def getDefenderRelaySigner_def
      impersonateAccountsHardhat_def getContract_def recordedAddress_def Let_def
      split: option.splits intro!: grow_rules grows_network)

lemma grows_verify [grow_rules]: "grows (verifyEtherscanContract (evm_runtime env) a args libs)"
proof -
  have "grows (runTaskWithRetry (evm_runtime env) task params 4 ms (rt_cleanup (evm_runtime env) path))"
    for task params ms path
    by (simp add: grows_def runTaskWithRetry_evm evm_runtime_def [of env, THEN arg_cong [of _ _ rt_cleanup]])
  then show ?thesis
    by (auto simp: verifyEtherscanContract_def Let_def evm_runtime_def intro!: grow_rules grows_network)
qed

lemma grows_save [grow_rules]:
  "grows (withSaveAndVerify (evm_runtime env) inst cid args verify)" "grows (insertContractAddressInDb (evm_runtime env) cid a)"
  "grows (verifyContract (evm_runtime env) cid inst args)" "grows (waitForDeployment (evm_runtime env) inst)"
  "grows (registerContractInJsonDb (evm_runtime env) cid inst)" "grows (sendAndWait (evm_runtime env) c meth args)"
  "grows (deployContract (evm_runtime env) cid args)"
  "grows (setAddressFromConfig (evm_runtime env) p k config field)" "grows (setReserveAssetFromConfig (evm_runtime env) p k config symbol)"
  by (auto simp: withSaveAndVerify_def waitForDeployment_def registerContractInJsonDb_def verifyContract_def
      insertContractAddressInDb_def sendAndWait_def deployContract_def setAddressFromConfig_def setReserveAssetFromConfig_def
      intro!: grow_rules)

lemma grows_libraries [grow_rules]:
  "grows (deploySturdyLibraries (evm_runtime env) verify)" "grows (deployUniswapAdapterLibrary (evm_runtime env) verify)"
  "grows (deployCurveswapAdapterLibrary (evm_runtime env) verify)" "grows (deployYieldManagerLibraries (evm_runtime env) verify)"
  "grows (deployYearnRETHWstETHVaultLibraries (evm_runtime env) verify)"
  "grows (deployLidoVaultLibraries (evm_runtime env) verify)" "grows (deployReserveLogicLibrary (evm_runtime env) verify)"
  "grows (deployGenericLogic (evm_runtime env) logic verify)" "grows (deployValidationLogic (evm_runtime env) logic generic verify)"
  by (auto simp: deploySturdyLibraries_def deployReserveLogicLibrary_def deployGenericLogic_def deployValidationLogic_def
      deployUniswapAdapterLibrary_def deployCurveswapAdapterLibrary_def deployYieldManagerLibraries_def
      deployYearnRETHWstETHVaultLibraries_def deployLidoVaultLibraries_def getUniswapAdapterAddress_def getCurveswapAdapterAddress_def
      getLendingPoolAddressesProvider_def Let_def intro!: grow_rules)

lemma deployments_grow:
  "(ids, d) \<in> set (scripted_deployments (evm_runtime env) args s reserveLogic genericLogic) \<Longrightarrow> grows (d (evm_runtime env) verify)"
  unfolding scripted_deployments_def plain_deployments_def vault_deployments_def other_deployments_def
  by (simp, elim disjE; clarsimp;
      (unfold plain_deployment_defs vault_deployment_defs other_deployment_defs getter_defs Let_def)?; intro grow_rules)

section \<open>The addresses of contracts\<close>

lemma hex_digit_inj: "a < 16 \<Longrightarrow> b < 16 \<Longrightarrow> ''0123456789abcdef'' ! a = ''0123456789abcdef'' ! b \<Longrightarrow> a = b"
  using nth_eq_iff_index_eq [of "''0123456789abcdef''" a b] by simp

lemma hex_digits_inj: "hex_digits k m = hex_digits k n \<Longrightarrow> m < 16 ^ k \<Longrightarrow> n < 16 ^ k \<Longrightarrow> m = n"
proof (induction k arbitrary: m n)
  case (Suc k)
  then have "hex_digits k (m div 16) = hex_digits k (n div 16)" "m mod 16 = n mod 16"
    using hex_digit_inj [of "m mod 16" "n mod 16"] by simp_all
  moreover have "m div 16 < 16 ^ k" "n div 16 < 16 ^ k" using Suc.prems(2,3) by auto
  ultimately show ?case using Suc.IH by (metis div_mult_mod_eq)
qed simp

lemma contract_at_inj: "contract_at m = contract_at n \<Longrightarrow> m < 16 ^ 39 \<Longrightarrow> n < 16 ^ 39 \<Longrightarrow> m = n"
  using hex_digits_inj [of 39 m n] by (simp add: contract_at_def)

text \<open>Every provider is at the address of a contract that was created.\<close>

definition known_providers :: "evm \<Rightarrow> bool" where
  "known_providers x \<longleftrightarrow> fst ` set (providers x) \<subseteq> contract_at ` {..created x}"

lemma provider_listed: "obj_get (providers x) p \<noteq> None \<longleftrightarrow> p \<in> fst ` set (providers x)"
  by (simp add: obj_get_def map_of_eq_None_iff)

lemma known_providers_grown:
  assumes "grown x x'" "known_providers x"
  shows "known_providers x'"
proof -
  have "p \<in> contract_at ` {..created x'}" if "obj_get (providers x') p \<noteq> None" for p
  proof (cases "obj_get (providers x) p = None")
    case True
    then show ?thesis using assms(1) that by (auto simp: grown_def)
  next
    case False
    then have "p \<in> contract_at ` {..created x}" using assms(2) unfolding known_providers_def provider_listed by blast
    then show ?thesis using assms(1) by (auto simp: grown_def)
  qed
  then show ?thesis unfolding known_providers_def provider_listed by blast
qed

section \<open>A new provider\<close>

lemma save_registers_nothing:
  assumes "withSaveAndVerify (evm_runtime env) inst cid args verify w = (r, w')"
  shows "evm_registered (network_state w') = evm_registered (network_state w)"
proof -
  have registers: "still env (waitForDeployment (evm_runtime env) inst)" "still env (verifyContract (evm_runtime env) cid inst args)"
    by (rule still_contract)+
  have "network_state (snd (registerContractInJsonDb (evm_runtime env) cid inst v)) = network_state v" for v
    by (auto simp: registerContractInJsonDb_def await_def lift_result_def db_set_def split: sum.splits)
  with registers show ?thesis
    using arg_cong [OF assms, of snd] unfolding still_def withSaveAndVerify_def
    by (auto simp: await_def return_io_def split: prod.splits sum.splits if_splits) (metis snd_conv)+
qed

lemma registered_new_provider:
  assumes "evm_deploy revisions F signer x = (r, x')" "known_providers x" "created x' < 16 ^ 39" "evm_registered x q k \<noteq> ZERO_ADDRESS"
  shows "evm_registered x' q k = evm_registered x q k"
proof (cases signer)
  case (Some a)
  from assms(4) have "obj_get (providers x) q \<noteq> None"
    by (auto simp: evm_registered_def split: option.splits)
  then obtain n where "n \<le> created x" "q = contract_at n"
    using assms(2) unfolding known_providers_def provider_listed by blast
  moreover have "created x' = Suc (created x)" using assms(1) Some by (auto simp: evm_deploy_def Let_def)
  ultimately have "q \<noteq> contract_at (Suc (created x))" using assms(3) contract_at_inj [of n "Suc (created x)"] by auto
  then show ?thesis using assms(1) Some by (auto simp: evm_deploy_def Let_def evm_registered_def)
qed (use assms(1) in \<open>simp add: evm_deploy_def revert_def\<close>)

lemma provider_deployment_registers:
  assumes "deployLendingPoolAddressesProvider (evm_runtime env) s verify w = (r, w')"
    and "known_providers (network_state w)" "created (network_state w') < 16 ^ 39"
    and "evm_registered (network_state w) q k \<noteq> ZERO_ADDRESS"
  shows "evm_registered (network_state w') q k = evm_registered (network_state w) q k"
proof -
  obtain r1 w1 where signer: "getFirstSigner (evm_runtime env) w = (r1, w1)" by fastforce
  have g1: "grown (network_state w) (network_state w1)" using growsD [OF grows_quiet(5) signer] .
  have e1: "evm_registered (network_state w1) = evm_registered (network_state w)"
    using still_signers [of env] arg_cong [OF signer, of snd] unfolding still_def by (metis snd_conv)
  show ?thesis
  proof (cases r1)
    case (Inl e)
    then show ?thesis using assms(1) signer e1 by (simp add: deployLendingPoolAddressesProvider_def await_def)
  next
    case (Inr a)
    obtain r2 x2 where dep: "evm_deploy (script_revisions env) ''LendingPoolAddressesProviderFactory'' a (network_state w1) = (r2, x2)"
      by fastforce
    have rest: "evm_registered (network_state w') = evm_registered x2 \<and> created x2 \<le> created (network_state w')"
    proof (cases r2)
      case (Inl e)
      then show ?thesis using assms(1) signer Inr dep
        by (auto simp: deployLendingPoolAddressesProvider_def await_def deploy_def on_network_def)
    next
      case (Inr i)
      with \<open>r1 = Inr a\<close> have "withSaveAndVerify (evm_runtime env) i ''LendingPoolAddressesProvider'' [VStr s] verify
          (w1\<lparr>network_state := x2\<rparr>) = (r, w')"
        using assms(1) signer dep by (simp add: deployLendingPoolAddressesProvider_def await_def deploy_def on_network_def)
      from save_registers_nothing [OF this] growsD [OF grows_save(1) this] show ?thesis by (simp add: grown_def)
    qed
    then have "created x2 < 16 ^ 39" using assms(3) by simp
    from registered_new_provider [OF dep known_providers_grown [OF g1 assms(2)] this, of q k] rest e1 assms(4)
    show ?thesis by simp
  qed
qed

lemma provider_deployment_agrees:
  assumes "deployLendingPoolAddressesProvider (evm_runtime env) s verify w = (r, w')"
    and "agrees env (\<lambda>_ _. True) w" "known_providers (network_state w)" "created (network_state w') < 16 ^ 39"
  shows "agrees env (\<lambda>_ _. True) w'"
  unfolding agrees_def
proof (intro ballI allI impI, clarify)
  fix k cid e
  assume key: "(k, cid) \<in> set vault_keys" and "db_entry_of (evm_runtime env) w' cid = Some e"
  moreover have "cid \<noteq> ''LendingPoolAddressesProvider''" using key by (auto simp: vault_keys_simps)
  moreover have "writes (evm_runtime env) {''LendingPoolAddressesProvider''} (deployLendingPoolAddressesProvider (evm_runtime env) s verify)"
    unfolding deployLendingPoolAddressesProvider_def by (intro frame_rules) simp
  note db_entry_of_writes [OF this assms(1), of cid]
  ultimately have "db_entry_of (evm_runtime env) w cid = Some e" by simp
  with assms(2) key obtain p where "entry_address e \<noteq> ZERO_ADDRESS" "evm_registered (network_state w) p k = entry_address e"
    unfolding agrees_def by blast
  moreover from this have "evm_registered (network_state w') p k = entry_address e"
    using provider_deployment_registers [OF assms(1,3,4), of p k] by simp
  ultimately show "entry_address e \<noteq> ZERO_ADDRESS \<and> (\<exists>p. evm_registered (network_state w') p k = entry_address e
      \<and> (True \<or> (\<exists>prov. db_entry_of (evm_runtime env) w' ''LendingPoolAddressesProvider'' = Some prov \<and> entry_address prov = p)))"
    by blast
qed

section \<open>Every step keeps the invariant\<close>

lemma still_ensures: "still env m \<Longrightarrow> agrees env old w \<Longrightarrow> ensures m (\<lambda>_. agrees env old) (agrees env old) w"
  by (rule ensures_still [where pos = None]) (simp_all add: agrees_at_def)

lemma ensures_run: "ensures m (\<lambda>_. I) I w \<Longrightarrow> m w = (r, w') \<Longrightarrow> I w'"
  by (auto simp: ensures_def split: sum.splits)

lemma needing_provider:
  "(ids, d) \<in> set (other_deployments args s reserveLogic genericLogic) \<Longrightarrow>
   set ids \<inter> {''CurveswapAdapter'', ''StakedTokenIncentivesController'', ''SturdyToken'', ''Liquidator''} \<noteq> {} \<Longrightarrow>
   d = (\<lambda>rt. deploySturdyIncentivesController rt args) \<or> d = deploySturdyToken \<or> d = (\<lambda>rt. deployTempLiquidator rt args)
   \<or> d = (\<lambda>rt. deployLiquidator rt args s) \<or> d = deployCurveswapAdapterLibrary \<or> d = deployLidoVaultImpl"
  unfolding other_deployments_def by (simp, elim disjE; clarsimp)

lemma scripted_deployments_agree:
  assumes "(ids, d) \<in> set (scripted_deployments (evm_runtime env) args s reserveLogic genericLogic)"
    and "''LendingPoolAddressesProvider'' \<notin> set ids" "agrees env old w"
  shows "ensures (d (evm_runtime env) verify) (\<lambda>_. agrees env old) (agrees env old) w"
proof -
  have none: "agrees_at env old None w" using assms(3) by (simp add: agrees_at_def)
  consider cid F g where "(cid, F, d, g) \<in> set (plain_deployments args)"
    | e settings where "(e, d, settings) \<in> set (vault_deployments (evm_runtime env))"
    | "(ids, d) \<in> set (other_deployments args s reserveLogic genericLogic)"
    using assms(1) unfolding scripted_deployments_def by auto
  then show ?thesis
  proof cases
    case 1
    from plain_deployments_still [OF this] show ?thesis using assms(3) by (rule still_ensures)
  next
    case 2
    from bspec [OF vault_deployments_agree [OF assms(3), of verify, unfolded list_all_iff] 2] show ?thesis by simp
  next
    case 3
    show ?thesis
    proof (cases "set ids \<inter> {''CurveswapAdapter'', ''StakedTokenIncentivesController'', ''SturdyToken'', ''Liquidator''} = {}")
      case True
      then have "still env (d (evm_runtime env) verify)"
        using assms(2) by (intro other_deployments_still [OF 3]) auto
      then show ?thesis using assms(3) by (rule still_ensures)
    next
      case False
      from needing_provider [OF 3 this] show ?thesis
        by (elim disjE) (simp_all only: other_deployments_ensure [OF none])
    qed
  qed
qed

lemma still_for_fold: "(\<And>s x. x \<in> set xs \<Longrightarrow> still env (body s x)) \<Longrightarrow> still env (for_fold body s xs)"
  by (induction xs arbitrary: s) (auto intro!: still_rules)

lemma token_names: "list_all (\<lambda>x. toUpperCase x \<noteq> ''LendingPoolAddressesProvider'' \<and> toUpperCase x \<notin> snd ` set vault_keys) TokenContractId"
  unfolding TokenContractId_def vault_keys_simps by code_simp

lemma still_mock_tokens: "still env (deployAllMockTokens (evm_runtime env) verify)"
proof -
  have "toUpperCase x \<notin> guarded" if "x \<in> set TokenContractId" for x
    using token_names that by (auto simp: list_all_iff guarded_def)
  moreover have "''MintableERC20'' \<notin> guarded" by (simp add: guarded_def vault_keys_simps)
  ultimately show ?thesis
    unfolding deployAllMockTokens_def deployMintableERC20_def Let_def
    by (intro still_for_fold still_rules) simp_all
qed

lemma deploys_agree:
  assumes "deploys env ids w w'" "''LendingPoolAddressesProvider'' \<notin> set ids" "agrees env old w"
  shows "agrees env old w'"
  using assms(1)
proof cases
  case (deploys_contract d args s reserveLogic genericLogic verify r)
  from ensures_run [OF scripted_deployments_agree [OF this(1) assms(2,3)] this(2)] show ?thesis .
next
  case (deploys_tokens verify tokens)
  have "still env (deployAllMockTokens (evm_runtime env) verify)" by (rule still_mock_tokens)
  from ensures_run [OF still_ensures [OF this assms(3)] deploys_tokens(2)] show ?thesis .
next
  case (deploys_sturdy_libraries verify libraries)
  from ensures_run [OF still_ensures [OF still_sturdy_libraries assms(3)] this(2)] show ?thesis .
next
  case (deploys_lido_libraries verify libraries)
  have none: "agrees_at env old None w" using assms(3) by (simp add: agrees_at_def)
  have "ensures (deployLidoVaultLibraries (evm_runtime env) verify) (\<lambda>_. agrees env old) (agrees env old) w"
    unfolding deployLidoVaultLibraries_def
    by (intro ensures_await ensures_curveswap [OF none] ensures_return) (rule agrees_at_agrees)
  from ensures_run [OF this deploys_lido_libraries(2)] show ?thesis .
next
  case (deploys_yearn_reth verify r)
  have none: "agrees_at env old None w" using assms(3) by (simp add: agrees_at_def)
  from ensures_run [OF other_deployments_ensure(7) [OF none] deploys_yearn_reth(2)] show ?thesis .
next
  case (deploys_yield_manager verify r)
  have none: "agrees_at env old None w" using assms(3) by (simp add: agrees_at_def)
  from ensures_run [OF other_deployments_ensure(8) [OF none] deploys_yield_manager(2)] show ?thesis .
qed

lemma deploys_grown:
  assumes "deploys env ids w w'"
  shows "grown (network_state w) (network_state w')"
  using assms
proof cases
  case (deploys_contract d args s reserveLogic genericLogic verify r)
  from growsD [OF deployments_grow [OF this(1)] this(2)] show ?thesis .
next
  case (deploys_tokens verify tokens)
  have "grows (deployAllMockTokens (evm_runtime env) verify)"
    unfolding deployAllMockTokens_def deployMintableERC20_def Let_def by (intro grow_rules)
  from growsD [OF this deploys_tokens(2)] show ?thesis .
next
  case (deploys_sturdy_libraries verify libraries)
  from growsD [OF grows_libraries(1) this(2)] show ?thesis .
next
  case (deploys_lido_libraries verify libraries)
  from growsD [OF grows_libraries(6) this(2)] show ?thesis .
next
  case (deploys_yearn_reth verify r)
  have "grows (await (deployYearnRETHWstETHVaultImpl (evm_runtime env) verify) id)"
    by (auto simp: deployYearnRETHWstETHVaultImpl_def await_assoc intro!: grow_rules)
  from growsD [OF this deploys_yearn_reth(2)] show ?thesis .
next
  case (deploys_yield_manager verify r)
  have "grows (await (deployYieldManagerImpl (evm_runtime env) verify) id)"
    by (auto simp: deployYieldManagerImpl_def await_assoc intro!: grow_rules)
  from growsD [OF this deploys_yield_manager(2)] show ?thesis .
qed

lemma provider_step:
  "(ids, d) \<in> set (scripted_deployments rt args s reserveLogic genericLogic) \<Longrightarrow>
   ''LendingPoolAddressesProvider'' \<in> set ids \<Longrightarrow> d = (\<lambda>rt. deployLendingPoolAddressesProvider rt s)"
  unfolding scripted_deployments_def plain_deployments_def vault_deployments_def other_deployments_def
  by (simp, elim disjE; clarsimp simp: written_ids_def vault_written_ids_def)

lemma deploys_any_agree:
  assumes "deploys env ids w w'" "agrees env (\<lambda>_ _. True) w" "known_providers (network_state w)"
    "created (network_state w') < 16 ^ 39"
  shows "agrees env (\<lambda>_ _. True) w'"
proof (cases "''LendingPoolAddressesProvider'' \<in> set ids")
  case True
  have "\<exists>s verify r. deployLendingPoolAddressesProvider (evm_runtime env) s verify w = (r, w')"
    using assms(1)
  proof cases
    case (deploys_contract d args s reserveLogic genericLogic verify r)
    then show ?thesis using provider_step [OF deploys_contract(1) True] by metis
  qed (use True token_names in \<open>auto simp: list_all_iff\<close>)
  then show ?thesis using provider_deployment_agrees assms(2-4) by blast
next
  case False
  from deploys_agree [OF assms(1) this assms(2)] show ?thesis .
qed

lemma deploys_star_agree:
  assumes "(\<lambda>w w'. \<exists>ids. deploys env ids w w')\<^sup>*\<^sup>* w w'" "agrees env (\<lambda>_ _. True) w" "known_providers (network_state w)"
    "created (network_state w') < 16 ^ 39"
  shows "agrees env (\<lambda>_ _. True) w' \<and> known_providers (network_state w')"
  using assms
proof (induction rule: rtranclp_induct)
  case (step y z)
  then obtain ids where ids: "deploys env ids y z" by blast
  note grown = deploys_grown [OF ids]
  then have "created (network_state y) < 16 ^ 39" using step.prems(3) by (simp add: grown_def)
  with step have "agrees env (\<lambda>_ _. True) y" "known_providers (network_state y)" by simp_all
  with deploys_any_agree [OF ids] known_providers_grown [OF grown] step.prems(3) show ?case by blast
qed simp

lemma deploys_star_keep:
  "(\<lambda>w w'. \<exists>ids. ''LendingPoolAddressesProvider'' \<notin> set ids \<and> deploys env ids w w')\<^sup>*\<^sup>* w w' \<Longrightarrow>
   agrees env old w \<Longrightarrow> agrees env old w'"
  by (induction rule: rtranclp_induct) (auto intro: deploys_agree)

text \<open>
  C24: start from a database that knows no vault, on any network whose providers are contracts it
  counts as created, and run deployments of \<^verbatim>\<open>helpers/contracts-deployments.ts\<close> in any order and any number of times, the
  addresses provider's own among them, each returning or failing at whatever step (fewer contracts than
  there are addresses). Whatever vault the database then has an entry for, some provider on the network
  holds exactly the recorded address, not the zero address, under the vault's key. And take any moment
  \<open>w1\<close> after which no provider was deployed again: unless the entry is still the one of that moment,
  that provider is the one the database records, so that a migration, which deploys the provider first,
  leaves every vault it records at the recorded provider.
\<close>
theorem recorded_vaults_are_registered:
  assumes "(\<lambda>w w'. \<exists>ids. deploys env ids w w')\<^sup>*\<^sup>* w0 w1"
    and "(\<lambda>w w'. \<exists>ids. ''LendingPoolAddressesProvider'' \<notin> set ids \<and> deploys env ids w w')\<^sup>*\<^sup>* w1 w"
    and "\<forall>(k, cid) \<in> set vault_keys. db_entry_of (evm_runtime env) w0 cid = None"
    and "known_providers (network_state w0)" "created (network_state w1) < 16 ^ 39"
    and "(k, cid) \<in> set vault_keys"
    and "db_entry_of (evm_runtime env) w cid = Some recorded"
  shows "entry_address recorded \<noteq> ZERO_ADDRESS
    \<and> (\<exists>p. evm_registered (network_state w) p k = entry_address recorded
       \<and> (db_entry_of (evm_runtime env) w1 cid = Some recorded
          \<or> (\<exists>prov. db_entry_of (evm_runtime env) w ''LendingPoolAddressesProvider'' = Some prov
               \<and> entry_address prov = p)))"
proof -
  have "agrees env (\<lambda>_ _. True) w1"
    using assms(3,5) by (intro deploys_star_agree [THEN conjunct1, OF assms(1) _ assms(4)]) (auto simp: agrees_def)
  then have "agrees env (\<lambda>cid e. db_entry_of (evm_runtime env) w1 cid = Some e) w1"
    unfolding agrees_def by blast
  from deploys_star_keep [OF assms(2) this] assms(6,7) show ?thesis unfolding agrees_def by blast
qed

section \<open>A migration's order, on the small network\<close>

definition after_provider :: "evm world" where
  "after_provider = snd (deployLendingPoolAddressesProvider (evm_runtime small_env) ''Yearn'' False (small_world [] []))"

lemmas small_defs = small_world_def small_env_def small_entry_def db_entry_of_def db_lookup_def obj_get_def

lemma after_provider_state:
  "after_provider = (small_world [] [])\<lparr>network_state := (network_state (small_world [] []))\<lparr>created := 6,
        code_revision := [(contract_at 6, 1)],
        providers := [(contract_at 1, \<lparr>owner = contract_at 0, addresses = []\<rparr>), (contract_at 6, \<lparr>owner = contract_at 0, addresses = []\<rparr>)]\<rparr>,
      deployed_contracts := [(''LendingPoolAddressesProvider'', small_entry 6), (''UniswapAdapter'', small_entry 2),
         (''CurveswapAdapter'', small_entry 3)]\<rparr>"
proof -
  have "contract_at 6 \<noteq> contract_at 1" by code_simp
  then show ?thesis
    by (simp add: after_provider_def deployLendingPoolAddressesProvider_def getFirstSigner_def getEthersSigners_def usingDefender_def
        await_def return_io_def on_network_def deploy_def evm_deploy_def Let_def withSaveAndVerify_def waitForDeployment_def
        waitForTx_def registerContractInJsonDb_def db_set_def lift_result_def deref_def small_world_def small_env_def small_entry_def
        db_update_def obj_get_def js_at_def)
qed

lemma after_provider_ready:
  "ready small_env (contract_at 0) (contract_at 6) after_provider" "adapters_recorded small_env after_provider"
  "upgradable (network_state after_provider) (contract_at 6) (vault_key yearn_entry) (script_revisions small_env (vault_factory yearn_entry))"
proof -
  have six: "contract_at 6 \<noteq> contract_at 1" by code_simp
  show "ready small_env (contract_at 0) (contract_at 6) after_provider" "adapters_recorded small_env after_provider"
    "upgradable (network_state after_provider) (contract_at 6) (vault_key yearn_entry) (script_revisions small_env (vault_factory yearn_entry))"
    using six by (simp_all add: after_provider_state ready_def adapters_recorded_def upgradable_def evm_registered_def
        provider_getAddress_def small_defs contract_at_def)
qed

theorem recorded_vaults_are_registered_witness:
  "\<exists>w recorded. (\<lambda>w w'. \<exists>ids. deploys small_env ids w w')\<^sup>*\<^sup>* (small_world [] []) after_provider
    \<and> (\<lambda>w w'. \<exists>ids. ''LendingPoolAddressesProvider'' \<notin> set ids \<and> deploys small_env ids w w')\<^sup>*\<^sup>* after_provider w
    \<and> db_entry_of (evm_runtime small_env) w ''YearnVault'' = Some recorded
    \<and> db_entry_of (evm_runtime small_env) w ''LendingPoolAddressesProvider''
        = Some \<lparr>entry_address = contract_at 6, entry_deployer = Some (contract_at 0)\<rparr>
    \<and> evm_registered (network_state w) (contract_at 6) ''YEARN_VAULT'' = entry_address recorded"
proof -
  obtain r where first: "deployLendingPoolAddressesProvider (evm_runtime small_env) ''Yearn'' False (small_world [] []) = (r, after_provider)"
    unfolding after_provider_def by (metis surjective_pairing)
  have provider: "([''LendingPoolAddressesProvider''], \<lambda>rt. deployLendingPoolAddressesProvider rt ''Yearn'')
      \<in> set (scripted_deployments (evm_runtime small_env) [] ''Yearn'' undefined undefined)"
    unfolding scripted_deployments_def other_deployments_def by simp
  have "deploys small_env [''LendingPoolAddressesProvider''] (small_world [] []) after_provider"
    by (rule deploys_contract [OF provider, of False _ r]) (simp only: first)
  then have before: "(\<lambda>w w'. \<exists>ids. deploys small_env ids w w')\<^sup>*\<^sup>* (small_world [] []) after_provider" by blast
  obtain v w where run: "deployYearnVault (evm_runtime small_env) False after_provider = (Inr v, w)"
    using vault_deployments_total [OF yearn_listed after_provider_ready yearn_configured] by (auto simp: total_def)
  have listed: "(vault_written_ids yearn_entry, deployYearnVault) \<in> set (scripted_deployments (evm_runtime small_env) [] s i j)" for s i j
    using yearn_listed unfolding scripted_deployments_def by force
  moreover have "''LendingPoolAddressesProvider'' \<notin> set (vault_written_ids yearn_entry)" by (simp add: vault_written_ids_def)
  ultimately have after: "(\<lambda>w w'. \<exists>ids. ''LendingPoolAddressesProvider'' \<notin> set ids \<and> deploys small_env ids w w')\<^sup>*\<^sup>* after_provider w"
    using deploys_contract [OF listed run] by blast
  have none: "\<forall>(k, cid) \<in> set vault_keys. db_entry_of (evm_runtime small_env) (small_world [] []) cid = None"
    "db_entry_of (evm_runtime small_env) after_provider ''YearnVault'' = None"
    by (simp_all add: vault_keys_simps after_provider_state small_defs)
  have known: "known_providers (network_state (small_world [] []))" "created (network_state after_provider) < 16 ^ 39"
    by (auto simp: known_providers_def small_world_def after_provider_state)
  have entry: "db_entry_of (evm_runtime small_env) w ''YearnVault'' = Some \<lparr>entry_address = contract_address v, entry_deployer = None\<rparr>"
    using postD [OF evm.vault_deployments_in_place [OF yearn_listed] run] by (auto simp: evm.vault_in_place_def)
  have prov: "db_entry_of (evm_runtime small_env) w ''LendingPoolAddressesProvider''
      = Some \<lparr>entry_address = contract_at 6, entry_deployer = Some (contract_at 0)\<rparr>"
    using db_entry_of_writes [OF scripted_deployments_write [OF listed] run, of "''LendingPoolAddressesProvider''"]
    by (simp add: vault_written_ids_def after_provider_state small_defs)
  show ?thesis
    using recorded_vaults_are_registered [OF before after none(1) known, of "''YEARN_VAULT''" "''YearnVault''"]
      entry prov none(2) before after by (auto simp: vault_keys_simps)
qed

end
