(* ===== verification/Migrations.thy ===== *)
theory Migrations
  imports TaskVerification DeploymentRuns
begin

text \<open>
  The migrations of \<^verbatim>\<open>tasks/migrations\<close>: which tasks a deployment runs, in which order, and what the
  database holds when it has returned. Console output is left out.
\<close>

section \<open>The migrations\<close>

text \<open>\<open>await DRE.run(...)\<close>, one task after the other.\<close>

definition run_tasks :: "('x, unit) io list \<Rightarrow> ('x, unit) io" where
  "run_tasks tasks = for_each (\<lambda>task. task) tasks"

text \<open>The lines \<open>printContracts\<close> prints for the database, the contracts recorded on the network.\<close>

definition printContracts :: "'x runtime \<Rightarrow> database \<Rightarrow> string list" where
  "printContracts rt db =
     (let entries = filter (\<lambda>(k, nets). obj_get nets (network_name rt) \<noteq> None) db in
     map (\<lambda>(k, nets). k @ '': '' @ entry_address (the (obj_get nets (network_name rt)))) entries)"

text \<open>What both migrations do around their tasks.\<close>

definition migration :: "'x hre \<Rightarrow> bool \<Rightarrow> string \<Rightarrow> ('x, unit) io list \<Rightarrow> ('x, unit) io" where
  "migration h verify pool_name tasks =
     await (set_DRE h) (\<lambda>_.
     await (if verify then check_verification (hre_runtime h) else return_io ()) (\<lambda>_.
     await (run_tasks tasks) (\<lambda>_.
     if verify
     then
       await (verify_general h True pool_name) (\<lambda>_.
       verify_tokens h pool_name)
     else return_io ())))"

definition sturdy_mainnet :: "'x hre \<Rightarrow> bool \<Rightarrow> bool \<Rightarrow> ('x, unit) io" where
  "sturdy_mainnet h verify skipRegistry =
     (let pool_name = ''Sturdy'' in
     migration h verify pool_name
       [deploy_address_provider h False pool_name skipRegistry,
        deploy_lending_pool h False pool_name,
        deploy_oracles h False pool_name,
        deploy_data_provider h False,
        deploy_incentives_impl h False pool_name,
        deploy_lido_vault h False pool_name,
        deploy_yearn_reth_wsteth_vault h False pool_name,
        deploy_convex_rocket_pool_eth_vault h False pool_name,
        deploy_convex_frax_3crv_vault h False pool_name,
        deploy_convex_steth_vault h False pool_name,
        deploy_convex_dola_3crv_vault h False pool_name,
        initialize_lending_pool h False pool_name,
        deploy_collateral_adapter h False pool_name,
        deploy_liquidator h False pool_name,
        deploy_vault_helper h False pool_name,
        deploy_yield_manager h False pool_name])"

definition sturdy_ftm :: "'x hre \<Rightarrow> bool \<Rightarrow> bool \<Rightarrow> ('x, unit) io" where
  "sturdy_ftm h verify skipRegistry =
     (let pool_name = ''Fantom'' in
     migration h verify pool_name
       [deploy_address_provider h False pool_name skipRegistry,
        deploy_lending_pool h False pool_name,
        deploy_oracles h False pool_name,
        deploy_data_provider h False,
        deploy_incentives_impl h False pool_name,
        deploy_yearn_vault h False pool_name,
        deploy_beefy_eth_vault h False pool_name,
        deploy_yearn_weth_vault h False pool_name,
        deploy_yearn_wbtc_vault h False pool_name,
        deploy_yearn_boo_vault h False pool_name,
        deploy_tomb_ftm_beefy_vault h False pool_name,
        deploy_tomb_mimatic_beefy_vault h False pool_name,
        deploy_yearn_fbeets_vault h False pool_name,
        deploy_yearn_link_vault h False pool_name,
        deploy_yearn_crv_vault h False pool_name,
        deploy_yearn_spell_vault h False pool_name,
        deploy_based_mimatic_beefy_vault h False pool_name,
        initialize_lending_pool h False pool_name,
        deploy_collateral_adapter h False pool_name,
        deploy_liquidator h False pool_name,
        deploy_vault_helper h False pool_name])"

section \<open>Deploying one implementation\<close>

text \<open>The migrations that deploy a new implementation alone.\<close>

definition incentiveControllerImpl :: "'x hre \<Rightarrow> bool \<Rightarrow> ('x, unit) io" where
  "incentiveControllerImpl h verify =
     (let rt = hre_runtime h in
     await (set_DRE h) (\<lambda>_.
     await (getFirstSigner rt) (\<lambda>signer.
     await (lift_result (deref signer)) (\<lambda>EMISSION_EXECUTOR.
     await (deploySturdyIncentivesControllerImpl rt [VStr EMISSION_EXECUTOR] verify) (\<lambda>_.
     return_io ())))))"

definition deploy_impl :: "'x hre \<Rightarrow> ('x runtime \<Rightarrow> bool \<Rightarrow> ('x, Instance) io) \<Rightarrow> bool \<Rightarrow> ('x, unit) io" where
  "deploy_impl h deployment verify =
     await (set_DRE h) (\<lambda>_.
     await (deployment (hre_runtime h) verify) (\<lambda>_.
     return_io ()))"

definition incentiveTokenImpl :: "'x hre \<Rightarrow> bool \<Rightarrow> ('x, unit) io" where
  "incentiveTokenImpl h verify = deploy_impl h deploySturdyTokenImpl verify"

definition lendingPoolCollateralImpl :: "'x hre \<Rightarrow> bool \<Rightarrow> ('x, unit) io" where
  "lendingPoolCollateralImpl h verify = deploy_impl h deployLendingPoolCollateralManagerImpl verify"

definition lendingPoolConfigImpl :: "'x hre \<Rightarrow> bool \<Rightarrow> ('x, unit) io" where
  "lendingPoolConfigImpl h verify = deploy_impl h deployLendingPoolConfiguratorImpl verify"

definition lendingPoolImpl :: "'x hre \<Rightarrow> bool \<Rightarrow> ('x, unit) io" where
  "lendingPoolImpl h verify = deploy_impl h deployLendingPoolImpl verify"

definition lidoVaultImpl :: "'x hre \<Rightarrow> bool \<Rightarrow> ('x, unit) io" where
  "lidoVaultImpl h verify = deploy_impl h deployLidoVaultImpl verify"

end
