(* ===== verification/TaskRuns.thy ===== *)
theory TaskRuns
  imports Migrations
begin

text \<open>
  When the tasks return: on a network that accepts what it is sent, a task runs to its end as soon as
  the contracts it reads are recorded, and records the ones it deploys. The interface is the network's
  side of this; the client lemmas run each task once, from the identifiers it needs to those it leaves.
\<close>

section \<open>Runs from recorded contracts\<close>

text \<open>\<open>known rt D w\<close>: the identifiers in \<open>D\<close> have entries on the current network.\<close>

definition known :: "'x runtime \<Rightarrow> string set \<Rightarrow> 'x world \<Rightarrow> bool" where
  "known rt D w \<longleftrightarrow> (\<forall>cid \<in> D. db_entry_of rt w cid \<noteq> None)"

text \<open>
  \<open>does rt D m Q\<close>: wherever the identifiers in \<open>D\<close> are known, \<open>m\<close> returns, and its value and some
  superset of \<open>D\<close> that is known afterwards satisfy \<open>Q\<close>.
\<close>

definition does :: "'x runtime \<Rightarrow> string set \<Rightarrow> ('x, 'a) io \<Rightarrow> ('a \<Rightarrow> string set \<Rightarrow> bool) \<Rightarrow> bool" where
  "does rt D m Q \<longleftrightarrow> (\<forall>w. known rt D w \<longrightarrow> (\<exists>a w' D'. m w = (Inr a, w') \<and> D \<subseteq> D' \<and> known rt D' w' \<and> Q a D'))"

lemma doesD:
  assumes "does rt D m Q" "known rt D w"
  obtains a w' D' where "m w = (Inr a, w')" "D \<subseteq> D'" "known rt D' w'" "Q a D'"
  using assms unfolding does_def by blast

lemma known_mono: "known rt D' w \<Longrightarrow> D \<subseteq> D' \<Longrightarrow> known rt D w"
  unfolding known_def by blast

lemma does_await: "does rt D m (\<lambda>a D'. does rt D' (f a) Q) \<Longrightarrow> does rt D (await m f) Q"
  unfolding does_def await_eq_Inr by (meson subset_trans)

lemma does_return: "Q a D \<Longrightarrow> does rt D (return_io a) Q"
  unfolding does_def by (auto simp: return_io_def)

lemma does_mono: "does rt D m Q \<Longrightarrow> (\<And>a D'. D \<subseteq> D' \<Longrightarrow> Q a D' \<Longrightarrow> Q' a D') \<Longrightarrow> does rt D m Q'"
  unfolding does_def by meson

text \<open>A task proved once, used for what it is known to leave.\<close>

lemma does_task:
  assumes "does rt D m (\<lambda>a D'. P a \<and> N \<subseteq> D')" "\<And>a. P a \<Longrightarrow> Q a (N \<union> D)"
  shows "does rt D m Q"
  unfolding does_def
proof (intro allI impI)
  fix w
  assume "known rt D w"
  with assms(1) obtain a w' D' where "m w = (Inr a, w')" "D \<subseteq> D'" "known rt D' w'" "P a \<and> N \<subseteq> D'"
    by (rule doesD)
  with assms(2) [of a] show "\<exists>a w' D'. m w = (Inr a, w') \<and> D \<subseteq> D' \<and> known rt D' w' \<and> Q a D'"
    by (intro exI [of _ a] exI [of _ w'] exI [of _ "N \<union> D"]) (auto intro: known_mono)
qed

lemma does_lift: "\<exists>a. r = Inr a \<Longrightarrow> (\<And>a. r = Inr a \<Longrightarrow> Q a D) \<Longrightarrow> does rt D (lift_result r) Q"
  unfolding does_def lift_result_def by auto

lemma does_catch: "does rt D m Q \<Longrightarrow> does rt D (catch_io m handler) Q"
  unfolding does_def catch_io_def by (metis (mono_tags, lifting) old.sum.simps(6) old.prod.case)

lemma does_if: "(b \<Longrightarrow> does rt D m Q) \<Longrightarrow> (\<not> b \<Longrightarrow> does rt D m' Q) \<Longrightarrow> does rt D (if b then m else m') Q"
  by simp

lemma does_network: "(\<And>x. \<exists>a x'. f x = (Inr a, x') \<and> Q a D) \<Longrightarrow> does rt D (on_network f) Q"
  unfolding does_def
proof (intro allI impI)
  fix w assume f: "\<And>x. \<exists>a x'. f x = (Inr a, x') \<and> Q a D" and "known rt D w"
  from f [of "network_state w"] obtain a x' where "f (network_state w) = (Inr a, x')" "Q a D" by blast
  then show "\<exists>a w' D'. on_network f w = (Inr a, w') \<and> D \<subseteq> D' \<and> known rt D' w' \<and> Q a D'"
    using \<open>known rt D w\<close>
    by (intro exI [of _ a] exI [of _ "w\<lparr>network_state := x'\<rparr>"] exI [of _ D])
      (simp add: on_network_def known_def db_entry_of_def)
qed

lemma does_answer:
  "(\<And>x. \<exists>a x'. f x = (Inr a, x') \<and> P a) \<Longrightarrow> (\<And>a. P a \<Longrightarrow> Q a D) \<Longrightarrow> does rt D (on_network f) Q"
  by (rule does_network) meson

lemma does_reply: "(\<And>x. \<exists>a x'. f x = (Inr a, x')) \<Longrightarrow> (\<And>a. Q a D) \<Longrightarrow> does rt D (on_network f) Q"
  by (rule does_network) meson

lemma does_db_get: "(\<And>e. Q e D) \<Longrightarrow> does rt D (db_get rt cid) Q"
  unfolding does_def db_get_def by auto

lemma does_db_set: "Q () (insert cid D) \<Longrightarrow> does rt D (db_set rt cid e) Q"
  unfolding does_def db_set_def known_def db_entry_of_def by (auto intro!: exI [of _ "insert cid D"])

lemma does_insert:
  "Q () (insert cid D) \<Longrightarrow> does rt D (insertContractAddressInDb rt cid a) Q"
  "Q () (insert cid D) \<Longrightarrow> does rt D (rawInsertContractAddressInDb rt cid a) Q"
  by (simp_all add: insertContractAddressInDb_def rawInsertContractAddressInDb_def does_db_set)

lemma await_return_right: "await m return_io = m"
  by (rule ext) (auto simp: await_def return_io_def split: prod.splits sum.splits)

lemma does_recordedAddress: "cid \<in> D \<Longrightarrow> (\<And>a. Q a D) \<Longrightarrow> does rt D (recordedAddress rt None cid) Q"
  unfolding does_def known_def
proof (intro allI impI)
  fix w assume "cid \<in> D" "\<And>a. Q a D" "\<forall>cid \<in> D. db_entry_of rt w cid \<noteq> None"
  then obtain e where "db_entry_of rt w cid = Some e" by blast
  with await_recordedAddress [OF this, of return_io] have "recordedAddress rt None cid w = (Inr (entry_address e), w)"
    by (simp add: await_return_right)
  with \<open>\<And>a. Q a D\<close> \<open>\<forall>cid \<in> D. db_entry_of rt w cid \<noteq> None\<close>
  show "\<exists>a w' D'. recordedAddress rt None cid w = (Inr a, w') \<and> D \<subseteq> D' \<and> (\<forall>cid \<in> D'. db_entry_of rt w' cid \<noteq> None) \<and> Q a D'"
    by blast
qed

lemma does_for_each:
  assumes "\<And>x D'. x \<in> set xs \<Longrightarrow> D \<subseteq> D' \<Longrightarrow> does rt D' (body x) (\<lambda>_ _. True)" "Q () D"
  shows "does rt D (for_each body xs) Q"
proof -
  have "does rt D' (for_each body ys) (\<lambda>_ _. True)" if "set ys \<subseteq> set xs" "D \<subseteq> D'" for ys D'
    using that
  proof (induction ys arbitrary: D')
    case (Cons y ys)
    then have "does rt D' (body y) (\<lambda>_ _. True)" by (intro assms(1)) auto
    then have "does rt D' (body y) (\<lambda>_ D''. does rt D'' (for_each body ys) (\<lambda>_ _. True))"
      by (rule does_mono) (rule Cons.IH, use Cons.prems in auto)
    then show ?case by (simp add: does_await)
  qed (simp add: does_return)
  then have "does rt D (for_each body xs) (\<lambda>a D'. True \<and> {} \<subseteq> D')" by simp
  then show ?thesis by (rule does_task) (use assms(2) in simp)
qed

lemma does_for_fold:
  assumes "\<And>s x D'. x \<in> set xs \<Longrightarrow> D \<subseteq> D' \<Longrightarrow> does rt D' (body s x) (\<lambda>_ _. True)" "\<And>s. Q s D"
  shows "does rt D (for_fold body s xs) Q"
proof -
  have "does rt D' (for_fold body s ys) (\<lambda>_ _. True)" if "set ys \<subseteq> set xs" "D \<subseteq> D'" for ys s D'
    using that
  proof (induction ys arbitrary: s D')
    case (Cons y ys)
    then have "does rt D' (body s y) (\<lambda>_ _. True)" by (intro assms(1)) auto
    then have "does rt D' (body s y) (\<lambda>s' D''. does rt D'' (for_fold body s' ys) (\<lambda>_ _. True))"
      by (rule does_mono) (rule Cons.IH, use Cons.prems in auto)
    then show ?case by (simp add: does_await)
  qed (simp add: does_return)
  then have "does rt D (for_fold body s xs) (\<lambda>a D'. True \<and> {} \<subseteq> D')" by simp
  then show ?thesis by (rule does_task) (use assms(2) in simp)
qed

section \<open>The interface\<close>

text \<open>
  A plain run (no fork, no Tenderly, no Defender) against a network that has a usable first account,
  deploys what it is asked to, accepts every transaction, and answers every view with some value.
\<close>

locale cooperative =
  fixes h :: "'x hre"
  assumes plain_run: "env_FORK (hre_runtime h) = None" "\<not> usingTenderly (hre_runtime h)" "\<not> usingDefender (hre_runtime h)"
      "network_name (hre_runtime h) \<noteq> ''buidlerevm''"
    and chain: "\<exists>n. chainId h = Some n \<and> n \<noteq> 0"
    and signers: "\<exists>s ss x'. rt_getSigners (hre_runtime h) x = (Inr (s # ss), x') \<and> usable h (VStr s)"
    and accounts: "\<exists>s x'. rt_getSigner (hre_runtime h) a x = (Inr s, x')" "\<exists>n x'. rt_getBalance (hre_runtime h) a x = (Inr n, x')"
    and deploys: "\<exists>i x'. rt_deploy (hre_runtime h) F libs acct args x = (Inr i, x') \<and> deployTransaction_from i \<noteq> None"
      "\<exists>i x'. rt_deployBytecode (hre_runtime h) abi bytecode acct x = (Inr i, x') \<and> deployTransaction_from i \<noteq> None"
      "\<exists>i x'. rt_deployByName (hre_runtime h) cid acct args x = (Inr i, x') \<and> deployTransaction_from i \<noteq> None"
    and artifacts: "\<exists>a x'. rt_readArtifact (hre_runtime h) cid x = (Inr a, x')"
    and accepts: "\<exists>tx x'. rt_send (hre_runtime h) c meth args x = (Inr tx, x')" "\<exists>u x'. rt_wait (hre_runtime h) tx x = (Inr u, x')"
    and answers: "\<exists>v x'. rt_call (hre_runtime h) c meth args x = (Inr v, x') \<and> v \<noteq> VUndef"
begin

abbreviation "rt \<equiv> hre_runtime h"

lemma here: "currentNetwork rt = network_name rt" "getParamPerNetwork (env_FORK rt) = getParamPerNetwork None"
  using plain_run by (simp_all add: currentNetwork_def)

lemma does_signers:
  "(\<And>s. usable h (VStr s) \<Longrightarrow> Q (Some s) D) \<Longrightarrow> does rt D (getFirstSigner rt) Q"
  "(\<And>ss. R ss D) \<Longrightarrow> does rt D (getEthersSignersAddresses rt) R"
proof -
  show "does rt D (getFirstSigner rt) Q" if "\<And>s. usable h (VStr s) \<Longrightarrow> Q (Some s) D"
    unfolding getFirstSigner_def getEthersSigners_def
  proof (intro does_await does_network)
    fix x
    obtain s ss x' where "rt_getSigners rt x = (Inr (s # ss), x')" "usable h (VStr s)" using signers by blast
    with that show "\<exists>a x'. rt_getSigners rt x = (Inr a, x') \<and> does rt D (if usingDefender rt
        then await (getDefenderRelaySigner rt) (\<lambda>relay. return_io (relay # tl a)) else return_io a)
        (\<lambda>signers D'. does rt D' (return_io (js_at signers 0)) Q)"
      by (intro exI [of _ "s # ss"] exI [of _ x']) (simp add: plain_run does_return js_at_def)
  qed
  show "does rt D (getEthersSignersAddresses rt) R" if "\<And>ss. R ss D"
    unfolding getEthersSignersAddresses_def getEthersSigners_def
  proof (intro does_await does_network)
    fix x
    obtain s ss x' where "rt_getSigners rt x = (Inr (s # ss), x')" using signers by blast
    with that show "\<exists>a x'. rt_getSigners rt x = (Inr a, x') \<and> does rt D (if usingDefender rt
        then await (getDefenderRelaySigner rt) (\<lambda>relay. return_io (relay # tl a)) else return_io a) R"
      by (intro exI [of _ "s # ss"] exI [of _ x']) (simp add: plain_run does_return)
  qed
qed

lemma does_operations:
  "(\<And>i. deployTransaction_from i \<noteq> None \<Longrightarrow> Q i D) \<Longrightarrow> does rt D (deploy rt F acct args) Q"
  "(\<And>i. deployTransaction_from i \<noteq> None \<Longrightarrow> Q i D) \<Longrightarrow> does rt D (deployLinked rt F libs acct args) Q"
  "(\<And>i. deployTransaction_from i \<noteq> None \<Longrightarrow> Q i D) \<Longrightarrow> does rt D (deployBytecode rt abi bytecode acct) Q"
  "(\<And>i. deployTransaction_from i \<noteq> None \<Longrightarrow> Q i D) \<Longrightarrow> does rt D (on_network (rt_deployByName rt cid acct args)) Q"
  "(\<And>a. R a D) \<Longrightarrow> does rt D (readArtifact rt cid) R"
  "(\<And>s. S s D) \<Longrightarrow> does rt D (on_network (rt_getSigner rt a)) S"
  "(\<And>n. T n D) \<Longrightarrow> does rt D (on_network (rt_getBalance rt a)) T"
  unfolding deploy_def deployLinked_def deployBytecode_def readArtifact_def
  using plain_run(4)
  by (auto intro!: does_answer [OF deploys(1)] does_answer [OF deploys(2)] does_answer [OF deploys(3)]
      does_reply [OF artifacts] does_reply [OF accounts(1)] does_reply [OF accounts(2)])

lemma does_transactions:
  "(\<And>tx. Q tx D) \<Longrightarrow> does rt D (send rt c meth args) Q"
  "R () D \<Longrightarrow> does rt D (waitForTx rt tx) R"
  "R () D \<Longrightarrow> does rt D (sendAndWait rt c meth args) R"
  "(\<And>v. v \<noteq> VUndef \<Longrightarrow> V v D) \<Longrightarrow> does rt D (call rt c meth args) V"
  "(\<And>a. W a D) \<Longrightarrow> does rt D (callAddress rt c meth args) W"
  unfolding send_def waitForTx_def sendAndWait_def call_def callAddress_def
  by (auto intro!: does_await does_return does_reply [OF accepts(1)] does_reply [OF accepts(2)] does_answer [OF answers])

lemma does_save:
  assumes "deployTransaction_from i \<noteq> None" "Q i (insert cid D)"
  shows "does rt D (withSaveAndVerify rt i cid args False) Q"
  unfolding withSaveAndVerify_def waitForDeployment_def registerContractInJsonDb_def
  by (intro does_await does_lift does_transactions does_db_set) (use assms in \<open>auto simp: deref_def intro!: does_return does_transactions does_db_set\<close>)

lemma does_set_DRE: "Q () D \<Longrightarrow> does rt D (set_DRE h) Q"
  unfolding set_DRE_def
  by (auto simp: plain_run intro!: does_await does_network does_return)

lemma does_on_chain: "does rt D task Q \<Longrightarrow> does rt D (on_chain h task) Q"
  unfolding on_chain_def using chain by (auto intro!: does_await does_set_DRE)

lemma does_connect:
  "cid \<in> D \<Longrightarrow> (\<And>i. Q i D) \<Longrightarrow> does rt D (await (recordedAddress rt None cid) (\<lambda>address. await (getFirstSigner rt) (\<lambda>acct.
     return_io (attach F address acct)))) Q"
  by (intro does_await does_recordedAddress does_signers does_return)

end

section \<open>The two markets' parameters\<close>

definition fantom_fields :: "string list" where
  "fantom_fields = map fst (fantom_common_contracts @ fantom_common_tokens @ fantom_addresses)"

definition sturdy_fields :: "string list" where
  "sturdy_fields = map fst (sturdy_common_contracts @ sturdy_common_tokens @ sturdy_addresses)"

lemma fields_eq:
  "fantom_fields =
     [''PoolAdmin'', ''EmergencyAdmin'', ''ProviderRegistry'', ''ProviderRegistryOwner'', ''LendingRateOracle'',
      ''LendingPoolCollateralManager'', ''LendingPoolConfigurator'', ''LendingPool'', ''TokenDistributor'', ''SturdyOracle'',
      ''FallbackOracle'', ''ATokenDomainSeparator'', ''WFTM'', ''WETH'', ''WBTC'', ''WrappedNativeToken'',
      ''ReserveFactorTreasuryAddress'', ''IncentivesController'', ''BOO'', ''TOMB'', ''MIMATIC'', ''BASED'', ''TOMB_FTM_LP'',
      ''TOMB_MIMATIC_LP'', ''BASED_MIMATIC_LP'', ''fBEETS'', ''BEETS'', ''LINK'', ''CRV'', ''SPELL'', ''YearnVaultFTM'',
      ''YearnWETHVaultFTM'', ''YearnWBTCVaultFTM'', ''YearnBOOVaultFTM'', ''BeefyVaultTOMB_FTM'', ''BeefyVaultTOMB_MIMATIC'',
      ''BeefyVaultBASED_MIMATIC'', ''YearnFBEETSVaultFTM'', ''YearnLINKVaultFTM'', ''BeefyETHVault'', ''YearnCRVVaultFTM'',
      ''YearnSPELLVaultFTM'', ''UniswapRouter'', ''TombSwapRouter'', ''AavePool'']"
  "sturdy_fields =
     [''PoolAdmin'', ''EmergencyAdmin'', ''ProviderRegistry'', ''ProviderRegistryOwner'', ''LendingRateOracle'',
      ''LendingPoolCollateralManager'', ''LendingPoolConfigurator'', ''LendingPool'', ''TokenDistributor'', ''SturdyOracle'',
      ''FallbackOracle'', ''ATokenDomainSeparator'', ''WFTM'', ''WETH'', ''WBTC'', ''WrappedNativeToken'',
      ''ReserveFactorTreasuryAddress'', ''IncentivesController'', ''Lido'', ''WSTETH'', ''CRV'', ''CVX'', ''RETH_WSTETH_LP'',
      ''FRAX_3CRV_LP'', ''STECRV_LP'', ''DOLA_3CRV_LP'', ''YearnRETHWstETHVault'', ''CurveswapLidoPool'', ''UniswapRouter'',
      ''CurveswapAddressProvider'', ''AavePool'']"
  by (simp_all add: fantom_fields_def sturdy_fields_def param_defs)

lemma listed_fields:
  "field \<in> set fantom_fields \<Longrightarrow> \<exists>v. networkParam rt FantomConfig field network = Inr v"
  "field \<in> set sturdy_fields \<Longrightarrow> \<exists>v. networkParam rt SturdyConfig field network = Inr v"
proof -
  have "(case map_of (rev a) k of None \<Rightarrow> map_of c k | Some p \<Rightarrow> Some p) \<noteq> None" if "k \<in> set (map fst (c @ a))"
    for k and a c :: "js_val obj obj"
    using that by (auto simp: map_of_eq_None_iff dest: weak_map_of_SomeI split: option.split)
  then have "obj_get (network_params FantomConfig) field \<noteq> None" if "field \<in> set fantom_fields"
    using that unfolding Fantom_params fantom_fields_def append_assoc [symmetric] by blast
  then show "\<exists>v. networkParam rt FantomConfig field network = Inr v" if "field \<in> set fantom_fields"
    using that by (auto simp: networkParam_def deref_def split: option.split)
  have "(case map_of (rev a) k of None \<Rightarrow> map_of c k | Some p \<Rightarrow> Some p) \<noteq> None" if "k \<in> set (map fst (c @ a))"
    for k and a c :: "js_val obj obj"
    using that by (auto simp: map_of_eq_None_iff dest: weak_map_of_SomeI split: option.split)
  then have "obj_get (network_params SturdyConfig) field \<noteq> None" if "field \<in> set sturdy_fields"
    using that unfolding Sturdy_params sturdy_fields_def append_assoc [symmetric] by blast
  then show "\<exists>v. networkParam rt SturdyConfig field network = Inr v" if "field \<in> set sturdy_fields"
    using that by (auto simp: networkParam_def deref_def split: option.split)
qed

text \<open>What the main networks leave for the scripts to deploy.\<close>

lemma fantom_unset:
  assumes "env_FORK rt = None"
  shows "networkParam rt FantomConfig ''ProviderRegistry'' ''ftm'' = Inr (VStr [])"
    "networkParam rt FantomConfig ''LendingRateOracle'' ''ftm'' = Inr (VStr [])"
    "networkParam rt FantomConfig ''LendingPoolCollateralManager'' ''ftm'' = Inr (VStr [])"
    "networkParam rt FantomConfig ''LendingPoolConfigurator'' ''ftm'' = Inr (VStr [])"
    "networkParam rt FantomConfig ''LendingPool'' ''ftm'' = Inr (VStr [])"
    "networkParam rt FantomConfig ''SturdyOracle'' ''ftm'' = Inr (VStr [])"
  using assms by (simp_all add: Fantom_params param_defs)

lemma sturdy_unset:
  assumes "env_FORK rt = None"
  shows "networkParam rt SturdyConfig ''ProviderRegistry'' ''main'' = Inr (VStr [])"
    "networkParam rt SturdyConfig ''LendingRateOracle'' ''main'' = Inr (VStr [])"
    "networkParam rt SturdyConfig ''LendingPoolCollateralManager'' ''main'' = Inr (VStr [])"
    "networkParam rt SturdyConfig ''LendingPoolConfigurator'' ''main'' = Inr (VStr [])"
    "networkParam rt SturdyConfig ''LendingPool'' ''main'' = Inr (VStr [])"
    "networkParam rt SturdyConfig ''SturdyOracle'' ''main'' = Inr (VStr [])"
  using assms by (simp_all add: Sturdy_params param_defs)

section \<open>Steps of the tasks\<close>

context cooperative
begin

lemma does_if_usable:
  "does rt D m' Q \<Longrightarrow> does rt D (if \<not> usable h (VStr []) then m' else m) Q"
  "does rt D m' Q \<Longrightarrow> does rt D (if usable h (VStr []) then m else m') Q"
  by (simp_all add: usable_def notFalsyOrZeroAddress_def)

lemma does_load:
  "Q FantomConfig D \<Longrightarrow> does rt D (lift_result (loadPoolConfig ''Fantom'')) Q"
  "Q SturdyConfig D \<Longrightarrow> does rt D (lift_result (loadPoolConfig ''Sturdy'')) Q"
  by (auto intro: does_lift)

lemma does_some: "Q a D \<Longrightarrow> does rt D (lift_result (deref (Some a))) Q"
  by (auto simp: deref_def intro: does_lift)

text \<open>A field of one of the two configurations.\<close>

lemma does_field:
  "field \<in> set fantom_fields \<Longrightarrow> (\<And>v. Q v D) \<Longrightarrow> does rt D (lift_result (networkParam rt FantomConfig field network)) Q"
  "field \<in> set sturdy_fields \<Longrightarrow> (\<And>v. Q v D) \<Longrightarrow> does rt D (lift_result (networkParam rt SturdyConfig field network)) Q"
  by (auto intro!: does_lift listed_fields)

lemma does_configured:
  "field \<in> set fantom_fields \<Longrightarrow> Q () D \<Longrightarrow> does rt D (setAddressFromConfig rt p k FantomConfig field) Q"
  "field \<in> set sturdy_fields \<Longrightarrow> Q () D \<Longrightarrow> does rt D (setAddressFromConfig rt p k SturdyConfig field) Q"
  unfolding setAddressFromConfig_def by (intro does_await does_field does_transactions; simp)+

lemma does_admin:
  "(\<And>v. Q v D) \<Longrightarrow> does rt D (getGenesisPoolAdmin rt FantomConfig) Q"
  "(\<And>v. Q v D) \<Longrightarrow> does rt D (getGenesisPoolAdmin rt SturdyConfig) Q"
  "(\<And>v. Q v D) \<Longrightarrow> does rt D (getEmergencyAdmin rt FantomConfig) Q"
  "(\<And>v. Q v D) \<Longrightarrow> does rt D (getEmergencyAdmin rt SturdyConfig) Q"
  unfolding getGenesisPoolAdmin_def getEmergencyAdmin_def Let_def
  by (intro does_await does_field does_if does_return does_signers; simp add: fields_eq)+

lemma does_getter:
  "''LendingPoolAddressesProvider'' \<in> D \<Longrightarrow> (\<And>i. Q i D) \<Longrightarrow> does rt D (getLendingPoolAddressesProvider rt None) Q"
  "''LendingPoolConfigurator'' \<in> D \<Longrightarrow> (\<And>i. Q i D) \<Longrightarrow> does rt D (getLendingPoolConfiguratorProxy rt None) Q"
  "''SturdyOracle'' \<in> D \<Longrightarrow> (\<And>i. Q i D) \<Longrightarrow> does rt D (getSturdyOracle rt None) Q"
  "''LendingPool'' \<in> D \<Longrightarrow> (\<And>i. Q i D) \<Longrightarrow> does rt D (getLendingPool rt None) Q"
  "''StableAndVariableTokensHelper'' \<in> D \<Longrightarrow> (\<And>i. Q i D) \<Longrightarrow> does rt D (getStableAndVariableTokensHelper rt None) Q"
  "''ATokensAndRatesHelper'' \<in> D \<Longrightarrow> (\<And>i. Q i D) \<Longrightarrow> does rt D (getATokensAndRatesHelper rt None) Q"
  "''StakedTokenIncentivesController'' \<in> D \<Longrightarrow> (\<And>i. Q i D) \<Longrightarrow> does rt D (getSturdyIncentivesController rt None) Q"
  "''SturdyProtocolDataProvider'' \<in> D \<Longrightarrow> (\<And>i. Q i D) \<Longrightarrow> does rt D (getSturdyProtocolDataProvider rt None) Q"
  unfolding getter_defs by (rule does_connect; assumption)+

lemma does_attach:
  "''LendingPool'' \<in> D \<Longrightarrow> (\<And>i. Q i D) \<Longrightarrow> does rt D (getLendingPool rt (Some a)) Q"
  "''LendingPoolConfigurator'' \<in> D \<Longrightarrow> (\<And>i. Q i D) \<Longrightarrow> does rt D (getLendingPoolConfiguratorProxy rt (Some a)) Q"
  "(\<And>i. Q i D) \<Longrightarrow> does rt D (getContract rt cid a) Q"
proof -
  have step: "does rt D (recordedAddress rt (Some a) cid) R" if "cid \<in> D" "\<And>a. R a D" for cid R
    using does_recordedAddress [where cid = cid and D = D and Q = R, OF that] that(2)
    by (cases "a = []") (simp_all add: recordedAddress_def does_return)
  show "''LendingPool'' \<in> D \<Longrightarrow> (\<And>i. Q i D) \<Longrightarrow> does rt D (getLendingPool rt (Some a)) Q"
    "''LendingPoolConfigurator'' \<in> D \<Longrightarrow> (\<And>i. Q i D) \<Longrightarrow> does rt D (getLendingPoolConfiguratorProxy rt (Some a)) Q"
    unfolding getter_defs by (intro does_await step does_signers does_return; simp)+
  have "\<exists>ss x'. rt_getSigners rt x = (Inr ss, x')" for x using signers by blast
  then show "(\<And>i. Q i D) \<Longrightarrow> does rt D (getContract rt cid a) Q"
    unfolding getContract_def by (auto intro!: does_await does_reply does_return)
qed

lemmas task_steps =
  does_await does_load does_some does_signers does_operations does_transactions does_save does_insert
  does_set_DRE does_on_chain does_if_usable does_admin does_getter does_attach does_return

end

section \<open>The vaults\<close>

lemma does_truthy: "(truthy_string a \<Longrightarrow> does rt D m Q) \<Longrightarrow> (\<not> truthy_string a \<Longrightarrow> does rt D m' Q) \<Longrightarrow>
   does rt D (if truthy_string a then m else m') Q"
  by simp

context cooperative
begin

lemma does_address:
  "(\<And>a. Q a D) \<Longrightarrow> does rt D (getUniswapAdapterAddress rt) Q"
  "(\<And>a. Q a D) \<Longrightarrow> does rt D (getCurveswapAdapterAddress rt) Q"
  unfolding getUniswapAdapterAddress_def getCurveswapAdapterAddress_def
  by (intro does_await does_db_get does_return; simp)+

lemma does_at_least:
  "does rt D m (\<lambda>a D'. N \<subseteq> D') \<Longrightarrow> (\<And>a. Q a (N \<union> D)) \<Longrightarrow> does rt D m Q"
  by (rule does_task [where P = "\<lambda>_. True"]) auto

lemma does_libraries:
  assumes "''LendingPoolAddressesProvider'' \<in> D"
  shows "(\<And>libs. Q libs D) \<Longrightarrow> does rt D (deployYieldManagerLibraries rt False) Q"
    "(\<And>libs. Q libs D) \<Longrightarrow> does rt D (deployYearnRETHWstETHVaultLibraries rt False) Q"
proof -
  have "does rt D (deployCurveswapAdapterLibrary rt False) (\<lambda>i D'. {} \<subseteq> D')"
    "does rt D (deployUniswapAdapterLibrary rt False) (\<lambda>i D'. {} \<subseteq> D')"
    unfolding deployCurveswapAdapterLibrary_def deployUniswapAdapterLibrary_def Let_def
    by (intro does_await does_address does_truthy task_steps does_configured; use assms in \<open>simp add: fields_eq\<close>)+
  note adapters = this [THEN does_at_least]
  show "(\<And>libs. Q libs D) \<Longrightarrow> does rt D (deployYieldManagerLibraries rt False) Q"
    "(\<And>libs. Q libs D) \<Longrightarrow> does rt D (deployYearnRETHWstETHVaultLibraries rt False) Q"
    unfolding deployYieldManagerLibraries_def deployYearnRETHWstETHVaultLibraries_def
    by (intro does_await adapters does_return; simp)+
qed

lemmas vault_steps = task_steps does_libraries does_configured does_connect

text \<open>Each deployment of a proxied contract needs the provider and leaves its two entries.\<close>

lemma does_sturdy_vaults:
  "''LendingPoolAddressesProvider'' \<in> D \<Longrightarrow> (\<And>i. Q i ({''LidoVaultImpl'', ''LidoVault''} \<union> D)) \<Longrightarrow> does rt D (deployLidoVault rt False) Q"
  "''LendingPoolAddressesProvider'' \<in> D \<Longrightarrow> (\<And>i. Q i ({''YearnRETHWstETHVaultImpl'', ''YearnRETHWstETHVault''} \<union> D)) \<Longrightarrow> does rt D (deployYearnRETHWstETHVaultVault rt False) Q"
  "''LendingPoolAddressesProvider'' \<in> D \<Longrightarrow> (\<And>i. Q i ({''ConvexRocketPoolETHVaulttImpl'', ''ConvexRocketPoolETHVault''} \<union> D)) \<Longrightarrow> does rt D (deployConvexRocketPoolETHVault rt False) Q"
  "''LendingPoolAddressesProvider'' \<in> D \<Longrightarrow> (\<And>i. Q i ({''ConvexFRAX3CRVVaultImpl'', ''ConvexFRAX3CRVVault''} \<union> D)) \<Longrightarrow> does rt D (deployConvexFRAX3CRVVault rt False) Q"
  "''LendingPoolAddressesProvider'' \<in> D \<Longrightarrow> (\<And>i. Q i ({''ConvexSTETHVaultImpl'', ''ConvexSTETHVault''} \<union> D)) \<Longrightarrow> does rt D (deployConvexSTETHVault rt False) Q"
  "''LendingPoolAddressesProvider'' \<in> D \<Longrightarrow> (\<And>i. Q i ({''ConvexDOLA3CRVVaultImpl'', ''ConvexDOLA3CRVVault''} \<union> D)) \<Longrightarrow> does rt D (deployConvexDOLA3CRVVault rt False) Q"
  "''LendingPoolAddressesProvider'' \<in> D \<Longrightarrow> (\<And>i. Q i ({''CollateralAdapterImpl'', ''CollateralAdapter''} \<union> D)) \<Longrightarrow> does rt D (deployCollateralAdapter rt False) Q"
  "''LendingPoolAddressesProvider'' \<in> D \<Longrightarrow> (\<And>i. Q i ({''YieldManagerImpl'', ''YieldManager''} \<union> D)) \<Longrightarrow> does rt D (deployYieldManager rt False) Q"
  unfolding vault_deployment_defs vault_getter_defs
  by (intro vault_steps; simp add: fields_eq insert_commute)+

end

end
