(* ===== verification/MigrationRuns.thy ===== *)
theory MigrationRuns
  imports TaskRuns ReserveTransactions
begin

text \<open>
  The tasks of \<^verbatim>\<open>tasks/full\<close> and the migrations of \<^verbatim>\<open>tasks/migrations\<close> on a network that accepts
  what it is sent: each returns once the contracts it reads are recorded, and a whole migration returns
  from any database. The market's parameters enter through one interface, which both configurations meet
  on their networks.
\<close>

section \<open>Deployments of the core\<close>

text \<open>What the first steps of a migration leave recorded.\<close>

definition core_ids :: "string set" where
  "core_ids =
     {''LendingPoolAddressesProvider'', ''ReserveLogic'', ''GenericLogic'', ''ValidationLogic'', ''LendingPoolImpl'', ''LendingPool'',
      ''LendingPoolConfiguratorImpl'', ''LendingPoolConfigurator'', ''StableAndVariableTokensHelper'', ''ATokensAndRatesHelper'',
      ''SturdyOracle'', ''LendingRateOracle'', ''SturdyProtocolDataProvider'', ''StakedTokenIncentivesControllerImpl'',
      ''StakedTokenIncentivesController'', ''SturdyTokenImpl'', ''SturdyToken''}"

definition initialize_ids :: "string set" where
  "initialize_ids =
     {''StableDebtToken'', ''VariableDebtToken'', ''AToken'', ''ATokenForCollateral'', ''aTokenImpl'', ''aTokenForCollateralImpl'',
      ''LendingPoolCollateralManagerImpl'', ''LendingPoolCollateralManager'', ''WalletBalanceProvider'', ''UiPoolDataProvider'',
      ''UiIncentiveDataProvider''}"

text \<open>The vaults of the two markets.\<close>

definition fantom_vaults :: "string set" where
  "fantom_vaults =
     {''YearnVault'', ''BeefyETHVault'', ''YearnWETHVault'', ''YearnWBTCVault'', ''YearnBOOVault'', ''TombFtmBeefyVault'',
      ''TombMiMaticBeefyVault'', ''YearnFBEETSVault'', ''YearnLINKVault'', ''YearnCRVVault'', ''YearnSPELLVault'',
      ''BasedMiMaticBeefyVault''}"

definition sturdy_vaults :: "string set" where
  "sturdy_vaults =
     {''LidoVault'', ''YearnRETHWstETHVault'', ''ConvexRocketPoolETHVault'', ''ConvexFRAX3CRVVault'', ''ConvexSTETHVault'',
      ''ConvexDOLA3CRVVault''}"

context cooperative
begin

text \<open>The first four steps are the same for both markets.\<close>

lemma does_registry_getter:
  "''LendingPoolAddressesProviderRegistry'' \<in> D \<Longrightarrow> (\<And>i. Q i D) \<Longrightarrow>
     does rt D (getLendingPoolAddressesProviderRegistry isA isZ rt a) Q"
  unfolding getLendingPoolAddressesProviderRegistry_def
  by (cases a) (auto intro!: does_await does_recordedAddress does_signers does_return)

lemma does_provider_at:
  "''LendingPoolAddressesProvider'' \<in> D \<Longrightarrow> (\<And>i. Q i D) \<Longrightarrow>
     does rt D (getLendingPoolAddressesProvider rt (Some a)) Q"
proof -
  assume D: "''LendingPoolAddressesProvider'' \<in> D" and Q: "\<And>i. Q i D"
  have step: "does rt D (recordedAddress rt (Some a) ''LendingPoolAddressesProvider'') R" if "\<And>a. R a D" for R
    using does_recordedAddress [where Q = R, OF D that] that
    by (cases "a = []") (simp_all add: recordedAddress_def does_return)
  show ?thesis
    unfolding getter_defs by (intro does_await step does_signers does_return Q)
qed

lemma does_core_deployments:
  "(\<And>i. Q i (insert ''LendingPoolAddressesProvider'' D)) \<Longrightarrow> does rt D (deployLendingPoolAddressesProvider rt m False) Q"
  "(\<And>i. Q i (insert ''LendingPoolAddressesProviderRegistry'' D)) \<Longrightarrow> does rt D (deployLendingPoolAddressesProviderRegistry rt False) Q"
  "(\<And>i. Q i ({''ReserveLogic'', ''GenericLogic'', ''ValidationLogic'', ''LendingPoolImpl'', ''LendingPool''} \<union> D)) \<Longrightarrow>
     does rt D (deployLendingPool rt False) Q"
  "(\<And>i. Q i ({''LendingPoolConfiguratorImpl'', ''LendingPoolConfigurator''} \<union> D)) \<Longrightarrow>
     does rt D (deployLendingPoolConfigurator rt False) Q"
  "(\<And>i. Q i (insert ''StableAndVariableTokensHelper'' D)) \<Longrightarrow> does rt D (deployStableAndVariableTokensHelper rt args False) Q"
  "(\<And>i. Q i (insert ''ATokensAndRatesHelper'' D)) \<Longrightarrow> does rt D (deployATokensAndRatesHelper rt args False) Q"
  "(\<And>i. Q i (insert ''SturdyOracle'' D)) \<Longrightarrow> does rt D (deploySturdyOracle rt args False) Q"
  "(\<And>i. Q i (insert ''LendingRateOracle'' D)) \<Longrightarrow> does rt D (deployLendingRateOracle rt False) Q"
  "(\<And>i. Q i (insert ''SturdyProtocolDataProvider'' D)) \<Longrightarrow> does rt D (deploySturdyProtocolDataProvider rt a False) Q"
  "(\<And>i. Q i (insert ''DeployVaultHelper'' D)) \<Longrightarrow> does rt D (deployVaultHelper rt args False) Q"
  "(\<And>i. Q i (insert ''StableDebtToken'' D)) \<Longrightarrow> does rt D (deployGenericStableDebtToken rt) Q"
  "(\<And>i. Q i (insert ''VariableDebtToken'' D)) \<Longrightarrow> does rt D (deployGenericVariableDebtToken rt) Q"
  "(\<And>i. Q i (insert ''AToken'' D)) \<Longrightarrow> does rt D (deployGenericATokenImpl rt False) Q"
  "(\<And>i. Q i (insert ''ATokenForCollateral'' D)) \<Longrightarrow> does rt D (deployCollateralATokenImpl rt False) Q"
  "(\<And>i. Q i (insert ''DefaultReserveInterestRateStrategy'' D)) \<Longrightarrow> does rt D (deployDefaultReserveInterestRateStrategy rt args False) Q"
  "(\<And>i. Q i ({''LendingPoolCollateralManagerImpl'', ''LendingPoolCollateralManager''} \<union> D)) \<Longrightarrow>
     does rt D (deployLendingPoolCollateralManager rt False) Q"
  "(\<And>i. Q i (insert ''WalletBalanceProvider'' D)) \<Longrightarrow> does rt D (deployWalletBalancerProvider rt False) Q"
  "(\<And>i. Q i (insert ''UiIncentiveDataProvider'' D)) \<Longrightarrow> does rt D (deployUiIncentiveDataProvider rt False) Q"
  unfolding deployLendingPoolAddressesProvider_def deployLendingPoolAddressesProviderRegistry_def deployLendingPool_def
    deployLendingPoolConfigurator_def deployStableAndVariableTokensHelper_def deployATokensAndRatesHelper_def
    deploySturdyOracle_def deployLendingRateOracle_def deploySturdyProtocolDataProvider_def deployVaultHelper_def
    deployGenericStableDebtToken_def deployGenericVariableDebtToken_def deployGenericATokenImpl_def
    deployCollateralATokenImpl_def deployDefaultReserveInterestRateStrategy_def deployLendingPoolCollateralManager_def
    deployWalletBalancerProvider_def deployUiIncentiveDataProvider_def
    deploySturdyLibraries_def deployReserveLogicLibrary_def deployGenericLogic_def deployValidationLogic_def Let_def
  by (intro task_steps; simp add: insert_commute)+

lemma does_data_provider_deployed: "(\<And>i. Q i (insert ''UiPoolDataProvider'' D)) \<Longrightarrow> does rt D (deployUiPoolDataProvider rt args False) Q"
  unfolding deployUiPoolDataProvider_def deployContract_def waitForDeployment_def registerContractInJsonDb_def Let_def
  by (intro task_steps does_lift does_db_set; auto simp: deref_def intro!: does_transactions does_return)

lemma does_if_deploying:
  "does rt D m' Q \<Longrightarrow> does rt D (if b \<or> \<not> usable h (VStr []) then m' else m) Q"
  "does rt D m Q \<Longrightarrow> does rt D (if \<not> True \<and> b then m' else m) Q"
  "does rt D m Q \<Longrightarrow> does rt D (if truthy_string (env_FORK rt) then m' else m) Q"
  "does rt D (f p1 p2 p3) Q \<Longrightarrow> does rt D (case (p1, p2, p3) of (x, y, z) \<Rightarrow> f x y z) Q"
  "does rt D (g p1 p2) Q \<Longrightarrow> does rt D (case (p1, p2) of (x, y) \<Rightarrow> g x y) Q"
  "usable h v \<Longrightarrow> does rt D m Q \<Longrightarrow> does rt D (if \<not> usable h v then m' else m) Q"
  using plain_run by (simp_all add: usable_def notFalsyOrZeroAddress_def truthy_string_def)

lemmas core_steps = does_if_deploying task_steps does_registry_getter does_provider_at does_core_deployments does_data_provider_deployed

end

section \<open>A market on its network\<close>

text \<open>
  What the tasks need of a pool's configuration on the network they run on: the addresses it leaves for
  the scripts to deploy are empty, it has assets and aggregators, every asset of the price oracle has an
  aggregator, every rate is of an asset, and its quote currency is known.
\<close>

locale market = cooperative +
  fixes pool_name :: string and config :: PoolConfiguration and assets :: "tEthereumAddress obj"
    and aggregators :: "tEthereumAddress obj"
  assumes load: "loadPoolConfig pool_name = Inr config"
    and set_fields: "field \<in> set fantom_fields \<inter> set sturdy_fields \<Longrightarrow> \<exists>v. networkParam (hre_runtime h) config field network = Inr v"
    and unset_fields: "field \<in> {''ProviderRegistry'', ''LendingRateOracle'', ''LendingPoolCollateralManager'',
        ''LendingPoolConfigurator'', ''LendingPool'', ''SturdyOracle''} \<Longrightarrow>
        networkParam (hre_runtime h) config field (network_name (hre_runtime h)) = Inr (VStr [])"
    and assets: "getParamPerNetwork None (ReserveAssets config) (network_name (hre_runtime h)) = Some assets"
        "obj_get (ReserveAssets config) (network_name (hre_runtime h)) = Some assets"
    and aggregators: "getParamPerNetwork None (ChainlinkAggregator config) (network_name (hre_runtime h)) = Some aggregators"
    and pairs: "\<exists>p. getPairsTokenAggregator (obj_set ''USD'' (UsdAddress (ProtocolGlobalParams config)) assets) aggregators
        (OracleQuoteCurrency config) = Inr p"
    and rates: "\<forall>k \<in> set (obj_keys (filterMapBy (LendingRateOracleRatesCommon config) (\<lambda>k. k \<in> set (obj_keys assets)))).
        obj_get (omit (obj_set ''USD'' (UsdAddress (ProtocolGlobalParams config)) assets) [''USD'']) k \<noteq> None"
    and quote: "\<exists>v. networkParam (hre_runtime h) config ''WrappedNativeToken'' (network_name (hre_runtime h)) = Inr v \<and> js_truthy v"
        "OracleQuoteCurrency config \<in> {''ETH'', ''USD''}"
begin

lemma does_pool: "Q config D \<Longrightarrow> does rt D (lift_result (loadPoolConfig pool_name)) Q"
  by (auto simp: load intro: does_lift)

lemma await_lift_Inr: "await (lift_result (Inr a)) f = f a"
  by (auto simp: lift_result_def await_def)

lemma load_await: "await (lift_result (loadPoolConfig pool_name)) f = f config"
  by (simp add: load await_lift_Inr)

lemma does_param:
  "field \<in> set fantom_fields \<inter> set sturdy_fields \<Longrightarrow> (\<And>v. Q v D) \<Longrightarrow> does rt D (lift_result (networkParam rt config field network)) Q"
  "field \<in> set fantom_fields \<inter> set sturdy_fields \<Longrightarrow> (\<And>v. Q v D) \<Longrightarrow> does rt D (lift_result (param rt config field)) Q"
  unfolding param_def by (auto intro!: does_lift set_fields)

lemma does_unset:
  "Q (VStr []) D \<Longrightarrow> does rt D (lift_result (networkParam rt config ''ProviderRegistry'' (network_name rt))) Q"
  "Q (VStr []) D \<Longrightarrow> does rt D (lift_result (networkParam rt config ''LendingRateOracle'' (network_name rt))) Q"
  "Q (VStr []) D \<Longrightarrow> does rt D (lift_result (networkParam rt config ''LendingPoolCollateralManager'' (network_name rt))) Q"
  "Q (VStr []) D \<Longrightarrow> does rt D (lift_result (networkParam rt config ''LendingPoolConfigurator'' (network_name rt))) Q"
  "Q (VStr []) D \<Longrightarrow> does rt D (lift_result (networkParam rt config ''LendingPool'' (network_name rt))) Q"
  "Q (VStr []) D \<Longrightarrow> does rt D (lift_result (networkParam rt config ''SturdyOracle'' (network_name rt))) Q"
  "Q (VStr []) D \<Longrightarrow> does rt D (lift_result (param rt config ''LendingRateOracle'')) Q"
  "Q (VStr []) D \<Longrightarrow> does rt D (lift_result (param rt config ''SturdyOracle'')) Q"
  unfolding param_def here by (auto simp: unset_fields intro!: does_lift)

lemma does_admins:
  "(\<And>v. Q v D) \<Longrightarrow> does rt D (getGenesisPoolAdmin rt config) Q"
  "(\<And>v. Q v D) \<Longrightarrow> does rt D (getEmergencyAdmin rt config) Q"
  unfolding getGenesisPoolAdmin_def getEmergencyAdmin_def Let_def
  by (intro does_await does_param does_if does_return does_signers; simp add: fields_eq)+

lemma does_asset_of:
  "(\<And>v. Q v D) \<Longrightarrow> does rt D (lift_result (asset rt config symb)) Q"
  "(\<And>v. Q v D) \<Longrightarrow> does rt D (lift_result (aggregator rt config symb)) Q"
  "R () D \<Longrightarrow> does rt D (setReserveAssetFromConfig rt p k config symb) R"
  unfolding asset_def aggregator_def reserveAssetParam_def setReserveAssetFromConfig_def here assets(1) aggregators
  by (auto simp: deref_def plain_run assets(1) aggregators intro!: does_await does_lift does_transactions)

lemmas market_steps = does_unset does_pool does_param does_admins core_steps

lemma does_registry_task:
  "Q () (insert ''LendingPoolAddressesProviderRegistry'' D) \<Longrightarrow> does rt D (deploy_address_provider_registry h False pool_name) Q"
  unfolding deploy_address_provider_registry_def Let_def
  by (intro market_steps; simp)

lemma does_add_market:
  assumes "''LendingPoolAddressesProvider'' \<in> D" "Q () (insert ''LendingPoolAddressesProviderRegistry'' D)"
  shows "does rt D (add_market_to_registry h False (Some a) pool_name b) Q"
  unfolding add_market_to_registry_def Let_def
  by (intro market_steps does_registry_task; (simp add: fields_eq assms)?)

lemma does_address_provider:
  assumes "Q () (insert ''LendingPoolAddressesProvider'' D)"
  shows "does rt D (deploy_address_provider h False pool_name skip) Q"
proof (rule does_at_least [where N = "{''LendingPoolAddressesProvider''}"])
  show "does rt D (deploy_address_provider h False pool_name skip) (\<lambda>a D'. {''LendingPoolAddressesProvider''} \<subseteq> D')"
    unfolding deploy_address_provider_def Let_def
    by (cases skip; simp only: if_True if_False; intro market_steps does_add_market; simp)
qed (use assms in auto)

lemma does_lending_pool:
  assumes "''LendingPoolAddressesProvider'' \<in> D"
    "Q () ({''ReserveLogic'', ''GenericLogic'', ''ValidationLogic'', ''LendingPoolImpl'', ''LendingPool'',
      ''LendingPoolConfiguratorImpl'', ''LendingPoolConfigurator'', ''StableAndVariableTokensHelper'', ''ATokensAndRatesHelper''} \<union> D)"
  shows "does rt D (deploy_lending_pool h False pool_name) Q"
  unfolding deploy_lending_pool_def Let_def
  by (intro market_steps; use assms in \<open>simp add: insert_commute\<close>)

lemma does_push_rates:
  assumes "\<forall>k \<in> set (obj_keys rs). obj_get assetsAddresses k \<noteq> None" "\<And>s. Q s D"
  shows "does rt D (for_fold (push_rate assetsAddresses) s rs) Q"
proof (rule does_for_fold)
  fix s and x :: "string \<times> IMarketRates" and D'
  assume "x \<in> set rs"
  with assms(1) have "obj_get assetsAddresses (fst x) \<noteq> None" by (auto simp: obj_keys_def)
  then show "does rt D' (push_rate assetsAddresses s x) (\<lambda>_ _. True)"
    by (auto simp: push_rate_def entry_of_eq deref_def split: prod.splits option.splits intro!: does_await does_lift does_return)
qed (rule assms(2))

lemma does_market_rates:
  assumes "''StableAndVariableTokensHelper'' \<in> D" "Q () D"
    "\<forall>k \<in> set (obj_keys rs). obj_get assetsAddresses k \<noteq> None"
  shows "does rt D (setInitialMarketRatesInRatesOracleByHelper rt rs assetsAddresses oracle admin) Q"
  unfolding setInitialMarketRatesInRatesOracleByHelper_def Let_def
  by (intro market_steps does_push_rates; use assms in \<open>auto intro!: market_steps does_for_each\<close>)

lemma does_quote: "(\<And>v. Q v D) \<Longrightarrow> does rt D (getQuoteCurrency rt config) Q"
  unfolding getQuoteCurrency_def getWrappedNativeTokenAddress_def here
  using quote by (auto intro!: does_await does_lift does_return)

lemma does_oracles:
  assumes "''LendingPoolAddressesProvider'' \<in> D" "''StableAndVariableTokensHelper'' \<in> D"
    "Q () ({''SturdyOracle'', ''LendingRateOracle''} \<union> D)"
  shows "does rt D (deploy_oracles h False pool_name) Q"
proof -
  obtain tokens prices where p: "getPairsTokenAggregator (obj_set ''USD'' (UsdAddress (ProtocolGlobalParams config)) assets)
     aggregators (OracleQuoteCurrency config) = Inr (tokens, prices)"
    using pairs by force
  have pairs: "does rt D' (lift_result (getPairsTokenAggregator (obj_set ''USD'' (UsdAddress (ProtocolGlobalParams config)) assets)
     aggregators (OracleQuoteCurrency config))) R" if "R (tokens, prices) D'" for R D'
    using that by (auto simp: p intro: does_lift)
  have aggs: "does rt D' (lift_result (if Some aggregators = None \<and> b then Inr [] else Inr aggregators)) R"
    if "R aggregators D'" for b R D'
    using that by (auto intro: does_lift)
  have rates': "does rt D' (lift_result (getLendingRateOracles rt config)) R"
    if "R (filterMapBy (LendingRateOracleRatesCommon config) (\<lambda>k. k \<in> set (obj_keys assets))) D'" for R D'
    using that by (auto simp: getLendingRateOracles_def here assets(2) intro: does_lift)
  show ?thesis
    unfolding deploy_oracles_def Let_def load_await here assets(1) aggregators option.case deref_def
    by (intro market_steps aggs pairs rates' does_quote does_market_rates rates; use assms in \<open>simp add: fields_eq insert_commute\<close>)
qed


text \<open>Provider-side deployments of the core.\<close>

lemma does_sturdy_load:
  "Q SturdyConfig D \<Longrightarrow> does rt D (lift_result (if ''Sturdy'' = ''Fantom'' then r else loadPoolConfig ''Sturdy'')) Q"
  by (auto intro: does_lift)

lemma does_incentives:
  assumes "''LendingPoolAddressesProvider'' \<in> D"
  shows "(\<And>i. Q i ({''StakedTokenIncentivesControllerImpl'', ''StakedTokenIncentivesController''} \<union> D)) \<Longrightarrow>
     does rt D (deploySturdyIncentivesController rt args False) Q"
    "(\<And>i. Q i ({''SturdyTokenImpl'', ''SturdyToken''} \<union> D)) \<Longrightarrow> does rt D (deploySturdyToken rt False) Q"
    "(\<And>i. Q i ({''LiquidatorImpl'', ''Liquidator''} \<union> D)) \<Longrightarrow> does rt D (deployTempLiquidator rt args False) Q"
    "(\<And>i. Q i ({''LiquidatorImpl'', ''Liquidator''} \<union> D)) \<Longrightarrow> does rt D (deployLiquidator rt args ''Sturdy'' False) Q"
  unfolding deploySturdyIncentivesController_def deploySturdyToken_def getSturdyToken_def deployTempLiquidator_def
    deployLiquidator_def getLiquidator_def
  by (intro does_sturdy_load market_steps does_configured does_connect; use assms in \<open>simp add: insert_commute fields_eq\<close>)+

lemma does_small_tasks:
  assumes "''LendingPoolAddressesProvider'' \<in> D"
  shows "Q () (insert ''SturdyProtocolDataProvider'' D) \<Longrightarrow> does rt D (deploy_data_provider h False) Q"
    "Q () ({''StakedTokenIncentivesControllerImpl'', ''StakedTokenIncentivesController'', ''SturdyTokenImpl'', ''SturdyToken''} \<union> D) \<Longrightarrow>
       does rt D (deploy_incentives_impl h False pool_name) Q"
    "Q () (insert ''DeployVaultHelper'' D) \<Longrightarrow> does rt D (deploy_vault_helper h False pool_name) Q"
  unfolding deploy_data_provider_def deploy_incentives_impl_def deploy_vault_helper_def exit_on_error_def Let_def
  by (intro market_steps does_catch does_incentives; use assms in \<open>simp add: insert_commute\<close>)+

lemma does_right:
  "does rt D m Q \<Longrightarrow> does rt D (if ''Fantom'' = ''Fantom'' then m else m') Q"
  "does rt D m' Q \<Longrightarrow> does rt D (if ''Sturdy'' = ''Fantom'' then m else m') Q"
  by simp_all

lemma does_liquidator:
  assumes "''LendingPoolAddressesProvider'' \<in> D" "Q () ({''LiquidatorImpl'', ''Liquidator''} \<union> D)"
    "pool_name \<in> {''Fantom'', ''Sturdy''}"
  shows "does rt D (deploy_liquidator h False pool_name) Q"
  unfolding deploy_liquidator_def Let_def
  using assms(3) by (elim insertE emptyE; simp only:; intro does_right market_steps does_incentives; use assms(1,2) in simp)

section \<open>The pool's reserves\<close>

lemma does_value: "does rt D m (\<lambda>a D'. P a) \<Longrightarrow> (\<And>a. P a \<Longrightarrow> Q a D) \<Longrightarrow> does rt D m Q"
  by (rule does_task [where N = "{}" and P = P]) auto

lemma does_strategy:
  "(\<And>st'. obj_get (strategyAddresses st') (strategy_name strat) \<noteq> None \<Longrightarrow> Q st' D) \<Longrightarrow>
     does rt D (deployStrategyOnce rt p False st strat) Q"
proof (rule does_value)
  show "does rt D (deployStrategyOnce rt p False st strat)
     (\<lambda>st' D'. obj_get (strategyAddresses st') (strategy_name strat) \<noteq> None)"
    unfolding deployStrategyOnce_def Let_def
    by (intro does_if market_steps; simp add: truthy_string_def split: option.splits)
qed

lemma does_init_reserve: "does rt D (init_reserve rt p tokens False st reserve) (\<lambda>_ _. True)"
  unfolding init_reserve_def
  by (cases reserve) (auto simp: deref_def intro!: does_if market_steps does_strategy does_lift)

lemma does_init_batch: "does rt D (init_batch rt configurator lp n chunks emissions collected i) (\<lambda>_ _. True)"
proof -
  have field: "does rt D' (lift_result (js_field v k)) R" if "v \<noteq> VUndef" "\<And>a. R a D'" for v k R D'
    using that by (auto simp: js_field_def split: js_val.splits intro!: does_lift)
  show ?thesis
    unfolding init_batch_def collect_incentives_def
    by (intro market_steps does_for_fold field; simp)
qed

lemma does_configure_reserve: "does rt D (configure_reserve rt tokens helpers collected reserve) (\<lambda>_ _. True)"
proof -
  have field: "does rt D' (lift_result (js_field v k)) R" if "v \<noteq> VUndef" "\<And>a. R a D'" for v k R D'
    using that by (auto simp: js_field_def split: js_val.splits intro!: does_lift)
  have entry: "does rt D' (lift_result (entry_of tokens k)) R" if "truthy_string (obj_get tokens k)" "\<And>a. R a D'" for k R D'
    using that by (auto simp: entry_of_eq deref_def truthy_string_def split: option.splits intro!: does_lift)
  show ?thesis
    unfolding configure_reserve_def
    by (cases collected; cases reserve; simp only: prod.case; intro does_if market_steps field entry; simp)
qed

lemma does_init_reserves:
  assumes "{''LendingPoolAddressesProvider'', ''StableAndVariableTokensHelper'', ''StakedTokenIncentivesController'',
      ''LendingPoolConfigurator'', ''LendingPool''} \<subseteq> D"
    "Q 0 ({''StableDebtToken'', ''VariableDebtToken'', ''AToken'', ''ATokenForCollateral'', ''aTokenImpl'', ''aTokenForCollateralImpl''} \<union> D)"
  shows "does rt D (initReservesByHelper rt reserves tokens p1 p2 p3 p4 admin treasury yields False) Q"
proof (rule does_task [where P = "\<lambda>n. n = 0"])
  show "does rt D (initReservesByHelper rt reserves tokens p1 p2 p3 p4 admin treasury yields False)
      (\<lambda>n D'. n = 0 \<and> {''StableDebtToken'', ''VariableDebtToken'', ''AToken'', ''ATokenForCollateral'', ''aTokenImpl'', ''aTokenForCollateralImpl''} \<subseteq> D')"
    unfolding initReservesByHelper_def Let_def
    by (intro market_steps does_for_fold does_init_reserve does_init_batch; use assms(1) in \<open>auto intro!: market_steps\<close>)
qed (use assms(2) in simp)

lemma does_configure_reserves:
  assumes "{''LendingPoolAddressesProvider'', ''ATokensAndRatesHelper''} \<subseteq> D" "Q () D"
  shows "does rt D (configureReservesByHelper rt reserves tokens helpers admin) Q"
  unfolding configureReservesByHelper_def Let_def
  by (intro market_steps does_for_fold does_configure_reserve; use assms in \<open>auto intro!: market_steps does_for_each\<close>)


text \<open>The identifiers the initialisation of the pool leaves.\<close>

lemma does_initialize:
  assumes "core_ids \<subseteq> D" "\<And>D' R. D \<subseteq> D' \<Longrightarrow> (\<And>y. R y D') \<Longrightarrow> does rt D' (yieldAddresses_of rt pool_name) R"
    "Q () (initialize_ids \<union> D)"
  shows "does rt D (initialize_lending_pool h False pool_name) Q"
proof (rule does_at_least [where N = initialize_ids])
  have D: "''LendingPoolAddressesProvider'' \<in> D" "''SturdyProtocolDataProvider'' \<in> D" "''StableAndVariableTokensHelper'' \<in> D"
    "''StakedTokenIncentivesController'' \<in> D" "''LendingPoolConfigurator'' \<in> D" "''LendingPool'' \<in> D" "''ATokensAndRatesHelper'' \<in> D"
    using assms(1) by (auto simp: core_ids_def)
  have treasury: "does rt D' (getTreasuryAddress rt config) R" if "\<And>v. R v D'" for R D'
    unfolding getTreasuryAddress_def using that by (intro does_param; simp add: fields_eq)
  show "does rt D (initialize_lending_pool h False pool_name) (\<lambda>_ D'. initialize_ids \<subseteq> D')"
    unfolding initialize_lending_pool_def Let_def load_await exit_on_error_def here assets(1) option.case
    by (intro does_catch market_steps does_init_reserves does_configure_reserves treasury assms(2);
        use D in \<open>simp add: fields_eq initialize_ids_def; fail\<close>)
qed (use assms(3) in simp)

section \<open>The vault tasks\<close>

lemma does_adapter:
  assumes "''LendingPoolAddressesProvider'' \<in> D" "Q () ({''CollateralAdapterImpl'', ''CollateralAdapter''} \<union> D)"
    and vaults: "\<And>D' R. D \<subseteq> D' \<Longrightarrow> (\<And>v. R v D') \<Longrightarrow> does rt D' (acceptableVaults rt pool_name) R"
    and external: "\<exists>e. reserveExternalAssets rt config pool_name = Inr e"
  shows "does rt D (deploy_collateral_adapter h False pool_name) Q"
proof -
  have loop: "does rt D' (for_each (addCollateralAsset rt adapter e (Some assets) vs) rs) R" if "R () D'" for D' adapter e vs rs R
    unfolding addCollateralAsset_def Let_def
    by (intro does_for_each market_steps does_if; use that in simp)
  have external': "does rt D' (lift_result (reserveExternalAssets rt config pool_name)) R" if "\<And>e. R e D'" for R D'
    using external that by (auto intro: does_lift)
  show ?thesis
    unfolding deploy_collateral_adapter_def Let_def load_await here assets(1)
    by (intro market_steps does_sturdy_vaults vaults external' loop; use assms(1,2) in \<open>auto simp: insert_commute\<close>)
qed

lemma does_register_vault:
  assumes "''LendingPoolConfigurator'' \<in> D" "\<And>R. (\<And>v. R v (N \<union> D)) \<Longrightarrow> does rt D deployment R"
    "\<And>v. Q v (N \<union> D)"
  shows "does rt D (register_vault rt deployment treasury) Q"
  unfolding register_vault_def
  by (intro does_await assms(2) market_steps; use assms(1,3) in simp)

lemma does_source:
  assumes "does rt D deployment (\<lambda>_ _. True)" "\<And>v. Q v D"
  shows "does rt D (source_or_deploy rt config symb deployment) Q"
proof (rule does_value [where P = "\<lambda>_. True"])
  have deployed: "does rt D (await deployment (\<lambda>i. return_io (VStr (contract_address i)))) (\<lambda>_ _. True)"
    by (intro does_await does_mono [OF assms(1)] does_return) simp
  show "does rt D (source_or_deploy rt config symb deployment) (\<lambda>_ _. True)"
    unfolding source_or_deploy_def
    by (intro does_await does_asset_of does_if does_return deployed) simp
qed (rule assms(2))

lemma does_set_sources:
  assumes "''SturdyOracle'' \<in> D" "Q () D"
    "\<forall>r \<in> set as \<union> set ss \<union> set ps. \<exists>v. r = Inr v"
  shows "does rt D (set_sources rt as ss ps) Q"
proof -
  have total: "\<exists>vs. mapR (\<lambda>v. v) rs = Inr vs" if "\<forall>r \<in> set rs. \<exists>v. r = Inr v" for rs :: "js_val result list"
    using that by (induction rs) auto
  have lists: "does rt D' (lift_result (mapR (\<lambda>v. v) rs)) R" if "set rs \<subseteq> set as \<union> set ss" "\<And>v. R v D'" for rs R D'
    using assms(3) that total [of rs] by (auto intro!: does_lift)
  have loop: "does rt D' (for_each (\<lambda>asset. await (lift_result asset) (\<lambda>v.
       await (call rt p ''getAssetPrice'' [v]) (\<lambda>price.
       await (lift_result (js_toString price)) (\<lambda>_. return_io ())))) ps) R" if "R () D'" for p R D'
    using that assms(3) by (intro does_for_each) (auto simp: js_toString_def split: js_val.split intro!: market_steps does_lift)
  show ?thesis
    unfolding set_sources_def
    by (intro market_steps lists loop; use assms in simp)
qed

lemma asset_total: "\<exists>v. asset rt config symb = Inr v" "\<exists>v. aggregator rt config symb = Inr v"
  unfolding asset_def aggregator_def reserveAssetParam_def here
  by (simp_all add: deref_def plain_run assets(1) aggregators)

lemma does_vault_task:
  assumes "''LendingPoolConfigurator'' \<in> D" "\<And>R. (\<And>v. R v (N \<union> D)) \<Longrightarrow> does rt D deployment R"
    "\<And>v. does rt (N \<union> D) (rest config v) Q"
  shows "does rt D (vault_task h pool_name deployment rest) Q"
  unfolding vault_task_def load_await
  by (intro market_steps does_register_vault [where N = N] assms; simp add: fields_eq assms)

end

section \<open>The two markets\<close>

lemma mapR_total: "\<forall>x \<in> set xs. \<exists>y. f x = Inr y \<Longrightarrow> \<exists>ys. mapR f xs = Inr ys"
  by (induction xs) auto

lemma pairs_total:
  assumes "distinct (obj_keys ob)" "list_all (\<lambda>k. k \<in> set (getQuoteCurrencies q) \<or> k \<in> set (obj_keys aggregators)) (obj_keys ob)"
    "distinct (obj_keys aggregators)"
  shows "\<exists>p. getPairsTokenAggregator ob aggregators q = Inr p"
proof -
  have "\<exists>p. tokenAggregator aggregators t = Inr p" if "t \<in> set (omit ob (getQuoteCurrencies q))" for t
  proof -
    from that assms(1) have "fst t \<in> set (obj_keys ob) - set (getQuoteCurrencies q)"
      by (auto simp: omit_eq obj_keys_def)
    with assms(2) have "fst t \<in> set (obj_keys aggregators)" by (auto simp: list_all_iff)
    then obtain a where "obj_get aggregators (fst t) = Some a"
      by (fastforce simp: obj_get_def obj_keys_def dest: weak_map_of_SomeI)
    then show ?thesis by (simp add: tokenAggregator_def entries_at_findIndex deref_def)
  qed
  then have "\<exists>ps. mapR (tokenAggregator aggregators) (omit ob (getQuoteCurrencies q)) = Inr ps"
    by (intro mapR_total) simp
  then show ?thesis by (auto simp: getPairsTokenAggregator_def Let_def)
qed

lemma ftm_entries:
  "obj_get fantom_ReserveAssets ''ftm'' = Some (the (obj_get fantom_ReserveAssets ''ftm''))"
  "obj_get fantom_ChainlinkAggregator ''ftm'' = Some (the (obj_get fantom_ChainlinkAggregator ''ftm''))"
  by (simp_all add: fantom_ReserveAssets_def fantom_ChainlinkAggregator_def obj_get_def)

lemma ftm_keys:
  "obj_keys (the (obj_get fantom_ReserveAssets ''ftm'')) =
    [''DAI'', ''USDC'', ''fUSDT'', ''yvWFTM'', ''mooWETH'', ''yvWETH'', ''yvWBTC'', ''yvBOO'', ''mooTOMB_FTM'', ''mooTOMB_MIMATIC'',
     ''yvfBEETS'', ''yvLINK'', ''yvCRV'', ''yvSPELL'', ''mooBASED_MIMATIC'']"
  by (simp add: fantom_ReserveAssets_def obj_get_def obj_keys_def)

lemma ftm_aggregator_keys:
  "obj_keys (the (obj_get fantom_ChainlinkAggregator ''ftm'')) =
    [''DAI'', ''USDC'', ''fUSDT'', ''yvWFTM'', ''mooWETH'', ''yvWETH'', ''yvWBTC'', ''yvBOO'', ''TOMB'', ''MIMATIC'', ''BASED'',
     ''mooTOMB_FTM'', ''mooTOMB_MIMATIC'', ''yvfBEETS'', ''BEETS'', ''yvLINK'', ''yvCRV'', ''yvSPELL'', ''mooBASED_MIMATIC'']"
  by (simp add: fantom_ChainlinkAggregator_def obj_get_def obj_keys_def)

lemma main_entries:
  "obj_get sturdy_ReserveAssets ''main'' = Some (the (obj_get sturdy_ReserveAssets ''main''))"
  "obj_get sturdy_ChainlinkAggregator ''main'' = Some (the (obj_get sturdy_ChainlinkAggregator ''main''))"
  by (simp_all add: sturdy_ReserveAssets_def sturdy_ChainlinkAggregator_def obj_get_def)

lemma main_keys:
  "obj_keys (the (obj_get sturdy_ReserveAssets ''main'')) =
    [''DAI'', ''USDC'', ''stETH'', ''yvRETH_WSTETH'', ''cvxRETH_WSTETH'', ''cvxFRAX_3CRV'', ''cvxSTECRV'', ''cvxDOLA_3CRV'']"
  by (simp add: sturdy_ReserveAssets_def obj_get_def obj_keys_def)

lemma main_aggregator_keys:
  "obj_keys (the (obj_get sturdy_ChainlinkAggregator ''main'')) =
    [''DAI'', ''USDC'', ''stETH'', ''yvRETH_WSTETH'', ''cvxRETH_WSTETH'', ''cvxFRAX_3CRV'', ''cvxSTECRV'', ''cvxDOLA_3CRV'',
     ''USD'', ''CRV'', ''CVX'']"
  by (simp add: sturdy_ChainlinkAggregator_def obj_get_def obj_keys_def)

lemma market_pairs:
  "\<exists>p. getPairsTokenAggregator (obj_set ''USD'' usd (the (obj_get fantom_ReserveAssets ''ftm'')))
     (the (obj_get fantom_ChainlinkAggregator ''ftm'')) ''USD'' = Inr p"
  "\<exists>p. getPairsTokenAggregator (obj_set ''USD'' usd (the (obj_get sturdy_ReserveAssets ''main'')))
     (the (obj_get sturdy_ChainlinkAggregator ''main'')) ''ETH'' = Inr p"
  by (rule pairs_total; simp add: obj_keys_set ftm_keys ftm_aggregator_keys main_keys main_aggregator_keys getQuoteCurrencies_def)+

lemma rates_are_assets:
  assumes "distinct (obj_keys rates)" "distinct (obj_keys assets)" "''USD'' \<notin> set (obj_keys assets)"
  shows "\<forall>k \<in> set (obj_keys (filterMapBy rates (\<lambda>k. k \<in> set (obj_keys assets)))).
     obj_get (omit (obj_set ''USD'' usd assets) [''USD'']) k \<noteq> None"
  using assms by (auto simp: filterMapBy_eq omit_eq obj_set_fresh obj_keys_def obj_get_def map_of_eq_None_iff image_iff)


locale fantom_market = cooperative +
  assumes fantom: "network_name (hre_runtime h) = ''ftm''"

sublocale fantom_market \<subseteq> market h "''Fantom''" FantomConfig
  "the (obj_get fantom_ReserveAssets ''ftm'')" "the (obj_get fantom_ChainlinkAggregator ''ftm'')"
proof unfold_locales
  have fork: "env_FORK rt = None" by (rule plain_run(1))
  show "getParamPerNetwork None (ReserveAssets FantomConfig) (network_name rt) = Some (the (obj_get fantom_ReserveAssets ''ftm''))"
    "obj_get (ReserveAssets FantomConfig) (network_name rt) = Some (the (obj_get fantom_ReserveAssets ''ftm''))"
    "getParamPerNetwork None (ChainlinkAggregator FantomConfig) (network_name rt) = Some (the (obj_get fantom_ChainlinkAggregator ''ftm''))"
    using ftm_entries by (simp_all add: fantom getParamPerNetwork_def truthy_string_def FantomConfig_def fantom_CommonsConfig_def)
  show "\<exists>p. getPairsTokenAggregator (obj_set ''USD'' (UsdAddress (ProtocolGlobalParams FantomConfig)) (the (obj_get fantom_ReserveAssets ''ftm'')))
      (the (obj_get fantom_ChainlinkAggregator ''ftm'')) (OracleQuoteCurrency FantomConfig) = Inr p"
    using market_pairs(1) by (simp add: FantomConfig_def fantom_CommonsConfig_def)
  show "\<forall>k \<in> set (obj_keys (filterMapBy (LendingRateOracleRatesCommon FantomConfig)
        (\<lambda>k. k \<in> set (obj_keys (the (obj_get fantom_ReserveAssets ''ftm'')))))).
      obj_get (omit (obj_set ''USD'' (UsdAddress (ProtocolGlobalParams FantomConfig)) (the (obj_get fantom_ReserveAssets ''ftm''))) [''USD'']) k \<noteq> None"
    by (rule rates_are_assets, simp add: FantomConfig_def fantom_CommonsConfig_def obj_keys_def, simp_all add: ftm_keys)
  show "\<exists>v. networkParam rt FantomConfig ''WrappedNativeToken'' (network_name rt) = Inr v \<and> js_truthy v"
    using fork by (simp add: fantom Fantom_params param_defs js_truthy_def)
  show "OracleQuoteCurrency FantomConfig \<in> {''ETH'', ''USD''}"
    by (simp add: FantomConfig_def fantom_CommonsConfig_def)
  show "networkParam rt FantomConfig field (network_name rt) = Inr (VStr [])"
    if "field \<in> {''ProviderRegistry'', ''LendingRateOracle'', ''LendingPoolCollateralManager'',
        ''LendingPoolConfigurator'', ''LendingPool'', ''SturdyOracle''}" for field
    using that fantom_unset [OF fork] by (auto simp: fantom)
qed (auto intro: listed_fields)

locale sturdy_market = cooperative +
  assumes main: "network_name (hre_runtime h) = ''main''"

sublocale sturdy_market \<subseteq> market h "''Sturdy''" SturdyConfig
  "the (obj_get sturdy_ReserveAssets ''main'')" "the (obj_get sturdy_ChainlinkAggregator ''main'')"
proof unfold_locales
  have fork: "env_FORK rt = None" by (rule plain_run(1))
  show "getParamPerNetwork None (ReserveAssets SturdyConfig) (network_name rt) = Some (the (obj_get sturdy_ReserveAssets ''main''))"
    "obj_get (ReserveAssets SturdyConfig) (network_name rt) = Some (the (obj_get sturdy_ReserveAssets ''main''))"
    "getParamPerNetwork None (ChainlinkAggregator SturdyConfig) (network_name rt) = Some (the (obj_get sturdy_ChainlinkAggregator ''main''))"
    using main_entries by (simp_all add: main getParamPerNetwork_def truthy_string_def SturdyConfig_def sturdy_CommonsConfig_def)
  show "\<exists>p. getPairsTokenAggregator (obj_set ''USD'' (UsdAddress (ProtocolGlobalParams SturdyConfig)) (the (obj_get sturdy_ReserveAssets ''main'')))
      (the (obj_get sturdy_ChainlinkAggregator ''main'')) (OracleQuoteCurrency SturdyConfig) = Inr p"
    using market_pairs(2) by (simp add: SturdyConfig_def sturdy_CommonsConfig_def)
  show "\<forall>k \<in> set (obj_keys (filterMapBy (LendingRateOracleRatesCommon SturdyConfig)
        (\<lambda>k. k \<in> set (obj_keys (the (obj_get sturdy_ReserveAssets ''main'')))))).
      obj_get (omit (obj_set ''USD'' (UsdAddress (ProtocolGlobalParams SturdyConfig)) (the (obj_get sturdy_ReserveAssets ''main''))) [''USD'']) k \<noteq> None"
    by (rule rates_are_assets, simp add: SturdyConfig_def sturdy_CommonsConfig_def obj_keys_def, simp_all add: main_keys)
  show "\<exists>v. networkParam rt SturdyConfig ''WrappedNativeToken'' (network_name rt) = Inr v \<and> js_truthy v"
    using fork by (simp add: main Sturdy_params param_defs js_truthy_def)
  show "OracleQuoteCurrency SturdyConfig \<in> {''ETH'', ''USD''}"
    by (simp add: SturdyConfig_def sturdy_CommonsConfig_def)
  show "networkParam rt SturdyConfig field (network_name rt) = Inr (VStr [])"
    if "field \<in> {''ProviderRegistry'', ''LendingRateOracle'', ''LendingPoolCollateralManager'',
        ''LendingPoolConfigurator'', ''LendingPool'', ''SturdyOracle''}" for field
    using that sturdy_unset [OF fork] by (auto simp: main)
qed (auto intro: listed_fields)

lemmas vault_task_defs =
  deploy_lido_vault_def deploy_yearn_reth_wsteth_vault_def deploy_convex_rocket_pool_eth_vault_def
  deploy_convex_frax_3crv_vault_def deploy_convex_steth_vault_def deploy_convex_dola_3crv_vault_def
  deploy_yearn_vault_def deploy_beefy_eth_vault_def deploy_yearn_weth_vault_def deploy_yearn_wbtc_vault_def
  deploy_yearn_boo_vault_def deploy_tomb_ftm_beefy_vault_def deploy_tomb_mimatic_beefy_vault_def
  deploy_yearn_fbeets_vault_def deploy_yearn_link_vault_def deploy_yearn_crv_vault_def deploy_yearn_spell_vault_def
  deploy_based_mimatic_beefy_vault_def

lemmas price_oracle_defs =
  deployTombOracle_def deployTombFtmLPOracle_def deployTombMiMaticLPOracle_def deployFBeetsOracle_def deployBeetsOracle_def
  deployBasedOracle_def deployBasedMiMaticLPOracle_def deployRETHWstETHLPOracle_def deployFRAX3CRVPOracle_def
  deploySTECRVOracle_def deployDOLA3CRVOracle_def

context cooperative
begin

lemma does_price_oracle:
  "(\<And>i. Q i (insert ''TombOracle'' D)) \<Longrightarrow> does rt D (deployTombOracle rt False) Q"
  "(\<And>i. Q i (insert ''TombFtmLPOracle'' D)) \<Longrightarrow> does rt D (deployTombFtmLPOracle rt False) Q"
  "(\<And>i. Q i (insert ''TombMiMaticLPOracle'' D)) \<Longrightarrow> does rt D (deployTombMiMaticLPOracle rt False) Q"
  "(\<And>i. Q i (insert ''FBeetsOracle'' D)) \<Longrightarrow> does rt D (deployFBeetsOracle rt False) Q"
  "(\<And>i. Q i (insert ''BeetsOracle'' D)) \<Longrightarrow> does rt D (deployBeetsOracle rt False) Q"
  "(\<And>i. Q i (insert ''BasedOracle'' D)) \<Longrightarrow> does rt D (deployBasedOracle rt False) Q"
  "(\<And>i. Q i (insert ''BasedMiMaticLPOracle'' D)) \<Longrightarrow> does rt D (deployBasedMiMaticLPOracle rt False) Q"
  "(\<And>i. Q i (insert ''RETHWstETHLPOracle'' D)) \<Longrightarrow> does rt D (deployRETHWstETHLPOracle rt False) Q"
  "(\<And>i. Q i (insert ''FRAX3CRVOracle'' D)) \<Longrightarrow> does rt D (deployFRAX3CRVPOracle rt False) Q"
  "(\<And>i. Q i (insert ''STECRVOracle'' D)) \<Longrightarrow> does rt D (deploySTECRVOracle rt False) Q"
  "(\<And>i. Q i (insert ''DOLA3CRVOracle'' D)) \<Longrightarrow> does rt D (deployDOLA3CRVOracle rt False) Q"
  unfolding price_oracle_defs
  by (intro task_steps; simp)+

end

context fantom_market
begin

lemma does_fantom_vaults:
  "''LendingPoolAddressesProvider'' \<in> D \<Longrightarrow> (\<And>i. Q i ({''YearnVaultImpl'', ''YearnVault''} \<union> D)) \<Longrightarrow> does rt D (deployYearnVault rt False) Q"
  "''LendingPoolAddressesProvider'' \<in> D \<Longrightarrow> (\<And>i. Q i ({''YearnWETHVaultImpl'', ''YearnWETHVault''} \<union> D)) \<Longrightarrow> does rt D (deployYearnWETHVault rt False) Q"
  "''LendingPoolAddressesProvider'' \<in> D \<Longrightarrow> (\<And>i. Q i ({''YearnWBTCVaultImpl'', ''YearnWBTCVault''} \<union> D)) \<Longrightarrow> does rt D (deployYearnWBTCVault rt False) Q"
  "''LendingPoolAddressesProvider'' \<in> D \<Longrightarrow> (\<And>i. Q i ({''YearnBOOVaultImpl'', ''YearnBOOVault''} \<union> D)) \<Longrightarrow> does rt D (deployYearnBOOVault rt False) Q"
  "''LendingPoolAddressesProvider'' \<in> D \<Longrightarrow> (\<And>i. Q i ({''TombFtmBeefyVaultImpl'', ''TombFtmBeefyVault''} \<union> D)) \<Longrightarrow> does rt D (deployTombFTMBeefyVault rt False) Q"
  "''LendingPoolAddressesProvider'' \<in> D \<Longrightarrow> (\<And>i. Q i ({''TombMiMaticBeefyVaultImpl'', ''TombMiMaticBeefyVault''} \<union> D)) \<Longrightarrow> does rt D (deployTombMiMaticBeefyVault rt False) Q"
  "''LendingPoolAddressesProvider'' \<in> D \<Longrightarrow> (\<And>i. Q i ({''BasedMiMaticBeefyVaultImpl'', ''BasedMiMaticBeefyVault''} \<union> D)) \<Longrightarrow> does rt D (deployBasedMiMaticBeefyVault rt False) Q"
  "''LendingPoolAddressesProvider'' \<in> D \<Longrightarrow> (\<And>i. Q i ({''YearnFBEETSVaultImpl'', ''YearnFBEETSVault''} \<union> D)) \<Longrightarrow> does rt D (deployYearnFBeetsVault rt False) Q"
  "''LendingPoolAddressesProvider'' \<in> D \<Longrightarrow> (\<And>i. Q i ({''YearnLINKVaultImpl'', ''YearnLINKVault''} \<union> D)) \<Longrightarrow> does rt D (deployYearnLINKVault rt False) Q"
  "''LendingPoolAddressesProvider'' \<in> D \<Longrightarrow> (\<And>i. Q i ({''BeefyETHVaultImpl'', ''BeefyETHVault''} \<union> D)) \<Longrightarrow> does rt D (deployBeefyETHVault rt False) Q"
  "''LendingPoolAddressesProvider'' \<in> D \<Longrightarrow> (\<And>i. Q i ({''YearnCRVVaultImpl'', ''YearnCRVVault''} \<union> D)) \<Longrightarrow> does rt D (deployYearnCRVVault rt False) Q"
  "''LendingPoolAddressesProvider'' \<in> D \<Longrightarrow> (\<And>i. Q i ({''YearnSPELLVaultImpl'', ''YearnSPELLVault''} \<union> D)) \<Longrightarrow> does rt D (deployYearnSPELLVault rt False) Q"
  unfolding vault_deployment_defs vault_getter_defs
  by (intro vault_steps does_asset_of; simp add: fields_eq insert_commute)+

lemma own_param: "field \<in> set fantom_fields \<Longrightarrow> \<exists>v. param rt FantomConfig field = Inr v"
  unfolding param_def by (rule listed_fields)

lemma does_own_param: "field \<in> set fantom_fields \<Longrightarrow> (\<And>v. Q v D) \<Longrightarrow> does rt D (lift_result (param rt FantomConfig field)) Q"
  by (intro does_lift own_param) auto

lemma does_fantom_tasks:
  assumes "{''LendingPoolAddressesProvider'', ''LendingPoolConfigurator'', ''SturdyOracle''} \<subseteq> D"
  shows
    "Q () ({''YearnVaultImpl'', ''YearnVault''} \<union> D) \<Longrightarrow> does rt D (deploy_yearn_vault h False ''Fantom'') Q"
    "Q () ({''YearnWETHVaultImpl'', ''YearnWETHVault''} \<union> D) \<Longrightarrow> does rt D (deploy_yearn_weth_vault h False ''Fantom'') Q"
    "Q () ({''YearnWBTCVaultImpl'', ''YearnWBTCVault''} \<union> D) \<Longrightarrow> does rt D (deploy_yearn_wbtc_vault h False ''Fantom'') Q"
    "Q () ({''YearnBOOVaultImpl'', ''YearnBOOVault''} \<union> D) \<Longrightarrow> does rt D (deploy_yearn_boo_vault h False ''Fantom'') Q"
    "Q () ({''TombFtmBeefyVaultImpl'', ''TombFtmBeefyVault''} \<union> D) \<Longrightarrow> does rt D (deploy_tomb_ftm_beefy_vault h False ''Fantom'') Q"
    "Q () ({''TombMiMaticBeefyVaultImpl'', ''TombMiMaticBeefyVault''} \<union> D) \<Longrightarrow> does rt D (deploy_tomb_mimatic_beefy_vault h False ''Fantom'') Q"
    "Q () ({''BasedMiMaticBeefyVaultImpl'', ''BasedMiMaticBeefyVault''} \<union> D) \<Longrightarrow> does rt D (deploy_based_mimatic_beefy_vault h False ''Fantom'') Q"
    "Q () ({''YearnFBEETSVaultImpl'', ''YearnFBEETSVault''} \<union> D) \<Longrightarrow> does rt D (deploy_yearn_fbeets_vault h False ''Fantom'') Q"
    "Q () ({''YearnLINKVaultImpl'', ''YearnLINKVault''} \<union> D) \<Longrightarrow> does rt D (deploy_yearn_link_vault h False ''Fantom'') Q"
    "Q () ({''BeefyETHVaultImpl'', ''BeefyETHVault''} \<union> D) \<Longrightarrow> does rt D (deploy_beefy_eth_vault h False ''Fantom'') Q"
    "Q () ({''YearnCRVVaultImpl'', ''YearnCRVVault''} \<union> D) \<Longrightarrow> does rt D (deploy_yearn_crv_vault h False ''Fantom'') Q"
    "Q () ({''YearnSPELLVaultImpl'', ''YearnSPELLVault''} \<union> D) \<Longrightarrow> does rt D (deploy_yearn_spell_vault h False ''Fantom'') Q"
proof -
  have D: "''LendingPoolAddressesProvider'' \<in> D" "''LendingPoolConfigurator'' \<in> D" "''SturdyOracle'' \<in> D"
    using assms by auto
  note steps = does_await does_source does_set_sources does_price_oracle does_own_param does_asset_of does_transactions does_return
  show "Q () ({''YearnVaultImpl'', ''YearnVault''} \<union> D) \<Longrightarrow> does rt D (deploy_yearn_vault h False ''Fantom'') Q"
    unfolding deploy_yearn_vault_def Let_def
    by (rule does_vault_task [where N = "{''YearnVaultImpl'', ''YearnVault''}"], rule D(2), rule does_fantom_vaults, rule D(1), assumption, intro steps;
        use D in \<open>simp add: fields_eq own_param asset_total\<close>)
  show "Q () ({''YearnWETHVaultImpl'', ''YearnWETHVault''} \<union> D) \<Longrightarrow> does rt D (deploy_yearn_weth_vault h False ''Fantom'') Q"
    unfolding deploy_yearn_weth_vault_def Let_def
    by (rule does_vault_task [where N = "{''YearnWETHVaultImpl'', ''YearnWETHVault''}"], rule D(2), rule does_fantom_vaults, rule D(1), assumption, intro steps;
        use D in \<open>simp add: fields_eq own_param asset_total\<close>)
  show "Q () ({''YearnWBTCVaultImpl'', ''YearnWBTCVault''} \<union> D) \<Longrightarrow> does rt D (deploy_yearn_wbtc_vault h False ''Fantom'') Q"
    unfolding deploy_yearn_wbtc_vault_def Let_def
    by (rule does_vault_task [where N = "{''YearnWBTCVaultImpl'', ''YearnWBTCVault''}"], rule D(2), rule does_fantom_vaults, rule D(1), assumption, intro steps;
        use D in \<open>simp add: fields_eq own_param asset_total\<close>)
  show "Q () ({''YearnBOOVaultImpl'', ''YearnBOOVault''} \<union> D) \<Longrightarrow> does rt D (deploy_yearn_boo_vault h False ''Fantom'') Q"
    unfolding deploy_yearn_boo_vault_def Let_def
    by (rule does_vault_task [where N = "{''YearnBOOVaultImpl'', ''YearnBOOVault''}"], rule D(2), rule does_fantom_vaults, rule D(1), assumption, intro steps;
        use D in \<open>simp add: fields_eq own_param asset_total\<close>)
  show "Q () ({''TombFtmBeefyVaultImpl'', ''TombFtmBeefyVault''} \<union> D) \<Longrightarrow> does rt D (deploy_tomb_ftm_beefy_vault h False ''Fantom'') Q"
    unfolding deploy_tomb_ftm_beefy_vault_def Let_def
    by (rule does_vault_task [where N = "{''TombFtmBeefyVaultImpl'', ''TombFtmBeefyVault''}"], rule D(2), rule does_fantom_vaults, rule D(1), assumption, intro steps;
        use D in \<open>simp add: fields_eq own_param asset_total\<close>)
  show "Q () ({''TombMiMaticBeefyVaultImpl'', ''TombMiMaticBeefyVault''} \<union> D) \<Longrightarrow> does rt D (deploy_tomb_mimatic_beefy_vault h False ''Fantom'') Q"
    unfolding deploy_tomb_mimatic_beefy_vault_def Let_def
    by (rule does_vault_task [where N = "{''TombMiMaticBeefyVaultImpl'', ''TombMiMaticBeefyVault''}"], rule D(2), rule does_fantom_vaults, rule D(1), assumption, intro steps;
        use D in \<open>simp add: fields_eq own_param asset_total\<close>)
  show "Q () ({''BasedMiMaticBeefyVaultImpl'', ''BasedMiMaticBeefyVault''} \<union> D) \<Longrightarrow> does rt D (deploy_based_mimatic_beefy_vault h False ''Fantom'') Q"
    unfolding deploy_based_mimatic_beefy_vault_def Let_def
    by (rule does_vault_task [where N = "{''BasedMiMaticBeefyVaultImpl'', ''BasedMiMaticBeefyVault''}"], rule D(2), rule does_fantom_vaults, rule D(1), assumption, intro steps;
        use D in \<open>simp add: fields_eq own_param asset_total\<close>)
  show "Q () ({''YearnFBEETSVaultImpl'', ''YearnFBEETSVault''} \<union> D) \<Longrightarrow> does rt D (deploy_yearn_fbeets_vault h False ''Fantom'') Q"
    unfolding deploy_yearn_fbeets_vault_def Let_def
    by (rule does_vault_task [where N = "{''YearnFBEETSVaultImpl'', ''YearnFBEETSVault''}"], rule D(2), rule does_fantom_vaults, rule D(1), assumption, intro steps;
        use D in \<open>simp add: fields_eq own_param asset_total\<close>)
  show "Q () ({''YearnLINKVaultImpl'', ''YearnLINKVault''} \<union> D) \<Longrightarrow> does rt D (deploy_yearn_link_vault h False ''Fantom'') Q"
    unfolding deploy_yearn_link_vault_def Let_def
    by (rule does_vault_task [where N = "{''YearnLINKVaultImpl'', ''YearnLINKVault''}"], rule D(2), rule does_fantom_vaults, rule D(1), assumption, intro steps;
        use D in \<open>simp add: fields_eq own_param asset_total\<close>)
  show "Q () ({''BeefyETHVaultImpl'', ''BeefyETHVault''} \<union> D) \<Longrightarrow> does rt D (deploy_beefy_eth_vault h False ''Fantom'') Q"
    unfolding deploy_beefy_eth_vault_def Let_def
    by (rule does_vault_task [where N = "{''BeefyETHVaultImpl'', ''BeefyETHVault''}"], rule D(2), rule does_fantom_vaults, rule D(1), assumption, intro steps;
        use D in \<open>simp add: fields_eq own_param asset_total\<close>)
  show "Q () ({''YearnCRVVaultImpl'', ''YearnCRVVault''} \<union> D) \<Longrightarrow> does rt D (deploy_yearn_crv_vault h False ''Fantom'') Q"
    unfolding deploy_yearn_crv_vault_def Let_def
    by (rule does_vault_task [where N = "{''YearnCRVVaultImpl'', ''YearnCRVVault''}"], rule D(2), rule does_fantom_vaults, rule D(1), assumption, intro steps;
        use D in \<open>simp add: fields_eq own_param asset_total\<close>)
  show "Q () ({''YearnSPELLVaultImpl'', ''YearnSPELLVault''} \<union> D) \<Longrightarrow> does rt D (deploy_yearn_spell_vault h False ''Fantom'') Q"
    unfolding deploy_yearn_spell_vault_def Let_def
    by (rule does_vault_task [where N = "{''YearnSPELLVaultImpl'', ''YearnSPELLVault''}"], rule D(2), rule does_fantom_vaults, rule D(1), assumption, intro steps;
        use D in \<open>simp add: fields_eq own_param asset_total\<close>)
qed

end

context sturdy_market
begin

lemma own_param: "field \<in> set sturdy_fields \<Longrightarrow> \<exists>v. param rt SturdyConfig field = Inr v"
  unfolding param_def by (rule listed_fields)

lemma does_own_param: "field \<in> set sturdy_fields \<Longrightarrow> (\<And>v. Q v D) \<Longrightarrow> does rt D (lift_result (param rt SturdyConfig field)) Q"
  by (intro does_lift own_param) auto

lemma does_sturdy_tasks:
  assumes "{''LendingPoolAddressesProvider'', ''LendingPoolConfigurator'', ''SturdyOracle''} \<subseteq> D"
  shows
    "Q () ({''LidoVaultImpl'', ''LidoVault''} \<union> D) \<Longrightarrow> does rt D (deploy_lido_vault h False ''Sturdy'') Q"
    "Q () ({''YearnRETHWstETHVaultImpl'', ''YearnRETHWstETHVault''} \<union> D) \<Longrightarrow> does rt D (deploy_yearn_reth_wsteth_vault h False ''Sturdy'') Q"
    "Q () ({''ConvexRocketPoolETHVaulttImpl'', ''ConvexRocketPoolETHVault''} \<union> D) \<Longrightarrow> does rt D (deploy_convex_rocket_pool_eth_vault h False ''Sturdy'') Q"
    "Q () ({''ConvexFRAX3CRVVaultImpl'', ''ConvexFRAX3CRVVault''} \<union> D) \<Longrightarrow> does rt D (deploy_convex_frax_3crv_vault h False ''Sturdy'') Q"
    "Q () ({''ConvexSTETHVaultImpl'', ''ConvexSTETHVault''} \<union> D) \<Longrightarrow> does rt D (deploy_convex_steth_vault h False ''Sturdy'') Q"
    "Q () ({''ConvexDOLA3CRVVaultImpl'', ''ConvexDOLA3CRVVault''} \<union> D) \<Longrightarrow> does rt D (deploy_convex_dola_3crv_vault h False ''Sturdy'') Q"
proof -
  have D: "''LendingPoolAddressesProvider'' \<in> D" "''LendingPoolConfigurator'' \<in> D" "''SturdyOracle'' \<in> D"
    using assms by auto
  note steps = does_await does_source does_set_sources does_price_oracle does_own_param does_asset_of does_transactions does_return
  show "Q () ({''LidoVaultImpl'', ''LidoVault''} \<union> D) \<Longrightarrow> does rt D (deploy_lido_vault h False ''Sturdy'') Q"
    unfolding deploy_lido_vault_def Let_def
    by (rule does_vault_task [where N = "{''LidoVaultImpl'', ''LidoVault''}"], rule D(2), rule does_sturdy_vaults, rule D(1), assumption, intro steps;
        use D in \<open>simp add: fields_eq own_param asset_total\<close>)
  show "Q () ({''YearnRETHWstETHVaultImpl'', ''YearnRETHWstETHVault''} \<union> D) \<Longrightarrow> does rt D (deploy_yearn_reth_wsteth_vault h False ''Sturdy'') Q"
    unfolding deploy_yearn_reth_wsteth_vault_def Let_def
    by (rule does_vault_task [where N = "{''YearnRETHWstETHVaultImpl'', ''YearnRETHWstETHVault''}"], rule D(2), rule does_sturdy_vaults, rule D(1), assumption, intro steps;
        use D in \<open>simp add: fields_eq own_param asset_total\<close>)
  show "Q () ({''ConvexRocketPoolETHVaulttImpl'', ''ConvexRocketPoolETHVault''} \<union> D) \<Longrightarrow> does rt D (deploy_convex_rocket_pool_eth_vault h False ''Sturdy'') Q"
    unfolding deploy_convex_rocket_pool_eth_vault_def Let_def
    by (rule does_vault_task [where N = "{''ConvexRocketPoolETHVaulttImpl'', ''ConvexRocketPoolETHVault''}"], rule D(2), rule does_sturdy_vaults, rule D(1), assumption, intro steps;
        use D in \<open>simp add: fields_eq own_param asset_total\<close>)
  show "Q () ({''ConvexFRAX3CRVVaultImpl'', ''ConvexFRAX3CRVVault''} \<union> D) \<Longrightarrow> does rt D (deploy_convex_frax_3crv_vault h False ''Sturdy'') Q"
    unfolding deploy_convex_frax_3crv_vault_def Let_def
    by (rule does_vault_task [where N = "{''ConvexFRAX3CRVVaultImpl'', ''ConvexFRAX3CRVVault''}"], rule D(2), rule does_sturdy_vaults, rule D(1), assumption, intro steps;
        use D in \<open>simp add: fields_eq own_param asset_total\<close>)
  show "Q () ({''ConvexSTETHVaultImpl'', ''ConvexSTETHVault''} \<union> D) \<Longrightarrow> does rt D (deploy_convex_steth_vault h False ''Sturdy'') Q"
    unfolding deploy_convex_steth_vault_def Let_def
    by (rule does_vault_task [where N = "{''ConvexSTETHVaultImpl'', ''ConvexSTETHVault''}"], rule D(2), rule does_sturdy_vaults, rule D(1), assumption, intro steps;
        use D in \<open>simp add: fields_eq own_param asset_total\<close>)
  show "Q () ({''ConvexDOLA3CRVVaultImpl'', ''ConvexDOLA3CRVVault''} \<union> D) \<Longrightarrow> does rt D (deploy_convex_dola_3crv_vault h False ''Sturdy'') Q"
    unfolding deploy_convex_dola_3crv_vault_def Let_def
    by (rule does_vault_task [where N = "{''ConvexDOLA3CRVVaultImpl'', ''ConvexDOLA3CRVVault''}"], rule D(2), rule does_sturdy_vaults, rule D(1), assumption, intro steps;
        use D in \<open>simp add: fields_eq own_param asset_total\<close>)
qed

end

context sturdy_market
begin

lemma does_yield_manager:
  assumes "''LendingPoolAddressesProvider'' \<in> D" "''LendingPoolConfigurator'' \<in> D" "Q () ({''YieldManagerImpl'', ''YieldManager''} \<union> D)"
  shows "does rt D (deploy_yield_manager h False ''Sturdy'') Q"
  unfolding deploy_yield_manager_def Let_def
  by (intro does_sturdy_vaults does_own_param does_asset_of market_steps; use assms in \<open>simp add: fields_eq insert_commute\<close>)

lemma sturdy_vault_addresses:
  assumes "sturdy_vaults \<subseteq> D"
  shows "(\<And>y. R y D) \<Longrightarrow> does rt D (yieldAddresses_of rt ''Sturdy'') R"
    "(\<And>y. R y D) \<Longrightarrow> does rt D (acceptableVaults rt ''Sturdy'') R"
proof -
  have same: "''Sturdy'' = ''Sturdy''" by simp
  show "(\<And>y. R y D) \<Longrightarrow> does rt D (yieldAddresses_of rt ''Sturdy'') R"
    "(\<And>y. R y D) \<Longrightarrow> does rt D (acceptableVaults rt ''Sturdy'') R"
    unfolding yieldAddresses_of_def acceptableVaults_def vault_getter_defs if_P [OF same] addresses_of.simps
    by (intro does_connect does_await does_return; use assms in \<open>simp add: sturdy_vaults_def\<close>)+
qed

lemma sturdy_external: "\<exists>e. reserveExternalAssets rt SturdyConfig ''Sturdy'' = Inr e"
proof -
  have same: "''Sturdy'' = ''Sturdy''" by simp
  show ?thesis
    unfolding reserveExternalAssets_def if_P [OF same]
    by (intro mapR_total) (auto simp: fields_eq bindR_Inr_iff intro!: listed_fields)
qed

end

context fantom_market
begin

lemma fantom_vault_addresses:
  assumes "fantom_vaults \<subseteq> D"
  shows "(\<And>y. R y D) \<Longrightarrow> does rt D (yieldAddresses_of rt ''Fantom'') R"
    "(\<And>y. R y D) \<Longrightarrow> does rt D (acceptableVaults rt ''Fantom'') R"
proof -
  have other: "''Fantom'' \<noteq> ''Sturdy''" by simp
  show "(\<And>y. R y D) \<Longrightarrow> does rt D (yieldAddresses_of rt ''Fantom'') R"
    "(\<And>y. R y D) \<Longrightarrow> does rt D (acceptableVaults rt ''Fantom'') R"
    unfolding yieldAddresses_of_def acceptableVaults_def vault_getter_defs if_not_P [OF other] addresses_of.simps
    by (intro does_connect does_await does_return; use assms in \<open>simp add: fantom_vaults_def\<close>)+
qed

lemma fantom_external: "\<exists>e. reserveExternalAssets rt FantomConfig ''Fantom'' = Inr e"
proof -
  have other: "''Fantom'' \<noteq> ''Sturdy''" by simp
  show ?thesis
    unfolding reserveExternalAssets_def if_not_P [OF other]
    by (intro mapR_total) (auto simp: fields_eq bindR_Inr_iff intro!: listed_fields)
qed

end

section \<open>The migrations\<close>

lemma does_tasks:
  "does rt D (run_tasks []) Q \<longleftrightarrow> does rt D (return_io ()) Q"
  "does rt D (run_tasks (t # ts)) Q \<longleftrightarrow> does rt D (await t (\<lambda>_. run_tasks ts)) Q"
  by (simp_all add: run_tasks_def)

definition fantom_recorded :: "string set" where
  "fantom_recorded = core_ids \<union> fantom_vaults \<union> initialize_ids
     \<union> {''CollateralAdapter'', ''Liquidator'', ''DeployVaultHelper''}"

definition sturdy_recorded :: "string set" where
  "sturdy_recorded = core_ids \<union> sturdy_vaults \<union> initialize_ids
     \<union> {''CollateralAdapter'', ''Liquidator'', ''DeployVaultHelper'', ''YieldManager''}"

text \<open>The steps of a migration, each from what the ones before it left.\<close>

context fantom_market
begin

lemma does_sturdy_ftm: "does rt D (sturdy_ftm h False skip) (\<lambda>_ D'. fantom_recorded \<subseteq> D')"
  unfolding sturdy_ftm_def migration_def Let_def run_tasks_def for_each.simps if_False
  by (intro does_await does_set_DRE does_return does_address_provider does_lending_pool does_oracles does_small_tasks
      does_fantom_tasks does_initialize does_adapter does_liquidator fantom_vault_addresses fantom_external;
      simp add: fantom_recorded_def core_ids_def fantom_vaults_def initialize_ids_def)

end

context sturdy_market
begin

lemma does_sturdy_mainnet: "does rt D (sturdy_mainnet h False skip) (\<lambda>_ D'. sturdy_recorded \<subseteq> D')"
  unfolding sturdy_mainnet_def migration_def Let_def run_tasks_def for_each.simps if_False
  by (intro does_await does_set_DRE does_return does_address_provider does_lending_pool does_oracles does_small_tasks
      does_sturdy_tasks does_initialize does_adapter does_liquidator does_yield_manager sturdy_vault_addresses sturdy_external;
      simp add: sturdy_recorded_def core_ids_def sturdy_vaults_def initialize_ids_def)

end

text \<open>A network that accepts everything, with one account.\<close>

definition accepting_hre :: "string \<Rightarrow> unit hre" where
  "accepting_hre network =
     \<lparr>hre_runtime = accepting_runtime\<lparr>network_name := network,
        rt_deployBytecode := (\<lambda>abi bytecode acct x. (Inr \<lparr>contract_abi = abi, contract_address = ''0xlibrary'',
          connected_signer = acct, deployTransaction_from = Some ''0xowner''\<rparr>, x)),
        rt_deploy := (\<lambda>F libs acct args x. (Inr \<lparr>contract_abi = F, contract_address = ''0x'' @ F, connected_signer = acct,
          deployTransaction_from = Some ''0xowner''\<rparr>, x)),
        rt_deployByName := (\<lambda>cid acct args x. (Inr \<lparr>contract_abi = cid, contract_address = ''0x'' @ cid, connected_signer = acct,
          deployTransaction_from = Some ''0xowner''\<rparr>, x)),
        rt_readArtifact := (\<lambda>cid x. (Inr \<lparr>artifact_abi = cid, artifact_bytecode = [], linkReferences = []\<rparr>, x))\<rparr>,
      chainId = Some 1, env_TENDERLY_FORK_ID = None, env_TENDERLY_HEAD_ID = None,
      DRE_isSet = (\<lambda>_. False), setDRE = (\<lambda>x. x),
      tenderly_setFork = (\<lambda>_ x. (Inr (), x)), tenderly_setHead = (\<lambda>_ x. (Inr (), x)), tenderly_initializeFork = (\<lambda>x. (Inr (), x)),
      rt_sendEther = (\<lambda>_ _ x. (Inr (), x)), ethers_isAddress = (\<lambda>_. True), util_isZeroAddress = (\<lambda>_. False)\<rparr>"

interpretation ftm_run: fantom_market "accepting_hre ''ftm''"
  by unfold_locales (simp_all add: accepting_hre_def accepting_runtime_def usingTenderly_def usingDefender_def usable_def
      notFalsyOrZeroAddress_def)

interpretation main_run: sturdy_market "accepting_hre ''main''"
  by unfold_locales (simp_all add: accepting_hre_def accepting_runtime_def usingTenderly_def usingDefender_def usable_def
      notFalsyOrZeroAddress_def)



definition empty_world :: "unit world" where
  "empty_world = \<lparr>network_state = (), deployed_contracts = []\<rparr>"


end
