(* ===== verification/MissingVaults.thy ===== *)
theory MissingVaults
  imports MigrationRuns
begin

text \<open>
  What the order of a migration's tasks is for: initialising a pool needs the address of every vault of its
  market. The frame rules of the database carry the proofs.
\<close>

section \<open>A run that cannot go on\<close>

definition same_entries :: "'x world \<Rightarrow> 'x world \<Rightarrow> bool" where
  "same_entries w w' \<longleftrightarrow> (\<forall>cid n. db_lookup (deployed_contracts w') cid n = db_lookup (deployed_contracts w) cid n)"

text \<open>
  \<open>stuck rt cid m\<close>: without an entry for \<open>cid\<close>, \<open>m\<close> fails, and the database is the same afterwards.
\<close>

definition stuck :: "'x runtime \<Rightarrow> string \<Rightarrow> ('x, 'a) io \<Rightarrow> bool" where
  "stuck rt cid m \<longleftrightarrow> (\<forall>w. db_entry_of rt w cid = None \<longrightarrow> (\<exists>e w'. m w = (Inl e, w') \<and> same_entries w w'))"

lemma stuckD:
  assumes "stuck rt cid m" "db_entry_of rt w cid = None"
  obtains e w' where "m w = (Inl e, w')" "same_entries w w'"
  using assms unfolding stuck_def by blast

lemma stuck_then:
  assumes "writes rt {} m" "\<And>a. stuck rt cid (f a)"
  shows "stuck rt cid (await m f)"
  unfolding stuck_def
proof (intro allI impI)
  fix w assume w: "db_entry_of rt w cid = None"
  obtain r w1 where m: "m w = (r, w1)" by (cases "m w")
  then have same: "same_entries w w1"
    using writesD [OF assms(1) m] by (simp add: same_entries_def)
  show "\<exists>e w'. await m f w = (Inl e, w') \<and> same_entries w w'"
  proof (cases r)
    case (Inl e)
    with m same show ?thesis by (simp add: await_def)
  next
    case (Inr a)
    from same w have "db_entry_of rt w1 cid = None" by (simp add: same_entries_def db_entry_of_def)
    then obtain e w' where "f a w1 = (Inl e, w')" "same_entries w1 w'" by (rule stuckD [OF assms(2)])
    with m Inr same show ?thesis by (simp add: await_def same_entries_def)
  qed
qed

lemma stuck_first:
  assumes "stuck rt cid m"
  shows "stuck rt cid (await m f)"
  unfolding stuck_def
proof (intro allI impI)
  fix w assume "db_entry_of rt w cid = None"
  then obtain e w' where "m w = (Inl e, w')" "same_entries w w'" by (rule stuckD [OF assms])
  then show "\<exists>e w'. await m f w = (Inl e, w') \<and> same_entries w w'" by (simp add: await_def)
qed

lemma stuck_throw: "stuck rt cid (throw_io e)"
  by (simp add: stuck_def throw_io_def same_entries_def)

lemma stuck_option: "stuck rt cid m \<Longrightarrow> (\<And>x. stuck rt cid (f x)) \<Longrightarrow> stuck rt cid (case v of None \<Rightarrow> m | Some x \<Rightarrow> f x)"
  by (cases v) auto

lemma stuck_read: "stuck rt cid (recordedAddress rt None cid)"
  unfolding stuck_def recordedAddress_None
  by (simp add: await_def db_get_def lift_result_def deref_def db_entry_of_def same_entries_def)

lemma stuck_exit:
  assumes "stuck rt cid m" "db_entry_of rt w cid = None"
  shows "\<exists>w'. exit_on_error m w = (Inl (Exited 1), w') \<and> same_entries w w'"
proof -
  obtain e w' where "m w = (Inl e, w')" "same_entries w w'" by (rule stuckD [OF assms])
  then show ?thesis by (simp add: exit_on_error_def catch_io_def throw_io_def)
qed

text \<open>The vaults whose addresses the initialisation of a pool reads, with their symbols.\<close>

definition yield_vaults :: "string \<Rightarrow> string list" where
  "yield_vaults pool_name =
     (if pool_name = ''Sturdy''
      then [''YearnRETHWstETHVault'', ''ConvexRocketPoolETHVault'', ''ConvexFRAX3CRVVault'', ''ConvexSTETHVault'',
            ''ConvexDOLA3CRVVault'']
      else [''YearnVault'', ''YearnWETHVault'', ''YearnWBTCVault'', ''YearnBOOVault'', ''TombFtmBeefyVault'',
            ''TombMiMaticBeefyVault'', ''BasedMiMaticBeefyVault'', ''YearnFBEETSVault'', ''BeefyETHVault'', ''YearnLINKVault'',
            ''YearnCRVVault'', ''YearnSPELLVault''])"

lemma stuck_here: "stuck rt cid (addresses_of ((symb, await (recordedAddress rt None cid) (\<lambda>address. await (getFirstSigner rt) (\<lambda>acct.
     return_io (attach F address acct)))) # rest))"
  unfolding addresses_of.simps by (rule stuck_first [OF stuck_first [OF stuck_read]])

lemma stuck_later: "stuck rt cid (addresses_of rest) \<Longrightarrow>
   stuck rt cid (addresses_of ((symb, await (recordedAddress rt None cid') (\<lambda>address. await (getFirstSigner rt) (\<lambda>acct.
     return_io (attach F address acct)))) # rest))"
  unfolding addresses_of.simps by (intro stuck_then writes_connect stuck_first)

lemma stuck_yields:
  assumes "cid \<in> set (yield_vaults pool_name)"
  shows "stuck rt cid (yieldAddresses_of rt pool_name)"
proof (cases "pool_name = ''Sturdy''")
  case True
  show ?thesis
    using assms unfolding yieldAddresses_of_def yield_vaults_def if_P [OF True] vault_getter_defs set_simps
    by (elim insertE emptyE; hypsubst; intro stuck_here stuck_later)
next
  case False
  show ?thesis
    using assms unfolding yieldAddresses_of_def yield_vaults_def if_not_P [OF False] vault_getter_defs set_simps
    by (elim insertE emptyE; hypsubst; intro stuck_here stuck_later)
qed

lemma writes_set_DRE [frame_rules]: "writes rt S (set_DRE h)"
  unfolding set_DRE_def by (intro frame_rules)

lemma writes_treasury [frame_rules]: "writes rt S (getTreasuryAddress rt config)"
  unfolding getTreasuryAddress_def by (intro frame_rules)



end
