(* ===== verification/TestnetTasks.thy ===== *)
theory TestnetTasks
  imports Migrations
begin

text \<open>
  The tasks of \<^verbatim>\<open>tasks/testnet\<close> and the testnet migrations. The steps 0, 1, 2, 4 and 5 are the text of
  \<^verbatim>\<open>tasks/full\<close> under another task name. The price oracle of a testnet is a mock whose prices the scripts
  set; the vault tasks set the prices of their assets there.
\<close>

section \<open>The protocol\<close>

definition testnet_address_provider_registry :: "'x hre \<Rightarrow> bool \<Rightarrow> string \<Rightarrow> ('x, unit) io" where
  "testnet_address_provider_registry h verify pool_name = deploy_address_provider_registry h verify pool_name"

definition testnet_address_provider :: "'x hre \<Rightarrow> bool \<Rightarrow> string \<Rightarrow> bool \<Rightarrow> ('x, unit) io" where
  "testnet_address_provider h verify pool_name skipRegistry = deploy_address_provider h verify pool_name skipRegistry"

definition testnet_lending_pool :: "'x hre \<Rightarrow> bool \<Rightarrow> string \<Rightarrow> ('x, unit) io" where
  "testnet_lending_pool h verify pool_name = deploy_lending_pool h verify pool_name"

definition testnet_data_provider :: "'x hre \<Rightarrow> bool \<Rightarrow> ('x, unit) io" where
  "testnet_data_provider h verify = deploy_data_provider h verify"

definition testnet_incentives_impl :: "'x hre \<Rightarrow> bool \<Rightarrow> string \<Rightarrow> ('x, unit) io" where
  "testnet_incentives_impl h verify pool_name = deploy_incentives_impl h verify pool_name"

text \<open>
  The addresses the initial prices are set for. An asset the network has no address for is
  \<open>undefined\<close>, which the loop over the prices skips like an empty address: the empty string here.
\<close>

definition testnet_assets :: "tEthereumAddress obj \<Rightarrow> tEthereumAddress \<Rightarrow> tEthereumAddress obj" where
  "testnet_assets reserveAssets usdAddress =
     map (\<lambda>symb. (symb, case obj_get reserveAssets symb of Some a \<Rightarrow> a | None \<Rightarrow> []))
       [''DAI'', ''USDC'', ''fUSDT'', ''stETH'', ''WETH'', ''yvWFTM'', ''yvWETH'', ''yvWBTC'', ''yvBOO'', ''mooTOMB_FTM'',
        ''mooTOMB_MIMATIC'', ''mooBASED_MIMATIC'', ''yvfBEETS'', ''yvLINK'', ''yvCRV'', ''yvSPELL'', ''mooWETH'',
        ''yvRETH_WSTETH'', ''cvxRETH_WSTETH'', ''cvxFRAX_3CRV'', ''cvxSTECRV'', ''cvxDOLA_3CRV'']
     @ [(''USD'', usdAddress)]"

text \<open>The handler prints a link on Tenderly and throws the error again.\<close>

definition testnet_oracles :: "'x hre \<Rightarrow> bool \<Rightarrow> string \<Rightarrow> ('x, unit) io" where
  "testnet_oracles h verify pool_name =
     (let rt = hre_runtime h; network = currentNetwork rt in
     await (set_DRE h) (\<lambda>_.
     await (lift_result (loadPoolConfig pool_name)) (\<lambda>poolConfig.
     await (getLendingPoolAddressesProvider rt None) (\<lambda>addressesProvider.
     await (getGenesisPoolAdmin rt poolConfig) (\<lambda>admin.
     await (lift_result (param rt poolConfig ''SturdyOracle'')) (\<lambda>sturdyOracleAddress.
     await (lift_result (param rt poolConfig ''LendingRateOracle'')) (\<lambda>lendingRateOracleAddress.
     let reserveAssets = getParamPerNetwork (env_FORK rt) (ReserveAssets poolConfig) network in
     await (deployPriceOracle rt False) (\<lambda>fallbackOracle.
     await (sendAndWait rt fallbackOracle ''setEthUsdPrice''
              [VStr (MockUsdPriceInWei (ProtocolGlobalParams poolConfig))]) (\<lambda>_.
     await (lift_result (deref reserveAssets)) (\<lambda>reserveAssets.
     await (setInitialAssetPricesInOracle rt (AllAssetsInitialPrices poolConfig)
              (testnet_assets reserveAssets (UsdAddress (ProtocolGlobalParams poolConfig))) fallbackOracle) (\<lambda>_.
     await (if usable h lendingRateOracleAddress
            then getLendingRateOracle rt (Some (as_string lendingRateOracleAddress))
            else
              await (deployLendingRateOracle rt verify) (\<lambda>lendingRateOracle.
              await (setInitialMarketRatesInRatesOracleByHelper rt (LendingRateOracleRatesCommon poolConfig)
                       reserveAssets lendingRateOracle admin) (\<lambda>_.
              return_io lendingRateOracle))) (\<lambda>lendingRateOracle.
     await (sendAndWait rt addressesProvider ''setPriceOracle'' [VStr (contract_address fallbackOracle)]) (\<lambda>_.
     sendAndWait rt addressesProvider ''setLendingRateOracle'' [VStr (contract_address lendingRateOracle)])))))))))))))"

section \<open>The vaults\<close>

text \<open>Deploying a vault and registering it, which is awaited only until it is sent.\<close>

definition testnet_vault :: "'x hre \<Rightarrow> ('x, Instance) io \<Rightarrow> ('x, unit) io \<Rightarrow> ('x, unit) io" where
  "testnet_vault h deployment rest =
     on_chain h
       (await deployment (\<lambda>vault.
        await (getLendingPoolConfiguratorProxy (hre_runtime h) None) (\<lambda>configurator.
        await (send (hre_runtime h) configurator ''registerVault'' [VStr (contract_address vault)]) (\<lambda>_.
        rest))))"

text \<open>\<open>config.ReserveAssets[network][symbol]\<close> and \<open>config.<field>[network]\<close>\<close>

definition network_asset :: "'x runtime \<Rightarrow> PoolConfiguration \<Rightarrow> string \<Rightarrow> js_val result" where
  "network_asset rt config symb =
     bindR (deref (obj_get (ReserveAssets config) (currentNetwork rt))) (\<lambda>assets. Inr (opt_val (obj_get assets symb)))"

definition network_token :: "'x runtime \<Rightarrow> PoolConfiguration \<Rightarrow> string \<Rightarrow> js_val result" where
  "network_token rt config field =
     bindR (deref (obj_get (network_params config) field)) (\<lambda>token.
     Inr (case obj_get token (currentNetwork rt) of None \<Rightarrow> VUndef | Some v \<Rightarrow> v))"

text \<open>Setting the mock prices of a vault's assets, each under its symbol in the mock prices.\<close>

definition set_mock_prices :: "'x runtime \<Rightarrow> PoolConfiguration \<Rightarrow> (js_val result \<times> string) list \<Rightarrow> ('x, unit) io" where
  "set_mock_prices rt poolConfig prices =
     await (getPriceOracle rt None) (\<lambda>priceOracleInstance.
     for_each (\<lambda>(asset, symb).
       await (lift_result asset) (\<lambda>asset.
       sendAndWait rt priceOracleInstance ''setAssetPrice''
         [asset, opt_val (obj_get (AllAssetsInitialPrices poolConfig) symb)])) prices)"

definition testnet_lido_vault :: "'x hre \<Rightarrow> bool \<Rightarrow> string \<Rightarrow> ('x, unit) io" where
  "testnet_lido_vault h verify pool_name = testnet_vault h (deployLidoVault (hre_runtime h) verify) (return_io ())"

definition testnet_yearn_vault :: "'x hre \<Rightarrow> bool \<Rightarrow> string \<Rightarrow> ('x, unit) io" where
  "testnet_yearn_vault h verify pool_name = testnet_vault h (deployYearnVault (hre_runtime h) verify) (return_io ())"

definition testnet_yearn_weth_vault :: "'x hre \<Rightarrow> bool \<Rightarrow> string \<Rightarrow> ('x, unit) io" where
  "testnet_yearn_weth_vault h verify pool_name = testnet_vault h (deployYearnWETHVault (hre_runtime h) verify) (return_io ())"

definition testnet_yearn_wbtc_vault :: "'x hre \<Rightarrow> bool \<Rightarrow> string \<Rightarrow> ('x, unit) io" where
  "testnet_yearn_wbtc_vault h verify pool_name = testnet_vault h (deployYearnWBTCVault (hre_runtime h) verify) (return_io ())"

definition testnet_yearn_boo_vault :: "'x hre \<Rightarrow> bool \<Rightarrow> string \<Rightarrow> ('x, unit) io" where
  "testnet_yearn_boo_vault h verify pool_name = testnet_vault h (deployYearnBOOVault (hre_runtime h) verify) (return_io ())"

text \<open>The tasks that set prices load the configuration before they deploy.\<close>

definition testnet_priced_vault ::
    "'x hre \<Rightarrow> string \<Rightarrow> ('x, Instance) io \<Rightarrow> (PoolConfiguration \<Rightarrow> (js_val result \<times> string) list) \<Rightarrow> ('x, unit) io" where
  "testnet_priced_vault h pool_name deployment prices =
     on_chain h
       (await (lift_result (loadPoolConfig pool_name)) (\<lambda>poolConfig.
        await deployment (\<lambda>vault.
        await (getLendingPoolConfiguratorProxy (hre_runtime h) None) (\<lambda>configurator.
        await (send (hre_runtime h) configurator ''registerVault'' [VStr (contract_address vault)]) (\<lambda>_.
        set_mock_prices (hre_runtime h) poolConfig (prices poolConfig))))))"

text \<open>This one also prints the price it has set.\<close>

definition testnet_beefy_eth_vault :: "'x hre \<Rightarrow> bool \<Rightarrow> string \<Rightarrow> ('x, unit) io" where
  "testnet_beefy_eth_vault h verify pool_name =
     (let rt = hre_runtime h in
     on_chain h
       (await (lift_result (loadPoolConfig pool_name)) (\<lambda>poolConfig.
        await (deployBeefyETHVault rt verify) (\<lambda>vault.
        await (getLendingPoolConfiguratorProxy rt None) (\<lambda>configurator.
        await (send rt configurator ''registerVault'' [VStr (contract_address vault)]) (\<lambda>_.
        await (getPriceOracle rt None) (\<lambda>priceOracleInstance.
        await (lift_result (network_asset rt poolConfig ''mooWETH'')) (\<lambda>mooWETH.
        await (sendAndWait rt priceOracleInstance ''setAssetPrice''
                 [mooWETH, opt_val (obj_get (AllAssetsInitialPrices poolConfig) ''mooWETH'')]) (\<lambda>_.
        await (lift_result (asset rt poolConfig ''mooWETH'')) (\<lambda>mooWETH.
        await (call rt priceOracleInstance ''getAssetPrice'' [mooWETH]) (\<lambda>price.
        await (lift_result (js_toString price)) (\<lambda>_. return_io ()))))))))))))"

definition testnet_tomb_ftm_beefy_vault :: "'x hre \<Rightarrow> bool \<Rightarrow> string \<Rightarrow> ('x, unit) io" where
  "testnet_tomb_ftm_beefy_vault h verify pool_name =
     (let rt = hre_runtime h in
     testnet_priced_vault h pool_name (deployTombFTMBeefyVault rt verify) (\<lambda>poolConfig.
       [(network_token rt poolConfig ''TOMB'', ''TOMB''), (network_asset rt poolConfig ''mooTOMB_FTM'', ''mooTOMB_FTM'')]))"

definition testnet_tomb_mimatic_beefy_vault :: "'x hre \<Rightarrow> bool \<Rightarrow> string \<Rightarrow> ('x, unit) io" where
  "testnet_tomb_mimatic_beefy_vault h verify pool_name =
     (let rt = hre_runtime h in
     testnet_priced_vault h pool_name (deployTombMiMaticBeefyVault rt verify) (\<lambda>poolConfig.
       [(network_token rt poolConfig ''MIMATIC'', ''MIMATIC''),
        (network_asset rt poolConfig ''mooTOMB_MIMATIC'', ''mooTOMB_MIMATIC'')]))"

definition testnet_yearn_fbeets_vault :: "'x hre \<Rightarrow> bool \<Rightarrow> string \<Rightarrow> ('x, unit) io" where
  "testnet_yearn_fbeets_vault h verify pool_name =
     (let rt = hre_runtime h in
     testnet_priced_vault h pool_name (deployYearnFBeetsVault rt verify) (\<lambda>poolConfig.
       [(network_token rt poolConfig ''BEETS'', ''BEETS''), (network_asset rt poolConfig ''yvfBEETS'', ''yvfBEETS'')]))"

definition testnet_yearn_link_vault :: "'x hre \<Rightarrow> bool \<Rightarrow> string \<Rightarrow> ('x, unit) io" where
  "testnet_yearn_link_vault h verify pool_name =
     (let rt = hre_runtime h in
     testnet_priced_vault h pool_name (deployYearnLINKVault rt verify) (\<lambda>poolConfig.
       [(network_asset rt poolConfig ''yvLINK'', ''yvLINK'')]))"

definition testnet_yearn_crv_vault :: "'x hre \<Rightarrow> bool \<Rightarrow> string \<Rightarrow> ('x, unit) io" where
  "testnet_yearn_crv_vault h verify pool_name =
     (let rt = hre_runtime h in
     testnet_priced_vault h pool_name (deployYearnCRVVault rt verify) (\<lambda>poolConfig.
       [(network_asset rt poolConfig ''yvCRV'', ''yvCRV'')]))"

definition testnet_yearn_spell_vault :: "'x hre \<Rightarrow> bool \<Rightarrow> string \<Rightarrow> ('x, unit) io" where
  "testnet_yearn_spell_vault h verify pool_name =
     (let rt = hre_runtime h in
     testnet_priced_vault h pool_name (deployYearnSPELLVault rt verify) (\<lambda>poolConfig.
       [(network_asset rt poolConfig ''yvSPELL'', ''yvSPELL'')]))"

definition testnet_based_mimatic_beefy_vault :: "'x hre \<Rightarrow> bool \<Rightarrow> string \<Rightarrow> ('x, unit) io" where
  "testnet_based_mimatic_beefy_vault h verify pool_name =
     (let rt = hre_runtime h in
     testnet_priced_vault h pool_name (deployBasedMiMaticBeefyVault rt verify) (\<lambda>poolConfig.
       [(network_token rt poolConfig ''BASED'', ''BASED''),
        (network_asset rt poolConfig ''mooBASED_MIMATIC'', ''mooBASED_MIMATIC'')]))"

section \<open>Collateral and initialisation\<close>

text \<open>The keys of the Fantom objects here say \<open>yvFBEETS\<close> where the configuration says \<open>yvfBEETS\<close>.\<close>

definition testnet_externalAssets :: "'x runtime \<Rightarrow> PoolConfiguration \<Rightarrow> string \<Rightarrow> js_val obj result" where
  "testnet_externalAssets rt poolConfig pool_name =
     mapR (\<lambda>(symb, field). bindR (networkParam rt poolConfig field (network_name rt)) (\<lambda>v. Inr (symb, v)))
       (if pool_name = ''Sturdy''
        then [(''stETH'', ''Lido'')]
        else
          [(''yvWFTM'', ''WFTM''),
           (''yvWETH'', ''WETH''),
           (''yvWBTC'', ''WBTC''),
           (''yvBOO'', ''BOO''),
           (''mooTOMB_FTM'', ''TOMB_FTM_LP''),
           (''mooTOMB_MIMATIC'', ''TOMB_MIMATIC_LP''),
           (''yvFBEETS'', ''fBEETS''),
           (''yvLINK'', ''LINK''),
           (''yvCRV'', ''CRV''),
           (''yvSPELL'', ''SPELL'')])"

definition testnet_fantomVaults :: "'x runtime \<Rightarrow> ('x, tEthereumAddress obj) io" where
  "testnet_fantomVaults rt =
     addresses_of
       [(''yvWFTM'', getYearnVault rt None),
        (''yvWETH'', getYearnWETHVault rt None),
        (''yvWBTC'', getYearnWBTCVault rt None),
        (''yvBOO'', getYearnBOOVault rt None),
        (''mooTOMB_FTM'', getTombFtmBeefyVault rt None),
        (''mooTOMB_MIMATIC'', getTombMiMaticBeefyVault rt None),
        (''yvFBEETS'', getYearnFBEETSVault rt None),
        (''yvLINK'', getYearnLINKVault rt None),
        (''yvCRV'', getYearnCRVVault rt None),
        (''yvSPELL'', getYearnSPELLVault rt None)]"

definition testnet_acceptableVaults :: "'x runtime \<Rightarrow> string \<Rightarrow> ('x, tEthereumAddress obj) io" where
  "testnet_acceptableVaults rt pool_name =
     (if pool_name = ''Sturdy'' then addresses_of [(''stETH'', getLidoVault rt None)] else testnet_fantomVaults rt)"

definition testnet_addCollateralAsset ::
    "'x runtime \<Rightarrow> Instance \<Rightarrow> js_val obj \<Rightarrow> tEthereumAddress obj option \<Rightarrow> tEthereumAddress obj
     \<Rightarrow> string \<times> IReserveParams \<Rightarrow> ('x, unit) io" where
  "testnet_addCollateralAsset rt collateralAdapter externalAssets reserveAssets vaults reserve =
     await (lift_result (deref reserveAssets)) (\<lambda>reserveAssets.
     let symb = fst reserve in
     if \<not> truthy_string (obj_get reserveAssets symb) then return_io ()
     else
       await (send rt collateralAdapter ''addCollateralAsset''
         [case obj_get externalAssets symb of None \<Rightarrow> VUndef | Some v \<Rightarrow> v,
          opt_val (obj_get reserveAssets symb), opt_val (obj_get vaults symb)]) (\<lambda>_.
       return_io ()))"

definition testnet_collateral_adapter :: "'x hre \<Rightarrow> bool \<Rightarrow> string \<Rightarrow> ('x, unit) io" where
  "testnet_collateral_adapter h verify pool_name =
     (let rt = hre_runtime h in
     on_chain h
       (await (deployCollateralAdapter rt verify) (\<lambda>collateralAdapter.
        await (lift_result (loadPoolConfig pool_name)) (\<lambda>poolConfig.
        let reserveAssets = getParamPerNetwork (env_FORK rt) (ReserveAssets poolConfig) (network_name rt) in
        await (lift_result (testnet_externalAssets rt poolConfig pool_name)) (\<lambda>externalAssets.
        await (testnet_acceptableVaults rt pool_name) (\<lambda>vaults.
        let reserves = filter (\<lambda>(_, reserve). aTokenImpl reserve = ''ATokenForCollateral'') (ReservesConfig poolConfig) in
        for_each (testnet_addCollateralAsset rt collateralAdapter externalAssets reserveAssets vaults) reserves))))))"

text \<open>Without a configured incentives controller the recorded one is used, unlike on the main networks.\<close>

definition testnet_initialize_lending_pool :: "'x hre \<Rightarrow> bool \<Rightarrow> string \<Rightarrow> ('x, unit) io" where
  "testnet_initialize_lending_pool h verify pool_name =
     (let rt = hre_runtime h; network = network_name rt in
     exit_on_error
       (await (set_DRE h) (\<lambda>_.
        await (lift_result (loadPoolConfig pool_name)) (\<lambda>poolConfig.
        let reserveAssets = getParamPerNetwork (env_FORK rt) (ReserveAssets poolConfig) network in
        await (lift_result (networkParam rt poolConfig ''IncentivesController'' network)) (\<lambda>configured.
        await (if \<not> js_truthy configured
               then await (getSturdyIncentivesController rt None) (\<lambda>c. return_io (VStr (contract_address c)))
               else return_io configured) (\<lambda>incentivesController.
        await (getLendingPoolAddressesProvider rt None) (\<lambda>addressesProvider.
        await (getSturdyProtocolDataProvider rt None) (\<lambda>testHelpers.
        await (callAddress rt addressesProvider ''getPoolAdmin'' []) (\<lambda>admin.
        await (call rt addressesProvider ''getPriceOracle'' []) (\<lambda>oracle.
        case reserveAssets of
          None \<Rightarrow> throw_io (Thrown ''Reserve assets is undefined. Check ReserveAssets configuration at config directory'')
        | Some reserveAssets \<Rightarrow>
            await (getTreasuryAddress rt poolConfig) (\<lambda>treasury.
            await (if pool_name = ''Sturdy'' then return_io [] else testnet_fantomVaults rt) (\<lambda>yields.
            await (initReservesByHelper rt (ReservesConfig poolConfig) reserveAssets (ATokenNamePrefix poolConfig)
                     (StableDebtTokenNamePrefix poolConfig) (VariableDebtTokenNamePrefix poolConfig)
                     (SymbolPrefix poolConfig) admin treasury yields verify) (\<lambda>_.
            await (configureReservesByHelper rt (ReservesConfig poolConfig) reserveAssets testHelpers admin) (\<lambda>_.
            await (lift_result (networkParam rt poolConfig ''LendingPoolCollateralManager'' network)) (\<lambda>configured.
            await (if \<not> usable h configured
                   then await (deployLendingPoolCollateralManager rt verify) (\<lambda>c. return_io (VStr (contract_address c)))
                   else return_io configured) (\<lambda>collateralManagerAddress.
            await (sendAndWait rt addressesProvider ''setLendingPoolCollateralManager'' [collateralManagerAddress]) (\<lambda>_.
            await (getSturdyProtocolDataProvider rt None) (\<lambda>sturdyProtocolDataProvider.
            await (sendAndWait rt addressesProvider ''setAddress''
                     [VStr ''0x0100000000000000000000000000000000000000000000000000000000000000'',
                      VStr (contract_address sturdyProtocolDataProvider)]) (\<lambda>_.
            await (deployWalletBalancerProvider rt verify) (\<lambda>_.
            await (deployUiPoolDataProvider rt [incentivesController, oracle] verify) (\<lambda>_.
            await (deployUiIncentiveDataProvider rt verify) (\<lambda>_.
            return_io ()))))))))))))))))))))))"

section \<open>The migrations\<close>

definition sturdy_testnet :: "'x hre \<Rightarrow> bool \<Rightarrow> bool \<Rightarrow> ('x, unit) io" where
  "sturdy_testnet h verify skipRegistry =
     (let pool_name = ''Sturdy'' in
     migration h verify pool_name
       [testnet_address_provider h False pool_name skipRegistry,
        testnet_lending_pool h False pool_name,
        testnet_oracles h False pool_name,
        testnet_data_provider h False,
        testnet_incentives_impl h False pool_name,
        testnet_lido_vault h False pool_name,
        testnet_initialize_lending_pool h False pool_name,
        testnet_collateral_adapter h False pool_name])"

definition sturdy_ftm_testnet :: "'x hre \<Rightarrow> bool \<Rightarrow> bool \<Rightarrow> ('x, unit) io" where
  "sturdy_ftm_testnet h verify skipRegistry =
     (let pool_name = ''Fantom'' in
     migration h verify pool_name
       [testnet_address_provider h False pool_name skipRegistry,
        testnet_lending_pool h False pool_name,
        testnet_oracles h False pool_name,
        testnet_data_provider h False,
        testnet_incentives_impl h False pool_name,
        testnet_yearn_vault h False pool_name,
        testnet_beefy_eth_vault h False pool_name,
        testnet_yearn_weth_vault h False pool_name,
        testnet_yearn_wbtc_vault h False pool_name,
        testnet_yearn_boo_vault h False pool_name,
        testnet_tomb_ftm_beefy_vault h False pool_name,
        testnet_tomb_mimatic_beefy_vault h False pool_name,
        testnet_yearn_fbeets_vault h False pool_name,
        testnet_yearn_link_vault h False pool_name,
        testnet_yearn_crv_vault h False pool_name,
        testnet_yearn_spell_vault h False pool_name,
        testnet_based_mimatic_beefy_vault h False pool_name,
        testnet_initialize_lending_pool h False pool_name,
        testnet_collateral_adapter h False pool_name])"

section \<open>The mock tokens and vaults\<close>

definition testnet_dai :: "'x hre \<Rightarrow> bool \<Rightarrow> ('x, unit) io" where
  "testnet_dai h verify =
     (let rt = hre_runtime h in
     await (set_DRE h) (\<lambda>_.
     await (getFirstSigner rt) (\<lambda>signer.
     await (lift_result (deref signer)) (\<lambda>dai_minter.
     await (deployMockDai rt (case chainId h of None \<Rightarrow> VUndef | Some n \<Rightarrow> VNum n) verify) (\<lambda>dai.
     await (send rt dai ''mint'' [VStr dai_minter, VStr ''1000000000000000000000000'']) (\<lambda>_.
     return_io ()))))))"

text \<open>
  A million units are minted by a swap with a made-up transaction; the decimals are the token's, the
  parsing of the amount is ethers' (a parameter of \<open>convertToCurrencyDecimals\<close>).
\<close>

definition testnet_swapin ::
    "'x hre \<Rightarrow> ('x, 'b) suite \<Rightarrow> (js_val list \<Rightarrow> bool \<Rightarrow> ('x, Instance) io) \<Rightarrow> string \<Rightarrow> bool \<Rightarrow> ('x, unit) io" where
  "testnet_swapin h S deployment symb verify =
     (let rt = hre_runtime h in
     await (set_DRE h) (\<lambda>_.
     await (getFirstSigner rt) (\<lambda>signer.
     await (lift_result (deref signer)) (\<lambda>minter.
     await (deployment [VStr symb, VStr symb, VNum 6, VStr minter] verify) (\<lambda>token.
     await (convertToCurrencyDecimals S (contract_address token) ''1000000'') (\<lambda>amount.
     await (send rt token ''Swapin''
              [VStr ''0xf46b121a8bf6c2612ca202023f93cba708ecb1771da365029072a2f9930ddc76'', VStr minter, VNum amount]) (\<lambda>_.
     return_io ())))))))"

definition testnet_usdc :: "'x hre \<Rightarrow> ('x, 'b) suite \<Rightarrow> bool \<Rightarrow> ('x, unit) io" where
  "testnet_usdc h S verify = testnet_swapin h S (deployMockUSDC (hre_runtime h)) ''USDC'' verify"

definition testnet_usdt :: "'x hre \<Rightarrow> ('x, 'b) suite \<Rightarrow> bool \<Rightarrow> ('x, unit) io" where
  "testnet_usdt h S verify = testnet_swapin h S (deployMockUSDT (hre_runtime h)) ''USDT'' verify"

text \<open>The mock vaults of the Fantom testnet, on the configured tokens, with the first account in every role.\<close>

definition testnet_ftm_mockVaults :: "'x hre \<Rightarrow> bool \<Rightarrow> ('x, unit) io" where
  "testnet_ftm_mockVaults h verify =
     (let rt = hre_runtime h in
     await (set_DRE h) (\<lambda>_.
     await (lift_result (loadPoolConfig ''Fantom'')) (\<lambda>poolConfig.
     await (getFirstSigner rt) (\<lambda>signer.
     await (lift_result (deref signer)) (\<lambda>sender.
     let args = (\<lambda>token. [token, VStr sender, VStr sender, VStr '''', VStr '''', VStr sender, VStr sender]) in
     await (lift_result (param rt poolConfig ''WFTM'')) (\<lambda>wftm.
     await (lift_result (param rt poolConfig ''WETH'')) (\<lambda>weth.
     await (lift_result (param rt poolConfig ''WBTC'')) (\<lambda>wbtc.
     await (lift_result (param rt poolConfig ''BOO'')) (\<lambda>boo.
     await (lift_result (param rt poolConfig ''TOMB_FTM_LP'')) (\<lambda>tombFtmLP.
     await (lift_result (param rt poolConfig ''TOMB_MIMATIC_LP'')) (\<lambda>tombMiMaticLP.
     await (lift_result (param rt poolConfig ''BASED_MIMATIC_LP'')) (\<lambda>basedMiMaticLP.
     await (lift_result (param rt poolConfig ''LINK'')) (\<lambda>link.
     await (lift_result (param rt poolConfig ''fBEETS'')) (\<lambda>fbeets.
     await (lift_result (param rt poolConfig ''CRV'')) (\<lambda>crv.
     await (lift_result (param rt poolConfig ''SPELL'')) (\<lambda>spell.
     await (deployMockyvWFTM rt (args wftm) verify) (\<lambda>_.
     await (deployMockyvWETH rt (args weth) verify) (\<lambda>_.
     await (deployMockyvWBTC rt (args wbtc) verify) (\<lambda>_.
     await (deployMockyvBOO rt (args boo) verify) (\<lambda>_.
     await (deployMockMooTOMBFTM rt (args tombFtmLP) verify) (\<lambda>_.
     await (deployMockMooTOMBMIMATIC rt (args tombMiMaticLP) verify) (\<lambda>_.
     await (deployMockMooBASEDMIMATIC rt (args basedMiMaticLP) verify) (\<lambda>_.
     await (deployMockYearnVault rt ''MockLINKForFTM'' (args link) verify) (\<lambda>_.
     await (deployMockYearnVault rt ''MockFBEETSForFTM'' (args fbeets) verify) (\<lambda>_.
     await (deployMockBeefyVault rt ''MockBeeefyETHForFTM'' (args weth) verify) (\<lambda>_.
     await (deployMockYearnVault rt ''MockCRVForFTM'' (args crv) verify) (\<lambda>_.
     await (deployMockYearnVault rt ''MockSPELLForFTM'' (args spell) verify) (\<lambda>_.
     return_io ()))))))))))))))))))))))))))))"

end
