(* ===== verification/AssetTasks.thy ===== *)
theory AssetTasks
  imports TestnetTasks
begin

text \<open>
  The tasks of \<^verbatim>\<open>tasks/helpers\<close> that change a market after its deployment, the deployment of a vault
  through the vault helper (\<^verbatim>\<open>tasks/migrations/sturdy.ftm.deployVaultHelper.ts\<close>), and the printing and
  wrapping tasks of \<^verbatim>\<open>tasks/misc\<close>. Console output is left out; what it reads is read.
\<close>

section \<open>Which symbols have a configuration\<close>

text \<open>
  A symbol is valid when the market exports a strategy of its name in capitals, has an address for it on
  the network, and configures it with that very strategy. The last test compares objects of the modules,
  here by their values.
\<close>

definition isSymbolValid :: "string \<Rightarrow> string \<Rightarrow> PoolConfiguration \<Rightarrow> IReserveParams obj \<Rightarrow> bool result" where
  "isSymbolValid symb network poolConfig reserveConfigs =
     (let strat = ''strategy'' @ toUpperCase symb in
      if strat \<notin> set (obj_keys reserveConfigs) then Inr False
      else
        bindR (deref (obj_get (ReserveAssets poolConfig) network)) (\<lambda>assets.
        Inr (truthy_string (obj_get assets symb)
             \<and> obj_get (ReservesConfig poolConfig) symb = obj_get reserveConfigs strat)))"

text \<open>What the three tasks start with: the configuration and the strategy of the symbol, or an error.\<close>

definition with_strategy ::
    "'x hre \<Rightarrow> string \<Rightarrow> string \<Rightarrow> (PoolConfiguration \<Rightarrow> IReserveParams \<Rightarrow> ('x, unit) io) \<Rightarrow> ('x, unit) io" where
  "with_strategy h pool_name symb task =
     await (lift_result (loadPoolConfig pool_name)) (\<lambda>poolConfig.
     await (lift_result (getReserveConfigs pool_name)) (\<lambda>reserveConfigs.
     await (lift_result (isSymbolValid symb (currentNetwork (hre_runtime h)) poolConfig reserveConfigs)) (\<lambda>valid.
     if \<not> valid then throw_io (Thrown ''WRONG RESERVE ASSET SETUP'')
     else
       await (on_network (\<lambda>x. (Inr (), setDRE h x))) (\<lambda>_.
       await (lift_result (deref (obj_get reserveConfigs (''strategy'' @ toUpperCase symb)))) (\<lambda>strategyParams.
       task poolConfig strategyParams)))))"

section \<open>Changing a market\<close>

definition change_asset_strategy :: "'x hre \<Rightarrow> string \<Rightarrow> string \<Rightarrow> ('x, unit) io" where
  "change_asset_strategy h symb pool_name =
     (let rt = hre_runtime h in
     with_strategy h pool_name symb (\<lambda>poolConfig strategyParams.
     await (getLendingPoolConfiguratorProxy rt None) (\<lambda>lendingPoolConf.
     await (lift_result (network_asset rt poolConfig symb)) (\<lambda>asset.
     await (send rt lendingPoolConf ''configureReserveAsCollateral''
              [asset, VStr (baseLTVAsCollateral strategyParams), VStr (liquidationThreshold strategyParams),
               VStr (liquidationBonus strategyParams)]) (\<lambda>_.
     return_io ())))))"

text \<open>Deploying the strategy contract of an asset and recording it under the strategy's name.\<close>

definition deploy_strategy_of :: "'x runtime \<Rightarrow> Instance \<Rightarrow> IReserveParams \<Rightarrow> bool \<Rightarrow> ('x, Instance) io" where
  "deploy_strategy_of rt addressProvider strategyParams verify =
     (let strat = strategy strategyParams in
     await (deployDefaultReserveInterestRateStrategy rt
              [VStr (contract_address addressProvider),
               VStr (optimalUtilizationRate strat), VStr (baseVariableBorrowRate strat),
               VStr (variableRateSlope1 strat), VStr (variableRateSlope2 strat),
               VStr (stableRateSlope1 strat), VStr (stableRateSlope2 strat)] verify) (\<lambda>rates.
     await (rawInsertContractAddressInDb rt (strategy_name strat) (contract_address rates)) (\<lambda>_.
     return_io rates)))"

definition aToken_of :: "'x runtime \<Rightarrow> IReserveParams \<Rightarrow> ('x, string) io" where
  "aToken_of rt strategyParams =
     await (if aTokenImpl strategyParams = ''AToken'' then getGenericATokenImpl rt None
            else getCollateralATokenImpl rt None) (\<lambda>c.
     return_io (contract_address c))"

definition new_asset_input ::
    "PoolConfiguration \<Rightarrow> IReserveParams \<Rightarrow> string \<Rightarrow> string \<Rightarrow> string \<Rightarrow> js_val \<Rightarrow> string \<Rightarrow> string \<Rightarrow> string \<Rightarrow> string \<Rightarrow> string
     \<Rightarrow> InitReserveInput" where
  "new_asset_input poolConfig strategyParams symb aTokenToUse rates treasury incentives stableDebt variableDebt underlying yield =
     \<lparr>in_aTokenImpl = aTokenToUse,
      in_stableDebtTokenImpl = stableDebt,
      in_variableDebtTokenImpl = variableDebt,
      in_underlyingAssetDecimals = reserveDecimals strategyParams,
      in_interestRateStrategyAddress = rates,
      in_yieldAddress = (if yield \<noteq> [] then yield else ZERO_ADDRESS),
      in_underlyingAsset = underlying,
      in_treasury = treasury,
      in_incentivesController = incentives,
      in_underlyingAssetName = symb,
      in_aTokenName = ATokenNamePrefix poolConfig @ '' '' @ symb,
      in_aTokenSymbol = ''s'' @ SymbolPrefix poolConfig @ symb,
      in_variableDebtTokenName = VariableDebtTokenNamePrefix poolConfig @ '' '' @ SymbolPrefix poolConfig @ symb,
      in_variableDebtTokenSymbol = ''variableDebt'' @ SymbolPrefix poolConfig @ symb,
      in_stableDebtTokenName = StableDebtTokenNamePrefix poolConfig @ '' '' @ symb,
      in_stableDebtTokenSymbol = ''stableDebt'' @ SymbolPrefix poolConfig @ symb,
      in_params = ''0x10''\<rparr>"

text \<open>The incentives are awaited only until they are sent.\<close>

definition deploy_new_asset :: "'x hre \<Rightarrow> string \<Rightarrow> bool \<Rightarrow> string \<Rightarrow> string \<Rightarrow> string \<Rightarrow> ('x, unit) io" where
  "deploy_new_asset h pool_name verify symb yieldaddress externalcollateraladdress =
     (let rt = hre_runtime h in
     with_strategy h pool_name symb (\<lambda>poolConfig strategyParams.
     await (lift_result (network_asset rt poolConfig symb)) (\<lambda>reserveAsset.
     let reserveAssetAddress = as_string reserveAsset in
     await (getLendingPoolAddressesProvider rt None) (\<lambda>addressProvider.
     await (getLendingPool rt None) (\<lambda>lendingPool.
     await (getTreasuryAddress rt poolConfig) (\<lambda>treasury.
     await (getSturdyIncentivesController rt None) (\<lambda>incentivesController.
     await (deploy_strategy_of rt addressProvider strategyParams verify) (\<lambda>rates.
     await (getLendingPoolConfiguratorProxy rt None) (\<lambda>configurator.
     await (aToken_of rt strategyParams) (\<lambda>aTokenToUse.
     await (getStableDebtToken rt None) (\<lambda>stableDebtToken.
     await (getVariableDebtToken rt None) (\<lambda>variableDebtToken.
     await (sendAndWait rt configurator ''batchInitReserve''
              [VArr [init_input_val
                 (new_asset_input poolConfig strategyParams symb aTokenToUse (contract_address rates) treasury
                    (contract_address incentivesController) (contract_address stableDebtToken)
                    (contract_address variableDebtToken) reserveAssetAddress yieldaddress)]]) (\<lambda>_.
     await (call rt lendingPool ''getReserveData'' [VStr reserveAssetAddress]) (\<lambda>response.
     await (lift_result (js_field response ''aTokenAddress'')) (\<lambda>aTokenAddress.
     await (lift_result (js_field response ''variableDebtTokenAddress'')) (\<lambda>variableDebtTokenAddress.
     await (send rt incentivesController ''configureAssets''
              [VArr [aTokenAddress, variableDebtTokenAddress],
               VArr [VStr (emissionPerSecond strategyParams), VStr (emissionPerSecond strategyParams)]]) (\<lambda>_.
     await (getATokensAndRatesHelper rt None) (\<lambda>atokenAndRatesDeployer.
     await (call rt addressProvider ''getPoolAdmin'' []) (\<lambda>admin.
     await (sendAndWait rt addressProvider ''setPoolAdmin'' [VStr (contract_address atokenAndRatesDeployer)]) (\<lambda>_.
     await (sendAndWait rt atokenAndRatesDeployer ''configureReserves''
              [VArr [configure_input reserveAssetAddress strategyParams]]) (\<lambda>_.
     await (sendAndWait rt addressProvider ''setPoolAdmin'' [admin]) (\<lambda>_.
     await (getCollateralAdapter rt None) (\<lambda>collateralAdapter.
     sendAndWait rt collateralAdapter ''addCollateralAsset''
       [VStr externalcollateraladdress, VStr reserveAssetAddress, VStr yieldaddress])))))))))))))))))))))))"

text \<open>
  The vault of \<open>yvCRV\<close>, the one block of the task that is not commented out: its implementation is deployed
  and its price set, on the testnet in the mock oracle and elsewhere by its source in the protocol's oracle.
\<close>

definition new_crv_vault :: "'x runtime \<Rightarrow> PoolConfiguration \<Rightarrow> bool \<Rightarrow> ('x, Instance) io" where
  "new_crv_vault rt poolConfig verify =
     await (deployYearnCRVVaultImpl rt verify) (\<lambda>impladdress.
     await (if currentNetwork rt = ''ftm_test''
            then
              await (getPriceOracle rt None) (\<lambda>priceOracleInstance.
              await (lift_result (network_asset rt poolConfig ''yvCRV'')) (\<lambda>yvCRV.
              sendAndWait rt priceOracleInstance ''setAssetPrice''
                [yvCRV, opt_val (obj_get (AllAssetsInitialPrices poolConfig) ''yvCRV'')]))
            else
              await (getSturdyOracle rt None) (\<lambda>sturdyOracle.
              await (lift_result (asset rt poolConfig ''yvCRV'')) (\<lambda>yvCRV.
              await (lift_result (aggregator rt poolConfig ''yvCRV'')) (\<lambda>source.
              sendAndWait rt sturdyOracle ''setAssetSources'' [VArr [yvCRV], VArr [source]])))) (\<lambda>_.
     await (lift_result (param rt poolConfig ''YearnCRVVaultFTM'')) (\<lambda>_.
     await (lift_result (param rt poolConfig ''CRV'')) (\<lambda>_.
     return_io impladdress))))"

text \<open>What is read to print the helper's inputs.\<close>

definition print_helper_inputs :: "'x runtime \<Rightarrow> PoolConfiguration \<Rightarrow> ('x, unit) io" where
  "print_helper_inputs rt poolConfig =
     await (lift_result (network_token rt poolConfig ''ReserveFactorTreasuryAddress'')) (\<lambda>_.
     await (getStableDebtToken rt None) (\<lambda>_.
     await (getVariableDebtToken rt None) (\<lambda>_.
     return_io ())))"

definition get_param_for_new_vault :: "'x hre \<Rightarrow> string \<Rightarrow> bool \<Rightarrow> string \<Rightarrow> ('x, unit) io" where
  "get_param_for_new_vault h pool_name verify symb =
     (let rt = hre_runtime h in
     with_strategy h pool_name symb (\<lambda>poolConfig strategyParams.
     await (lift_result (network_asset rt poolConfig symb)) (\<lambda>reserveAsset.
     await (getLendingPoolAddressesProvider rt None) (\<lambda>addressProvider.
     await (getTreasuryAddress rt poolConfig) (\<lambda>treasury.
     await (getSturdyIncentivesController rt None) (\<lambda>incentivesController.
     await (getATokensAndRatesHelper rt None) (\<lambda>atokenAndRatesDeployer.
     await (deploy_strategy_of rt addressProvider strategyParams verify) (\<lambda>rates.
     await (aToken_of rt strategyParams) (\<lambda>aTokenToUse.
     await (new_crv_vault rt poolConfig verify) (\<lambda>impladdress.
     print_helper_inputs rt poolConfig))))))))))"

section \<open>A vault through the vault helper\<close>

definition helper_vault_ids :: "js_val list" where
  "helper_vault_ids =
     [VStr ''0x42454546595f42415345445f4d494d415449435f5641554c5400000000000000'',
      VStr ''0x6d6f6f546f6d6242415345442d4d494d41544943000000000000000000000000'',
      VStr ''0x42415345445f4d494d415449435f4c5000000000000000000000000000000000'',
      VStr ''0x4241534544000000000000000000000000000000000000000000000000000000'']"

definition helper_vault_addresses :: "js_val list" where
  "helper_vault_addresses =
     [VStr ''0x21d7D4B68b766Ff2508b53EBaa928b9CC581e506'',
      VStr ''0x316C7c7e783A1d91806A069cF91aA048FD4a86dC'',
      VStr ''0x323b65bC4F76b36AB57EAF4cFBD9561cfaAe5d29'',
      VStr ''0xD5868d9D96eFD744f4b0579C74Abdb26697E9AB2'']"

definition helper_vault_config :: js_val where
  "helper_vault_config = VObj
     [(''asset'', VStr ''0x316C7c7e783A1d91806A069cF91aA048FD4a86dC''),
      (''baseLTV'', VStr ''7000''),
      (''liquidationThreshold'', VStr ''7500''),
      (''liquidationBonus'', VStr ''10750''),
      (''reserveFactor'', VStr ''0''),
      (''stableBorrowingEnabled'', VBool False),
      (''borrowingEnabled'', VBool False),
      (''collateralEnabled'', VBool True)]"

definition helper_vault_input :: InitReserveInput where
  "helper_vault_input =
     \<lparr>in_aTokenImpl = ''0xbd6374566128fc1129e5f63fEEe73e8d8d1F84Eb'',
      in_stableDebtTokenImpl = ''0x6A0e35E60e3E79c38Bb88C384Ae17e9218ad9CD4'',
      in_variableDebtTokenImpl = ''0xcd9C4C8b1f3FEB11C261A65310c2eBe453Dd822A'',
      in_underlyingAssetDecimals = ''18'',
      in_interestRateStrategyAddress = ''0x007AAe40561ba9aBA3B2c2DA7D078CB8e16a1c13'',
      in_yieldAddress = ''0x0000000000000000000000000000000000000000'',
      in_underlyingAsset = ''0x316C7c7e783A1d91806A069cF91aA048FD4a86dC'',
      in_treasury = VStr ''0xFd1D36995d76c0F75bbe4637C84C06E4A68bBB3a'',
      in_incentivesController = ''0xe8257438ea046A3f5f246c862Efd8c96AD82289a'',
      in_underlyingAssetName = ''mooBASED_MIMATIC'',
      in_aTokenName = ''Sturdy interest bearing mooBASED_MIMATIC'',
      in_aTokenSymbol = ''smooBASED_MIMATIC'',
      in_variableDebtTokenName = ''Sturdy variable debt bearing mooBASED_MIMATIC'',
      in_variableDebtTokenSymbol = ''variableDebtmooBASED_MIMATIC'',
      in_stableDebtTokenName = ''Sturdy stable debt bearing mooBASED_MIMATIC'',
      in_stableDebtTokenSymbol = ''stableDebtmooBASED_MIMATIC'',
      in_params = ''0x10''\<rparr>"

text \<open>The ownership of the provider and of the rates helper goes to the vault helper, which keeps it.\<close>

definition ftm_deployVaultHelper :: "'x hre \<Rightarrow> bool \<Rightarrow> ('x, unit) io" where
  "ftm_deployVaultHelper h verify =
     (let rt = hre_runtime h in
     await (set_DRE h) (\<lambda>_.
     await (getDeployVaultHelper rt None) (\<lambda>vaultHelper.
     await (getATokensAndRatesHelper rt None) (\<lambda>aTokenHelper.
     await (getLendingPoolAddressesProvider rt None) (\<lambda>addressProvider.
     await (sendAndWait rt addressProvider ''transferOwnership'' [VStr (contract_address vaultHelper)]) (\<lambda>_.
     await (sendAndWait rt aTokenHelper ''transferOwnership'' [VStr (contract_address vaultHelper)]) (\<lambda>_.
     await (sendAndWait rt vaultHelper ''deployVault''
              [VArr helper_vault_ids, VArr helper_vault_addresses, VStr ''0xFd1D36995d76c0F75bbe4637C84C06E4A68bBB3a'',
               VNum 1000, VStr (contract_address aTokenHelper), VArr [helper_vault_config],
               VArr [init_input_val helper_vault_input]]) (\<lambda>_.
     await (callAddress rt addressProvider ''getAddress''
              [VStr ''0x42454546595f42415345445f4d494d415449435f5641554c5400000000000000'']) (\<lambda>newVaultProxyAddress.
     await (insertContractAddressInDb rt ''BasedMiMaticBeefyVault'' newVaultProxyAddress) (\<lambda>_.
     await (call rt addressProvider ''owner'' []) (\<lambda>_.
     await (call rt aTokenHelper ''owner'' []) (\<lambda>_.
     return_io ()))))))))))))"

section \<open>Printing and wrapping\<close>

definition print_contracts :: "'x hre \<Rightarrow> ('x, unit) io" where
  "print_contracts h = set_DRE h"

text \<open>The first element of the array a view returned, and an element of what it returned, which is printed.\<close>

definition js_first :: "js_val \<Rightarrow> tEthereumAddress option result" where
  "js_first v = (case v of VArr (x # _) \<Rightarrow> Inr (Some (as_string x)) | VArr [] \<Rightarrow> Inr None | _ \<Rightarrow> Inl TypeError)"

definition config_fields :: "string list" where
  "config_fields =
     [''decimals'', ''ltv'', ''liquidationThreshold'', ''liquidationBonus'', ''reserveFactor'', ''usageAsCollateralEnabled'',
      ''borrowingEnabled'', ''stableBorrowRateEnabled'', ''isActive'', ''isFrozen'']"

definition print_reserve :: "'x runtime \<Rightarrow> Instance \<Rightarrow> tEthereumAddress \<Rightarrow> ('x, unit) io" where
  "print_reserve rt protocolDataProvider address =
     await (call rt protocolDataProvider ''getReserveConfigurationData'' [VStr address]) (\<lambda>reserveData.
     await (call rt protocolDataProvider ''getReserveTokensAddresses'' [VStr address]) (\<lambda>tokensAddresses.
     await (for_each (\<lambda>field.
              await (lift_result (js_field reserveData field)) (\<lambda>v.
              await (lift_result (js_toString v)) (\<lambda>_. return_io ()))) config_fields) (\<lambda>_.
     if tokensAddresses = VUndef then throw_io TypeError else return_io ())))"

definition print_config :: "'x hre \<Rightarrow> string \<Rightarrow> tEthereumAddress \<Rightarrow> ('x, unit) io" where
  "print_config h pool_name dataProvider =
     (let rt = hre_runtime h; network = currentNetwork rt in
     await (set_DRE h) (\<lambda>_.
     await (lift_result (loadPoolConfig pool_name)) (\<lambda>poolConfig.
     await (lift_result (param rt poolConfig ''ProviderRegistry'')) (\<lambda>providerRegistryAddress.
     await (getLendingPoolAddressesProviderRegistry (ethers_isAddress h) (util_isZeroAddress h) rt
              (Some (as_string providerRegistryAddress))) (\<lambda>providerRegistry.
     await (call rt providerRegistry ''getAddressesProvidersList'' []) (\<lambda>providers.
     await (lift_result (js_first providers)) (\<lambda>first.
     await (getLendingPoolAddressesProvider rt first) (\<lambda>addressesProvider.
     await (for_each (\<lambda>view. await (call rt addressesProvider view []) (\<lambda>_. return_io ()))
              [''getMarketId'', ''getLendingPool'', ''getLendingPoolCollateralManager'', ''getLendingPoolConfigurator'',
               ''getPoolAdmin'', ''getEmergencyAdmin'', ''getPriceOracle'', ''getLendingRateOracle'']) (\<lambda>_.
     await (getSturdyProtocolDataProvider rt (Some dataProvider)) (\<lambda>protocolDataProvider.
     await (lift_result (deref (getParamPerNetwork (env_FORK rt) (ReserveAssets poolConfig) network))) (\<lambda>assets.
     for_each (\<lambda>(symb, address). print_reserve rt protocolDataProvider address) assets)))))))))))"

definition print_config_fork :: "'x hre \<Rightarrow> bool \<Rightarrow> ('x, unit) io" where
  "print_config_fork h verify =
     await (set_DRE h) (\<lambda>_.
     await (sturdy_mainnet h False False) (\<lambda>_.
     await (getSturdyProtocolDataProvider (hre_runtime h) None) (\<lambda>dataProvider.
     print_config h ''Sturdy'' (contract_address dataProvider))))"

text \<open>\<open>parseEther\<close> is ethers'. The deposit goes to the configured \<open>WETH\<close>.\<close>

definition wrap_ftm :: "'x hre \<Rightarrow> (string \<Rightarrow> int result) \<Rightarrow> string \<Rightarrow> ('x, unit) io" where
  "wrap_ftm h parseEther amount =
     (let rt = hre_runtime h in
     await (set_DRE h) (\<lambda>_.
     await (lift_result (loadPoolConfig ''Fantom'')) (\<lambda>poolConfig.
     await (lift_result (networkParam rt poolConfig ''WETH'' (network_name rt))) (\<lambda>wftmAddress.
     await (getIWETH rt (as_string wftmAddress)) (\<lambda>WFTM.
     await (lift_result (parseEther amount)) (\<lambda>value.
     await (send rt WFTM ''deposit'' [VObj [(''value'', VNum value)]]) (\<lambda>_.
     return_io ())))))))"

end
