(* ===== verification/TestnetRuns.thy ===== *)
theory TestnetRuns
  imports MigrationRuns AssetTasks
begin

text \<open>
  What the testnet and asset tasks do: the testnet migrations stop at their oracles, the collateral of
  the Fantom testnet is incomplete, and the asset tasks accept the symbols whose strategies are exported
  under their names.
\<close>

section \<open>Runs that never return\<close>

definition never_returns :: "('x, 'a) io \<Rightarrow> bool" where
  "never_returns m \<longleftrightarrow> (\<forall>w. \<exists>e w'. m w = (Inl e, w'))"

lemma never_throw: "never_returns (throw_io e)"
  by (simp add: never_returns_def throw_io_def)

lemma never_first: "never_returns m \<Longrightarrow> never_returns (await m f)"
  unfolding never_returns_def
proof
  fix w assume "\<forall>w. \<exists>e w'. m w = (Inl e, w')"
  then obtain e w' where "m w = (Inl e, w')" by blast
  then show "\<exists>e w'. await m f w = (Inl e, w')" by (simp add: await_def)
qed

lemma never_after:
  assumes "\<And>a. never_returns (f a)"
  shows "never_returns (await m f)"
  unfolding never_returns_def
proof
  fix w
  show "\<exists>e w'. await m f w = (Inl e, w')"
  proof (cases "m w")
    case (Pair r w1)
    show ?thesis
    proof (cases r)
      case (Inr a)
      from assms [of a] obtain e w' where "f a w1 = (Inl e, w')" unfolding never_returns_def by blast
      with Pair Inr show ?thesis by (simp add: await_def)
    qed (use Pair in \<open>simp add: await_def\<close>)
  qed
qed

lemma never_lift: "(\<And>a. r = Inr a \<Longrightarrow> never_returns (f a)) \<Longrightarrow> never_returns (await (lift_result r) f)"
  by (cases r) (auto simp: never_returns_def await_def lift_result_def)

lemma never_loop: "x \<in> set xs \<Longrightarrow> never_returns (body x) \<Longrightarrow> never_returns (for_each body xs)"
  by (induction xs) (auto intro: never_first never_after)

section \<open>The testnet's oracles\<close>

lemma mock_prices: "loadPoolConfig pool_name = Inr config \<Longrightarrow> AllAssetsInitialPrices config = MOCK_CHAINLINK_AGGREGATORS_PRICES"
  by (auto simp: loadPoolConfig_def SturdyConfig_def sturdy_CommonsConfig_def FantomConfig_def fantom_CommonsConfig_def
      split: if_splits)

lemma never_prices:
  assumes "(symb, price) \<in> set prices" "symb \<notin> set (obj_keys assets)"
  shows "never_returns (setInitialAssetPricesInOracle rt prices assets c)"
proof -
  from assms(2) have "obj_get assets symb = None" by (simp add: obj_get_def obj_keys_def map_of_eq_None_iff)
  then have "entry_of assets symb = Inl TypeError" by (simp add: entry_of_eq deref_def)
  then show ?thesis
    unfolding setInitialAssetPricesInOracle_def
    by (intro never_loop [OF assms(1)]) (auto intro: never_lift)
qed

lemma testnet_oracles_fail: "never_returns (testnet_oracles h verify pool_name)"
proof -
  have tomb: "(''TOMB'', dec 300213033693700) \<in> set MOCK_CHAINLINK_AGGREGATORS_PRICES"
    by (simp add: MOCK_CHAINLINK_AGGREGATORS_PRICES_def)
  have none: "''TOMB'' \<notin> set (obj_keys (testnet_assets assets usd))" for assets usd
    by (simp add: testnet_assets_def obj_keys_def)
  show ?thesis
    unfolding testnet_oracles_def Let_def
    by (rule never_after, rule never_lift, drule mock_prices, rule never_after, rule never_after, rule never_after, rule never_after,
        rule never_after, rule never_after, rule never_after, rule never_first, simp only:, rule never_prices [OF tomb none])
qed

lemma never_migration: "t \<in> set tasks \<Longrightarrow> never_returns t \<Longrightarrow> never_returns (migration h verify pool_name tasks)"
  unfolding migration_def run_tasks_def by (intro never_after never_first never_loop)

text \<open>
  C39: The oracle step of the testnets (\<^verbatim>\<open>tasks/testnet/3_oracles.ts\<close>) never returns, whatever the network and the
  database: the mock prices have entries (\<open>TOMB\<close>, \<open>BASED\<close>, \<open>MIMATIC\<close>, \<open>BEETS\<close>) for which the step passes no
  address, and reading one is a \<open>TypeError\<close>. So neither testnet migration completes.
\<close>

theorem testnet_migrations_fail:
  "(\<exists>e w'. testnet_oracles h verify pool_name w = (Inl e, w'))
   \<and> (\<exists>e w'. sturdy_testnet h verify skipRegistry w = (Inl e, w'))
   \<and> (\<exists>e w'. sturdy_ftm_testnet h verify skipRegistry w = (Inl e, w'))"
proof -
  have "never_returns (sturdy_testnet h verify skipRegistry)"
    unfolding sturdy_testnet_def Let_def
    by (rule never_migration [OF _ testnet_oracles_fail [of h False "''Sturdy''"]]) simp
  moreover have "never_returns (sturdy_ftm_testnet h verify skipRegistry)"
    unfolding sturdy_ftm_testnet_def Let_def
    by (rule never_migration [OF _ testnet_oracles_fail [of h False "''Fantom''"]]) simp
  ultimately show ?thesis using testnet_oracles_fail unfolding never_returns_def by blast
qed

section \<open>The collateral of the markets\<close>

definition collateral_symbols :: "PoolConfiguration \<Rightarrow> string list" where
  "collateral_symbols config = map fst (filter (\<lambda>(_, reserve). aTokenImpl reserve = ''ATokenForCollateral'') (ReservesConfig config))"

lemma mapR_keys:
  "mapR (\<lambda>(k, x). bindR (g x) (\<lambda>v. Inr (k, v))) xs = Inr ys \<Longrightarrow> map fst ys = map fst xs"
  by (induction xs arbitrary: ys) (auto simp: bindR_Inr_iff)

lemma external_keys:
  "reserveExternalAssets rt config ''Sturdy'' = Inr e \<Longrightarrow> obj_keys e =
     [''stETH'', ''yvRETH_WSTETH'', ''cvxRETH_WSTETH'', ''cvxFRAX_3CRV'', ''cvxSTECRV'', ''cvxDOLA_3CRV'']"
  "reserveExternalAssets rt config ''Fantom'' = Inr e \<Longrightarrow> obj_keys e =
     [''yvWFTM'', ''yvWETH'', ''yvWBTC'', ''yvBOO'', ''mooTOMB_FTM'', ''mooTOMB_MIMATIC'', ''mooBASED_MIMATIC'', ''yvfBEETS'', ''yvLINK'',
      ''mooWETH'', ''yvCRV'', ''yvSPELL'']"
  "testnet_externalAssets rt config ''Sturdy'' = Inr e \<Longrightarrow> obj_keys e = [''stETH'']"
  "testnet_externalAssets rt config ''Fantom'' = Inr e \<Longrightarrow> obj_keys e =
     [''yvWFTM'', ''yvWETH'', ''yvWBTC'', ''yvBOO'', ''mooTOMB_FTM'', ''mooTOMB_MIMATIC'', ''yvFBEETS'', ''yvLINK'', ''yvCRV'', ''yvSPELL'']"
  unfolding reserveExternalAssets_def testnet_externalAssets_def obj_keys_def
  by (drule mapR_keys, simp)+

lemma collateral_of_markets:
  "collateral_symbols FantomConfig =
     [''yvWFTM'', ''mooWETH'', ''yvWETH'', ''yvWBTC'', ''yvBOO'', ''mooTOMB_FTM'', ''mooTOMB_MIMATIC'', ''mooBASED_MIMATIC'', ''yvfBEETS'',
      ''yvLINK'', ''yvCRV'', ''yvSPELL'']"
  "collateral_symbols SturdyConfig =
     [''stETH'', ''yvRETH_WSTETH'', ''cvxRETH_WSTETH'', ''cvxFRAX_3CRV'', ''cvxSTECRV'', ''cvxDOLA_3CRV'']"
  by (simp_all add: collateral_symbols_def FantomConfig_def SturdyConfig_def fantom_strategyDAI_def fantom_strategyUSDC_def
      fantom_strategyUSDT_def fantom_strategyYVWFTM_def fantom_strategyMOOWETH_def fantom_strategyYVWETH_def fantom_strategyYVWBTC_def
      fantom_strategyYVBOO_def fantom_strategyMOOTOMB_FTM_def fantom_strategyMOOTOMB_MIMATIC_def fantom_strategyYVFBEETS_def
      fantom_strategyYVLINK_def fantom_strategyYVCRV_def fantom_strategyYVSPELL_def fantom_strategyMOOBASED_MIMATIC_def
      sturdy_strategyDAI_def sturdy_strategyUSDC_def sturdy_strategySTETH_def sturdy_strategyYVRETH_WSTETH_def
      sturdy_strategyCVXRETH_WSTETH_def sturdy_strategyCVXFRAX_3CRV_def sturdy_strategyCVXSTECRV_def sturdy_strategyCVXDOLA_3CRV_def)

lemma addresses_keys: "addresses_of gs w = (Inr vs, w') \<Longrightarrow> obj_keys vs = map fst gs"
proof (induction gs arbitrary: vs w)
  case (Cons g gs)
  then show ?case by (cases g) (auto simp: await_eq_Inr obj_keys_def return_io_def)
qed (simp add: return_io_def obj_keys_def)

lemma fantom_not_sturdy: "''Fantom'' \<noteq> ''Sturdy''"
  by simp

lemma vault_keys:
  "acceptableVaults rt ''Sturdy'' w = (Inr vs, w') \<Longrightarrow> obj_keys vs =
     [''stETH'', ''yvRETH_WSTETH'', ''cvxRETH_WSTETH'', ''cvxFRAX_3CRV'', ''cvxSTECRV'', ''cvxDOLA_3CRV'']"
  "acceptableVaults rt ''Fantom'' w = (Inr vs, w') \<Longrightarrow> obj_keys vs =
     [''yvWFTM'', ''yvWETH'', ''yvWBTC'', ''yvBOO'', ''mooTOMB_FTM'', ''mooTOMB_MIMATIC'', ''mooBASED_MIMATIC'', ''yvfBEETS'', ''yvLINK'',
      ''mooWETH'', ''yvCRV'', ''yvSPELL'']"
  "testnet_acceptableVaults rt ''Fantom'' w = (Inr vs, w') \<Longrightarrow> obj_keys vs =
     [''yvWFTM'', ''yvWETH'', ''yvWBTC'', ''yvBOO'', ''mooTOMB_FTM'', ''mooTOMB_MIMATIC'', ''yvFBEETS'', ''yvLINK'', ''yvCRV'', ''yvSPELL'']"
  unfolding acceptableVaults_def testnet_acceptableVaults_def testnet_fantomVaults_def if_P [OF refl] if_not_P [OF fantom_not_sturdy]
  by (drule addresses_keys, simp)+

text \<open>
  C37: On both main networks the collateral adapter has an external asset and a vault for exactly the
  market's collateral reserves. On the Fantom testnet it lacks both for three of the twelve: \<open>mooWETH\<close> and
  \<open>mooBASED_MIMATIC\<close>, which the tables leave out, and \<open>yvfBEETS\<close>, which they misspell.
\<close>

theorem collateral_tables:
  "(reserveExternalAssets rt SturdyConfig ''Sturdy'' = Inr e \<longrightarrow> acceptableVaults rt ''Sturdy'' w = (Inr vs, w') \<longrightarrow>
      set (obj_keys e) = set (collateral_symbols SturdyConfig) \<and> set (obj_keys vs) = set (collateral_symbols SturdyConfig))
   \<and> (reserveExternalAssets rt FantomConfig ''Fantom'' = Inr e \<longrightarrow> acceptableVaults rt ''Fantom'' w = (Inr vs, w') \<longrightarrow>
      set (obj_keys e) = set (collateral_symbols FantomConfig) \<and> set (obj_keys vs) = set (collateral_symbols FantomConfig))
   \<and> (testnet_externalAssets rt FantomConfig ''Fantom'' = Inr e \<longrightarrow> testnet_acceptableVaults rt ''Fantom'' w = (Inr vs, w') \<longrightarrow>
      set (collateral_symbols FantomConfig) - set (obj_keys e) = {''mooWETH'', ''mooBASED_MIMATIC'', ''yvfBEETS''}
      \<and> set (collateral_symbols FantomConfig) - set (obj_keys vs) = {''mooWETH'', ''mooBASED_MIMATIC'', ''yvfBEETS''})"
  by (intro conjI impI; simp only: external_keys vault_keys collateral_of_markets; (simp; fail | auto; fail))

definition vault_world :: "string \<Rightarrow> string list \<Rightarrow> unit world" where
  "vault_world network vaults = \<lparr>network_state = (),
     deployed_contracts = map (\<lambda>cid. (cid, [(network, \<lparr>entry_address = ''0x'' @ cid, entry_deployer = None\<rparr>)])) vaults\<rparr>"

lemma vault_world_known:
  "network_name rt = network \<Longrightarrow> known rt (set vaults) (vault_world network vaults)"
  by (simp add: known_def vault_world_def db_entry_of_def db_lookup_def obj_get_def map_of_map_restrict)

definition sturdy_vault_list :: "string list" where
  "sturdy_vault_list =
     [''LidoVault'', ''YearnRETHWstETHVault'', ''ConvexRocketPoolETHVault'', ''ConvexFRAX3CRVVault'', ''ConvexSTETHVault'',
      ''ConvexDOLA3CRVVault'']"

definition fantom_vault_list :: "string list" where
  "fantom_vault_list =
     [''YearnVault'', ''BeefyETHVault'', ''YearnWETHVault'', ''YearnWBTCVault'', ''YearnBOOVault'', ''TombFtmBeefyVault'',
      ''TombMiMaticBeefyVault'', ''YearnFBEETSVault'', ''YearnLINKVault'', ''YearnCRVVault'', ''YearnSPELLVault'',
      ''BasedMiMaticBeefyVault'']"

abbreviation main_rt :: "unit runtime" where "main_rt \<equiv> hre_runtime (accepting_hre ''main'')"
abbreviation ftm_rt :: "unit runtime" where "ftm_rt \<equiv> hre_runtime (accepting_hre ''ftm'')"

lemma vaults_run:
  "\<exists>vs w'. acceptableVaults main_rt ''Sturdy'' (vault_world ''main'' sturdy_vault_list) = (Inr vs, w')"
  "\<exists>vs w'. acceptableVaults ftm_rt ''Fantom'' (vault_world ''ftm'' fantom_vault_list) = (Inr vs, w')"
  "\<exists>vs w'. testnet_acceptableVaults ftm_rt ''Fantom'' (vault_world ''ftm'' fantom_vault_list) = (Inr vs, w')"
proof -
  have known: "known main_rt sturdy_vaults (vault_world ''main'' sturdy_vault_list)"
    "known ftm_rt fantom_vaults (vault_world ''ftm'' fantom_vault_list)"
    using vault_world_known [of main_rt "''main''" sturdy_vault_list] vault_world_known [of ftm_rt "''ftm''" fantom_vault_list]
    by (simp_all add: accepting_hre_def accepting_runtime_def sturdy_vaults_def fantom_vaults_def sturdy_vault_list_def
        fantom_vault_list_def)
  have "does main_rt sturdy_vaults (acceptableVaults main_rt ''Sturdy'') (\<lambda>_ _. True)"
    "does ftm_rt fantom_vaults (acceptableVaults ftm_rt ''Fantom'') (\<lambda>_ _. True)"
    by (rule main_run.sturdy_vault_addresses ftm_run.fantom_vault_addresses; simp)+
  moreover have "does ftm_rt fantom_vaults (testnet_acceptableVaults ftm_rt ''Fantom'') (\<lambda>_ _. True)"
    unfolding testnet_acceptableVaults_def testnet_fantomVaults_def if_not_P [OF fantom_not_sturdy] vault_getter_defs addresses_of.simps
    by (intro ftm_run.does_connect does_await does_return; simp add: fantom_vaults_def)
  ultimately show "\<exists>vs w'. acceptableVaults main_rt ''Sturdy'' (vault_world ''main'' sturdy_vault_list) = (Inr vs, w')"
  "\<exists>vs w'. acceptableVaults ftm_rt ''Fantom'' (vault_world ''ftm'' fantom_vault_list) = (Inr vs, w')"
  "\<exists>vs w'. testnet_acceptableVaults ftm_rt ''Fantom'' (vault_world ''ftm'' fantom_vault_list) = (Inr vs, w')"
    using known by (meson doesD)+
qed

lemma testnet_external: "\<exists>e. testnet_externalAssets ftm_rt FantomConfig ''Fantom'' = Inr e"
  unfolding testnet_externalAssets_def if_not_P [OF fantom_not_sturdy]
  by (intro mapR_total) (auto simp: fields_eq bindR_Inr_iff intro!: listed_fields)

theorem collateral_tables_witness:
  "(\<exists>e vs w'. reserveExternalAssets main_rt SturdyConfig ''Sturdy'' = Inr e
      \<and> acceptableVaults main_rt ''Sturdy'' (vault_world ''main'' sturdy_vault_list) = (Inr vs, w')
      \<and> set (obj_keys e) = set (collateral_symbols SturdyConfig) \<and> set (obj_keys vs) = set (collateral_symbols SturdyConfig))
   \<and> (\<exists>e vs w'. reserveExternalAssets ftm_rt FantomConfig ''Fantom'' = Inr e
      \<and> acceptableVaults ftm_rt ''Fantom'' (vault_world ''ftm'' fantom_vault_list) = (Inr vs, w')
      \<and> set (obj_keys e) = set (collateral_symbols FantomConfig) \<and> set (obj_keys vs) = set (collateral_symbols FantomConfig))
   \<and> (\<exists>e vs w'. testnet_externalAssets ftm_rt FantomConfig ''Fantom'' = Inr e
      \<and> testnet_acceptableVaults ftm_rt ''Fantom'' (vault_world ''ftm'' fantom_vault_list) = (Inr vs, w')
      \<and> set (collateral_symbols FantomConfig) - set (obj_keys vs) = {''mooWETH'', ''mooBASED_MIMATIC'', ''yvfBEETS''})"
  using collateral_tables main_run.sturdy_external ftm_run.fantom_external testnet_external vaults_run by meson

section \<open>The symbols of the asset tasks\<close>

lemma upper_symbols:
  "toUpperCase ''DAI'' = ''DAI''"
  "toUpperCase ''USDC'' = ''USDC''"
  "toUpperCase ''fUSDT'' = ''FUSDT''"
  "toUpperCase ''yvWFTM'' = ''YVWFTM''"
  "toUpperCase ''mooWETH'' = ''MOOWETH''"
  "toUpperCase ''yvWETH'' = ''YVWETH''"
  "toUpperCase ''yvWBTC'' = ''YVWBTC''"
  "toUpperCase ''yvBOO'' = ''YVBOO''"
  "toUpperCase ''mooTOMB_FTM'' = ''MOOTOMB_FTM''"
  "toUpperCase ''mooTOMB_MIMATIC'' = ''MOOTOMB_MIMATIC''"
  "toUpperCase ''yvfBEETS'' = ''YVFBEETS''"
  "toUpperCase ''yvLINK'' = ''YVLINK''"
  "toUpperCase ''yvCRV'' = ''YVCRV''"
  "toUpperCase ''yvSPELL'' = ''YVSPELL''"
  "toUpperCase ''mooBASED_MIMATIC'' = ''MOOBASED_MIMATIC''"
  "toUpperCase ''stETH'' = ''STETH''"
  "toUpperCase ''yvRETH_WSTETH'' = ''YVRETH_WSTETH''"
  "toUpperCase ''cvxRETH_WSTETH'' = ''CVXRETH_WSTETH''"
  "toUpperCase ''cvxFRAX_3CRV'' = ''CVXFRAX_3CRV''"
  "toUpperCase ''cvxSTECRV'' = ''CVXSTECRV''"
  "toUpperCase ''cvxDOLA_3CRV'' = ''CVXDOLA_3CRV''"
  by code_simp+

lemma isSymbolValid_eq:
  assumes "obj_get (ReserveAssets config) network = Some assets"
  shows "isSymbolValid symb network config cs =
    Inr (''strategy'' @ toUpperCase symb \<in> set (obj_keys cs) \<and> truthy_string (obj_get assets symb)
         \<and> obj_get (ReservesConfig config) symb = obj_get cs (''strategy'' @ toUpperCase symb))"
  using assms by (simp add: isSymbolValid_def Let_def deref_def)

lemma listed_assets:
  "obj_get (ReserveAssets FantomConfig) ''ftm'' = Some (snd (fantom_ReserveAssets ! 0))"
  "obj_get (ReserveAssets SturdyConfig) ''main'' = Some (snd (sturdy_ReserveAssets ! 7))"
  by (simp_all add: FantomConfig_def SturdyConfig_def fantom_ReserveAssets_def sturdy_ReserveAssets_def obj_get_def)

lemma listed_symbols:
  "symb \<notin> set (obj_keys (ReservesConfig FantomConfig)) \<Longrightarrow> obj_get (snd (fantom_ReserveAssets ! 0)) symb = None"
  "symb \<notin> set (obj_keys (ReservesConfig SturdyConfig)) \<Longrightarrow> obj_get (snd (sturdy_ReserveAssets ! 7)) symb = None"
  by (auto simp: FantomConfig_def SturdyConfig_def fantom_ReserveAssets_def sturdy_ReserveAssets_def obj_get_def obj_keys_def)

lemma market_symbols:
  "obj_keys (ReservesConfig FantomConfig) = [''DAI'', ''USDC'', ''fUSDT'', ''yvWFTM'', ''mooWETH'', ''yvWETH'', ''yvWBTC'', ''yvBOO'', ''mooTOMB_FTM'', ''mooTOMB_MIMATIC'', ''mooBASED_MIMATIC'', ''yvfBEETS'', ''yvLINK'', ''yvCRV'', ''yvSPELL'']"
  "obj_keys (ReservesConfig SturdyConfig) = [''DAI'', ''USDC'', ''stETH'', ''yvRETH_WSTETH'', ''cvxRETH_WSTETH'', ''cvxFRAX_3CRV'', ''cvxSTECRV'', ''cvxDOLA_3CRV'']"
  by (simp_all add: FantomConfig_def SturdyConfig_def obj_keys_def)

lemma fantom_accepts:
  "getReserveConfigs ''Fantom'' = Inr cs \<Longrightarrow>
   list_all (\<lambda>symb. isSymbolValid symb ''ftm'' FantomConfig cs = Inr (symb \<noteq> ''fUSDT'')) (obj_keys (ReservesConfig FantomConfig))"
  unfolding market_symbols isSymbolValid_eq [OF listed_assets(1)]
  by (auto simp: upper_symbols getReserveConfigs_def FantomConfig_def obj_keys_def obj_get_def fantom_ReserveAssets_def truthy_string_def)

lemma sturdy_accepts:
  "getReserveConfigs ''Sturdy'' = Inr cs \<Longrightarrow>
   list_all (\<lambda>symb. isSymbolValid symb ''main'' SturdyConfig cs = Inr True) (obj_keys (ReservesConfig SturdyConfig))"
  unfolding market_symbols isSymbolValid_eq [OF listed_assets(2)]
  by (auto simp: upper_symbols getReserveConfigs_def SturdyConfig_def obj_keys_def obj_get_def sturdy_ReserveAssets_def truthy_string_def)

lemma fantom_symbols:
  "getReserveConfigs ''Fantom'' = Inr cs \<Longrightarrow>
   isSymbolValid symb ''ftm'' FantomConfig cs = Inr (symb \<in> set (obj_keys (ReservesConfig FantomConfig)) - {''fUSDT''})"
  using fantom_accepts [of cs] isSymbolValid_eq [OF listed_assets(1), of symb cs] listed_symbols(1) [of symb]
  by (cases "symb \<in> set (obj_keys (ReservesConfig FantomConfig))") (auto simp: list_all_iff truthy_string_def)

lemma sturdy_symbols:
  "getReserveConfigs ''Sturdy'' = Inr cs \<Longrightarrow>
   isSymbolValid symb ''main'' SturdyConfig cs = Inr (symb \<in> set (obj_keys (ReservesConfig SturdyConfig)))"
  using sturdy_accepts [of cs] isSymbolValid_eq [OF listed_assets(2), of symb cs] listed_symbols(2) [of symb]
  by (cases "symb \<in> set (obj_keys (ReservesConfig SturdyConfig))") (auto simp: list_all_iff truthy_string_def)

text \<open>
  C38: The asset tasks accept, of all strings, exactly the reserves of the market on the two main networks, with
  one exception: \<open>fUSDT\<close> is refused on Fantom, since its strategy is exported as \<open>strategyUSDT\<close> and the tasks look
  for \<open>strategyFUSDT\<close>.
\<close>

theorem accepted_symbols:
  "bindR (getReserveConfigs ''Fantom'') (isSymbolValid symb ''ftm'' FantomConfig)
     = Inr (symb \<in> set (obj_keys (ReservesConfig FantomConfig)) - {''fUSDT''})
   \<and> bindR (getReserveConfigs ''Sturdy'') (isSymbolValid symb ''main'' SturdyConfig)
     = Inr (symb \<in> set (obj_keys (ReservesConfig SturdyConfig)))"
  using fantom_symbols sturdy_symbols by (auto simp: getReserveConfigs_def)

end
