(* ===== verification/CollateralRuns.thy ===== *)
theory CollateralRuns
  imports TestnetRuns
begin

text \<open>
  What the collateral adapter task sends on the main networks: the vaults its table names are those the
  database records, and the loop sends one transaction per collateral reserve.
\<close>

section \<open>The vaults a table names\<close>

text \<open>\<open>attaches rt m cid\<close>: when \<open>m\<close> returns, it attached to the address recorded under \<open>cid\<close> and wrote nothing.\<close>

definition attaches :: "'x runtime \<Rightarrow> ('x, Instance) io \<Rightarrow> string \<Rightarrow> bool" where
  "attaches rt m cid \<longleftrightarrow> (\<forall>w i w'. m w = (Inr i, w') \<longrightarrow> db_entry_of rt w' = db_entry_of rt w
     \<and> db_entry_of rt w cid \<noteq> None \<and> contract_address i = entry_address (the (db_entry_of rt w cid)))"

lemma attaches_recorded:
  "attaches rt (await (recordedAddress rt None cid) (\<lambda>address. await (getFirstSigner rt) (\<lambda>signer.
     return_io (attach F address signer)))) cid"
  unfolding attaches_def
proof (intro allI impI)
  fix w i w'
  assume "await (recordedAddress rt None cid) (\<lambda>address. await (getFirstSigner rt) (\<lambda>signer.
     return_io (attach F address signer))) w = (Inr i, w')"
  from getter_Inr [OF this] show "db_entry_of rt w' = db_entry_of rt w
      \<and> db_entry_of rt w cid \<noteq> None \<and> contract_address i = entry_address (the (db_entry_of rt w cid))"
    by (auto simp: recorded_instance_def attach_def)
qed

lemma addresses_of_recorded:
  assumes "addresses_of gs w = (Inr vs, w')" "list_all2 (\<lambda>(symb, g) (symb', cid). symb = symb' \<and> attaches rt g cid) gs ids"
  shows "vs = map (\<lambda>(symb, cid). (symb, entry_address (the (db_entry_of rt w cid)))) ids \<and> db_entry_of rt w' = db_entry_of rt w
    \<and> (\<forall>cid \<in> set (map snd ids). db_entry_of rt w cid \<noteq> None)"
  using assms
proof (induction gs arbitrary: ids vs w)
  case (Cons g gs)
  obtain symb m where g: "g = (symb, m)" by (cases g)
  from Cons.prems(2) obtain cid ids' where ids: "ids = (symb, cid) # ids'" "attaches rt m cid"
      "list_all2 (\<lambda>(symb, g) (symb', cid). symb = symb' \<and> attaches rt g cid) gs ids'"
    by (auto simp: g list_all2_Cons1)
  from Cons.prems(1) obtain c w1 vs' where run: "m w = (Inr c, w1)" "addresses_of gs w1 = (Inr vs', w')"
      "vs = (symb, contract_address c) # vs'"
    by (auto simp: g await_eq_Inr return_io_def)
  from Cons.IH [OF run(2) ids(3)] ids(1,2) run(1,3) show ?case by (auto simp: attaches_def)
qed (simp add: return_io_def)

definition vault_ids :: "string \<Rightarrow> string obj" where
  "vault_ids pool_name =
     (if pool_name = ''Sturdy''
      then
        [(''stETH'', ''LidoVault''),
         (''yvRETH_WSTETH'', ''YearnRETHWstETHVault''),
         (''cvxRETH_WSTETH'', ''ConvexRocketPoolETHVault''),
         (''cvxFRAX_3CRV'', ''ConvexFRAX3CRVVault''),
         (''cvxSTECRV'', ''ConvexSTETHVault''),
         (''cvxDOLA_3CRV'', ''ConvexDOLA3CRVVault'')]
      else
        [(''yvWFTM'', ''YearnVault''),
         (''yvWETH'', ''YearnWETHVault''),
         (''yvWBTC'', ''YearnWBTCVault''),
         (''yvBOO'', ''YearnBOOVault''),
         (''mooTOMB_FTM'', ''TombFtmBeefyVault''),
         (''mooTOMB_MIMATIC'', ''TombMiMaticBeefyVault''),
         (''mooBASED_MIMATIC'', ''BasedMiMaticBeefyVault''),
         (''yvfBEETS'', ''YearnFBEETSVault''),
         (''yvLINK'', ''YearnLINKVault''),
         (''mooWETH'', ''BeefyETHVault''),
         (''yvCRV'', ''YearnCRVVault''),
         (''yvSPELL'', ''YearnSPELLVault'')])"

lemma acceptable_recorded:
  assumes "acceptableVaults rt pool_name w = (Inr vs, w')"
  shows "vs = map (\<lambda>(symb, cid). (symb, entry_address (the (db_entry_of rt w cid)))) (vault_ids pool_name)
    \<and> db_entry_of rt w' = db_entry_of rt w
    \<and> (\<forall>cid \<in> set (map snd (vault_ids pool_name)). db_entry_of rt w cid \<noteq> None)"
proof (rule addresses_of_recorded [OF assms [unfolded acceptableVaults_def]])
  show "list_all2 (\<lambda>(symb, g) (symb', cid). symb = symb' \<and> attaches rt g cid)
      (if pool_name = ''Sturdy''
        then
          [(''stETH'', getLidoVault rt None),
           (''yvRETH_WSTETH'', getYearnRETHWstETHVault rt None),
           (''cvxRETH_WSTETH'', getConvexRocketPoolETHVault rt None),
           (''cvxFRAX_3CRV'', getConvexFRAX3CRVVault rt None),
           (''cvxSTECRV'', getConvexSTETHVault rt None),
           (''cvxDOLA_3CRV'', getConvexDOLA3CRVVault rt None)]
        else
          [(''yvWFTM'', getYearnVault rt None),
           (''yvWETH'', getYearnWETHVault rt None),
           (''yvWBTC'', getYearnWBTCVault rt None),
           (''yvBOO'', getYearnBOOVault rt None),
           (''mooTOMB_FTM'', getTombFtmBeefyVault rt None),
           (''mooTOMB_MIMATIC'', getTombMiMaticBeefyVault rt None),
           (''mooBASED_MIMATIC'', getBasedMiMaticBeefyVault rt None),
           (''yvfBEETS'', getYearnFBEETSVault rt None),
           (''yvLINK'', getYearnLINKVault rt None),
           (''mooWETH'', getBeefyETHVault rt None),
           (''yvCRV'', getYearnCRVVault rt None),
           (''yvSPELL'', getYearnSPELLVault rt None)]) (vault_ids pool_name)"
    unfolding vault_ids_def vault_getter_defs
    by (cases "pool_name = ''Sturdy''") (simp_all add: attaches_recorded)
qed

section \<open>What the collateral adapter is sent\<close>

definition collateral_tx ::
    "Instance \<Rightarrow> js_val obj \<Rightarrow> tEthereumAddress obj \<Rightarrow> tEthereumAddress obj \<Rightarrow> string \<Rightarrow> tx" where
  "collateral_tx adapter externals assets vaults symb =
     tx_of adapter ''addCollateralAsset''
       [case obj_get externals symb of None \<Rightarrow> VUndef | Some v \<Rightarrow> v, opt_val (obj_get assets symb), opt_val (obj_get vaults symb)]"

lemma addCollateralAsset_eq:
  "addCollateralAsset rt adapter externals (Some assets) vaults reserve =
     (if truthy_string (obj_get assets (fst reserve))
      then sendAndWait rt adapter ''addCollateralAsset'' (tx_args (collateral_tx adapter externals assets vaults (fst reserve)))
      else return_io ())"
  by (simp add: addCollateralAsset_def deref_def await_def lift_result_def collateral_tx_def tx_of_def fun_eq_iff Let_def)

lemma collateral_tx_args [simp]:
  "tx_of adapter ''addCollateralAsset'' (tx_args (collateral_tx adapter externals assets vaults symb))
     = collateral_tx adapter externals assets vaults symb"
  by (simp add: collateral_tx_def tx_of_def)

context transaction_log
begin

lemma logs_collateral:
  assumes "Q () (map (collateral_tx adapter externals assets vaults) (filter (\<lambda>symb. truthy_string (obj_get assets symb)) (map fst reserves)))"
    and "\<And>n. prefix n (map (collateral_tx adapter externals assets vaults) (filter (\<lambda>symb. truthy_string (obj_get assets symb)) (map fst reserves))) \<Longrightarrow> E n"
  shows "logs (for_each (addCollateralAsset rt adapter externals (Some assets) vaults) reserves) Q E w"
  using assms
proof (induction reserves arbitrary: Q E w)
  case (Cons r reserves)
  show ?case
  proof (cases "truthy_string (obj_get assets (fst r))")
    case True
    note first = addCollateralAsset_eq [of rt adapter externals assets vaults r, unfolded if_P [OF True]]
    show ?thesis
      unfolding for_each.simps first
      by (intro logs_await logs_sendAndWait allI Cons.IH) (use Cons.prems True in \<open>auto simp: prefix_Cons\<close>)
  next
    case False
    note first = addCollateralAsset_eq [of rt adapter externals assets vaults r, unfolded if_not_P [OF False]]
    show ?thesis
      unfolding for_each.simps first using Cons False by simp
  qed
qed (simp add: logs_return)

end


lemma collateral_loop_keeps_entries:
  assumes "for_each (addCollateralAsset rt adapter externals assets vaults) reserves w = (r, w')"
  shows "db_entry_of rt w' = db_entry_of rt w"
proof
  fix cid
  have "writes rt S (for_each (addCollateralAsset rt adapter externals assets vaults) reserves)" for S
    by (auto simp: addCollateralAsset_def Let_def intro!: frame_rules)
  from db_entry_of_no_writes [OF this assms] show "db_entry_of rt w' cid = db_entry_of rt w cid" .
qed

lemma market_assets:
  "getParamPerNetwork None (ReserveAssets SturdyConfig) ''main'' = Some (the (obj_get sturdy_ReserveAssets ''main''))"
  "getParamPerNetwork None (ReserveAssets FantomConfig) ''ftm'' = Some (the (obj_get fantom_ReserveAssets ''ftm''))"
  using main_entries ftm_entries
  by (simp_all add: getParamPerNetwork_def truthy_string_def SturdyConfig_def FantomConfig_def)

text \<open>The two markets on their main networks, with the addresses of their assets.\<close>

definition main_markets :: "(string \<times> PoolConfiguration \<times> string \<times> tEthereumAddress obj) list" where
  "main_markets =
     [(''Sturdy'', SturdyConfig, ''main'', the (obj_get sturdy_ReserveAssets ''main'')),
      (''Fantom'', FantomConfig, ''ftm'', the (obj_get fantom_ReserveAssets ''ftm''))]"

lemma main_market_facts:
  assumes "(pool_name, config, network, assets) \<in> set main_markets"
  shows "loadPoolConfig pool_name = Inr config"
    and "getParamPerNetwork None (ReserveAssets config) network = Some assets"
    and "filter (\<lambda>symb. truthy_string (obj_get assets symb)) (collateral_symbols config) = collateral_symbols config"
    and "set (collateral_symbols config) \<subseteq> set (obj_keys (vault_ids pool_name))"
  using assms
  by (auto simp: main_markets_def loadPoolConfig_def market_assets collateral_of_markets vault_ids_def obj_keys_def truthy_string_def
      obj_get_def sturdy_ReserveAssets_def fantom_ReserveAssets_def)

lemma main_market_externals:
  assumes "(pool_name, config, network, assets) \<in> set main_markets" "reserveExternalAssets rt config pool_name = Inr e"
  shows "set (collateral_symbols config) \<subseteq> set (obj_keys e)"
proof -
  from assms(1) consider "pool_name = ''Sturdy'' \<and> config = SturdyConfig" | "pool_name = ''Fantom'' \<and> config = FantomConfig"
    by (auto simp: main_markets_def)
  then show ?thesis using assms(2) by cases (simp_all add: external_keys collateral_of_markets)
qed

lemma listed_entry: "k \<in> set (obj_keys m) \<Longrightarrow> \<exists>v. obj_get m k = Some v"
  by (cases "obj_get m k") (auto simp: obj_get_def obj_keys_def map_of_eq_None_iff)

lemma truthy_key: "truthy_string (obj_get m k) \<Longrightarrow> k \<in> set (obj_keys m)"
  by (auto simp: truthy_string_def obj_get_def obj_keys_def domIff simp flip: dom_map_of_conv_image_fst split: option.splits)

text \<open>
  C36: When the collateral adapter task of a main network returns, the last transactions it sent are one
  \<open>addCollateralAsset\<close> to the adapter for each collateral reserve of the market, in the configuration's
  order, each with the external asset of the reserve, its token on the network, and the vault that the
  database records for it; none of the three is missing.
\<close>

theorem adapter_transactions:
  assumes "deploy_collateral_adapter h verify pool_name w = (Inr (), w')"
    and "hre_runtime h = logged rt" "env_FORK rt = None"
    and "(pool_name, config, network_name rt, assets) \<in> set main_markets"
  shows "\<exists>before adapter externals. reserveExternalAssets (logged rt) config pool_name = Inr externals
    \<and> set (collateral_symbols config) \<subseteq> set (obj_keys externals) \<inter> set (obj_keys assets) \<inter> set (obj_keys (vault_ids pool_name))
    \<and> (\<forall>cid \<in> set (map snd (vault_ids pool_name)). db_entry_of (logged rt) w' cid \<noteq> None)
    \<and> log_of w' = before @ map (\<lambda>symb. tx_of adapter ''addCollateralAsset''
        [the (obj_get externals symb), VStr (the (obj_get assets symb)),
         VStr (entry_address (the (db_entry_of (logged rt) w' (the (obj_get (vault_ids pool_name) symb)))))])
        (collateral_symbols config)"
proof -
  note market = main_market_facts [OF assms(4)]
  let ?rt = "logged rt"
  let ?reserves = "filter (\<lambda>(_, reserve). aTokenImpl reserve = ''ATokenForCollateral'') (ReservesConfig config)"
  have rt: "env_FORK ?rt = None" "network_name ?rt = network_name rt" using assms(3) by (simp_all add: logged_def)
  from assms(1) obtain adapter externals w1 vs w2 where externals: "reserveExternalAssets ?rt config pool_name = Inr externals"
    and vs: "acceptableVaults ?rt pool_name w1 = (Inr vs, w2)"
    and loop: "for_each (addCollateralAsset ?rt adapter externals (Some assets) vs) ?reserves w2 = (Inr (), w')"
    unfolding deploy_collateral_adapter_def Let_def on_chain_def assms(2) rt
    by (auto simp: await_eq_Inr lift_result_def market(1,2) split: if_splits)
  note recorded = acceptable_recorded [OF vs]
  note same = collateral_loop_keeps_entries [OF loop]
  let ?vault = "\<lambda>symb. entry_address (the (db_entry_of ?rt w' (the (obj_get (vault_ids pool_name) symb))))"
  have names: "map fst ?reserves = collateral_symbols config" by (simp add: collateral_symbols_def)
  have log: "log_of w' = log_of w2 @ map (collateral_tx adapter externals assets vs) (collateral_symbols config)"
    by (rule logged.logsE [OF logged.logs_collateral [of "\<lambda>_ new. new = map (collateral_tx adapter externals assets vs) (collateral_symbols config)"
          adapter externals assets vs ?reserves "\<lambda>_. True" rt w2]])
      (use loop market(3) names in \<open>auto simp: log_of_def\<close>)
  have keys: "set (collateral_symbols config) \<subseteq> set (obj_keys externals) \<inter> set (obj_keys assets) \<inter> set (obj_keys (vault_ids pool_name))"
    using main_market_externals [OF assms(4) externals] market(3,4) truthy_key
    unfolding filter_id_conv by blast
  have "collateral_tx adapter externals assets vs symb = tx_of adapter ''addCollateralAsset''
        [the (obj_get externals symb), VStr (the (obj_get assets symb)), VStr (?vault symb)]"
    if symb: "symb \<in> set (collateral_symbols config)" for symb
  proof -
    from keys symb obtain e a cid where found: "obj_get externals symb = Some e" "obj_get assets symb = Some a"
      "obj_get (vault_ids pool_name) symb = Some cid"
      by (meson IntE listed_entry subsetD)
    have "obj_get (map (\<lambda>(symb, cid). (symb, entry_address (the (db_entry_of ?rt w1 cid)))) (vault_ids pool_name)) symb
        = Some (entry_address (the (db_entry_of ?rt w1 cid)))"
      using found(3) by (simp add: obj_get_def map_of_map comp_def)
    with recorded same found show ?thesis by (simp add: collateral_tx_def opt_val_def)
  qed
  then have "log_of w' = log_of w2 @ map (\<lambda>symb. tx_of adapter ''addCollateralAsset''
        [the (obj_get externals symb), VStr (the (obj_get assets symb)), VStr (?vault symb)]) (collateral_symbols config)"
    using log by simp
  with externals keys recorded same show ?thesis by (intro exI conjI) auto
qed

text \<open>A network that accepts everything and logs it.\<close>

definition logging_hre :: "string \<Rightarrow> (unit \<times> tx list) hre" where
  "logging_hre network =
     \<lparr>hre_runtime = logged (hre_runtime (accepting_hre network)), chainId = Some 1,
      env_TENDERLY_FORK_ID = None, env_TENDERLY_HEAD_ID = None, DRE_isSet = (\<lambda>_. False), setDRE = (\<lambda>x. x),
      tenderly_setFork = (\<lambda>_ x. (Inr (), x)), tenderly_setHead = (\<lambda>_ x. (Inr (), x)),
      tenderly_initializeFork = (\<lambda>x. (Inr (), x)), rt_sendEther = (\<lambda>_ _ x. (Inr (), x)),
      ethers_isAddress = (\<lambda>_. True), util_isZeroAddress = (\<lambda>_. False)\<rparr>"

interpretation ftm_log: fantom_market "logging_hre ''ftm''"
  by unfold_locales (auto simp: logging_hre_def logged_def beside_def accepting_hre_def accepting_runtime_def usingTenderly_def
      usingDefender_def usable_def notFalsyOrZeroAddress_def)

definition logging_world :: "string \<Rightarrow> string list \<Rightarrow> (unit \<times> tx list) world" where
  "logging_world network ids = \<lparr>network_state = ((), []),
     deployed_contracts = map (\<lambda>cid. (cid, [(network, \<lparr>entry_address = ''0x'' @ cid, entry_deployer = None\<rparr>)])) ids\<rparr>"

theorem adapter_transactions_witness:
  "\<exists>w' before adapter externals. deploy_collateral_adapter (logging_hre ''ftm'') False ''Fantom''
      (logging_world ''ftm'' (''LendingPoolAddressesProvider'' # fantom_vault_list)) = (Inr (), w')
    \<and> log_of w' = before @ map (\<lambda>symb. tx_of adapter ''addCollateralAsset''
        [the (obj_get externals symb), VStr (the (obj_get (the (obj_get fantom_ReserveAssets ''ftm'')) symb)),
         VStr (entry_address (the (db_entry_of (hre_runtime (logging_hre ''ftm'')) w' (the (obj_get (vault_ids ''Fantom'') symb)))))])
        (collateral_symbols FantomConfig)"
proof -
  let ?h = "logging_hre ''ftm''" and ?rt = "hre_runtime (accepting_hre ''ftm'')"
  let ?D = "insert ''LendingPoolAddressesProvider'' fantom_vaults"
  let ?w = "logging_world ''ftm'' (''LendingPoolAddressesProvider'' # fantom_vault_list)"
  have rt: "hre_runtime ?h = logged ?rt" by (simp add: logging_hre_def)
  have known: "known (hre_runtime ?h) ?D ?w"
    by (auto simp: known_def logging_world_def logging_hre_def logged_def accepting_hre_def accepting_runtime_def db_entry_of_def
        db_lookup_def obj_get_def fantom_vaults_def fantom_vault_list_def)
  have "does (hre_runtime ?h) ?D (deploy_collateral_adapter ?h False ''Fantom'') (\<lambda>_ _. True)"
    by (rule ftm_log.does_adapter) (auto intro: ftm_log.fantom_vault_addresses ftm_log.fantom_external)
  from doesD [OF this known] obtain w' where run: "deploy_collateral_adapter ?h False ''Fantom'' ?w = (Inr (), w')"
    by (metis unit.exhaust)
  have market: "(''Fantom'', FantomConfig, network_name ?rt, the (obj_get fantom_ReserveAssets ''ftm'')) \<in> set main_markets"
    by (simp add: main_markets_def accepting_hre_def)
  have "env_FORK ?rt = None" by (simp add: accepting_hre_def accepting_runtime_def)
  from adapter_transactions [OF run rt this market] run show ?thesis unfolding rt by blast
qed

end
