(* ===== verification/SturdySuite.thy ===== *)
theory SturdySuite
  imports SuiteLog
begin

text \<open>
  The scenario suite of the Sturdy market, \<^verbatim>\<open>test-suites/test-sturdy/helpers\<close>. Its arithmetic, its reading of a
  reserve, its comparison and its engine's guards are the text of \<^verbatim>\<open>test-suites/test-ftm\<close> and are not
  repeated; its actions work on the other market's configuration and environment, and its collateral goes
  through the Lido vault, whose deposits and withdrawals are expected to be those of the pool. The actions
  send what those of the other suite send, through the interface of \<^verbatim>\<open>SuiteLog\<close>.
\<close>

section \<open>The environment\<close>

record SturdyTestEnv =
  s_users :: "SignerWithAddress list"
  s_pool :: Instance
  s_helpersContract :: Instance
  s_usdc :: Instance
  s_dai :: Instance
  s_lido :: Instance
  s_lidoVault :: Instance

section \<open>Reading the state\<close>

text \<open>An entry the database does not have is a \<open>TypeError\<close> here, where the other suite has \<open>undefined\<close>.\<close>

definition sturdy_getReserveAddressFromSymbol :: "('x, 'b) suite \<Rightarrow> string \<Rightarrow> ('x, tEthereumAddress) io" where
  "sturdy_getReserveAddressFromSymbol S symbol =
     (let rt = suite_rt S in
     await (lift_result (loadPoolConfig ''Sturdy'')) (\<lambda>config.
     await (lift_result (deref (getParamPerNetwork (env_FORK rt) (ReserveAssets config) (network_name rt)))) (\<lambda>reserveAssets.
     await (if truthy_string (obj_get reserveAssets symbol) then return_io (obj_get reserveAssets symbol)
            else await (db_get rt symbol) (\<lambda>e. await (lift_result (deref e)) (\<lambda>e. return_io (Some (entry_address e))))) (\<lambda>address.
     await (getMintableERC20 rt address) (\<lambda>token.
     return_io (contract_address token))))))"

definition sturdy_getUserData ::
    "('x, 'b) suite \<Rightarrow> Instance \<Rightarrow> string \<Rightarrow> tEthereumAddress \<Rightarrow> tEthereumAddress option \<Rightarrow> ('x, 'b UserReserveData) io" where
  "sturdy_getUserData S helper reserve user sender =
     (let rt = suite_rt S; B = suite_bn S in
     await (call rt helper ''getUserReserveData'' [VStr reserve, VStr user]) (\<lambda>userData.
     await (getATokenUserData S reserve user helper) (\<lambda>scaledATokenBalance.
     await (getMintableERC20 rt (Some reserve)) (\<lambda>token.
     await (call rt token ''balanceOf'' [VStr (if truthy_string sender then the sender else user)]) (\<lambda>balance.
     await (lift_result (js_toString balance)) (\<lambda>walletBalance.
     await (lift_result (field_number B userData ''currentATokenBalance'')) (\<lambda>currentATokenBalance.
     await (lift_result (field_number B userData ''currentStableDebt'')) (\<lambda>currentStableDebt.
     await (lift_result (field_number B userData ''currentVariableDebt'')) (\<lambda>currentVariableDebt.
     await (lift_result (field_number B userData ''principalStableDebt'')) (\<lambda>principalStableDebt.
     await (lift_result (field_number B userData ''scaledVariableDebt'')) (\<lambda>scaledVariableDebt.
     await (lift_result (field_number B userData ''stableBorrowRate'')) (\<lambda>stableBorrowRate.
     await (lift_result (field_number B userData ''liquidityRate'')) (\<lambda>liquidityRate.
     await (lift_result (js_field userData ''usageAsCollateralEnabled'')) (\<lambda>usageAsCollateralEnabled.
     await (lift_result (field_number B userData ''stableRateLastUpdated'')) (\<lambda>stableRateLastUpdated.
     return_io
       ((empty_UserReserveData B)
         \<lparr>u_scaledATokenBalance := bn_parse B scaledATokenBalance,
          u_currentATokenBalance := currentATokenBalance, u_currentStableDebt := currentStableDebt,
          u_currentVariableDebt := currentVariableDebt, u_principalStableDebt := principalStableDebt,
          u_scaledVariableDebt := scaledVariableDebt, u_stableBorrowRate := stableBorrowRate,
          u_liquidityRate := liquidityRate, u_usageAsCollateralEnabled := js_truthy usageAsCollateralEnabled,
          u_stableRateLastUpdated := stableRateLastUpdated,
          u_walletBalance := bn_parse B walletBalance\<rparr>))))))))))))))))"

definition sturdy_getContractsData ::
    "('x, 'b) suite \<Rightarrow> string \<Rightarrow> string \<Rightarrow> SturdyTestEnv \<Rightarrow> string option
     \<Rightarrow> ('x, 'b ReserveData \<times> 'b UserReserveData \<times> 'b) io" where
  "sturdy_getContractsData S reserve user env sender =
     await (sturdy_getUserData S (s_helpersContract env) reserve user (if truthy_string sender then sender else Some user)) (\<lambda>userData.
     await (getReserveData S (s_helpersContract env) reserve) (\<lambda>reserveData.
     await (timeLatest S) (\<lambda>timestamp.
     return_io (reserveData, userData, timestamp))))"

definition sturdy_getDataBeforeAction ::
    "('x, 'b) suite \<Rightarrow> string \<Rightarrow> tEthereumAddress \<Rightarrow> SturdyTestEnv
     \<Rightarrow> ('x, string \<times> 'b ReserveData \<times> 'b UserReserveData \<times> Instance) io" where
  "sturdy_getDataBeforeAction S reserveSymbol user env =
     await (sturdy_getReserveAddressFromSymbol S reserveSymbol) (\<lambda>reserve.
     await (sturdy_getContractsData S reserve user env None) (\<lambda>(reserveData, userData, _).
     await (getAToken (suite_rt S) (r_aTokenAddress reserveData)) (\<lambda>aTokenInstance.
     return_io (reserve, reserveData, userData, aTokenInstance))))"

section \<open>Funding and approving\<close>

definition sturdy_mint ::
    "('x, 'b) suite \<Rightarrow> string \<Rightarrow> string \<Rightarrow> SignerWithAddress option \<Rightarrow> SturdyTestEnv \<Rightarrow> ('x, unit) io" where
  "sturdy_mint S reserveSymbol amount user env =
     (let (ownerAddress, token) =
            (if reserveSymbol = ''USDC'' then (''0x47ac0Fb4F2D84898e4D9E7b4DaB3C24507a6D503'', Some (s_usdc env))
             else if reserveSymbol = ''DAI'' then (''0x4967ec98748efb98490663a65b16698069a1eb35'', Some (s_dai env))
             else if reserveSymbol = ''stETH'' then (''0x06920C9fC643De77B99cB7670A944AD31eaAA260'', Some (s_lido env))
             else ('''', None))
     in
     await (lift_result (deref token)) (\<lambda>token.
     await (convertToCurrencyDecimals S (contract_address token) amount) (\<lambda>depositAmount.
     await (impersonateAccountsHardhat (suite_rt S) [ownerAddress]) (\<lambda>_.
     await (on_network (rt_getSigner (suite_rt S) ownerAddress)) (\<lambda>owner.
     await (lift_result (deref user)) (\<lambda>user.
     await (transact S (connect token owner) ''transfer'' [VStr (signer_address user), VNum depositAmount]) (\<lambda>_.
     return_io ())))))))"

definition sturdy_approve ::
    "('x, 'b) suite \<Rightarrow> string \<Rightarrow> SignerWithAddress option \<Rightarrow> SturdyTestEnv \<Rightarrow> ('x, unit) io" where
  "sturdy_approve S reserveSymbol user env =
     await (sturdy_getReserveAddressFromSymbol S reserveSymbol) (\<lambda>reserve.
     await (getMintableERC20 (suite_rt S) (Some reserve)) (\<lambda>token.
     await (lift_result (deref user)) (\<lambda>user.
     await (transact S (connect token (signer user)) ''approve''
              [VStr (contract_address (s_pool env)), max_approval]) (\<lambda>_.
     return_io ()))))"

definition sturdy_approveVault ::
    "('x, 'b) suite \<Rightarrow> string \<Rightarrow> SignerWithAddress option \<Rightarrow> SturdyTestEnv \<Rightarrow> ('x, unit) io" where
  "sturdy_approveVault S reserveSymbol user env =
     await (sturdy_getReserveAddressFromSymbol S reserveSymbol) (\<lambda>reserve.
     await (getMintableERC20 (suite_rt S) (Some reserve)) (\<lambda>token.
     await (lift_result (deref user)) (\<lambda>user.
     await (transact S (connect token (signer user)) ''approve''
              [VStr (contract_address (s_lidoVault env)), max_approval]) (\<lambda>_.
     return_io ()))))"

section \<open>Deposits and withdrawals\<close>

definition sturdy_deposit ::
    "('x, 'b) suite \<Rightarrow> string \<Rightarrow> string \<Rightarrow> SignerWithAddress option \<Rightarrow> tEthereumAddress \<Rightarrow> string option \<Rightarrow> string
     \<Rightarrow> SturdyTestEnv \<Rightarrow> string option \<Rightarrow> ('x, unit) io" where
  "sturdy_deposit S reserveSymbol amount sender onBehalfOf sendValue expectedResult env revertMessage =
     (let B = suite_bn S in
     await (sturdy_getReserveAddressFromSymbol S reserveSymbol) (\<lambda>reserve.
     await (convertToCurrencyDecimals S reserve amount) (\<lambda>amountToDeposit.
     await (lift_result (deref sender)) (\<lambda>sender.
     await (sturdy_getContractsData S reserve onBehalfOf env (Some (signer_address sender))) (\<lambda>(reserveDataBefore, userDataBefore, _).
     await (value_option S reserve sendValue) (\<lambda>txOptions.
     let lendingPool = connect (s_pool env) (signer sender);
         args = [VStr reserve, VNum amountToDeposit, VStr onBehalfOf, VStr ''0'', txOptions]
     in
     if expectedResult = ''success'' then
       await (transact S lendingPool ''deposit'' args) (\<lambda>txResult.
       await (sturdy_getContractsData S reserve onBehalfOf env (Some (signer_address sender))) (\<lambda>(reserveDataAfter, userDataAfter, _).
       await (getTxCostAndTimestamp S txResult) (\<lambda>(txCost, txTimestamp).
       await (lift_result (calcExpectedReserveDataAfterDeposit B (reservesParams S) (dec amountToDeposit)
                reserveDataBefore txTimestamp)) (\<lambda>expectedReserveData.
       let expectedUserReserveData = calcExpectedUserDataAfterDeposit B (ReservesConfig SturdyConfig)
             (dec amountToDeposit) reserveDataBefore expectedReserveData userDataBefore txTimestamp reserveSymbol in
       await (expect_reserve S reserveDataAfter expectedReserveData) (\<lambda>_.
       expect_user S userDataAfter expectedUserReserveData)))))
     else if expectedResult = ''revert'' then
       expect_rejection (waffle_reverted (suite_node S)) (send (suite_rt S) lendingPool ''deposit'' args)
     else return_io ()))))))"

text \<open>Through the Lido vault, with what a deposit into the pool is expected to leave.\<close>

definition sturdy_depositCollateral ::
    "('x, 'b) suite \<Rightarrow> string \<Rightarrow> string \<Rightarrow> SignerWithAddress option \<Rightarrow> tEthereumAddress \<Rightarrow> string option \<Rightarrow> string
     \<Rightarrow> SturdyTestEnv \<Rightarrow> string option \<Rightarrow> ('x, unit) io" where
  "sturdy_depositCollateral S reserveSymbol amount sender onBehalfOf sendValue expectedResult env revertMessage =
     (let B = suite_bn S in
     await (sturdy_getReserveAddressFromSymbol S reserveSymbol) (\<lambda>reserve.
     await (convertToCurrencyDecimals S reserve amount) (\<lambda>amountToDeposit.
     await (lift_result (deref sender)) (\<lambda>sender.
     await (sturdy_getContractsData S reserve onBehalfOf env (Some (signer_address sender))) (\<lambda>(reserveDataBefore, userDataBefore, _).
     await (value_option S reserve sendValue) (\<lambda>txOptions.
     let vault = connect (s_lidoVault env) (signer sender);
         args = [VStr reserve, VNum amountToDeposit, txOptions]
     in
     if expectedResult = ''success'' then
       await (transact S vault ''depositCollateral'' args) (\<lambda>txResult.
       await (sturdy_getContractsData S reserve onBehalfOf env (Some (signer_address sender))) (\<lambda>(reserveDataAfter, userDataAfter, _).
       await (getTxCostAndTimestamp S txResult) (\<lambda>(txCost, txTimestamp).
       await (lift_result (calcExpectedReserveDataAfterDeposit B (reservesParams S) (dec amountToDeposit)
                reserveDataBefore txTimestamp)) (\<lambda>expectedReserveData.
       let expectedUserReserveData = calcExpectedUserDataAfterDeposit B (ReservesConfig SturdyConfig)
             (dec amountToDeposit) reserveDataBefore expectedReserveData userDataBefore txTimestamp reserveSymbol in
       await (expect_reserve S reserveDataAfter expectedReserveData) (\<lambda>_.
       expect_user S userDataAfter expectedUserReserveData)))))
     else if expectedResult = ''revert'' then
       expect_rejection (waffle_reverted (suite_node S)) (send (suite_rt S) vault ''depositCollateral'' args)
     else return_io ()))))))"

definition sturdy_withdraw ::
    "('x, 'b) suite \<Rightarrow> string \<Rightarrow> string \<Rightarrow> SignerWithAddress option \<Rightarrow> string \<Rightarrow> SturdyTestEnv \<Rightarrow> string option
     \<Rightarrow> ('x, unit) io" where
  "sturdy_withdraw S reserveSymbol amount user expectedResult env revertMessage =
     (let B = suite_bn S in
     await (lift_result (deref user)) (\<lambda>user.
     await (sturdy_getDataBeforeAction S reserveSymbol (signer_address user) env) (\<lambda>(reserve, reserveDataBefore, userDataBefore, _).
     await (amount_or_max S reserve amount) (\<lambda>amountToWithdraw.
     let lendingPool = connect (s_pool env) (signer user);
         args = [VStr reserve, VStr amountToWithdraw, VStr (signer_address user)]
     in
     if expectedResult = ''success'' then
       await (transact S lendingPool ''withdraw'' args) (\<lambda>txResult.
       await (sturdy_getContractsData S reserve (signer_address user) env None) (\<lambda>(reserveDataAfter, userDataAfter, _).
       await (getTxCostAndTimestamp S txResult) (\<lambda>(txCost, txTimestamp).
       await (lift_result (calcExpectedReserveDataAfterWithdraw B (reservesParams S) amountToWithdraw
                reserveDataBefore userDataBefore txTimestamp)) (\<lambda>expectedReserveData.
       let expectedUserData = calcExpectedUserDataAfterWithdraw B amountToWithdraw reserveDataBefore
             expectedReserveData userDataBefore txTimestamp in
       await (expect_reserve S reserveDataAfter expectedReserveData) (\<lambda>_.
       expect_user S userDataAfter expectedUserData)))))
     else if expectedResult = ''revert'' then
       expect_rejection (waffle_reverted (suite_node S)) (send (suite_rt S) lendingPool ''withdraw'' args)
     else return_io ()))))"

definition sturdy_withdrawCollateral ::
    "('x, 'b) suite \<Rightarrow> string \<Rightarrow> string \<Rightarrow> SignerWithAddress option \<Rightarrow> string \<Rightarrow> SturdyTestEnv \<Rightarrow> string option
     \<Rightarrow> ('x, unit) io" where
  "sturdy_withdrawCollateral S reserveSymbol amount user expectedResult env revertMessage =
     (let B = suite_bn S in
     await (lift_result (deref user)) (\<lambda>user.
     await (sturdy_getDataBeforeAction S reserveSymbol (signer_address user) env) (\<lambda>(reserve, reserveDataBefore, userDataBefore, _).
     await (amount_or_max S reserve amount) (\<lambda>amountToWithdraw.
     let vault = connect (s_lidoVault env) (signer user);
         args = [VStr reserve, VStr amountToWithdraw, VStr (signer_address user)]
     in
     if expectedResult = ''success'' then
       await (transact S vault ''withdrawCollateral'' args) (\<lambda>txResult.
       await (sturdy_getContractsData S reserve (signer_address user) env None) (\<lambda>(reserveDataAfter, userDataAfter, _).
       await (getTxCostAndTimestamp S txResult) (\<lambda>(txCost, txTimestamp).
       await (lift_result (calcExpectedReserveDataAfterWithdraw B (reservesParams S) amountToWithdraw
                reserveDataBefore userDataBefore txTimestamp)) (\<lambda>expectedReserveData.
       let expectedUserData = calcExpectedUserDataAfterWithdraw B amountToWithdraw reserveDataBefore
             expectedReserveData userDataBefore txTimestamp in
       await (expect_reserve S reserveDataAfter expectedReserveData) (\<lambda>_.
       expect_user S userDataAfter expectedUserData)))))
     else if expectedResult = ''revert'' then
       expect_rejection (waffle_reverted (suite_node S)) (send (suite_rt S) vault ''withdrawCollateral'' args)
     else return_io ()))))"

section \<open>Borrowing, repaying and collateral\<close>

definition sturdy_delegateBorrowAllowance ::
    "('x, 'b) suite \<Rightarrow> string \<Rightarrow> string \<Rightarrow> string \<Rightarrow> SignerWithAddress option \<Rightarrow> tEthereumAddress \<Rightarrow> string
     \<Rightarrow> SturdyTestEnv \<Rightarrow> string option \<Rightarrow> ('x, unit) io" where
  "sturdy_delegateBorrowAllowance S reserve amount interestRateMode user receiver expectedResult env revertMessage =
     (let rt = suite_rt S in
     await (sturdy_getReserveAddressFromSymbol S reserve) (\<lambda>reserveAddress.
     await (convertToCurrencyDecimals S reserveAddress amount) (\<lambda>n.
     let amountToDelegate = dec n in
     await (call rt (s_pool env) ''getReserveData'' [VStr reserveAddress]) (\<lambda>reserveData.
     await (if interestRateMode = ''1''
            then await (lift_result (js_field reserveData ''stableDebtTokenAddress'')) (\<lambda>a. getStableDebtToken rt (opt_string a))
            else await (lift_result (js_field reserveData ''variableDebtTokenAddress'')) (\<lambda>a. getVariableDebtToken rt (opt_string a)))
       (\<lambda>debtToken.
     await (lift_result (deref user)) (\<lambda>user.
     let delegator = connect debtToken (signer user);
         args = [VStr receiver, VStr amountToDelegate]
     in
     if expectedResult = ''revert'' \<and> truthy_string revertMessage then
       expect_rejection (waffle_revertedWith (suite_node S) (the revertMessage)) (send rt delegator ''approveDelegation'' args)
     else
       await (transact S delegator ''approveDelegation'' args) (\<lambda>_.
       await (call rt debtToken ''borrowAllowance'' [VStr (signer_address user), VStr receiver]) (\<lambda>v.
       await (lift_result (js_toString v)) (\<lambda>allowance.
       lift_result (assert_that (allowance = amountToDelegate) ''borrowAllowance is set incorrectly''))))))))))"

definition sturdy_borrow ::
    "('x, 'b) suite \<Rightarrow> string \<Rightarrow> string \<Rightarrow> string \<Rightarrow> SignerWithAddress option \<Rightarrow> tEthereumAddress \<Rightarrow> string option
     \<Rightarrow> string \<Rightarrow> SturdyTestEnv \<Rightarrow> string option \<Rightarrow> ('x, unit) io" where
  "sturdy_borrow S reserveSymbol amount interestRateMode user onBehalfOf timeTravel expectedResult env revertMessage =
     (let B = suite_bn S in
     await (sturdy_getReserveAddressFromSymbol S reserveSymbol) (\<lambda>reserve.
     await (lift_result (deref user)) (\<lambda>user.
     await (sturdy_getContractsData S reserve onBehalfOf env (Some (signer_address user))) (\<lambda>(reserveDataBefore, userDataBefore, _).
     await (convertToCurrencyDecimals S reserve amount) (\<lambda>amountToBorrow.
     let lendingPool = connect (s_pool env) (signer user);
         args = [VStr reserve, VNum amountToBorrow, VStr interestRateMode, VStr ''0'', VStr onBehalfOf]
     in
     if expectedResult = ''success'' then
       await (transact S lendingPool ''borrow'' args) (\<lambda>txResult.
       await (getTxCostAndTimestamp S txResult) (\<lambda>(txCost, txTimestamp).
       await (if truthy_string timeTravel
              then advanceTimeAndBlock S
                     (bn_toNumber B (bn_div B (bn_times B (bn_parse B (the timeTravel)) (bn_of B ONE_YEAR)) (bn_of B 365)))
              else return_io ()) (\<lambda>_.
       await (sturdy_getContractsData S reserve onBehalfOf env (Some (signer_address user))) (\<lambda>(reserveDataAfter, userDataAfter, timestamp).
       await (lift_result (calcExpectedReserveDataAfterBorrow B (reservesParams S) (dec amountToBorrow) interestRateMode
                reserveDataBefore userDataBefore txTimestamp timestamp)) (\<lambda>expectedReserveData.
       let expectedUserData = calcExpectedUserDataAfterBorrow B (dec amountToBorrow) interestRateMode reserveDataBefore
             expectedReserveData userDataBefore txTimestamp timestamp in
       await (expect_reserve S reserveDataAfter expectedReserveData) (\<lambda>_.
       expect_user S userDataAfter expectedUserData))))))
     else if expectedResult = ''revert'' then
       expect_rejection (waffle_reverted (suite_node S)) (send (suite_rt S) lendingPool ''borrow'' args)
     else return_io ())))))"

definition sturdy_repay ::
    "('x, 'b) suite \<Rightarrow> string \<Rightarrow> string \<Rightarrow> string \<Rightarrow> SignerWithAddress option \<Rightarrow> SignerWithAddress option
     \<Rightarrow> string option \<Rightarrow> string \<Rightarrow> SturdyTestEnv \<Rightarrow> string option \<Rightarrow> ('x, unit) io" where
  "sturdy_repay S reserveSymbol amount rateMode user onBehalfOf sendValue expectedResult env revertMessage =
     (let B = suite_bn S in
     await (sturdy_getReserveAddressFromSymbol S reserveSymbol) (\<lambda>reserve.
     await (lift_result (deref onBehalfOf)) (\<lambda>onBehalfOf.
     await (sturdy_getContractsData S reserve (signer_address onBehalfOf) env None) (\<lambda>(reserveDataBefore, userDataBefore, _).
     await (amount_or_max S reserve amount) (\<lambda>decimalAmount.
     let amountToRepay = hex_amount B decimalAmount in
     await (if truthy_string sendValue
            then await (convertToCurrencyDecimals S reserve (the sendValue)) (\<lambda>n.
                 return_io (tx_options (Some (VStr (hex_amount B (dec n))))))
            else return_io (tx_options None)) (\<lambda>txOptions.
     let args = [VStr reserve, VStr amountToRepay, VStr rateMode, VStr (signer_address onBehalfOf), txOptions] in
     if expectedResult = ''success'' then
       await (lift_result (deref user)) (\<lambda>user.
       await (transact S (connect (s_pool env) (signer user)) ''repay'' args) (\<lambda>txResult.
       await (getTxCostAndTimestamp S txResult) (\<lambda>(txCost, txTimestamp).
       await (sturdy_getContractsData S reserve (signer_address onBehalfOf) env None) (\<lambda>(reserveDataAfter, userDataAfter, timestamp).
       await (lift_result (calcExpectedReserveDataAfterRepay B (reservesParams S) amountToRepay rateMode
                reserveDataBefore userDataBefore txTimestamp timestamp)) (\<lambda>expectedReserveData.
       let expectedUserData = calcExpectedUserDataAfterRepay B amountToRepay rateMode reserveDataBefore
             expectedReserveData userDataBefore (signer_address user) (signer_address onBehalfOf) txTimestamp timestamp in
       await (expect_reserve S reserveDataAfter expectedReserveData) (\<lambda>_.
       expect_user S userDataAfter expectedUserData))))))
     else if expectedResult = ''revert'' then
       await (lift_result (deref user)) (\<lambda>user.
       expect_rejection (waffle_reverted (suite_node S)) (send (suite_rt S) (connect (s_pool env) (signer user)) ''repay'' args))
     else return_io ()))))))"

definition sturdy_setUseAsCollateral ::
    "('x, 'b) suite \<Rightarrow> string \<Rightarrow> SignerWithAddress option \<Rightarrow> string \<Rightarrow> string \<Rightarrow> SturdyTestEnv \<Rightarrow> string option
     \<Rightarrow> ('x, unit) io" where
  "sturdy_setUseAsCollateral S reserveSymbol user useAsCollateral expectedResult env revertMessage =
     await (sturdy_getReserveAddressFromSymbol S reserveSymbol) (\<lambda>reserve.
     await (lift_result (deref user)) (\<lambda>user.
     await (sturdy_getContractsData S reserve (signer_address user) env None) (\<lambda>(reserveDataBefore, userDataBefore, _).
     let useAsCollateralBool = (toLowerCase useAsCollateral = ''true'');
         lendingPool = connect (s_pool env) (signer user);
         args = [VStr reserve, VBool useAsCollateralBool]
     in
     if expectedResult = ''success'' then
       await (transact S lendingPool ''setUserUseReserveAsCollateral'' args) (\<lambda>txResult.
       await (getTxCostAndTimestamp S txResult) (\<lambda>(txCost, _).
       await (sturdy_getContractsData S reserve (signer_address user) env None) (\<lambda>(_, userDataAfter, _).
       let expectedUserData = calcExpectedUserDataAfterSetUseAsCollateral useAsCollateralBool userDataBefore in
       expect_user S userDataAfter expectedUserData)))
     else if expectedResult = ''revert'' then
       expect_rejection (waffle_reverted (suite_node S))
         (send (suite_rt S) lendingPool ''setUserUseReserveAsCollateral'' args)
     else return_io ())))"

section \<open>The engine\<close>

definition sturdy_dispatchAction ::
    "('x, 'b) suite \<Rightarrow> string \<Rightarrow> string obj \<Rightarrow> string \<Rightarrow> string \<Rightarrow> SignerWithAddress option \<Rightarrow> string
     \<Rightarrow> string option \<Rightarrow> SignerWithAddress list \<Rightarrow> SturdyTestEnv \<Rightarrow> ('x, unit) io" where
  "sturdy_dispatchAction S name args reserve rateMode user expected revertMessage us env =
     (let amount = obj_get args ''amount'';
          sendValue = obj_get args ''sendValue'';
          onBehalfOfIndex = obj_get args ''onBehalfOf''
      in
      if name = ''mint'' then
        await (lift_result (require_arg amount (''Invalid amount of '' @ reserve @ '' to mint''))) (\<lambda>amount.
        sturdy_mint S reserve amount user env)
      else if name = ''approve'' then sturdy_approve S reserve user env
      else if name = ''approveVault'' then sturdy_approveVault S reserve user env
      else if name = ''depositCollateral'' then
        await (lift_result (address_of_user us user onBehalfOfIndex)) (\<lambda>onBehalfOf.
        await (lift_result (require_arg amount (''Invalid amount to deposit into the '' @ reserve @ '' reserve''))) (\<lambda>amount.
        sturdy_depositCollateral S reserve amount user onBehalfOf sendValue expected env revertMessage))
      else if name = ''deposit'' then
        await (lift_result (address_of_user us user onBehalfOfIndex)) (\<lambda>onBehalfOf.
        await (lift_result (require_arg amount (''Invalid amount to deposit into the '' @ reserve @ '' reserve''))) (\<lambda>amount.
        sturdy_deposit S reserve amount user onBehalfOf sendValue expected env revertMessage))
      else if name = ''delegateBorrowAllowance'' then
        let toUserIndex = (case obj_get args ''toUser'' of None \<Rightarrow> ''undefined'' | Some i \<Rightarrow> i) in
        await (lift_result (deref (user_at us (parseInt10 toUserIndex)))) (\<lambda>toUser.
        await (lift_result (require_arg amount (''Invalid amount to deposit into the '' @ reserve @ '' reserve''))) (\<lambda>amount.
        sturdy_delegateBorrowAllowance S reserve amount rateMode user (signer_address toUser) expected env revertMessage))
      else if name = ''withdraw'' then
        await (lift_result (require_arg amount (''Invalid amount to withdraw from the '' @ reserve @ '' reserve''))) (\<lambda>amount.
        sturdy_withdraw S reserve amount user expected env revertMessage)
      else if name = ''withdrawCollateral'' then
        await (lift_result (require_arg amount (''Invalid amount to withdraw from the '' @ reserve @ '' reserve''))) (\<lambda>amount.
        sturdy_withdrawCollateral S reserve amount user expected env revertMessage)
      else if name = ''borrow'' then
        await (lift_result (address_of_user us user onBehalfOfIndex)) (\<lambda>onBehalfOf.
        await (lift_result (require_arg amount (''Invalid amount to borrow from the '' @ reserve @ '' reserve''))) (\<lambda>amount.
        sturdy_borrow S reserve amount rateMode user onBehalfOf (obj_get args ''timeTravel'') expected env revertMessage))
      else if name = ''repay'' then
        await (lift_result (require_arg amount (''Invalid amount to repay into the '' @ reserve @ '' reserve''))) (\<lambda>amount.
        let userToRepayOnBehalf =
              (if truthy_string onBehalfOfIndex then user_at us (parseInt (the onBehalfOfIndex)) else user) in
        sturdy_repay S reserve amount rateMode user userToRepayOnBehalf sendValue expected env revertMessage)
      else if name = ''setUseAsCollateral'' then
        await (lift_result (require_arg (obj_get args ''useAsCollateral'')
          (''A valid value for useAsCollateral needs to be set when calling setUseReserveAsCollateral on reserve '' @ reserve)))
          (\<lambda>useAsCollateral.
        sturdy_setUseAsCollateral S reserve user useAsCollateral expected env revertMessage)
      else throw_io (Thrown (''Invalid action requested: '' @ name)))"

definition sturdy_executeAction ::
    "('x, 'b) suite \<Rightarrow> Action \<Rightarrow> SignerWithAddress list \<Rightarrow> SturdyTestEnv \<Rightarrow> ('x, unit) io" where
  "sturdy_executeAction S act us env =
     await (lift_result (check_action act)) (\<lambda>(args, name, reserve, userIndex, expected).
     let rateMode = rate_mode_of (obj_get args ''borrowRateMode'');
         user = user_at us (parseInt userIndex)
     in sturdy_dispatchAction S name args reserve rateMode user expected (action_revertMessage act) us env)"

definition sturdy_executeStory :: "('x, 'b) suite \<Rightarrow> Story \<Rightarrow> SturdyTestEnv \<Rightarrow> ('x, unit) io" where
  "sturdy_executeStory S story env = for_each (\<lambda>act. sturdy_executeAction S act (s_users env) env) (story_actions story)"

section \<open>The transactions of the engine\<close>

context suite_log
begin

lemma silent_sturdy_reads:
  "silent (sturdy_getReserveAddressFromSymbol S reserveSymbol)" "silent (sturdy_getUserData S helper reserve u sender)"
  unfolding sturdy_getReserveAddressFromSymbol_def sturdy_getUserData_def Let_def
  by (intro suite_rules silent_reads)+

lemma silent_sturdy_data:
  "silent (sturdy_getContractsData S reserve u env sender)" "silent (sturdy_getDataBeforeAction S reserveSymbol u env)"
  unfolding sturdy_getDataBeforeAction_def sturdy_getContractsData_def
  by (auto intro!: suite_rules silent_reads silent_sturdy_reads)

lemmas sturdy_silent = silent_sturdy_reads silent_sturdy_data

lemma sturdy_pool_logs:
  "logs (sturdy_deposit S reserveSymbol amount user onBehalfOf sendValue expected env msg)
     (\<lambda>_. passed_log user ''deposit'' (expected = ''success'')) (failed_log user ''deposit'') w"
  "logs (sturdy_depositCollateral S reserveSymbol amount user onBehalfOf sendValue expected env msg)
     (\<lambda>_. passed_log user ''depositCollateral'' (expected = ''success'')) (failed_log user ''depositCollateral'') w"
  "logs (sturdy_withdraw S reserveSymbol amount user expected env msg)
     (\<lambda>_. passed_log user ''withdraw'' (expected = ''success'')) (failed_log user ''withdraw'') w"
  "logs (sturdy_withdrawCollateral S reserveSymbol amount user expected env msg)
     (\<lambda>_. passed_log user ''withdrawCollateral'' (expected = ''success'')) (failed_log user ''withdrawCollateral'') w"
  "logs (sturdy_borrow S reserveSymbol amount mode user onBehalfOf timeTravel expected env msg)
     (\<lambda>_. passed_log user ''borrow'' (expected = ''success'')) (failed_log user ''borrow'') w"
  "logs (sturdy_setUseAsCollateral S reserveSymbol user flag expected env msg)
     (\<lambda>_. passed_log user ''setUserUseReserveAsCollateral'' (expected = ''success''))
     (failed_log user ''setUserUseReserveAsCollateral'') w"
  unfolding sturdy_deposit_def sturdy_depositCollateral_def sturdy_withdraw_def sturdy_withdrawCollateral_def sturdy_borrow_def
    sturdy_setUseAsCollateral_def Let_def
  by (intro expectation_logs skip_user skip logs_prod checks_silent sturdy_silent; assumption)+

lemma sturdy_repay_logs:
  "logs (sturdy_repay S reserveSymbol amount mode user onBehalfOf sendValue expected env msg)
     (\<lambda>_. passed_log user ''repay'' (expected = ''success'')) (failed_log user ''repay'') w"
  unfolding sturdy_repay_def Let_def
  by (rule skip, intro sturdy_silent, rule skip, intro checks_silent, rule skip, intro sturdy_silent,
      rule logs_prod, rule logs_prod, rule skip, intro checks_silent, rule skip, intro checks_silent)
    (auto intro!: skip_user sends_logs rejection_logs logs_return checks_silent sturdy_silent simp: log_simps)

lemma sturdy_delegate_logs:
  "logs (sturdy_delegateBorrowAllowance S reserve amount mode user receiver expected env msg)
     (\<lambda>_. passed_log user ''approveDelegation'' (\<not> (expected = ''revert'' \<and> truthy_string msg)))
     (failed_log user ''approveDelegation'') w"
  unfolding sturdy_delegateBorrowAllowance_def Let_def
  by (intro skip_user skip checks_silent suite_rules sturdy_silent)
    (auto intro!: sends_logs rejection_logs suite_rules)

lemma sturdy_funding_logs:
  "logs (sturdy_mint S reserveSymbol amount user env) (\<lambda>_. passed_log user ''transfer'' True) (failed_log user ''transfer'') w"
  "logs (sturdy_approve S reserveSymbol user env) (\<lambda>_. passed_log user ''approve'' True) (failed_log user ''approve'') w"
  "logs (sturdy_approveVault S reserveSymbol user env) (\<lambda>_. passed_log user ''approve'' True) (failed_log user ''approve'') w"
proof -
  show "logs (sturdy_mint S reserveSymbol amount user env) (\<lambda>_. passed_log user ''transfer'' True) (failed_log user ''transfer'') w"
    unfolding sturdy_mint_def impersonateAccountsHardhat_def Let_def split_beta
    by (intro skip silent_simple silent_reads silent_if silent_for_each silent_network signers_log
        logs_transact_then) (auto simp: log_simps)
  show "logs (sturdy_approve S reserveSymbol user env) (\<lambda>_. passed_log user ''approve'' True) (failed_log user ''approve'') w"
    unfolding sturdy_approve_def by (intro sends_logs skip_user skip suite_rules sturdy_silent)
  show "logs (sturdy_approveVault S reserveSymbol user env) (\<lambda>_. passed_log user ''approve'' True) (failed_log user ''approve'') w"
    unfolding sturdy_approveVault_def by (intro sends_logs skip_user skip suite_rules sturdy_silent)
qed

lemma sturdy_dispatch_logs:
  "logs (sturdy_dispatchAction S name args reserve rateMode user expected msg us env)
     (\<lambda>_. passed_log user (action_method name) (sends_on_pass name expected msg))
     (failed_log user (action_method name)) w"
proof -
  note branch = sturdy_dispatchAction_def Let_def action_method_def sends_on_pass_def
  show ?thesis
  proof (cases "name \<in> set action_names")
    case True
    then show ?thesis
      unfolding action_names_def list.set
      by (elim insertE emptyE; simp add: branch split del: if_split;
          intro skip_lift sturdy_funding_logs sturdy_pool_logs sturdy_repay_logs sturdy_delegate_logs [simplified])
  next
    case False
    then show ?thesis
      by (simp add: branch action_names_def) (rule logs_value [OF silent_simple(2)], simp_all add: throw_io_def log_simps)
  qed
qed

end


end
