(* ===== verification/Spec2Isabelle.thy ===== *)
theory Spec2Isabelle
  imports ScenarioRuns MissingVaults CollateralRuns SturdySuite
begin

text \<open>
  Verification of the TypeScript of Sturdy's lending protocol: the scripts that configure, deploy, verify
  and change a market, and the scenario suites that compare what the contracts do with what they are
  expected to do. Where the suites restate arithmetic of the contracts, the Solidity is modelled beside it
  on 256-bit words.

  \<^bold>\<open>The program.\<close> A market (\<^verbatim>\<open>markets/sturdy\<close>, \<^verbatim>\<open>markets/ftm\<close>) is a configuration object, chosen by name.
  Deployment functions (\<^verbatim>\<open>helpers/contracts-deployments.ts\<close>) create contracts through ethers, record their
  addresses in a JSON database and, for vaults and other proxied contracts, set the implementation at the
  addresses provider, which creates or upgrades the proxy. Getters (\<^verbatim>\<open>helpers/contracts-getters.ts\<close>) attach
  to what the database records. Tasks (\<^verbatim>\<open>tasks\<close>) compose deployments, getters and configuration; migrations
  run tasks in order. The scenario engine (\<^verbatim>\<open>test-suites/test-ftm/helpers\<close>) executes the actions of JSON
  stories: it reads a reserve's and a user's state, sends the transaction, reads the state again and compares it
  with the one \<^verbatim>\<open>calculations.ts\<close> computes.

  \<^bold>\<open>Theories and sources.\<close>

  \<^item> \<^theory_text>\<open>Prelude\<close>, \<^theory_text>\<open>MiscUtils\<close>, \<^theory_text>\<open>ConfigTypes\<close>, \<^theory_text>\<open>Runtime\<close>: JavaScript's errors as values of a sum, its
    objects as insertion-ordered association lists, the pure helpers of \<^verbatim>\<open>misc-utils.ts\<close>, the enumerations of
    \<^verbatim>\<open>types.ts\<close> with \<open>getParamPerNetwork\<close>, and the state the scripts pass: an abstract network state with the
    deployment database. An \<open>async\<close> function is a function from that state to a result and the next state, so
    what happened before an error stays; \<open>await\<close> is sequencing.
  \<^item> \<^theory_text>\<open>Etherscan\<close>, \<^theory_text>\<open>ContractsHelpers\<close>, \<^theory_text>\<open>Getters\<close>, \<^theory_text>\<open>Deployments\<close>, \<^theory_text>\<open>VaultDeployments\<close>, \<^theory_text>\<open>Configuration\<close>,
    \<^theory_text>\<open>OraclesHelpers\<close>, \<^theory_text>\<open>InitHelpers\<close>: the files of \<^verbatim>\<open>helpers\<close>, one definition per function.
  \<^item> \<^theory_text>\<open>PoolConfig\<close>, \<^theory_text>\<open>MarketSturdy\<close>, \<^theory_text>\<open>MarketFantom\<close>, \<^theory_text>\<open>Markets\<close>: the two configurations, value for value, and
    their selection.
  \<^item> \<^theory_text>\<open>Tasks\<close>, \<^theory_text>\<open>TaskVaults\<close>, \<^theory_text>\<open>TaskVerification\<close>, \<^theory_text>\<open>Migrations\<close>, \<^theory_text>\<open>TestnetTasks\<close>, \<^theory_text>\<open>AssetTasks\<close>: the tasks of
    \<^verbatim>\<open>tasks/full\<close>, \<^verbatim>\<open>tasks/verifications\<close>, \<^verbatim>\<open>tasks/migrations\<close>, \<^verbatim>\<open>tasks/testnet\<close>, \<^verbatim>\<open>tasks/helpers\<close> and
    \<^verbatim>\<open>tasks/misc\<close>. A task's handler is one definition with its guards, its \<open>try\<close>/\<open>catch\<close> and its exits; the
    boolean argument is the \<open>--verify\<close> flag.
  \<^item> \<^theory_text>\<open>BigNumber\<close>, \<^theory_text>\<open>RayMath\<close>, \<^theory_text>\<open>SolMath\<close>, \<^theory_text>\<open>Interest\<close>, \<^theory_text>\<open>Rates\<close>, \<^theory_text>\<open>Accrual\<close>: the decimal package as a
    parameter with its documented laws, \<^verbatim>\<open>utils/math.ts\<close>, and \<^verbatim>\<open>WadRayMath.sol\<close>, \<^verbatim>\<open>PercentageMath.sol\<close>,
    \<^verbatim>\<open>MathUtils.sol\<close>, \<^verbatim>\<open>DefaultReserveInterestRateStrategy.sol\<close> and the index logic of \<^verbatim>\<open>ReserveLogic.sol\<close> beside
    the functions of \<^verbatim>\<open>calculations.ts\<close> that restate them.
  \<^item> \<^theory_text>\<open>ReserveCalc\<close>, \<^theory_text>\<open>UserCalc\<close>, \<^theory_text>\<open>Scenarios\<close>: the expected reserve and user position after each action, and
    properties of whole actions.
  \<^item> \<^theory_text>\<open>Suite\<close>, \<^theory_text>\<open>SuiteHelpers\<close>, \<^theory_text>\<open>ActionChecks\<close>, \<^theory_text>\<open>Actions\<close>, \<^theory_text>\<open>ScenarioEngine\<close>, \<^theory_text>\<open>ScenarioFiles\<close>: the suites'
    environment, reading and comparing states, \<^verbatim>\<open>actions.ts\<close>, \<^verbatim>\<open>scenario-engine.ts\<close> and the ten JSON files of
    the Fantom suite; \<^theory_text>\<open>SturdySuite\<close>: the actions and the engine of the Sturdy suite.
  \<^item> \<^theory_text>\<open>Chain\<close>: \<^verbatim>\<open>LendingPoolAddressesProvider.sol\<close> and the proxies it creates, as a network the deployment
    scripts run on.
\<close>

text \<open>
  \<^bold>\<open>What is proved.\<close>

  \<^item> \<^emph>\<open>Arithmetic\<close> (\<^theory_text>\<open>SolMath\<close>, \<^theory_text>\<open>Interest\<close>, \<^theory_text>\<open>Rates\<close>, \<^theory_text>\<open>Accrual\<close>): the suites' ray arithmetic, interest,
    rates, indexes and normalized values are those of the contracts wherever the contract returns, and
    exactly where they differ (the rates below the optimum, the borrow index without income).
  \<^item> \<^emph>\<open>Expected values\<close> (\<^theory_text>\<open>Scenarios\<close>): clearing a position, round trips, totals that add up, debts that are
    conserved and never negative, and the deposit that leaves the accrued interest out of its total.
  \<^item> \<^emph>\<open>Suites\<close> (\<^theory_text>\<open>ScenarioRuns\<close>, \<^theory_text>\<open>SuiteLog\<close>): what a passing comparison means, which transactions an action
    sends, and what follows for the contracts from a step that passes.
  \<^item> \<^emph>\<open>Deployment\<close> (\<^theory_text>\<open>DeploymentFacts\<close>, \<^theory_text>\<open>Registry\<close>, \<^theory_text>\<open>VaultFacts\<close>, \<^theory_text>\<open>VaultRuns\<close>, \<^theory_text>\<open>VaultProperties\<close>,
    \<^theory_text>\<open>DeploymentState\<close>, \<^theory_text>\<open>Agreement\<close>): what a deployment records is what its getter finds; a vault deployment
    leaves its proxy, its implementation and its configured entries at the provider, succeeds under stated
    conditions, and otherwise changes nothing but what is said; the database and the provider agree in every
    state that the scripts reach, as a state machine whose steps may fail anywhere.
  \<^item> \<^emph>\<open>Transactions\<close> (\<^theory_text>\<open>Transactions\<close>, \<^theory_text>\<open>ReserveTransactions\<close>, \<^theory_text>\<open>ReserveInit\<close>, \<^theory_text>\<open>CollateralRuns\<close>): the exact
    lists of transactions that configuring and initialising reserves, setting rates and adding collateral send,
    with the prefixes a failed run leaves.
  \<^item> \<^emph>\<open>Tasks\<close> (\<^theory_text>\<open>TaskRuns\<close>, \<^theory_text>\<open>MigrationRuns\<close>, \<^theory_text>\<open>MissingVaults\<close>, \<^theory_text>\<open>TestnetRuns\<close>): both market migrations return
    on a network that accepts what it is sent, from any database; why the order of their tasks matters; and
    that the testnet migrations never return.

  \<^bold>\<open>Interfaces.\<close> \<open>bignumber\<close> and \<open>bignumber_int\<close> are the decimal package's laws, interpreted on two executable
  instances; \<open>addresses_registry\<close> is what a vault deployment needs of the provider, interpreted on the model of
  the Solidity; \<open>transaction_log\<close> and \<open>suite_log\<close> are a log of accepted transactions, interpreted on any runtime
  or suite with the log added; \<open>cooperative\<close>, \<open>market\<close>, \<open>fantom_market\<close> and \<open>sturdy_market\<close> are a network that
  answers and a market deployed on it, interpreted on a network that accepts everything. The client lemmas
  are proved inside the interfaces and used through these interpretations.

  \<^bold>\<open>Parameters.\<close> The Hardhat runtime, ethers, the network and the contracts behind them are the records
  \<open>runtime\<close>, \<open>hre\<close>, \<open>node\<close> and \<open>suite\<close> of functions over an abstract state; the package \<^verbatim>\<open>bignumber.js\<close> is the record
  \<open>bn_api\<close>. No hypothesis on them is made except in the statements that name it.

  \<^bold>\<open>Bounds and termination.\<close> No definition uses fuel: loops are recursions over lists or over the number of
  attempts (\<open>runTaskWithRetry\<close>), and every definition is total. Contract numbers are 256-bit words with the
  checks the contracts make; the agreement theorems say where the word computation returns. The comparison of
  states allows three units, as the code does.

  \<^bold>\<open>Not modelled.\<close>

  \<^item> Console output, delays, gas options and the Tenderly links that are printed with an error. What is only
    printed but must be read from the network is read.
  \<^item> The interleaving of \<open>Promise.all\<close>: its calls are made in order. A call that is not awaited is made where it
    is written.
  \<^item> Identity of objects: where modules compare objects with \<open>===\<close>, their values are compared. Methods called on an
    undefined number other than through the branches written out.
  \<^item> Identifiers with dots in the database, which would nest; the identifiers of the repository have none.
  \<^item> Contracts other than the provider and its proxies: in \<^theory_text>\<open>Chain\<close> they accept every call. The minting to the
    treasury, the overload of the strategy contract that reads a balance, the provider's market id and the transfer
    of its ownership.
  \<^item> The Mocha specifications (\<^verbatim>\<open>*.spec.ts\<close>) and the deployment of the suites' environment
    (\<^verbatim>\<open>__setup.spec.ts\<close>, \<^verbatim>\<open>make-suite.ts\<close> beyond its records): they are calls of the modelled helpers and assertions
    about contracts that are not modelled. The calculations, the reserve reader and the comparison of
    \<^verbatim>\<open>test-suites/test-sturdy\<close> have the text of \<^verbatim>\<open>test-suites/test-ftm\<close> and are not repeated; its JSON scenarios
    are not modelled.
  \<^item> The ABI encoders (\<open>buildPermitParams\<close> and the adapter parameters), which only call ethers; the Hardhat
    configuration files; the code generated by typechain.
\<close>

end
